(* ===== verification/Prelude.thy ===== *)
theory Prelude
  imports Main "HOL-Library.List_Lexorder" "HOL-Library.Char_ord"
begin

text \<open>
  Shared vocabulary of the development: the \<open>Result\<close> type of
  \<open>libs/utils/src/linglong/utils/error\<close>, byte strings (\<open>QString\<close> and \<open>std::string\<close> values),
  splitting and joining, decimal numerals, and the generic list facts the component theories use.
  The collection \<open>result_simps\<close> holds the rewrite rules for error propagation and
  \<open>str_simps\<close> the rules for strings built from separators.
\<close>

named_theorems result_simps
named_theorems str_simps

section \<open>Results\<close>

text \<open>
  \<open>Error\<close> owns a chain of \<open>ErrorImpl\<close> objects: a code, a message and the cause that was wrapped.
  The source position (\<open>QMessageLogContext\<close>) that an \<open>ErrorImpl\<close> also stores depends on how the
  library is compiled and is left out. \<open>Result<T>\<close> is the sum of an error and a value.
\<close>

datatype error = ErrorImpl (err_code: int) (err_msg: string) (err_cause: "error option")

type_synonym 'a result = "error + 'a"

text \<open>\<open>Err(trace, msg, code)\<close>: a new error.\<close>

definition Err :: "string \<Rightarrow> string \<Rightarrow> int \<Rightarrow> error" where
  "Err trace m code = ErrorImpl code (trace @ '': '' @ m) None"

text \<open>\<open>Err(trace, cause)\<close>: wraps an error and keeps its code.\<close>

definition Err_wrap :: "string \<Rightarrow> error \<Rightarrow> error" where
  "Err_wrap trace e = ErrorImpl (err_code e) trace (Some e)"

text \<open>\<open>Err(trace, msg, cause)\<close>.\<close>

definition Err_wrap_msg :: "string \<Rightarrow> string \<Rightarrow> error \<Rightarrow> error" where
  "Err_wrap_msg trace m e = ErrorImpl (err_code e) (trace @ '': '' @ m) (Some e)"

text \<open>The pattern \<open>auto x = f(); if (!x) return LINGLONG_ERR(x); \<dots>\<close>.\<close>

definition try_wrap :: "string \<Rightarrow> 'a result \<Rightarrow> ('a \<Rightarrow> 'b result) \<Rightarrow> 'b result" where
  "try_wrap trace r f = (case r of Inl e \<Rightarrow> Inl (Err_wrap trace e) | Inr x \<Rightarrow> f x)"

definition is_ok :: "'a result \<Rightarrow> bool" where
  "is_ok r = (case r of Inl _ \<Rightarrow> False | Inr _ \<Rightarrow> True)"

lemma try_wrap_simps [simp]:
  "try_wrap t (Inl e) f = Inl (Err_wrap t e)"
  "try_wrap t (Inr x) f = f x"
  by (simp_all add: try_wrap_def)

lemma try_wrap_Inr_iff [result_simps]:
  "try_wrap t r f = Inr y \<longleftrightarrow> (\<exists>x. r = Inr x \<and> f x = Inr y)"
  by (cases r) auto

lemma is_ok_simps [simp]: "is_ok (Inl e) = False" "is_ok (Inr x) = True"
  by (simp_all add: is_ok_def)

lemma is_ok_iff [result_simps]: "is_ok r \<longleftrightarrow> (\<exists>x. r = Inr x)"
  by (cases r) auto

text \<open>Wrapping never changes the code, however often an error is passed up.\<close>

lemma err_code_wrap [simp]:
  "err_code (Err_wrap t e) = err_code e" "err_code (Err_wrap_msg t m e) = err_code e"
  "err_code (Err t m c) = c"
  by (simp_all add: Err_wrap_def Err_wrap_msg_def Err_def)

section \<open>Strings\<close>

text \<open>\<open>std::string::rfind(p, 0) == 0\<close> and \<open>QString::startsWith\<close>.\<close>

fun starts_with :: "string \<Rightarrow> string \<Rightarrow> bool" where
  "starts_with s [] = True"
| "starts_with [] (p # ps) = False"
| "starts_with (c # s) (p # ps) = (c = p \<and> starts_with s ps)"

lemma starts_with_iff [str_simps]: "starts_with s p \<longleftrightarrow> (\<exists>r. s = p @ r)"
  by (induction s p rule: starts_with.induct) auto

lemma starts_with_append [simp]: "starts_with (p @ r) p"
  by (auto simp: starts_with_iff)

text \<open>Splitting at a separator keeps empty parts, as \<open>QString::split\<close> does by default.\<close>

fun split_on :: "char \<Rightarrow> string \<Rightarrow> string list" where
  "split_on c [] = [[]]"
| "split_on c (x # xs) =
     (if x = c then [] # split_on c xs
      else (case split_on c xs of [] \<Rightarrow> [[x]] | p # ps \<Rightarrow> (x # p) # ps))"

fun join_with :: "char \<Rightarrow> string list \<Rightarrow> string" where
  "join_with c [] = []"
| "join_with c [p] = p"
| "join_with c (p # q # ps) = p @ c # join_with c (q # ps)"

text \<open>\<open>message\<close>: the texts of the chain on lines of their own (without the source positions).\<close>

fun error_chain :: "error \<Rightarrow> string list" where
  "error_chain (ErrorImpl c m None) = [m]"
| "error_chain (ErrorImpl c m (Some e)) = m # error_chain e"

definition err_message :: "error \<Rightarrow> string" where
  "err_message e = join_with (CHR 0x0A) (error_chain e)"

lemma split_on_neq_Nil [simp]: "split_on c s \<noteq> []"
  by (induction s) (auto split: list.splits)

lemma split_on_free: "c \<notin> set p \<Longrightarrow> split_on c p = [p]"
  by (induction p) auto

lemma split_on_append: "c \<notin> set p \<Longrightarrow> split_on c (p @ c # s) = p # split_on c s"
  by (induction p) auto

lemma split_join [str_simps]:
  assumes "ps \<noteq> []" and "\<forall>p \<in> set ps. c \<notin> set p"
  shows "split_on c (join_with c ps) = ps"
  using assms by (induction c ps rule: join_with.induct) (auto simp: split_on_free split_on_append)

lemma join_with_Cons: "ps \<noteq> [] \<Longrightarrow> join_with c (p # ps) = p @ c # join_with c ps"
  by (cases ps) auto

lemma join_with_Cons_head:
  "join_with c ((x # p) # ps) = x # join_with c (p # ps)"
  by (cases ps) auto

lemma join_split: "join_with c (split_on c s) = s"
proof (induction s)
  case Nil
  show ?case by simp
next
  case (Cons x s)
  obtain p ps where "split_on c s = p # ps"
    by (cases "split_on c s") auto
  with Cons show ?case by (auto simp: join_with_Cons_head)
qed

lemma split_on_parts_free: "p \<in> set (split_on c s) \<Longrightarrow> c \<notin> set p"
proof (induction s arbitrary: p)
  case Nil
  then show ?case by simp
next
  case (Cons x s)
  obtain q qs where "split_on c s = q # qs"
    by (cases "split_on c s") auto
  with Cons show ?case by (auto split: if_splits)
qed

section \<open>Decimal numerals\<close>

text \<open>\<open>digit\<close> and \<open>show_nat\<close> are what \<open>QString::number\<close> prints for non-negative values.\<close>

definition digit :: "nat \<Rightarrow> char" where
  "digit d = char_of (48 + d)"

definition is_digit :: "char \<Rightarrow> bool" where
  "is_digit c \<longleftrightarrow> 48 \<le> (of_char c :: nat) \<and> (of_char c :: nat) \<le> 57"

definition digit_val :: "char \<Rightarrow> nat" where
  "digit_val c = of_char c - 48"

fun show_nat :: "nat \<Rightarrow> string" where
  "show_nat n = (if n < 10 then [digit n] else show_nat (n div 10) @ [digit (n mod 10)])"

declare show_nat.simps [simp del]

definition show_int :: "int \<Rightarrow> string" where
  "show_int i = (if i < 0 then CHR ''-'' # show_nat (nat (- i)) else show_nat (nat i))"

text \<open>\<open>Err(trace, msg, GError)\<close>: the code stays \<open>-1\<close>, the code of the \<open>GError\<close> goes into the text.\<close>

definition Err_gerror :: "string \<Rightarrow> string \<Rightarrow> int \<times> string \<Rightarrow> error" where
  "Err_gerror trace m e =
     Err trace (m @ '' error code:'' @ show_int (fst e) @ '', message:'' @ snd e) (-1)"

definition read_nat :: "string \<Rightarrow> nat" where
  "read_nat s = foldl (\<lambda>a c. 10 * a + digit_val c) 0 s"

lemma digit_val_digit [simp]: "d < 10 \<Longrightarrow> digit_val (digit d) = d"
  by (simp add: digit_val_def digit_def)

lemma is_digit_digit [simp]: "d < 10 \<Longrightarrow> is_digit (digit d)"
  by (simp add: is_digit_def digit_def)

lemma digit_zero_iff [simp]: "d < 10 \<Longrightarrow> digit d = CHR ''0'' \<longleftrightarrow> d = 0"
proof -
  assume d: "d < 10"
  have "(of_char (CHR ''0'') :: nat) = 48" by simp
  moreover have "(of_char (digit d) :: nat) = 48 + d" using d by (simp add: digit_def)
  ultimately show ?thesis by (metis add_cancel_right_right of_char_eq_iff)
qed

lemma show_nat_neq_Nil [simp]: "show_nat n \<noteq> []"
  by (subst show_nat.simps) simp

lemma show_nat_digits: "c \<in> set (show_nat n) \<Longrightarrow> is_digit c"
proof (induction n rule: show_nat.induct)
  case (1 n)
  then show ?case
    by (subst (asm) show_nat.simps [of n]) (auto split: if_splits)
qed

lemma read_show_nat [simp]: "read_nat (show_nat n) = n"
proof (induction n rule: show_nat.induct)
  case (1 n)
  show ?case
  proof (cases "n < 10")
    case True
    then show ?thesis by (subst show_nat.simps) (simp add: read_nat_def)
  next
    case False
    with "1.IH" have "read_nat (show_nat (n div 10)) = n div 10" by simp
    with False show ?thesis
      by (subst show_nat.simps) (simp add: read_nat_def)
  qed
qed

lemma show_nat_hd: "n \<noteq> 0 \<Longrightarrow> hd (show_nat n) \<noteq> CHR ''0''"
proof (induction n rule: show_nat.induct)
  case (1 n)
  show ?case
  proof (cases "n < 10")
    case True
    with "1.prems" show ?thesis by (subst show_nat.simps) simp
  next
    case False
    then have "n div 10 \<noteq> 0" by simp
    with False "1.IH" have "hd (show_nat (n div 10)) \<noteq> CHR ''0''" by simp
    with False show ?thesis by (subst show_nat.simps) simp
  qed
qed

lemma show_nat_0 [simp]: "show_nat 0 = ''0''"
  using digit_zero_iff [of 0] by (subst show_nat.simps) simp

lemma is_digit_not_sep:
  "\<not> is_digit (CHR ''.'')" "\<not> is_digit (CHR ''/'')" "\<not> is_digit (CHR '':'')"
  "\<not> is_digit (CHR '','')" "\<not> is_digit (CHR '')'')" "\<not> is_digit (CHR 0x0A)"
  by (simp_all add: is_digit_def)

lemma show_nat_free: "\<not> is_digit c \<Longrightarrow> c \<notin> set (show_nat n)"
  by (blast dest: show_nat_digits)

lemma map_sum_Inr: "map_sum (\<lambda>e. e) g z = Inr y \<longleftrightarrow> (\<exists>x. z = Inr x \<and> y = g x)"
  by (cases z) auto

definition ends_with :: "string \<Rightarrow> string \<Rightarrow> bool" where
  "ends_with s suf = starts_with (rev s) (rev suf)"

text \<open>\<open>operator/\<close> of \<open>std::filesystem::path\<close>.\<close>

definition path_div :: "string \<Rightarrow> string \<Rightarrow> string" where
  "path_div a b =
     (if starts_with b ''/'' then b else if a = [] then b
      else if last a = CHR ''/'' then a @ b else a @ ''/'' @ b)"

section \<open>Sorted maps\<close>

text \<open>\<open>std::map\<close> as an association list in the order of its keys.\<close>

fun put :: "'k :: linorder \<Rightarrow> 'v \<Rightarrow> ('k \<times> 'v) list \<Rightarrow> ('k \<times> 'v) list" where
  "put k v [] = [(k, v)]"
| "put k v ((j, u) # kvs) = (if k = j then (k, v) # kvs else if k < j then (k, v) # (j, u) # kvs else (j, u) # put k v kvs)"

lemma put_map_of: "map_of (put k v kvs) = (map_of kvs)(k \<mapsto> v)"
  by (induction kvs) (auto simp: fun_eq_iff)

lemma set_put: "p \<in> set (put k v kvs) \<Longrightarrow> p = (k, v) \<or> p \<in> set kvs"
  by (induction kvs) (auto split: if_splits)

lemma sorted_put: "sorted_wrt (<) (map fst kvs) \<Longrightarrow> sorted_wrt (<) (map fst (put k v kvs))"
proof (induction kvs)
  case (Cons p kvs)
  obtain j u where p: "p = (j, u)" by (cases p)
  show ?case
    by (cases k j rule: linorder_cases) (use Cons p in \<open>auto dest!: set_put dest: order.strict_trans\<close>)
qed simp

end
