(* ===== verification/Orders.thy ===== *)
theory Orders
  imports Prelude
begin

text \<open>
  The ordering contract that version values have to keep for their clients: \<open>std::sort\<close>, the
  search for the latest remote record in \<open>OSTreeRepo::clearReference\<close> and the range test of
  \<open>VersionRange::contains\<close> only rely on the laws of the locale \<open>version_order\<close>. Its lemmas are
  proved once and reused through interpretations on the comparison operators of the code.
\<close>

text \<open>
  The loop that keeps a candidate unless the next element is strictly newer:
  \<open>if (!reference) reference = cur; else if (reference >= cur) continue; else reference = cur;\<close>
\<close>

fun keep_latest :: "('a \<Rightarrow> 'a \<Rightarrow> bool) \<Rightarrow> 'a option \<Rightarrow> 'a list \<Rightarrow> 'a option" where
  "keep_latest ge m [] = m"
| "keep_latest ge None (x # xs) = keep_latest ge (Some x) xs"
| "keep_latest ge (Some m) (x # xs) = keep_latest ge (if ge m x then Some m else Some x) xs"

lemma keep_latest_mem:
  "keep_latest ge m xs = Some r \<Longrightarrow> r \<in> set xs \<or> m = Some r"
  by (induction ge m xs rule: keep_latest.induct) (auto split: if_splits)

lemma keep_latest_None_iff: "keep_latest ge m xs = None \<longleftrightarrow> m = None \<and> xs = []"
  by (induction ge m xs rule: keep_latest.induct) auto

locale strict_weak_order =
  fixes lt :: "'a \<Rightarrow> 'a \<Rightarrow> bool"
  assumes irrefl: "\<not> lt x x"
    and trans: "lt x y \<Longrightarrow> lt y z \<Longrightarrow> lt x z"
    and neg_trans: "lt x z \<Longrightarrow> lt x y \<or> lt y z"
begin

lemma asym: "lt x y \<Longrightarrow> \<not> lt y x"
  using irrefl trans by blast

lemma incomp_trans:
  "\<not> lt x y \<Longrightarrow> \<not> lt y x \<Longrightarrow> \<not> lt y z \<Longrightarrow> \<not> lt z y \<Longrightarrow> \<not> lt x z \<and> \<not> lt z x"
  using neg_trans by blast

lemma not_lt_trans: "\<not> lt x y \<Longrightarrow> \<not> lt y z \<Longrightarrow> \<not> lt x z"
  using neg_trans by blast

end

locale version_order = strict_weak_order lt for lt :: "'a \<Rightarrow> 'a \<Rightarrow> bool" +
  fixes gt ge :: "'a \<Rightarrow> 'a \<Rightarrow> bool"
  assumes gt_iff: "gt x y \<longleftrightarrow> lt y x"
    and ge_sound: "ge x y \<Longrightarrow> \<not> lt x y"
    and ge_of_gt: "lt y x \<Longrightarrow> ge x y"
begin

lemma keep_latest_step: "\<not> ge m x \<Longrightarrow> \<not> lt x m"
  using ge_of_gt by blast

lemma keep_latest_ge_start:
  "keep_latest ge (Some m) xs = Some r \<Longrightarrow> \<not> lt r m"
proof (induction xs arbitrary: m)
  case Nil
  then show ?case by (simp add: irrefl)
next
  case (Cons x xs)
  show ?case
  proof (cases "ge m x")
    case True
    with Cons show ?thesis by simp
  next
    case False
    with Cons have "\<not> lt r x" by simp
    moreover from False have "\<not> lt x m" by (rule keep_latest_step)
    ultimately show ?thesis by (rule not_lt_trans)
  qed
qed

text \<open>Nothing in the list is newer than what the loop keeps.\<close>

lemma keep_latest_max:
  "keep_latest ge m xs = Some r \<Longrightarrow> x \<in> set xs \<Longrightarrow> \<not> lt r x"
proof (induction xs arbitrary: m)
  case Nil
  then show ?case by simp
next
  case (Cons y ys)
  define m' where "m' = (case m of None \<Rightarrow> y | Some k \<Rightarrow> if ge k y then k else y)"
  have run: "keep_latest ge (Some m') ys = Some r"
    using Cons.prems(1) by (cases m) (simp_all add: m'_def split: if_splits)
  have "\<not> lt m' y"
    by (cases m) (auto simp: m'_def irrefl dest: ge_sound)
  moreover have "\<not> lt r m'"
    using run by (rule keep_latest_ge_start)
  ultimately have "\<not> lt r y"
    using not_lt_trans by blast
  with Cons.IH [OF run] Cons.prems(2) show ?case by auto
qed

end

end
