(* ===== verification/Version.thy ===== *)
theory Version
  imports Orders "HOL-Library.Product_Lexorder"
begin

text \<open>
  \<open>libs/linglong/src/linglong/package/version.cpp\<close> and \<open>version_range.cpp\<close>: the four-number
  version of a layer, its comparison operators, printing and parsing, the pre-release ordering and
  half-open version ranges. \<open>qlonglong\<close> components are integers; the bound of the type appears as
  the failure of \<open>toLongLong\<close> in the parser and as the invariant \<open>version_ok\<close>.
\<close>

record version =
  major :: int
  minor :: int
  patch :: int
  tweak :: "int option"

definition LLONG_MAX :: int where
  "LLONG_MAX = 9223372036854775807"

definition num_ok :: "int \<Rightarrow> bool" where
  "num_ok n \<longleftrightarrow> 0 \<le> n \<and> n \<le> LLONG_MAX"

definition version_ok :: "version \<Rightarrow> bool" where
  "version_ok v \<longleftrightarrow> num_ok (major v) \<and> num_ok (minor v) \<and> num_ok (patch v) \<and>
     (case tweak v of None \<Rightarrow> True | Some t \<Rightarrow> num_ok t)"

section \<open>Parsing\<close>

text \<open>The regular expression \<open>0|[1-9]\d*\<close> of one component.\<close>

fun numeral_regex :: "string \<Rightarrow> bool" where
  "numeral_regex [] = False"
| "numeral_regex (c # cs) =
     (if c = CHR ''0'' then cs = [] else is_digit c \<and> list_all is_digit cs)"

text \<open>
  \<open>^N\.N\.N(?:\.N)?$\<close>: without \<open>DollarEndOnlyOption\<close> a dollar also matches before one final
  line feed. The components hold no dot, so the captures are the parts between dots.
\<close>

definition chop_final_newline :: "string \<Rightarrow> string" where
  "chop_final_newline s =
     (if s \<noteq> [] \<and> last s = CHR 0x0A then butlast s else s)"

definition version_regex :: "string \<Rightarrow> string list option" where
  "version_regex raw =
     (let ps = split_on (CHR ''.'') (chop_final_newline raw)
      in if (length ps = 3 \<or> length ps = 4) \<and> list_all numeral_regex ps then Some ps else None)"

text \<open>\<open>QString::toLongLong\<close> on such a numeral: fails exactly when the value does not fit.\<close>

definition toLongLong :: "string \<Rightarrow> int option" where
  "toLongLong s = (let n = int (read_nat s) in if n \<le> LLONG_MAX then Some n else None)"

text \<open>The constructor \<open>Version(raw)\<close>; \<open>Inl\<close> is the message of the exception it throws.\<close>

definition Version_new :: "string \<Rightarrow> string + version" where
  "Version_new raw =
     (case version_regex raw of
        None \<Rightarrow> Inl ''version regex mismatched, please use four digits version like 1.0.0.0''
      | Some ps \<Rightarrow>
         (case toLongLong (ps ! 0) of None \<Rightarrow> Inl ''major too large'' | Some a \<Rightarrow>
         (case toLongLong (ps ! 1) of None \<Rightarrow> Inl ''minor too large'' | Some b \<Rightarrow>
         (case toLongLong (ps ! 2) of None \<Rightarrow> Inl ''patch too large'' | Some c \<Rightarrow>
         (if length ps = 4 then
            (case toLongLong (ps ! 3) of
               None \<Rightarrow> Inl ''tweak too large''
             | Some d \<Rightarrow> Inr \<lparr>major = a, minor = b, patch = c, tweak = Some d\<rparr>)
          else Inr \<lparr>major = a, minor = b, patch = c, tweak = None\<rparr>)))))"

definition Version_parse :: "string \<Rightarrow> version result" where
  "Version_parse raw =
     (case Version_new raw of
        Inl what \<Rightarrow> Inl (Err (''parse version '' @ raw) what (-1))
      | Inr v \<Rightarrow> Inr v)"

section \<open>Comparison and printing\<close>

definition tweak_or_0 :: "version \<Rightarrow> int" where
  "tweak_or_0 v = (case tweak v of None \<Rightarrow> 0 | Some t \<Rightarrow> t)"

text \<open>The tuple \<open>std::tie(major, minor, patch, tweak)\<close>, compared lexicographically.\<close>

definition version_tie :: "version \<Rightarrow> int \<times> int \<times> int \<times> int" where
  "version_tie v = (major v, minor v, patch v, tweak_or_0 v)"

definition Version_eq :: "version \<Rightarrow> version \<Rightarrow> bool" where
  "Version_eq a b =
     (if (tweak a \<noteq> None) \<noteq> (tweak b \<noteq> None) then False
      else version_tie a = version_tie b)"

definition Version_ne :: "version \<Rightarrow> version \<Rightarrow> bool" where
  "Version_ne a b = (\<not> Version_eq a b)"

definition Version_lt :: "version \<Rightarrow> version \<Rightarrow> bool" where
  "Version_lt a b = (version_tie a < version_tie b)"

definition Version_gt :: "version \<Rightarrow> version \<Rightarrow> bool" where
  "Version_gt a b = (version_tie a > version_tie b)"

definition Version_le :: "version \<Rightarrow> version \<Rightarrow> bool" where
  "Version_le a b = (Version_eq a b \<or> Version_lt a b)"

definition Version_ge :: "version \<Rightarrow> version \<Rightarrow> bool" where
  "Version_ge a b = (Version_eq a b \<or> Version_gt a b)"

definition Version_toString :: "version \<Rightarrow> string" where
  "Version_toString v =
     show_int (major v) @ ''.'' @ show_int (minor v) @ ''.'' @ show_int (patch v) @
     (case tweak v of None \<Rightarrow> '''' | Some t \<Rightarrow> ''.'' @ show_int t)"

section \<open>Pre-release tags\<close>

text \<open>
  \<open>struct PreRelease\<close>: the non-empty parts between dots. \<open>toInt\<close> stands for \<open>QString::toInt\<close>
  (\<open>None\<close> is \<open>ok == false\<close>); a part that is no number counts as \<open>INT_MAX\<close>.
\<close>

definition INT_MAX :: int where
  "INT_MAX = 2147483647"

definition PreRelease_new :: "string \<Rightarrow> string list" where
  "PreRelease_new raw = filter (\<lambda>p. p \<noteq> []) (split_on (CHR ''.'') raw)"

definition as_number :: "(string \<Rightarrow> int option) \<Rightarrow> string \<Rightarrow> int" where
  "as_number toInt s = (case toInt s of None \<Rightarrow> INT_MAX | Some n \<Rightarrow> n)"

definition PreRelease_eq :: "string list \<Rightarrow> string list \<Rightarrow> bool" where
  "PreRelease_eq xs ys = (xs = ys)"

text \<open>The common loop of the two operators: the first position where the lists differ decides.\<close>

fun first_difference ::
    "(string \<Rightarrow> int option) \<Rightarrow> string list \<Rightarrow> string list \<Rightarrow>
     ((int \<Rightarrow> int \<Rightarrow> bool) \<times> (string \<Rightarrow> string \<Rightarrow> bool)) \<Rightarrow> bool option" where
  "first_difference toInt (x # xs) (y # ys) (cmpn, cmps) =
     (let a = as_number toInt x; b = as_number toInt y
      in if a \<noteq> b then Some (cmpn a b)
         else if x \<noteq> y then Some (cmps x y)
         else first_difference toInt xs ys (cmpn, cmps))"
| "first_difference toInt xs ys cmp = None"

definition PreRelease_lt :: "(string \<Rightarrow> int option) \<Rightarrow> string list \<Rightarrow> string list \<Rightarrow> bool" where
  "PreRelease_lt toInt xs ys =
     (case first_difference toInt xs ys ((<), (<)) of
        Some b \<Rightarrow> b
      | None \<Rightarrow>
         if xs = [] then False
         else if ys = [] then xs \<noteq> []
         else length xs < length ys)"

definition PreRelease_gt :: "(string \<Rightarrow> int option) \<Rightarrow> string list \<Rightarrow> string list \<Rightarrow> bool" where
  "PreRelease_gt toInt xs ys =
     (case first_difference toInt xs ys ((>), (>)) of
        Some b \<Rightarrow> b
      | None \<Rightarrow>
         if xs = [] then ys \<noteq> []
         else if ys = [] then False
         else length xs > length ys)"

section \<open>Ranges\<close>

record version_range =
  range_begin :: version
  range_end :: version

definition span :: "(char \<Rightarrow> bool) \<Rightarrow> string \<Rightarrow> string \<times> string" where
  "span P s = (takeWhile P s, dropWhile P s)"

text \<open>
  \<open>\[([^,]+),([^\)]+)\)\<close>, searched from the left: after an opening bracket, a non-empty run
  without comma, the comma, a non-empty run without closing parenthesis, the parenthesis.
  \<open>captured\<close> gives empty strings when nothing matches.
\<close>

definition range_match_at :: "string \<Rightarrow> (string \<times> string) option" where
  "range_match_at s =
     (case span (\<lambda>c. c \<noteq> CHR '','') s of
        (b, []) \<Rightarrow> None
      | (b, _ # s') \<Rightarrow>
         (case span (\<lambda>c. c \<noteq> CHR '')'') s' of
            (e, []) \<Rightarrow> None
          | (e, _ # _) \<Rightarrow> if b = [] \<or> e = [] then None else Some (b, e)))"

fun range_regex :: "string \<Rightarrow> string \<times> string" where
  "range_regex [] = ([], [])"
| "range_regex (c # s) =
     (if c = CHR ''['' then
        (case range_match_at s of Some be \<Rightarrow> be | None \<Rightarrow> range_regex s)
      else range_regex s)"

definition VersionRange_new :: "string \<Rightarrow> string + version_range" where
  "VersionRange_new raw =
     (case range_regex raw of (b, e) \<Rightarrow>
        (case Version_new b of Inl x \<Rightarrow> Inl x | Inr vb \<Rightarrow>
        (case Version_new e of Inl x \<Rightarrow> Inl x | Inr ve \<Rightarrow>
           Inr \<lparr>range_begin = vb, range_end = ve\<rparr>)))"

definition VersionRange_parse :: "string \<Rightarrow> version_range result" where
  "VersionRange_parse raw =
     (case VersionRange_new raw of
        Inl what \<Rightarrow> Inl (Err ''parse version range'' what (-1))
      | Inr r \<Rightarrow> Inr r)"

definition VersionRange_toString :: "version_range \<Rightarrow> string" where
  "VersionRange_toString r =
     ''['' @ Version_toString (range_begin r) @ '','' @ Version_toString (range_end r) @ '')''"

definition VersionRange_contains :: "version_range \<Rightarrow> version \<Rightarrow> bool" where
  "VersionRange_contains r v =
     (Version_le (range_begin r) v \<and> Version_lt v (range_end r))"

section \<open>Canonical numerals\<close>

lemma digit_digit_val [simp]: "is_digit c \<Longrightarrow> digit (digit_val c) = c"
  by (simp add: digit_def digit_val_def is_digit_def)

lemma digit_val_lt: "is_digit c \<Longrightarrow> digit_val c < 10"
  by (auto simp: digit_val_def is_digit_def)

lemma digit_val_pos: "is_digit c \<Longrightarrow> c \<noteq> CHR ''0'' \<Longrightarrow> 0 < digit_val c"
  by (metis digit_digit_val digit_zero_iff gr0I zero_less_numeral)

lemma read_nat_snoc [simp]: "read_nat (s @ [c]) = 10 * read_nat s + digit_val c"
  by (simp add: read_nat_def)

lemma numeral_regex_snoc:
  "s \<noteq> [] \<Longrightarrow> numeral_regex (s @ [c]) \<longleftrightarrow> numeral_regex s \<and> s \<noteq> ''0'' \<and> is_digit c"
  by (cases s) auto

lemma read_nat_pos: "numeral_regex s \<Longrightarrow> s \<noteq> ''0'' \<Longrightarrow> 0 < read_nat s"
proof (induction s rule: rev_induct)
  case Nil
  then show ?case by simp
next
  case (snoc c s)
  show ?case
  proof (cases "s = []")
    case True
    with snoc.prems show ?thesis
      by (auto simp: read_nat_def digit_val_pos split: if_splits)
  next
    case False
    with snoc.prems have "numeral_regex s" "s \<noteq> ''0''"
      by (auto simp: numeral_regex_snoc)
    with snoc.IH show ?thesis by simp
  qed
qed

lemma show_read_nat: "numeral_regex s \<Longrightarrow> show_nat (read_nat s) = s"
proof (induction s rule: rev_induct)
  case Nil
  then show ?case by simp
next
  case (snoc c s)
  show ?case
  proof (cases "s = []")
    case True
    with snoc.prems have "is_digit c"
      by (auto simp: is_digit_def split: if_splits)
    with True show ?thesis
      by (subst show_nat.simps) (auto simp: read_nat_def digit_val_lt)
  next
    case False
    with snoc.prems have s: "numeral_regex s" "s \<noteq> ''0''" and c: "is_digit c"
      by (auto simp: numeral_regex_snoc)
    from s have "0 < read_nat s" by (rule read_nat_pos)
    with c s snoc.IH show ?thesis
      by (subst show_nat.simps) (simp add: digit_val_lt)
  qed
qed

lemma numeral_regex_show_nat: "numeral_regex (show_nat n)"
proof (cases "n = 0")
  case True
  then show ?thesis by simp
next
  case False
  obtain c cs where s: "show_nat n = c # cs"
    by (cases "show_nat n") auto
  with False show_nat_hd have "c \<noteq> CHR ''0''" by (metis list.sel(1))
  moreover have "is_digit x" if "x \<in> set (c # cs)" for x
    using that s show_nat_digits by metis
  ultimately show ?thesis using s by (auto simp: list_all_iff)
qed

lemma show_int_nonneg: "0 \<le> i \<Longrightarrow> show_int i = show_nat (nat i)"
  by (simp add: show_int_def)

lemma numeral_regex_show_int: "num_ok i \<Longrightarrow> numeral_regex (show_int i)"
  by (simp add: num_ok_def show_int_nonneg numeral_regex_show_nat)

lemma toLongLong_show_int: "num_ok i \<Longrightarrow> toLongLong (show_int i) = Some i"
  by (simp add: num_ok_def show_int_nonneg toLongLong_def)

lemma toLongLong_Some:
  "toLongLong s = Some i \<Longrightarrow> numeral_regex s \<Longrightarrow> num_ok i \<and> show_int i = s"
  by (auto simp: toLongLong_def num_ok_def show_int_nonneg Let_def show_read_nat split: if_splits)

lemma numeral_regex_is_digit: "numeral_regex s \<Longrightarrow> x \<in> set s \<Longrightarrow> is_digit x"
  by (cases s) (auto simp: is_digit_def list_all_iff split: if_splits)

section \<open>Parsing is the inverse of printing\<close>

definition version_parts :: "version \<Rightarrow> string list" where
  "version_parts v =
     [show_int (major v), show_int (minor v), show_int (patch v)] @
     (case tweak v of None \<Rightarrow> [] | Some t \<Rightarrow> [show_int t])"

lemma Version_toString_join: "Version_toString v = join_with (CHR ''.'') (version_parts v)"
  by (simp add: Version_toString_def version_parts_def split: option.splits)

lemma version_parts_regex: "version_ok v \<Longrightarrow> list_all numeral_regex (version_parts v)"
  by (auto simp: version_ok_def version_parts_def numeral_regex_show_int split: option.splits)

lemma join_with_set: "set (join_with c ps) \<subseteq> insert c (\<Union> (set ` set ps))"
  by (induction c ps rule: join_with.induct) auto

lemma Version_toString_chars:
  assumes "version_ok v" and "x \<in> set (Version_toString v)"
  shows "is_digit x \<or> x = CHR ''.''"
proof -
  from assms(2) have "x \<in> insert (CHR ''.'') (\<Union> (set ` set (version_parts v)))"
    using join_with_set [of "CHR ''.''" "version_parts v"] by (auto simp: Version_toString_join)
  with version_parts_regex [OF assms(1)] show ?thesis
    by (auto simp: list_all_iff dest: numeral_regex_is_digit)
qed

lemma Version_toString_free:
  "version_ok v \<Longrightarrow> \<not> is_digit c \<Longrightarrow> c \<noteq> CHR ''.'' \<Longrightarrow> c \<notin> set (Version_toString v)"
  using Version_toString_chars by blast

lemma Version_toString_neq_Nil: "version_ok v \<Longrightarrow> Version_toString v \<noteq> []"
  by (simp add: Version_toString_def)

lemma chop_final_newline_id: "CHR 0x0A \<notin> set s \<Longrightarrow> chop_final_newline s = s"
  by (metis chop_final_newline_def last_in_set)

lemma chop_final_newline_cases:
  "raw = chop_final_newline raw \<or> raw = chop_final_newline raw @ [CHR 0x0A]"
  by (auto simp: chop_final_newline_def) (metis append_butlast_last_id)

lemma version_regex_toString:
  assumes "version_ok v"
  shows "version_regex (Version_toString v) = Some (version_parts v)"
proof -
  have "CHR 0x0A \<notin> set (Version_toString v)"
    using assms by (rule Version_toString_free) (simp_all add: is_digit_not_sep)
  then have chop: "chop_final_newline (Version_toString v) = Version_toString v"
    by (rule chop_final_newline_id)
  have "\<forall>p \<in> set (version_parts v). CHR ''.'' \<notin> set p"
    using version_parts_regex [OF assms] numeral_regex_is_digit is_digit_not_sep(1)
    by (auto simp: list_all_iff)
  then have "split_on (CHR ''.'') (Version_toString v) = version_parts v"
    using split_join [of "version_parts v" "CHR ''.''"]
    by (simp add: Version_toString_join) (simp add: version_parts_def)
  with chop version_parts_regex [OF assms] show ?thesis
    by (auto simp: version_regex_def version_parts_def split: option.splits)
qed

lemma Version_new_toString:
  assumes "version_ok v"
  shows "Version_new (Version_toString v) = Inr v"
proof (cases "tweak v")
  case None
  with assms show ?thesis
    by (simp add: Version_new_def version_regex_toString version_ok_def)
      (simp add: version_parts_def toLongLong_show_int)
next
  case (Some t)
  with assms show ?thesis
    by (simp add: Version_new_def version_regex_toString version_ok_def)
      (simp add: version_parts_def toLongLong_show_int)
qed

lemma version_regex_Some:
  assumes "version_regex raw = Some ps"
  shows "list_all numeral_regex ps" and "length ps = 3 \<or> length ps = 4"
    and "chop_final_newline raw = join_with (CHR ''.'') ps"
  using assms by (auto simp: version_regex_def Let_def join_split split: if_splits)

lemma length_3_4:
  "length ps = 3 \<Longrightarrow> ps = [ps ! 0, ps ! 1, ps ! 2]"
  "length ps = 4 \<Longrightarrow> ps = [ps ! 0, ps ! 1, ps ! 2, ps ! 3]"
  by (auto simp: numeral_eq_Suc length_Suc_conv)

lemma Version_new_Inr:
  assumes "Version_new raw = Inr v"
  shows "version_ok v \<and> chop_final_newline raw = Version_toString v"
proof -
  from assms obtain ps where ps: "version_regex raw = Some ps"
    by (auto simp: Version_new_def split: option.splits)
  note rx = version_regex_Some [OF ps]
  have nth: "numeral_regex (ps ! i)" if "i < length ps" for i
    using rx(1) that by (simp add: list_all_length)
  from rx(2) consider "length ps = 3" | "length ps = 4" by blast
  then show ?thesis
  proof cases
    case 1
    then have num: "numeral_regex (ps ! 0)" "numeral_regex (ps ! 1)" "numeral_regex (ps ! 2)"
      using nth by simp_all
    with assms ps 1 have "version_ok v \<and> version_parts v = [ps ! 0, ps ! 1, ps ! 2]"
      by (auto simp: Version_new_def version_ok_def version_parts_def dest: toLongLong_Some
          split: option.splits)
    with rx(3) length_3_4(1) [OF 1] show ?thesis by (simp add: Version_toString_join)
  next
    case 2
    then have num: "numeral_regex (ps ! 0)" "numeral_regex (ps ! 1)" "numeral_regex (ps ! 2)"
      "numeral_regex (ps ! 3)"
      using nth by simp_all
    with assms ps 2 have "version_ok v \<and> version_parts v = [ps ! 0, ps ! 1, ps ! 2, ps ! 3]"
      by (auto simp: Version_new_def version_ok_def version_parts_def dest: toLongLong_Some
          split: option.splits)
    with rx(3) length_3_4(2) [OF 2] show ?thesis by (simp add: Version_toString_join)
  qed
qed

lemma Version_new_ok: "Version_new raw = Inr v \<Longrightarrow> version_ok v"
  using Version_new_Inr by blast

lemma Version_parse_Inr_iff [result_simps]:
  "Version_parse raw = Inr v \<longleftrightarrow> Version_new raw = Inr v"
  by (auto simp: Version_parse_def split: sum.splits)

section \<open>The comparison operators\<close>

lemma version_tie_inj:
  "version_tie a = version_tie b \<Longrightarrow> (tweak a = None) = (tweak b = None) \<Longrightarrow> a = b"
  by (cases a; cases b) (auto simp: version_tie_def tweak_or_0_def split: option.splits)

lemma Version_eq_iff: "Version_eq a b \<longleftrightarrow> a = b"
  by (auto simp: Version_eq_def intro: version_tie_inj)

lemmas version_cmp_defs =
  Version_lt_def Version_gt_def Version_le_def Version_ge_def Version_ne_def Version_eq_iff

interpretation ver: version_order Version_lt Version_gt Version_ge
  by unfold_locales (auto simp: version_cmp_defs)

text \<open>
  Two versions that differ but tie numerically: one has no tweak and the other the tweak 0.
\<close>

definition tweak_tie :: "version \<Rightarrow> version \<Rightarrow> bool" where
  "tweak_tie a b \<longleftrightarrow> version_tie a = version_tie b \<and> (tweak a = None) \<noteq> (tweak b = None)"

lemma Version_trichotomy:
  "Version_lt a b \<or> Version_eq a b \<or> Version_gt a b \<or> tweak_tie a b"
proof (cases "version_tie a = version_tie b")
  case True
  then show ?thesis
    using version_tie_inj [of a b] Version_eq_iff tweak_tie_def by metis
next
  case False
  then show ?thesis by (auto simp: version_cmp_defs)
qed

section \<open>The pre-release order\<close>

lemma first_difference_gt:
  "first_difference toInt xs ys ((>), (>)) = first_difference toInt ys xs ((<), (<))"
  by (induction xs arbitrary: ys; case_tac ys) (auto simp: Let_def)

text \<open>
  The order as a lexicographic one: each part becomes the key \<open>(number, text)\<close>, an ended list is
  smaller than a longer one, and the empty tag (a release) is the greatest.
\<close>

definition pre_key :: "(string \<Rightarrow> int option) \<Rightarrow> string list \<Rightarrow> bool \<times> (int \<times> string) list" where
  "pre_key toInt xs = (xs = [], map (\<lambda>x. (as_number toInt x, x)) xs)"

lemma first_difference_lex:
  "(case first_difference toInt xs ys ((<), (<)) of Some b \<Rightarrow> b | None \<Rightarrow> length xs < length ys) \<longleftrightarrow>
   map (\<lambda>x. (as_number toInt x, x)) xs < map (\<lambda>x. (as_number toInt x, x)) ys"
proof (induction xs arbitrary: ys)
  case Nil
  show ?case by (cases ys) auto
next
  case (Cons x xs)
  show ?case
  proof (cases ys)
    case Nil
    then show ?thesis by simp
  next
    case (Cons y ys')
    with Cons.IH [of ys'] show ?thesis by (auto simp: Let_def split: option.splits)
  qed
qed

lemma PreRelease_lt_key: "PreRelease_lt toInt xs ys \<longleftrightarrow> pre_key toInt xs < pre_key toInt ys"
proof (cases "xs = [] \<or> ys = []")
  case True
  then show ?thesis
    by (cases xs; cases ys) (auto simp: PreRelease_lt_def pre_key_def)
next
  case False
  then have "PreRelease_lt toInt xs ys \<longleftrightarrow>
    (case first_difference toInt xs ys ((<), (<)) of Some b \<Rightarrow> b | None \<Rightarrow> length xs < length ys)"
    by (simp add: PreRelease_lt_def split: option.splits)
  with False show ?thesis by (simp add: first_difference_lex pre_key_def)
qed

lemma PreRelease_gt_lt: "PreRelease_gt toInt xs ys = PreRelease_lt toInt ys xs"
  by (auto simp: PreRelease_gt_def PreRelease_lt_def first_difference_gt split: option.splits)

lemma pre_key_inj: "pre_key toInt xs = pre_key toInt ys \<Longrightarrow> xs = ys"
proof -
  have "map snd (snd (pre_key toInt zs)) = zs" for zs
    by (simp add: pre_key_def comp_def)
  then show "pre_key toInt xs = pre_key toInt ys \<Longrightarrow> xs = ys" by metis
qed

interpretation pre: version_order "PreRelease_lt toInt" "PreRelease_gt toInt"
  "\<lambda>a b. PreRelease_eq a b \<or> PreRelease_gt toInt a b" for toInt
  by unfold_locales (auto simp: PreRelease_lt_key PreRelease_gt_lt PreRelease_eq_def)

section \<open>Ranges\<close>

lemma span_simps [simp]:
  "c \<notin> set p \<Longrightarrow> span (\<lambda>x. x \<noteq> c) (p @ c # s) = (p, c # s)"
  "c \<notin> set p \<Longrightarrow> span (\<lambda>x. x \<noteq> c) p = (p, [])"
  by (auto simp: span_def takeWhile_tail dropWhile_append)

lemma range_regex_toString:
  assumes "version_ok a" and "version_ok b"
  shows "range_regex (''['' @ Version_toString a @ '','' @ Version_toString b @ '')'') =
    (Version_toString a, Version_toString b)"
proof -
  have a: "CHR '','' \<notin> set (Version_toString a)" and b: "CHR '')'' \<notin> set (Version_toString b)"
    using assms by (simp_all add: Version_toString_free is_digit_not_sep)
  then show ?thesis
    using assms by (simp add: range_match_at_def Version_toString_neq_Nil)
qed

lemma tweak_tie_iff:
  "tweak_tie a b \<longleftrightarrow> a \<noteq> b \<and> \<not> Version_lt a b \<and> \<not> Version_lt b a"
  using Version_trichotomy [of a b]
  by (auto simp: version_cmp_defs tweak_tie_def)

section \<open>Properties\<close>

text \<open>
  The parser accepts exactly the printed form of a version whose components lie in the range of
  \<open>qlonglong\<close> (optionally followed by one line feed) and returns that version: printing then
  parsing is the identity, and parsing then printing gives the input back.
\<close>

theorem Version_parse_iff:
  "Version_parse raw = Inr v \<longleftrightarrow>
     version_ok v \<and>
     (raw = Version_toString v \<or> raw = Version_toString v @ [CHR 0x0A])"
proof
  assume "Version_parse raw = Inr v"
  then have "version_ok v \<and> chop_final_newline raw = Version_toString v"
    by (simp add: result_simps Version_new_Inr)
  with chop_final_newline_cases [of raw] show
    "version_ok v \<and> (raw = Version_toString v \<or> raw = Version_toString v @ [CHR 0x0A])"
    by metis
next
  assume v: "version_ok v \<and> (raw = Version_toString v \<or> raw = Version_toString v @ [CHR 0x0A])"
  then have "chop_final_newline raw = Version_toString v"
    using chop_final_newline_id [of "Version_toString v"] Version_toString_free [of v "CHR 0x0A"]
    by (auto simp: chop_final_newline_def is_digit_not_sep)
  then have "version_regex raw = version_regex (Version_toString v)"
    using v chop_final_newline_id [of "Version_toString v"] Version_toString_free [of v "CHR 0x0A"]
    by (simp add: version_regex_def is_digit_not_sep)
  with v show "Version_parse raw = Inr v"
    using Version_new_toString [of v] by (simp add: result_simps Version_new_def)
qed



text \<open>
  The pre-release operators are a strict total order on tags for every reading \<open>toInt\<close> of
  numbers, \<open>>\<close> is the converse of \<open><\<close>, and the empty tag (a release) is above every other tag.
\<close>

theorem PreRelease_order:
  "\<not> PreRelease_lt toInt x x \<and>
   (PreRelease_lt toInt x y \<longrightarrow> PreRelease_lt toInt y z \<longrightarrow> PreRelease_lt toInt x z) \<and>
   (PreRelease_lt toInt x y \<or> PreRelease_eq x y \<or> PreRelease_lt toInt y x) \<and>
   PreRelease_gt toInt x y = PreRelease_lt toInt y x \<and>
   PreRelease_lt toInt x [] = (x \<noteq> [])"
proof -
  have "PreRelease_lt toInt x y \<or> PreRelease_eq x y \<or> PreRelease_lt toInt y x"
    using pre_key_inj [of toInt x y] by (auto simp: PreRelease_lt_key PreRelease_eq_def)
  moreover have "PreRelease_lt toInt x [] = (x \<noteq> [])"
    by (cases x) (auto simp: PreRelease_lt_def)
  ultimately show ?thesis
    using pre.irrefl pre.trans pre.gt_iff by blast
qed

theorem PreRelease_order_witness:
  "PreRelease_lt (\<lambda>_. None) [''alpha''] [''alpha'', ''1''] \<and>
   PreRelease_lt (\<lambda>_. None) [''alpha'', ''1''] [''beta''] \<and>
   PreRelease_lt (\<lambda>_. None) [''alpha''] [''beta'']"
proof -
  have "PreRelease_lt (\<lambda>_. None) [''alpha''] [''alpha'', ''1'']"
    and "PreRelease_lt (\<lambda>_. None) [''alpha'', ''1''] [''beta'']"
    by code_simp+
  then show ?thesis
    using PreRelease_order [of "\<lambda>_. None" "[''alpha'']" "[''alpha'', ''1'']" "[''beta'']"] by blast
qed

text \<open>
  Splitting a range at a version between its ends splits its members, except that a version
  which ties with the splitting point (tweak missing against tweak 0) is in neither half.
\<close>

theorem VersionRange_split:
  assumes "Version_le a b" and "Version_le b c"
  shows "VersionRange_contains \<lparr>range_begin = a, range_end = c\<rparr> v \<longleftrightarrow>
     VersionRange_contains \<lparr>range_begin = a, range_end = b\<rparr> v \<or>
     VersionRange_contains \<lparr>range_begin = b, range_end = c\<rparr> v \<or>
     (tweak_tie b v \<and> Version_le a v \<and> Version_lt v c)"
proof -
  have "Version_lt v b \<Longrightarrow> Version_lt v c"
    using assms(2) ver.trans by (auto simp: Version_le_def Version_eq_iff)
  moreover have "Version_le b v \<Longrightarrow> Version_le a v"
    using assms(1) ver.trans by (auto simp: Version_le_def Version_eq_iff)
  moreover have "Version_lt v b \<or> Version_le b v \<or> tweak_tie b v"
    by (auto simp: Version_le_def Version_eq_iff tweak_tie_iff)
  ultimately show ?thesis
    by (auto simp: VersionRange_contains_def)
qed

theorem VersionRange_split_witness:
  "VersionRange_contains
     \<lparr>range_begin = \<lparr>major = 1, minor = 0, patch = 0, tweak = Some 0\<rparr>,
      range_end = \<lparr>major = 3, minor = 0, patch = 0, tweak = Some 0\<rparr>\<rparr>
     \<lparr>major = 2, minor = 1, patch = 0, tweak = Some 0\<rparr>"
proof -
  let ?v = "\<lambda>i j. \<lparr>major = i, minor = j, patch = 0, tweak = Some 0\<rparr>"
  have "Version_le (?v 1 0) (?v 2 0)" "Version_le (?v 2 0) (?v 3 0)"
    by (simp_all add: Version_le_def Version_lt_def version_tie_def tweak_or_0_def)
  from VersionRange_split [OF this, of "?v 2 1"] show ?thesis
    by (simp add: VersionRange_contains_def Version_le_def Version_lt_def Version_eq_def
        version_tie_def tweak_or_0_def)
qed

text \<open>
  A range printed as \<open>[begin,end)\<close> parses back to the same range.
\<close>

theorem VersionRange_roundtrip:
  assumes "version_ok (range_begin r)" and "version_ok (range_end r)"
  shows "VersionRange_parse (VersionRange_toString r) = Inr r"
proof -
  have "VersionRange_new (VersionRange_toString r) = Inr r"
    unfolding VersionRange_toString_def VersionRange_new_def range_regex_toString [OF assms]
    using assms by (simp add: Version_new_toString)
  then show ?thesis by (simp add: VersionRange_parse_def)
qed

theorem VersionRange_roundtrip_witness:
  "VersionRange_parse ''[1.2.3,2.0.0.1)'' =
     Inr \<lparr>range_begin = \<lparr>major = 1, minor = 2, patch = 3, tweak = None\<rparr>,
          range_end = \<lparr>major = 2, minor = 0, patch = 0, tweak = Some 1\<rparr>\<rparr>"
proof -
  let ?r = "\<lparr>range_begin = \<lparr>major = 1, minor = 2, patch = 3, tweak = None\<rparr>,
          range_end = \<lparr>major = 2, minor = 0, patch = 0, tweak = Some 1\<rparr>\<rparr>"
  have "version_ok (range_begin ?r)" "version_ok (range_end ?r)"
    by (simp_all add: version_ok_def num_ok_def LLONG_MAX_def)
  moreover have "VersionRange_toString ?r = ''[1.2.3,2.0.0.1)''"
    by code_simp
  ultimately show ?thesis using VersionRange_roundtrip [of ?r] by simp
qed

end
