(* ===== verification/Package_Info.thy ===== *)
theory Package_Info
  imports Prelude
begin

text \<open>
  Package descriptions (\<open>libs/api/.../PackageInfo.hpp\<close>, \<open>PackageInfoV2.hpp\<close>) and their loading in
  \<open>libs/utils/src/linglong/utils/packageinfo_handler.cpp\<close>, which reads the current format first and
  falls back to converting the old one. The JSON readers are library code
  (\<open>nlohmann::json\<close>) and appear as the parameters \<open>loadV2\<close> and \<open>loadV1\<close>.
\<close>

record permissions_bind =
  bind_destination :: string
  bind_source :: string

record permissions_rec =
  binds :: "permissions_bind list option"
  innerBinds :: "permissions_bind list option"

record package_info =
  old_appid :: string
  old_arch :: "string list"
  old_base :: string
  old_channel :: "string option"
  old_command :: "string list option"
  old_description :: "string option"
  old_kind :: string
  old_module :: string
  old_name :: string
  old_permissions :: "permissions_rec option"
  old_runtime :: "string option"
  old_size :: int
  old_version :: string

record package_info_v2 =
  info_arch :: "string list"
  info_base :: string
  info_channel :: string
  info_command :: "string list option"
  info_compatibleVersion :: "string option"
  info_description :: "string option"
  info_id :: string
  info_kind :: string
  info_module :: string
  info_name :: string
  info_permissions :: "permissions_rec option"
  info_runtime :: "string option"
  info_schemaVersion :: string
  info_size :: int
  info_uuid :: "string option"
  info_version :: string

definition PACKAGE_INFO_VERSION :: string where
  "PACKAGE_INFO_VERSION = ''1.0''"

definition toPackageInfoV2 :: "package_info \<Rightarrow> package_info_v2 result" where
  "toPackageInfoV2 oldInfo = Inr
     \<lparr>info_arch = old_arch oldInfo,
      info_base = old_base oldInfo,
      info_channel = (case old_channel oldInfo of None \<Rightarrow> ''main'' | Some c \<Rightarrow> c),
      info_command = old_command oldInfo,
      info_compatibleVersion = None,
      info_description = old_description oldInfo,
      info_id = old_appid oldInfo,
      info_kind = old_kind oldInfo,
      info_module = old_module oldInfo,
      info_name = old_name oldInfo,
      info_permissions = old_permissions oldInfo,
      info_runtime = old_runtime oldInfo,
      info_schemaVersion = PACKAGE_INFO_VERSION,
      info_size = old_size oldInfo,
      info_uuid = None,
      info_version = old_version oldInfo\<rparr>"

text \<open>
  The three overloads of \<open>parsePackageInfo\<close> (path, JSON value, \<open>GFile\<close>) differ only in the
  reader they call and in the trace message.
\<close>

definition parsePackageInfo_with ::
    "string \<Rightarrow> ('src \<Rightarrow> package_info_v2 result) \<Rightarrow> ('src \<Rightarrow> package_info result) \<Rightarrow>
     'src \<Rightarrow> package_info_v2 result" where
  "parsePackageInfo_with trace loadV2 loadV1 src =
     (case loadV2 src of
        Inr i \<Rightarrow> Inr i
      | Inl _ \<Rightarrow>
         (case loadV1 src of
            Inl e \<Rightarrow> Inl (Err_wrap trace e)
          | Inr old \<Rightarrow> toPackageInfoV2 old))"

definition parsePackageInfo_path ::
    "(string \<Rightarrow> package_info_v2 result) \<Rightarrow> (string \<Rightarrow> package_info result) \<Rightarrow>
     string \<Rightarrow> package_info_v2 result" where
  "parsePackageInfo_path loadV2 loadV1 path =
     parsePackageInfo_with (''parse package info from file: '' @ path) loadV2 loadV1 path"

definition parsePackageInfo_json ::
    "('json \<Rightarrow> package_info_v2 result) \<Rightarrow> ('json \<Rightarrow> package_info result) \<Rightarrow>
     'json \<Rightarrow> package_info_v2 result" where
  "parsePackageInfo_json = parsePackageInfo_with ''parse package info from json''"

definition parsePackageInfo_gfile ::
    "('file \<Rightarrow> package_info_v2 result) \<Rightarrow> ('file \<Rightarrow> package_info result) \<Rightarrow>
     'file \<Rightarrow> package_info_v2 result" where
  "parsePackageInfo_gfile = parsePackageInfo_with ''parse package info from GFile''"

text \<open>A small description the witnesses of the development use.\<close>

definition demo_info :: package_info_v2 where
  "demo_info =
     \<lparr>info_arch = [''x86_64''], info_base = ''org.deepin.base/23.1.0'', info_channel = ''main'',
      info_command = None, info_compatibleVersion = None, info_description = None,
      info_id = ''org.deepin.demo'', info_kind = ''app'', info_module = ''binary'',
      info_name = ''demo'', info_permissions = None, info_runtime = None,
      info_schemaVersion = ''1.0'', info_size = 1, info_uuid = None, info_version = ''1.0.0.0''\<rparr>"

text \<open>
  Loading a package description prefers the current format, converts the old one otherwise
  (with channel \<open>main\<close> when it has none, and every shared field kept), and fails only when both
  readers fail, with the error code of the old-format reader.
\<close>

theorem parsePackageInfo_spec:
  "(\<forall>i. loadV2 src = Inr i \<longrightarrow> parsePackageInfo_json loadV2 loadV1 src = Inr i) \<and>
   (\<forall>e old. loadV2 src = Inl e \<longrightarrow> loadV1 src = Inr old \<longrightarrow>
      (\<exists>i. parsePackageInfo_json loadV2 loadV1 src = Inr i \<and>
        info_id i = old_appid old \<and> info_version i = old_version old \<and>
        info_arch i = old_arch old \<and> info_base i = old_base old \<and>
        info_runtime i = old_runtime old \<and> info_module i = old_module old \<and>
        info_kind i = old_kind old \<and> info_permissions i = old_permissions old \<and>
        info_channel i = (case old_channel old of None \<Rightarrow> ''main'' | Some c \<Rightarrow> c) \<and>
        info_uuid i = None)) \<and>
   (\<forall>e e'. loadV2 src = Inl e \<longrightarrow> loadV1 src = Inl e' \<longrightarrow>
      (\<exists>e''. parsePackageInfo_json loadV2 loadV1 src = Inl e'' \<and> err_code e'' = err_code e'))"
  by (auto simp: parsePackageInfo_json_def parsePackageInfo_with_def toPackageInfoV2_def)

theorem parsePackageInfo_spec_witness:
  "parsePackageInfo_json (\<lambda>_::unit. Inr demo_info)
     (\<lambda>_. Inl (Err ''parse'' ''not an object'' (-1))) () = Inr demo_info"
  using parsePackageInfo_spec [of "\<lambda>_::unit. Inr demo_info" "()"
      "\<lambda>_. Inl (Err ''parse'' ''not an object'' (-1))"] by simp

end
