(* ===== verification/Reference.thy ===== *)
theory Reference
  imports Version Package_Info
begin

text \<open>
  \<open>libs/linglong/src/linglong/package/architecture.cpp\<close>, \<open>reference.cpp\<close> and
  \<open>fuzzy_reference.cpp\<close>: architectures, the complete reference of a layer
  (\<open>channel:id/version/arch\<close>) and the partial reference a user types. The two regular expressions
  are translated into recognisers whose comments say how the expression's greedy matching decides.
\<close>

section \<open>Architectures\<close>

datatype architecture = UNKNOW | X86_64 | ARM64 | LOONGARCH64 | LOONG64

fun Architecture_toString :: "architecture \<Rightarrow> string" where
  "Architecture_toString X86_64 = ''x86_64''"
| "Architecture_toString ARM64 = ''arm64''"
| "Architecture_toString LOONGARCH64 = ''loongarch64''"
| "Architecture_toString LOONG64 = ''loong64''"
| "Architecture_toString UNKNOW = ''unknow''"

fun getTriplet :: "architecture \<Rightarrow> string" where
  "getTriplet UNKNOW = ''unknow''"
| "getTriplet X86_64 = ''x86_64-linux-gnu''"
| "getTriplet ARM64 = ''aarch64-linux-gnu''"
| "getTriplet LOONG64 = ''loongarch64-linux-gnu''"
| "getTriplet LOONGARCH64 = ''loongarch64-linux-gnu''"

definition Architecture_new :: "string \<Rightarrow> string + architecture" where
  "Architecture_new raw =
     (if raw = ''x86_64'' then Inr X86_64
      else if raw = ''arm64'' then Inr ARM64
      else if raw = ''loongarch64'' then Inr LOONGARCH64
      else if raw = ''loong64'' then Inr LOONG64
      else Inl ''unknow architecture'')"

definition Architecture_parse :: "string \<Rightarrow> architecture result" where
  "Architecture_parse raw =
     (case Architecture_new raw of
        Inl what \<Rightarrow> Inl (Err ''parse architecture'' what (-1))
      | Inr a \<Rightarrow> Inr a)"

text \<open>
  \<open>currentCPUArchitecture\<close> decides from the ELF interpreter of the running executable
  (\<open>getInterpreter\<close>, the empty string when it cannot be read).
\<close>

definition currentCPUArchitecture :: "string \<Rightarrow> architecture result" where
  "currentCPUArchitecture interpreter =
     (if interpreter = ''/lib64/ld-linux-x86-64.so.2'' then Architecture_parse ''x86_64''
      else if interpreter = ''/lib/ld-linux-aarch64.so.1'' then Architecture_parse ''arm64''
      else if interpreter = ''/lib64/ld-linux-loongarch-lp64d.so.1'' then Architecture_parse ''loong64''
      else if interpreter = ''/lib64/ld.so.1'' then Architecture_parse ''loongarch64''
      else Architecture_parse '''')"

section \<open>References\<close>

record reference =
  ref_channel :: string
  ref_id :: string
  ref_version :: version
  ref_arch :: architecture

definition Reference_new ::
    "string \<Rightarrow> string \<Rightarrow> version \<Rightarrow> architecture \<Rightarrow> string + reference" where
  "Reference_new channel i version arch =
     (if channel = [] then Inl ''empty channel''
      else if i = [] then Inl ''empty id''
      else Inr \<lparr>ref_channel = channel, ref_id = i, ref_version = version, ref_arch = arch\<rparr>)"

definition Reference_create ::
    "string \<Rightarrow> string \<Rightarrow> version \<Rightarrow> architecture \<Rightarrow> reference result" where
  "Reference_create channel i version arch =
     (case Reference_new channel i version arch of
        Inl what \<Rightarrow> Inl (Err ''create reference'' (''invalid reference: '' @ what) (-1))
      | Inr r \<Rightarrow> Inr r)"

text \<open>
  \<open>([^:]+):([^\/]+)\/([^\/]+)\/([^\/]+)\<close> is not anchored. Each class excludes the separator that
  follows it, so at one start the captures are forced; the leftmost start that works is the first
  non-empty run before a colon whose remainder matches.
\<close>

definition reference_tail :: "string \<Rightarrow> (string \<times> string \<times> string) option" where
  "reference_tail s =
     (case split_on (CHR ''/'') s of
        i # v # a # _ \<Rightarrow> if i = [] \<or> v = [] \<or> a = [] then None else Some (i, v, a)
      | _ \<Rightarrow> None)"

function reference_regex :: "string \<Rightarrow> (string \<times> string \<times> string \<times> string) option" where
  "reference_regex s =
     (case span (\<lambda>c. c \<noteq> CHR '':'') s of
        (ch, []) \<Rightarrow> None
      | (ch, c # rest) \<Rightarrow>
         (case (if ch = [] then None else reference_tail rest) of
            Some t \<Rightarrow> Some (ch, t)
          | None \<Rightarrow> reference_regex rest))"
  by pat_completeness auto
termination
  by (relation "measure length")
    (auto simp: span_def, metis Suc_le_eq length_Cons length_dropWhile_le)

declare reference_regex.simps [simp del]

definition Reference_parse :: "string \<Rightarrow> reference result" where
  "Reference_parse raw =
     (let trace = ''parse reference string'' in
      case reference_regex raw of
        None \<Rightarrow> Inl (Err trace ''regexp mismatched.'' (-1))
      | Some (channel, i, versionStr, architectureStr) \<Rightarrow>
          try_wrap trace (Version_parse versionStr) (\<lambda>version.
          try_wrap trace (Architecture_parse architectureStr) (\<lambda>arch.
          try_wrap trace (Reference_create channel i version arch) (\<lambda>r. Inr r))))"

text \<open>
  \<open>info.arch[0]\<close> reads the first entry without a check; for an empty list the model returns an
  error of its own, where the code has undefined behaviour.
\<close>

definition Reference_fromPackageInfo :: "package_info_v2 \<Rightarrow> reference result" where
  "Reference_fromPackageInfo info =
     (let trace = ''parse reference from package info'' in
      try_wrap trace (Version_parse (info_version info)) (\<lambda>version.
      if tweak version = None then Inl (Err trace ''version .tweak is required'' (-1))
      else case info_arch info of
        [] \<Rightarrow> Inl (Err trace ''undefined behaviour: arch is empty'' (-1))
      | a # _ \<Rightarrow>
          try_wrap trace (Architecture_parse a) (\<lambda>architecture.
          try_wrap trace
            (Reference_create (info_channel info) (info_id info) version architecture)
            (\<lambda>r. Inr r))))"

definition Reference_toString :: "reference \<Rightarrow> string" where
  "Reference_toString r =
     ref_channel r @ '':'' @ ref_id r @ ''/'' @ Version_toString (ref_version r) @ ''/'' @
     Architecture_toString (ref_arch r)"

definition Reference_ne :: "reference \<Rightarrow> reference \<Rightarrow> bool" where
  "Reference_ne a b =
     (ref_channel a \<noteq> ref_channel b \<or> ref_id a \<noteq> ref_id b \<or>
      Version_ne (ref_version a) (ref_version b) \<or> ref_arch a \<noteq> ref_arch b)"

definition Reference_eq :: "reference \<Rightarrow> reference \<Rightarrow> bool" where
  "Reference_eq a b = (\<not> Reference_ne a b)"

text \<open>
  \<open>toVariantMap\<close> and \<open>fromVariantMap\<close> exchange a map of string values with D-Bus; a missing or
  non-string entry makes the implicit conversion of \<open>nlohmann::json\<close> throw inside a \<open>noexcept\<close>
  function, which terminates the process: \<open>None\<close> here.
\<close>

type_synonym variant_map = "string \<Rightarrow> string option"

definition Reference_toVariantMap :: "reference \<Rightarrow> variant_map" where
  "Reference_toVariantMap r =
     [''channel'' \<mapsto> ref_channel r, ''id'' \<mapsto> ref_id r,
      ''version'' \<mapsto> Version_toString (ref_version r),
      ''arch'' \<mapsto> Architecture_toString (ref_arch r)]"

definition Reference_fromVariantMap :: "variant_map \<Rightarrow> reference result option" where
  "Reference_fromVariantMap data =
     (let trace = ''parse reference VariantMap'' in
      case (data ''channel'', data ''id'', data ''version'', data ''arch'') of
        (channel, i, Some rawVersion, rawArch) \<Rightarrow>
          (case Version_parse rawVersion of
             Inl e \<Rightarrow> Some (Inl (Err_wrap trace e))
           | Inr version \<Rightarrow>
              (case rawArch of
                 None \<Rightarrow> None
               | Some ra \<Rightarrow>
                  (case Architecture_parse ra of
                     Inl e \<Rightarrow> Some (Inl (Err_wrap trace e))
                   | Inr arch \<Rightarrow>
                      (case (channel, i) of
                         (Some c, Some i') \<Rightarrow>
                            Some (try_wrap trace (Reference_create c i' version arch) (\<lambda>r. Inr r))
                       | _ \<Rightarrow> None))))
      | _ \<Rightarrow> None)"

section \<open>Fuzzy references\<close>

record fuzzy_reference =
  fz_channel :: "string option"
  fz_id :: string
  fz_version :: "version option"
  fz_arch :: "architecture option"

text \<open>
  \<open>^(?:([^:]*):)?([^\/]*)(?:\/([^\/]*)(?:\/([^\/]*))?)?$\<close>. If the text has a colon, the part before
  the first one is the channel (dropping the channel leaves at least as many slashes, so it never
  rescues a match); what follows must have at most three parts between slashes. A part that is
  absent is captured as the empty string, and the greedy last part takes a final line feed along.
\<close>

definition fuzzy_regex :: "string \<Rightarrow> (string \<times> string \<times> string \<times> string) option" where
  "fuzzy_regex raw =
     (let (channel, rest) =
        (case span (\<lambda>c. c \<noteq> CHR '':'') raw of
           (s, []) \<Rightarrow> ([], s)
         | (ch, _ # rest) \<Rightarrow> (ch, rest))
      in case split_on (CHR ''/'') rest of
           [i] \<Rightarrow> Some (channel, i, [], [])
         | [i, v] \<Rightarrow> Some (channel, i, v, [])
         | [i, v, a] \<Rightarrow> Some (channel, i, v, a)
         | _ \<Rightarrow> None)"

definition FuzzyReference_new ::
    "string option \<Rightarrow> string \<Rightarrow> version option \<Rightarrow> architecture option \<Rightarrow>
     string + fuzzy_reference" where
  "FuzzyReference_new channel i version arch =
     (if channel = Some [] then Inl ''empty channel''
      else if i = [] then Inl ''empty id''
      else Inr \<lparr>fz_channel = channel, fz_id = i, fz_version = version, fz_arch = arch\<rparr>)"

definition FuzzyReference_create ::
    "string option \<Rightarrow> string \<Rightarrow> version option \<Rightarrow> architecture option \<Rightarrow>
     fuzzy_reference result" where
  "FuzzyReference_create channel i version arch =
     (case FuzzyReference_new channel i version arch of
        Inl what \<Rightarrow> Inl (Err ''create fuzz reference'' what (-1))
      | Inr r \<Rightarrow> Inr r)"

text \<open>The code's test \<open>!s.isEmpty() && s != "unknown"\<close> decides whether a part is present.\<close>

definition fuzzy_part :: "string \<Rightarrow> string option" where
  "fuzzy_part s = (if s = [] \<or> s = ''unknown'' then None else Some s)"

definition FuzzyReference_parse :: "string \<Rightarrow> fuzzy_reference result" where
  "FuzzyReference_parse raw =
     (let trace = ''parse fuzz reference string '' @ raw in
      case fuzzy_regex raw of
        None \<Rightarrow> Inl (Err trace ''regexp mismatched.'' (-1))
      | Some (ch, i, versionStr, architectureStr) \<Rightarrow>
         (let channel = fuzzy_part ch in
          try_wrap trace
            (case fuzzy_part versionStr of
               None \<Rightarrow> Inr None
             | Some s \<Rightarrow> map_sum (\<lambda>x. x) Some (Version_parse s)) (\<lambda>version.
          try_wrap trace
            (case fuzzy_part architectureStr of
               None \<Rightarrow> Inr None
             | Some s \<Rightarrow> map_sum (\<lambda>x. x) Some (Architecture_parse s)) (\<lambda>architecture.
          FuzzyReference_create channel i version architecture))))"

definition FuzzyReference_toString :: "fuzzy_reference \<Rightarrow> string" where
  "FuzzyReference_toString f =
     (case fz_channel f of None \<Rightarrow> ''unknown'' | Some c \<Rightarrow> c) @ '':'' @ fz_id f @ ''/'' @
     (case fz_version f of None \<Rightarrow> ''unknown'' | Some v \<Rightarrow> Version_toString v) @ ''/'' @
     (case fz_arch f of None \<Rightarrow> ''unknown'' | Some a \<Rightarrow> Architecture_toString a)"

section \<open>Well-formed references\<close>

definition reference_ok :: "reference \<Rightarrow> bool" where
  "reference_ok r \<longleftrightarrow>
     ref_channel r \<noteq> [] \<and> CHR '':'' \<notin> set (ref_channel r) \<and>
     ref_id r \<noteq> [] \<and> CHR ''/'' \<notin> set (ref_id r) \<and>
     version_ok (ref_version r) \<and> ref_arch r \<noteq> UNKNOW"

definition fuzzy_ok :: "fuzzy_reference \<Rightarrow> bool" where
  "fuzzy_ok f \<longleftrightarrow>
     (case fz_channel f of None \<Rightarrow> True
      | Some c \<Rightarrow> c \<noteq> [] \<and> c \<noteq> ''unknown'' \<and> CHR '':'' \<notin> set c) \<and>
     fz_id f \<noteq> [] \<and> CHR ''/'' \<notin> set (fz_id f) \<and>
     (case fz_version f of None \<Rightarrow> True | Some v \<Rightarrow> version_ok v) \<and> fz_arch f \<noteq> Some UNKNOW"

lemma Architecture_parse_toString [simp]:
  "a \<noteq> UNKNOW \<Longrightarrow> Architecture_parse (Architecture_toString a) = Inr a"
  by (cases a) (simp_all add: Architecture_parse_def Architecture_new_def)

lemma Architecture_parse_Inr [result_simps]:
  "Architecture_parse s = Inr a \<longleftrightarrow> a \<noteq> UNKNOW \<and> s = Architecture_toString a"
  by (cases a) (auto simp: Architecture_parse_def Architecture_new_def split: if_splits sum.splits)

lemma Architecture_toString_free:
  "CHR ''/'' \<notin> set (Architecture_toString a)" "Architecture_toString a \<noteq> []"
  "Architecture_toString a \<noteq> ''unknown''"
  by (cases a; simp)+

lemma Version_toString_facts:
  assumes "version_ok v"
  shows "CHR ''/'' \<notin> set (Version_toString v)" "Version_toString v \<noteq> []"
    "Version_toString v \<noteq> ''unknown''"
proof -
  show "CHR ''/'' \<notin> set (Version_toString v)"
    using assms by (rule Version_toString_free) (simp_all add: is_digit_not_sep)
  show "Version_toString v \<noteq> []" using assms by (rule Version_toString_neq_Nil)
  have "CHR ''u'' \<notin> set (Version_toString v)"
    using assms by (rule Version_toString_free) (simp_all add: is_digit_def)
  then show "Version_toString v \<noteq> ''unknown''" by auto
qed

lemma Version_parse_toString: "version_ok v \<Longrightarrow> Version_parse (Version_toString v) = Inr v"
  by (simp add: result_simps Version_new_toString)

lemmas ref_text_facts = Architecture_toString_free Version_toString_facts split_on_append
  split_on_free Version_parse_toString

lemma Reference_create_Inr [result_simps]:
  "Reference_create c i v a = Inr r \<longleftrightarrow>
     c \<noteq> [] \<and> i \<noteq> [] \<and> r = \<lparr>ref_channel = c, ref_id = i, ref_version = v, ref_arch = a\<rparr>"
  by (auto simp: Reference_create_def Reference_new_def)

lemma FuzzyReference_create_Inr [result_simps]:
  "FuzzyReference_create c i v a = Inr f \<longleftrightarrow>
     c \<noteq> Some [] \<and> i \<noteq> [] \<and> f = \<lparr>fz_channel = c, fz_id = i, fz_version = v, fz_arch = a\<rparr>"
  by (auto simp: FuzzyReference_create_def FuzzyReference_new_def)

lemma reference_tail_toString:
  assumes "reference_ok r"
  shows "reference_tail (ref_id r @ ''/'' @ Version_toString (ref_version r) @ ''/'' @
           Architecture_toString (ref_arch r)) =
         Some (ref_id r, Version_toString (ref_version r), Architecture_toString (ref_arch r))"
    and "reference_tail (ref_id r @ ''/'' @ Version_toString (ref_version r) @ ''/'' @
           Architecture_toString (ref_arch r) @ ''/'' @ junk) =
         Some (ref_id r, Version_toString (ref_version r), Architecture_toString (ref_arch r))"
  using assms by (simp_all add: reference_ok_def reference_tail_def ref_text_facts)

lemma reference_regex_toString:
  assumes "reference_ok r" and "extra = [] \<or> (\<exists>junk. extra = CHR ''/'' # junk)"
  shows "reference_regex (Reference_toString r @ extra) =
    Some (ref_channel r, ref_id r, Version_toString (ref_version r),
      Architecture_toString (ref_arch r))"
proof -
  have "span (\<lambda>c. c \<noteq> CHR '':'') (Reference_toString r @ extra) =
      (ref_channel r, CHR '':'' # ref_id r @ ''/'' @ Version_toString (ref_version r) @ ''/'' @
         Architecture_toString (ref_arch r) @ extra)"
    using assms(1) by (simp add: Reference_toString_def reference_ok_def)
  with assms reference_tail_toString [OF assms(1)] show ?thesis
    by (subst reference_regex.simps) (auto simp: reference_ok_def)
qed

lemma Reference_parse_toString:
  assumes "reference_ok r" and "extra = [] \<or> (\<exists>junk. extra = CHR ''/'' # junk)"
  shows "Reference_parse (Reference_toString r @ extra) = Inr r"
  using assms reference_regex_toString [OF assms]
  by (simp add: Reference_parse_def result_simps reference_ok_def ref_text_facts)

lemma reference_tail_Some:
  "reference_tail s = Some (i, v, a) \<Longrightarrow>
   i \<noteq> [] \<and> CHR ''/'' \<notin> set i \<and> CHR ''/'' \<notin> set v \<and> CHR ''/'' \<notin> set a"
  using split_on_parts_free [of _ "CHR ''/''" s]
  by (auto simp: reference_tail_def split: list.splits if_splits)

lemma reference_regex_Some:
  "reference_regex s = Some (ch, i, v, a) \<Longrightarrow>
   ch \<noteq> [] \<and> CHR '':'' \<notin> set ch \<and> i \<noteq> [] \<and> CHR ''/'' \<notin> set i"
proof (induction s rule: reference_regex.induct)
  case (1 s)
  obtain c0 tl0 where sp: "span (\<lambda>c. c \<noteq> CHR '':'') s = (c0, tl0)" by fastforce
  then have c0: "CHR '':'' \<notin> set c0" by (auto simp: span_def dest: set_takeWhileD)
  show ?case
  proof (cases tl0)
    case Nil
    with sp "1.prems" show ?thesis by (simp add: reference_regex.simps [of s])
  next
    case (Cons x rest)
    show ?thesis
    proof (cases "if c0 = [] then None else reference_tail rest")
      case None
      with "1.prems" sp Cons have "reference_regex rest = Some (ch, i, v, a)"
        by (simp add: reference_regex.simps [of s])
      with "1.IH" sp Cons None show ?thesis by metis
    next
      case (Some t)
      with "1.prems" sp Cons c0 show ?thesis
        by (cases t) (auto simp: reference_regex.simps [of s] dest: reference_tail_Some
            split: if_splits)
    qed
  qed
qed

lemma Reference_parse_ok: "Reference_parse raw = Inr r \<Longrightarrow> reference_ok r"
  by (auto simp: Reference_parse_def reference_ok_def result_simps Let_def dest!: reference_regex_Some
      split: option.splits)
    (metis Version_new_ok)

lemma fuzzy_part_simps [simp]:
  "version_ok v \<Longrightarrow> fuzzy_part (Version_toString v) = Some (Version_toString v)"
  "fuzzy_part (Architecture_toString a) = Some (Architecture_toString a)"
  "fuzzy_part ''unknown'' = None" "fuzzy_part [] = None"
  by (simp_all add: fuzzy_part_def ref_text_facts)

lemma fuzzy_regex_parts:
  assumes "CHR '':'' \<notin> set ch" and "CHR ''/'' \<notin> set i" and "CHR ''/'' \<notin> set v"
    and "CHR ''/'' \<notin> set a"
  shows "fuzzy_regex (ch @ '':'' @ i @ ''/'' @ v @ ''/'' @ a) = Some (ch, i, v, a)"
  using assms by (simp add: fuzzy_regex_def split_on_append split_on_free)

definition fuzzy_texts :: "fuzzy_reference \<Rightarrow> string \<times> string \<times> string" where
  "fuzzy_texts f =
     ((case fz_channel f of None \<Rightarrow> ''unknown'' | Some c \<Rightarrow> c),
      (case fz_version f of None \<Rightarrow> ''unknown'' | Some v \<Rightarrow> Version_toString v),
      (case fz_arch f of None \<Rightarrow> ''unknown'' | Some a \<Rightarrow> Architecture_toString a))"

lemma fuzzy_regex_toString:
  assumes "fuzzy_ok f"
  shows "fuzzy_regex (FuzzyReference_toString f) =
    (case fuzzy_texts f of (c, v, a) \<Rightarrow> Some (c, fz_id f, v, a))"
  using assms unfolding FuzzyReference_toString_def fuzzy_texts_def prod.case
  by (intro fuzzy_regex_parts)
    (auto simp: fuzzy_ok_def ref_text_facts split: option.splits)

section \<open>Properties of references\<close>

text \<open>
  C26: Every reference the parser accepts is well formed (non-empty channel without colon, non-empty
  id without slash, canonical version, known architecture), and printing it gives a text that
  parses to the same reference again, also when further path segments follow.
\<close>

theorem Reference_parse_canonical:
  assumes "Reference_parse raw = Inr r"
  shows "reference_ok r \<and> Reference_parse (Reference_toString r) = Inr r \<and>
    Reference_parse (Reference_toString r @ ''/'' @ junk) = Inr r"
  using Reference_parse_ok [OF assms] Reference_parse_toString [of r "[]"]
    Reference_parse_toString [of r "''/'' @ junk"] by auto

theorem Reference_parse_canonical_witness:
  "Reference_parse ''main:org.deepin.demo/1.0.0.0/x86_64'' =
     Inr \<lparr>ref_channel = ''main'', ref_id = ''org.deepin.demo'',
          ref_version = \<lparr>major = 1, minor = 0, patch = 0, tweak = Some 0\<rparr>, ref_arch = X86_64\<rparr> \<and>
   Reference_parse ''main:org.deepin.demo/1.0.0.0/x86_64/runtime'' =
     Inr \<lparr>ref_channel = ''main'', ref_id = ''org.deepin.demo'',
          ref_version = \<lparr>major = 1, minor = 0, patch = 0, tweak = Some 0\<rparr>, ref_arch = X86_64\<rparr>"
proof -
  let ?r = "\<lparr>ref_channel = ''main'', ref_id = ''org.deepin.demo'',
          ref_version = \<lparr>major = 1, minor = 0, patch = 0, tweak = Some 0\<rparr>, ref_arch = X86_64\<rparr>"
  have parse: "Reference_parse ''main:org.deepin.demo/1.0.0.0/x86_64'' = Inr ?r"
    by code_simp
  have "Reference_toString ?r = ''main:org.deepin.demo/1.0.0.0/x86_64''"
    by code_simp
  with parse Reference_parse_canonical [OF parse, of "''runtime''"] show ?thesis by simp
qed

text \<open>
  A well-formed fuzzy reference survives printing and parsing; absent parts are printed as
  \<open>unknown\<close> and read back as absent.
\<close>

theorem FuzzyReference_roundtrip:
  assumes "fuzzy_ok f"
  shows "FuzzyReference_parse (FuzzyReference_toString f) = Inr f"
proof -
  have chan: "fuzzy_part (fst (fuzzy_texts f)) = fz_channel f"
    using assms by (auto simp: fuzzy_texts_def fuzzy_ok_def fuzzy_part_def split: option.splits)
  have ver: "(case fuzzy_part (fst (snd (fuzzy_texts f))) of
      None \<Rightarrow> Inr None | Some s \<Rightarrow> map_sum (\<lambda>x. x) Some (Version_parse s)) =
      (Inr (fz_version f) :: version option result)"
    using assms by (auto simp: fuzzy_texts_def fuzzy_ok_def Version_parse_toString split: option.splits)
  have arch: "(case fuzzy_part (snd (snd (fuzzy_texts f))) of
      None \<Rightarrow> Inr None | Some s \<Rightarrow> map_sum (\<lambda>x. x) Some (Architecture_parse s)) =
      (Inr (fz_arch f) :: architecture option result)"
    using assms by (auto simp: fuzzy_texts_def fuzzy_ok_def split: option.splits)
  have "fz_channel f \<noteq> Some []" "fz_id f \<noteq> []"
    using assms by (auto simp: fuzzy_ok_def)
  with chan ver arch fuzzy_regex_toString [OF assms] show ?thesis
    by (cases "fuzzy_texts f")
      (simp add: FuzzyReference_parse_def Let_def FuzzyReference_create_Inr)
qed

theorem FuzzyReference_roundtrip_witness:
  "FuzzyReference_parse ''unknown:org.deepin.demo/1.0.0/unknown'' =
     Inr \<lparr>fz_channel = None, fz_id = ''org.deepin.demo'',
          fz_version = Some \<lparr>major = 1, minor = 0, patch = 0, tweak = None\<rparr>, fz_arch = None\<rparr>"
proof -
  let ?f = "\<lparr>fz_channel = None, fz_id = ''org.deepin.demo'',
          fz_version = Some \<lparr>major = 1, minor = 0, patch = 0, tweak = None\<rparr>, fz_arch = None\<rparr>"
  have "fuzzy_ok ?f"
    by (simp add: fuzzy_ok_def version_ok_def num_ok_def LLONG_MAX_def)
  moreover have "FuzzyReference_toString ?f = ''unknown:org.deepin.demo/1.0.0/unknown''"
    by code_simp
  ultimately show ?thesis using FuzzyReference_roundtrip [of ?f] by simp
qed

text \<open>
  A reference sent over D-Bus as a variant map is received unchanged, and the reference built
  from a package description exists exactly for a four-number version, a known architecture and a
  non-empty channel and id, which it then carries.
\<close>

theorem Reference_exchange:
  "(reference_ok r \<longrightarrow> Reference_fromVariantMap (Reference_toVariantMap r) = Some (Inr r)) \<and>
   (Reference_fromPackageInfo info = Inr q \<longleftrightarrow>
      Version_parse (info_version info) = Inr (ref_version q) \<and> tweak (ref_version q) \<noteq> None \<and>
      info_arch info \<noteq> [] \<and> Architecture_parse (hd (info_arch info)) = Inr (ref_arch q) \<and>
      ref_channel q = info_channel info \<and> ref_id q = info_id info \<and>
      info_channel info \<noteq> [] \<and> info_id info \<noteq> [])"
proof
  show "reference_ok r \<longrightarrow> Reference_fromVariantMap (Reference_toVariantMap r) = Some (Inr r)"
    by (simp add: reference_ok_def Reference_fromVariantMap_def Reference_toVariantMap_def
        Version_parse_toString result_simps)
next
  show "Reference_fromPackageInfo info = Inr q \<longleftrightarrow>
      Version_parse (info_version info) = Inr (ref_version q) \<and> tweak (ref_version q) \<noteq> None \<and>
      info_arch info \<noteq> [] \<and> Architecture_parse (hd (info_arch info)) = Inr (ref_arch q) \<and>
      ref_channel q = info_channel info \<and> ref_id q = info_id info \<and>
      info_channel info \<noteq> [] \<and> info_id info \<noteq> []"
    by (cases q; cases "info_arch info")
      (auto simp: Reference_fromPackageInfo_def try_wrap_Inr_iff Reference_create_Inr Let_def)
qed

theorem Reference_exchange_witness:
  "Reference_fromVariantMap (Reference_toVariantMap
     \<lparr>ref_channel = ''main'', ref_id = ''demo'',
      ref_version = \<lparr>major = 1, minor = 0, patch = 0, tweak = Some 2\<rparr>, ref_arch = ARM64\<rparr>) =
   Some (Inr \<lparr>ref_channel = ''main'', ref_id = ''demo'',
      ref_version = \<lparr>major = 1, minor = 0, patch = 0, tweak = Some 2\<rparr>, ref_arch = ARM64\<rparr>)"
  by (rule Reference_exchange [THEN conjunct1, rule_format])
    (simp add: reference_ok_def version_ok_def num_ok_def LLONG_MAX_def)

end
