(* ===== verification/Layer_File.thy ===== *)
theory Layer_File
  imports Bytes Package_Info
begin

unbundle bit_operations_syntax

text \<open>
  The layer archive: \<open>libs/linglong/src/linglong/package/layer_file.{h,cpp}\<close> reads it and
  \<open>layer_packager.cpp\<close> writes it. The format is 40 bytes of magic number, the length of the meta
  information as a little-endian \<open>quint32\<close>, the meta information as JSON, and an EROFS image.
  Outcomes of the operating system and of child processes are the fields of \<open>pack_env\<close> or the
  parameter \<open>exec\<close>; the JSON reader is the parameter \<open>load\<close>.
\<close>

definition magic_text :: string where
  "magic_text = ''<<< deepin linglong layer archive >>>''"

definition magicNumber :: bytes where
  "magicNumber = bytes_of magic_text @ replicate (40 - length magic_text) 0"

record layer_file =
  lf_content :: bytes
  lf_pos :: nat
  lf_cleanup :: bool
  lf_metaInfoLength :: u32

definition LayerFile_ctor :: "bytes option \<Rightarrow> string + layer_file" where
  "LayerFile_ctor file =
     (case file of
        None \<Rightarrow> Inl ''open layer failed''
      | Some content \<Rightarrow>
         (if read_at content 0 (length magicNumber) \<noteq> magicNumber
          then Inl ''invalid magic number, this is not a layer''
          else Inr \<lparr>lf_content = content, lf_pos = length magicNumber, lf_cleanup = False,
                    lf_metaInfoLength = 0\<rparr>))"

definition LayerFile_New :: "bytes option \<Rightarrow> layer_file result" where
  "LayerFile_New file =
     (case LayerFile_ctor file of
        Inl what \<Rightarrow> Inl (Err ''open layer'' what (-1))
      | Inr f \<Rightarrow> Inr f)"

definition setCleanStatus :: "bool \<Rightarrow> layer_file \<Rightarrow> layer_file" where
  "setCleanStatus status f = f\<lparr>lf_cleanup := status\<rparr>"

text \<open>The destructor: whether the file is removed from disk.\<close>

definition LayerFile_dtor_removes :: "layer_file \<Rightarrow> bool" where
  "LayerFile_dtor_removes f = lf_cleanup f"

text \<open>
  \<open>metaInfoLength\<close>: the cached value if it is positive; otherwise four bytes are read inside a
  stream transaction, which restores the position when they are not all there.
\<close>

definition metaInfoLength :: "layer_file \<Rightarrow> u32 result \<times> layer_file" where
  "metaInfoLength f =
     (if lf_metaInfoLength f > 0 then (Inr (lf_metaInfoLength f), f)
      else case read_at (lf_content f) (lf_pos f) 4 of
        [a, b, c, d] \<Rightarrow>
          (let n = load_le32 a b c d
           in (Inr n, f\<lparr>lf_metaInfoLength := n, lf_pos := lf_pos f + 4\<rparr>))
      | _ \<Rightarrow> (Inl (Err ''read meta info length'' ''unknown error.'' (-1)), f))"

definition metaInfo :: "(bytes \<Rightarrow> 'info result) \<Rightarrow> layer_file \<Rightarrow> 'info result \<times> layer_file" where
  "metaInfo load f =
     (let trace = ''get layer file info'' in
      case metaInfoLength f of
        (Inl e, f') \<Rightarrow> (Inl (Err_wrap trace e), f')
      | (Inr n, f') \<Rightarrow>
         (let rawData = read_at (lf_content f') (lf_pos f') (unat n);
              f'' = f'\<lparr>lf_pos := lf_pos f' + length rawData\<rparr>
          in case load rawData of
               Inl e \<Rightarrow> (Inl (Err_wrap trace e), f'')
             | Inr i \<Rightarrow> (Inr i, f'')))"

text \<open>The sum is computed in \<open>size_t\<close> and returned as \<open>quint32\<close>.\<close>

definition binaryDataOffset :: "layer_file \<Rightarrow> u32 result \<times> layer_file" where
  "binaryDataOffset f =
     (case metaInfoLength f of
        (Inl e, f') \<Rightarrow> (Inl (Err_wrap ''get binary data offset'' e), f')
      | (Inr n, f') \<Rightarrow> (Inr (word_of_nat (length magicNumber + unat n + 4)), f'))"

section \<open>Packing and unpacking\<close>

record pack_env =
  env_open :: "error option"
  env_write_magic :: "error option"
  env_write_size :: "error option"
  env_write_data :: "error option"
  env_mkfs :: "bytes result"
  env_cat :: "error option"

text \<open>
  \<open>LayerPackager::pack\<close>. \<open>dirInfo\<close> is the result of \<open>LayerDir::info\<close>, \<open>dump\<close> the serialised
  \<open>LayerInfo\<close>. A failing \<open>cat\<close> builds an error value that is not returned, so the function goes
  on with whatever the file holds.
\<close>

definition LayerPackager_pack ::
    "pack_env \<Rightarrow> package_info_v2 result \<Rightarrow> (package_info_v2 \<Rightarrow> bytes) \<Rightarrow> layer_file result" where
  "LayerPackager_pack env dirInfo dump =
     (let trace = ''pack layer'' in
      case env_open env of Some e \<Rightarrow> Inl (Err_wrap trace e) | None \<Rightarrow>
      case env_write_magic env of Some e \<Rightarrow> Inl (Err_wrap trace e) | None \<Rightarrow>
      try_wrap trace dirInfo (\<lambda>info.
      let data = dump info; dataSizeBytes = le32 (word_of_nat (length data)) in
      case env_write_size env of Some e \<Rightarrow> Inl (Err_wrap trace e) | None \<Rightarrow>
      case env_write_data env of Some e \<Rightarrow> Inl (Err_wrap trace e) | None \<Rightarrow>
      try_wrap trace (env_mkfs env) (\<lambda>img.
      let header = magicNumber @ dataSizeBytes @ data;
          file = (case env_cat env of None \<Rightarrow> header @ img | Some _ \<Rightarrow> header)
      in LayerFile_New (Some file))))"

definition LayerPackager_unpack ::
    "(string \<Rightarrow> string list \<Rightarrow> unit result) \<Rightarrow> string \<Rightarrow> string \<Rightarrow> layer_file \<Rightarrow>
     string result \<times> layer_file" where
  "LayerPackager_unpack exec workDir filePath f =
     (let trace = ''unpack layer file''; unpackDir = workDir @ ''/unpack'' in
      case binaryDataOffset f of
        (Inl e, f') \<Rightarrow> (Inl (Err_wrap trace e), f')
      | (Inr offset, f') \<Rightarrow>
         (case exec ''erofsfuse''
              [''--offset='' @ show_nat (unat offset), filePath, unpackDir] of
            Inl e \<Rightarrow> (Inl (Err_wrap trace e), f')
          | Inr _ \<Rightarrow> (Inr unpackDir, f')))"

section \<open>Layer directories\<close>

text \<open>\<open>LayerDir::info\<close>, \<open>filesDirPath\<close> and \<open>valid\<close>; \<open>files\<close> says which entries exist.\<close>

definition LayerDir_info ::
    "(string \<Rightarrow> package_info_v2 result) \<Rightarrow> (string \<Rightarrow> package_info result) \<Rightarrow> string \<Rightarrow>
     package_info_v2 result" where
  "LayerDir_info loadV2 loadV1 dir =
     try_wrap (''get layer info from '' @ dir)
       (parsePackageInfo_path loadV2 loadV1 (dir @ ''/info.json'')) (\<lambda>i. Inr i)"

definition filesDirPath :: "string \<Rightarrow> string" where
  "filesDirPath dir = dir @ ''/files''"

definition LayerDir_valid :: "(string \<Rightarrow> bool) \<Rightarrow> string \<Rightarrow> bool" where
  "LayerDir_valid exists_file dir = exists_file (dir @ ''/info.json'')"

section \<open>Lemmas\<close>

lemma length_magicNumber [simp]: "length magicNumber = 40"
  by (simp add: magicNumber_def magic_text_def)

lemma LayerFile_New_prefix:
  "LayerFile_New (Some (magicNumber @ rest)) =
     Inr \<lparr>lf_content = magicNumber @ rest, lf_pos = 40, lf_cleanup = False, lf_metaInfoLength = 0\<rparr>"
  by (simp add: LayerFile_New_def LayerFile_ctor_def read_at_def)

lemma metaInfoLength_fresh:
  assumes "lf_content f = magicNumber @ le32 n @ rest" and "lf_pos f = 40"
    and "lf_metaInfoLength f = 0"
  shows "metaInfoLength f = (Inr n, f\<lparr>lf_metaInfoLength := n, lf_pos := 44\<rparr>)"
proof -
  have "read_at (lf_content f) (lf_pos f) 4 =
    [ucast n, ucast (drop_bit 8 n), ucast (drop_bit 16 n), ucast (drop_bit 24 n)]"
    by (simp add: assms read_at_def le32_def)
  then show ?thesis by (simp add: metaInfoLength_def assms load_store_le32 Let_def)
qed

lemma unat_word32_small: "n < 4294967296 \<Longrightarrow> unat (word_of_nat n :: u32) = n"
  by (simp add: unsigned_of_nat take_bit_nat_eq_self)

section \<open>Properties\<close>

text \<open>
  C5: What the packager writes, the reader reads back: after a successful \<open>pack\<close> the returned file
  yields the same package description, and the binary data offset, whether asked before or after,
  points exactly at the EROFS image. The meta information has to be non-empty (JSON text always is)
  and small enough for the offset to fit a \<open>quint32\<close>.
\<close>

theorem layer_pack_roundtrip:
  assumes pack: "LayerPackager_pack env (Inr info) dump = Inr f"
    and cat: "env_cat env = None" and mkfs: "env_mkfs env = Inr img"
    and load: "load (dump info) = Inr info"
    and size: "0 < length (dump info)" "length (dump info) + 44 < 4294967296"
  shows "\<exists>f' f'' off. metaInfo load f = (Inr info, f') \<and>
           binaryDataOffset f = (Inr off, f'') \<and> fst (binaryDataOffset f') = Inr off \<and>
           unat off = 44 + length (dump info) \<and> drop (unat off) (lf_content f) = img"
proof -
  let ?d = "dump info" and ?n = "word_of_nat (length (dump info)) :: u32"
  have n: "unat ?n = length ?d" and off: "unat (word_of_nat (44 + length ?d) :: u32) = 44 + length ?d"
    using size unat_word32_small [of "length ?d"] unat_word32_small [of "44 + length ?d"] by simp_all
  have n0: "0 < ?n" using n size by (simp add: word_less_nat_alt)
  have f: "f = \<lparr>lf_content = magicNumber @ le32 ?n @ ?d @ img, lf_pos = 40,
                lf_cleanup = False, lf_metaInfoLength = 0\<rparr>"
    using pack by (auto simp: LayerPackager_pack_def Let_def cat mkfs LayerFile_New_prefix
        split: option.splits)
  let ?g = "f\<lparr>lf_metaInfoLength := ?n, lf_pos := 44\<rparr>"
  have len: "metaInfoLength f = (Inr ?n, ?g)"
    by (rule metaInfoLength_fresh) (simp_all add: f)
  have "read_at (lf_content ?g) (lf_pos ?g) (unat ?n) = ?d"
    by (simp add: f n read_at_def)
  then have meta: "metaInfo load f = (Inr info, ?g\<lparr>lf_pos := 44 + length ?d\<rparr>)"
    by (simp add: metaInfo_def len load Let_def)
  have "binaryDataOffset f = (Inr (word_of_nat (44 + length ?d)), ?g)"
    by (simp add: binaryDataOffset_def len n)
  moreover have "fst (binaryDataOffset (?g\<lparr>lf_pos := 44 + length ?d\<rparr>)) =
      Inr (word_of_nat (44 + length ?d))"
    using n0 by (simp add: binaryDataOffset_def metaInfoLength_def n)
  moreover have "drop (44 + length ?d) (lf_content f) = img"
    by (simp add: f)
  ultimately show ?thesis using meta off by force
qed

theorem layer_pack_roundtrip_witness:
  "\<exists>f f' f'' off.
     LayerPackager_pack
       \<lparr>env_open = None, env_write_magic = None, env_write_size = None, env_write_data = None,
        env_mkfs = Inr [1, 2, 3], env_cat = None\<rparr> (Inr demo_info) (\<lambda>_. [123, 125]) = Inr f \<and>
     metaInfo (\<lambda>_. Inr demo_info) f = (Inr demo_info, f') \<and>
     binaryDataOffset f = (Inr off, f'') \<and> unat off = 46 \<and> drop 46 (lf_content f) = [1, 2, 3]"
proof -
  let ?env = "\<lparr>env_open = None, env_write_magic = None, env_write_size = None,
    env_write_data = None, env_mkfs = Inr [1, 2, 3], env_cat = None\<rparr> :: pack_env"
  obtain f where f: "LayerPackager_pack ?env (Inr demo_info) (\<lambda>_. [123, 125]) = Inr f"
    by (simp add: LayerPackager_pack_def Let_def LayerFile_New_prefix)
  from layer_pack_roundtrip [OF f, of "[1, 2, 3]" "\<lambda>_. Inr demo_info"] f show ?thesis
    by fastforce
qed

text \<open>
  A failing \<open>cat\<close> is not reported: \<open>pack\<close> returns a layer file that ends after the meta
  information and holds no image at all.
\<close>

theorem layer_pack_cat_failure_ignored:
  assumes "env_open env = None" and "env_write_magic env = None" and "env_write_size env = None"
    and "env_write_data env = None" and "env_mkfs env = Inr img" and "env_cat env = Some e"
  shows "\<exists>f. LayerPackager_pack env (Inr info) dump = Inr f \<and>
    lf_content f = magicNumber @ le32 (word_of_nat (length (dump info))) @ dump info"
  using assms by (simp add: LayerPackager_pack_def Let_def LayerFile_New_prefix)

theorem layer_pack_cat_failure_ignored_witness:
  "\<exists>f. LayerPackager_pack
     \<lparr>env_open = None, env_write_magic = None, env_write_size = None, env_write_data = None,
      env_mkfs = Inr [1], env_cat = Some (Err ''exec'' ''sh'' (-1))\<rparr>
     (Inr demo_info) (\<lambda>_. [123, 125]) = Inr f \<and>
   lf_content f = magicNumber @ le32 2 @ [123, 125]"
  using layer_pack_cat_failure_ignored [of
      "\<lparr>env_open = None, env_write_magic = None, env_write_size = None, env_write_data = None,
        env_mkfs = Inr [1], env_cat = Some (Err ''exec'' ''sh'' (-1))\<rparr>" "[1]"
      "Err ''exec'' ''sh'' (-1)" demo_info "\<lambda>_. [123, 125]"] by simp

end
