(* ===== verification/Uab_File.thy ===== *)
theory Uab_File
  imports Bytes Package_Info
begin

text \<open>
  The universal application bundle: \<open>libs/linglong/src/linglong/package/uab_file.{h,cpp}\<close>. A UAB is
  an ELF file whose sections hold the meta information, a read-only file system image and an
  optional signature archive. libelf is the record \<open>elf_view\<close> (what it reports of the file), the
  JSON library the parameters \<open>parse\<close> and \<open>get\<close>, Qt's SHA-256 the parameter \<open>sha256hex\<close>; results of
  system calls and child processes are arguments. Functions declared \<open>noexcept\<close> in which an exception
  can escape return an \<open>option\<close>: \<open>None\<close> is \<open>std::terminate\<close>.
\<close>

section \<open>State\<close>

record gelf_shdr =
  sh_name :: "string option"
  sh_offset :: u64
  sh_size :: u64

text \<open>
  \<open>elf_sections\<close> are the sections in the order of \<open>elf_nextscn\<close>, \<open>None\<close> where \<open>gelf_getshdr\<close> fails;
  \<open>sh_name\<close> is what \<open>elf_strptr\<close> gives for the section (\<open>None\<close> is a null pointer).
\<close>

record elf_view =
  elf_shstrndx_ok :: bool
  elf_sections :: "gelf_shdr option list"
  elf_msg :: string

record uab_sections =
  sections_bundle :: string
  sections_icon :: "string option"

record uab_layer =
  layer_info :: package_info_v2
  layer_minified :: bool

record uab_meta =
  meta_digest :: string
  meta_layers :: "uab_layer list"
  meta_sections :: uab_sections
  meta_uuid :: string
  meta_version :: string

record uab_file =
  uab_fileName :: string
  uab_content :: bytes
  uab_pos :: nat
  uab_elf :: elf_view
  uab_metaInfo :: "uab_meta option"
  uab_mountPoint :: string

section \<open>Operations\<close>

text \<open>
  \<open>loadFromFile\<close>. The second message has no place marker, so \<open>arg\<close> adds nothing to it.
\<close>

definition loadFromFile :: "string \<Rightarrow> string + bytes \<Rightarrow> elf_view option \<Rightarrow> uab_file result" where
  "loadFromFile input opened elf =
     (case opened of
        Inl why \<Rightarrow> Inl (Err ''load uab file'' (''open uab failed: '' @ why) (-1))
      | Inr content \<Rightarrow>
         (case elf of
            None \<Rightarrow> Inl (Err ''load uab file'' ''libelf err:'' (-1))
          | Some e \<Rightarrow> Inr \<lparr>uab_fileName = input, uab_content = content, uab_pos = 0, uab_elf = e,
                           uab_metaInfo = None, uab_mountPoint = []\<rparr>))"

text \<open>The destructor: the commands it runs.\<close>

definition UABFile_dtor :: "uab_file \<Rightarrow> (string \<times> string list) list" where
  "UABFile_dtor f = (if uab_mountPoint f \<noteq> [] then [(''umount'', [uab_mountPoint f])] else [])"

definition section_named :: "string \<Rightarrow> gelf_shdr \<Rightarrow> bool" where
  "section_named section sh = (section = (case sh_name sh of None \<Rightarrow> [] | Some s \<Rightarrow> s))"

fun next_section :: "string \<Rightarrow> string \<Rightarrow> gelf_shdr option list \<Rightarrow> gelf_shdr result" where
  "next_section m section [] =
     Inl (Err ''get uab section header'' (''couldn't found section '' @ section) (-1))"
| "next_section m section (None # scns) =
     Inl (Err ''get uab section header'' (''failed to get section header of bundle: '' @ m) (-1))"
| "next_section m section (Some sh # scns) =
     (if section_named section sh then Inr sh else next_section m section scns)"

definition getSectionHeader :: "string \<Rightarrow> uab_file \<Rightarrow> gelf_shdr result" where
  "getSectionHeader section f =
     (let e = uab_elf f in
      if \<not> elf_shstrndx_ok e
      then Inl (Err ''get uab section header''
                  (''failed to get section header index of bundle: '' @ elf_msg e) (-1))
      else next_section (elf_msg e) section (elf_sections e))"

text \<open>\<open>QFile::seek\<close> takes a signed 64-bit offset and refuses a negative one.\<close>

definition QFile_seek :: "u64 \<Rightarrow> uab_file \<Rightarrow> uab_file" where
  "QFile_seek off f = (if unat off < 2 ^ 63 then f\<lparr>uab_pos := unat off\<rparr> else f)"

text \<open>\<open>QIODevice::read(maxlen)\<close>, with a signed 64-bit length.\<close>

definition QFile_read :: "u64 \<Rightarrow> uab_file \<Rightarrow> bytes" where
  "QFile_read n f =
     (if unat n < 2 ^ 63 then read_at (uab_content f) (uab_pos f) (unat n) else [])"

text \<open>
  \<open>getMetaInfo\<close>: \<open>parse\<close> is \<open>json::parse\<close> (\<open>Inl (Some what)\<close> a parse error, \<open>Inl None\<close> another
  exception), \<open>get\<close> the conversion to \<open>UabMetaInfo\<close>, outside the \<open>try\<close> block.
\<close>

definition getMetaInfo ::
    "(bytes \<Rightarrow> string option + 'json) \<Rightarrow> ('json \<Rightarrow> uab_meta option) \<Rightarrow> uab_file \<Rightarrow>
     (uab_meta result \<times> uab_file) option" where
  "getMetaInfo parse get f =
     (let trace = ''get metaInfo from uab'' in
      case uab_metaInfo f of Some i \<Rightarrow> Some (Inr i, f) | None \<Rightarrow>
      case getSectionHeader ''linglong.meta'' f of
        Inl e \<Rightarrow> Some (Inl (Err_wrap trace e), f)
      | Inr sh \<Rightarrow>
         (let raw = QFile_read (sh_size sh) (QFile_seek (sh_offset sh) f);
              f' = f\<lparr>uab_pos := 0\<rparr> in
          if raw = [] then Some (Inl (Err trace ''couldn't read metaInfo from uab: '' (-1)), f')
          else case parse raw of
            Inl (Some what) \<Rightarrow> Some (Inl (Err trace (''parsing metaInfo error: '' @ what) (-1)), f')
          | Inl None \<Rightarrow> Some (Inl (Err trace ''unknown exception has been catch'' (-1)), f')
          | Inr content \<Rightarrow>
             (case get content of
                None \<Rightarrow> None
              | Some i \<Rightarrow> Some (Inr i, f'\<lparr>uab_metaInfo := Some i\<rparr>))))"

text \<open>
  The loop of \<open>verify\<close> reads whole buffers of 4096 bytes; \<open>bundleLength\<close> is an unsigned 64-bit
  counter, for which \<open>\<le> 0\<close> means zero. The digest stays empty when the file ends first.
\<close>

function verify_loop :: "(bytes \<Rightarrow> string) \<Rightarrow> bytes \<Rightarrow> nat \<Rightarrow> u64 \<Rightarrow> bytes \<Rightarrow> string" where
  "verify_loop sha256hex content pos bundleLength added =
     (let buf = read_at content pos 4096 in
      if buf = [] then []
      else let added' = added @ buf; left = bundleLength - word_of_nat (length buf)
           in if left = 0 then sha256hex added'
              else verify_loop sha256hex content (pos + length buf) left added')"
  by pat_completeness auto
termination
  by (relation "measure (\<lambda>(_, content, pos, _). length content - pos)") (auto simp: read_at_def)

definition uab_verify ::
    "(bytes \<Rightarrow> string option + 'json) \<Rightarrow> ('json \<Rightarrow> uab_meta option) \<Rightarrow> (bytes \<Rightarrow> string) \<Rightarrow>
     uab_file \<Rightarrow> (bool result \<times> uab_file) option" where
  "uab_verify parse get sha256hex f =
     (let trace = ''verify uab'' in
      case getMetaInfo parse get f of
        None \<Rightarrow> None
      | Some (Inl e, f') \<Rightarrow> Some (Inl (Err_wrap trace e), f')
      | Some (Inr i, f') \<Rightarrow>
         (let bundleSection = sections_bundle (meta_sections i) in
          case getSectionHeader bundleSection f' of
            Inl e \<Rightarrow> Some (Inl (Err trace
                (''couldn't find bundle section which named '' @ bundleSection) (-1)), f')
          | Inr sh \<Rightarrow>
             (let digest = verify_loop sha256hex (uab_content f')
                             (uab_pos (QFile_seek (sh_offset sh) f')) (sh_size sh) []
              in Some (Inr (meta_digest i = digest), f'\<lparr>uab_pos := 0\<rparr>))))"

text \<open>
  \<open>mountUab\<close>: \<open>runtimeLocation\<close> is the writable runtime location, \<open>mkdirs\<close> the error (if any) of
  \<open>create_directories\<close>, \<open>exec\<close> runs a child process.
\<close>

definition mountUab ::
    "(bytes \<Rightarrow> string option + 'json) \<Rightarrow> ('json \<Rightarrow> uab_meta option) \<Rightarrow> string \<Rightarrow>
     (string \<Rightarrow> string option) \<Rightarrow> (string \<Rightarrow> string list \<Rightarrow> string result) \<Rightarrow> uab_file \<Rightarrow>
     (string result \<times> uab_file) option" where
  "mountUab parse get runtimeLocation mkdirs exec f =
     (let trace = ''mount uab bundle'' in
      case getMetaInfo parse get f of
        None \<Rightarrow> None
      | Some (Inl e, f') \<Rightarrow> Some (Inl (Err_wrap trace e), f')
      | Some (Inr i, f') \<Rightarrow>
         (case getSectionHeader (sections_bundle (meta_sections i)) f' of
            Inl e \<Rightarrow> Some (Inl (Err_wrap trace e), f')
          | Inr sh \<Rightarrow>
             (let uabDir = runtimeLocation @ ''/linglong/UAB/'' @ meta_uuid i in
              case mkdirs uabDir of
                Some why \<Rightarrow>
                  Some (Inl (Err trace (''failed create directory'' @ uabDir @ '':'' @ why) (-1)), f')
              | None \<Rightarrow>
                 (case exec ''erofsfuse'' [''--offset='' @ show_nat (unat (sh_offset sh)),
                                          uab_fileName f', uabDir] of
                    Inl e \<Rightarrow> Some (Inl (Err_wrap trace e), f')
                  | Inr _ \<Rightarrow> Some (Inr uabDir, f'\<lparr>uab_mountPoint := uabDir\<rparr>)))))"

text \<open>
  The results of successive \<open>read\<close> (or \<open>write\<close>) calls: interrupted, failed with another \<open>errno\<close>,
  or willing to transfer up to \<open>k\<close> bytes.
\<close>

datatype sys_result = Interrupted | Failed string | Upto nat

fun sign_write :: "bytes \<Rightarrow> sys_result list \<Rightarrow> ((error + unit) \<times> sys_result list) option" where
  "sign_write chunk [] = None"
| "sign_write chunk (Interrupted # ws) = sign_write chunk ws"
| "sign_write chunk (Failed m # ws) =
     Some (Inl (Err ''extract sign data from uab'' (''write to sign.tar error:'' @ m) (-1)), ws)"
| "sign_write chunk (Upto k # ws) =
     (if min k (length chunk) \<noteq> length chunk
      then Some (Inl (Err ''extract sign data from uab''
                       ''write to sign.tar failed: byte mismatch'' (-1)), ws)
      else Some (Inr (), ws))"

text \<open>
  The copy loop of \<open>extractSignData\<close>. It consumes the results of the system calls; \<open>None\<close> says that
  it is still running when they are used up.
\<close>

fun sign_copy ::
    "bytes \<Rightarrow> sys_result list \<Rightarrow> sys_result list \<Rightarrow> nat \<Rightarrow> u64 \<Rightarrow> bytes \<Rightarrow> bytes result option" where
  "sign_copy content rds wrs pos totalBytes tar =
     (if totalBytes = 0 then Some (Inr tar)
      else case rds of
        [] \<Rightarrow> None
      | Interrupted # rds' \<Rightarrow> sign_copy content rds' wrs pos totalBytes tar
      | Failed m # rds' \<Rightarrow>
          Some (Inl (Err ''extract sign data from uab''
                       (''read from sign section error:'' @ m) (-1)))
      | Upto k # rds' \<Rightarrow>
         (let bytesRead = (if totalBytes > 4096 then 4096 else unat totalBytes);
              buf = read_at content pos (min k bytesRead)
          in case sign_write buf wrs of
               None \<Rightarrow> None
             | Some (Inl e, wrs') \<Rightarrow> Some (Inl e)
             | Some (Inr _, wrs') \<Rightarrow>
                 sign_copy content rds' wrs' (pos + length buf)
                   (totalBytes - word_of_nat (length buf)) (tar @ buf)))"

record sign_env =
  sg_tempDir :: "string + string"
  sg_tmpName :: string
  sg_mkdirs :: "string \<Rightarrow> string option"
  sg_open :: "string \<Rightarrow> string option"
  sg_reads :: "sys_result list"
  sg_writes :: "sys_result list"
  sg_fsync :: "string option"
  sg_close :: "string option"
  sg_tar :: "bytes \<Rightarrow> string \<Rightarrow> unit result"

text \<open>
  \<open>extractSignData\<close>: \<open>Inr None\<close> is the empty path of an unsigned bundle. \<open>sg_tar\<close> unpacks an
  archive into a directory; the archive itself is removed on every way out.
\<close>

definition extractSignData :: "sign_env \<Rightarrow> uab_file \<Rightarrow> (string option result \<times> uab_file) option" where
  "extractSignData env f =
     (let trace = ''extract sign data from uab''; fail = (\<lambda>m. Inl (Err trace m (-1))) in
      if uab_mountPoint f = [] then Some (fail ''uab is not mounted'', f)
      else case getSectionHeader ''linglong.bundle.sign'' f of
        Inl e \<Rightarrow> Some (Inr None, f)
      | Inr sh \<Rightarrow>
      case sg_tempDir env of Inl m \<Rightarrow> Some (fail m, f) | Inr tempDir \<Rightarrow>
      let root = tempDir @ ''/uab-temp-layer-'' @ sg_tmpName env;
          destination = root @ ''/entries/share/deepin-elf-verify/linglong/.elfsign'';
          tarFile = destination @ ''/sign.tar'' in
      case sg_mkdirs env destination of Some m \<Rightarrow> Some (fail m, f) | None \<Rightarrow>
      case sg_open env tarFile of
        Some m \<Rightarrow> Some (fail (''open'' @ tarFile @ '' failed:'' @ m), f)
      | None \<Rightarrow>
      let f' = f\<lparr>uab_pos := 0\<rparr> in
      case sign_copy (uab_content f) (sg_reads env) (sg_writes env)
             (uab_pos (QFile_seek (sh_offset sh) f)) (sh_size sh) [] of
        None \<Rightarrow> None
      | Some (Inl e) \<Rightarrow> Some (Inl e, f')
      | Some (Inr tar) \<Rightarrow>
      (case sg_fsync env of Some m \<Rightarrow> Some (fail (''fsync sign.tar error: '' @ m), f') | None \<Rightarrow>
      (case sg_close env of Some m \<Rightarrow> Some (fail (''failed to close tar: '' @ m), f') | None \<Rightarrow>
      (case sg_tar env tar destination of
         Inl e \<Rightarrow> Some (Inl (Err_wrap trace e), f')
       | Inr _ \<Rightarrow> Some (Inr (Some root), f')))))"

section \<open>Lemmas\<close>

declare verify_loop.simps [simp del] sign_copy.simps [simp del]

lemma unat_word64_small: "n < 2 ^ 64 \<Longrightarrow> unat (word_of_nat n :: u64) = n"
  by (simp add: unsigned_of_nat take_bit_nat_eq_self)

lemma unat_minus_of_nat:
  assumes "b < 2 ^ 64"
  shows "unat (n - word_of_nat b :: u64) = (if b \<le> unat n then unat n - b else unat n + 2 ^ 64 - b)"
  using assms unat_sub_if' [of n "word_of_nat b"] unat_word64_small [of b] by simp

lemma QFile_seek_pos: "unat off < 2 ^ 63 \<Longrightarrow> uab_pos (QFile_seek off f) = unat off"
  by (simp add: QFile_seek_def)

lemma read_at_length_self: "read_at f p (length (read_at f p n)) = read_at f p n"
  by (auto simp: read_at_def min_def)

lemma read_at_split: "read_at f p (a + b) = read_at f p a @ read_at f (p + a) b"
  by (simp add: read_at_def take_add add.commute)

text \<open>
  What the digest loop computes: the hash of exactly \<open>n\<close> bytes, provided that the position after
  them is reached at the end of a buffer.
\<close>

definition whole_buffers :: "bytes \<Rightarrow> nat \<Rightarrow> nat \<Rightarrow> bool" where
  "whole_buffers content pos n \<longleftrightarrow>
     n \<noteq> 0 \<and> pos + n \<le> length content \<and> (4096 dvd n \<or> pos + n = length content)"

lemma whole_buffers_step:
  assumes "b = min 4096 (length content - pos)" "0 < b" "b \<le> n" "n \<noteq> b"
  shows "whole_buffers content (pos + b) (n - b) = whole_buffers content pos n"
proof (cases "b = 4096")
  case True
  then show ?thesis using assms by (auto simp: whole_buffers_def dvd_minus_self)
next
  case False
  then have "pos + b = length content" using assms by arith
  then show ?thesis using assms by (auto simp: whole_buffers_def)
qed

lemma whole_buffers_last:
  assumes "b = min 4096 (length content - pos)" "0 < b"
  shows "whole_buffers content pos b"
  using assms by (auto simp: whole_buffers_def min_def)

lemma not_whole_buffers_short:
  assumes "b = min 4096 (length content - pos)" "n < b"
  shows "\<not> whole_buffers content pos n"
  using assms by (auto simp: whole_buffers_def dest: dvd_imp_le)

lemma verify_loop_spec:
  assumes "length content < 2 ^ 63"
  shows "verify_loop h content pos n added =
    (if whole_buffers content pos (unat n) then h (added @ read_at content pos (unat n)) else [])"
  using assms
proof (induction h content pos n added rule: verify_loop.induct)
  case (1 h content pos n added)
  define buf where "buf = read_at content pos 4096"
  define b where "b = length buf"
  have b: "b = min 4096 (length content - pos)" by (simp add: b_def buf_def length_read_at)
  have buf: "buf = read_at content pos b"
    by (simp add: buf_def b read_at_def min_def)
  show ?case
  proof (cases "buf = []")
    case True
    then have "length content \<le> pos" by (auto simp: buf_def read_at_def)
    then show ?thesis using True
      by (subst verify_loop.simps) (auto simp: buf_def whole_buffers_def Let_def)
  next
    case False
    then have b0: "0 < b" by (simp add: b_def)
    have b64: "b < 2 ^ 64" using b by simp
    define left where "left = n - word_of_nat b"
    have unfold: "verify_loop h content pos n added =
        (if left = 0 then h (added @ buf) else verify_loop h content (pos + b) left (added @ buf))"
      using False by (subst verify_loop.simps) (simp add: Let_def buf_def b_def left_def)
    have left: "unat left = (if b \<le> unat n then unat n - b else unat n + 2 ^ 64 - b)"
      unfolding left_def by (rule unat_minus_of_nat [OF b64])
    show ?thesis
    proof (cases "left = 0")
      case True
      then have "unat n = b" using unat_word64_small [OF b64] by (simp add: left_def)
      then show ?thesis using True whole_buffers_last [OF b b0] buf by (simp add: unfold)
    next
      case nz: False
      have IH: "verify_loop h content (pos + b) left (added @ buf) =
          (if whole_buffers content (pos + b) (unat left)
           then h ((added @ buf) @ read_at content (pos + b) (unat left)) else [])"
        using "1.IH" [OF buf_def False refl left_def [unfolded b_def]] nz "1.prems"
        by (simp add: b_def)
      show ?thesis
      proof (cases "b \<le> unat n")
        case True
        have "unat n \<noteq> b" using nz True left by (auto simp: unat_eq_zero)
        then show ?thesis
          using True left nz whole_buffers_step [OF b b0 True] read_at_split [of content pos b "unat n - b"]
          by (simp add: unfold IH buf [symmetric])
      next
        case False
        have "length content < pos + b + unat left" using False left b "1.prems" by simp
        then have "\<not> whole_buffers content (pos + b) (unat left)" by (simp add: whole_buffers_def)
        then show ?thesis
          using nz not_whole_buffers_short [OF b, of "unat n"] False by (simp add: unfold IH)
      qed
    qed
  qed
qed

lemma sign_write_Some_Inr:
  "sign_write chunk ws = Some (Inr u, ws') \<Longrightarrow> \<exists>ds. ws = ds @ ws'"
  by (induction chunk ws rule: sign_write.induct) (auto split: if_splits)

definition sign_chunk_of :: "bytes \<Rightarrow> nat \<Rightarrow> nat \<Rightarrow> u64 \<Rightarrow> bytes" where
  "sign_chunk_of content pos k n = read_at content pos (min k (if n > 4096 then 4096 else unat n))"

text \<open>One round of the copy loop moves at most what is left and never passes the end of the file.\<close>

lemma sign_chunk:
  fixes n :: u64
  assumes "buf = sign_chunk_of content pos k n"
  shows "length buf \<le> unat n" "buf = read_at content pos (length buf)"
    "unat (n - word_of_nat (length buf)) = unat n - length buf"
proof -
  have *: "(if n > 4096 then 4096 else unat n) \<le> unat n" by (simp add: word_less_nat_alt)
  then show le: "length buf \<le> unat n" by (simp add: assms sign_chunk_of_def length_read_at)
  show "buf = read_at content pos (length buf)" by (simp add: assms sign_chunk_of_def read_at_length_self)
  have "length buf < 2 ^ 64" using le unsigned_less [of n, where ?'a = nat] by (simp del: unsigned_less)
  then show "unat (n - word_of_nat (length buf)) = unat n - length buf"
    using le by (simp add: unat_minus_of_nat)
qed

text \<open>The equations of the copy loop, one per kind of result.\<close>

lemma sign_copy_0: "sign_copy content rds wrs pos 0 tar = Some (Inr tar)"
  by (simp add: sign_copy.simps)

lemma sign_copy_Nil: "n \<noteq> 0 \<Longrightarrow> sign_copy content [] wrs pos n tar = None"
  by (simp add: sign_copy.simps)

lemma sign_copy_Interrupted:
  "sign_copy content (Interrupted # rds) wrs pos n tar = sign_copy content rds wrs pos n tar"
  by (cases "n = 0") (simp add: sign_copy_0, subst sign_copy.simps, simp)

lemma sign_copy_Failed:
  "n \<noteq> 0 \<Longrightarrow> \<exists>e. sign_copy content (Failed m # rds) wrs pos n tar = Some (Inl e)"
  by (subst sign_copy.simps) simp

lemma sign_copy_Upto:
  assumes "n \<noteq> 0" and "buf = sign_chunk_of content pos k n"
  shows "sign_copy content (Upto k # rds) wrs pos n tar =
    (case sign_write buf wrs of
       None \<Rightarrow> None
     | Some (Inl e, wrs') \<Rightarrow> Some (Inl e)
     | Some (Inr _, wrs') \<Rightarrow>
         sign_copy content rds wrs' (pos + length buf) (n - word_of_nat (length buf)) (tar @ buf))"
  by (subst sign_copy.simps) (simp only: assms sign_chunk_of_def Let_def if_False list.case sys_result.case)

lemmas sign_copy_eqs = sign_copy_0 sign_copy_Nil sign_copy_Interrupted

lemma sign_copy_complete:
  "sign_copy content rds wrs pos n tar = Some (Inr out) \<Longrightarrow>
     out = tar @ read_at content pos (unat n) \<and> length (read_at content pos (unat n)) = unat n"
proof (induction rds arbitrary: wrs pos n tar)
  case Nil
  then show ?case by (cases "n = 0") (simp_all add: sign_copy_eqs read_at_def)
next
  case (Cons r rds)
  show ?case
  proof (cases "n = 0")
    case True
    then show ?thesis using Cons.prems by (simp add: sign_copy_0 read_at_def)
  next
    case n: False
    show ?thesis
    proof (cases r)
      case Interrupted
      then show ?thesis using Cons by (simp add: sign_copy_Interrupted)
    next
      case (Failed m)
      then show ?thesis using Cons.prems sign_copy_Failed [OF n, of content m rds wrs pos tar] by auto
    next
      case (Upto k)
      define buf where "buf = sign_chunk_of content pos k n"
      note chunk = sign_chunk [OF buf_def]
      obtain wrs' where "sign_copy content rds wrs' (pos + length buf)
          (n - word_of_nat (length buf)) (tar @ buf) = Some (Inr out)"
        using Cons.prems by (auto simp: Upto sign_copy_Upto [OF n buf_def]
            split: option.splits sum.splits prod.splits)
      from Cons.IH [OF this] show ?thesis
        using read_at_split [of content pos "length buf" "unat n - length buf"] chunk by simp
    qed
  qed
qed

text \<open>
  System calls that never fail: every \<open>read\<close> is interrupted or offers at least \<open>k\<close> bytes; \<open>rounds\<close>
  counts the ones that are not interrupted.
\<close>

definition willing :: "nat \<Rightarrow> sys_result list \<Rightarrow> bool" where
  "willing k rs = list_all (\<lambda>r. case r of Interrupted \<Rightarrow> True | Failed _ \<Rightarrow> False | Upto j \<Rightarrow> k \<le> j) rs"

definition rounds :: "sys_result list \<Rightarrow> nat" where
  "rounds rs = length (filter (\<lambda>r. r \<noteq> Interrupted) rs)"

lemma sign_write_willing:
  assumes "willing 4096 ws" and "length chunk \<le> 4096" and "0 < rounds ws"
  shows "\<exists>ws'. sign_write chunk ws = Some (Inr (), ws') \<and> willing 4096 ws' \<and> rounds ws = Suc (rounds ws')"
  using assms by (induction chunk ws rule: sign_write.induct) (auto simp: willing_def rounds_def)

lemma sign_write_willing_cases:
  assumes "willing 4096 ws" and "length chunk \<le> 4096"
  shows "sign_write chunk ws = None \<or> (\<exists>ws'. sign_write chunk ws = Some (Inr (), ws') \<and> willing 4096 ws')"
  using assms by (induction chunk ws rule: sign_write.induct) (auto simp: willing_def)

lemma length_sign_chunk: "length (sign_chunk_of content pos k n) \<le> 4096"
  by (auto simp: sign_chunk_of_def length_read_at word_less_nat_alt)

lemma sign_chunk_progress:
  assumes "0 < k" "n \<noteq> 0" "pos < length content"
  shows "0 < length (sign_chunk_of content pos k n)"
  using assms by (simp add: sign_chunk_of_def length_read_at unat_gt_0)

lemma sign_copy_returns:
  assumes "willing 1 rds" "willing 4096 wrs" "unat n \<le> rounds rds" "unat n \<le> rounds wrs"
    and "unat n \<le> length content - pos"
  shows "\<exists>out. sign_copy content rds wrs pos n tar = Some (Inr out)"
  using assms
proof (induction rds arbitrary: wrs pos n tar)
  case Nil
  then show ?case by (simp add: rounds_def unat_eq_zero sign_copy_0)
next
  case (Cons r rds)
  show ?case
  proof (cases "n = 0")
    case True
    then show ?thesis by (simp add: sign_copy_0)
  next
    case n: False
    then have pos: "pos < length content" using Cons.prems(5) by (simp add: unat_gt_0 [symmetric])
    show ?thesis
    proof (cases r)
      case Interrupted
      then show ?thesis using Cons by (simp add: sign_copy_Interrupted willing_def rounds_def)
    next
      case (Failed m)
      then show ?thesis using Cons.prems by (simp add: willing_def)
    next
      case (Upto k)
      define buf where "buf = sign_chunk_of content pos k n"
      note chunk = sign_chunk [OF buf_def]
      have "0 < k" using Cons.prems(1) Upto by (simp add: willing_def)
      then have "0 < length buf" using sign_chunk_progress n pos by (simp add: buf_def)
      then obtain b where b: "length buf = Suc b" by (cases "length buf") auto
      have "0 < rounds wrs" using n Cons.prems(4) by (simp add: unat_gt_0 [symmetric])
      then obtain wrs' where w: "sign_write buf wrs = Some (Inr (), wrs')" "willing 4096 wrs'"
          "rounds wrs = Suc (rounds wrs')"
        using sign_write_willing [OF Cons.prems(2), of buf] length_sign_chunk by (auto simp: buf_def)
      have "\<exists>out. sign_copy content rds wrs' (pos + length buf) (n - word_of_nat (length buf))
          (tar @ buf) = Some (Inr out)"
        by (rule Cons.IH) (use Cons.prems w chunk b Upto in \<open>auto simp: willing_def rounds_def\<close>)
      then show ?thesis using w by (simp add: Upto sign_copy_Upto [OF n buf_def])
    qed
  qed
qed

lemma sign_copy_truncated:
  assumes "willing 0 rds" "willing 4096 wrs" and "length content - pos < unat n"
  shows "sign_copy content rds wrs pos n tar = None"
  using assms
proof (induction rds arbitrary: wrs pos n tar)
  case Nil
  then show ?case by (cases "n = 0") (simp_all add: sign_copy_Nil)
next
  case (Cons r rds)
  have n: "n \<noteq> 0" using Cons.prems(3) by auto
  show ?case
  proof (cases r)
    case Interrupted
    then show ?thesis using Cons by (simp add: sign_copy_Interrupted willing_def)
  next
    case (Failed m)
    then show ?thesis using Cons.prems by (simp add: willing_def)
  next
    case (Upto k)
    define buf where "buf = sign_chunk_of content pos k n"
    note chunk = sign_chunk [OF buf_def]
    have "length buf \<le> length content - pos" by (simp add: buf_def sign_chunk_of_def length_read_at)
    then have left: "length content - (pos + length buf) < unat (n - word_of_nat (length buf))"
      using chunk Cons.prems(3) by simp
    have "willing 0 rds" using Cons.prems(1) by (simp add: willing_def)
    then have "sign_copy content rds ws (pos + length buf) (n - word_of_nat (length buf)) (tar @ buf) = None"
      if "willing 4096 ws" for ws
      using Cons.IH [OF _ that left] by blast
    then show ?thesis
      using sign_write_willing_cases [OF Cons.prems(2), of buf]
        length_sign_chunk [of content pos k n, folded buf_def]
      by (auto simp: Upto sign_copy_Upto [OF n buf_def])
  qed
qed

section \<open>Properties\<close>

text \<open>
  \<open>verify\<close> compares the digest of the meta information with the hash of exactly the bundle
  section whenever the section is a positive multiple of the 4096-byte buffer (EROFS images are) or
  is the last thing in the file; the counter reaches zero only then. For any other section the
  computed digest is empty, so every non-empty expected digest is rejected. The file position is
  reset to the start in both cases.
\<close>

theorem uab_verify_spec:
  assumes meta: "getMetaInfo parse get f = Some (Inr i, f')"
    and sec: "getSectionHeader (sections_bundle (meta_sections i)) f' = Inr sh"
    and off: "unat (sh_offset sh) < 2 ^ 63" and len: "length (uab_content f') < 2 ^ 63"
  shows "uab_verify parse get sha256hex f =
    Some (Inr (meta_digest i =
      (if whole_buffers (uab_content f') (unat (sh_offset sh)) (unat (sh_size sh))
       then sha256hex (read_at (uab_content f') (unat (sh_offset sh)) (unat (sh_size sh)))
       else [])), f'\<lparr>uab_pos := 0\<rparr>)"
  by (simp add: uab_verify_def Let_def meta sec QFile_seek_pos [OF off] verify_loop_spec [OF len])

definition demo_uab :: uab_file where
  "demo_uab = \<lparr>uab_fileName = ''a.uab'', uab_content = [1, 2, 3, 4, 5, 6, 7], uab_pos = 0,
     uab_elf = \<lparr>elf_shstrndx_ok = True,
       elf_sections = [Some \<lparr>sh_name = Some ''linglong.meta'', sh_offset = 0, sh_size = 2\<rparr>,
                       Some \<lparr>sh_name = Some ''linglong.bundle'', sh_offset = 4, sh_size = 3\<rparr>,
                       Some \<lparr>sh_name = Some ''linglong.bundle.sign'', sh_offset = 2, sh_size = 3\<rparr>],
       elf_msg = []\<rparr>,
     uab_metaInfo = None, uab_mountPoint = ''/run/u''\<rparr>"

definition demo_uab_meta :: uab_meta where
  "demo_uab_meta = \<lparr>meta_digest = ''3'', meta_layers = [\<lparr>layer_info = demo_info, layer_minified = False\<rparr>],
     meta_sections = \<lparr>sections_bundle = ''linglong.bundle'', sections_icon = None\<rparr>,
     meta_uuid = ''u'', meta_version = ''1''\<rparr>"

lemmas uab_eval = demo_uab_def demo_uab_meta_def getMetaInfo_def getSectionHeader_def section_named_def
  QFile_read_def QFile_seek_def read_at_def Let_def

theorem uab_verify_spec_witness:
  "uab_verify (\<lambda>_. Inr ()) (\<lambda>_. Some demo_uab_meta) (\<lambda>b. if length b = 3 then ''3'' else []) demo_uab =
     Some (Inr True, demo_uab\<lparr>uab_metaInfo := Some demo_uab_meta\<rparr>)"
proof -
  have "getMetaInfo (\<lambda>_. Inr ()) (\<lambda>_. Some demo_uab_meta) demo_uab =
      Some (Inr demo_uab_meta, demo_uab\<lparr>uab_metaInfo := Some demo_uab_meta\<rparr>)"
    by (simp add: uab_eval)
  from uab_verify_spec [OF this, of "\<lparr>sh_name = Some ''linglong.bundle'', sh_offset = 4, sh_size = 3\<rparr>"
      "\<lambda>b. if length b = 3 then ''3'' else []"]
  show ?thesis by (simp add: uab_eval whole_buffers_def)
qed

text \<open>
  Signature extraction. When it returns a directory, what was unpacked there is the complete
  signature section, byte for byte, and the file position is back at the start. When every \<open>read\<close>
  makes progress and every \<open>write\<close> takes the whole buffer, however often both are interrupted, at
  most one round per byte is needed and the copy loop returns the section.
\<close>

theorem extractSignData_complete:
  assumes sec: "getSectionHeader ''linglong.bundle.sign'' f = Inr sh"
    and off: "unat (sh_offset sh) < 2 ^ 63"
  shows "(\<forall>root f'. extractSignData env f = Some (Inr (Some root), f') \<longrightarrow>
            (\<exists>sig. sig = read_at (uab_content f) (unat (sh_offset sh)) (unat (sh_size sh)) \<and>
               length sig = unat (sh_size sh) \<and> uab_pos f' = 0 \<and>
               (\<exists>u. sg_tar env sig
                  (root @ ''/entries/share/deepin-elf-verify/linglong/.elfsign'') = Inr u)))
       \<and> (unat (sh_offset sh) + unat (sh_size sh) \<le> length (uab_content f) \<longrightarrow>
          willing 1 (sg_reads env) \<longrightarrow> unat (sh_size sh) \<le> rounds (sg_reads env) \<longrightarrow>
          willing 4096 (sg_writes env) \<longrightarrow> unat (sh_size sh) \<le> rounds (sg_writes env) \<longrightarrow>
          extractSignData env f \<noteq> None)"
proof (intro conjI allI impI)
  fix root f'
  assume "extractSignData env f = Some (Inr (Some root), f')"
  then show "\<exists>sig. sig = read_at (uab_content f) (unat (sh_offset sh)) (unat (sh_size sh)) \<and>
      length sig = unat (sh_size sh) \<and> uab_pos f' = 0 \<and>
      (\<exists>u. sg_tar env sig (root @ ''/entries/share/deepin-elf-verify/linglong/.elfsign'') = Inr u)"
    by (auto simp: extractSignData_def Let_def sec QFile_seek_pos [OF off]
        split: if_splits sum.splits option.splits dest!: sign_copy_complete)
next
  assume *: "unat (sh_offset sh) + unat (sh_size sh) \<le> length (uab_content f)" "willing 1 (sg_reads env)"
    "unat (sh_size sh) \<le> rounds (sg_reads env)" "willing 4096 (sg_writes env)"
    "unat (sh_size sh) \<le> rounds (sg_writes env)"
  obtain out where "sign_copy (uab_content f) (sg_reads env) (sg_writes env)
      (unat (sh_offset sh)) (sh_size sh) [] = Some (Inr out)"
    using sign_copy_returns [OF *(2,4,3,5), of "uab_content f" "unat (sh_offset sh)" "[]"] *(1) by fastforce
  then show "extractSignData env f \<noteq> None"
    by (simp add: extractSignData_def Let_def sec QFile_seek_pos [OF off] split: sum.split option.split)
qed

definition demo_sign_env :: sign_env where
  "demo_sign_env = \<lparr>sg_tempDir = Inr ''/tmp'', sg_tmpName = ''x'', sg_mkdirs = (\<lambda>_. None),
     sg_open = (\<lambda>_. None), sg_reads = [Upto 2, Interrupted, Upto 9, Upto 9],
     sg_writes = [Upto 4096, Upto 4096, Interrupted, Upto 4096], sg_fsync = None, sg_close = None,
     sg_tar = (\<lambda>_ _. Inr ())\<rparr>"

theorem extractSignData_complete_witness:
  "extractSignData demo_sign_env demo_uab \<noteq> None"
  using extractSignData_complete [of demo_uab
      "\<lparr>sh_name = Some ''linglong.bundle.sign'', sh_offset = 2, sh_size = 3\<rparr>" demo_sign_env]
  by (simp add: uab_eval demo_sign_env_def willing_def rounds_def)

text \<open>
  On a file that ends inside its signature section the copy loop never returns: \<open>read\<close> gives
  zero bytes at the end of the file, which is neither an error nor progress. However many calls are
  made, the function is still running.
\<close>

theorem extractSignData_truncated_spins:
  assumes "getSectionHeader ''linglong.bundle.sign'' f = Inr sh" and "unat (sh_offset sh) < 2 ^ 63"
    and "uab_mountPoint f \<noteq> []"
    and "length (uab_content f) < unat (sh_offset sh) + unat (sh_size sh)"
    and "unat (sh_offset sh) \<le> length (uab_content f)"
    and "sg_tempDir env = Inr tempDir" and "\<And>d. sg_mkdirs env d = None" and "\<And>d. sg_open env d = None"
    and "willing 0 (sg_reads env)" and "willing 4096 (sg_writes env)"
  shows "extractSignData env f = None"
  using assms sign_copy_truncated [of "sg_reads env" "sg_writes env" "uab_content f"
      "unat (sh_offset sh)" "sh_size sh" "[]"]
  by (simp add: extractSignData_def Let_def QFile_seek_pos)

theorem extractSignData_truncated_spins_witness:
  "extractSignData (demo_sign_env\<lparr>sg_reads := replicate 1000 (Upto 9)\<rparr>)
     (demo_uab\<lparr>uab_content := [1, 2, 3]\<rparr>) = None"
  by (rule extractSignData_truncated_spins [where sh =
        "\<lparr>sh_name = Some ''linglong.bundle.sign'', sh_offset = 2, sh_size = 3\<rparr>" and tempDir = "''/tmp''"])
    (simp_all add: uab_eval demo_sign_env_def willing_def list_all_iff)

end
