(* ===== verification/Sha256.thy ===== *)
theory Sha256
  imports Bytes
begin

unbundle bit_operations_syntax

text \<open>
  The SHA-256 of the bundle header, \<open>apps/uab/header/src/sha256.h\<close>, which checks the image of a
  bundle before it is mounted. The class keeps a partial block \<open>m\<close> of \<open>pos\<close> bytes, the number of
  bits hashed so far and the chaining value \<open>H\<close>; it is modelled as compiled on a little-endian host.
  \<open>sha256_spec\<close> is the definition of FIPS 180-4 on whole messages, and the locale
  \<open>streaming_hash\<close> the contract between the two.
\<close>

section \<open>Functions on words\<close>

definition rotate_right :: "u32 \<Rightarrow> nat \<Rightarrow> u32" where
  "rotate_right x n = drop_bit n x OR push_bit (32 - n) x"

definition to_big_endian32 :: "u32 \<Rightarrow> u32" where
  "to_big_endian32 val =
     drop_bit 24 (val AND 0xff000000) OR drop_bit 8 (val AND 0x00ff0000) OR
     push_bit 8 (val AND 0x0000ff00) OR push_bit 24 (val AND 0x000000ff)"

definition to_big_endian64 :: "u64 \<Rightarrow> u64" where
  "to_big_endian64 val =
     drop_bit 56 (val AND 0xff00000000000000) OR drop_bit 40 (val AND 0x00ff000000000000) OR
     drop_bit 24 (val AND 0x0000ff0000000000) OR drop_bit 8 (val AND 0x000000ff00000000) OR
     push_bit 8 (val AND 0x00000000ff000000) OR push_bit 24 (val AND 0x0000000000ff0000) OR
     push_bit 40 (val AND 0x000000000000ff00) OR push_bit 56 (val AND 0x00000000000000ff)"

definition sum0 :: "u32 \<Rightarrow> u32" where
  "sum0 x = rotate_right x 2 XOR rotate_right x 13 XOR rotate_right x 22"

definition sum1 :: "u32 \<Rightarrow> u32" where
  "sum1 x = rotate_right x 6 XOR rotate_right x 11 XOR rotate_right x 25"

definition sigma0 :: "u32 \<Rightarrow> u32" where
  "sigma0 x = rotate_right x 7 XOR rotate_right x 18 XOR drop_bit 3 x"

definition sigma1 :: "u32 \<Rightarrow> u32" where
  "sigma1 x = rotate_right x 17 XOR rotate_right x 19 XOR drop_bit 10 x"

definition Ch :: "u32 \<Rightarrow> u32 \<Rightarrow> u32 \<Rightarrow> u32" where
  "Ch x y z = (x AND y) XOR ((NOT x) AND z)"

definition Maj :: "u32 \<Rightarrow> u32 \<Rightarrow> u32 \<Rightarrow> u32" where
  "Maj x y z = (x AND y) XOR (x AND z) XOR (y AND z)"

section \<open>The class\<close>

definition sha_K :: "u32 list" where
  "sha_K = concat [
      [0x428a2f98, 0x71374491, 0xb5c0fbcf, 0xe9b5dba5, 0x3956c25b, 0x59f111f1, 0x923f82a4],
      [0xab1c5ed5, 0xd807aa98, 0x12835b01, 0x243185be, 0x550c7dc3, 0x72be5d74, 0x80deb1fe],
      [0x9bdc06a7, 0xc19bf174, 0xe49b69c1, 0xefbe4786, 0x0fc19dc6, 0x240ca1cc, 0x2de92c6f],
      [0x4a7484aa, 0x5cb0a9dc, 0x76f988da, 0x983e5152, 0xa831c66d, 0xb00327c8, 0xbf597fc7],
      [0xc6e00bf3, 0xd5a79147, 0x06ca6351, 0x14292967, 0x27b70a85, 0x2e1b2138, 0x4d2c6dfc],
      [0x53380d13, 0x650a7354, 0x766a0abb, 0x81c2c92e, 0x92722c85, 0xa2bfe8a1, 0xa81a664b],
      [0xc24b8b70, 0xc76c51a3, 0xd192e819, 0xd6990624, 0xf40e3585, 0x106aa070, 0x19a4c116],
      [0x1e376c08, 0x2748774c, 0x34b0bcb5, 0x391c0cb3, 0x4ed8aa4a, 0x5b9cca4f, 0x682e6ff3],
      [0x748f82ee, 0x78a5636f, 0x84c87814, 0x8cc70208, 0x90befffa, 0xa4506ceb, 0xbef9a3f7],
      [0xc67178f2]]"

definition sha_H0 :: "u32 list" where
  "sha_H0 = [0x6a09e667, 0xbb67ae85, 0x3c6ef372, 0xa54ff53a,
     0x510e527f, 0x9b05688c, 0x1f83d9ab, 0x5be0cd19]"

record sha256 =
  sha_pos :: nat
  sha_total :: u64
  sha_H :: "u32 list"
  sha_m :: bytes

definition SHA256_init :: sha256 where
  "SHA256_init = \<lparr>sha_pos = 0, sha_total = 0, sha_H = sha_H0, sha_m = replicate 64 0\<rparr>"

text \<open>\<open>reinterpret_cast<const uint32_t *>(data)[k]\<close>.\<close>

definition word_at :: "bytes \<Rightarrow> nat \<Rightarrow> u32" where
  "word_at data k = load_le32 (data ! (4 * k)) (data ! (4 * k + 1)) (data ! (4 * k + 2)) (data ! (4 * k + 3))"

definition schedule :: "u32 list \<Rightarrow> u32 list" where
  "schedule M =
     foldl (\<lambda>W t. W[t := sigma1 (W ! (t - 2)) + W ! (t - 7) + sigma0 (W ! (t - 15)) + W ! (t - 16)])
       (foldl (\<lambda>W t. W[t := M ! t]) (replicate 64 0) [0..<16]) [16..<64]"

type_synonym regs = "u32 \<times> u32 \<times> u32 \<times> u32 \<times> u32 \<times> u32 \<times> u32 \<times> u32"

fun sha_round :: "u32 list \<Rightarrow> regs \<Rightarrow> nat \<Rightarrow> regs" where
  "sha_round W (a, b, c, d, e, f, g, h) t =
     (let T1 = h + sum1 e + Ch e f g + sha_K ! t + W ! t; T2 = sum0 a + Maj a b c
      in (T1 + T2, a, b, c, d + T1, e, f, g))"

text \<open>One iteration of the outer loop of \<open>transform\<close>, for block \<open>i\<close> of the data.\<close>

definition transform_block :: "bytes \<Rightarrow> u32 list \<Rightarrow> nat \<Rightarrow> u32 list" where
  "transform_block data H i =
     (let M = map (\<lambda>j. to_big_endian32 (word_at data (i * 16 + j))) [0..<16];
          W = schedule M
      in case foldl (sha_round W) (H ! 0, H ! 1, H ! 2, H ! 3, H ! 4, H ! 5, H ! 6, H ! 7) [0..<64] of
           (a, b, c, d, e, f, g, h) \<Rightarrow>
             [H ! 0 + a, H ! 1 + b, H ! 2 + c, H ! 3 + d, H ! 4 + e, H ! 5 + f, H ! 6 + g, H ! 7 + h])"

definition transform :: "bytes \<Rightarrow> nat \<Rightarrow> sha256 \<Rightarrow> sha256" where
  "transform data block_num s = s\<lparr>sha_H := foldl (transform_block data) (sha_H s) [0..<block_num]\<rparr>"

text \<open>\<open>std::copy_n(data, n, &m[p])\<close>.\<close>

definition copy_into :: "bytes \<Rightarrow> nat \<Rightarrow> bytes \<Rightarrow> bytes" where
  "copy_into m p data = take p m @ data @ drop (p + length data) m"

definition sha_block_size :: nat where
  "sha_block_size = 64"

text \<open>The three steps of \<open>update\<close>: complete the partial block, hash whole blocks, keep the rest.\<close>

definition update_fill :: "sha256 \<Rightarrow> bytes \<Rightarrow> sha256 \<times> bytes" where
  "update_fill s data =
     (if sha_pos s \<noteq> 0 \<and> sha_pos s + length data \<ge> sha_block_size
      then let n = sha_block_size - sha_pos s;
               s1 = s\<lparr>sha_m := copy_into (sha_m s) (sha_pos s) (take n data)\<rparr>;
               s2 = transform (sha_m s1) 1 s1
           in (s2\<lparr>sha_total := sha_total s2 + of_nat sha_block_size * 8, sha_pos := 0\<rparr>, drop n data)
      else (s, data))"

definition update_whole :: "sha256 \<Rightarrow> bytes \<Rightarrow> sha256 \<times> bytes" where
  "update_whole s data =
     (if length data \<ge> sha_block_size
      then let blocks = length data div sha_block_size; n = blocks * sha_block_size;
               s1 = transform data blocks s
           in (s1\<lparr>sha_total := sha_total s1 + of_nat n * 8\<rparr>, drop n data)
      else (s, data))"

definition update :: "sha256 \<Rightarrow> bytes \<Rightarrow> sha256" where
  "update s data =
     (let (s1, data1) = update_fill s data; (s2, data2) = update_whole s1 data1
      in s2\<lparr>sha_m := copy_into (sha_m s2) (sha_pos s2) data2, sha_pos := sha_pos s2 + length data2\<rparr>)"

definition le64 :: "u64 \<Rightarrow> bytes" where
  "le64 w = map (\<lambda>k. ucast (drop_bit (8 * k) w)) [0..<8]"

definition final :: "sha256 \<Rightarrow> bytes" where
  "final s0 =
     (let s1 = s0\<lparr>sha_total := sha_total s0 + of_nat (sha_pos s0) * 8,
                  sha_m := (sha_m s0)[sha_pos s0 := 0x80], sha_pos := sha_pos s0 + 1\<rparr>;
          s2 = (if sha_pos s1 > sha_block_size - 8
                then let s = (if sha_pos s1 \<noteq> sha_block_size
                              then s1\<lparr>sha_m := copy_into (sha_m s1) (sha_pos s1)
                                       (replicate (sha_block_size - sha_pos s1) 0)\<rparr> else s1)
                     in (transform (sha_m s) 1 s)\<lparr>sha_pos := 0\<rparr>
                else s1);
          s3 = s2\<lparr>sha_m := copy_into (sha_m s2) (sha_pos s2)
                             (replicate (sha_block_size - sha_pos s2) 0)\<rparr>;
          final_len = to_big_endian64 (sha_total s3);
          s4 = s3\<lparr>sha_m := copy_into (sha_m s3) (sha_block_size - 8) (le64 final_len)\<rparr>;
          s5 = transform (sha_m s4) 1 s4
      in concat (map (\<lambda>h. le32 (to_big_endian32 h)) (sha_H s5)))"

section \<open>FIPS 180-4\<close>

definition be32_of :: "byte list \<Rightarrow> u32" where
  "be32_of bs = foldl (\<lambda>w b. push_bit 8 w OR ucast b) 0 bs"

definition be32 :: "u32 \<Rightarrow> bytes" where
  "be32 w = map (\<lambda>k. ucast (drop_bit (8 * (3 - k)) w)) [0..<4]"

definition be64 :: "u64 \<Rightarrow> bytes" where
  "be64 w = map (\<lambda>k. ucast (drop_bit (8 * (7 - k)) w)) [0..<8]"

definition ROTR :: "nat \<Rightarrow> u32 \<Rightarrow> u32" where
  "ROTR n x = word_rotr n x"

definition message_word :: "bytes \<Rightarrow> nat \<Rightarrow> u32" where
  "message_word block j = be32_of (take 4 (drop (4 * j) block))"

fun fips_W :: "bytes \<Rightarrow> nat \<Rightarrow> u32" where
  "fips_W block t =
     (if t < 16 then message_word block t
      else (ROTR 17 (fips_W block (t - 2)) XOR ROTR 19 (fips_W block (t - 2))
              XOR drop_bit 10 (fips_W block (t - 2)))
         + fips_W block (t - 7)
         + (ROTR 7 (fips_W block (t - 15)) XOR ROTR 18 (fips_W block (t - 15))
              XOR drop_bit 3 (fips_W block (t - 15)))
         + fips_W block (t - 16))"

fun fips_rounds :: "bytes \<Rightarrow> regs \<Rightarrow> nat \<Rightarrow> regs" where
  "fips_rounds block r 0 = r"
| "fips_rounds block r (Suc t) =
     (case fips_rounds block r t of (a, b, c, d, e, f, g, h) \<Rightarrow>
        let T1 = h + (ROTR 6 e XOR ROTR 11 e XOR ROTR 25 e) + ((e AND f) XOR ((NOT e) AND g))
                   + sha_K ! t + fips_W block t;
            T2 = (ROTR 2 a XOR ROTR 13 a XOR ROTR 22 a) + ((a AND b) XOR (a AND c) XOR (b AND c))
        in (T1 + T2, a, b, c, d + T1, e, f, g))"

definition compress :: "u32 list \<Rightarrow> bytes \<Rightarrow> u32 list" where
  "compress H block =
     (case fips_rounds block (H ! 0, H ! 1, H ! 2, H ! 3, H ! 4, H ! 5, H ! 6, H ! 7) 64 of
        (a, b, c, d, e, f, g, h) \<Rightarrow>
          [H ! 0 + a, H ! 1 + b, H ! 2 + c, H ! 3 + d, H ! 4 + e, H ! 5 + f, H ! 6 + g, H ! 7 + h])"

definition pad :: "bytes \<Rightarrow> bytes" where
  "pad msg = msg @ 0x80 # replicate ((119 - length msg mod 64) mod 64) 0
               @ be64 (of_nat (8 * length msg))"

definition block_list :: "bytes \<Rightarrow> bytes list" where
  "block_list msg = map (\<lambda>i. take 64 (drop (64 * i) msg)) [0..<length msg div 64]"

definition sha256_spec :: "bytes \<Rightarrow> bytes" where
  "sha256_spec msg = concat (map be32 (foldl compress sha_H0 (block_list (pad msg))))"

section \<open>The word functions agree with the standard\<close>

lemma rotate_right_ROTR:
  assumes "0 < n" "n < 32"
  shows "rotate_right x n = ROTR n x"
proof (rule bit_eqI)
  fix k assume "possible_bit TYPE(32 word) k"
  then have k: "k < 32" by simp
  note bits = rotate_right_def ROTR_def bit_word_rotr_iff bit_or_iff bit_drop_bit_eq bit_push_bit_iff
  show "bit (rotate_right x n) k = bit (ROTR n x) k"
  proof (cases "k + n < 32")
    case True
    then have "\<not> 32 - n \<le> k" using assms by arith
    then show ?thesis using assms k True by (simp add: bits add.commute)
  next
    case False
    then have "32 - n \<le> k" by arith
    moreover have "(k + n) mod 32 = k - (32 - n)" using assms k False by (simp add: le_mod_geq)
    moreover have "\<not> bit x (n + k)" using False bit_imp_le_length [of x "n + k"] by auto
    ultimately show ?thesis using assms k False by (simp add: bits)
  qed
qed

lemma byte_bit_high: "8 \<le> n \<Longrightarrow> \<not> bit (a :: byte) n"
  using bit_imp_le_length [of a n] by auto

lemma nat_lt8: "(b::nat) < 8 \<Longrightarrow> b = 0 \<or> b = 1 \<or> b = 2 \<or> b = 3 \<or> b = 4 \<or> b = 5 \<or> b = 6 \<or> b = 7"
  by arith

lemma bits32:
  assumes "\<And>b. b < 8 \<Longrightarrow> bit x b = bit y b" "\<And>b. b < 8 \<Longrightarrow> bit x (8 + b) = bit y (8 + b)"
    "\<And>b. b < 8 \<Longrightarrow> bit x (16 + b) = bit y (16 + b)" "\<And>b. b < 8 \<Longrightarrow> bit x (24 + b) = bit y (24 + b)"
  shows "x = (y :: u32)"
proof (rule bit_eqI)
  fix k assume "possible_bit TYPE(32 word) k"
  then have "k < 8 \<or> (\<exists>b<8. k = 8 + b \<or> k = 16 + b \<or> k = 24 + b)" by simp presburger
  then show "bit x k = bit y k" using assms by auto
qed

lemma to_big_endian32_load: "to_big_endian32 (load_le32 a b c d) = be32_of [a, b, c, d]"
  by (rule bits32; drule nat_lt8; elim disjE;
      simp add: to_big_endian32_def load_le32_def be32_of_def bit_simps byte_bit_high)

lemma le32_to_big_endian32: "le32 (to_big_endian32 h) = be32 h"
  by (simp add: le32_def be32_def upt_rec, intro conjI; rule bit_eqI; simp; drule nat_lt8; elim disjE;
      simp add: to_big_endian32_def bit_simps)

lemma le64_to_big_endian64: "le64 (to_big_endian64 h) = be64 h"
  by (simp add: le64_def be64_def upt_rec, intro conjI; rule bit_eqI; simp; drule nat_lt8; elim disjE;
      simp add: to_big_endian64_def bit_simps)

section \<open>One block\<close>

declare fips_W.simps [simp del]

lemma take4_drop: "k + 4 \<le> length xs \<Longrightarrow> take 4 (drop k xs) = [xs ! k, xs ! (k + 1), xs ! (k + 2), xs ! (k + 3)]"
  by (simp add: numeral_eq_Suc Cons_nth_drop_Suc [symmetric])

lemma message_word_block:
  assumes "64 * i + 64 \<le> length data" "j < 16"
  shows "to_big_endian32 (word_at data (i * 16 + j)) = message_word (take 64 (drop (64 * i) data)) j"
proof -
  have "4 * (i * 16 + j) = 64 * i + 4 * j" by simp
  then show ?thesis
    using assms by (simp add: word_at_def message_word_def to_big_endian32_load take4_drop add.assoc)
qed

lemma length_schedule_loop [simp]: "length (foldl (\<lambda>W t. W[t := f W t]) W0 ts) = length W0"
  by (induction ts arbitrary: W0) simp_all

lemma schedule_load:
  "n \<le> 16 \<Longrightarrow> t < n \<Longrightarrow> foldl (\<lambda>W t. W[t := M ! t]) (replicate 64 0) [0..<n] ! t = (M ! t :: u32)"
  by (induction n) (auto simp: nth_list_update less_Suc_eq)

lemma fips_W_load: "t < 16 \<Longrightarrow> fips_W block t = message_word block t"
  by (subst fips_W.simps) simp

lemma fips_W_extend:
  "16 \<le> t \<Longrightarrow> fips_W block t = sigma1 (fips_W block (t - 2)) + fips_W block (t - 7)
     + sigma0 (fips_W block (t - 15)) + fips_W block (t - 16)"
  by (subst fips_W.simps) (simp add: sigma0_def sigma1_def rotate_right_ROTR)

lemma schedule_extend:
  assumes W0: "length W0 = 64" "\<And>t. t < 16 \<Longrightarrow> W0 ! t = fips_W block t"
    and "16 \<le> n" "n \<le> 64" "t < n"
  shows "foldl (\<lambda>W t. W[t := sigma1 (W ! (t - 2)) + W ! (t - 7) + sigma0 (W ! (t - 15)) + W ! (t - 16)])
           W0 [16..<n] ! t = fips_W block t"
  using assms(3,4,5)
proof (induction n arbitrary: t rule: nat_induct_at_least)
  case base
  then show ?case using W0 by simp
next
  case (Suc n)
  show ?case
  proof (cases "t = n")
    case True
    then show ?thesis using Suc W0(1) fips_W_extend [OF Suc.hyps, of block] by simp
  next
    case False
    then show ?thesis using Suc by simp
  qed
qed

lemma schedule_nth:
  assumes "\<And>t. t < 16 \<Longrightarrow> M ! t = message_word block t" and "t < 64"
  shows "schedule M ! t = fips_W block t"
  unfolding schedule_def
proof (rule schedule_extend)
  fix t :: nat
  assume t: "t < 16"
  have "foldl (\<lambda>W t. W[t := M ! t]) (replicate 64 0) [0..<16] ! t = M ! t"
    by (rule schedule_load) (simp_all add: t)
  then show "foldl (\<lambda>W t. W[t := M ! t]) (replicate 64 0) [0..<16] ! t = fips_W block t"
    by (simp only: assms(1) [OF t] fips_W_load [OF t])
qed (use assms in simp_all)

lemma sha_rounds:
  assumes "\<And>t. t < 64 \<Longrightarrow> W ! t = fips_W block t" and "n \<le> 64"
  shows "foldl (sha_round W) r [0..<n] = fips_rounds block r n"
  using assms(2)
proof (induction n)
  case (Suc n)
  then show ?case using assms(1)
    by (simp add: sum0_def sum1_def Ch_def Maj_def rotate_right_ROTR Let_def split: prod.split)
qed simp

lemma transform_block_compress:
  assumes "64 * i + 64 \<le> length data"
  shows "transform_block data H i = compress H (take 64 (drop (64 * i) data))"
proof -
  let ?M = "map (\<lambda>j. to_big_endian32 (word_at data (i * 16 + j))) [0..<16]"
  have "schedule ?M ! t = fips_W (take 64 (drop (64 * i) data)) t" if "t < 64" for t
    using schedule_nth [of ?M "take 64 (drop (64 * i) data)"] message_word_block [OF assms] that by simp
  from sha_rounds [OF this, of 64] show ?thesis by (simp add: transform_block_def compress_def)
qed

lemma transform_blocks:
  assumes "64 * n \<le> length data"
  shows "foldl (transform_block data) H [0..<n] =
    foldl compress H (map (\<lambda>i. take 64 (drop (64 * i) data)) [0..<n])"
  using assms by (induction n) (simp_all add: transform_block_compress)

lemma transform_H: "64 * n \<le> length data \<Longrightarrow>
  sha_H (transform data n s) = foldl compress (sha_H s) (block_list (take (64 * n) data))"
proof -
  assume "64 * n \<le> length data"
  moreover have "map (\<lambda>i. take 64 (drop (64 * i) (take (64 * n) data))) [0..<n] =
      map (\<lambda>i. take 64 (drop (64 * i) data)) [0..<n]"
    by (auto simp: drop_take min_def simp flip: diff_mult_distrib2)
  ultimately show ?thesis by (simp add: transform_def transform_blocks block_list_def del: map_eq_conv)
qed

lemma transform_rest [simp]:
  "sha_pos (transform data n s) = sha_pos s" "sha_total (transform data n s) = sha_total s"
  "sha_m (transform data n s) = sha_m s"
  by (simp_all add: transform_def)

lemma block_list_append:
  assumes "64 dvd length xs"
  shows "block_list (xs @ ys) = block_list xs @ block_list ys"
proof -
  obtain n where n: "length xs = 64 * n" using assms by (auto elim: dvdE)
  have div: "length (xs @ ys) div 64 = n + length ys div 64" using n by simp
  have "map (\<lambda>i. take 64 (drop (64 * i) (xs @ ys))) [0..<n] = map (\<lambda>i. take 64 (drop (64 * i) xs)) [0..<n]"
    using n by (intro map_cong) auto
  moreover have "[0..<n + length ys div 64] = [0..<n] @ [n..<n + length ys div 64]"
    by (rule upt_add_eq_append) simp
  moreover have "length xs div 64 = n" using n by simp
  moreover have "map (\<lambda>i. take 64 (drop (64 * i) (xs @ ys))) [n..<n + length ys div 64] =
      map (\<lambda>i. take 64 (drop (64 * i) ys)) [0..<length ys div 64]"
    by (rule nth_equalityI) (auto simp: n algebra_simps)
  ultimately show ?thesis
    unfolding block_list_def div by (simp only: map_append)
qed

lemma block_list_single: "length xs = 64 \<Longrightarrow> block_list xs = [xs]"
  by (simp add: block_list_def)

section \<open>Streaming\<close>

text \<open>
  The contract of an incremental hash: a relation between states and the messages hashed so far,
  started with the empty message, extended by every update, and enough for the result.
\<close>

locale streaming_hash =
  fixes start :: 's and add :: "'s \<Rightarrow> bytes \<Rightarrow> 's" and result :: "'s \<Rightarrow> bytes"
    and hashed :: "'s \<Rightarrow> bytes \<Rightarrow> bool" and spec :: "bytes \<Rightarrow> bytes"
  assumes start: "hashed start []"
    and add: "hashed s m \<Longrightarrow> hashed (add s d) (m @ d)"
    and result: "hashed s m \<Longrightarrow> result s = spec m"
begin

lemma chunks_hashed: "hashed s m \<Longrightarrow> hashed (foldl add s ds) (m @ concat ds)"
  by (induction ds arbitrary: s m) (use add in \<open>fastforce+\<close>)

lemma chunks_result: "result (foldl add start ds) = spec (concat ds)"
  using result [OF chunks_hashed [OF start]] by simp

end

definition sha_rel :: "sha256 \<Rightarrow> bytes \<Rightarrow> bool" where
  "sha_rel s msg \<longleftrightarrow> length (sha_m s) = 64 \<and> sha_pos s < 64 \<and>
     (\<exists>full. msg = full @ take (sha_pos s) (sha_m s) \<and> 64 dvd length full \<and>
        sha_H s = foldl compress sha_H0 (block_list full) \<and> sha_total s = of_nat (8 * length full))"

lemma length_copy_into: "p + length d \<le> length m \<Longrightarrow> length (copy_into m p d) = length m"
  by (simp add: copy_into_def)

lemma take_copy_into: "p + length d \<le> length m \<Longrightarrow> take (p + length d) (copy_into m p d) = take p m @ d"
  by (simp add: copy_into_def)

lemma sha_rel_blocks:
  assumes "sha_rel s msg" "length (sha_m s') = 64" "sha_pos s' = 0"
    and "sha_H s' = foldl compress (sha_H s) (block_list (take (sha_pos s) (sha_m s) @ d))"
    and "64 dvd sha_pos s + length d"
    and "sha_total s' = sha_total s + of_nat (8 * (sha_pos s + length d))"
  shows "sha_rel s' (msg @ d)"
proof -
  from assms(1) obtain full where f: "msg = full @ take (sha_pos s) (sha_m s)" "64 dvd length full"
      "sha_H s = foldl compress sha_H0 (block_list full)" "sha_total s = of_nat (8 * length full)"
      "sha_pos s < 64" "length (sha_m s) = 64"
    by (auto simp: sha_rel_def)
  have "msg @ d = (full @ take (sha_pos s) (sha_m s) @ d) @ take (sha_pos s') (sha_m s')"
    using f assms(3) by simp
  moreover have "64 dvd length (full @ take (sha_pos s) (sha_m s) @ d)"
    using f assms(5) by (simp add: add.assoc)
  moreover have "sha_H s' = foldl compress sha_H0 (block_list (full @ take (sha_pos s) (sha_m s) @ d))"
    using f assms(4) by (simp add: block_list_append)
  moreover have "sha_total s' = of_nat (8 * length (full @ take (sha_pos s) (sha_m s) @ d))"
    using f assms(6) by (simp add: algebra_simps)
  ultimately show ?thesis using assms(2,3) by (auto simp only: sha_rel_def)
qed

lemma sha_rel_tail:
  assumes "sha_rel s msg" "sha_pos s + length d < 64"
  shows "sha_rel (s\<lparr>sha_m := copy_into (sha_m s) (sha_pos s) d, sha_pos := sha_pos s + length d\<rparr>) (msg @ d)"
  using assms by (auto simp: sha_rel_def length_copy_into take_copy_into)

lemma transform_one:
  "length data = 64 \<Longrightarrow> sha_H (transform data 1 s) = foldl compress (sha_H s) (block_list data)"
  using transform_H [of 1 data s] by simp

lemma update_fill_rel:
  assumes "sha_rel s msg"
  shows "\<exists>s1 m1 d1. update_fill s d = (s1, d1) \<and> sha_rel s1 m1 \<and> m1 @ d1 = msg @ d \<and>
    (sha_pos s1 = 0 \<or> sha_pos s1 + length d1 < 64)"
proof (cases "sha_pos s \<noteq> 0 \<and> sha_pos s + length d \<ge> 64")
  case True
  define n where "n = 64 - sha_pos s"
  define t where "t = s\<lparr>sha_m := copy_into (sha_m s) (sha_pos s) (take n d)\<rparr>"
  define s1 where "s1 = (transform (sha_m t) 1 t)\<lparr>sha_total := sha_total t + 512, sha_pos := 0\<rparr>"
  have pos: "sha_pos s < 64" "length (sha_m s) = 64" using assms by (auto simp: sha_rel_def)
  then have n: "length (take n d) = n" "sha_pos s + n = 64" using True by (auto simp: n_def)
  have m: "sha_m t = take (sha_pos s) (sha_m s) @ take n d" "length (sha_m t) = 64"
    using pos n by (simp_all add: t_def copy_into_def)
  have "sha_rel s1 (msg @ take n d)"
  proof (rule sha_rel_blocks [OF assms])
    show "sha_H s1 = foldl compress (sha_H s) (block_list (take (sha_pos s) (sha_m s) @ take n d))"
      using transform_one [OF m(2), of t] m(1) by (simp add: s1_def t_def)
    show "64 dvd sha_pos s + length (take n d)" unfolding n by simp
    show "sha_total s1 = sha_total s + of_nat (8 * (sha_pos s + length (take n d)))"
      unfolding n by (simp add: s1_def t_def)
  qed (simp_all add: s1_def m(2))
  then show ?thesis
    using True by (intro exI [of _ s1] exI [of _ "msg @ take n d"] exI [of _ "drop n d"])
      (simp add: update_fill_def sha_block_size_def Let_def s1_def t_def n_def)
next
  case False
  then show ?thesis using assms by (auto simp: update_fill_def sha_block_size_def)
qed

lemma update_whole_rel:
  assumes "sha_rel s msg" and "sha_pos s = 0 \<or> sha_pos s + length d < 64"
  shows "\<exists>s1 m1 d1. update_whole s d = (s1, d1) \<and> sha_rel s1 m1 \<and> m1 @ d1 = msg @ d \<and>
    sha_pos s1 + length d1 < 64"
proof (cases "length d \<ge> 64")
  case True
  define b where "b = length d div 64"
  define s1 where "s1 = (transform d b s)\<lparr>sha_total := sha_total s + of_nat (b * 64) * 8\<rparr>"
  have b: "64 * b \<le> length d" by (simp add: b_def)
  then have len: "length (take (b * 64) d) = b * 64" by simp
  have pos: "sha_pos s = 0" using assms(2) True by simp
  have "sha_rel s1 (msg @ take (b * 64) d)"
  proof (rule sha_rel_blocks [OF assms(1)])
    show "sha_H s1 = foldl compress (sha_H s) (block_list (take (sha_pos s) (sha_m s) @ take (b * 64) d))"
      using transform_H [OF b, of s] pos by (simp add: s1_def mult.commute)
    show "64 dvd sha_pos s + length (take (b * 64) d)" unfolding len using pos by simp
    show "sha_total s1 = sha_total s + of_nat (8 * (sha_pos s + length (take (b * 64) d)))"
      unfolding len using pos by (simp add: s1_def)
  qed (use assms pos in \<open>auto simp: sha_rel_def s1_def\<close>)
  moreover have "sha_pos s1 + length (drop (b * 64) d) < 64"
    using pos by (simp add: s1_def b_def minus_div_mult_eq_mod)
  ultimately show ?thesis
    using True by (intro exI [of _ s1] exI [of _ "msg @ take (b * 64) d"] exI [of _ "drop (b * 64) d"])
      (simp add: update_whole_def sha_block_size_def Let_def s1_def b_def)
next
  case False
  then show ?thesis using assms by (auto simp: update_whole_def sha_block_size_def)
qed

lemma sha_rel_update:
  assumes "sha_rel s msg"
  shows "sha_rel (update s d) (msg @ d)"
proof -
  obtain s1 m1 d1 where 1: "update_fill s d = (s1, d1)" "sha_rel s1 m1" "m1 @ d1 = msg @ d"
      "sha_pos s1 = 0 \<or> sha_pos s1 + length d1 < 64"
    using update_fill_rel [OF assms] by blast
  obtain s2 m2 d2 where 2: "update_whole s1 d1 = (s2, d2)" "sha_rel s2 m2" "m2 @ d2 = m1 @ d1"
      "sha_pos s2 + length d2 < 64"
    using update_whole_rel [OF 1(2,4)] by blast
  from sha_rel_tail [OF 2(2,4)] show ?thesis using 1 2 by (simp add: update_def)
qed

lemma sha_rel_init: "sha_rel SHA256_init []"
  by (auto simp: sha_rel_def SHA256_init_def block_list_def)

section \<open>Finalisation\<close>

lemma length_be64 [simp]: "length (be64 w) = 8"
  by (simp add: be64_def)

lemma pad_blocks:
  assumes "msg = full @ rest" "64 dvd length full" "length rest < 64"
  shows "block_list (pad msg) = block_list full @
    (if length rest \<le> 55
     then [rest @ 0x80 # replicate (55 - length rest) 0 @ be64 (of_nat (8 * length msg))]
     else [rest @ 0x80 # replicate (63 - length rest) 0,
           replicate 56 0 @ be64 (of_nat (8 * length msg))])"
proof -
  define L where "L = be64 (of_nat (8 * length msg))"
  have L: "length L = 8" by (simp add: L_def)
  have mod: "length msg mod 64 = length rest" using assms by (auto elim!: dvdE)
  have "pad msg = full @ rest @ 0x80 # replicate ((119 - length rest) mod 64) 0 @ L"
    unfolding pad_def mod using assms(1) by (simp add: L_def)
  then have *: "block_list (pad msg) = block_list full @
      block_list (rest @ 0x80 # replicate ((119 - length rest) mod 64) 0 @ L)"
    using assms(2) by (simp add: block_list_append)
  show ?thesis
  proof (cases "length rest \<le> 55")
    case True
    then have "(119 - length rest) mod 64 = 55 - length rest" by (simp add: mod_if)
    then show ?thesis using * True L by (simp add: block_list_single L_def)
  next
    case False
    then have "(119 - length rest) mod 64 = (63 - length rest) + 56" using assms(3) by simp
    then have split: "rest @ 0x80 # replicate ((119 - length rest) mod 64) 0 @ L =
        (rest @ 0x80 # replicate (63 - length rest) 0) @ replicate 56 0 @ L"
      by (simp only: replicate_add append_assoc append_Cons)
    have "length (rest @ 0x80 # replicate (63 - length rest) (0 :: byte)) = 64"
      "length (replicate 56 0 @ L) = 64"
      using False assms(3) L by simp_all
    then have "block_list (rest @ 0x80 # replicate ((119 - length rest) mod 64) 0 @ L) =
        [rest @ 0x80 # replicate (63 - length rest) 0, replicate 56 0 @ L]"
      unfolding split by (subst block_list_append) (simp_all add: block_list_single)
    then show ?thesis using False unfolding * L_def by simp
  qed
qed

lemma final_marker:
  assumes "length m = 64" "p < 64"
  shows "copy_into (m[p := x]) (Suc p) (replicate (63 - p) 0) = take p m @ x # replicate (63 - p) 0"
  using assms by (simp add: copy_into_def take_Suc_conv_app_nth)

lemma final_marker_63: "length m = 64 \<Longrightarrow> m[63 := x] = take 63 m @ [x]"
  using take_Suc_conv_app_nth [of 63 "m[63 := x]"] by simp

lemma copy_length_field:
  assumes "length xs = 64" "length L = 8"
  shows "copy_into xs 56 L = take 56 xs @ L"
  using assms by (simp add: copy_into_def)

lemma final_spec:
  assumes "sha_rel s msg"
  shows "final s = sha256_spec msg"
proof -
  define p where "p = sha_pos s"
  define rest where "rest = take p (sha_m s)"
  define N where "N = (of_nat (8 * length msg) :: u64)"
  obtain full where f: "msg = full @ rest" "64 dvd length full" "length (sha_m s) = 64" "p < 64"
      "sha_H s = foldl compress sha_H0 (block_list full)" "sha_total s = of_nat (8 * length full)"
    using assms by (auto simp: sha_rel_def rest_def p_def)
  have len: "length rest = p" using f by (simp add: rest_def)
  have total: "sha_total s + of_nat p * 8 = N"
    using f len by (simp add: N_def algebra_simps)
  define m1 where "m1 = (sha_m s)[p := 0x80]"
  have m1: "copy_into m1 (Suc p) (replicate (63 - p) 0) = rest @ 0x80 # replicate (63 - p) 0"
    unfolding m1_def rest_def by (rule final_marker) (use f in simp_all)
  have hash: "sha256_spec msg = concat (map be32 (foldl compress (sha_H s)
      (if p \<le> 55 then [rest @ 0x80 # replicate (55 - p) 0 @ be64 N]
       else [rest @ 0x80 # replicate (63 - p) 0, replicate 56 0 @ be64 N])))"
    using pad_blocks [OF f(1,2)] f(4,5) len by (simp add: sha256_spec_def N_def)
  note eval = final_def sha_block_size_def Let_def p_def [symmetric] m1_def [symmetric] total
    le64_to_big_endian64 le32_to_big_endian32 transform_one [simplified] block_list_single
  show ?thesis
  proof (cases "p \<le> 55")
    case True
    have "take 56 (rest @ 0x80 # replicate (63 - p) 0) = rest @ 0x80 # replicate (55 - p) 0"
      using True len by (simp add: take_Cons' min_def)
    then have "copy_into (copy_into m1 (Suc p) (replicate (63 - p) 0)) 56 (be64 N) =
        rest @ 0x80 # replicate (55 - p) 0 @ be64 N"
      using True len by (simp add: m1 copy_length_field)
    then show ?thesis using True len by (simp add: hash eval)
  next
    case False
    have last: "copy_into (copy_into x 0 (replicate 64 0)) 56 (be64 N) = replicate 56 0 @ be64 N"
      if "length x = 64" for x
      using that by (simp add: copy_into_def)
    show ?thesis
    proof (cases "p = 63")
      case True
      then have "(sha_m s)[63 := 0x80] = rest @ [0x80]" "sha_total s + 504 = N"
        using final_marker_63 [OF f(3)] total by (simp_all add: rest_def)
      then show ?thesis using True len last by (simp add: hash eval)
    next
      case p: False
      then show ?thesis using False len f(4) m1 last by (simp add: hash eval)
    qed
  qed
qed


interpretation sha: streaming_hash SHA256_init update final sha_rel sha256_spec
  by unfold_locales (simp_all add: sha_rel_init sha_rel_update final_spec)

section \<open>Properties\<close>

text \<open>
  C1: Feeding a message to \<open>update\<close> in any number of pieces of any sizes and calling \<open>final\<close> gives the
  SHA-256 digest of FIPS 180-4 of the whole message: the buffering, the counter and the two-block
  padding are right for every split.
\<close>

theorem sha256_streaming: "final (foldl update SHA256_init ds) = sha256_spec (concat ds)"
  by (rule sha.chunks_result)

end
