(* ===== verification/Transaction.thy ===== *)
theory Transaction
  imports Prelude
begin

text \<open>
  Scope guards: \<open>libs/utils/src/linglong/utils/transaction.h\<close> (a stack of rollback functions that its
  destructor runs unless it was committed) and \<open>finally/finally.h\<close> (an action that runs when its
  owner goes out of scope, owned by exactly one object). Rollback functions are state transformers;
  their arguments are bound when they are registered. The locale \<open>undoable_step\<close> is what a client
  of \<open>Transaction\<close> has to provide.
\<close>

section \<open>Transaction\<close>

record 's transaction =
  m_rollbacks :: "('s \<Rightarrow> 's) list"

definition Transaction_new :: "'s transaction" where
  "Transaction_new = \<lparr>m_rollbacks = []\<rparr>"

text \<open>\<open>TransactionRollback\<close> binds the arguments to the function.\<close>

definition TransactionRollback :: "('a \<Rightarrow> 's \<Rightarrow> 's) \<Rightarrow> 'a \<Rightarrow> 's \<Rightarrow> 's" where
  "TransactionRollback func args = func args"

definition addRollBack :: "('a \<Rightarrow> 's \<Rightarrow> 's) \<Rightarrow> 'a \<Rightarrow> 's transaction \<Rightarrow> 's transaction" where
  "addRollBack func args t = t\<lparr>m_rollbacks := m_rollbacks t @ [TransactionRollback func args]\<rparr>"

definition commit :: "'s transaction \<Rightarrow> 's transaction" where
  "commit t = t\<lparr>m_rollbacks := []\<rparr>"

definition Transaction_dtor :: "'s transaction \<Rightarrow> 's \<Rightarrow> 's" where
  "Transaction_dtor t s = foldl (\<lambda>s f. f s) s (rev (m_rollbacks t))"

text \<open>
  The way the class is used: every step changes the state and registers a rollback, or fails and
  leaves the scope; after the last step the transaction is committed.
\<close>

type_synonym ('s, 'a) tx_step = "'s \<Rightarrow> ('s \<times> ('a \<Rightarrow> 's \<Rightarrow> 's) \<times> 'a) option"

fun run_scope :: "('s, 'a) tx_step list \<Rightarrow> 's transaction \<Rightarrow> 's \<Rightarrow> bool \<times> 's" where
  "run_scope [] t s = (True, Transaction_dtor (commit t) s)"
| "run_scope (step # steps) t s =
     (case step s of
        None \<Rightarrow> (False, Transaction_dtor t s)
      | Some (s', func, args) \<Rightarrow> run_scope steps (addRollBack func args t) s')"

section \<open>finally\<close>

record 's final_action =
  fa_f :: "'s \<Rightarrow> 's"
  fa_invoke :: bool

definition finally_guard :: "('s \<Rightarrow> 's) \<Rightarrow> 's final_action" where
  "finally_guard f = \<lparr>fa_f = f, fa_invoke = True\<rparr>"

text \<open>The move constructor: the new object and what is left of the old one.\<close>

definition final_action_move :: "'s final_action \<Rightarrow> 's final_action \<times> 's final_action" where
  "final_action_move other =
     (\<lparr>fa_f = fa_f other, fa_invoke = fa_invoke other\<rparr>, other\<lparr>fa_invoke := False\<rparr>)"

definition final_action_dtor :: "'s final_action \<Rightarrow> 's \<Rightarrow> 's" where
  "final_action_dtor a s = (if fa_invoke a then fa_f a s else s)"

text \<open>
  A guard handed on \<open>n\<close> times by move; every object is destroyed in the end, the moved-from ones
  first.
\<close>

fun pass_on :: "nat \<Rightarrow> 's final_action \<Rightarrow> 's \<Rightarrow> 's" where
  "pass_on 0 a s = final_action_dtor a s"
| "pass_on (Suc n) a s =
     (case final_action_move a of (b, rest) \<Rightarrow> pass_on n b (final_action_dtor rest s))"

section \<open>The client's side\<close>

locale undoable_step =
  fixes act :: "'s \<Rightarrow> 's" and undo :: "'a \<Rightarrow> 's \<Rightarrow> 's" and saved :: "'s \<Rightarrow> 'a"
  assumes undo_act: "undo (saved s) (act s) = s"
begin

lemma rolled_back: "Transaction_dtor (addRollBack undo (saved s) Transaction_new) (act s) = s"
  by (simp add: Transaction_dtor_def addRollBack_def Transaction_new_def TransactionRollback_def undo_act)

lemma committed:
  "Transaction_dtor (commit (addRollBack undo (saved s) Transaction_new)) (act s) = act s"
  by (simp add: Transaction_dtor_def commit_def)

end

section \<open>Lemmas\<close>

definition steps_undoable :: "('s, 'a) tx_step list \<Rightarrow> bool" where
  "steps_undoable steps \<longleftrightarrow>
     (\<forall>step \<in> set steps. \<forall>s s' func args. step s = Some (s', func, args) \<longrightarrow> func args s' = s)"

lemma Transaction_dtor_add:
  "Transaction_dtor (addRollBack func args t) s = Transaction_dtor t (func args s)"
  by (simp add: Transaction_dtor_def addRollBack_def TransactionRollback_def)

lemma Transaction_dtor_new: "Transaction_dtor Transaction_new s = s"
  by (simp add: Transaction_dtor_def Transaction_new_def)

lemma Transaction_dtor_commit: "Transaction_dtor (commit t) s = s"
  by (simp add: Transaction_dtor_def commit_def)

lemma run_scope_failed:
  "steps_undoable steps \<Longrightarrow> run_scope steps t s = (False, s') \<Longrightarrow> s' = Transaction_dtor t s"
proof (induction steps arbitrary: t s)
  case (Cons step steps)
  show ?case
  proof (cases "step s")
    case (Some r)
    obtain u func args where r: "r = (u, func, args)" by (cases r)
    have "func args u = s" "steps_undoable steps" using Cons.prems(1) Some r by (auto simp: steps_undoable_def)
    then show ?thesis
      using Cons.IH [of "addRollBack func args t" u] Cons.prems(2) Some r by (simp add: Transaction_dtor_add)
  qed (use Cons.prems in simp)
qed simp

fun run_plain :: "('s, 'a) tx_step list \<Rightarrow> 's \<Rightarrow> 's option" where
  "run_plain [] s = Some s"
| "run_plain (step # steps) s =
     (case step s of None \<Rightarrow> None | Some (s', _) \<Rightarrow> run_plain steps s')"

lemma run_scope_committed: "run_scope steps t s = (True, s') \<longleftrightarrow> run_plain steps s = Some s'"
  by (induction steps t s rule: run_scope.induct)
    (auto simp: Transaction_dtor_commit split: option.splits)

section \<open>Properties\<close>

text \<open>
  C7: All or nothing. When every step registers a rollback that undoes it on the state the step
  left, a scope whose steps all succeed has the effect of the steps, and a scope left at a failing
  step, whichever it is, restores the state it started from: the rollbacks run in reverse order, and
  not at all after \<open>commit\<close>.
\<close>

theorem transaction_atomic:
  assumes "steps_undoable steps"
  shows "run_scope steps Transaction_new s =
    (case run_plain steps s of Some s' \<Rightarrow> (True, s') | None \<Rightarrow> (False, s))"
proof (cases "run_scope steps Transaction_new s")
  case (Pair ok s')
  show ?thesis
  proof (cases ok)
    case True
    then show ?thesis using Pair run_scope_committed [of steps Transaction_new s s'] by simp
  next
    case False
    then have "run_plain steps s = None"
      using Pair run_scope_committed [of steps Transaction_new s] by (cases "run_plain steps s") auto
    then show ?thesis
      using run_scope_failed [OF assms, of Transaction_new s s'] Pair False
      by (simp add: Transaction_dtor_new)
  qed
qed

definition demo_push :: "nat \<Rightarrow> (nat list, unit) tx_step" where
  "demo_push k xs = (if k \<in> set xs then None else Some (k # xs, \<lambda>_. tl, ()))"

theorem transaction_atomic_witness:
  "run_scope [demo_push 1, demo_push 2, demo_push 1] Transaction_new [7] = (False, [7]) \<and>
   run_scope [demo_push 1, demo_push 2] Transaction_new [7] = (True, [2, 1, 7])"
  using transaction_atomic [of "[demo_push 1, demo_push 2, demo_push 1]" "[7]"]
    transaction_atomic [of "[demo_push 1, demo_push 2]" "[7]"]
  by (auto simp: steps_undoable_def demo_push_def split: if_splits)

text \<open>
  A \<open>finally\<close> guard runs its action exactly once, when the last object it was moved to is
  destroyed, however often it was moved.
\<close>

theorem final_action_once: "pass_on n (finally_guard f) s = f s"
proof -
  have "pass_on n \<lparr>fa_f = f, fa_invoke = True\<rparr> s = f s" for s
    by (induction n arbitrary: s) (simp_all add: final_action_move_def final_action_dtor_def)
  then show ?thesis by (simp add: finally_guard_def)
qed

end
