(* ===== verification/Repo_Cache.thy ===== *)
theory Repo_Cache
  imports Package_Info "HOL-Library.Multiset"
begin

text \<open>
  The cache of the local repository, \<open>libs/linglong/src/linglong/repo/repo_cache.{h,cpp}\<close>: the list of
  layers that are checked out, kept in memory and in \<open>states.json\<close>. A file is modelled by its text;
  \<open>dump\<close> and \<open>load\<close> are the JSON writer and reader of \<open>RepositoryCache\<close>. Outcomes of file system
  calls and the build's version string are fields of \<open>cache_env\<close>, what ostree reports is the record
  \<open>ostree_view\<close>. \<open>std::sort\<close> leaves the order of equivalent elements open, so it is a parameter, with
  the predicate \<open>sorts\<close> for what the standard promises.
\<close>

section \<open>Data\<close>

record layers_item =
  item_commit :: string
  item_deleted :: "bool option"
  item_info :: package_info_v2
  item_repo :: string

record merged_item =
  merged_binaryCommit :: "string option"
  merged_commits :: "string list"
  merged_id :: string
  merged_modules :: "string list"
  merged_name :: "string option"

record repo_config =
  cfg_defaultRepo :: string
  cfg_repos :: "(string \<times> string) list"
  cfg_version :: int

record repository_cache =
  rc_config :: repo_config
  rc_layers :: "layers_item list"
  rc_llVersion :: string
  rc_merged :: "merged_item list option"
  rc_version :: string

text \<open>The directory of \<open>states.json\<close>: the file, the temporary file and the version tag.\<close>

record cache_dir =
  dir_exists :: bool
  dir_cacheFile :: "string option"
  dir_tmpFile :: "string option"
  dir_versionTag :: "string option"

record repo_cache =
  rcs_cache :: repository_cache
  rcs_dir :: cache_dir

record repo_cache_query =
  q_id :: "string option"
  q_repo :: "string option"
  q_channel :: "string option"
  q_version :: "string option"
  q_module :: "string option"
  q_uuid :: "string option"
  q_deleted :: "bool option"

text \<open>
  \<open>ce_write\<close> is what a stream leaves in the file for a text; the code does not look at the state of
  the stream after writing. \<open>ce_exists\<close> is the error of the existence check.
\<close>

record cache_env =
  ce_version :: string
  ce_uid :: nat
  ce_exists :: "string option"
  ce_openTmp :: bool
  ce_write :: "string \<Rightarrow> string"
  ce_rename :: bool
  ce_removeTmp :: bool
  ce_openTag :: bool

record 'file ostree_view =
  os_refs :: "(int \<times> string) + string list"
  os_commit :: "string \<Rightarrow> (string \<times> 'file) option"
  os_info :: "'file \<Rightarrow> package_info_v2 result"

definition cacheFileVersion :: string where
  "cacheFileVersion = ''2''"

definition sorts :: "('a \<Rightarrow> 'a \<Rightarrow> bool) \<Rightarrow> ('a list \<Rightarrow> 'a list) \<Rightarrow> bool" where
  "sorts lt srt \<longleftrightarrow> (\<forall>xs. mset (srt xs) = mset xs \<and> sorted_wrt (\<lambda>x y. \<not> lt y x) (srt xs))"

section \<open>Operations\<close>

definition writeToDisk ::
    "cache_env \<Rightarrow> (repository_cache \<Rightarrow> string) \<Rightarrow> repo_cache \<Rightarrow> unit result \<times> repo_cache" where
  "writeToDisk env dump s =
     (let trace = ''save repo cache''; d = rcs_dir s in
      if \<not> dir_exists d
      then (Inl (Err trace ''The parent directory of state.json doesn't exist:'' (-1)), s)
      else if \<not> ce_openTmp env then (Inl (Err trace ''failed to update cache'' (-1)), s)
      else let data = ce_write env (dump (rcs_cache s)) in
        if \<not> ce_rename env
        then (Inl (Err trace ''failed to update cache'' (-1)),
              s\<lparr>rcs_dir := d\<lparr>dir_tmpFile := (if ce_removeTmp env then None else Some data)\<rparr>\<rparr>)
        else let d' = d\<lparr>dir_cacheFile := Some data, dir_tmpFile := None\<rparr> in
          if \<not> ce_openTag env then (Inr (), s\<lparr>rcs_dir := d'\<rparr>)
          else (Inr (), s\<lparr>rcs_dir := d'\<lparr>dir_versionTag := Some (ce_version env)\<rparr>\<rparr>))"

text \<open>The loop of \<open>rebuildCache\<close> over the refs: those without a repo, commit or description are skipped.\<close>

fun split_at_colon :: "string \<Rightarrow> string option" where
  "split_at_colon [] = None"
| "split_at_colon (c # cs) =
     (if c = CHR '':'' then Some [] else map_option (\<lambda>p. c # p) (split_at_colon cs))"

definition layer_of_ref :: "'file ostree_view \<Rightarrow> string \<Rightarrow> layers_item option" where
  "layer_of_ref os ref =
     (case split_at_colon ref of
        None \<Rightarrow> None
      | Some repo \<Rightarrow>
         (case os_commit os ref of
            None \<Rightarrow> None
          | Some (c, root) \<Rightarrow>
             (case os_info os root of
                Inl _ \<Rightarrow> None
              | Inr i \<Rightarrow> Some \<lparr>item_commit = c, item_deleted = None, item_info = i, item_repo = repo\<rparr>)))"

definition rebuildCache ::
    "cache_env \<Rightarrow> (repository_cache \<Rightarrow> string) \<Rightarrow> 'file ostree_view \<Rightarrow> repo_config \<Rightarrow> repo_cache \<Rightarrow>
     unit result \<times> repo_cache" where
  "rebuildCache env dump os repoConfig s =
     (let trace = ''rebuild repo cache'';
          c = (rcs_cache s)\<lparr>rc_llVersion := ce_version env, rc_config := repoConfig,
                            rc_version := cacheFileVersion, rc_layers := []\<rparr> in
      case os_refs os of
        Inl e \<Rightarrow> (Inl (Err_gerror trace ''ostree_repo_list_refs'' e), s\<lparr>rcs_cache := c\<rparr>)
      | Inr refs \<Rightarrow>
         (let s' = s\<lparr>rcs_cache := c\<lparr>rc_layers := List.map_filter (layer_of_ref os) refs\<rparr>\<rparr> in
          if ce_uid env = 0 then (Inr (), s')
          else case writeToDisk env dump s' of
            (Inl e, s'') \<Rightarrow> (Inl (Err_wrap trace e), s'')
          | (Inr _, s'') \<Rightarrow> (Inr (), s'')))"

text \<open>\<open>create\<close>. \<open>blank\<close> is a default-constructed cache.\<close>

definition RepoCache_create ::
    "cache_env \<Rightarrow> (repository_cache \<Rightarrow> string) \<Rightarrow> (string \<Rightarrow> repository_cache result) \<Rightarrow>
     'file ostree_view \<Rightarrow> repository_cache \<Rightarrow> repo_config \<Rightarrow> cache_dir \<Rightarrow> repo_cache result \<times> cache_dir" where
  "RepoCache_create env dump load os blank repoConfig d =
     (let trace = ''load from RepoCache'';
          rebuild = (\<lambda>c. case rebuildCache env dump os repoConfig \<lparr>rcs_cache = c, rcs_dir = d\<rparr> of
                           (Inl e, s) \<Rightarrow> (Inl (Err_wrap trace e), rcs_dir s)
                         | (Inr _, s) \<Rightarrow> (Inr s, rcs_dir s)) in
      case dir_cacheFile d of
        None \<Rightarrow>
         (case ce_exists env of
            Some why \<Rightarrow> (Inl (Err trace (''checking file existence failed: '' @ why) (-1)), d)
          | None \<Rightarrow> rebuild blank)
      | Some text \<Rightarrow>
         (case load text of
            Inl _ \<Rightarrow> rebuild blank
          | Inr c \<Rightarrow>
             (if rc_version c \<noteq> cacheFileVersion \<or> rc_llVersion c \<noteq> ce_version env then rebuild c
              else (Inr \<lparr>rcs_cache = c\<lparr>rc_config := repoConfig\<rparr>, rcs_dir = d\<rparr>, d))))"

text \<open>
  \<open>arch.front()\<close>; the layers that get into the cache have at least one architecture, on an empty
  vector the call is undefined.
\<close>

definition arch_front :: "package_info_v2 \<Rightarrow> string option" where
  "arch_front i = (case info_arch i of [] \<Rightarrow> None | a # _ \<Rightarrow> Some a)"

definition same_item :: "layers_item \<Rightarrow> layers_item \<Rightarrow> bool" where
  "same_item item val \<longleftrightarrow>
     \<not> (item_commit item \<noteq> item_commit val \<or> item_repo item \<noteq> item_repo val
        \<or> info_channel (item_info item) \<noteq> info_channel (item_info val)
        \<or> info_id (item_info item) \<noteq> info_id (item_info val)
        \<or> info_version (item_info item) \<noteq> info_version (item_info val)
        \<or> arch_front (item_info item) \<noteq> arch_front (item_info val)
        \<or> info_module (item_info item) \<noteq> info_module (item_info val))"

text \<open>The iterator returned by \<open>findMatchingItem\<close> is an index.\<close>

fun index_of :: "('a \<Rightarrow> bool) \<Rightarrow> 'a list \<Rightarrow> nat option" where
  "index_of P [] = None"
| "index_of P (x # xs) = (if P x then Some 0 else map_option Suc (index_of P xs))"

definition findMatchingItem :: "layers_item \<Rightarrow> repo_cache \<Rightarrow> nat result" where
  "findMatchingItem item s =
     (case index_of (same_item item) (rc_layers (rcs_cache s)) of
        None \<Rightarrow> Inl (Err ''find matching item'' ''item doesn't exist'' (-1))
      | Some i \<Rightarrow> Inr i)"

definition set_layers :: "layers_item list \<Rightarrow> repo_cache \<Rightarrow> repo_cache" where
  "set_layers ls s = s\<lparr>rcs_cache := (rcs_cache s)\<lparr>rc_layers := ls\<rparr>\<rparr>"

text \<open>\<open>Q_ASSERT\<close> is not compiled into release builds.\<close>

definition addLayerItem ::
    "cache_env \<Rightarrow> (repository_cache \<Rightarrow> string) \<Rightarrow> layers_item \<Rightarrow> repo_cache \<Rightarrow> unit result \<times> repo_cache" where
  "addLayerItem env dump item s =
     (let trace = ''add layer item'' in
      case findMatchingItem item s of
        Inr _ \<Rightarrow> (Inl (Err trace ''item already exist'' (-1)), s)
      | Inl _ \<Rightarrow>
         (case writeToDisk env dump (set_layers (rc_layers (rcs_cache s) @ [item]) s) of
            (Inl e, s') \<Rightarrow> (Inl (Err_wrap trace e), s')
          | (Inr _, s') \<Rightarrow> (Inr (), s')))"

definition erase_at :: "nat \<Rightarrow> 'a list \<Rightarrow> 'a list" where
  "erase_at i xs = take i xs @ drop (Suc i) xs"

definition deleteLayerItem ::
    "cache_env \<Rightarrow> (repository_cache \<Rightarrow> string) \<Rightarrow> layers_item \<Rightarrow> repo_cache \<Rightarrow> unit result \<times> repo_cache" where
  "deleteLayerItem env dump item s =
     (let trace = ''delete layer item'' in
      case findMatchingItem item s of
        Inl e \<Rightarrow> (Inl (Err_wrap trace e), s)
      | Inr i \<Rightarrow>
         (case writeToDisk env dump (set_layers (erase_at i (rc_layers (rcs_cache s))) s) of
            (Inl e, s') \<Rightarrow> (Inl (Err_wrap trace e), s')
          | (Inr _, s') \<Rightarrow> (Inr (), s')))"

definition item_is_deleted :: "layers_item \<Rightarrow> bool" where
  "item_is_deleted item = (item_deleted item = Some True)"

definition queryExistingLayerItem :: "repo_cache \<Rightarrow> layers_item list" where
  "queryExistingLayerItem s = filter (\<lambda>item. \<not> item_is_deleted item) (rc_layers (rcs_cache s))"

definition wants :: "'a option \<Rightarrow> 'a \<Rightarrow> bool" where
  "wants q v = (case q of None \<Rightarrow> True | Some w \<Rightarrow> w = v)"

definition wants_opt :: "'a option \<Rightarrow> 'a option \<Rightarrow> bool" where
  "wants_opt q v = (case q of None \<Rightarrow> True | Some w \<Rightarrow> (case v of None \<Rightarrow> False | Some u \<Rightarrow> w = u))"

definition query_matches :: "repo_cache_query \<Rightarrow> layers_item \<Rightarrow> bool" where
  "query_matches q layer \<longleftrightarrow>
     wants (q_id q) (info_id (item_info layer)) \<and> wants (q_repo q) (item_repo layer) \<and>
     wants (q_channel q) (info_channel (item_info layer)) \<and>
     wants (q_version q) (info_version (item_info layer)) \<and>
     wants (q_module q) (info_module (item_info layer)) \<and>
     wants_opt (q_deleted q) (item_deleted layer) \<and>
     wants_opt (q_uuid q) (info_uuid (item_info layer))"

text \<open>The comparison of \<open>queryLayerItem\<close> compares version strings, not versions.\<close>

definition later_version_string :: "layers_item \<Rightarrow> layers_item \<Rightarrow> bool" where
  "later_version_string lhs rhs = (info_version (item_info lhs) > info_version (item_info rhs))"

definition queryLayerItem ::
    "(layers_item list \<Rightarrow> layers_item list) \<Rightarrow> repo_cache_query \<Rightarrow> repo_cache \<Rightarrow> layers_item list" where
  "queryLayerItem std_sort q s = std_sort (filter (query_matches q) (rc_layers (rcs_cache s)))"

definition updateMergedItems ::
    "cache_env \<Rightarrow> (repository_cache \<Rightarrow> string) \<Rightarrow> merged_item list \<Rightarrow> repo_cache \<Rightarrow>
     unit result \<times> repo_cache" where
  "updateMergedItems env dump items s =
     (case writeToDisk env dump (s\<lparr>rcs_cache := (rcs_cache s)\<lparr>rc_merged := Some items\<rparr>\<rparr>) of
        (Inl e, s') \<Rightarrow> (Inl (Err_wrap ''update merged items'' e), s')
      | (Inr _, s') \<Rightarrow> (Inr (), s'))"

definition queryMergedItems :: "repo_cache \<Rightarrow> merged_item list option" where
  "queryMergedItems s = rc_merged (rcs_cache s)"

text \<open>\<open>repoCacheQuery::to_string\<close>, with the architecture of the host.\<close>

definition query_to_string :: "string option \<Rightarrow> repo_cache_query \<Rightarrow> string" where
  "query_to_string arch q =
     (let val = (\<lambda>o'. case o' of None \<Rightarrow> ''undefined'' | Some v \<Rightarrow> v) in
      val (q_repo q) @ '':'' @ val (q_channel q) @ ''/'' @ val (q_id q) @ ''/'' @ val (q_version q) @ ''/''
      @ (case arch of None \<Rightarrow> ''unknown'' | Some a \<Rightarrow> a) @ ''/'' @ val (q_module q))"

section \<open>Lists with a key\<close>

text \<open>
  What the cache needs of the comparison of two items, and what follows for a list in which no two
  items match.
\<close>

locale keyed_items =
  fixes same :: "'a \<Rightarrow> 'a \<Rightarrow> bool"
  assumes same_refl: "same x x"
    and same_sym: "same x y \<Longrightarrow> same y x"
    and same_trans: "same x y \<Longrightarrow> same y z \<Longrightarrow> same x z"
begin

lemma fresh_none: "index_of (same x) xs = None \<longleftrightarrow> (\<forall>y \<in> set xs. \<not> same x y)"
  by (induction xs) auto

lemma fresh_append:
  "index_of (same x) xs = None \<Longrightarrow> index_of (same x) (xs @ [x]) = Some (length xs)"
  by (induction xs) (auto simp: same_refl split: if_splits)

lemma unique_append:
  assumes "sorted_wrt (\<lambda>x y. \<not> same x y) xs" "index_of (same x) xs = None"
  shows "sorted_wrt (\<lambda>x y. \<not> same x y) (xs @ [x])"
proof -
  have "\<not> same y x" if "y \<in> set xs" for y
    using assms(2) that same_sym by (auto simp: fresh_none)
  then show ?thesis using assms(1) by (simp add: sorted_wrt_append)
qed

lemma unique_erase:
  assumes "sorted_wrt (\<lambda>x y. \<not> same x y) xs" "index_of (same x) xs = Some i"
  shows "sorted_wrt (\<lambda>x y. \<not> same x y) (erase_at i xs) \<and> index_of (same x) (erase_at i xs) = None"
  using assms
proof (induction xs arbitrary: i)
  case (Cons y ys)
  show ?case
  proof (cases "same x y")
    case True
    have "\<not> same x z" if "z \<in> set ys" for z
      using Cons.prems(1) that same_trans [OF same_sym [OF True], of z] by auto
    then show ?thesis using Cons.prems True by (simp add: erase_at_def fresh_none)
  next
    case False
    then obtain j where j: "index_of (same x) ys = Some j" "i = Suc j" using Cons.prems(2) by auto
    have sub: "set (erase_at j ys) \<subseteq> set ys"
      by (auto simp: erase_at_def dest: in_set_takeD in_set_dropD)
    have "erase_at i (y # ys) = y # erase_at j ys" using j by (simp add: erase_at_def)
    then show ?thesis using Cons.IH [OF _ j(1)] Cons.prems(1) False sub by auto
  qed
qed simp

end

interpretation items: keyed_items same_item
  by unfold_locales (auto simp: same_item_def)

section \<open>Lemmas\<close>

definition cache_ok :: "repo_cache \<Rightarrow> bool" where
  "cache_ok s = sorted_wrt (\<lambda>x y. \<not> same_item x y) (rc_layers (rcs_cache s))"

definition cache_current :: "cache_env \<Rightarrow> repo_cache \<Rightarrow> bool" where
  "cache_current env s \<longleftrightarrow>
     rc_version (rcs_cache s) = cacheFileVersion \<and> rc_llVersion (rcs_cache s) = ce_version env"

lemma writeToDisk_cache [simp]: "rcs_cache (snd (writeToDisk env dump s)) = rcs_cache s"
  by (simp add: writeToDisk_def Let_def)

lemma writeToDisk_cacheD: "writeToDisk env dump s = (r, s') \<Longrightarrow> rcs_cache s' = rcs_cache s"
  using writeToDisk_cache [of env dump s] by simp

lemma writeToDisk_ok:
  "fst (writeToDisk env dump s) = Inr u \<Longrightarrow>
     dir_cacheFile (rcs_dir (snd (writeToDisk env dump s))) = Some (ce_write env (dump (rcs_cache s)))"
  by (auto simp: writeToDisk_def Let_def split: if_splits)

lemma writeToDisk_failed:
  "fst (writeToDisk env dump s) = Inl e \<Longrightarrow>
     dir_cacheFile (rcs_dir (snd (writeToDisk env dump s))) = dir_cacheFile (rcs_dir s)"
  by (auto simp: writeToDisk_def Let_def split: if_splits)

lemma set_layers_sel [simp]:
  "rc_layers (rcs_cache (set_layers ls s)) = ls" "rcs_dir (set_layers ls s) = rcs_dir s"
  "rc_version (rcs_cache (set_layers ls s)) = rc_version (rcs_cache s)"
  "rc_llVersion (rcs_cache (set_layers ls s)) = rc_llVersion (rcs_cache s)"
  by (simp_all add: set_layers_def)

lemma findMatchingItem_iff:
  "findMatchingItem item s = Inr i \<longleftrightarrow> index_of (same_item item) (rc_layers (rcs_cache s)) = Some i"
  "(\<exists>e. findMatchingItem item s = Inl e) \<longleftrightarrow> index_of (same_item item) (rc_layers (rcs_cache s)) = None"
  by (auto simp: findMatchingItem_def split: option.splits)

text \<open>The two mutators as one write of a changed list.\<close>

lemma addLayerItem_fresh:
  assumes "index_of (same_item item) (rc_layers (rcs_cache s)) = None"
    and "w = writeToDisk env dump (set_layers (rc_layers (rcs_cache s) @ [item]) s)"
  shows "snd (addLayerItem env dump item s) = snd w" "is_ok (fst (addLayerItem env dump item s)) = is_ok (fst w)"
  using assms by (auto simp: addLayerItem_def findMatchingItem_def Let_def split: prod.split sum.split)

lemma deleteLayerItem_found:
  assumes "index_of (same_item item) (rc_layers (rcs_cache s)) = Some i"
    and "w = writeToDisk env dump (set_layers (erase_at i (rc_layers (rcs_cache s))) s)"
  shows "snd (deleteLayerItem env dump item s) = snd w"
    "is_ok (fst (deleteLayerItem env dump item s)) = is_ok (fst w)"
  using assms by (auto simp: deleteLayerItem_def findMatchingItem_def Let_def split: prod.split sum.split)

lemma addLayerItem_writes:
  "(Inr u, s') = addLayerItem env dump item s \<Longrightarrow> cache_current e s \<Longrightarrow>
     \<exists>t. writeToDisk env dump t = (Inr (), s') \<and> cache_current e t"
  by (auto simp: addLayerItem_def Let_def cache_current_def split: prod.splits sum.splits)

lemma deleteLayerItem_writes:
  "(Inr u, s') = deleteLayerItem env dump item s \<Longrightarrow> cache_current e s \<Longrightarrow>
     \<exists>t. writeToDisk env dump t = (Inr (), s') \<and> cache_current e t"
  by (auto simp: deleteLayerItem_def Let_def cache_current_def split: prod.splits sum.splits)

lemma updateMergedItems_writes:
  assumes "(Inr u, s') = updateMergedItems env dump merged s" "cache_current e s"
  shows "\<exists>t. writeToDisk env dump t = (Inr (), s') \<and> cache_current e t"
  using assms
  by (intro exI [of _ "s\<lparr>rcs_cache := (rcs_cache s)\<lparr>rc_merged := Some merged\<rparr>\<rparr>"])
    (auto simp: updateMergedItems_def cache_current_def split: prod.splits sum.splits)

lemma written_reloads:
  assumes "writeToDisk env dump t = (Inr (), s')" "cache_current env t"
    and "load (dump (rcs_cache s')) = Inr (rcs_cache s')" "\<And>t. ce_write env t = t"
    and "ce_version env' = ce_version env"
  shows "RepoCache_create env' dump load os blank cfg (rcs_dir s') =
    (Inr \<lparr>rcs_cache = (rcs_cache s')\<lparr>rc_config := cfg\<rparr>, rcs_dir = rcs_dir s'\<rparr>, rcs_dir s')"
proof -
  have "dir_cacheFile (rcs_dir s') = Some (dump (rcs_cache s'))" "rcs_cache s' = rcs_cache t"
    using assms(1,4) writeToDisk_ok [of env dump t] writeToDisk_cache [of env dump t] by simp_all
  then show ?thesis
    using assms by (simp add: RepoCache_create_def cache_current_def Let_def)
qed

lemma erase_at_last: "erase_at (length xs) (xs @ [x]) = xs"
  by (simp add: erase_at_def)

section \<open>Properties\<close>

text \<open>
  The item list behaves like a keyed store. Adding an item that is not there appends it, keeps
  the invariant that no two items match, and deleting it again gives back the list as it was, after
  which it is no longer found; deleting any item that is there keeps the invariant and makes the item
  unfindable. Adding an item that is there and deleting one that is not are errors that change
  nothing.
\<close>

theorem repo_cache_add_delete:
  assumes "cache_ok s"
  shows "(case findMatchingItem item s of
      Inl _ \<Rightarrow>
        (let s' = snd (addLayerItem env dump item s); s'' = snd (deleteLayerItem env' dump' item s') in
         rc_layers (rcs_cache s') = rc_layers (rcs_cache s) @ [item] \<and> cache_ok s' \<and>
         rc_layers (rcs_cache s'') = rc_layers (rcs_cache s)) \<and>
        \<not> is_ok (fst (deleteLayerItem env dump item s)) \<and> snd (deleteLayerItem env dump item s) = s
    | Inr _ \<Rightarrow>
        (let s' = snd (deleteLayerItem env dump item s) in
         cache_ok s' \<and> \<not> is_ok (findMatchingItem item s')) \<and>
        \<not> is_ok (fst (addLayerItem env dump item s)) \<and> snd (addLayerItem env dump item s) = s)"
proof (cases "index_of (same_item item) (rc_layers (rcs_cache s))")
  case None
  let ?s1 = "snd (addLayerItem env dump item s)"
  have l1: "rc_layers (rcs_cache ?s1) = rc_layers (rcs_cache s) @ [item]"
    using addLayerItem_fresh(1) [OF None refl, of env dump] by simp
  then have "index_of (same_item item) (rc_layers (rcs_cache ?s1)) = Some (length (rc_layers (rcs_cache s)))"
    using items.fresh_append [OF None] by simp
  from deleteLayerItem_found(1) [OF this refl, of env' dump'] l1
  have "rc_layers (rcs_cache (snd (deleteLayerItem env' dump' item ?s1))) = rc_layers (rcs_cache s)"
    by (simp add: erase_at_last)
  moreover have "cache_ok ?s1" using assms items.unique_append None l1 by (simp add: cache_ok_def)
  ultimately show ?thesis using None l1
    by (simp add: findMatchingItem_def deleteLayerItem_def)
next
  case (Some i)
  have "rc_layers (rcs_cache (snd (deleteLayerItem env dump item s))) = erase_at i (rc_layers (rcs_cache s))"
    using deleteLayerItem_found(1) [OF Some refl, of env dump] by simp
  then show ?thesis using items.unique_erase [OF _ Some] assms Some
    by (simp add: cache_ok_def findMatchingItem_def addLayerItem_def)
qed

definition demo_item :: layers_item where
  "demo_item = \<lparr>item_commit = ''c0'', item_deleted = None, item_info = demo_info, item_repo = ''stable''\<rparr>"

definition demo_cache_env :: cache_env where
  "demo_cache_env = \<lparr>ce_version = ''1.7.0'', ce_uid = 1000, ce_exists = None, ce_openTmp = True,
     ce_write = (\<lambda>t. t), ce_rename = True, ce_removeTmp = True, ce_openTag = True\<rparr>"

definition demo_cache :: "layers_item list \<Rightarrow> repo_cache" where
  "demo_cache items = \<lparr>rcs_cache = \<lparr>rc_config = \<lparr>cfg_defaultRepo = ''stable'', cfg_repos = [], cfg_version = 1\<rparr>,
       rc_layers = items, rc_llVersion = ''1.7.0'', rc_merged = None, rc_version = ''2''\<rparr>,
     rcs_dir = \<lparr>dir_exists = True, dir_cacheFile = None, dir_tmpFile = None, dir_versionTag = None\<rparr>\<rparr>"

theorem repo_cache_add_delete_witness:
  "rc_layers (rcs_cache (snd (deleteLayerItem demo_cache_env (\<lambda>_. []) demo_item
     (snd (addLayerItem demo_cache_env (\<lambda>_. []) demo_item (demo_cache [demo_item\<lparr>item_commit := ''c1''\<rparr>])))))) =
   [demo_item\<lparr>item_commit := ''c1''\<rparr>]"
  using repo_cache_add_delete [where s = "demo_cache [demo_item\<lparr>item_commit := ''c1''\<rparr>]" and item = demo_item
      and env = demo_cache_env and env' = demo_cache_env and dump = "\<lambda>_. []" and dump' = "\<lambda>_. []"]
  by (simp add: cache_ok_def demo_cache_def demo_item_def findMatchingItem_def same_item_def Let_def)

text \<open>
  C6: What is written is what the next start reads. After a successful add, delete or merge update
  of an up-to-date cache, \<open>create\<close> with any ostree repository loads exactly the cache in memory, with
  the configuration replaced, touches no file, and never rebuilds.
\<close>

theorem repo_cache_reload:
  assumes "load (dump (rcs_cache s')) = Inr (rcs_cache s')" and "\<And>t. ce_write env t = t"
    and "cache_current env s"
    and "(Inr (), s') \<in> {addLayerItem env dump item s, deleteLayerItem env dump item s,
                           updateMergedItems env dump merged s}"
    and "ce_version env' = ce_version env"
  shows "RepoCache_create env' dump load os blank cfg (rcs_dir s') =
    (Inr \<lparr>rcs_cache = (rcs_cache s')\<lparr>rc_config := cfg\<rparr>, rcs_dir = rcs_dir s'\<rparr>, rcs_dir s')"
proof -
  have "\<exists>t. writeToDisk env dump t = (Inr (), s') \<and> cache_current env t"
    using assms(4) addLayerItem_writes [OF _ assms(3)] deleteLayerItem_writes [OF _ assms(3)]
      updateMergedItems_writes [OF _ assms(3)] by blast
  then show ?thesis using written_reloads assms(1,2,5) by metis
qed

definition demo_cache_added :: repo_cache where
  "demo_cache_added = snd (addLayerItem demo_cache_env (\<lambda>_. ''x'') demo_item (demo_cache []))"

theorem repo_cache_reload_witness:
  "fst (RepoCache_create demo_cache_env (\<lambda>_. ''x'') (\<lambda>_. Inr (rcs_cache demo_cache_added))
         \<lparr>os_refs = Inr [], os_commit = (\<lambda>_. None), os_info = (\<lambda>_ :: unit. Inr demo_info)\<rparr>
         (rcs_cache (demo_cache [])) \<lparr>cfg_defaultRepo = ''beta'', cfg_repos = [], cfg_version = 1\<rparr>
         (rcs_dir demo_cache_added)) =
     Inr \<lparr>rcs_cache = (rcs_cache demo_cache_added)
            \<lparr>rc_config := \<lparr>cfg_defaultRepo = ''beta'', cfg_repos = [], cfg_version = 1\<rparr>\<rparr>,
          rcs_dir = rcs_dir demo_cache_added\<rparr> \<and> rc_layers (rcs_cache demo_cache_added) = [demo_item]"
proof -
  have added: "addLayerItem demo_cache_env (\<lambda>_. ''x'') demo_item (demo_cache []) = (Inr (), demo_cache_added)"
    and item: "rc_layers (rcs_cache demo_cache_added) = [demo_item]"
    by (simp_all add: demo_cache_added_def addLayerItem_def findMatchingItem_def writeToDisk_def
        demo_cache_def demo_cache_env_def set_layers_def Let_def)
  have "cache_current demo_cache_env (demo_cache [])"
    by (simp add: cache_current_def demo_cache_def demo_cache_env_def cacheFileVersion_def)
  then show ?thesis
    using repo_cache_reload [where load = "\<lambda>_. Inr (rcs_cache demo_cache_added)" and dump = "\<lambda>_. ''x''"
        and env = demo_cache_env and env' = demo_cache_env and s = "demo_cache []" and item = demo_item
        and s' = demo_cache_added and os = "\<lparr>os_refs = Inr [], os_commit = (\<lambda>_. None),
          os_info = (\<lambda>_ :: unit. Inr demo_info)\<rparr>"] added item
    by (simp add: demo_cache_env_def)
qed

text \<open>
  When the file cannot be replaced, \<open>addLayerItem\<close> and \<open>deleteLayerItem\<close> report the error but keep
  the change in memory: until the process ends it works with a list that differs from \<open>states.json\<close>.
\<close>

theorem repo_cache_failed_write:
  assumes "ce_openTmp env = False \<or> ce_rename env = False"
    and "\<not> is_ok (findMatchingItem item s)"
  shows "\<not> is_ok (fst (addLayerItem env dump item s)) \<and>
    rc_layers (rcs_cache (snd (addLayerItem env dump item s))) = rc_layers (rcs_cache s) @ [item] \<and>
    dir_cacheFile (rcs_dir (snd (addLayerItem env dump item s))) = dir_cacheFile (rcs_dir s)"
proof -
  have none: "index_of (same_item item) (rc_layers (rcs_cache s)) = None"
    using assms(2) by (simp add: findMatchingItem_def split: option.splits)
  let ?t = "set_layers (rc_layers (rcs_cache s) @ [item]) s"
  have "\<not> is_ok (fst (writeToDisk env dump ?t))"
    using assms(1) by (auto simp: writeToDisk_def Let_def)
  then show ?thesis
    using addLayerItem_fresh [OF none refl, of env dump] writeToDisk_failed [of env dump ?t]
    by (cases "fst (writeToDisk env dump ?t)") auto
qed

theorem repo_cache_failed_write_witness:
  "\<not> is_ok (fst (addLayerItem (demo_cache_env\<lparr>ce_rename := False\<rparr>) (\<lambda>_. []) demo_item (demo_cache []))) \<and>
   rc_layers (rcs_cache (snd (addLayerItem (demo_cache_env\<lparr>ce_rename := False\<rparr>) (\<lambda>_. []) demo_item
     (demo_cache [])))) = [demo_item]"
  using repo_cache_failed_write [of "demo_cache_env\<lparr>ce_rename := False\<rparr>" demo_item "demo_cache []" "\<lambda>_. []"]
  by (simp add: demo_cache_def findMatchingItem_def)

text \<open>
  Whatever was on disk, a cache that \<open>create\<close> returns has the current storage version, the
  version of this build and the given configuration; when the file is missing, unreadable or from
  another build, its layers are exactly the refs of the ostree repository that have a repo name, a
  commit and a readable description.
\<close>

theorem RepoCache_create_current:
  assumes "RepoCache_create env dump load os blank cfg d = (Inr s, d')"
  shows "cache_current env s \<and> rc_config (rcs_cache s) = cfg \<and> rcs_dir s = d' \<and>
    (rc_layers (rcs_cache s) = (case os_refs os of Inr refs \<Rightarrow> List.map_filter (layer_of_ref os) refs) \<or>
     (\<exists>text c. dir_cacheFile d = Some text \<and> load text = Inr c \<and> cache_current env \<lparr>rcs_cache = c, rcs_dir = d\<rparr> \<and>
        rc_layers (rcs_cache s) = rc_layers c \<and> d' = d))"
proof -
  have rebuilt: "cache_current env t \<and> rc_config (rcs_cache t) = cfg \<and>
      rc_layers (rcs_cache t) = (case os_refs os of Inr refs \<Rightarrow> List.map_filter (layer_of_ref os) refs)"
    if "rebuildCache env dump os cfg t0 = (Inr u, t)" for t0 t u
    using that by (auto simp: rebuildCache_def cache_current_def Let_def dest!: writeToDisk_cacheD
        split: sum.splits if_splits prod.splits)
  show ?thesis
    using assms by (auto simp: RepoCache_create_def Let_def cache_current_def
        split: option.splits sum.splits prod.splits if_splits dest!: rebuilt)
qed

theorem RepoCache_create_current_witness:
  "\<exists>s d'. RepoCache_create demo_cache_env (\<lambda>_. ''x'') (\<lambda>_. Inl (Err ''load'' ''broken'' (-1)))
       \<lparr>os_refs = Inr [''stable:main/a'', ''local''], os_commit = (\<lambda>_. Some (''c'', ())),
        os_info = (\<lambda>_. Inr demo_info)\<rparr>
       (rcs_cache (demo_cache [])) (rc_config (rcs_cache (demo_cache []))) (rcs_dir (demo_cache [])) = (Inr s, d') \<and>
     cache_current demo_cache_env s \<and> map item_repo (rc_layers (rcs_cache s)) = [''stable'']"
proof -
  let ?os = "\<lparr>os_refs = Inr [''stable:main/a'', ''local''], os_commit = (\<lambda>_. Some (''c'', ())),
        os_info = (\<lambda>_. Inr demo_info)\<rparr> :: unit ostree_view"
  let ?run = "RepoCache_create demo_cache_env (\<lambda>_. ''x'') (\<lambda>_. Inl (Err ''load'' ''broken'' (-1))) ?os
    (rcs_cache (demo_cache [])) (rc_config (rcs_cache (demo_cache []))) (rcs_dir (demo_cache []))"
  obtain s d' where run: "?run = (Inr s, d')"
    by (simp add: RepoCache_create_def rebuildCache_def writeToDisk_def demo_cache_env_def demo_cache_def Let_def)
  from RepoCache_create_current [OF run] run show ?thesis
    by (simp add: demo_cache_def layer_of_ref_def List.map_filter_def)
qed

end
