(* ===== verification/Cache_Refinement.thy ===== *)
theory Cache_Refinement
  imports Repo_Cache
begin

text \<open>
  The layer list of the repository cache, \<open>repo_cache.cpp\<close>, as an implementation of a finite map from the identity of a
  layer to its record. The cache runs by the operations of \<^theory_text>\<open>Repo_Cache\<close>, whatever the file system answers; every
  history of calls and answers it can show is one of the map.
\<close>

section \<open>Simulation\<close>

inductive trace :: "('s \<Rightarrow> 'e \<Rightarrow> 's \<Rightarrow> bool) \<Rightarrow> 's \<Rightarrow> 'e list \<Rightarrow> 's \<Rightarrow> bool" for step where
  Nil: "trace step s [] s"
| Snoc: "trace step s es t \<Longrightarrow> step t e u \<Longrightarrow> trace step s (es @ [e]) u"

locale forward_simulation =
  fixes step :: "'s \<Rightarrow> 'e \<Rightarrow> 's \<Rightarrow> bool" and spec :: "'a \<Rightarrow> 'e \<Rightarrow> 'a \<Rightarrow> bool"
    and abstraction :: "'s \<Rightarrow> 'a" and inv :: "'s \<Rightarrow> bool"
  assumes inv_step: "inv s \<Longrightarrow> step s e t \<Longrightarrow> inv t"
    and sim_step: "inv s \<Longrightarrow> step s e t \<Longrightarrow> spec (abstraction s) e (abstraction t)"
begin

lemma traces_refine:
  assumes "trace step s es t" "inv s"
  shows "trace spec (abstraction s) es (abstraction t) \<and> inv t"
  using assms by (induction rule: trace.induct) (auto intro: trace.intros inv_step sim_step)

end

section \<open>The map and the cache\<close>

type_synonym layer_key = "string \<times> string \<times> string \<times> string \<times> string \<times> string option \<times> string"

definition layer_key :: "layers_item \<Rightarrow> layer_key" where
  "layer_key i = (item_commit i, item_repo i, info_channel (item_info i), info_id (item_info i), info_version (item_info i),
     arch_front (item_info i), info_module (item_info i))"

datatype cache_event =
    AddLayer layers_item bool
  | DeleteLayer layers_item bool
  | UpdateMerged "merged_item list" bool
  | QueryLayers repo_cache_query "layers_item set"

text \<open>The specification; an operation on the map may still report an error, when the file cannot be written.\<close>

inductive store_step :: "(layer_key \<rightharpoonup> layers_item) \<Rightarrow> cache_event \<Rightarrow> (layer_key \<rightharpoonup> layers_item) \<Rightarrow> bool" where
  add_new: "m (layer_key i) = None \<Longrightarrow> store_step m (AddLayer i ok) (m(layer_key i \<mapsto> i))"
| add_old: "m (layer_key i) \<noteq> None \<Longrightarrow> store_step m (AddLayer i False) m"
| delete_old: "m (layer_key i) \<noteq> None \<Longrightarrow> store_step m (DeleteLayer i ok) (m(layer_key i := None))"
| delete_new: "m (layer_key i) = None \<Longrightarrow> store_step m (DeleteLayer i False) m"
| update_merged: "store_step m (UpdateMerged ms ok) m"
| query: "store_step m (QueryLayers q {i \<in> ran m. query_matches q i}) m"

inductive cache_step :: "repo_cache \<Rightarrow> cache_event \<Rightarrow> repo_cache \<Rightarrow> bool" where
  "addLayerItem env dump i s = (r, t) \<Longrightarrow> cache_step s (AddLayer i (is_ok r)) t"
| "deleteLayerItem env dump i s = (r, t) \<Longrightarrow> cache_step s (DeleteLayer i (is_ok r)) t"
| "updateMergedItems env dump ms s = (r, t) \<Longrightarrow> cache_step s (UpdateMerged ms (is_ok r)) t"
| "sorts later_version_string srt \<Longrightarrow> cache_step s (QueryLayers q (set (queryLayerItem srt q s))) s"

definition keyed :: "layers_item list \<Rightarrow> (layer_key \<times> layers_item) list" where
  "keyed ls = map (\<lambda>i. (layer_key i, i)) ls"

definition store_of :: "repo_cache \<Rightarrow> (layer_key \<rightharpoonup> layers_item)" where
  "store_of s = map_of (keyed (rc_layers (rcs_cache s)))"

section \<open>Lemmas\<close>

lemma same_item_key: "same_item i j \<longleftrightarrow> layer_key i = layer_key j"
  by (auto simp: same_item_def layer_key_def)

lemma keys_keyed [simp]: "map fst (keyed ls) = map layer_key ls"
  by (simp add: keyed_def)

lemma keyed_none: "map_of (keyed ls) k = None \<longleftrightarrow> k \<notin> layer_key ` set ls"
  by (simp add: map_of_eq_None_iff keyed_def image_image)

lemma index_of_key: "index_of (same_item i) ls = None \<longleftrightarrow> map_of (keyed ls) (layer_key i) = None"
  by (auto simp: items.fresh_none same_item_key keyed_none)

lemma unique_distinct: "sorted_wrt (\<lambda>x y. \<not> same_item x y) ls \<longleftrightarrow> distinct (map layer_key ls)"
  by (induction ls) (auto simp: same_item_key)

lemma cache_ok_distinct: "cache_ok s \<longleftrightarrow> distinct (map layer_key (rc_layers (rcs_cache s)))"
  by (simp add: cache_ok_def unique_distinct)

lemma keyed_append: "map_of (keyed ls) (layer_key i) = None \<Longrightarrow> map_of (keyed (ls @ [i])) = (map_of (keyed ls))(layer_key i \<mapsto> i)"
  by (auto simp: keyed_def fun_eq_iff map_add_def split: option.split)

lemma keyed_erase:
  assumes "distinct (map layer_key ls)" "index_of (same_item i) ls = Some n"
  shows "map_of (keyed (erase_at n ls)) = (map_of (keyed ls))(layer_key i := None)"
  using assms
proof (induction ls arbitrary: n)
  case (Cons l ls)
  show ?case
  proof (cases "same_item i l")
    case True
    then have "map_of (keyed ls) (layer_key i) = None"
      using Cons.prems(1) by (auto simp: same_item_key keyed_none)
    then show ?thesis using True Cons.prems(2)
      by (auto simp: erase_at_def same_item_key keyed_def fun_eq_iff)
  next
    case False
    then obtain m where m: "index_of (same_item i) ls = Some m" "n = Suc m" using Cons.prems(2) by auto
    then have "erase_at n (l # ls) = l # erase_at m ls" by (simp add: erase_at_def)
    moreover have "map_of (keyed (l # xs)) = (map_of (keyed xs))(layer_key l \<mapsto> l)" for xs
      by (simp add: keyed_def)
    ultimately show ?thesis using Cons.IH [OF _ m(1)] Cons.prems(1) False
      by (simp add: same_item_key, intro ext) auto
  qed
qed simp

lemma ran_store: "cache_ok s \<Longrightarrow> ran (store_of s) = set (rc_layers (rcs_cache s))"
  unfolding store_of_def cache_ok_distinct
  by (subst ran_distinct) (auto simp: keyed_def image_iff o_def)

lemma set_queryLayerItem:
  "sorts later_version_string srt \<Longrightarrow> set (queryLayerItem srt q s) = {i \<in> set (rc_layers (rcs_cache s)). query_matches q i}"
  unfolding sorts_def queryLayerItem_def by (metis mset_eq_setD set_filter)

lemma updateMerged_layers: "rc_layers (rcs_cache (snd (updateMergedItems env dump ms s))) = rc_layers (rcs_cache s)"
  by (auto simp: updateMergedItems_def split: prod.splits sum.splits dest: writeToDisk_cacheD)

lemma add_step:
  assumes "cache_ok s" "addLayerItem env dump i s = (r, t)"
  shows "cache_ok t" "store_step (store_of s) (AddLayer i (is_ok r)) (store_of t)"
proof -
  have t: "t = snd (addLayerItem env dump i s)" and r: "r = fst (addLayerItem env dump i s)" using assms(2) by simp_all
  show "cache_ok t" "store_step (store_of s) (AddLayer i (is_ok r)) (store_of t)"
  proof (atomize (full), cases "index_of (same_item i) (rc_layers (rcs_cache s))")
    case None
    have "rc_layers (rcs_cache t) = rc_layers (rcs_cache s) @ [i]"
      using addLayerItem_fresh(1) [OF None refl] t by simp
    then have "store_of t = (store_of s)(layer_key i \<mapsto> i)" "cache_ok t"
      using None assms(1) items.unique_append
      by (simp_all add: store_of_def keyed_append index_of_key [symmetric] cache_ok_def)
    then show "cache_ok t \<and> store_step (store_of s) (AddLayer i (is_ok r)) (store_of t)"
      using None by (simp add: add_new store_of_def index_of_key)
  next
    case (Some n)
    then have "t = s" "\<not> is_ok r" using assms(2) by (auto simp: addLayerItem_def findMatchingItem_def Let_def)
    then show "cache_ok t \<and> store_step (store_of s) (AddLayer i (is_ok r)) (store_of t)"
      using Some assms(1) add_old [of "store_of s" i] index_of_key [of i "rc_layers (rcs_cache s)"]
      by (simp add: store_of_def)
  qed
qed

lemma delete_step:
  assumes "cache_ok s" "deleteLayerItem env dump i s = (r, t)"
  shows "cache_ok t \<and> store_step (store_of s) (DeleteLayer i (is_ok r)) (store_of t)"
proof (cases "index_of (same_item i) (rc_layers (rcs_cache s))")
  case None
  then have "t = s" "\<not> is_ok r" using assms(2) by (auto simp: deleteLayerItem_def findMatchingItem_def Let_def)
  then show ?thesis using None assms(1) delete_new [of "store_of s" i] by (simp add: store_of_def index_of_key)
next
  case (Some n)
  have "rc_layers (rcs_cache t) = erase_at n (rc_layers (rcs_cache s))"
    using deleteLayerItem_found(1) [OF Some refl, of env dump] assms(2) by simp
  then have "store_of t = (store_of s)(layer_key i := None)" "cache_ok t"
    using Some assms(1) items.unique_erase [OF _ Some]
    by (simp_all add: store_of_def keyed_erase cache_ok_def unique_distinct [symmetric])
  then show ?thesis
    using delete_old [of "store_of s" i] index_of_key [of i "rc_layers (rcs_cache s)"] Some
    by (simp add: store_of_def)
qed

interpretation cache: forward_simulation cache_step store_step store_of cache_ok
proof
  have sim: "cache_ok t \<and> store_step (store_of s) e (store_of t)" if "cache_step s e t" "cache_ok s" for s e t
    using that
  proof cases
    case (3 env dump ms r)
    then have "rc_layers (rcs_cache t) = rc_layers (rcs_cache s)"
      using updateMerged_layers [of env dump ms s] by simp
    then show ?thesis using 3 that(2) by (simp add: store_of_def cache_ok_def update_merged)
  next
    case (4 srt q)
    then show ?thesis using that(2) query [of "store_of s" q] by (simp add: ran_store set_queryLayerItem)
  qed (use that(2) add_step delete_step in blast)+
  then show "cache_ok s \<Longrightarrow> cache_step s e t \<Longrightarrow> cache_ok t"
    and "cache_ok s \<Longrightarrow> cache_step s e t \<Longrightarrow> store_step (store_of s) e (store_of t)" for s e t
    by blast+
qed

section \<open>Property\<close>

text \<open>
  C8: The cache refines a finite map from the identity of a layer (commit, repository, channel, id, version, architecture and
  module) to its record. Whatever sequence of additions, deletions, merge updates and queries runs on
  a cache in which no two items match, with whatever outcome of the writes to the file, the same sequence of calls with the same
  answers is one of the map, and the cache stays in that state.
\<close>

theorem repo_cache_refines_map:
  assumes "cache_ok s" "trace cache_step s es t"
  shows "trace store_step (store_of s) es (store_of t) \<and> cache_ok t"
  using cache.traces_refine [OF assms(2,1)] .

theorem repo_cache_refines_map_witness:
  "trace store_step (store_of (demo_cache [])) [AddLayer demo_item True] (store_of demo_cache_added)"
proof -
  have "addLayerItem demo_cache_env (\<lambda>_. ''x'') demo_item (demo_cache []) = (Inr (), demo_cache_added)"
    by (simp add: demo_cache_added_def addLayerItem_def findMatchingItem_def writeToDisk_def
        demo_cache_def demo_cache_env_def set_layers_def Let_def)
  then have "cache_step (demo_cache []) (AddLayer demo_item (is_ok (Inr () :: unit result))) demo_cache_added"
    by (rule cache_step.intros)
  then have "trace cache_step (demo_cache []) ([] @ [AddLayer demo_item True]) demo_cache_added"
    by (intro trace.Snoc [OF trace.Nil]) simp
  moreover have "cache_ok (demo_cache [])" by (simp add: cache_ok_def demo_cache_def)
  ultimately show ?thesis using repo_cache_refines_map by fastforce
qed

end
