(* ===== verification/Ostree_Repo.thy ===== *)
theory Ostree_Repo
  imports Repo_Cache Reference Transaction
begin

text \<open>
  The local repository, \<open>libs/linglong/src/linglong/repo/ostree_repo.cpp\<close>: how a fuzzy reference is
  resolved against the cache and the remote, how layers are looked up, marked as deleted, added and
  removed. Calls into ostree are the fields of \<open>ostree_env\<close>, the search on the remote server is the
  parameter \<open>listRemote\<close>; \<open>None\<close> results are \<open>qFatal\<close> or the dereference of an \<open>expected\<close> without
  a value.
\<close>

section \<open>Ref specifications\<close>

definition front :: "string list \<Rightarrow> string" where
  "front xs = (case xs of [] \<Rightarrow> [] | x # _ \<Rightarrow> x)"

definition ostreeRefFromLayerItem :: "layers_item \<Rightarrow> string" where
  "ostreeRefFromLayerItem layer =
     (let i = item_info layer in
      info_channel i @ ''/'' @ info_id i @ ''/'' @ info_version i @ ''/'' @ front (info_arch i) @ ''/''
      @ info_module i)"

definition ostreeRefSpecFromLayerItem :: "layers_item \<Rightarrow> string" where
  "ostreeRefSpecFromLayerItem layer = item_repo layer @ '':'' @ ostreeRefFromLayerItem layer"

definition spec_path :: "reference \<Rightarrow> string \<Rightarrow> string" where
  "spec_path ref module =
     ref_channel ref @ ''/'' @ ref_id ref @ ''/'' @ Version_toString (ref_version ref) @ ''/''
     @ Architecture_toString (ref_arch ref) @ ''/'' @ module"

definition ostreeSpecFromReference :: "reference \<Rightarrow> string option \<Rightarrow> string \<Rightarrow> string" where
  "ostreeSpecFromReference ref repo module =
     (let spec = spec_path ref (if module = ''binary'' then ''runtime'' else module) in
      case repo of None \<Rightarrow> spec | Some r \<Rightarrow> r @ '':'' @ spec)"

definition ostreeSpecFromReferenceV2 ::
    "reference \<Rightarrow> string option \<Rightarrow> string \<Rightarrow> string option \<Rightarrow> string" where
  "ostreeSpecFromReferenceV2 ref repo module subRef =
     (let spec = spec_path ref (if module = ''runtime'' then ''binary'' else module);
          ret = (case repo of None \<Rightarrow> spec | Some r \<Rightarrow> r @ '':'' @ spec)
      in case subRef of None \<Rightarrow> ret | Some u \<Rightarrow> ret @ ''_'' @ u)"

section \<open>Resolving fuzzy references\<close>

text \<open>The search loop of \<open>clearReferenceLocal\<close> over the layers of one application.\<close>

fun find_local :: "version option \<Rightarrow> layers_item list \<Rightarrow> layers_item option option" where
  "find_local want [] = Some None"
| "find_local want (x # xs) =
     (if item_is_deleted x then find_local want xs
      else case Version_parse (info_version (item_info x)) of
        Inl _ \<Rightarrow> None
      | Inr pkgVer \<Rightarrow>
         (case want of
            None \<Rightarrow> Some (Some x)
          | Some w \<Rightarrow>
             (if Version_eq (if tweak w = None then pkgVer\<lparr>tweak := None\<rparr> else pkgVer) w
              then Some (Some x) else find_local want xs)))"

definition query_id :: "string \<Rightarrow> repo_cache_query" where
  "query_id i = \<lparr>q_id = Some i, q_repo = None, q_channel = None, q_version = None, q_module = None,
     q_uuid = None, q_deleted = None\<rparr>"

text \<open>The reference of the layer that was found.\<close>

definition item_reference :: "layers_item \<Rightarrow> reference result option" where
  "item_reference x =
     (case Version_parse (info_version (item_info x)) of Inl _ \<Rightarrow> None | Inr ver \<Rightarrow>
      (case info_arch (item_info x) of [] \<Rightarrow> None | a # _ \<Rightarrow>
       (case Architecture_parse a of
          Inl _ \<Rightarrow> None
        | Inr arch \<Rightarrow> Some (Reference_create (info_channel (item_info x)) (info_id (item_info x)) ver arch))))"

definition clearReferenceLocal ::
    "(layers_item list \<Rightarrow> layers_item list) \<Rightarrow> architecture result \<Rightarrow> repo_cache \<Rightarrow> fuzzy_reference \<Rightarrow>
     reference result option" where
  "clearReferenceLocal std_sort curArch s fuzzy =
     (let trace = ''clear fuzzy reference locally'';
          search =
            (let availablePackage = queryLayerItem std_sort (query_id (fz_id fuzzy)) s in
             if availablePackage = []
             then Some (Inl (Err trace (''package not found:'' @ FuzzyReference_toString fuzzy) (-1)))
             else case find_local (fz_version fuzzy) availablePackage of
               None \<Rightarrow> None
             | Some None \<Rightarrow> Some (Inl (Err_wrap trace (Err trace ''compatible layer not found'' (-1))))
             | Some (Some x) \<Rightarrow> item_reference x)
      in case fz_arch fuzzy of
           None \<Rightarrow> search
         | Some a \<Rightarrow>
            (case curArch of
               Inl e \<Rightarrow> Some (Inl (Err_wrap trace e))
             | Inr cur \<Rightarrow>
                (if Architecture_toString cur \<noteq> Architecture_toString a
                 then Some (Inl (Err trace ''arch mismatch with host arch'' (-1)))
                 else search)))"

text \<open>The body of the loop over the remote records: the reference of a record that is not skipped.\<close>

definition remote_candidate :: "fuzzy_reference \<Rightarrow> string \<Rightarrow> package_info_v2 \<Rightarrow> reference option" where
  "remote_candidate fuzzy module record =
     (if (case fz_channel fuzzy of None \<Rightarrow> False | Some c \<Rightarrow> c \<noteq> info_channel record) then None
      else if fz_id fuzzy \<noteq> info_id record then None
      else case Version_parse (info_version record) of Inl _ \<Rightarrow> None | Inr ver \<Rightarrow>
        (case info_arch record of [] \<Rightarrow> None | a # _ \<Rightarrow>
         (if (if module = ''binary''
              then info_module record \<noteq> ''binary'' \<and> info_module record \<noteq> ''runtime''
              else info_module record \<noteq> module)
          then None
          else case Architecture_parse a of Inl _ \<Rightarrow> None | Inr arch \<Rightarrow>
            (case Reference_create (info_channel record) (fz_id fuzzy) ver arch of
               Inl _ \<Rightarrow> None | Inr r \<Rightarrow> Some r))))"

definition reference_ge :: "reference \<Rightarrow> reference \<Rightarrow> bool" where
  "reference_ge a b = Version_ge (ref_version a) (ref_version b)"

fun scan_remote ::
    "fuzzy_reference \<Rightarrow> string \<Rightarrow> reference option \<Rightarrow> package_info_v2 list \<Rightarrow> reference option" where
  "scan_remote fuzzy module ref [] = ref"
| "scan_remote fuzzy module ref (x # xs) =
     (case remote_candidate fuzzy module x of
        None \<Rightarrow> scan_remote fuzzy module ref xs
      | Some cur \<Rightarrow>
         (case ref of
            None \<Rightarrow> scan_remote fuzzy module (Some cur) xs
          | Some r \<Rightarrow> scan_remote fuzzy module (if reference_ge r cur then Some r else Some cur) xs))"

record clear_option =
  opt_forceRemote :: bool
  opt_fallbackToRemote :: bool

definition clearReference ::
    "(layers_item list \<Rightarrow> layers_item list) \<Rightarrow> architecture result \<Rightarrow>
     (fuzzy_reference \<Rightarrow> package_info_v2 list result) \<Rightarrow> repo_cache \<Rightarrow> fuzzy_reference \<Rightarrow>
     clear_option \<Rightarrow> string \<Rightarrow> reference result option" where
  "clearReference std_sort curArch listRemote s fuzzy opts module =
     (let trace = ''clear fuzzy reference '' @ FuzzyReference_toString fuzzy;
          remote =
            (case listRemote fuzzy of
               Inl e \<Rightarrow> Some (Inl (Err_wrap_msg trace ''get ref list from remote'' e))
             | Inr records \<Rightarrow>
                (case scan_remote fuzzy module None records of
                   None \<Rightarrow> Some (Inl (Err trace (''not found ref:'' @ FuzzyReference_toString fuzzy
                              @ '' module:'' @ module @ '' from remote repo'') (-1)))
                 | Some r \<Rightarrow> Some (Inr r)))
      in if opt_forceRemote opts then remote
         else case clearReferenceLocal std_sort curArch s fuzzy of
           None \<Rightarrow> None
         | Some (Inr r) \<Rightarrow> Some (Inr r)
         | Some (Inl e) \<Rightarrow>
            (if opt_fallbackToRemote opts then remote else Some (Inl (Err_wrap trace e))))"

section \<open>Listing\<close>

definition listLocal :: "repo_cache \<Rightarrow> package_info_v2 list" where
  "listLocal s = map item_info (filter (\<lambda>i. \<not> item_is_deleted i) (queryExistingLayerItem s))"

fun latest_loop :: "package_info_v2 list \<Rightarrow> layers_item list \<Rightarrow> package_info_v2 list result" where
  "latest_loop pkgInfos [] = Inr pkgInfos"
| "latest_loop pkgInfos (item # items) =
     (let trace = ''list local latest package'' in
      if item_is_deleted item then latest_loop pkgInfos items
      else case index_of (\<lambda>i. info_id (item_info item) = info_id i) pkgInfos of
        None \<Rightarrow> latest_loop (pkgInfos @ [item_info item]) items
      | Some k \<Rightarrow>
         (case Version_parse (info_version (pkgInfos ! k)) of
            Inl e \<Rightarrow> Inl (Err_wrap trace e)
          | Inr pkgInfoVersion \<Rightarrow>
         (case Version_parse (info_version (item_info item)) of
            Inl e \<Rightarrow> Inl (Err_wrap trace e)
          | Inr itemVersion \<Rightarrow>
             (if Version_le itemVersion pkgInfoVersion then latest_loop pkgInfos items
              else latest_loop (erase_at k pkgInfos @ [item_info item]) items))))"

definition listLocalLatest :: "repo_cache \<Rightarrow> package_info_v2 list result" where
  "listLocalLatest s = latest_loop [] (queryExistingLayerItem s)"

section \<open>Layers\<close>

definition query_ref :: "reference \<Rightarrow> string option \<Rightarrow> string option \<Rightarrow> repo_cache_query" where
  "query_ref ref module subRef = \<lparr>q_id = Some (ref_id ref), q_repo = None, q_channel = Some (ref_channel ref),
     q_version = Some (Version_toString (ref_version ref)), q_module = module, q_uuid = subRef,
     q_deleted = None\<rparr>"

definition getLayerItem ::
    "(layers_item list \<Rightarrow> layers_item list) \<Rightarrow> repo_cache \<Rightarrow> reference \<Rightarrow> string \<Rightarrow> string option \<Rightarrow>
     layers_item result" where
  "getLayerItem std_sort s ref module0 subRef =
     (let trace = ''get latest layer of '' @ Reference_toString ref;
          module = (if module0 = ''runtime'' then ''binary'' else module0);
          ambiguous = Err trace
            ''ambiguous ref has been detected, maybe underlying storage already broken.'' (-1) in
      case queryLayerItem std_sort (query_ref ref (Some module) subRef) s of
        [x] \<Rightarrow> Inr x
      | [] \<Rightarrow>
         (if module \<noteq> ''binary''
          then Inl (Err trace (''couldn't find layer item '' @ Reference_toString ref @ ''/'' @ module) (-1))
          else case queryLayerItem std_sort (query_ref ref (Some ''runtime'') subRef) s of
            [x] \<Rightarrow> Inr x
          | [] \<Rightarrow> Inl (Err trace (Reference_toString ref @ '' fallback to runtime still not found'') (-1))
          | _ \<Rightarrow> Inl ambiguous)
      | _ \<Rightarrow> Inl ambiguous)"

definition getModuleList ::
    "(layers_item list \<Rightarrow> layers_item list) \<Rightarrow> (layers_item list \<Rightarrow> layers_item list) \<Rightarrow> repo_cache \<Rightarrow>
     reference \<Rightarrow> string list" where
  "getModuleList std_sort sort_modules s ref =
     map (\<lambda>x. info_module (item_info x))
       (sort_modules (queryLayerItem std_sort (query_ref ref None None) s))"

text \<open>\<open>markDeleted\<close>: the flag is set through the iterator, and a rollback puts the old value back.\<close>

definition set_deleted :: "nat \<Rightarrow> bool option \<Rightarrow> repo_cache \<Rightarrow> repo_cache" where
  "set_deleted i d s =
     set_layers ((rc_layers (rcs_cache s))[i := (rc_layers (rcs_cache s) ! i)\<lparr>item_deleted := d\<rparr>]) s"

definition markDeleted ::
    "cache_env \<Rightarrow> (repository_cache \<Rightarrow> string) \<Rightarrow> (layers_item list \<Rightarrow> layers_item list) \<Rightarrow> reference \<Rightarrow>
     bool \<Rightarrow> string \<Rightarrow> string option \<Rightarrow> repo_cache \<Rightarrow> unit result \<times> repo_cache" where
  "markDeleted env dump std_sort ref deleted module subRef s =
     (let trace = ''mark '' @ Reference_toString ref @ '' to deleted'' in
      case getLayerItem std_sort s ref module subRef of
        Inl e \<Rightarrow> (Inl (Err_wrap trace e), s)
      | Inr item \<Rightarrow>
         (case findMatchingItem item s of
            Inl e \<Rightarrow> (Inl (Err_wrap trace e), s)
          | Inr i \<Rightarrow>
             (let originalValue = item_deleted (rc_layers (rcs_cache s) ! i);
                  s1 = set_deleted i (if deleted then Some True else None) s;
                  transaction = addRollBack (set_deleted i) originalValue Transaction_new
              in case writeToDisk env dump s1 of
                   (Inl e, s2) \<Rightarrow> (Inl (Err_wrap trace e), Transaction_dtor transaction s2)
                 | (Inr _, s2) \<Rightarrow> (Inr (), Transaction_dtor (commit transaction) s2))))"

text \<open>
  The repository: the cache, the refs of the ostree repository (with their commits) and the layer
  directories that exist.
\<close>

record ostree_repo =
  or_repoDir :: string
  or_cache :: repo_cache
  or_refs :: "string \<rightharpoonup> string"
  or_layerDirs :: "string list"

record ostree_env =
  oe_noRev :: "int \<times> string"
  oe_setRef :: "(int \<times> string) option"
  oe_mkpath :: bool
  oe_rmdir :: bool
  oe_checkout :: "(int \<times> string) option"

definition removeOstreeRef ::
    "ostree_env \<Rightarrow> cache_env \<Rightarrow> (repository_cache \<Rightarrow> string) \<Rightarrow> layers_item \<Rightarrow> ostree_repo \<Rightarrow>
     unit result \<times> ostree_repo" where
  "removeOstreeRef oe env dump layer r =
     (let trace = ''remove ostree refspec from repository''; refspec = ostreeRefSpecFromLayerItem layer in
      case or_refs r refspec of
        None \<Rightarrow> (Inl (Err_gerror trace
                   (''couldn't resolve ref '' @ refspec @ '' on local machine'') (oe_noRev oe)), r)
      | Some _ \<Rightarrow>
         (case oe_setRef oe of
            Some e \<Rightarrow> (Inl (Err_gerror trace ''ostree_repo_set_ref_immediate'' e), r)
          | None \<Rightarrow>
             (let r1 = r\<lparr>or_refs := (or_refs r)(refspec := None)\<rparr> in
              case deleteLayerItem env dump layer (or_cache r1) of
                (Inl e, c) \<Rightarrow> (Inl (Err_wrap trace e), r1\<lparr>or_cache := c\<rparr>)
              | (Inr _, c) \<Rightarrow> (Inr (), r1\<lparr>or_cache := c\<rparr>))))"

text \<open>
  \<open>handleRepositoryUpdate\<close>: the layer directory is created and removed again, then checked out by
  ostree under the commit the ref resolves to, and recorded.
\<close>

definition handleRepositoryUpdate ::
    "ostree_env \<Rightarrow> cache_env \<Rightarrow> (repository_cache \<Rightarrow> string) \<Rightarrow> string \<Rightarrow> layers_item \<Rightarrow> ostree_repo \<Rightarrow>
     unit result \<times> ostree_repo" where
  "handleRepositoryUpdate oe env dump layerDir layer r =
     (let refspec = ostreeRefSpecFromLayerItem layer;
          trace = ''checkout '' @ refspec @ '' from ostree repository to layers dir'' in
      if \<not> oe_mkpath oe then (Inl (Err trace (''couldn't create directory '' @ layerDir) (-1)), r)
      else if \<not> oe_rmdir oe
      then (Inl (Err trace (''couldn't remove directory '' @ layerDir) (-1)),
            r\<lparr>or_layerDirs := layerDir # or_layerDirs r\<rparr>)
      else let r1 = r\<lparr>or_layerDirs := removeAll layerDir (or_layerDirs r)\<rparr> in
        case or_refs r refspec of
          None \<Rightarrow> (Inl (Err_gerror trace ''ostree_repo_resolve_rev'' (oe_noRev oe)), r1)
        | Some _ \<Rightarrow>
           (case oe_checkout oe of
              Some e \<Rightarrow> (Inl (Err_gerror trace (''ostree_repo_checkout_at '' @ drop 1 layerDir) e), r1)
            | None \<Rightarrow>
               (let r2 = r1\<lparr>or_layerDirs := layerDir # or_layerDirs r1\<rparr> in
                case addLayerItem env dump layer (or_cache r2) of
                  (Inl e, c) \<Rightarrow> (Inl (Err_wrap trace e), r2\<lparr>or_cache := c\<rparr>)
                | (Inr _, c) \<Rightarrow> (Inr (), r2\<lparr>or_cache := c\<rparr>))))"

definition layer_path :: "ostree_repo \<Rightarrow> layers_item \<Rightarrow> string" where
  "layer_path r layer = or_repoDir r @ ''/layers/'' @ item_commit layer"

definition getLayerDir :: "ostree_repo \<Rightarrow> layers_item \<Rightarrow> string result" where
  "getLayerDir r layer =
     (if layer_path r layer \<in> set (or_layerDirs r) then Inr (layer_path r layer)
      else Inl (Err (''get dir from layer item '' @ ostreeRefSpecFromLayerItem layer)
                  (layer_path r layer @ '' doesn't exist'') (-1)))"

definition getLayerDir_ref ::
    "(layers_item list \<Rightarrow> layers_item list) \<Rightarrow> ostree_repo \<Rightarrow> reference \<Rightarrow> string \<Rightarrow> string option \<Rightarrow>
     string result" where
  "getLayerDir_ref std_sort r ref module subRef =
     try_wrap (''get dir from ref '' @ Reference_toString ref)
       (getLayerItem std_sort (or_cache r) ref module subRef) (getLayerDir r)"

text \<open>
  \<open>remove\<close>, for layer directories that are not symbolic links; a directory that cannot be removed
  (\<open>oe_rmdir\<close>) is only logged.
\<close>

definition OSTreeRepo_remove ::
    "ostree_env \<Rightarrow> cache_env \<Rightarrow> (repository_cache \<Rightarrow> string) \<Rightarrow> (layers_item list \<Rightarrow> layers_item list) \<Rightarrow>
     reference \<Rightarrow> string \<Rightarrow> string option \<Rightarrow> ostree_repo \<Rightarrow> unit result \<times> ostree_repo" where
  "OSTreeRepo_remove oe env dump std_sort ref module subRef r =
     (let trace = ''remove '' @ Reference_toString ref in
      case getLayerItem std_sort (or_cache r) ref module subRef of
        Inl e \<Rightarrow> (Inl (Err_wrap trace e), r)
      | Inr layer \<Rightarrow>
         (case removeOstreeRef oe env dump layer r of
            (Inl e, r1) \<Rightarrow> (Inl (Err_wrap trace e), r1)
          | (Inr _, r1) \<Rightarrow>
             (case getLayerDir r1 layer of
                Inl _ \<Rightarrow> (Inr (), r1)
              | Inr d \<Rightarrow>
                 (if oe_rmdir oe then (Inr (), r1\<lparr>or_layerDirs := removeAll d (or_layerDirs r1)\<rparr>)
                  else (Inr (), r1)))))"

text \<open>
  \<open>getMergedModuleDir\<close> of a layer: the merged directory recorded for its commit if it exists, and the
  layer directory otherwise (or an error, when there is to be no fallback).
\<close>

definition getMergedModuleDir ::
    "(string \<Rightarrow> bool) \<Rightarrow> ostree_repo \<Rightarrow> layers_item \<Rightarrow> bool \<Rightarrow> string result" where
  "getMergedModuleDir exists_dir r layer fallbackLayerDir =
     (let trace = ''get merge dir from layer '' @ info_id (item_info layer);
          path = (\<lambda>m. or_repoDir r @ ''/merged/'' @ merged_id m) in
      case queryMergedItems (or_cache r) of
        None \<Rightarrow> (if fallbackLayerDir then getLayerDir r layer
                 else Inl (Err trace ''no merged item found'' (-1)))
      | Some ms \<Rightarrow>
         (case find (\<lambda>m. merged_binaryCommit m = Some (item_commit layer) \<and> exists_dir (path m)) ms of
            Some m \<Rightarrow> Inr (path m)
          | None \<Rightarrow> (if fallbackLayerDir then getLayerDir r layer
                     else Inl (Err trace ''merged doesn't exist'' (-1)))))"

definition getMergedModuleDir_ref ::
    "(layers_item list \<Rightarrow> layers_item list) \<Rightarrow> (string \<Rightarrow> bool) \<Rightarrow> ostree_repo \<Rightarrow> reference \<Rightarrow> bool \<Rightarrow>
     string result" where
  "getMergedModuleDir_ref std_sort exists_dir r ref fallbackLayerDir =
     try_wrap (''get merge dir from ref '' @ Reference_toString ref)
       (getLayerItem std_sort (or_cache r) ref ''binary'' None)
       (\<lambda>layer. getMergedModuleDir exists_dir r layer fallbackLayerDir)"

section \<open>Lemmas\<close>

lemma scan_remote_keep_latest:
  "scan_remote fuzzy module ref records =
     keep_latest reference_ge ref (List.map_filter (remote_candidate fuzzy module) records)"
  by (induction fuzzy module ref records rule: scan_remote.induct)
    (auto simp: List.map_filter_simps split: option.splits)

interpretation refver: version_order "\<lambda>a b. Version_lt (ref_version a) (ref_version b)"
    "\<lambda>a b. Version_gt (ref_version a) (ref_version b)" reference_ge
  by unfold_locales
    (auto simp: reference_ge_def ver.irrefl ver.gt_iff intro: ver.trans ver.ge_of_gt dest: ver.neg_trans ver.ge_sound)

lemma find_local_Some:
  "find_local want xs = Some (Some x) \<Longrightarrow>
     \<exists>as bs v. xs = as @ x # bs \<and> \<not> item_is_deleted x \<and> Version_parse (info_version (item_info x)) = Inr v \<and>
       (case want of None \<Rightarrow> \<forall>a \<in> set as. item_is_deleted a
        | Some w \<Rightarrow> Version_eq (if tweak w = None then v\<lparr>tweak := None\<rparr> else v) w)"
proof (induction want xs rule: find_local.induct)
  case (2 want y ys)
  show ?case
  proof (cases "item_is_deleted y")
    case True
    with 2 obtain as bs v where "ys = as @ x # bs" "\<not> item_is_deleted x"
        "Version_parse (info_version (item_info x)) = Inr v"
        "case want of None \<Rightarrow> \<forall>a \<in> set as. item_is_deleted a
         | Some w \<Rightarrow> Version_eq (if tweak w = None then v\<lparr>tweak := None\<rparr> else v) w"
      by auto
    then show ?thesis using True
      by (intro exI [of _ "y # as"] exI [of _ bs] exI [of _ v]) (auto split: option.splits)
  next
    case False
    then obtain v where v: "Version_parse (info_version (item_info y)) = Inr v"
      using "2.prems" by (auto split: sum.splits)
    show ?thesis
    proof (cases "case want of None \<Rightarrow> True
        | Some w \<Rightarrow> Version_eq (if tweak w = None then v\<lparr>tweak := None\<rparr> else v) w")
      case True
      then have "x = y" using "2.prems" False v by (auto split: option.splits if_splits)
      then show ?thesis using True False v
        by (intro exI [of _ "[]"] exI [of _ ys] exI [of _ v]) (auto split: option.splits)
    next
      case rest: False
      then obtain w where w: "want = Some w" by (cases want) auto
      have "find_local want ys = Some (Some x)" using "2.prems" False v w rest by auto
      then obtain as bs u where "ys = as @ x # bs" "\<not> item_is_deleted x"
          "Version_parse (info_version (item_info x)) = Inr u"
          "Version_eq (if tweak w = None then u\<lparr>tweak := None\<rparr> else u) w"
        using "2.IH"(2) [OF False v w] w rest by auto
      then show ?thesis using w
        by (intro exI [of _ "y # as"] exI [of _ bs] exI [of _ u]) simp
    qed
  qed
qed simp

lemma sorts_set: "sorts lt srt \<Longrightarrow> set (srt xs) = set xs"
  unfolding sorts_def by (metis set_mset_mset)

lemma sorts_first:
  assumes "sorts lt srt" "srt xs = as @ x # bs" "y \<in> set xs"
  shows "y \<in> set as \<or> y = x \<or> \<not> lt y x"
proof -
  have "y \<in> set (as @ x # bs)" using assms sorts_set by metis
  moreover have "sorted_wrt (\<lambda>x y. \<not> lt y x) (as @ x # bs)" using assms by (metis sorts_def)
  ultimately show ?thesis by (auto simp: sorted_wrt_append)
qed


lemma sorts_pair:
  assumes "sorts lt srt" "lt a b"
  shows "srt [a, b] = [a, b]"
proof -
  have m: "mset (srt [a, b]) = {#a, b#}" and w: "sorted_wrt (\<lambda>x y. \<not> lt y x) (srt [a, b])"
    using assms(1) by (auto simp: sorts_def)
  have "length (srt [a, b]) = 2" using arg_cong [OF m, of size] by simp
  then obtain c d where "srt [a, b] = [c, d]" by (auto simp: numeral_2_eq_2 length_Suc_conv)
  then show ?thesis using m w assms(2) by (auto simp: add_eq_conv_ex)
qed

text \<open>Lists of newest versions: one entry per application, and nothing newer is left out.\<close>

definition info_ver :: "package_info_v2 \<Rightarrow> version" where
  "info_ver i = (case Version_parse (info_version i) of Inr v \<Rightarrow> v)"

definition parses :: "package_info_v2 \<Rightarrow> bool" where
  "parses i = is_ok (Version_parse (info_version i))"

definition covers :: "package_info_v2 list \<Rightarrow> package_info_v2 \<Rightarrow> bool" where
  "covers ps i \<longleftrightarrow> (\<exists>p \<in> set ps. info_id p = info_id i \<and> \<not> Version_lt (info_ver p) (info_ver i))"

lemma index_of_Some: "index_of P xs = Some k \<Longrightarrow> k < length xs \<and> P (xs ! k)"
  by (induction xs arbitrary: k) (auto split: if_splits)

lemma index_of_None: "index_of P xs = None \<longleftrightarrow> (\<forall>x \<in> set xs. \<not> P x)"
  by (induction xs) auto

lemma erase_at_split:
  assumes "k < length xs"
  shows "\<exists>as bs. xs = as @ xs ! k # bs \<and> erase_at k xs = as @ bs"
  using assms id_take_nth_drop [of k xs] by (auto simp: erase_at_def)

definition latest_put :: "package_info_v2 list \<Rightarrow> package_info_v2 \<Rightarrow> package_info_v2 list" where
  "latest_put ps i =
     (case index_of (\<lambda>j. info_id i = info_id j) ps of
        None \<Rightarrow> ps @ [i]
      | Some k \<Rightarrow> (if Version_le (info_ver i) (info_ver (ps ! k)) then ps else erase_at k ps @ [i]))"

lemma covers_refl: "i \<in> set ps \<Longrightarrow> covers ps i"
  by (auto simp: covers_def ver.irrefl)

lemma covers_replace:
  assumes "covers (as @ p # bs) j" "info_id p = info_id i" "\<not> Version_lt (info_ver i) (info_ver p)"
  shows "covers (as @ bs @ [i]) j"
  using assms ver.not_lt_trans by (auto simp: covers_def)

lemma latest_put_spec:
  assumes "distinct (map info_id ps)"
  shows "distinct (map info_id (latest_put ps i)) \<and> set (latest_put ps i) \<subseteq> insert i (set ps) \<and>
    covers (latest_put ps i) i \<and> (\<forall>j. covers ps j \<longrightarrow> covers (latest_put ps i) j)"
proof (cases "index_of (\<lambda>j. info_id i = info_id j) ps")
  case None
  then have "info_id i \<notin> info_id ` set ps" by (auto simp: index_of_None)
  then show ?thesis using assms None by (auto simp: latest_put_def covers_def ver.irrefl)
next
  case (Some k)
  then have k: "k < length ps" "info_id (ps ! k) = info_id i" using index_of_Some by fastforce+
  show ?thesis
  proof (cases "Version_le (info_ver i) (info_ver (ps ! k))")
    case True
    then have "\<not> Version_lt (info_ver (ps ! k)) (info_ver i)" by (auto simp: version_cmp_defs)
    then have "covers ps i" using k by (auto simp: covers_def)
    then show ?thesis using assms Some True by (auto simp: latest_put_def)
  next
    case False
    obtain as bs where ps: "ps = as @ ps ! k # bs" "erase_at k ps = as @ bs"
      using erase_at_split [OF k(1)] by blast
    have "\<not> Version_lt (info_ver i) (info_ver (ps ! k))" using False by (auto simp: Version_le_def)
    then have "covers ps j \<longrightarrow> covers (as @ bs @ [i]) j" for j
      using covers_replace [of as "ps ! k" bs j i] k(2) ps(1) by simp
    moreover have "distinct (map info_id (as @ ps ! k # bs))" using assms ps(1) by simp
    then have "distinct (map info_id (as @ bs @ [i]))" using k(2) by auto
    moreover have "set (as @ bs) \<subseteq> set ps" using arg_cong [OF ps(1), of set] by auto
    ultimately show ?thesis using Some False ps(2) by (auto simp: latest_put_def intro: covers_refl)
  qed
qed

lemma latest_foldl:
  assumes "distinct (map info_id ps)"
  shows "distinct (map info_id (foldl latest_put ps is)) \<and> set (foldl latest_put ps is) \<subseteq> set ps \<union> set is \<and>
    (\<forall>j. covers ps j \<or> j \<in> set is \<longrightarrow> covers (foldl latest_put ps is) j)"
  using assms
proof (induction "is" arbitrary: ps)
  case (Cons i "is")
  have put: "distinct (map info_id (latest_put ps i))" "set (latest_put ps i) \<subseteq> insert i (set ps)"
      "covers (latest_put ps i) i" "\<forall>j. covers ps j \<longrightarrow> covers (latest_put ps i) j"
    using latest_put_spec [OF Cons.prems] by auto
  show ?case using Cons.IH [OF put(1)] put(2-4) by (auto simp: subset_iff)
qed simp

lemma latest_loop_foldl:
  assumes "\<forall>i \<in> set items. parses (item_info i)" "\<forall>p \<in> set ps. parses p"
  shows "latest_loop ps items =
    Inr (foldl latest_put ps (map item_info (filter (\<lambda>i. \<not> item_is_deleted i) items)))"
  using assms
proof (induction items arbitrary: ps)
  case (Cons item items)
  have next_ok: "\<forall>p \<in> set (latest_put ps (item_info item)). parses p"
    using Cons.prems by (auto simp: latest_put_def erase_at_def split: option.splits if_splits
        dest: in_set_takeD in_set_dropD)
  obtain v where v: "Version_parse (info_version (item_info item)) = Inr v" "info_ver (item_info item) = v"
    using Cons.prems(1) by (auto simp: parses_def is_ok_iff info_ver_def)
  have "latest_loop ps (item # items) = latest_loop (latest_put ps (item_info item)) items"
    if "\<not> item_is_deleted item"
  proof (cases "index_of (\<lambda>j. info_id (item_info item) = info_id j) ps")
    case None
    then show ?thesis using that by (simp add: latest_put_def)
  next
    case (Some k)
    then have "ps ! k \<in> set ps" using index_of_Some by fastforce
    then obtain w where "Version_parse (info_version (ps ! k)) = Inr w" "info_ver (ps ! k) = w"
      using Cons.prems(2) by (auto simp: parses_def is_ok_iff info_ver_def)
    then show ?thesis using Some v that by (simp add: latest_put_def)
  qed
  then show ?case using Cons.IH [of ps] Cons.IH [OF _ next_ok] Cons.prems
    by (cases "item_is_deleted item") simp_all
qed simp

lemma item_reference_version:
  assumes "item_reference x = Some (Inr r)"
  shows "Version_parse (info_version (item_info x)) = Inr (ref_version r)"
  using assms by (auto simp: item_reference_def Reference_create_def Reference_new_def
      split: sum.splits list.splits if_splits)

interpretation flag: undoable_step "set_deleted i d" "set_deleted i"
    "\<lambda>s. item_deleted (rc_layers (rcs_cache s) ! i)" for i d
proof
  fix s
  show "set_deleted i (item_deleted (rc_layers (rcs_cache s) ! i)) (set_deleted i d s) = s"
    by (cases "i < length (rc_layers (rcs_cache s))") (simp_all add: set_deleted_def set_layers_def list_update_beyond)
qed

lemma set_deleted_cache:
  "rcs_cache s = rcs_cache t \<Longrightarrow> rcs_cache (set_deleted i d s) = rcs_cache (set_deleted i d t)"
  "rcs_dir (set_deleted i d s) = rcs_dir s"
  by (simp_all add: set_deleted_def set_layers_def)

text \<open>Every cached layer has its directory, and no two layers share a commit.\<close>

definition repo_consistent :: "ostree_repo \<Rightarrow> bool" where
  "repo_consistent r \<longleftrightarrow>
     (\<forall>x \<in> set (rc_layers (rcs_cache (or_cache r))). layer_path r x \<in> set (or_layerDirs r)) \<and>
     distinct (map item_commit (rc_layers (rcs_cache (or_cache r))))"

lemma addLayerItem_layers:
  "rc_layers (rcs_cache (snd (addLayerItem env dump x s))) \<in>
     {rc_layers (rcs_cache s), rc_layers (rcs_cache s) @ [x]}"
proof (cases "index_of (same_item x) (rc_layers (rcs_cache s))")
  case None
  then show ?thesis using addLayerItem_fresh(1) [OF None refl, of env dump] by simp
qed (simp add: addLayerItem_def findMatchingItem_def)

lemma same_item_commit: "same_item x y \<Longrightarrow> item_commit x = item_commit y"
  by (simp add: same_item_def)

lemma layer_path_eq: "layer_path r x = layer_path r y \<longleftrightarrow> item_commit x = item_commit y"
  by (simp add: layer_path_def)

text \<open>Deleting an item leaves the list or takes the one item with its commit out of it.\<close>

lemma deleteLayerItem_layers:
  assumes "distinct (map item_commit (rc_layers (rcs_cache s)))"
    and "ls = rc_layers (rcs_cache (snd (deleteLayerItem env dump x s)))"
  shows "set ls \<subseteq> set (rc_layers (rcs_cache s)) \<and> distinct (map item_commit ls) \<and>
    (is_ok (fst (deleteLayerItem env dump x s)) \<longrightarrow> item_commit x \<notin> item_commit ` set ls)"
proof (cases "index_of (same_item x) (rc_layers (rcs_cache s))")
  case None
  then show ?thesis using assms by (simp add: deleteLayerItem_def findMatchingItem_def)
next
  case (Some i)
  have ls: "ls = erase_at i (rc_layers (rcs_cache s))"
    using deleteLayerItem_found(1) [OF Some refl, of env dump] assms(2) by simp
  have i: "i < length (rc_layers (rcs_cache s))" "same_item x (rc_layers (rcs_cache s) ! i)"
    using index_of_Some [OF Some] by auto
  obtain as bs where split: "rc_layers (rcs_cache s) = as @ rc_layers (rcs_cache s) ! i # bs" "ls = as @ bs"
    using erase_at_split [OF i(1)] ls by blast
  have "distinct (map item_commit (as @ rc_layers (rcs_cache s) ! i # bs))" using assms(1) split(1) by simp
  then show ?thesis
    using split(2) arg_cong [OF split(1), of set] same_item_commit [OF i(2)] by auto
qed

lemma removeOstreeRef_keeps:
  assumes "repo_consistent r" and "(res, r1) = removeOstreeRef oe env dump layer r"
  shows "repo_consistent r1 \<and> or_repoDir r1 = or_repoDir r \<and> or_layerDirs r1 = or_layerDirs r \<and>
    (is_ok res \<longrightarrow> item_commit layer \<notin> item_commit ` set (rc_layers (rcs_cache (or_cache r1))) \<and>
       or_refs r1 (ostreeRefSpecFromLayerItem layer) = None)"
proof -
  let ?del = "deleteLayerItem env dump layer (or_cache r)"
  note del = deleteLayerItem_layers [OF _ refl, of "or_cache r" env dump layer]
  consider "r1 = r" "\<not> is_ok res"
    | "r1 = r\<lparr>or_refs := (or_refs r)(ostreeRefSpecFromLayerItem layer := None), or_cache := snd ?del\<rparr>"
      "is_ok res = is_ok (fst ?del)"
    using assms(2) by (auto simp: removeOstreeRef_def Let_def split: option.splits prod.splits sum.splits)
  then show ?thesis
    using assms(1) del by cases (auto simp: repo_consistent_def layer_path_def)
qed

lemma handleRepositoryUpdate_keeps:
  assumes "repo_consistent r" and "item_commit layer \<notin> item_commit ` set (rc_layers (rcs_cache (or_cache r)))"
  shows "repo_consistent (snd (handleRepositoryUpdate oe env dump (layer_path r layer) layer r))"
proof -
  let ?p = "layer_path r layer" and ?c = "snd (addLayerItem env dump layer (or_cache r))"
  have other: "layer_path r x \<in> set (removeAll ?p (or_layerDirs r))"
    if "x \<in> set (rc_layers (rcs_cache (or_cache r)))" for x
    using that assms by (auto simp: repo_consistent_def layer_path_eq) (metis image_eqI)
  have "snd (handleRepositoryUpdate oe env dump ?p layer r) \<in>
      {r, r\<lparr>or_layerDirs := ?p # or_layerDirs r\<rparr>, r\<lparr>or_layerDirs := removeAll ?p (or_layerDirs r)\<rparr>,
       r\<lparr>or_layerDirs := ?p # removeAll ?p (or_layerDirs r), or_cache := ?c\<rparr>}"
    by (simp add: handleRepositoryUpdate_def Let_def split: option.split prod.split sum.split)
  moreover have "repo_consistent (r\<lparr>or_layerDirs := ?p # or_layerDirs r\<rparr>)"
    "repo_consistent (r\<lparr>or_layerDirs := removeAll ?p (or_layerDirs r)\<rparr>)"
    using assms other by (simp_all add: repo_consistent_def layer_path_def)
  moreover have "repo_consistent (r\<lparr>or_layerDirs := ?p # removeAll ?p (or_layerDirs r), or_cache := ?c\<rparr>)"
    using assms other addLayerItem_layers [of env dump layer "or_cache r"]
    by (auto simp: repo_consistent_def layer_path_def)
  ultimately show ?thesis using assms(1) by (elim insertE emptyE) (simp_all only:)
qed

section \<open>Properties\<close>

text \<open>
  C3: The remote search returns a best record: when the server answers and at least one record is
  admissible (right id and channel, valid version and architecture, the wanted module), the result is
  the reference of an admissible record and no admissible record has a greater version; when none is
  admissible the result is an error.
\<close>

theorem clearReference_remote_latest:
  assumes "opt_forceRemote opts" and "listRemote fuzzy = Inr records"
    and "cands = List.map_filter (remote_candidate fuzzy module) records"
  shows "case clearReference std_sort curArch listRemote s fuzzy opts module of
      Some (Inr r) \<Rightarrow> r \<in> set cands \<and> (\<forall>c \<in> set cands. \<not> Version_lt (ref_version r) (ref_version c))
    | Some (Inl e) \<Rightarrow> cands = [] \<and> err_code e = -1
    | None \<Rightarrow> False"
proof (cases "keep_latest reference_ge None cands")
  case None
  then show ?thesis using assms
    by (simp add: clearReference_def scan_remote_keep_latest keep_latest_None_iff Let_def)
next
  case (Some r)
  then show ?thesis
    using assms keep_latest_mem [OF Some] refver.keep_latest_max [OF Some]
    by (auto simp: clearReference_def scan_remote_keep_latest Let_def)
qed

definition demo_fuzzy :: fuzzy_reference where
  "demo_fuzzy = \<lparr>fz_channel = None, fz_id = ''org.deepin.demo'', fz_version = None, fz_arch = None\<rparr>"

lemmas demo_ref_defs = demo_fuzzy_def demo_info_def

theorem clearReference_remote_latest_witness:
  "\<exists>r. clearReference (\<lambda>xs. xs) (Inr X86_64)
         (\<lambda>_. Inr [demo_info\<lparr>info_version := ''9.0.0.0''\<rparr>, demo_info\<lparr>info_version := ''10.0.0.0''\<rparr>])
         (demo_cache []) demo_fuzzy \<lparr>opt_forceRemote = True, opt_fallbackToRemote = False\<rparr> ''binary'' = Some (Inr r) \<and>
       \<not> Version_lt (ref_version r) \<lparr>major = 10, minor = 0, patch = 0, tweak = Some 0\<rparr>"
proof -
  let ?recs = "[demo_info\<lparr>info_version := ''9.0.0.0''\<rparr>, demo_info\<lparr>info_version := ''10.0.0.0''\<rparr>]"
  let ?R = "\<lambda>v. \<lparr>ref_channel = ''main'', ref_id = ''org.deepin.demo'',
    ref_version = \<lparr>major = v, minor = 0, patch = 0, tweak = Some 0\<rparr>, ref_arch = X86_64\<rparr>"
  have cands: "[?R 9, ?R 10] = List.map_filter (remote_candidate demo_fuzzy ''binary'') ?recs"
    by code_simp
  from clearReference_remote_latest [OF _ _ cands, of "\<lparr>opt_forceRemote = True, opt_fallbackToRemote = False\<rparr>"
      "\<lambda>_. Inr ?recs" "\<lambda>xs. xs" "Inr X86_64" "demo_cache []"]
  show ?thesis by (auto split: option.splits sum.splits)
qed

text \<open>
  Resolving against the local cache: the reference belongs to a layer with the wanted id that is
  not marked as deleted. With a version given, it has that version, up to the tweak when the wanted
  version has none; without one, no other live layer of the application has a greater version
  \<^emph>\<open>string\<close>.
\<close>

theorem clearReferenceLocal_sound:
  assumes sort: "sorts later_version_string std_sort"
    and found: "clearReferenceLocal std_sort curArch s fuzzy = Some (Inr r)"
  shows "\<exists>x \<in> set (rc_layers (rcs_cache s)). \<not> item_is_deleted x \<and> info_id (item_info x) = fz_id fuzzy \<and>
    item_reference x = Some (Inr r) \<and>
    (case fz_version fuzzy of
       None \<Rightarrow> (\<forall>y \<in> set (rc_layers (rcs_cache s)). info_id (item_info y) = fz_id fuzzy \<and> \<not> item_is_deleted y
                  \<longrightarrow> info_version (item_info y) \<le> info_version (item_info x))
     | Some w \<Rightarrow> Version_eq (if tweak w = None then (ref_version r)\<lparr>tweak := None\<rparr> else ref_version r) w)"
proof -
  let ?all = "filter (query_matches (query_id (fz_id fuzzy))) (rc_layers (rcs_cache s))"
  have match: "query_matches (query_id (fz_id fuzzy)) y \<longleftrightarrow> info_id (item_info y) = fz_id fuzzy" for y
    by (auto simp: query_matches_def query_id_def wants_def wants_opt_def)
  obtain x where x: "find_local (fz_version fuzzy) (std_sort ?all) = Some (Some x)" "item_reference x = Some (Inr r)"
    using found by (auto simp: clearReferenceLocal_def queryLayerItem_def Let_def
        split: option.splits sum.splits if_splits)
  obtain as bs v where pos: "std_sort ?all = as @ x # bs" "\<not> item_is_deleted x"
      "Version_parse (info_version (item_info x)) = Inr v"
      "case fz_version fuzzy of None \<Rightarrow> \<forall>a \<in> set as. item_is_deleted a
       | Some w \<Rightarrow> Version_eq (if tweak w = None then v\<lparr>tweak := None\<rparr> else v) w"
    using find_local_Some [OF x(1)] by blast
  have "x \<in> set ?all" using sorts_set [OF sort, of ?all] pos(1) by auto
  moreover have "v = ref_version r" using item_reference_version [OF x(2)] pos(3) by simp
  moreover have "info_version (item_info y) \<le> info_version (item_info x)"
    if "fz_version fuzzy = None" "y \<in> set ?all" "\<not> item_is_deleted y" for y
    using sorts_first [OF sort pos(1) that(2)] pos(4) that by (auto simp: later_version_string_def)
  ultimately show ?thesis using pos x(2) by (intro bexI [of _ x]) (auto simp: match split: option.splits)
qed

definition layer_with_version :: "string \<Rightarrow> layers_item" where
  "layer_with_version v = \<lparr>item_commit = v, item_deleted = None,
     item_info = demo_info\<lparr>info_version := v\<rparr>, item_repo = ''stable''\<rparr>"

definition demo_sort :: "layers_item list \<Rightarrow> layers_item list" where
  "demo_sort xs = rev (sort_key (\<lambda>x. info_version (item_info x)) xs)"

lemma demo_sort_sorts: "sorts later_version_string demo_sort"
proof -
  have "sorted_wrt (\<lambda>x y. info_version (item_info y) \<le> info_version (item_info x)) (demo_sort xs)" for xs
    using sorted_sort_key [of "\<lambda>x. info_version (item_info x)" xs]
    by (simp add: demo_sort_def sorted_wrt_rev sorted_map)
  then show ?thesis by (simp add: sorts_def later_version_string_def demo_sort_def not_less)
qed

theorem clearReferenceLocal_sound_witness:
  "\<exists>r. clearReferenceLocal demo_sort (Inr X86_64)
         (demo_cache [layer_with_version ''1.0.0.0'', layer_with_version ''2.0.0.0'']) demo_fuzzy = Some (Inr r) \<and>
       (\<exists>x. item_reference x = Some (Inr r) \<and> ''2.0.0.0'' \<le> info_version (item_info x))"
proof -
  let ?s = "demo_cache [layer_with_version ''1.0.0.0'', layer_with_version ''2.0.0.0'']"
  have r: "clearReferenceLocal demo_sort (Inr X86_64) ?s demo_fuzzy =
      Some (Inr \<lparr>ref_channel = ''main'', ref_id = ''org.deepin.demo'',
        ref_version = \<lparr>major = 2, minor = 0, patch = 0, tweak = Some 0\<rparr>, ref_arch = X86_64\<rparr>)"
    by code_simp
  from clearReferenceLocal_sound [OF demo_sort_sorts r] r show ?thesis
    by (fastforce simp: demo_cache_def demo_fuzzy_def layer_with_version_def demo_info_def item_is_deleted_def)
qed

text \<open>
  Version strings are not versions: with 9.0.0.0 and 10.0.0.0 of an application installed, asking
  for it without a version resolves to 9.0.0.0, whatever order \<open>std::sort\<close> leaves equal elements in.
\<close>

theorem clearReferenceLocal_prefers_9_to_10:
  assumes "sorts later_version_string std_sort"
  shows "clearReferenceLocal std_sort curArch
      (demo_cache [layer_with_version ''9.0.0.0'', layer_with_version ''10.0.0.0'']) demo_fuzzy =
    Some (Inr \<lparr>ref_channel = ''main'', ref_id = ''org.deepin.demo'',
      ref_version = \<lparr>major = 9, minor = 0, patch = 0, tweak = Some 0\<rparr>, ref_arch = X86_64\<rparr>)"
proof -
  let ?L9 = "layer_with_version ''9.0.0.0''" and ?L10 = "layer_with_version ''10.0.0.0''"
  have "later_version_string ?L9 ?L10" by code_simp
  then have sorted: "std_sort [?L9, ?L10] = [?L9, ?L10]" by (rule sorts_pair [OF assms])
  have "filter (query_matches (query_id (fz_id demo_fuzzy))) [?L9, ?L10] = [?L9, ?L10]"
    by code_simp
  then have query: "queryLayerItem std_sort (query_id (fz_id demo_fuzzy)) (demo_cache [?L9, ?L10]) = [?L9, ?L10]"
    using sorted by (simp add: queryLayerItem_def demo_cache_def)
  have found: "find_local (fz_version demo_fuzzy) [?L9, ?L10] = Some (Some ?L9)"
    by code_simp
  have "item_reference ?L9 = Some (Inr \<lparr>ref_channel = ''main'', ref_id = ''org.deepin.demo'',
      ref_version = \<lparr>major = 9, minor = 0, patch = 0, tweak = Some 0\<rparr>, ref_arch = X86_64\<rparr>)"
    by code_simp
  moreover have "fz_arch demo_fuzzy = None" by (simp add: demo_fuzzy_def)
  ultimately show ?thesis by (simp add: clearReferenceLocal_def query found Let_def del: find_local.simps)
qed

theorem clearReferenceLocal_prefers_9_to_10_witness:
  "clearReferenceLocal demo_sort (Inr X86_64)
      (demo_cache [layer_with_version ''9.0.0.0'', layer_with_version ''10.0.0.0'']) demo_fuzzy =
    Some (Inr \<lparr>ref_channel = ''main'', ref_id = ''org.deepin.demo'',
      ref_version = \<lparr>major = 9, minor = 0, patch = 0, tweak = Some 0\<rparr>, ref_arch = X86_64\<rparr>)"
  by (rule clearReferenceLocal_prefers_9_to_10 [OF demo_sort_sorts])

text \<open>
  \<open>listLocalLatest\<close> lists every application with a live layer exactly once, only live layers, and
  for each application an entry that no live layer of it exceeds in version, as versions, not as
  strings. Stored versions have to be valid.
\<close>

theorem listLocalLatest_spec:
  assumes "\<forall>x \<in> set (queryExistingLayerItem s). parses (item_info x)"
  shows "\<exists>l. listLocalLatest s = Inr l \<and> distinct (map info_id l) \<and>
    set l \<subseteq> item_info ` set (queryExistingLayerItem s) \<and>
    (\<forall>x \<in> set (queryExistingLayerItem s).
       \<exists>p \<in> set l. info_id p = info_id (item_info x) \<and> \<not> Version_lt (info_ver p) (info_ver (item_info x)))"
proof -
  have "filter (\<lambda>i. \<not> item_is_deleted i) (queryExistingLayerItem s) = queryExistingLayerItem s"
    by (simp add: queryExistingLayerItem_def)
  then show ?thesis
    using latest_loop_foldl [OF assms, of "[]"] latest_foldl [of "[]" "map item_info (queryExistingLayerItem s)"]
    by (auto simp: listLocalLatest_def covers_def)
qed

theorem listLocalLatest_spec_witness:
  "\<exists>l. listLocalLatest (demo_cache [layer_with_version ''9.0.0.0'', layer_with_version ''10.0.0.0'']) = Inr l \<and>
     distinct (map info_id l) \<and>
     (\<exists>p \<in> set l. \<not> Version_lt (info_ver p) \<lparr>major = 10, minor = 0, patch = 0, tweak = Some 0\<rparr>)"
proof -
  let ?s = "demo_cache [layer_with_version ''9.0.0.0'', layer_with_version ''10.0.0.0'']"
  have ok: "\<forall>x \<in> set (queryExistingLayerItem ?s). parses (item_info x)" by code_simp
  have "layer_with_version ''10.0.0.0'' \<in> set (queryExistingLayerItem ?s)"
    and "info_ver (item_info (layer_with_version ''10.0.0.0'')) = \<lparr>major = 10, minor = 0, patch = 0, tweak = Some 0\<rparr>"
    by (simp add: queryExistingLayerItem_def demo_cache_def item_is_deleted_def layer_with_version_def, code_simp)
  with listLocalLatest_spec [OF ok] show ?thesis by fastforce
qed

text \<open>
  \<open>markDeleted\<close> is atomic: when it succeeds, exactly the flag of the layer it found has changed, in
  memory and in the file; when the file cannot be written, the flag is rolled back and the cache is
  as before.
\<close>

theorem markDeleted_atomic:
  assumes "getLayerItem std_sort s ref module subRef = Inr item" and "findMatchingItem item s = Inr i"
    and "markDeleted env dump std_sort ref deleted module subRef s = (r, s')"
  shows "(is_ok r \<longrightarrow>
            rc_layers (rcs_cache s') = (rc_layers (rcs_cache s))[i := (rc_layers (rcs_cache s) ! i)
              \<lparr>item_deleted := (if deleted then Some True else None)\<rparr>] \<and>
            dir_cacheFile (rcs_dir s') = Some (ce_write env (dump (rcs_cache s')))) \<and>
         (\<not> is_ok r \<longrightarrow> rcs_cache s' = rcs_cache s \<and> dir_cacheFile (rcs_dir s') = dir_cacheFile (rcs_dir s))"
proof -
  define d where "d = (if deleted then Some True else None)"
  define s1 where "s1 = set_deleted i d s"
  define w where "w = writeToDisk env dump s1"
  have w: "rcs_cache (snd w) = rcs_cache s1" by (simp add: w_def)
  have undone: "rcs_cache (set_deleted i (item_deleted (rc_layers (rcs_cache s) ! i)) (snd w)) = rcs_cache s"
    using set_deleted_cache(1) [OF w] flag.undo_act [of i s d] by (simp add: s1_def)
  have run: "markDeleted env dump std_sort ref deleted module subRef s =
      (case fst w of Inl e \<Rightarrow> (Inl (Err_wrap (''mark '' @ Reference_toString ref @ '' to deleted'') e),
          set_deleted i (item_deleted (rc_layers (rcs_cache s) ! i)) (snd w))
       | Inr _ \<Rightarrow> (Inr (), snd w))"
    unfolding markDeleted_def Let_def d_def [symmetric] using assms(1,2)
    by (cases w) (simp add: w_def s1_def Transaction_dtor_commit Transaction_dtor_add Transaction_dtor_new
        split: sum.split)
  show ?thesis
  proof (cases "fst w")
    case (Inl e)
    then show ?thesis using run assms(3) undone writeToDisk_failed [of env dump s1 e]
      by (auto simp: set_deleted_cache(2) w_def s1_def)
  next
    case (Inr u)
    then show ?thesis using run assms(3) w writeToDisk_ok [of env dump s1 u]
      by (auto simp: w_def s1_def d_def set_deleted_def)
  qed
qed

theorem markDeleted_atomic_witness:
  "\<exists>r s'. markDeleted (demo_cache_env\<lparr>ce_rename := False\<rparr>) (\<lambda>_. []) (\<lambda>xs. xs)
       \<lparr>ref_channel = ''main'', ref_id = ''org.deepin.demo'',
        ref_version = \<lparr>major = 9, minor = 0, patch = 0, tweak = Some 0\<rparr>, ref_arch = X86_64\<rparr> True ''binary'' None
       (demo_cache [layer_with_version ''9.0.0.0'']) = (r, s') \<and> \<not> is_ok r \<and>
     rcs_cache s' = rcs_cache (demo_cache [layer_with_version ''9.0.0.0''])"
proof -
  let ?ref = "\<lparr>ref_channel = ''main'', ref_id = ''org.deepin.demo'',
        ref_version = \<lparr>major = 9, minor = 0, patch = 0, tweak = Some 0\<rparr>, ref_arch = X86_64\<rparr>"
  let ?s = "demo_cache [layer_with_version ''9.0.0.0'']" and ?env = "demo_cache_env\<lparr>ce_rename := False\<rparr>"
  let ?run = "markDeleted ?env (\<lambda>_. []) (\<lambda>xs. xs) ?ref True ''binary'' None ?s"
  have a: "getLayerItem (\<lambda>xs. xs) ?s ?ref ''binary'' None = Inr (layer_with_version ''9.0.0.0'')" by code_simp
  have b: "findMatchingItem (layer_with_version ''9.0.0.0'') ?s = Inr 0" by code_simp
  have c: "\<not> is_ok (fst ?run)" by code_simp
  from markDeleted_atomic [OF a b, of ?env "\<lambda>_. []" True "fst ?run" "snd ?run"] c show ?thesis
    by (intro exI [of _ "fst ?run"] exI [of _ "snd ?run"]) simp
qed

text \<open>
  Layers and directories stay in step. From a repository in which every cached layer has its
  directory and no two layers share a commit, checking out a layer with a new commit and removing a
  layer lead to such a repository again, on the error paths too; and a layer that was removed
  successfully has neither a cache entry nor a ref any more.
\<close>

theorem repo_layers_consistent:
  assumes "repo_consistent r"
  shows "(\<forall>oe env dump layer. item_commit layer \<notin> item_commit ` set (rc_layers (rcs_cache (or_cache r))) \<longrightarrow>
            repo_consistent (snd (handleRepositoryUpdate oe env dump (layer_path r layer) layer r))) \<and>
         (\<forall>oe env dump std_sort ref module subRef layer r'.
            getLayerItem std_sort (or_cache r) ref module subRef = Inr layer \<longrightarrow>
            OSTreeRepo_remove oe env dump std_sort ref module subRef r = (Inr (), r') \<longrightarrow>
            repo_consistent r' \<and> or_refs r' (ostreeRefSpecFromLayerItem layer) = None \<and>
            item_commit layer \<notin> item_commit ` set (rc_layers (rcs_cache (or_cache r'))))"
proof (intro conjI allI impI)
  fix oe env dump std_sort ref module subRef layer r'
  assume item: "getLayerItem std_sort (or_cache r) ref module subRef = Inr layer"
    and run: "OSTreeRepo_remove oe env dump std_sort ref module subRef r = (Inr (), r')"
  obtain res r1 where rm: "(res, r1) = removeOstreeRef oe env dump layer r" by (metis surj_pair)
  note keeps = removeOstreeRef_keeps [OF assms rm]
  have ok: "is_ok res" and r': "r' = r1 \<or> r' = r1\<lparr>or_layerDirs := removeAll (layer_path r1 layer) (or_layerDirs r1)\<rparr>"
    using run item rm [symmetric]
    by (auto simp: OSTreeRepo_remove_def getLayerDir_def Let_def split: sum.splits if_splits)
  then show "repo_consistent r'" "or_refs r' (ostreeRefSpecFromLayerItem layer) = None"
    "item_commit layer \<notin> item_commit ` set (rc_layers (rcs_cache (or_cache r')))"
    using keeps by (auto simp: repo_consistent_def layer_path_def) (metis image_eqI)
qed (simp add: handleRepositoryUpdate_keeps assms)

definition demo_repo :: ostree_repo where
  "demo_repo = \<lparr>or_repoDir = ''/var/lib/linglong'', or_cache = demo_cache [layer_with_version ''9.0.0.0''],
     or_refs = (\<lambda>_. Some ''c''), or_layerDirs = [''/var/lib/linglong/layers/9.0.0.0'']\<rparr>"

theorem repo_layers_consistent_witness:
  "repo_consistent (snd (handleRepositoryUpdate
      \<lparr>oe_noRev = (1, []), oe_setRef = None, oe_mkpath = True, oe_rmdir = True, oe_checkout = None\<rparr>
      demo_cache_env (\<lambda>_. []) (layer_path demo_repo (layer_with_version ''10.0.0.0''))
      (layer_with_version ''10.0.0.0'') demo_repo))"
proof -
  have "repo_consistent demo_repo"
    by (simp add: repo_consistent_def demo_repo_def demo_cache_def layer_path_def layer_with_version_def)
  from repo_layers_consistent [OF this] show ?thesis
    by (simp add: demo_repo_def demo_cache_def layer_with_version_def)
qed

end
