(* ===== verification/Package_Task.thy ===== *)
theory Package_Task
  imports Complex_Main Bytes
begin

text \<open>
  One task of the package manager, \<open>libs/linglong/src/linglong/package_manager/package_task.{h,cpp}\<close>: its
  state, the stage it is in, its progress and the signals it emits. Progress values are \<open>double\<close>s in
  the code and rational numbers here (rounding is not modelled). Signals are recorded in the order
  in which they are emitted; a property declared with \<open>MEMBER\<close> emits its signal only when the value
  changes. The D-Bus forwarder is reduced to the number of times it was asked to send.
\<close>

section \<open>State\<close>

datatype task_state =
  Canceled | Failed | PartCompleted | Pending | Processing | Queued | Succeed | UnknownState

datatype sub_state =
  AllDone | InstallApplication | InstallBase | InstallRuntime | PackageManagerDone | PostAction
  | PreAction | Uninstall | UnknownSubState

datatype task_event =
  StateChanged task_state | SubStateChanged sub_state | MessageChanged string | PercentageChanged rat

record package_task =
  t_state :: task_state
  t_subState :: sub_state
  t_err :: "error option"
  t_totalPercentage :: rat
  t_curStagePercentage :: rat
  t_message :: string
  t_id :: string
  t_refs :: "string list"
  t_taskParts :: u32
  t_cancelled :: bool
  t_forwarder :: bool
  t_forwards :: nat
  t_events :: "task_event list"

definition TASK_DONE :: rat where
  "TASK_DONE = 100"

text \<open>\<open>m_subStateMap\<close>; \<open>operator[]\<close> gives zero for the other stages.\<close>

fun subStateMap :: "sub_state \<Rightarrow> rat" where
  "subStateMap PreAction = 10"
| "subStateMap InstallBase = 20"
| "subStateMap InstallRuntime = 20"
| "subStateMap InstallApplication = 20"
| "subStateMap Uninstall = 80"
| "subStateMap PostAction = 5"
| "subStateMap _ = 0"

definition PackageTask_new :: "string \<Rightarrow> string list \<Rightarrow> bool \<Rightarrow> package_task" where
  "PackageTask_new uuid refs registered =
     \<lparr>t_state = Queued, t_subState = UnknownSubState, t_err = None, t_totalPercentage = 0,
      t_curStagePercentage = 0, t_message = [], t_id = uuid, t_refs = refs, t_taskParts = 0,
      t_cancelled = False, t_forwarder = registered, t_forwards = 0, t_events = []\<rparr>"

definition createTemporaryTask :: "string \<Rightarrow> package_task" where
  "createTemporaryTask uuid = PackageTask_new uuid [] False"

definition taskObjectPath :: "package_task \<Rightarrow> string" where
  "taskObjectPath t = ''/org/deepin/linglong/Task1/'' @ t_id t"

definition isRefExist :: "string \<Rightarrow> package_task \<Rightarrow> bool" where
  "isRefExist ref t = (ref \<in> set (t_refs t))"

section \<open>Operations\<close>

definition is_done :: "sub_state \<Rightarrow> bool" where
  "is_done s = (s = AllDone \<or> s = PackageManagerDone)"

definition getPercentage :: "package_task \<Rightarrow> rat" where
  "getPercentage t =
     (if is_done (t_subState t) then 100
      else t_totalPercentage t + t_curStagePercentage t * subStateMap (t_subState t))"

definition emit :: "task_event \<Rightarrow> package_task \<Rightarrow> package_task" where
  "emit e t = t\<lparr>t_events := t_events t @ [e]\<rparr>"

definition setState :: "task_state \<Rightarrow> package_task \<Rightarrow> package_task" where
  "setState v t = (if t_state t \<noteq> v then emit (StateChanged v) (t\<lparr>t_state := v\<rparr>) else t)"

definition setSubState :: "sub_state \<Rightarrow> package_task \<Rightarrow> package_task" where
  "setSubState v t = (if t_subState t \<noteq> v then emit (SubStateChanged v) (t\<lparr>t_subState := v\<rparr>) else t)"

definition setMessage :: "string \<Rightarrow> package_task \<Rightarrow> package_task" where
  "setMessage v t = (if t_message t \<noteq> v then emit (MessageChanged v) (t\<lparr>t_message := v\<rparr>) else t)"

definition emit_percentage :: "package_task \<Rightarrow> package_task" where
  "emit_percentage t = emit (PercentageChanged (getPercentage t)) t"

definition changePropertiesDone :: "package_task \<Rightarrow> package_task" where
  "changePropertiesDone t = (if t_forwarder t then t\<lparr>t_forwards := t_forwards t + 1\<rparr> else t)"

definition updateTask :: "u32 \<Rightarrow> u32 \<Rightarrow> string \<Rightarrow> package_task \<Rightarrow> package_task" where
  "updateTask part whole message t =
     (if whole = 0 then t
      else if part > whole then t
      else let t1 = setMessage message t;
               t2 = t1\<lparr>t_curStagePercentage := of_nat (unat part) / of_nat (unat whole)\<rparr>
           in changePropertiesDone (emit_percentage t2))"

definition updateSubState :: "sub_state \<Rightarrow> string \<Rightarrow> package_task \<Rightarrow> package_task" where
  "updateSubState newSubState message t =
     (let t1 = setMessage message (setSubState newSubState t) in
      if is_done (t_subState t1)
      then changePropertiesDone (emit_percentage (t1\<lparr>t_totalPercentage := TASK_DONE\<rparr>))
      else changePropertiesDone (emit_percentage
             (t1\<lparr>t_totalPercentage := t_totalPercentage t1 + subStateMap (t_subState t1),
                 t_curStagePercentage := 0\<rparr>)))"

definition updateState ::
    "task_state \<Rightarrow> string \<Rightarrow> sub_state option \<Rightarrow> package_task \<Rightarrow> package_task" where
  "updateState newState message optDone t =
     (let t1 = setState newState t;
          t2 = (if t_state t1 = PartCompleted
                then (emit (PercentageChanged TASK_DONE)
                       (t1\<lparr>t_taskParts := t_taskParts t1 + 1, t_totalPercentage := TASK_DONE\<rparr>))
                     \<lparr>t_totalPercentage := 0, t_curStagePercentage := 0\<rparr>
                else t1);
          t3 = (if t_taskParts t2 = of_nat (length (t_refs t2)) then setState Succeed t2 else t2);
          curState = t_state t3
      in if curState = Canceled \<or> curState = Failed \<or> curState = Succeed
         then updateSubState (case optDone of None \<Rightarrow> AllDone | Some d \<Rightarrow> d) message t3
         else changePropertiesDone (setMessage message t3))"

definition reportError :: "error \<Rightarrow> package_task \<Rightarrow> package_task" where
  "reportError e t =
     (let t1 = emit_percentage (t\<lparr>t_totalPercentage := TASK_DONE, t_curStagePercentage := 0\<rparr>);
          t2 = setSubState AllDone (setState Failed t1)
      in changePropertiesDone (setMessage (err_message e) (t2\<lparr>t_err := Some e\<rparr>)))"

definition Cancel :: "package_task \<Rightarrow> package_task" where
  "Cancel t =
     (if t_cancelled t then t
      else updateState Canceled (''task '' @ t_id t @ '' has been canceled by user'') None
             (t\<lparr>t_cancelled := True\<rparr>))"

text \<open>
  \<open>creatSubTask\<close> gives no task when the part is 100 or more, and otherwise a fresh task without refs
  whose signals are handled by its parent as \<open>on_sub_event\<close> says.
\<close>

definition creatSubTask :: "string \<Rightarrow> rat \<Rightarrow> package_task option" where
  "creatSubTask uuid partOfTotal =
     (if partOfTotal \<ge> TASK_DONE then None else Some (createTemporaryTask uuid))"

fun on_sub_event :: "rat \<Rightarrow> task_event \<Rightarrow> package_task \<Rightarrow> package_task" where
  "on_sub_event partOfTotal (StateChanged s) t = setState s t"
| "on_sub_event partOfTotal (SubStateChanged s) t = setSubState s t"
| "on_sub_event partOfTotal (MessageChanged m) t = setMessage m t"
| "on_sub_event partOfTotal (PercentageChanged p) t =
     emit_percentage (t\<lparr>t_totalPercentage := p * partOfTotal\<rparr>)"

section \<open>Lemmas\<close>

lemmas task_defs = emit_def setState_def setSubState_def setMessage_def emit_percentage_def
  changePropertiesDone_def

lemma set_frame [simp]:
  "t_taskParts (setState v t) = t_taskParts t" "t_refs (setState v t) = t_refs t"
  "t_state (setState v t) = v" "t_subState (setState v t) = t_subState t"
  "t_totalPercentage (setState v t) = t_totalPercentage t"
  "t_curStagePercentage (setState v t) = t_curStagePercentage t"
  "t_cancelled (setState v t) = t_cancelled t" "t_err (setState v t) = t_err t"
  "t_taskParts (setSubState w t) = t_taskParts t" "t_refs (setSubState w t) = t_refs t"
  "t_state (setSubState w t) = t_state t" "t_subState (setSubState w t) = w"
  "t_totalPercentage (setSubState w t) = t_totalPercentage t"
  "t_curStagePercentage (setSubState w t) = t_curStagePercentage t"
  "t_cancelled (setSubState w t) = t_cancelled t" "t_err (setSubState w t) = t_err t"
  "t_taskParts (setMessage m t) = t_taskParts t" "t_refs (setMessage m t) = t_refs t"
  "t_state (setMessage m t) = t_state t" "t_subState (setMessage m t) = t_subState t"
  "t_totalPercentage (setMessage m t) = t_totalPercentage t"
  "t_curStagePercentage (setMessage m t) = t_curStagePercentage t"
  "t_cancelled (setMessage m t) = t_cancelled t" "t_err (setMessage m t) = t_err t"
  "t_message (setMessage m t) = m"
  by (simp_all add: task_defs)

lemma signal_frame [simp]:
  "t_taskParts (emit e t) = t_taskParts t" "t_refs (emit e t) = t_refs t" "t_state (emit e t) = t_state t"
  "t_subState (emit e t) = t_subState t" "t_totalPercentage (emit e t) = t_totalPercentage t"
  "t_curStagePercentage (emit e t) = t_curStagePercentage t" "t_cancelled (emit e t) = t_cancelled t"
  "t_err (emit e t) = t_err t" "t_message (emit e t) = t_message t"
  "t_taskParts (changePropertiesDone t) = t_taskParts t" "t_refs (changePropertiesDone t) = t_refs t"
  "t_state (changePropertiesDone t) = t_state t" "t_subState (changePropertiesDone t) = t_subState t"
  "t_totalPercentage (changePropertiesDone t) = t_totalPercentage t"
  "t_curStagePercentage (changePropertiesDone t) = t_curStagePercentage t"
  "t_cancelled (changePropertiesDone t) = t_cancelled t" "t_err (changePropertiesDone t) = t_err t"
  "t_message (changePropertiesDone t) = t_message t"
  by (simp_all add: emit_def changePropertiesDone_def)

lemma updateSubState_sel [simp]:
  "t_state (updateSubState s m t) = t_state t" "t_subState (updateSubState s m t) = s"
  "t_taskParts (updateSubState s m t) = t_taskParts t" "t_refs (updateSubState s m t) = t_refs t"
  "t_cancelled (updateSubState s m t) = t_cancelled t" "t_message (updateSubState s m t) = m"
  by (simp_all add: updateSubState_def Let_def emit_percentage_def)

text \<open>The state after \<open>updateState\<close>, and when it ends the task.\<close>

lemma updateState_state:
  "t_state (updateState s m d t) =
     (if t_taskParts t + (if s = PartCompleted then 1 else 0) = of_nat (length (t_refs t)) then Succeed else s)"
  "t_taskParts (updateState s m d t) = t_taskParts t + (if s = PartCompleted then 1 else 0)"
  "t_refs (updateState s m d t) = t_refs t" "t_cancelled (updateState s m d t) = t_cancelled t"
  by (simp_all add: updateState_def Let_def)

lemma updateState_subState:
  "t_subState (updateState s m d t) =
     (if t_state (updateState s m d t) \<in> {Canceled, Failed, Succeed}
      then (case d of None \<Rightarrow> AllDone | Some x \<Rightarrow> x) else t_subState t)"
  by (simp add: updateState_def Let_def)

lemma updateTask_sel [simp]:
  "t_state (updateTask p w m t) = t_state t" "t_subState (updateTask p w m t) = t_subState t"
  "t_totalPercentage (updateTask p w m t) = t_totalPercentage t"
  "t_taskParts (updateTask p w m t) = t_taskParts t" "t_refs (updateTask p w m t) = t_refs t"
  by (simp_all add: updateTask_def Let_def emit_percentage_def)

text \<open>A run of progress reports: stages and steps inside a stage.\<close>

datatype progress_op = Stage sub_state string | Step u32 u32 string

fun progress :: "progress_op \<Rightarrow> package_task \<Rightarrow> package_task" where
  "progress (Stage s m) t = updateSubState s m t"
| "progress (Step p w m) t = updateTask p w m t"

fun stages :: "progress_op list \<Rightarrow> sub_state list" where
  "stages [] = []"
| "stages (Stage s m # ops) = s # stages ops"
| "stages (Step p w m # ops) = stages ops"

definition install_stages :: "sub_state set" where
  "install_stages = {PreAction, InstallBase, InstallRuntime, InstallApplication, PostAction}"

text \<open>The stages \<open>ss\<close> so far: their weights are all counted, and the current one may count twice.\<close>

definition progress_inv :: "sub_state list \<Rightarrow> package_task \<Rightarrow> bool" where
  "progress_inv ss t \<longleftrightarrow>
     t_totalPercentage t = sum_list (map subStateMap ss) \<and>
     0 \<le> t_curStagePercentage t \<and> t_curStagePercentage t \<le> 1 \<and>
     (t_subState t = UnknownSubState \<or> t_subState t \<in> install_stages)"

lemma updateTask_fraction:
  "t_curStagePercentage (updateTask p w m t) \<in> {t_curStagePercentage t} \<union> {0..1}"
proof (cases "w = 0 \<or> p > w")
  case True
  then show ?thesis by (auto simp: updateTask_def)
next
  case False
  then have "unat p \<le> unat w" "0 < unat w" by (simp_all add: word_le_nat_alt not_less unat_gt_0)
  then have "(of_nat (unat p) :: rat) / of_nat (unat w) \<in> {0..1}"
    by (simp add: divide_le_eq_1 del: of_nat_unat)
  then show ?thesis using False
    by (simp add: updateTask_def Let_def emit_percentage_def del: of_nat_unat)
qed

lemma progress_inv_step:
  assumes "progress_inv ss t" "set (stages [op]) \<subseteq> install_stages"
  shows "progress_inv (ss @ stages [op]) (progress op t)"
proof (cases op)
  case (Stage s m)
  then have "\<not> is_done s" using assms(2) by (auto simp: install_stages_def is_done_def)
  then show ?thesis using assms Stage
    by (simp add: progress_inv_def updateSubState_def Let_def emit_percentage_def)
next
  case (Step p w m)
  then show ?thesis using assms updateTask_fraction [of p w m t] by (auto simp: progress_inv_def)
qed

lemma stages_append: "stages (xs @ ys) = stages xs @ stages ys"
  by (induction xs rule: stages.induct) auto

lemma progress_inv_run:
  assumes "set (stages ops) \<subseteq> install_stages"
  shows "progress_inv (stages ops) (foldl (\<lambda>t op. progress op t) (PackageTask_new u refs reg) ops)"
  using assms
proof (induction ops rule: rev_induct)
  case Nil
  then show ?case by (simp add: progress_inv_def PackageTask_new_def)
next
  case (snoc op ops)
  then show ?case using progress_inv_step [of "stages ops" _ op] by (simp add: stages_append)
qed

lemma install_weights:
  assumes "distinct ss" "set ss \<subseteq> install_stages"
  shows "sum_list (map subStateMap ss) \<le> 75"
proof -
  have "sum_list (map subStateMap ss) = sum subStateMap (set ss)"
    using assms(1) by (simp add: sum_list_distinct_conv_sum_set)
  also have "\<dots> \<le> sum subStateMap install_stages"
    using assms(2) by (intro sum_mono2) (auto simp: install_stages_def)
  also have "\<dots> = 75" by (simp add: install_stages_def)
  finally show ?thesis .
qed

section \<open>Properties\<close>

text \<open>
  A task over \<open>n > 0\<close> refs ends exactly when its last part completes: after \<open>k\<close> completed parts
  it is in state \<open>PartCompleted\<close> while \<open>k < n\<close> and has succeeded, with all stages done and 100 per
  cent, when \<open>k = n\<close>. Before that, a failure or a cancellation is recorded as such and ends the task.
\<close>

theorem task_parts:
  assumes "0 < length refs" "length refs < 2 ^ 32" "0 < k" "k \<le> length refs"
    and "t = (updateState PartCompleted m None ^^ k) (PackageTask_new u refs reg)"
  shows "t_state t = (if k < length refs then PartCompleted else Succeed) \<and>
    (k = length refs \<longrightarrow> t_subState t = AllDone \<and> getPercentage t = 100) \<and>
    (k < length refs \<longrightarrow> (\<forall>s \<in> {Failed, Canceled}.
       t_state (updateState s m' None t) = s \<and> t_subState (updateState s m' None t) = AllDone))"
proof -
  have parts: "t_taskParts ((updateState PartCompleted m None ^^ j) (PackageTask_new u refs reg)) = of_nat j \<and>
      t_refs ((updateState PartCompleted m None ^^ j) (PackageTask_new u refs reg)) = refs" for j
    by (induction j) (simp_all add: updateState_state PackageTask_new_def)
  have word: "(of_nat a = (of_nat b :: u32)) = (a = b)" if "a \<le> length refs" "b \<le> length refs" for a b
  proof -
    have "unat (of_nat a :: u32) = a" "unat (of_nat b :: u32) = b"
      using that assms(2) by (simp_all add: unsigned_of_nat take_bit_nat_eq_self)
    then show ?thesis by metis
  qed
  obtain j where j: "k = Suc j" using assms(3) by (cases k) auto
  let ?p = "(updateState PartCompleted m None ^^ j) (PackageTask_new u refs reg)"
  have t: "t = updateState PartCompleted m None ?p" using assms(5) j by simp
  have eq: "(1 + of_nat j = (of_nat (length refs) :: u32)) = (k = length refs)"
    using word [of k "length refs"] assms(4) j by (simp add: add.commute)
  show ?thesis
    using parts [of j] parts [of k] assms(4,5) j eq word [of k "length refs"]
    by (auto simp: t updateState_state updateState_subState getPercentage_def is_done_def add.commute)
qed

theorem task_parts_witness:
  "t_state ((updateState PartCompleted [] None ^^ 2) (PackageTask_new ''u'' [''a'', ''b''] True)) = Succeed"
  using task_parts [of "[''a'', ''b'']" 2 "(updateState PartCompleted [] None ^^ 2) (PackageTask_new ''u'' [''a'', ''b''] True)"
      "[]" "''u''" True "[]"] by simp

text \<open>
  A task without refs, such as the temporary tasks used when a rollback or an upgrade runs, counts
  as complete from the start: \<open>updateState\<close> to \<open>Failed\<close> or \<open>Canceled\<close> and \<open>Cancel\<close> put it in state
  \<open>Succeed\<close>, so a failure reported this way cannot be seen by the caller. \<open>reportError\<close> is not
  affected.
\<close>

theorem temporary_task_always_succeeds:
  "t_state (updateState Failed m d (createTemporaryTask u)) = Succeed \<and>
   t_state (updateState Canceled m d (createTemporaryTask u)) = Succeed \<and>
   t_state (Cancel (createTemporaryTask u)) = Succeed \<and>
   t_state (reportError e (createTemporaryTask u)) = Failed"
  by (simp add: createTemporaryTask_def PackageTask_new_def updateState_state Cancel_def
      reportError_def Let_def emit_percentage_def)

text \<open>
  C28: The progress of an installation stays between 0 and 95 per cent until the task is done, for
  every sequence in which each of the five stages is entered at most once, with any progress reports
  in between, valid or not.
\<close>

theorem install_progress_bounds:
  assumes "distinct (stages ops)" "set (stages ops) \<subseteq> install_stages"
    and "t = foldl (\<lambda>t op. progress op t) (PackageTask_new u refs reg) ops"
  shows "0 \<le> getPercentage t \<and> getPercentage t \<le> 95"
proof -
  have inv: "progress_inv (stages ops) t" using progress_inv_run [OF assms(2)] assms(3) by simp
  let ?w = "subStateMap (t_subState t)"
  have w: "0 \<le> ?w" "?w \<le> 20" "\<not> is_done (t_subState t)"
    using inv by (auto simp: progress_inv_def install_stages_def is_done_def)
  have "0 \<le> sum_list (map subStateMap (stages ops))"
    by (rule sum_list_nonneg) (use assms(2) in \<open>auto simp: install_stages_def\<close>)
  moreover have "t_curStagePercentage t * ?w \<le> 1 * ?w"
    using inv w by (intro mult_right_mono) (auto simp: progress_inv_def)
  moreover have "0 \<le> t_curStagePercentage t * ?w"
    using inv w by (intro mult_nonneg_nonneg) (auto simp: progress_inv_def)
  ultimately show ?thesis
    using inv w install_weights [OF assms(1,2)] by (auto simp: progress_inv_def getPercentage_def)
qed

definition demo_install :: "progress_op list" where
  "demo_install = [Stage PreAction [], Stage InstallBase [], Stage InstallRuntime [],
     Stage InstallApplication [], Step 100 100 [], Stage PostAction []]"

theorem install_progress_bounds_witness:
  "getPercentage (foldl (\<lambda>t op. progress op t) (PackageTask_new ''u'' [''a''] True) demo_install) \<le> 95"
  using install_progress_bounds [of demo_install _ "''u''" "[''a'']" True]
  by (simp add: demo_install_def install_stages_def)

text \<open>
  The progress goes backwards: a stage's weight is counted when the stage starts and once more as
  it proceeds, so at the end of \<open>InstallApplication\<close> the task reports 90 per cent and at the start of
  \<open>PostAction\<close> 75.
\<close>

theorem install_progress_drops:
  "let t = PackageTask_new ''u'' [''main:a/1.0.0.0/x86_64''] True;
       t1 = foldl (\<lambda>t op. progress op t) t (take 5 demo_install);
       t2 = progress (Stage PostAction []) t1
   in getPercentage t1 = 90 \<and> getPercentage t2 = 75"
  by code_simp

end
