(* ===== verification/Task_Queue.thy ===== *)
theory Task_Queue
  imports Package_Task
begin

text \<open>
  How the package manager runs jobs one after another: the handler of \<open>TaskListChanged\<close> set up in the
  constructor in \<open>libs/linglong/src/linglong/package_manager/package_manager.cpp\<close>, and the class \<open>JobQueue\<close> of
  \<open>package_manager.h\<close>. Signals are delivered through the event loop (\<open>Qt::QueuedConnection\<close>), and jobs
  run nested event loops (they wait for a reply of the user, or for an HTTP answer), so a signal can
  be delivered while a job is still on the stack. Both are modelled as step relations over explicit
  queues of posted events.
\<close>

section \<open>The task list\<close>

record pm_task =
  pm_task :: package_task
  pm_hasJob :: bool

text \<open>
  \<open>pm_posted\<close> are the \<open>TaskListChanged\<close> signals not delivered yet, \<open>pm_stack\<close> the tasks whose jobs are
  being executed, innermost first, and \<open>pm_started\<close> all jobs started so far.
\<close>

record package_manager =
  pm_taskList :: "pm_task list"
  pm_running :: string
  pm_posted :: "string list"
  pm_stack :: "string list"
  pm_started :: "string list"

definition pm_path :: "pm_task \<Rightarrow> string" where
  "pm_path t = taskObjectPath (pm_task t)"

definition pm_init :: package_manager where
  "pm_init = \<lparr>pm_taskList = [], pm_running = [], pm_posted = [], pm_stack = [], pm_started = []\<rparr>"

text \<open>\<open>isTaskDone\<close>.\<close>

definition isTaskDone :: "sub_state \<Rightarrow> bool" where
  "isTaskDone s = (s = AllDone \<or> s = PackageManagerDone)"

definition notify_waiting :: "string \<Rightarrow> pm_task \<Rightarrow> pm_task" where
  "notify_waiting running t =
     (if \<not> pm_hasJob t \<or> pm_path t = running then t
      else t\<lparr>pm_task := updateState Queued ''Waiting for the other tasks'' None (pm_task t)\<rparr>)"

definition startable :: "pm_task \<Rightarrow> bool" where
  "startable t = (\<not> (\<not> pm_hasJob t \<or> t_state (pm_task t) \<noteq> Queued))"

text \<open>The handler, up to the call of the job.\<close>

definition onTaskListChanged :: "string \<Rightarrow> package_manager \<Rightarrow> package_manager" where
  "onTaskListChanged path s =
     (if pm_running s \<noteq> [] then s\<lparr>pm_taskList := map (notify_waiting (pm_running s)) (pm_taskList s)\<rparr>
      else let s1 = s\<lparr>pm_running := path\<rparr> in
        if pm_taskList s1 = [] then s1
        else case find startable (pm_taskList s1) of
          None \<Rightarrow> s1
        | Some t \<Rightarrow> s1\<lparr>pm_stack := pm_path t # pm_stack s1, pm_started := pm_started s1 @ [pm_path t]\<rparr>)"

fun erase_task :: "string \<Rightarrow> pm_task list \<Rightarrow> pm_task list" where
  "erase_task p [] = []"
| "erase_task p (t # ts) = (if pm_path t = p then ts else t # erase_task p ts)"

text \<open>The rest of the handler, when the innermost job has returned.\<close>

definition onJobReturned :: "package_manager \<Rightarrow> package_manager" where
  "onJobReturned s =
     (case pm_stack s of
        [] \<Rightarrow> s
      | p # st \<Rightarrow> s\<lparr>pm_stack := st, pm_running := [], pm_taskList := erase_task p (pm_taskList s),
                    pm_posted := pm_posted s @ [[]]\<rparr>)"

definition addTask :: "pm_task \<Rightarrow> package_manager \<Rightarrow> package_manager" where
  "addTask t s = s\<lparr>pm_taskList := pm_taskList s @ [t], pm_posted := pm_posted s @ [pm_path t]\<rparr>"

definition updateTask_at :: "string \<Rightarrow> (package_task \<Rightarrow> package_task) \<Rightarrow> package_manager \<Rightarrow> package_manager" where
  "updateTask_at p f s =
     s\<lparr>pm_taskList := map (\<lambda>t. if pm_path t = p then t\<lparr>pm_task := f (pm_task t)\<rparr> else t) (pm_taskList s)\<rparr>"

definition new_task :: "string \<Rightarrow> string list \<Rightarrow> pm_task" where
  "new_task uuid refs = \<lparr>pm_task = PackageTask_new uuid refs True, pm_hasJob = True\<rparr>"

text \<open>
  A request adds a task for one or more refs; a user may cancel a task at any time; a posted signal
  may be delivered at any time; the innermost job reports that it is processing, or returns.
\<close>

inductive pm_step :: "package_manager \<Rightarrow> package_manager \<Rightarrow> bool" where
  add: "refs \<noteq> [] \<Longrightarrow> pm_step s (addTask (new_task uuid refs) s)"
| cancel: "pm_step s (updateTask_at p Cancel s)"
| deliver: "pm_posted s = p # ps \<Longrightarrow> pm_step s (onTaskListChanged p (s\<lparr>pm_posted := ps\<rparr>))"
| processing: "pm_stack s = p # st \<Longrightarrow> pm_step s (updateTask_at p (updateState Processing m None) s)"
| returned: "pm_stack s = p # st \<Longrightarrow> pm_step s (onJobReturned s)"

inductive_cases pm_stepE: "pm_step s s'"

definition pm_reachable :: "package_manager \<Rightarrow> bool" where
  "pm_reachable s = pm_step\<^sup>*\<^sup>* pm_init s"

text \<open>Delivery without nesting: a signal is delivered and the job it starts, if any, runs to its end.\<close>

definition serve :: "package_manager \<Rightarrow> package_manager" where
  "serve s =
     (case pm_posted s of
        [] \<Rightarrow> s
      | p # ps \<Rightarrow>
         (let s1 = onTaskListChanged p (s\<lparr>pm_posted := ps\<rparr>) in
          if pm_stack s1 = pm_stack s then s1 else onJobReturned s1))"

section \<open>JobQueue\<close>

text \<open>
  \<open>jq_posted\<close> counts the invocations of \<open>run\<close> in the event queue, \<open>jq_executing\<close> the calls of \<open>run\<close> that
  are inside a job; the two logs are the jobs submitted and the jobs started.
\<close>

record 'job job_queue =
  jq_runningJobsCount :: u32
  jq_taskList :: "'job list"
  jq_posted :: nat
  jq_executing :: nat
  jq_submitted :: "'job list"
  jq_started :: "'job list"

definition runningJobsMax :: u32 where
  "runningJobsMax = 1"

definition jq_init :: "'job job_queue" where
  "jq_init = \<lparr>jq_runningJobsCount = 0, jq_taskList = [], jq_posted = 0, jq_executing = 0,
     jq_submitted = [], jq_started = []\<rparr>"

definition runTask :: "'job \<Rightarrow> 'job job_queue \<Rightarrow> 'job job_queue" where
  "runTask func q =
     (let q1 = q\<lparr>jq_taskList := jq_taskList q @ [func], jq_submitted := jq_submitted q @ [func]\<rparr> in
      if jq_runningJobsCount q1 < runningJobsMax
      then q1\<lparr>jq_runningJobsCount := jq_runningJobsCount q1 + 1, jq_posted := jq_posted q1 + 1\<rparr>
      else q1)"

text \<open>\<open>run\<close> up to the call of the job, and after it.\<close>

definition run_begin :: "'job job_queue \<Rightarrow> 'job job_queue" where
  "run_begin q =
     (case jq_taskList q of
        [] \<Rightarrow> q\<lparr>jq_runningJobsCount := jq_runningJobsCount q - 1\<rparr>
      | func # rest \<Rightarrow> q\<lparr>jq_taskList := rest, jq_executing := jq_executing q + 1,
                         jq_started := jq_started q @ [func]\<rparr>)"

definition run_end :: "'job job_queue \<Rightarrow> 'job job_queue" where
  "run_end q =
     (let q1 = q\<lparr>jq_executing := jq_executing q - 1\<rparr> in
      if jq_taskList q1 \<noteq> [] then q1\<lparr>jq_posted := jq_posted q1 + 1\<rparr>
      else q1\<lparr>jq_runningJobsCount := jq_runningJobsCount q1 - 1\<rparr>)"

inductive jq_step :: "'job job_queue \<Rightarrow> 'job job_queue \<Rightarrow> bool" where
  submit: "jq_step q (runTask func q)"
| begin_job: "0 < jq_posted q \<Longrightarrow> jq_step q (run_begin (q\<lparr>jq_posted := jq_posted q - 1\<rparr>))"
| end_job: "0 < jq_executing q \<Longrightarrow> jq_step q (run_end q)"

section \<open>Lemmas\<close>

definition jq_inv :: "'job job_queue \<Rightarrow> bool" where
  "jq_inv q \<longleftrightarrow>
     jq_posted q + jq_executing q \<le> 1 \<and> jq_runningJobsCount q = of_nat (jq_posted q + jq_executing q) \<and>
     (jq_taskList q \<noteq> [] \<longrightarrow> jq_posted q + jq_executing q = 1) \<and>
     jq_started q @ jq_taskList q = jq_submitted q"

lemma jq_inv_init: "jq_inv jq_init"
  by (simp add: jq_inv_def jq_init_def)

lemma jq_inv_step: "jq_step q q' \<Longrightarrow> jq_inv q \<Longrightarrow> jq_inv q'"
proof (induction rule: jq_step.induct)
  case (submit q func)
  then consider "jq_posted q = 0" "jq_executing q = 0" | "jq_posted q = 1" "jq_executing q = 0"
    | "jq_posted q = 0" "jq_executing q = 1"
    by (cases "jq_posted q"; cases "jq_executing q") (auto simp: jq_inv_def)
  then show ?case using submit
    by cases (auto simp: jq_inv_def runTask_def runningJobsMax_def Let_def)
next
  case (begin_job q)
  then have "jq_posted q = 1" "jq_executing q = 0" by (auto simp: jq_inv_def)
  then show ?case using begin_job
    by (cases "jq_taskList q") (auto simp: jq_inv_def run_begin_def)
next
  case (end_job q)
  then have "jq_posted q = 0" "jq_executing q = 1" by (auto simp: jq_inv_def)
  then show ?case using end_job by (auto simp: jq_inv_def run_end_def Let_def)
qed

lemma jq_inv_reachable: "jq_step\<^sup>*\<^sup>* jq_init q \<Longrightarrow> jq_inv q"
  by (induction rule: rtranclp_induct) (auto simp: jq_inv_init jq_inv_step)

definition pm_stuck :: "package_manager \<Rightarrow> bool" where
  "pm_stuck s \<longleftrightarrow> pm_running s \<noteq> [] \<and> pm_stack s = []"

lemma pm_stuck_step: "pm_step s s' \<Longrightarrow> pm_stuck s \<Longrightarrow> pm_stuck s' \<and> pm_started s' = pm_started s"
  by (induction rule: pm_step.induct)
    (auto simp: pm_stuck_def addTask_def updateTask_at_def onTaskListChanged_def)

lemma pm_stuck_forever: "pm_step\<^sup>*\<^sup>* s s' \<Longrightarrow> pm_stuck s \<Longrightarrow> pm_stuck s' \<and> pm_started s' = pm_started s"
  by (induction rule: rtranclp_induct) (use pm_stuck_step in \<open>auto\<close>)

text \<open>Runs as lists of actions, for concrete histories.\<close>

datatype pm_action = Add string "string list" | CancelTask string | Deliver | Process | Return

fun act :: "package_manager \<Rightarrow> pm_action \<Rightarrow> package_manager" where
  "act s (Add uuid refs) = (if refs \<noteq> [] then addTask (new_task uuid refs) s else s)"
| "act s (CancelTask p) = updateTask_at p Cancel s"
| "act s Deliver =
     (case pm_posted s of [] \<Rightarrow> s | p # ps \<Rightarrow> onTaskListChanged p (s\<lparr>pm_posted := ps\<rparr>))"
| "act s Process = (case pm_stack s of [] \<Rightarrow> s | p # st \<Rightarrow> updateTask_at p (updateState Processing [] None) s)"
| "act s Return = onJobReturned s"

lemma act_step: "pm_step\<^sup>*\<^sup>* s (act s a)"
proof (cases a)
  case (Add u refs)
  then show ?thesis by (auto intro: pm_step.add)
next
  case (CancelTask p)
  then show ?thesis by (auto intro: pm_step.cancel)
next
  case Deliver
  then show ?thesis by (cases "pm_posted s") (auto intro: pm_step.deliver)
next
  case Process
  then show ?thesis by (cases "pm_stack s") (auto intro: pm_step.processing)
next
  case Return
  show ?thesis
  proof (cases "pm_stack s")
    case Nil
    then show ?thesis using Return by (simp add: onJobReturned_def)
  next
    case (Cons p st)
    then have "pm_step s (onJobReturned s)" by (rule pm_step.returned)
    then show ?thesis using Return by auto
  qed
qed

lemma act_reachable: "pm_reachable (foldl act pm_init as)"
proof (induction as rule: rev_induct)
  case Nil
  then show ?case by (simp add: pm_reachable_def)
next
  case (snoc a as)
  then show ?case using act_step [of "foldl act pm_init as" a] by (auto simp: pm_reachable_def)
qed


text \<open>Serving the signals of a batch of tasks.\<close>

lemma serve_first:
  assumes "pm_running s = []" "pm_stack s = []" "pm_taskList s = t # ts" "startable t" "pm_posted s = p # ps"
  shows "serve s = s\<lparr>pm_taskList := ts, pm_posted := ps @ [[]], pm_started := pm_started s @ [pm_path t]\<rparr>"
  using assms by (simp add: serve_def onTaskListChanged_def onJobReturned_def Let_def)

lemma serve_idle:
  assumes "pm_running s = []" "pm_stack s = []" "pm_taskList s = []" "pm_posted s = [] # ps"
  shows "serve s = s\<lparr>pm_posted := ps\<rparr>"
  using assms by (simp add: serve_def onTaskListChanged_def Let_def)

lemma serve_tasks:
  assumes "pm_running s = []" "pm_stack s = []" "\<forall>t \<in> set (pm_taskList s). startable t"
    and "pm_posted s = map pm_path (pm_taskList s) @ replicate k []"
  shows "(serve ^^ length (pm_taskList s)) s =
    s\<lparr>pm_taskList := [], pm_posted := replicate (k + length (pm_taskList s)) [],
      pm_started := pm_started s @ map pm_path (pm_taskList s)\<rparr>"
  using assms
proof (induction "pm_taskList s" arbitrary: s k)
  case Nil
  then show ?case by simp
next
  case (Cons t ts)
  define s1 where "s1 = s\<lparr>pm_taskList := ts, pm_posted := map pm_path ts @ replicate (Suc k) [],
    pm_started := pm_started s @ [pm_path t]\<rparr>"
  have "serve s = s1"
    using serve_first [of s t ts "pm_path t" "map pm_path ts @ replicate k []"] Cons.prems Cons.hyps(2) [symmetric]
    by (simp add: s1_def replicate_append_same)
  moreover have "(serve ^^ length (pm_taskList s1)) s1 =
      s1\<lparr>pm_taskList := [], pm_posted := replicate (Suc k + length (pm_taskList s1)) [],
         pm_started := pm_started s1 @ map pm_path (pm_taskList s1)\<rparr>"
    by (rule Cons.hyps(1)) (use Cons.prems Cons.hyps(2) [symmetric] in \<open>simp_all add: s1_def\<close>)
  ultimately show ?case using Cons.hyps(2) [symmetric] by (simp add: s1_def funpow_swap1)
qed

lemma serve_empties:
  assumes "pm_running s = []" "pm_stack s = []" "pm_taskList s = []" "pm_posted s = replicate k []"
  shows "(serve ^^ k) s = s\<lparr>pm_posted := []\<rparr>"
  using assms
proof (induction k arbitrary: s)
  case (Suc k)
  then show ?case using serve_idle [of s "replicate k []"] by (simp add: funpow_swap1)
qed simp

lemma add_all:
  "pm_taskList (foldl (\<lambda>s t. addTask t s) s ts) = pm_taskList s @ ts"
  "pm_posted (foldl (\<lambda>s t. addTask t s) s ts) = pm_posted s @ map pm_path ts"
  "pm_running (foldl (\<lambda>s t. addTask t s) s ts) = pm_running s"
  "pm_stack (foldl (\<lambda>s t. addTask t s) s ts) = pm_stack s"
  "pm_started (foldl (\<lambda>s t. addTask t s) s ts) = pm_started s"
  by (induction ts arbitrary: s) (simp_all add: addTask_def)

section \<open>Properties\<close>

text \<open>
  C27: A batch of tasks added to an idle package manager is executed completely and in order when
  signals are delivered one at a time without nesting: after twice as many deliveries as tasks every
  job was started once, in the order of the requests, and the manager is idle again.
\<close>

theorem task_queue_fifo:
  assumes "\<forall>t \<in> set ts. startable t"
  shows "(serve ^^ (2 * length ts)) (foldl (\<lambda>s t. addTask t s) pm_init ts) =
    pm_init\<lparr>pm_started := map pm_path ts\<rparr>"
proof -
  let ?s = "foldl (\<lambda>s t. addTask t s) pm_init ts"
  have "(serve ^^ length ts) ?s = pm_init\<lparr>pm_posted := replicate (length ts) [], pm_started := map pm_path ts\<rparr>"
    using serve_tasks [of ?s 0] assms add_all [of pm_init ts] by (simp add: pm_init_def)
  moreover have "(serve ^^ length ts)
      (pm_init\<lparr>pm_posted := replicate (length ts) [], pm_started := map pm_path ts\<rparr>) =
      pm_init\<lparr>pm_started := map pm_path ts\<rparr>"
    by (subst serve_empties) (simp_all add: pm_init_def)
  ultimately show ?thesis by (simp add: mult_2 funpow_add)
qed

theorem task_queue_fifo_witness:
  "pm_started ((serve ^^ 4) (foldl (\<lambda>s t. addTask t s) pm_init [new_task ''a'' [''r''], new_task ''b'' [''s'']])) =
     [''/org/deepin/linglong/Task1/a'', ''/org/deepin/linglong/Task1/b'']"
  using task_queue_fifo [of "[new_task ''a'' [''r''], new_task ''b'' [''s'']]"]
  by (simp add: startable_def new_task_def PackageTask_new_def pm_path_def taskObjectPath_def)

definition stuck_history :: "pm_action list" where
  "stuck_history = [Add ''a'' [''r''], Deliver, Process, Return, Add ''b'' [''s''], Deliver, Process, Return, Deliver]"

text \<open>
  The queue can stop for good. When a task is added after another has finished but before the
  empty signal of the finished one is delivered, its own signal comes last, finds an empty list and
  leaves \<open>runningTaskObjectPath\<close> set; from then on every signal only tells the tasks to wait, and no
  job is ever started again, whatever happens.
\<close>

theorem task_queue_can_stop:
  "pm_reachable (foldl act pm_init stuck_history) \<and> pm_stuck (foldl act pm_init stuck_history) \<and>
   (\<forall>s'. pm_step\<^sup>*\<^sup>* (foldl act pm_init stuck_history) s' \<longrightarrow>
      pm_started s' = [''/org/deepin/linglong/Task1/a'', ''/org/deepin/linglong/Task1/b''])"
proof -
  let ?s = "foldl act pm_init stuck_history"
  have "pm_stuck ?s" by code_simp
  moreover have "pm_started ?s = [''/org/deepin/linglong/Task1/a'', ''/org/deepin/linglong/Task1/b'']" by code_simp
  ultimately show ?thesis using act_reachable pm_stuck_forever by metis
qed

theorem task_queue_can_stop_witness:
  "pm_started (act (act (foldl act pm_init stuck_history) (Add ''c'' [''t''])) Deliver) =
     [''/org/deepin/linglong/Task1/a'', ''/org/deepin/linglong/Task1/b'']"
proof -
  let ?s = "foldl act pm_init stuck_history"
  have "pm_step\<^sup>*\<^sup>* ?s (act (act ?s (Add ''c'' [''t''])) Deliver)"
    using act_step [of ?s "Add ''c'' [''t'']"] act_step [of "act ?s (Add ''c'' [''t''])" Deliver] by simp
  then show ?thesis using task_queue_can_stop by blast
qed

text \<open>
  Jobs are not exclusive. A job started by the empty signal runs while \<open>runningTaskObjectPath\<close> is
  empty, so a signal delivered in its nested event loop starts another job, and as long as the first
  one has not reported that it is processing, that other job is the same one once more.
\<close>

theorem task_queue_not_exclusive:
  "(\<exists>s. pm_reachable s \<and> pm_stack s = [''/org/deepin/linglong/Task1/c'', ''/org/deepin/linglong/Task1/b'']) \<and>
   (\<exists>s. pm_reachable s \<and> pm_stack s = [''/org/deepin/linglong/Task1/b'', ''/org/deepin/linglong/Task1/b''])"
proof -
  let ?pre = "[Add ''a'' [''r''], Deliver, Process, Add ''b'' [''s''], Deliver, Return, Deliver]"
  have "pm_stack (foldl act pm_init (?pre @ [Process, Add ''c'' [''t''], Deliver])) =
      [''/org/deepin/linglong/Task1/c'', ''/org/deepin/linglong/Task1/b'']" by code_simp
  moreover have "pm_stack (foldl act pm_init (?pre @ [Add ''c'' [''t''], Deliver])) =
      [''/org/deepin/linglong/Task1/b'', ''/org/deepin/linglong/Task1/b'']" by code_simp
  ultimately show ?thesis using act_reachable by blast
qed

definition cancel_history :: "pm_action list" where
  "cancel_history = [Add ''a'' [''r''], Deliver, Process, Add ''b'' [''s''],
     CancelTask ''/org/deepin/linglong/Task1/b'', Deliver, Return, Deliver]"

text \<open>
  Cancelling a waiting task does not last: the next signal that is delivered while another task
  runs puts it back into state \<open>Queued\<close>, and it is started when its turn comes.
\<close>

theorem cancelled_task_is_started:
  "pm_reachable (foldl act pm_init cancel_history) \<and>
   pm_stack (foldl act pm_init cancel_history) = [''/org/deepin/linglong/Task1/b''] \<and>
   map (\<lambda>t. t_cancelled (pm_task t)) (pm_taskList (foldl act pm_init cancel_history)) = [True]"
proof -
  let ?s = "foldl act pm_init cancel_history"
  have "pm_stack ?s = [''/org/deepin/linglong/Task1/b'']" by code_simp
  moreover have "map (\<lambda>t. t_cancelled (pm_task t)) (pm_taskList ?s) = [True]" by code_simp
  ultimately show ?thesis using act_reachable by blast
qed

text \<open>
  C2: \<open>JobQueue\<close> runs jobs one at a time and in order, with nested event loops or not: at most one
  job executes at any time, the jobs started are a prefix of the jobs submitted, and while jobs wait
  there is a job executing or an invocation of \<open>run\<close> in the event queue, so none is forgotten.
\<close>

theorem job_queue_correct:
  assumes "jq_step\<^sup>*\<^sup>* jq_init q"
  shows "jq_executing q \<le> 1 \<and> jq_started q @ jq_taskList q = jq_submitted q \<and>
    (jq_taskList q \<noteq> [] \<longrightarrow> jq_executing q = 1 \<or> jq_posted q = 1)"
  using jq_inv_reachable [OF assms] by (auto simp: jq_inv_def)

definition demo_queue :: "string job_queue" where
  "demo_queue = (let q = runTask ''b'' (runTask ''a'' jq_init) in run_begin (q\<lparr>jq_posted := jq_posted q - 1\<rparr>))"

theorem job_queue_correct_witness:
  "jq_executing demo_queue \<le> 1 \<and> jq_started demo_queue @ jq_taskList demo_queue = [''a'', ''b'']"
proof -
  let ?q1 = "runTask ''a'' jq_init" and ?q2 = "runTask ''b'' (runTask ''a'' jq_init)"
  have "jq_step jq_init ?q1" "jq_step ?q1 ?q2" by (rule jq_step.submit)+
  moreover have "jq_step ?q2 demo_queue"
    unfolding demo_queue_def Let_def
    by (rule jq_step.begin_job) (simp add: runTask_def jq_init_def runningJobsMax_def Let_def)
  ultimately have "jq_step\<^sup>*\<^sup>* jq_init demo_queue"
    by (metis (no_types) r_into_rtranclp rtranclp.rtrancl_into_rtrancl)
  from job_queue_correct [OF this] show ?thesis
    by (simp add: demo_queue_def runTask_def jq_init_def runningJobsMax_def run_begin_def Let_def)
qed

end
