(* ===== verification/Oci_Config.thy ===== *)
theory Oci_Config
  imports Prelude
begin

text \<open>
  The container configuration, \<open>libs/linglong/src/linglong/runtime/container_builder.cpp\<close>: the default
  configuration is patched by the files of \<open>config.d\<close>, by the user's settings and by the options of
  the caller, the root is rearranged into mounts, and the environment is written to a shell script.
  Only the fields this code touches are modelled. The JSON-patch library, the generators (child
  processes), the file system and \<open>QDir::cleanPath\<close> are parameters; a result \<open>None\<close> is
  \<open>std::terminate\<close> or undefined behaviour, as each definition says.
\<close>

section \<open>Data\<close>

datatype json = JStr string | JArr "json list" | JObj "(string \<times> json) list"

record mount =
  mnt_destination :: string
  mnt_options :: "string list"
  mnt_source :: string
  mnt_type :: string

record oci_root =
  root_path :: string
  root_readonly :: bool

record oci_config =
  oci_version :: string
  oci_root :: "oci_root option"
  oci_annotations :: "(string \<rightharpoonup> string) option"
  oci_mounts :: "mount list option"
  oci_env :: "string list option"
  oci_maskedPaths :: "string list"

record oci_patch =
  patch_ociVersion :: string
  patch_patch :: json

record bind_permission =
  bind_source :: string
  bind_destination :: string

record container_options =
  opt_appID :: string
  opt_containerID :: string
  opt_runtimeDir :: "string option"
  opt_baseDir :: string
  opt_appDir :: "string option"
  opt_patches :: "oci_patch list"
  opt_mounts :: "mount list"
  opt_masks :: "string list"

record file_info =
  fi_path :: string
  fi_isFile :: bool
  fi_isExecutable :: bool

text \<open>What a generator process did: time out, exit with a code other than zero, or print a text.\<close>

datatype generator_result = TimedOut | ExitedWith int | Printed "oci_config result"

record oci_env =
  env_configVar :: string
  env_prefix :: string
  env_exists :: "string \<Rightarrow> bool"
  env_loadConfig :: "string \<Rightarrow> oci_config result"
  env_loadPatch :: "string \<Rightarrow> oci_patch result"
  env_configD :: "file_info list"
  env_jsonPatch :: "oci_config \<Rightarrow> json \<Rightarrow> oci_config option"
  env_generator :: "string \<Rightarrow> string \<Rightarrow> oci_config \<Rightarrow> generator_result"
  env_userConfig :: "string \<Rightarrow> bind_permission list option result option"
  env_bundleDir :: "string result"
  env_openEnvSh :: bool
  env_cleanPath :: "string \<Rightarrow> string"
  env_entries :: "string \<Rightarrow> (string \<times> bool) list"

section \<open>Patches\<close>

text \<open>
  \<open>nlohmann::json::array({ {"op", "add"}, {"path", \<dots>}, {"value", \<dots>} })\<close> is an array of three
  two-element arrays: a braced pair of strings becomes an array, not a member of an object.
\<close>

definition bind_patch :: "bind_permission \<Rightarrow> oci_patch" where
  "bind_patch b =
     \<lparr>patch_ociVersion = ''1.0.1'',
      patch_patch = JArr [JArr [JStr ''op'', JStr ''add''], JArr [JStr ''path'', JStr ''/mounts/-''],
        JArr [JStr ''value'',
              JObj [(''source'', JStr (bind_source b)), (''destination'', JStr (bind_destination b)),
                    (''options'', JArr [JStr ''rbind'', JStr ''nosuid'', JStr ''nodev''])]]]\<rparr>"

text \<open>\<open>env_userConfig\<close> is \<open>None\<close> when there is no file, and gives the binds if the permissions have any.\<close>

definition getPatchesForApplication :: "oci_env \<Rightarrow> string \<Rightarrow> oci_patch list" where
  "getPatchesForApplication env appID =
     (case env_userConfig env appID of
        None \<Rightarrow> []
      | Some (Inl _) \<Rightarrow> []
      | Some (Inr None) \<Rightarrow> []
      | Some (Inr (Some binds)) \<Rightarrow> map bind_patch binds)"

definition applyJSONPatch :: "oci_env \<Rightarrow> oci_config \<Rightarrow> oci_patch \<Rightarrow> oci_config" where
  "applyJSONPatch env cfg p =
     (if patch_ociVersion p \<noteq> oci_version cfg then cfg
      else case env_jsonPatch env cfg (patch_patch p) of None \<Rightarrow> cfg | Some c \<Rightarrow> c)"

definition applyJSONFilePatch :: "oci_env \<Rightarrow> oci_config \<Rightarrow> file_info \<Rightarrow> oci_config" where
  "applyJSONFilePatch env cfg info =
     (if \<not> fi_isFile info then cfg
      else if \<not> ends_with (fi_path info) ''.json'' then cfg
      else case env_loadPatch env (fi_path info) of Inl _ \<Rightarrow> cfg | Inr p \<Rightarrow> applyJSONPatch env cfg p)"

definition applyExecutablePatch :: "oci_env \<Rightarrow> string \<Rightarrow> oci_config \<Rightarrow> file_info \<Rightarrow> oci_config" where
  "applyExecutablePatch env workdir cfg info =
     (case env_generator env (fi_path info) workdir cfg of
        TimedOut \<Rightarrow> cfg
      | ExitedWith code \<Rightarrow> cfg
      | Printed (Inl _) \<Rightarrow> cfg
      | Printed (Inr c) \<Rightarrow> c)"

text \<open>\<open>bundleDir\<close> is dereferenced without a check.\<close>

definition getBundleDir :: "oci_env \<Rightarrow> string result" where
  "getBundleDir env = env_bundleDir env"

definition applyPatches_files :: "oci_env \<Rightarrow> oci_config \<Rightarrow> file_info list \<Rightarrow> oci_config option" where
  "applyPatches_files env cfg infos =
     foldl (\<lambda>c info. case c of None \<Rightarrow> None | Some cfg \<Rightarrow>
        (if \<not> fi_isFile info then Some cfg
         else if fi_isExecutable info
         then (case getBundleDir env of
                 Inl _ \<Rightarrow> None
               | Inr dir \<Rightarrow> Some (applyExecutablePatch env dir cfg info))
         else Some (applyJSONFilePatch env cfg info))) (Some cfg) infos"

definition applyPatches :: "oci_env \<Rightarrow> oci_config \<Rightarrow> oci_patch list \<Rightarrow> oci_config" where
  "applyPatches env cfg patches = foldl (applyJSONPatch env) cfg patches"

definition annotate :: "container_options \<Rightarrow> (string \<rightharpoonup> string) \<Rightarrow> (string \<rightharpoonup> string)" where
  "annotate opts ann =
     (let a1 = ann(''org.deepin.linglong.appID'' \<mapsto> opt_appID opts,
                   ''org.deepin.linglong.baseDir'' \<mapsto> opt_baseDir opts);
          a2 = (case opt_runtimeDir opts of None \<Rightarrow> a1
                | Some d \<Rightarrow> a1(''org.deepin.linglong.runtimeDir'' \<mapsto> d))
      in case opt_appDir opts of None \<Rightarrow> a2 | Some d \<Rightarrow> a2(''org.deepin.linglong.appDir'' \<mapsto> d))"

text \<open>The mounts of the configuration are dereferenced without a check.\<close>

definition getOCIConfig :: "oci_env \<Rightarrow> container_options \<Rightarrow> oci_config result option" where
  "getOCIConfig env opts =
     (let trace = ''get origin OCI configuration file'';
          fromVar = env_configVar env \<noteq> [];
          path = (if fromVar then env_configVar env
                  else env_prefix env @ ''/lib/linglong/container/config.json'') in
      if \<not> fromVar \<and> \<not> env_exists env path
      then Some (Inl (Err trace (''The container configuration file doesn't exist: '' @ path
             @ [CHR 0x0A] @ ''You can specify a custom location using the LINGLONG_CONTAINER_CONFIG'') (-1)))
      else case env_loadConfig env path of
        Inl e \<Rightarrow> Some (Inl (Err_wrap trace e))
      | Inr c0 \<Rightarrow>
         (let c1 = c0\<lparr>oci_root := Some \<lparr>root_path = opt_baseDir opts @ ''/files'', root_readonly = True\<rparr>,
                      oci_annotations := Some (annotate opts
                        (case oci_annotations c0 of None \<Rightarrow> Map.empty | Some a \<Rightarrow> a))\<rparr> in
          case applyPatches_files env c1 (env_configD env) of
            None \<Rightarrow> None
          | Some c2 \<Rightarrow>
             (let c3 = applyPatches env c2 (getPatchesForApplication env (opt_appID opts));
                  c4 = applyPatches env c3 (opt_patches opts)
              in case oci_mounts c4 of
                   None \<Rightarrow> None
                 | Some ms \<Rightarrow> Some (Inr (c4\<lparr>oci_mounts := Some (ms @ opt_mounts opts),
                                             oci_maskedPaths := opt_masks opts\<rparr>)))))"

section \<open>Mount points\<close>

text \<open>
  \<open>commonParent\<close>. The first loop removes characters until one path is a prefix of the other, the
  second until a slash is at the end; on a text without a slash the second never ends (\<open>None\<close>).
\<close>

function chop_to_prefix :: "string \<Rightarrow> string \<Rightarrow> string" where
  "chop_to_prefix path1 ret = (if starts_with path1 ret then ret else chop_to_prefix path1 (butlast ret))"
  by pat_completeness auto
termination
proof (relation "measure (\<lambda>(_, ret). length ret)")
  fix path1 ret :: string
  assume "\<not> starts_with path1 ret"
  then have "ret \<noteq> []" by (cases ret) auto
  then show "((path1, butlast ret), (path1, ret)) \<in> measure (\<lambda>(_, ret). length ret)" by (cases ret) auto
qed simp

function chop_to_slash :: "string \<Rightarrow> string option" where
  "chop_to_slash ret =
     (if ret = [] then None else if last ret = CHR ''/'' then Some ret else chop_to_slash (butlast ret))"
  by pat_completeness auto
termination
  by (relation "measure length") auto

definition commonParent :: "(string \<Rightarrow> string) \<Rightarrow> string \<Rightarrow> string \<Rightarrow> string option" where
  "commonParent cleanPath path1 path2 =
     (let ret = chop_to_prefix path1 path2 in
      if ret = [] then Some [] else map_option cleanPath (chop_to_slash ret))"

text \<open>The deepest existing ancestor, by elements of the path; \<open>[]\<close> when there is none.\<close>

function existing_elements :: "(string \<Rightarrow> bool) \<Rightarrow> string list \<Rightarrow> string list" where
  "existing_elements ex elem =
     (if elem \<noteq> [] \<and> \<not> ex (join_with (CHR ''/'') elem) then existing_elements ex (butlast elem) else elem)"
  by pat_completeness auto
termination
  by (relation "measure (\<lambda>(_, elem). length elem)") auto

text \<open>The loop over \<open>tmpfsPath\<close>: whether a new entry is needed, and the list with a replaced entry.\<close>

fun merge_tmpfs :: "(string \<Rightarrow> string) \<Rightarrow> string \<Rightarrow> string \<Rightarrow> string list \<Rightarrow> (bool \<times> string list) option" where
  "merge_tmpfs cleanPath root existsPath [] = Some (True, [])"
| "merge_tmpfs cleanPath root existsPath (p # ps) =
     (if existsPath = p
      then map_option (\<lambda>(n, qs). (False, p # qs)) (merge_tmpfs cleanPath root existsPath ps)
      else case commonParent cleanPath existsPath p of
        None \<Rightarrow> None
      | Some common \<Rightarrow>
         (if common > root then Some (False, common # ps)
          else map_option (\<lambda>(n, qs). (n, p # qs)) (merge_tmpfs cleanPath root existsPath ps)))"

text \<open>\<open>QDir::filePath\<close>.\<close>

definition filePath :: "string \<Rightarrow> string \<Rightarrow> string" where
  "filePath dir name = (if starts_with name ''/'' then name else dir @ ''/'' @ name)"

definition tmpfs_for_mount ::
    "oci_env \<Rightarrow> string \<Rightarrow> string \<Rightarrow> string list option \<Rightarrow> mount \<Rightarrow> string list option" where
  "tmpfs_for_mount env root rootAbs acc m =
     (case acc of None \<Rightarrow> None | Some tmpfsPath \<Rightarrow>
      if mnt_destination m = [] \<or> hd (mnt_destination m) \<noteq> CHR ''/'' then Some tmpfsPath
      else let hostSource = env_cleanPath env (filePath root (tl (mnt_destination m))) in
        if env_exists env hostSource then Some tmpfsPath
        else let elem = existing_elements (env_exists env) (split_on (CHR ''/'') hostSource) in
          if elem = [] then Some tmpfsPath
          else let existsPath = join_with (CHR ''/'') elem; rootPath = env_cleanPath env rootAbs in
            if existsPath \<le> rootPath then Some tmpfsPath
            else case merge_tmpfs (env_cleanPath env) rootPath existsPath tmpfsPath of
              None \<Rightarrow> None
            | Some (newTmp, ps) \<Rightarrow> Some (if newTmp then ps @ [existsPath] else ps))"

definition bind_mount :: "string \<Rightarrow> string \<Rightarrow> bool \<Rightarrow> mount" where
  "bind_mount source dest symlink =
     \<lparr>mnt_destination = dest, mnt_options = [''rbind'', ''ro''] @ (if symlink then [''copy-symlink''] else []),
      mnt_source = source, mnt_type = ''bind''\<rparr>"

definition root_binds :: "oci_env \<Rightarrow> string \<Rightarrow> mount list" where
  "root_binds env rootAbs =
     map (\<lambda>(name, symlink). bind_mount (rootAbs @ ''/'' @ name) (''/'' @ name) symlink) (env_entries env rootAbs)"

definition tmpfs_mounts :: "oci_env \<Rightarrow> string \<Rightarrow> string \<Rightarrow> mount list" where
  "tmpfs_mounts env rootAbs tmpfs =
     \<lparr>mnt_destination = drop (length rootAbs) tmpfs, mnt_options = [''nodev'', ''nosuid'', ''mode=755''],
      mnt_source = ''tmpfs'', mnt_type = ''tmpfs''\<rparr>
     # map (\<lambda>(name, symlink).
         let path = tmpfs @ ''/'' @ name in bind_mount path (drop (length rootAbs) path) symlink)
       (env_entries env tmpfs)"

text \<open>
  The reverse loop that removes all but the last mount of every destination. (The code erases through
  an iterator that \<open>erase\<close> invalidates; with the vector of the standard library it then continues
  with the element before.)
\<close>

fun remove_dups :: "string set \<Rightarrow> mount list \<Rightarrow> mount list" where
  "remove_dups dups [] = []"
| "remove_dups dups (m # ms) =
     (if mnt_destination m \<in> dups then remove_dups dups ms
      else m # remove_dups (insert (mnt_destination m) dups) ms)"

definition dedup_mounts :: "mount list \<Rightarrow> mount list" where
  "dedup_mounts ms = rev (remove_dups {} (rev ms))"

text \<open>\<open>None\<close> would be a \<open>commonParent\<close> that does not return. \<open>absPath\<close> is \<open>QDir::absolutePath\<close>.\<close>

definition fixMount :: "oci_env \<Rightarrow> (string \<Rightarrow> string) \<Rightarrow> oci_config \<Rightarrow> oci_config option" where
  "fixMount env absPath config =
     (case (oci_mounts config, oci_root config) of
        (Some mounts, Some root) \<Rightarrow>
          (let originalRoot = root_path root; rootAbs = absPath originalRoot in
           case foldl (tmpfs_for_mount env originalRoot rootAbs) (Some []) mounts of
             None \<Rightarrow> None
           | Some tmpfsPath \<Rightarrow>
               Some (config\<lparr>oci_root := Some \<lparr>root_path = ''rootfs'', root_readonly = False\<rparr>,
                 oci_mounts := Some (dedup_mounts (root_binds env rootAbs
                   @ concat (map (tmpfs_mounts env rootAbs) tmpfsPath) @ mounts))\<rparr>))
      | _ \<Rightarrow> Some config)"

section \<open>The environment script\<close>

fun escape_quotes :: "string \<Rightarrow> string" where
  "escape_quotes [] = []"
| "escape_quotes (c # cs) =
     (if c = CHR 0x27 then [CHR 0x27, CHR 0x5C, CHR 0x27, CHR 0x27] @ escape_quotes cs
      else c # escape_quotes cs)"

definition split_env :: "string \<Rightarrow> string \<times> string" where
  "split_env e =
     (if CHR ''='' \<in> set e
      then (takeWhile (\<lambda>c. c \<noteq> CHR ''='') e, drop 1 (dropWhile (\<lambda>c. c \<noteq> CHR ''='') e))
      else (e, e))"

definition env_line :: "string \<Rightarrow> string" where
  "env_line e = (case split_env e of (name, val) \<Rightarrow>
     ''export '' @ name @ [CHR ''='', CHR 0x27] @ escape_quotes val @ [CHR 0x27])"

definition envSh_mount :: "string \<Rightarrow> mount" where
  "envSh_mount file = \<lparr>mnt_destination = ''/etc/profile.d/00env.sh'', mnt_options = [''ro'', ''rbind''],
     mnt_source = file, mnt_type = ''bind''\<rparr>"

text \<open>
  \<open>create\<close>: the configuration of the container and the lines of the script. \<open>value()\<close> on a missing
  environment throws in a \<open>noexcept\<close> function.
\<close>

definition ContainerBuilder_create ::
    "oci_env \<Rightarrow> (string \<Rightarrow> string) \<Rightarrow> container_options \<Rightarrow> (oci_config \<times> string list) result option" where
  "ContainerBuilder_create env absPath opts =
     (let trace = ''create container'' in
      case getBundleDir env of Inl e \<Rightarrow> Some (Inl (Err_wrap trace e)) | Inr bundle \<Rightarrow>
      case getOCIConfig env opts of
        None \<Rightarrow> None
      | Some (Inl e) \<Rightarrow> Some (Inl (Err_wrap trace e))
      | Some (Inr c) \<Rightarrow>
         (let envShFile = bundle @ ''/00env.sh'' in
          if \<not> env_openEnvSh env
          then Some (Inl (Err trace ''create 00env.sh failed in bundle directory'' (-1)))
          else case oci_env c of
            None \<Rightarrow> None
          | Some vars \<Rightarrow>
             (case fixMount env absPath (c\<lparr>oci_mounts := map_option (\<lambda>ms. ms @ [envSh_mount envShFile]) (oci_mounts c)\<rparr>) of
                None \<Rightarrow> None
              | Some c' \<Rightarrow> Some (Inr (c', map env_line vars)))))"

section \<open>Lemmas\<close>

declare chop_to_prefix.simps [simp del] chop_to_slash.simps [simp del] existing_elements.simps [simp del]

lemma remove_dups_spec:
  "distinct (map mnt_destination (remove_dups dups ms)) \<and> set (remove_dups dups ms) \<subseteq> set ms \<and>
   mnt_destination ` set (remove_dups dups ms) = mnt_destination ` set ms - dups"
  by (induction dups ms rule: remove_dups.induct) auto

lemma remove_dups_first:
  "mnt_destination m \<notin> dups \<Longrightarrow> mnt_destination m \<notin> mnt_destination ` set as \<Longrightarrow>
     m \<in> set (remove_dups dups (as @ m # bs))"
  by (induction as arbitrary: dups) auto

lemma dedup_mounts_spec:
  "distinct (map mnt_destination (dedup_mounts ms))" "set (dedup_mounts ms) \<subseteq> set ms"
  "mnt_destination ` set (dedup_mounts ms) = mnt_destination ` set ms"
  using remove_dups_spec [of "{}" "rev ms"] by (auto simp: dedup_mounts_def rev_map [symmetric])

lemma dedup_mounts_last:
  "mnt_destination m \<notin> mnt_destination ` set bs \<Longrightarrow> m \<in> set (dedup_mounts (as @ m # bs))"
  using remove_dups_first [of m "{}" "rev bs" "rev as"] by (simp add: dedup_mounts_def)

lemma chop_to_prefix_prefix:
  "\<exists>k. chop_to_prefix p1 ret = take k ret \<and> starts_with p1 (chop_to_prefix p1 ret)"
proof (induction p1 ret rule: chop_to_prefix.induct)
  case (1 p1 ret)
  show ?case
  proof (cases "starts_with p1 ret")
    case True
    then show ?thesis by (subst (1 2) chop_to_prefix.simps) (auto intro: exI [of _ "length ret"])
  next
    case False
    then obtain k where "chop_to_prefix p1 ret = take k (butlast ret)" "starts_with p1 (chop_to_prefix p1 ret)"
      using 1 by (auto simp: chop_to_prefix.simps [of p1 ret])
    then show ?thesis by (auto simp: butlast_conv_take)
  qed
qed

lemma chop_to_prefix_keeps:
  assumes "starts_with p1 q" "starts_with ret q"
  shows "starts_with (chop_to_prefix p1 ret) q"
  using assms
proof (induction p1 ret rule: chop_to_prefix.induct)
  case (1 p1 ret)
  show ?case
  proof (cases "starts_with p1 ret")
    case True
    then show ?thesis using 1 by (simp add: chop_to_prefix.simps [of p1 ret])
  next
    case False
    obtain r where r: "ret = q @ r" using "1.prems"(2) by (auto simp: starts_with_iff)
    then have "r \<noteq> []" using False "1.prems"(1) by auto
    then have "starts_with (butlast ret) q" using r by (simp add: butlast_append)
    then show ?thesis using 1 False by (simp add: chop_to_prefix.simps [of p1 ret])
  qed
qed

lemma chop_to_slash_some: "CHR ''/'' \<in> set ret \<Longrightarrow> \<exists>r. chop_to_slash ret = Some r"
proof (induction ret rule: chop_to_slash.induct)
  case (1 ret)
  show ?case
  proof (cases "last ret = CHR ''/''")
    case True
    then show ?thesis using 1 by (subst chop_to_slash.simps) auto
  next
    case False
    have "ret \<noteq> []" using "1.prems" by auto
    then have "CHR ''/'' \<in> set (butlast ret)"
      using False "1.prems" by (metis append_butlast_last_id in_set_butlastD list.set_intros(1) rotate1.simps(2) set_ConsD set_rotate1)
    then show ?thesis using 1 False \<open>ret \<noteq> []\<close> by (subst chop_to_slash.simps) auto
  qed
qed

definition absolute :: "string \<Rightarrow> bool" where
  "absolute p = starts_with p ''/''"

lemma chop_to_slash_prefix: "chop_to_slash ret = Some r \<Longrightarrow> r \<noteq> [] \<and> (\<exists>k. r = take k ret)"
proof (induction ret rule: chop_to_slash.induct)
  case (1 ret)
  then show ?case
    by (subst (asm) (2) chop_to_slash.simps) (auto split: if_splits simp: butlast_conv_take intro: exI [of _ "length ret"])
qed

lemma commonParent_returns:
  assumes "absolute p1" "absolute p2" "\<forall>p. absolute p \<longrightarrow> absolute (clean p)"
  shows "\<exists>c. commonParent clean p1 p2 = Some c \<and> absolute c"
proof -
  let ?r = "chop_to_prefix p1 p2"
  have abs: "starts_with ?r ''/''" using chop_to_prefix_keeps assms(1,2) by (simp add: absolute_def)
  then have "CHR ''/'' \<in> set ?r" by (auto simp: starts_with_iff)
  then obtain r where r: "chop_to_slash ?r = Some r" using chop_to_slash_some by blast
  then obtain k where "r \<noteq> []" "r = take k ?r" using chop_to_slash_prefix by blast
  then have "absolute r" using abs by (cases k) (auto simp: absolute_def starts_with_iff)
  then show ?thesis using r abs assms(3) by (auto simp: commonParent_def Let_def)
qed

text \<open>The tmpfs list stays a list of absolute paths, so the search always returns.\<close>

lemma merge_tmpfs_returns:
  assumes "absolute e" "\<forall>p. absolute p \<longrightarrow> absolute (clean p)" "\<forall>p \<in> set ps. absolute p"
  shows "\<exists>n qs. merge_tmpfs clean root e ps = Some (n, qs) \<and> (\<forall>p \<in> set qs. absolute p)"
  using assms(3)
proof (induction ps)
  case (Cons p ps)
  then obtain n qs where IH: "merge_tmpfs clean root e ps = Some (n, qs)" "\<forall>p \<in> set qs. absolute p" by auto
  obtain c where c: "commonParent clean e p = Some c" "absolute c"
    using commonParent_returns [OF assms(1) _ assms(2)] Cons.prems by auto
  show ?case using IH c Cons.prems by auto
qed auto

lemma existing_elements_prefix:
  "(existing_elements ex elem = [] \<or> ex (join_with (CHR ''/'') (existing_elements ex elem))) \<and>
   (\<exists>k. existing_elements ex elem = take k elem)"
proof (induction ex elem rule: existing_elements.induct)
  case (1 ex elem)
  show ?case
  proof (cases "elem \<noteq> [] \<and> \<not> ex (join_with (CHR ''/'') elem)")
    case True
    then have "existing_elements ex elem = existing_elements ex (butlast elem)"
      by (subst existing_elements.simps) simp
    then show ?thesis using 1 [OF True] by (auto simp: butlast_conv_take)
  next
    case False
    then have "existing_elements ex elem = elem" by (subst existing_elements.simps) auto
    then show ?thesis using False by (auto intro: exI [of _ "length elem"])
  qed
qed

lemma existing_absolute:
  assumes "absolute p" "\<not> ex []" "es = existing_elements ex (split_on (CHR ''/'') p)" "es \<noteq> []"
  shows "absolute (join_with (CHR ''/'') es)"
proof -
  obtain q where q: "p = CHR ''/'' # q" using assms(1) by (auto simp: absolute_def starts_with_iff)
  obtain k where k: "es = take k ([] # split_on (CHR ''/'') q)"
    using existing_elements_prefix [of ex "split_on (CHR ''/'') p"] assms(3) q by auto
  have "ex (join_with (CHR ''/'') es)" using existing_elements_prefix [of ex] assms(3,4) by metis
  then have "es \<noteq> [[]]" using assms(2) by auto
  then obtain x xs where "es = [] # x # xs" using k assms(4) by (cases k; cases "take (k - 1) (split_on (CHR ''/'') q)") auto
  then show ?thesis by (simp add: absolute_def)
qed

lemma tmpfs_for_mount_returns:
  assumes "absolute root" "\<forall>p. absolute p \<longrightarrow> absolute (env_cleanPath env p)" "\<not> env_exists env []"
    and "\<forall>p \<in> set ps. absolute p"
  shows "\<exists>qs. tmpfs_for_mount env root rootAbs (Some ps) m = Some qs \<and> (\<forall>p \<in> set qs. absolute p)"
proof -
  define host where "host = env_cleanPath env (filePath root (tl (mnt_destination m)))"
  define es where "es = existing_elements (env_exists env) (split_on (CHR ''/'') host)"
  have host: "absolute host"
    using assms(1,2) by (auto simp: host_def filePath_def absolute_def starts_with_iff)
  have merged: "es \<noteq> [] \<Longrightarrow> \<exists>n qs. merge_tmpfs (env_cleanPath env) (env_cleanPath env rootAbs)
      (join_with (CHR ''/'') es) ps = Some (n, qs) \<and> (\<forall>p \<in> set qs. absolute p)"
    using merge_tmpfs_returns [OF existing_absolute [OF host assms(3) es_def] assms(2,4)] by blast
  show ?thesis
    using assms(4) merged existing_absolute [OF host assms(3) es_def]
    by (auto simp: tmpfs_for_mount_def Let_def host_def [symmetric] es_def [symmetric])
qed

lemma tmpfs_fold_returns:
  assumes "absolute root" "\<forall>p. absolute p \<longrightarrow> absolute (env_cleanPath env p)" "\<not> env_exists env []"
    and "\<forall>p \<in> set ps. absolute p"
  shows "\<exists>qs. foldl (tmpfs_for_mount env root rootAbs) (Some ps) ms = Some qs"
  using assms(4)
proof (induction ms arbitrary: ps)
  case (Cons m ms)
  then show ?case using tmpfs_for_mount_returns [OF assms(1,2,3) Cons.prems, of rootAbs m] by auto
qed simp

text \<open>
  How a POSIX shell reads a word made of single-quoted parts, escaped characters and plain ones.
\<close>

fun sh_word :: "bool \<Rightarrow> string \<Rightarrow> string option" where
  "sh_word q [] = (if q then None else Some [])"
| "sh_word True (c # cs) = (if c = CHR 0x27 then sh_word False cs else map_option (\<lambda>w. c # w) (sh_word True cs))"
| "sh_word False (c # cs) =
     (if c = CHR 0x27 then sh_word True cs
      else if c = CHR 0x5C
      then (case cs of [] \<Rightarrow> None | d # ds \<Rightarrow> map_option (\<lambda>w. d # w) (sh_word False ds))
      else map_option (\<lambda>w. c # w) (sh_word False cs))"

lemma sh_word_escape: "sh_word True (escape_quotes v @ [CHR 0x27]) = Some v"
  by (induction v) simp_all

section \<open>Properties\<close>

text \<open>
  C25: \<open>fixMount\<close> always returns on absolute paths, and the mounts it leaves have pairwise different
  destinations; every mount of the configuration that is the last one for its destination survives
  and takes precedence over what is bound from the root, and every entry of the original root is
  still a destination.
\<close>

theorem fixMount_spec:
  assumes "oci_mounts config = Some mounts" "oci_root config = Some root" "absolute (root_path root)"
    and "\<forall>p. absolute p \<longrightarrow> absolute (env_cleanPath env p)" and "\<not> env_exists env []"
  shows "\<exists>c ms. fixMount env absPath config = Some c \<and> oci_mounts c = Some ms \<and>
    oci_root c = Some \<lparr>root_path = ''rootfs'', root_readonly = False\<rparr> \<and>
    distinct (map mnt_destination ms) \<and>
    (\<forall>as m bs. mounts = as @ m # bs \<longrightarrow> mnt_destination m \<notin> mnt_destination ` set bs \<longrightarrow> m \<in> set ms) \<and>
    (\<forall>name symlink. (name, symlink) \<in> set (env_entries env (absPath (root_path root))) \<longrightarrow>
       ''/'' @ name \<in> mnt_destination ` set ms)"
proof -
  let ?abs = "absPath (root_path root)"
  obtain tmp where tmp: "foldl (tmpfs_for_mount env (root_path root) ?abs) (Some []) mounts = Some tmp"
    using tmpfs_fold_returns [OF assms(3,4,5), of "[]" ?abs mounts] by auto
  let ?pre = "root_binds env ?abs @ concat (map (tmpfs_mounts env ?abs) tmp)"
  let ?ms = "dedup_mounts (?pre @ mounts)"
  have "m \<in> set ?ms" if "mounts = as @ m # bs" "mnt_destination m \<notin> mnt_destination ` set bs" for as m bs
    using dedup_mounts_last [OF that(2), of "?pre @ as"] that(1) by simp
  moreover have "''/'' @ name \<in> mnt_destination ` set ?ms"
    if "(name, symlink) \<in> set (env_entries env ?abs)" for name symlink
    using that unfolding dedup_mounts_spec(3) by (force simp: root_binds_def bind_mount_def)
  ultimately show ?thesis
    using assms(1,2) tmp dedup_mounts_spec(1) [of "?pre @ mounts"]
    by (auto simp: fixMount_def Let_def)
qed

text \<open>
  The environment script is quoted correctly: for every variable, whatever characters its value
  has, the shell reads the quoted text as one word equal to the value.
\<close>

theorem env_line_quoting:
  assumes "CHR ''='' \<notin> set name"
  shows "\<exists>word. env_line (name @ ''='' @ val) = ''export '' @ name @ ''='' @ word \<and> sh_word False word = Some val"
proof -
  have "split_env (name @ ''='' @ val) = (name, val)"
    using assms by (induction name) (auto simp: split_env_def)
  then show ?thesis
    by (intro exI [of _ "CHR 0x27 # escape_quotes val @ [CHR 0x27]"]) (simp add: env_line_def sh_word_escape)
qed

theorem env_line_quoting_witness:
  "\<exists>word. env_line ''A=x;y'' = ''export A='' @ word \<and> sh_word False word = Some ''x;y''"
  using env_line_quoting [of "''A''" "''x;y''"] by simp

definition is_JObj :: "json \<Rightarrow> bool" where
  "is_JObj j = (case j of JObj _ \<Rightarrow> True | _ \<Rightarrow> False)"

text \<open>
  The mounts a user configures for an application are never applied. The patches built from them
  are arrays of arrays, and a JSON patch has to be an array of objects, so every one of them is
  rejected and the configuration stays as it was.
\<close>

theorem user_binds_ignored:
  assumes "\<forall>cfg ops. \<not> list_all is_JObj ops \<longrightarrow> env_jsonPatch env cfg (JArr ops) = None"
  shows "applyPatches env cfg (getPatchesForApplication env appID) = cfg"
proof -
  have "applyJSONPatch env c (bind_patch b) = c" for c b
    using assms by (simp add: applyJSONPatch_def bind_patch_def is_JObj_def)
  then have "foldl (applyJSONPatch env) cfg (map bind_patch bs) = cfg" for bs
    by (induction bs) simp_all
  then show ?thesis
    by (simp add: applyPatches_def getPatchesForApplication_def split: option.split sum.split)
qed

definition demo_oci :: oci_config where
  "demo_oci = \<lparr>oci_version = ''1.0.1'', oci_root = Some \<lparr>root_path = ''/base/files'', root_readonly = True\<rparr>,
     oci_annotations = None,
     oci_mounts = Some [\<lparr>mnt_destination = ''/usr'', mnt_options = [], mnt_source = ''/x'', mnt_type = ''bind''\<rparr>],
     oci_env = Some [], oci_maskedPaths = []\<rparr>"

definition demo_oci_env :: oci_env where
  "demo_oci_env = \<lparr>env_configVar = [], env_prefix = ''/usr'', env_exists = (\<lambda>p. p = ''/base/files''),
     env_loadConfig = (\<lambda>_. Inr demo_oci), env_loadPatch = (\<lambda>_. Inl (Err [] [] (-1))), env_configD = [],
     env_jsonPatch = (\<lambda>cfg p. case p of
        JArr ops \<Rightarrow> if list_all is_JObj ops then Some (cfg\<lparr>oci_mounts := None\<rparr>) else None | _ \<Rightarrow> None),
     env_generator = (\<lambda>_ _ _. TimedOut),
     env_userConfig = (\<lambda>_. Some (Inr (Some [\<lparr>bind_source = ''/data'', bind_destination = ''/data''\<rparr>]))),
     env_bundleDir = Inr ''/run'', env_openEnvSh = True, env_cleanPath = (\<lambda>p. p),
     env_entries = (\<lambda>p. if p = ''/base/files'' then [(''usr'', False), (''bin'', True)] else [])\<rparr>"

theorem user_binds_ignored_witness:
  "applyPatches demo_oci_env demo_oci (getPatchesForApplication demo_oci_env ''org.deepin.demo'') = demo_oci \<and>
   getPatchesForApplication demo_oci_env ''org.deepin.demo'' \<noteq> []"
proof -
  have "\<forall>cfg ops. \<not> list_all is_JObj ops \<longrightarrow> env_jsonPatch demo_oci_env cfg (JArr ops) = None"
    by (simp add: demo_oci_env_def)
  from user_binds_ignored [OF this] show ?thesis
    by (simp add: getPatchesForApplication_def demo_oci_env_def)
qed

theorem fixMount_spec_witness:
  "\<exists>c ms. fixMount demo_oci_env (\<lambda>p. p) demo_oci = Some c \<and> oci_mounts c = Some ms \<and>
     \<lparr>mnt_destination = ''/usr'', mnt_options = [], mnt_source = ''/x'', mnt_type = ''bind''\<rparr> \<in> set ms \<and>
     ''/bin'' \<in> mnt_destination ` set ms"
proof -
  let ?m = "\<lparr>mnt_destination = ''/usr'', mnt_options = [], mnt_source = ''/x'', mnt_type = ''bind''\<rparr>"
  let ?root = "\<lparr>root_path = ''/base/files'', root_readonly = True\<rparr>"
  have hyps: "oci_mounts demo_oci = Some [?m]" "oci_root demo_oci = Some ?root" "absolute (root_path ?root)"
    "\<forall>p. absolute p \<longrightarrow> absolute (env_cleanPath demo_oci_env p)" "\<not> env_exists demo_oci_env []"
    by (simp_all add: demo_oci_def demo_oci_env_def absolute_def)
  obtain c ms where c: "fixMount demo_oci_env (\<lambda>p. p) demo_oci = Some c" "oci_mounts c = Some ms"
    and last: "\<And>as m bs. [?m] = as @ m # bs \<Longrightarrow> mnt_destination m \<notin> mnt_destination ` set bs \<Longrightarrow> m \<in> set ms"
    and entries: "\<And>name symlink. (name, symlink) \<in> set (env_entries demo_oci_env (root_path ?root)) \<Longrightarrow>
       ''/'' @ name \<in> mnt_destination ` set ms"
    using fixMount_spec [OF hyps, of "\<lambda>p. p"] by blast
  have "?m \<in> set ms" by (rule last [of "[]" _ "[]"]) simp_all
  moreover have "''/'' @ ''bin'' \<in> mnt_destination ` set ms"
    by (rule entries [of _ True]) (simp add: demo_oci_env_def)
  ultimately show ?thesis using c by auto
qed

end
