(* ===== verification/Migrate.thy ===== *)
theory Migrate
  imports Prelude
begin

text \<open>
  Migration of repositories of older releases, \<open>libs/linglong/src/linglong/repo/migrate.cpp\<close>. Refs that have
  no remote name get one, and the layer directories, once named after the ref, are linked under the
  name of their commit. ostree and the file system are the fields of \<open>migrate_env\<close>; the iteration
  order of the hash tables is the order of the list of refs.
\<close>

section \<open>Versions\<close>

record mig_version =
  mv_major :: int
  mv_minor :: int
  mv_patch :: int

text \<open>The comparison is the disjunction of the comparisons of the parts.\<close>

definition mig_lt :: "mig_version \<Rightarrow> mig_version \<Rightarrow> bool" where
  "mig_lt lhs rhs =
     (mv_major lhs < mv_major rhs \<or> mv_minor lhs < mv_minor rhs \<or> mv_patch lhs < mv_patch rhs)"

definition is_space :: "char \<Rightarrow> bool" where
  "is_space c = (c \<in> {CHR '' '', CHR 0x09, CHR 0x0A, CHR 0x0B, CHR 0x0C, CHR 0x0D})"

text \<open>\<open>std::stoi\<close>: leading blanks, a sign, digits up to the first other character; \<open>None\<close> when it throws.\<close>

definition stoi :: "string \<Rightarrow> int option" where
  "stoi s =
     (let t = dropWhile is_space s;
          neg = (t \<noteq> [] \<and> hd t = CHR ''-'');
          u = (if t \<noteq> [] \<and> (hd t = CHR ''-'' \<or> hd t = CHR ''+'') then tl t else t);
          ds = takeWhile is_digit u
      in if ds = [] then None
         else let v = int (read_nat ds); w = (if neg then - v else v)
              in if - (2 ^ 31) \<le> w \<and> w < 2 ^ 31 then Some w else None)"

definition find_char :: "char \<Rightarrow> string \<Rightarrow> nat \<Rightarrow> nat option" where
  "find_char c s from =
     (let k = length (takeWhile (\<lambda>x. x \<noteq> c) (drop from s))
      in if from + k < length s then Some (from + k) else None)"

definition substr :: "string \<Rightarrow> nat \<Rightarrow> nat \<Rightarrow> string" where
  "substr s pos n = take n (drop pos s)"

definition parseVersion :: "string \<Rightarrow> mig_version option" where
  "parseVersion ver =
     (case find_char (CHR ''.'') ver 0 of None \<Rightarrow> None | Some p1 \<Rightarrow>
      case stoi (substr ver 0 p1) of None \<Rightarrow> None | Some a \<Rightarrow>
      case find_char (CHR ''.'') ver (p1 + 1) of None \<Rightarrow> None | Some p2 \<Rightarrow>
      case stoi (substr ver (p1 + 1) p2) of None \<Rightarrow> None | Some b \<Rightarrow>
      if find_char (CHR ''.'') ver (p2 + 1) \<noteq> None then None
      else case stoi (substr ver (p2 + 1) (length ver)) of None \<Rightarrow> None | Some c \<Rightarrow>
        Some \<lparr>mv_major = a, mv_minor = b, mv_patch = c\<rparr>)"

section \<open>Refs\<close>

datatype link_result = Linked | LinkExists | LinkFailed

text \<open>\<open>mg_exists\<close> is \<open>None\<close> when the status cannot be read.\<close>

record migrate_env =
  mg_listRefs :: "(string \<times> string) list option"
  mg_prepare :: bool
  mg_commit :: bool
  mg_exists :: "string \<Rightarrow> bool option"
  mg_link :: "string \<Rightarrow> string \<Rightarrow> link_result"

text \<open>
  The loop that drops refs which already exist under the name of the repository. \<open>append\<close> changes the
  prefix itself, so it grows with every ref.
\<close>

fun drop_migrated :: "string list \<Rightarrow> string \<Rightarrow> (string \<times> string) list \<Rightarrow> (string \<times> string) list" where
  "drop_migrated allRefs refPrefix [] = []"
| "drop_migrated allRefs refPrefix ((ref, cs) # rest) =
     (let tmpRef = refPrefix @ ref in
      if tmpRef \<in> set allRefs then drop_migrated allRefs tmpRef rest
      else (ref, cs) # drop_migrated allRefs tmpRef rest)"

definition last_slash :: "string \<Rightarrow> nat option" where
  "last_slash s =
     (if CHR ''/'' \<in> set s then Some (length s - 1 - length (takeWhile (\<lambda>c. c \<noteq> CHR ''/'') (rev s))) else None)"

text \<open>The directory a ref is linked to, if it is linked.\<close>

definition link_target :: "migrate_env \<Rightarrow> string \<Rightarrow> string \<Rightarrow> string option" where
  "link_target env layers ref =
     (case last_slash ref of
        None \<Rightarrow> None
      | Some k \<Rightarrow>
         (case mg_exists env (layers @ ''/'' @ ref) of
            Some True \<Rightarrow> Some ref
          | None \<Rightarrow> None
          | Some False \<Rightarrow>
             (if drop (k + 1) ref = ''runtime''
              then let fallback = take k ref @ ''/binary''
                   in if mg_exists env (layers @ ''/'' @ fallback) = Some True then Some fallback else None
              else None)))"

fun link_layers ::
    "migrate_env \<Rightarrow> string \<Rightarrow> (string \<times> string) list \<Rightarrow> bool \<times> (string \<times> string) list" where
  "link_layers env layers [] = (True, [])"
| "link_layers env layers ((ref, cs) # rest) =
     (case link_target env layers ref of
        None \<Rightarrow> link_layers env layers rest
      | Some realRef \<Rightarrow>
         (case mg_link env realRef (layers @ ''/'' @ cs) of
            LinkFailed \<Rightarrow> (False, [])
          | LinkExists \<Rightarrow> link_layers env layers rest
          | Linked \<Rightarrow> (case link_layers env layers rest of (ok, ls) \<Rightarrow> (ok, (cs, realRef) # ls))))"

text \<open>
  \<open>migrateRef\<close>: the result, the refs that were set (under the name of the repository) and the links
  that were made.
\<close>

definition migrateRef ::
    "migrate_env \<Rightarrow> string \<Rightarrow> string \<Rightarrow> int \<times> (string \<times> string) list \<times> (string \<times> string) list" where
  "migrateRef env root repoName =
     (case mg_listRefs env of
        None \<Rightarrow> (-1, [], [])
      | Some allRefs \<Rightarrow>
         (if allRefs = [] then (0, [], [])
          else let refPrefix = repoName @ '':'';
                   named = filter (\<lambda>(ref, _). starts_with ref refPrefix) allRefs;
                   needMigrate = drop_migrated (map fst named) refPrefix
                     (filter (\<lambda>(ref, _). \<not> starts_with ref refPrefix) allRefs)
               in if needMigrate = [] then (0, [], [])
                  else if \<not> mg_prepare env then (-1, [], [])
                  else if \<not> mg_commit env then (-1, [], [])
                  else let set_refs = map (\<lambda>(ref, cs). (refPrefix @ ref, cs)) needMigrate;
                           layers = root @ ''/layers''
                       in if mg_exists env layers \<noteq> Some True then (-1, set_refs, [])
                          else case link_layers env layers needMigrate of
                            (ok, links) \<Rightarrow> (if ok then 1 else -1, set_refs, links)))"

section \<open>Dispatch\<close>

definition mig_INT_MAX :: int where
  "mig_INT_MAX = 2 ^ 31 - 1"

definition version_1_7_0 :: mig_version where
  "version_1_7_0 = \<lparr>mv_major = 1, mv_minor = 7, mv_patch = 0\<rparr>"

definition dispatchMigrations ::
    "migrate_env \<Rightarrow> bool \<Rightarrow> mig_version \<Rightarrow> string \<Rightarrow> string \<Rightarrow>
     int \<times> (string \<times> string) list \<times> (string \<times> string) list" where
  "dispatchMigrations env opened from root defaultRepo =
     (if mg_exists env (root @ ''/repo'') \<noteq> Some True then (0, [], [])
      else if \<not> opened then (-1, [], [])
      else if mig_lt from version_1_7_0 then migrateRef env root defaultRepo
      else (mig_INT_MAX, [], []))"

datatype migrate_result = MigrateSuccess | MigrateFailed | MigrateNoChange

text \<open>
  \<open>tryMigrate\<close>. \<open>tag\<close> is the content of the version file: \<open>None\<close> when there is none, \<open>Some None\<close> when it
  cannot be opened. The new content of the file is the last component.
\<close>

definition tryMigrate ::
    "migrate_env \<Rightarrow> bool \<Rightarrow> string \<Rightarrow> string option option \<Rightarrow> bool \<Rightarrow> string \<Rightarrow> string \<Rightarrow>
     migrate_result \<times> string option" where
  "tryMigrate env opened llVersion tag canWrite root defaultRepo =
     (case mg_exists env root of
        None \<Rightarrow> (MigrateFailed, None)
      | Some False \<Rightarrow> (MigrateNoChange, None)
      | Some True \<Rightarrow>
         (case tag of
            Some None \<Rightarrow> (MigrateFailed, None)
          | _ \<Rightarrow>
             (let repoVer = (case tag of None \<Rightarrow> ''1.5.0'' | Some None \<Rightarrow> [] | Some (Some v) \<Rightarrow> v) in
              if repoVer = llVersion then (MigrateNoChange, None)
              else case parseVersion repoVer of
                None \<Rightarrow> (MigrateFailed, None)
              | Some from \<Rightarrow>
                 (let ret = fst (dispatchMigrations env opened from root defaultRepo) in
                  if ret = -1 then (MigrateFailed, None)
                  else if \<not> canWrite then (MigrateFailed, None)
                  else (if ret = 0 then MigrateNoChange else MigrateSuccess, Some llVersion)))))"

section \<open>Lemmas\<close>

lemma parseVersion_examples:
  "parseVersion ''1.7.0'' = Some version_1_7_0" "parseVersion ''1.7'' = None" "parseVersion ''1.7.0.1'' = None"
  by code_simp+

lemma drop_migrated_subset: "set (drop_migrated allRefs pre rs) \<subseteq> set rs"
  by (induction allRefs pre rs rule: drop_migrated.induct) (auto simp: Let_def)

text \<open>A ref that is dropped hides behind a name that starts with the prefix and ends with the ref.\<close>

lemma drop_migrated_dropped:
  "(ref, cs) \<in> set rs \<Longrightarrow> (ref, cs) \<notin> set (drop_migrated allRefs pre rs) \<Longrightarrow>
     \<exists>mid. pre @ mid @ ref \<in> set allRefs"
proof (induction allRefs pre rs rule: drop_migrated.induct)
  case (2 allRefs pre r s rest)
  show ?case
  proof (cases "(ref, cs) = (r, s)")
    case True
    then show ?thesis using "2.prems"(2) by (auto simp: Let_def split: if_splits intro: exI [of _ "[]"])
  next
    case False
    then obtain mid where "(pre @ r) @ mid @ ref \<in> set allRefs"
      using 2 by (auto simp: Let_def split: if_splits)
    then show ?thesis by (auto intro: exI [of _ "r @ mid"])
  qed
qed simp

text \<open>
  With two refs that were both migrated before, the second one is set again, to the commit of the old
  ref, because the prefix has grown by then.
\<close>

lemma migrateRef_overwrites:
  "fst (snd (migrateRef
     \<lparr>mg_listRefs = Some [(''stable:main/a/1/x86_64/binary'', ''c1''), (''stable:main/b/1/x86_64/binary'', ''new''),
        (''main/a/1/x86_64/binary'', ''c1''), (''main/b/1/x86_64/binary'', ''old'')],
      mg_prepare = True, mg_commit = True, mg_exists = (\<lambda>_. Some True), mg_link = (\<lambda>_ _. LinkExists)\<rparr>
     ''/r'' ''stable'')) = [(''stable:main/b/1/x86_64/binary'', ''old'')]"
  by code_simp

lemma link_target_exists:
  "link_target env layers ref = Some t \<Longrightarrow> mg_exists env (layers @ ''/'' @ t) = Some True"
  by (auto simp: link_target_def Let_def split: option.splits bool.splits if_splits)

lemma link_layers_sound:
  "link_layers env layers rs = (ok, links) \<Longrightarrow> (cs, t) \<in> set links \<Longrightarrow>
     mg_exists env (layers @ ''/'' @ t) = Some True \<and> cs \<in> snd ` set rs"
proof (induction rs arbitrary: ok links)
  case (Cons r rs)
  then show ?case
    by (cases r) (fastforce split: option.splits link_result.splits prod.splits dest: link_target_exists)
qed simp

section \<open>Properties\<close>

text \<open>
  When the migration of the refs succeeds, every ref of the repository already belongs to the
  remote, or has been set under the name of the remote with its old commit, or was left out because
  the repository has a ref of the remote that ends with its name. Refs are set and directories linked
  only for commits that the repository had without a remote, and every link points to a layer
  directory that exists.
\<close>

theorem migrateRef_spec:
  assumes "mg_listRefs env = Some allRefs"
    and "migrateRef env root repoName = (1, set_refs, links)"
  shows "(\<forall>(ref, cs) \<in> set allRefs. starts_with ref (repoName @ '':'') \<or> (repoName @ '':'' @ ref, cs) \<in> set set_refs \<or>
            (\<exists>mid. repoName @ '':'' @ mid @ ref \<in> fst ` set allRefs)) \<and>
         (\<forall>(name, cs) \<in> set set_refs. \<exists>ref. name = repoName @ '':'' @ ref \<and> (ref, cs) \<in> set allRefs \<and>
            \<not> starts_with ref (repoName @ '':'')) \<and>
         (\<forall>(cs, target) \<in> set links. mg_exists env (root @ ''/layers/'' @ target) = Some True \<and>
            cs \<in> snd ` set allRefs)"
proof -
  let ?pre = "repoName @ '':''"
  let ?old = "filter (\<lambda>(ref, _). \<not> starts_with ref ?pre) allRefs"
  let ?named = "map fst (filter (\<lambda>(ref, _). starts_with ref ?pre) allRefs)"
  let ?need = "drop_migrated ?named ?pre ?old"
  have sr: "set_refs = map (\<lambda>(ref, cs). (?pre @ ref, cs)) ?need"
    and ll: "link_layers env (root @ ''/layers'') ?need = (True, links)"
    using assms by (auto simp: migrateRef_def Let_def split: if_splits prod.splits)
  have sub: "set ?need \<subseteq> set ?old"
    by (rule drop_migrated_subset)
  have kept: "starts_with ref ?pre \<or> (?pre @ ref, cs) \<in> set set_refs \<or>
      (\<exists>mid. ?pre @ mid @ ref \<in> fst ` set allRefs)" if "(ref, cs) \<in> set allRefs" for ref cs
  proof (cases "starts_with ref ?pre \<or> (ref, cs) \<in> set ?need")
    case True
    then show ?thesis by (force simp: sr)
  next
    case False
    then have "(ref, cs) \<in> set ?old" and "(ref, cs) \<notin> set ?need" using that by simp_all
    from drop_migrated_dropped [OF this] obtain mid where "?pre @ mid @ ref \<in> set ?named" ..
    then have "?pre @ mid @ ref \<in> fst ` set allRefs" by (simp only: set_map set_filter) blast
    then show ?thesis by blast
  qed
  have made: "\<exists>ref. name = ?pre @ ref \<and> (ref, cs) \<in> set allRefs \<and> \<not> starts_with ref ?pre"
    if "(name, cs) \<in> set set_refs" for name cs
    using that sub by (auto simp: sr)
  have linked: "mg_exists env (root @ ''/layers/'' @ t) = Some True \<and> cs \<in> snd ` set allRefs"
    if "(cs, t) \<in> set links" for cs t
    using link_layers_sound [OF ll that] sub by force
  show ?thesis using kept made linked by auto
qed

theorem migrateRef_spec_witness:
  "mg_exists \<lparr>mg_listRefs = Some [(''main/a/1/x86_64/runtime'', ''c1'')], mg_prepare = True, mg_commit = True,
      mg_exists = (\<lambda>p. Some (p \<noteq> ''/r/layers/main/a/1/x86_64/runtime'')), mg_link = (\<lambda>_ _. Linked)\<rparr>
     (''/r'' @ ''/layers/'' @ ''main/a/1/x86_64/binary'') = Some True"
proof -
  let ?env = "\<lparr>mg_listRefs = Some [(''main/a/1/x86_64/runtime'', ''c1'')], mg_prepare = True, mg_commit = True,
      mg_exists = (\<lambda>p. Some (p \<noteq> ''/r/layers/main/a/1/x86_64/runtime'')), mg_link = (\<lambda>_ _. Linked)\<rparr>"
  have "migrateRef ?env ''/r'' ''stable'' =
      (1, [(''stable:main/a/1/x86_64/runtime'', ''c1'')], [(''c1'', ''main/a/1/x86_64/binary'')])"
    by code_simp
  from migrateRef_spec [OF _ this] show ?thesis by simp
qed

text \<open>
  The comparison that decides about the migration is not an order: 2.0.0 counts as older than
  1.7.0 and 1.7.0 as older than 2.0.0, so the refs of a repository of a release after 1.7.0 with a
  smaller minor or patch number are migrated as if it were older. It is right for releases with the
  major number 1 and the patch number 0.
\<close>

theorem migrate_version_order:
  "mig_lt \<lparr>mv_major = 2, mv_minor = 0, mv_patch = 0\<rparr> version_1_7_0 \<and>
   mig_lt version_1_7_0 \<lparr>mv_major = 2, mv_minor = 0, mv_patch = 0\<rparr> \<and>
   dispatchMigrations env True \<lparr>mv_major = 2, mv_minor = 0, mv_patch = 0\<rparr> root repo =
     (if mg_exists env (root @ ''/repo'') = Some True then migrateRef env root repo else (0, [], [])) \<and>
   mig_lt \<lparr>mv_major = 1, mv_minor = k, mv_patch = 0\<rparr> version_1_7_0 = (k < 7)"
  by (simp add: mig_lt_def version_1_7_0_def dispatchMigrations_def)

end
