(* ===== verification/Repo_Update.thy ===== *)
theory Repo_Update
  imports Ostree_Repo Package_Task
begin

text \<open>
  How layers get into the local repository, \<open>libs/linglong/src/linglong/repo/ostree_repo.cpp\<close>: committing
  and importing a directory, pulling from the remote with its progress reports, preparing the
  directory of a layer, and the configuration of the repository. Outcomes of ostree and of the file
  system are fields of the environment records; a pair is a \<open>GError\<close> (code and message).
\<close>

type_synonym gerror = "int \<times> string"

section \<open>Progress of a pull\<close>

text \<open>What ostree reports, and the data kept between two reports. Progress is a rational number.\<close>

record pull_report =
  pr_outstanding_writes :: nat
  pr_fetched :: nat
  pr_requested :: nat
  pr_caught_error :: bool
  pr_bytes_transferred :: nat
  pr_total_delta_parts :: nat
  pr_fetched_delta_part_size :: nat
  pr_total_delta_part_size :: nat
  pr_outstanding_metadata_fetches :: nat
  pr_metadata_fetched :: nat
  pr_status :: string

record pull_data =
  pd_caught_error :: bool
  pd_last_was_metadata :: bool
  pd_status :: string
  pd_progress :: rat
  pd_last_total :: rat

definition pull_data_new :: pull_data where
  "pull_data_new = \<lparr>pd_caught_error = False, pd_last_was_metadata = False,
     pd_status = ''Beginning to pull data'', pd_progress = 0, pd_last_total = 0\<rparr>"

text \<open>
  The part of \<open>progress_changed\<close> before its scope guard runs: the new value and the total. The
  subtraction of the delta sizes is one of unsigned numbers.
\<close>

definition pull_total :: "pull_report \<Rightarrow> rat" where
  "pull_total p =
     (if 0 < pr_total_delta_parts p
      then of_int ((int (pr_total_delta_part_size p) - int (pr_fetched_delta_part_size p)) mod 2 ^ 64)
      else (if 0 < pr_fetched p then of_nat (pr_bytes_transferred p) / of_nat (pr_fetched p) else 1)
             * of_nat (pr_requested p))"

definition in_metadata :: "pull_report \<Rightarrow> pull_data \<Rightarrow> bool" where
  "in_metadata p d \<longleftrightarrow>
     pr_total_delta_parts p = 0 \<and> (0 < pr_outstanding_metadata_fetches p \<or> pd_last_was_metadata d) \<and>
     pr_metadata_fetched p < 20"

definition pull_progress :: "pull_report \<Rightarrow> pull_data \<Rightarrow> rat \<times> rat \<times> pull_data" where
  "pull_progress p d =
     (if pr_requested p = 0 then (0, 0, d)
      else if pr_status p \<noteq> [] then (100, 0, d)
      else let tot = (if in_metadata p d then 0 else pull_total p);
               d' = d\<lparr>pd_last_was_metadata := in_metadata p d \<and> 0 < pr_outstanding_metadata_fetches p,
                      pd_status := (if in_metadata p d then ''Downloading metadata''
                                    else if 0 < pr_total_delta_parts p then ''Downloading delta part''
                                    else ''Downloading files'')\<rparr>;
               p1 = (if 0 < tot then 5 + of_nat (pr_bytes_transferred p) / tot * 92 else 97);
               p2 = p1 + (if 0 < pr_outstanding_writes p then 3 / of_nat (pr_outstanding_writes p) else 3)
           in (p2, tot, d'))"

definition progress_changed :: "pull_report \<Rightarrow> pull_data \<times> package_task \<Rightarrow> pull_data \<times> package_task" where
  "progress_changed p s =
     (case s of (d, t) \<Rightarrow>
        if pd_caught_error d then s
        else let d1 = d\<lparr>pd_caught_error := pr_caught_error p\<rparr> in
          case pull_progress p d1 of (np, tot, d2) \<Rightarrow>
            if pd_caught_error d2
            then (d2, reportError (Err ''update progress status''
                        ''Caught error during pulling data, waiting for outstanding task'' (-1)) t)
            else let q = min 100 (max np (pd_progress d2)) in
              (d2\<lparr>pd_last_total := tot, pd_progress := q\<rparr>,
               updateTask (of_int \<lfloor>q\<rfloor>) 100 (pd_status d2) t))"

text \<open>While ostree works, the task sees progress reports and requests to cancel it.\<close>

datatype pull_event = Report pull_report | CancelRequest

fun on_pull_event :: "pull_data \<times> package_task \<Rightarrow> pull_event \<Rightarrow> pull_data \<times> package_task" where
  "on_pull_event s (Report p) = progress_changed p s"
| "on_pull_event (d, t) CancelRequest = (d, Cancel t)"

section \<open>The directory of a layer\<close>

record dir_env =
  de_isSymlink :: bool
  de_linkError :: "string option"
  de_readLink :: "string + string"
  de_removeLink :: "string option"
  de_targetExists :: "string \<Rightarrow> bool"
  de_removeTarget :: "string option"
  de_create :: "string option"

text \<open>
  \<open>create_directories\<close> returns false without an error when the directory exists already, which the
  code takes for a failure.
\<close>

definition create_layer_dir :: "dir_env \<Rightarrow> string \<Rightarrow> string \<Rightarrow> ostree_repo \<Rightarrow> string result \<times> ostree_repo" where
  "create_layer_dir de trace d r =
     (if d \<in> set (or_layerDirs r)
      then (Inl (Err trace (''failed to create layer dir '' @ d @ '': Success'') (-1)), r)
      else case de_create de of
        Some e \<Rightarrow> (Inl (Err trace (''failed to create layer dir '' @ d @ '': '' @ e) (-1)), r)
      | None \<Rightarrow> (Inr d, r\<lparr>or_layerDirs := d # or_layerDirs r\<rparr>))"

definition ensureEmptyLayerDir :: "dir_env \<Rightarrow> string \<Rightarrow> ostree_repo \<Rightarrow> string result \<times> ostree_repo" where
  "ensureEmptyLayerDir de cmt r =
     (let trace = ''ensure empty layer dir exist '' @ cmt; d = or_repoDir r @ ''/layers/'' @ cmt in
      if de_isSymlink de
      then (case de_readLink de of
              Inl e \<Rightarrow> (Inl (Err trace (''failed to resolve symlink '' @ d @ '': '' @ e) (-1)), r)
            | Inr target \<Rightarrow>
               (case de_removeLink de of
                  Some e \<Rightarrow> (Inl (Err trace (''failed to remove symlink '' @ d @ '': '' @ e) (-1)), r)
                | None \<Rightarrow>
                   (let r1 = r\<lparr>or_layerDirs := removeAll d (or_layerDirs r)\<rparr> in
                    if de_targetExists de target \<and> de_removeTarget de \<noteq> None
                    then (Inl (Err trace (''failed to remove layer dir '' @ target @ '': ''
                                 @ (case de_removeTarget de of None \<Rightarrow> [] | Some e \<Rightarrow> e)) (-1)), r1)
                    else create_layer_dir de trace d r1)))
      else case de_linkError de of
        Some e \<Rightarrow> (Inl (Err trace (''check '' @ d @ '' is symlink failed: '' @ e) (-1)), r)
      | None \<Rightarrow> create_layer_dir de trace d r)"

section \<open>Importing a directory\<close>

record commit_env =
  co_prepare :: "gerror option"
  co_modifier :: bool
  co_writeDir :: "string \<Rightarrow> gerror option"
  co_mtree :: "gerror option"
  co_commit :: "string list \<Rightarrow> gerror + string"
  co_transaction :: "gerror option"

definition commitDirToRepo :: "commit_env \<Rightarrow> string list \<Rightarrow> string \<Rightarrow> ostree_repo \<Rightarrow> string result \<times> ostree_repo" where
  "commitDirToRepo co dirs refspec r =
     (let trace = ''commit to ostree linglong repo'' in
      case co_prepare co of Some e \<Rightarrow> (Inl (Err_gerror trace ''ostree_repo_prepare_transaction'' e), r) | None \<Rightarrow>
      if \<not> co_modifier co
      then (Inl (Err trace ''ostree_repo_commit_modifier_new return a nullptr'' (-1)), r)
      else case List.map_filter (co_writeDir co) dirs of
        e # _ \<Rightarrow> (Inl (Err_gerror trace ''ostree_repo_write_directory_to_mtree'' e), r)
      | [] \<Rightarrow>
     (case co_mtree co of Some e \<Rightarrow> (Inl (Err_gerror trace ''ostree_repo_write_mtree'' e), r) | None \<Rightarrow>
      case co_commit co dirs of Inl e \<Rightarrow> (Inl (Err_gerror trace ''ostree_repo_write_commit'' e), r) | Inr cmt \<Rightarrow>
      case co_transaction co of Some e \<Rightarrow> (Inl (Err_gerror trace ''ostree_repo_commit_transaction'' e), r) | None \<Rightarrow>
        (Inr cmt, r\<lparr>or_refs := (or_refs r)(''local:'' @ refspec \<mapsto> cmt)\<rparr>)))"

text \<open>\<open>dir\<close> is the path, \<open>exists\<close> whether it exists and \<open>info\<close> what \<open>LayerDir::info\<close> reads there.\<close>

definition importLayerDir ::
    "commit_env \<Rightarrow> dir_env \<Rightarrow> ostree_env \<Rightarrow> cache_env \<Rightarrow> (repository_cache \<Rightarrow> string) \<Rightarrow>
     (layers_item list \<Rightarrow> layers_item list) \<Rightarrow> string \<Rightarrow> bool \<Rightarrow> package_info_v2 result \<Rightarrow> string list \<Rightarrow>
     string option \<Rightarrow> ostree_repo \<Rightarrow> string result \<times> ostree_repo" where
  "importLayerDir co de oe env dump std_sort dir exists info overlays subRef r =
     (let trace = ''import layer dir'' in
      if \<not> exists then (Inl (Err trace (''layer directory '' @ dir @ '' not exists'') (-1)), r)
      else case info of Inl e \<Rightarrow> (Inl (Err_wrap trace e), r) | Inr i \<Rightarrow>
      case Reference_fromPackageInfo i of Inl e \<Rightarrow> (Inl (Err_wrap trace e), r) | Inr reference \<Rightarrow>
      if is_ok (getLayerDir_ref std_sort r reference (info_module i) subRef)
      then (Inl (Err trace (Reference_toString reference @ '' exists.'') 0), r)
      else case commitDirToRepo co (dir # overlays)
                  (ostreeSpecFromReferenceV2 reference None (info_module i) subRef) r of
        (Inl e, r1) \<Rightarrow> (Inl (Err_wrap trace e), r1)
      | (Inr commitID, r1) \<Rightarrow>
         (let item = \<lparr>item_commit = commitID, item_deleted = None, item_info = i, item_repo = ''local''\<rparr> in
          case ensureEmptyLayerDir de commitID r1 of
            (Inl e, r2) \<Rightarrow> (Inl (Err_wrap trace e), r2)
          | (Inr layerDir, r2) \<Rightarrow>
             (case handleRepositoryUpdate oe env dump layerDir item r2 of
                (Inl e, r3) \<Rightarrow> (Inl (Err_wrap trace e), r3)
              | (Inr _, r3) \<Rightarrow> (Inr layerDir, r3))))"

section \<open>Pulling from the remote\<close>

fun strstr :: "string \<Rightarrow> string \<Rightarrow> bool" where
  "strstr [] n = (n = [])"
| "strstr (c # s) n = (starts_with (c # s) n \<or> strstr s n)"

text \<open>
  \<open>pu_pull\<close> is what ostree does for a ref: what the task sees meanwhile, and an error or the commit the
  ref of the remote has. \<open>pu_read\<close> resolves a ref that is given without a remote.
\<close>

record 'file pull_env =
  pu_pull :: "string \<Rightarrow> pull_event list \<times> (gerror + string)"
  pu_read :: "(string \<rightharpoonup> string) \<Rightarrow> string \<Rightarrow> gerror + (string \<times> 'file)"
  pu_info :: "'file \<Rightarrow> package_info_v2 result"

definition pull_ref ::
    "'file pull_env \<Rightarrow> string \<Rightarrow> string \<Rightarrow> pull_data \<times> package_task \<times> ostree_repo \<Rightarrow>
     gerror option \<times> pull_data \<times> package_task \<times> ostree_repo" where
  "pull_ref pu defaultRepo refString s =
     (case s of (d, t, r) \<Rightarrow> case pu_pull pu refString of (evs, out) \<Rightarrow>
      case foldl on_pull_event (d, t) evs of (d', t') \<Rightarrow>
      case out of
        Inl e \<Rightarrow> (Some e, d', t', r)
      | Inr cmt \<Rightarrow> (None, d', t', r\<lparr>or_refs := (or_refs r)(defaultRepo @ '':'' @ refString \<mapsto> cmt)\<rparr>))"

text \<open>After the ref has been pulled: read the commit, and check it out into a new layer directory.\<close>

definition pull_checkout ::
    "'file pull_env \<Rightarrow> dir_env \<Rightarrow> ostree_env \<Rightarrow> cache_env \<Rightarrow> (repository_cache \<Rightarrow> string) \<Rightarrow> string \<Rightarrow> string \<Rightarrow>
     string \<Rightarrow> package_task \<times> ostree_repo \<Rightarrow> package_task \<times> ostree_repo" where
  "pull_checkout pu de oe env dump defaultRepo trace refString s =
     (case s of (t, r) \<Rightarrow>
      case pu_read pu (or_refs r) refString of
        Inl e \<Rightarrow> (reportError (Err_gerror trace ''ostree_repo_read_commit'' e) t, r)
      | Inr (cmt, rootFile) \<Rightarrow>
     (case pu_info pu rootFile of
        Inl e \<Rightarrow> (reportError (Err_wrap trace e) t, r)
      | Inr i \<Rightarrow>
         (let item = \<lparr>item_commit = cmt, item_deleted = None, item_info = i, item_repo = defaultRepo\<rparr> in
          case ensureEmptyLayerDir de cmt r of
            (Inl e, r1) \<Rightarrow> (reportError (Err_wrap trace e) t, r1)
          | (Inr layerDir, r1) \<Rightarrow>
             (case handleRepositoryUpdate oe env dump layerDir item r1 of
                (Inl e, r2) \<Rightarrow> (reportError (Err_wrap trace e) t, r2)
              | (Inr _, r2) \<Rightarrow> (t, r2)))))"

definition OSTreeRepo_pull ::
    "'file pull_env \<Rightarrow> dir_env \<Rightarrow> ostree_env \<Rightarrow> cache_env \<Rightarrow> (repository_cache \<Rightarrow> string) \<Rightarrow> string \<Rightarrow>
     reference \<Rightarrow> string \<Rightarrow> package_task \<times> ostree_repo \<Rightarrow> package_task \<times> ostree_repo" where
  "OSTreeRepo_pull pu de oe env dump defaultRepo reference moduleName s =
     (case s of (t0, r0) \<Rightarrow>
      let refString = ostreeSpecFromReferenceV2 reference None moduleName None;
          trace = ''pull '' @ refString;
          checkout = pull_checkout pu de oe env dump defaultRepo trace in
      case pull_ref pu defaultRepo refString (pull_data_new, t0, r0) of
        (None, _, t1, r1) \<Rightarrow> checkout refString (t1, r1)
      | (Some e, d1, t1, r1) \<Rightarrow>
         (if \<not> strstr (snd e) ''No such branch''
          then (reportError (Err_gerror trace ''ostree_repo_pull'' e) t1, r1)
          else if moduleName = ''binary'' \<or> moduleName = ''runtime''
          then let old = ostreeSpecFromReference reference None moduleName in
            case pull_ref pu defaultRepo old (d1, t1, r1) of
              (Some e', _, t2, r2) \<Rightarrow> (reportError (Err_gerror trace ''ostree_repo_pull'' e') t2, r2)
            | (None, _, t2, r2) \<Rightarrow> checkout old (t2, r2)
          else checkout refString (t1, r1)))"

section \<open>Configuration\<close>

text \<open>
  What the configuration touches: the value in memory, the file \<open>config.yaml\<close>, the remotes of the
  ostree repository with their addresses, the server of the client factory, and the cache.
\<close>

record config_state =
  cf_cfg :: repo_config
  cf_file :: "repo_config option"
  cf_remotes :: "string \<rightharpoonup> string"
  cf_server :: string
  cf_cache :: repo_cache

record config_env =
  cv_open :: bool
  cv_yaml :: "string option"
  cv_delete :: "gerror option"
  cv_add :: "gerror option"
  cv_write :: "gerror option"

text \<open>
  Loading and saving the file. \<open>cf_file\<close> is \<open>None\<close> for a file without a readable configuration;
  \<open>LoadYAML\<close> is the parameter \<open>yaml\<close>, and its result is used without a look at its state (\<open>None\<close>).
\<close>

definition loadConfig :: "(string \<Rightarrow> repo_config result) \<Rightarrow> (string \<Rightarrow> string option) \<Rightarrow> string \<Rightarrow> repo_config result option" where
  "loadConfig yaml open_file file =
     (let trace = ''load repo config from '' @ file in
      case open_file file of None \<Rightarrow> Some (Inl (Err trace ''open failed'' (-1))) | Some text \<Rightarrow>
      case yaml text of Inl _ \<Rightarrow> None | Inr config \<Rightarrow>
        if cfg_version config \<noteq> 1
        then Some (Inl (Err trace (''wrong configuration file version '' @ show_int (cfg_version config)) (-1)))
        else if map_of (cfg_repos config) (cfg_defaultRepo config) = None
        then Some (Inl (Err trace ''default repo not found in repos'' (-1)))
        else Some (Inr config))"

fun load_first ::
    "(string \<Rightarrow> repo_config result) \<Rightarrow> (string \<Rightarrow> string option) \<Rightarrow> string list \<Rightarrow> repo_config option option" where
  "load_first yaml open_file [] = Some None"
| "load_first yaml open_file (file # files) =
     (case loadConfig yaml open_file file of
        None \<Rightarrow> None
      | Some (Inl _) \<Rightarrow> load_first yaml open_file files
      | Some (Inr config) \<Rightarrow> Some (Some config))"

definition loadConfig_files ::
    "(string \<Rightarrow> repo_config result) \<Rightarrow> (string \<Rightarrow> string option) \<Rightarrow> string list \<Rightarrow> repo_config result option" where
  "loadConfig_files yaml open_file files =
     (case load_first yaml open_file files of
        None \<Rightarrow> None
      | Some None \<Rightarrow> Some (Inl (Err (''load repo config from '' @ join_with (CHR '' '') files) ''all failed'' (-1)))
      | Some (Some config) \<Rightarrow> Some (Inr config))"

definition saveConfig :: "config_env \<Rightarrow> repo_config \<Rightarrow> config_state \<Rightarrow> unit result \<times> config_state" where
  "saveConfig cv cfg s =
     (let trace = ''save config to config.yaml'' in
      if map_of (cfg_repos cfg) (cfg_defaultRepo cfg) = None
      then (Inl (Err trace ''default repo not found in repos'' (-1)), s)
      else if \<not> cv_open cv then (Inl (Err trace ''open failed'' (-1)), s)
      else case cv_yaml cv of
        Some what \<Rightarrow> (Inl (Err trace what (-1)), s\<lparr>cf_file := None\<rparr>)
      | None \<Rightarrow> (Inr (), s\<lparr>cf_file := Some cfg\<rparr>))"

definition updateOstreeRepoConfig ::
    "config_env \<Rightarrow> string \<Rightarrow> string \<Rightarrow> config_state \<Rightarrow> unit result \<times> config_state" where
  "updateOstreeRepoConfig cv remoteName url s =
     (let trace = ''update configuration'' in
      case cv_delete cv of Some e \<Rightarrow> (Inl (Err_gerror trace ''ostree_repo_remote_change'' e), s) | None \<Rightarrow>
      let s1 = s\<lparr>cf_remotes := (cf_remotes s)(remoteName := None)\<rparr> in
      case cv_add cv of Some e \<Rightarrow> (Inl (Err_gerror trace ''ostree_repo_remote_change'' e), s1) | None \<Rightarrow>
      let s2 = s1\<lparr>cf_remotes := (cf_remotes s1)(remoteName \<mapsto> url @ ''/repos/'' @ remoteName)\<rparr> in
      case cv_write cv of Some e \<Rightarrow> (Inl (Err_gerror trace ''ostree_repo_write_config'' e), s2) | None \<Rightarrow>
        (Inr (), s2))"

text \<open>
  \<open>repos.at\<close> throws when the default repository is not in the map, which ends the process since the
  function is \<open>noexcept\<close>: the result \<open>None\<close>. \<open>cv\<close> holds the outcomes of the calls, \<open>rb\<close> those of the
  rollbacks.
\<close>

definition setConfig ::
    "config_env \<Rightarrow> config_env \<Rightarrow> cache_env \<Rightarrow> (repository_cache \<Rightarrow> string) \<Rightarrow> 'file ostree_view \<Rightarrow>
     repo_config \<Rightarrow> config_state \<Rightarrow> (unit result \<times> config_state) option" where
  "setConfig cv rb env dump os cfg s =
     (let trace = ''set config'';
          restoreFile = (\<lambda>_ st. snd (saveConfig rb (cf_cfg s) st)) in
      case saveConfig cv cfg s of
        (Inl e, s1) \<Rightarrow> Some (Inl (Err_wrap trace e), s1)
      | (Inr _, s1) \<Rightarrow>
         (let tx1 = addRollBack restoreFile () Transaction_new in
          case map_of (cfg_repos cfg) (cfg_defaultRepo cfg) of
            None \<Rightarrow> None
          | Some url \<Rightarrow>
             (case updateOstreeRepoConfig cv (cfg_defaultRepo cfg) url s1 of
                (Inl e, s2) \<Rightarrow> Some (Inl (Err_wrap trace e), Transaction_dtor tx1 s2)
              | (Inr _, s2) \<Rightarrow>
                 (case map_of (cfg_repos (cf_cfg s)) (cfg_defaultRepo (cf_cfg s)) of
                    None \<Rightarrow> None
                  | Some oldUrl \<Rightarrow>
                     (let restoreRemote =
                            (\<lambda>_ st. snd (updateOstreeRepoConfig rb (cfg_defaultRepo (cf_cfg s)) oldUrl st));
                          tx2 = addRollBack restoreRemote () tx1 in
                      case rebuildCache env dump os cfg (cf_cache s2) of
                        (Inl e, c) \<Rightarrow> Some (Inl (Err_wrap trace e), Transaction_dtor tx2 (s2\<lparr>cf_cache := c\<rparr>))
                      | (Inr _, c) \<Rightarrow>
                          Some (Inr (), s2\<lparr>cf_cache := c, cf_server := url, cf_cfg := cfg\<rparr>))))))"

section \<open>Lemmas\<close>

lemma pull_progress_sel:
  "pull_progress p d = (np, tot, d') \<Longrightarrow> pd_progress d' = pd_progress d \<and> pd_caught_error d' = pd_caught_error d"
  by (auto simp: pull_progress_def Let_def split: if_splits)

text \<open>Progress never decreases and stays between 0 and 100.\<close>

lemma progress_changed_progress:
  assumes "progress_changed p (d, t) = (d', t')"
  shows "min 100 (pd_progress d) \<le> pd_progress d' \<and> (pd_progress d \<le> 100 \<longrightarrow> pd_progress d' \<le> 100)"
proof -
  obtain np tot d2 where pp: "pull_progress p (d\<lparr>pd_caught_error := pr_caught_error p\<rparr>) = (np, tot, d2)"
    by (metis prod_cases3)
  then have "pd_progress d2 = pd_progress d" using pull_progress_sel by fastforce
  then show ?thesis using assms pp
    by (auto simp: progress_changed_def Let_def split: if_splits)
qed

lemma report_progress:
  assumes "foldl on_pull_event (d, t) evs = (d', t')" "0 \<le> pd_progress d" "pd_progress d \<le> 100"
  shows "pd_progress d \<le> pd_progress d' \<and> pd_progress d' \<le> 100"
  using assms
proof (induction evs arbitrary: d t)
  case (Cons ev evs)
  obtain d1 t1 where one: "on_pull_event (d, t) ev = (d1, t1)" by (metis surj_pair)
  have "pd_progress d \<le> pd_progress d1 \<and> pd_progress d1 \<le> 100"
  proof (cases ev)
    case (Report p)
    then show ?thesis using one Cons.prems(2,3) progress_changed_progress [of p d t d1 t1] by auto
  qed (use one Cons.prems(3) in auto)
  then show ?case using Cons.IH [of d1 t1] Cons.prems one by auto
qed simp

lemma layers_only:
  "or_cache (snd (ensureEmptyLayerDir de c r)) = or_cache r"
  "or_repoDir (snd (ensureEmptyLayerDir de c r)) = or_repoDir r"
  "or_refs (snd (ensureEmptyLayerDir de c r)) = or_refs r"
  by (auto simp: ensureEmptyLayerDir_def create_layer_dir_def Let_def split: sum.split option.split)

text \<open>A new directory is really new, and nothing else changes.\<close>

lemma ensureEmptyLayerDir_plain:
  assumes "\<not> de_isSymlink de"
  shows "case ensureEmptyLayerDir de c r of
      (Inl _, r') \<Rightarrow> r' = r
    | (Inr d, r') \<Rightarrow> d = or_repoDir r @ ''/layers/'' @ c \<and> d \<notin> set (or_layerDirs r) \<and>
        r' = r\<lparr>or_layerDirs := d # or_layerDirs r\<rparr>"
  using assms by (auto simp: ensureEmptyLayerDir_def create_layer_dir_def Let_def split: option.split)

lemma repo_consistent_refs: "repo_consistent (r\<lparr>or_refs := x\<rparr>) = repo_consistent r"
  by (simp add: repo_consistent_def layer_path_def)

lemma repo_consistent_more_dirs:
  "repo_consistent r \<Longrightarrow> repo_consistent (r\<lparr>or_layerDirs := d # or_layerDirs r\<rparr>)"
  by (simp add: repo_consistent_def layer_path_def)

lemma handle_result:
  assumes "handleRepositoryUpdate oe env dump d x r = (res, r')"
  shows "rc_layers (rcs_cache (or_cache r')) \<in> {rc_layers (rcs_cache (or_cache r)), rc_layers (rcs_cache (or_cache r)) @ [x]} \<and>
    or_repoDir r' = or_repoDir r \<and> or_refs r' = or_refs r \<and>
    (is_ok res \<longrightarrow> rc_layers (rcs_cache (or_cache r')) = rc_layers (rcs_cache (or_cache r)) @ [x] \<and>
       d \<in> set (or_layerDirs r') \<and> or_refs r (ostreeRefSpecFromLayerItem x) \<noteq> None)"
proof -
  have add: "rc_layers (rcs_cache c) \<in> {rc_layers (rcs_cache s), rc_layers (rcs_cache s) @ [x]} \<and>
      (is_ok q \<longrightarrow> rc_layers (rcs_cache c) = rc_layers (rcs_cache s) @ [x])"
    if "addLayerItem env dump x s = (q, c)" for q c s
  proof (cases "index_of (same_item x) (rc_layers (rcs_cache s))")
    case None
    then show ?thesis using addLayerItem_fresh(1) [OF None refl, of env dump] that by simp
  qed (use that in \<open>auto simp: addLayerItem_def findMatchingItem_def Let_def\<close>)
  then show ?thesis using assms
    by (auto simp: handleRepositoryUpdate_def Let_def split: if_splits option.splits prod.splits sum.splits dest!: add)
qed


lemma place_layer_keeps:
  assumes "repo_consistent r" and "\<not> de_isSymlink de"
    and "ensureEmptyLayerDir de (item_commit x) r = (Inr d, r1)"
    and "handleRepositoryUpdate oe env dump d x r1 = (res, r2)"
  shows "repo_consistent r2 \<and> (is_ok res \<longrightarrow> layer_path r2 x \<in> set (or_layerDirs r2))"
proof -
  have d: "d = layer_path r x" "d \<notin> set (or_layerDirs r)" "r1 = r\<lparr>or_layerDirs := d # or_layerDirs r\<rparr>"
    using ensureEmptyLayerDir_plain [OF assms(2), where c = "item_commit x" and r = r] assms(3) by (auto simp: layer_path_def)
  have fresh: "item_commit x \<notin> item_commit ` set (rc_layers (rcs_cache (or_cache r1)))"
  proof
    assume "item_commit x \<in> item_commit ` set (rc_layers (rcs_cache (or_cache r1)))"
    then obtain y where "y \<in> set (rc_layers (rcs_cache (or_cache r)))" "item_commit y = item_commit x"
      using d(3) by auto
    then show False using assms(1) d(1,2) by (metis layer_path_eq repo_consistent_def)
  qed
  have "repo_consistent r1" using d(3) repo_consistent_more_dirs [OF assms(1)] by simp
  moreover have "d = layer_path r1 x" using d by (simp add: layer_path_def)
  ultimately have "repo_consistent r2"
    using handleRepositoryUpdate_keeps [OF _ fresh, of oe env dump] assms(4) by simp
  moreover have "is_ok res \<longrightarrow> layer_path r2 x \<in> set (or_layerDirs r2)"
    using handle_result [OF assms(4)] \<open>d = layer_path r1 x\<close> by (simp add: layer_path_def)
  ultimately show ?thesis by simp
qed

definition pull_failed :: "package_task \<Rightarrow> bool" where
  "pull_failed t \<longleftrightarrow> t_state t = Failed \<and> t_subState t = AllDone \<and> t_err t \<noteq> None"

lemma pull_failed_reportError [simp]: "pull_failed (reportError e t)"
  by (simp add: pull_failed_def reportError_def Let_def emit_percentage_def)

definition pull_adds :: "string \<Rightarrow> ostree_repo \<Rightarrow> ostree_repo \<Rightarrow> layers_item \<Rightarrow> bool" where
  "pull_adds repo r r' x \<longleftrightarrow> item_repo x = repo \<and> \<not> item_is_deleted x \<and> layer_path r' x \<in> set (or_layerDirs r') \<and>
     rc_layers (rcs_cache (or_cache r')) = rc_layers (rcs_cache (or_cache r)) @ [x]"

lemma pull_checkout_spec:
  assumes "repo_consistent r" and "\<not> de_isSymlink de"
    and "pull_checkout pu de oe env dump repo trace ref (t, r) = (t', r')"
  shows "repo_consistent r' \<and> (pull_failed t' \<or> (\<exists>x. pull_adds repo r r' x))"
proof (cases "pu_read pu (or_refs r) ref")
  case (Inr cr)
  obtain c root where cr: "cr = (c, root)" by (cases cr)
  show ?thesis
  proof (cases "pu_info pu root")
    case info: (Inr i)
    let ?x = "\<lparr>item_commit = c, item_deleted = None, item_info = i, item_repo = repo\<rparr>"
    obtain dres r1 where en: "ensureEmptyLayerDir de c r = (dres, r1)" by (metis surj_pair)
    show ?thesis
    proof (cases dres)
      case (Inl e)
      then have "r1 = r" using ensureEmptyLayerDir_plain [OF assms(2), where c = c and r = r] en by simp
      then show ?thesis using assms Inr cr info en Inl by (auto simp: pull_checkout_def)
    next
      case d: (Inr d)
      obtain res r2 where h: "handleRepositoryUpdate oe env dump d ?x r1 = (res, r2)" by (metis surj_pair)
      have keep: "repo_consistent r2 \<and> (is_ok res \<longrightarrow> layer_path r2 ?x \<in> set (or_layerDirs r2))"
        using place_layer_keeps [OF assms(1,2) _ h] en d by simp
      have "or_cache r1 = or_cache r" using layers_only(1) [of de c r] en by simp
      then have add: "is_ok res \<longrightarrow> rc_layers (rcs_cache (or_cache r2)) = rc_layers (rcs_cache (or_cache r)) @ [?x]"
        using handle_result [OF h] by simp
      show ?thesis using assms(3) Inr cr info en d h keep add
        by (cases res) (auto simp: pull_checkout_def pull_adds_def item_is_deleted_def)
    qed
  qed (use assms Inr cr in \<open>auto simp: pull_checkout_def\<close>)
qed (use assms in \<open>auto simp: pull_checkout_def\<close>)

lemma pull_ref_frame:
  assumes "pull_ref pu repo ref (d, t, r) = (e, d', t', r')"
  shows "\<exists>refs. r' = r\<lparr>or_refs := refs\<rparr>"
  using assms by (auto simp: pull_ref_def split: prod.splits sum.splits intro: exI [of _ "or_refs r"])

text \<open>A pull ends with an error of ostree or with the check out, on the old repository but for the refs.\<close>

lemma pull_cases:
  assumes "OSTreeRepo_pull pu de oe env dump repo ref moduleName (t, r) = (t', r')"
  obtains e u refs where "t' = reportError e u" "r' = r\<lparr>or_refs := refs\<rparr>"
  | trace spec u refs where "pull_checkout pu de oe env dump repo trace spec (u, r\<lparr>or_refs := refs\<rparr>) = (t', r')"
  using assms
  by (auto simp: OSTreeRepo_pull_def Let_def split: prod.splits option.splits if_splits dest!: pull_ref_frame)

lemma pull_adds_refs: "pull_adds repo (r\<lparr>or_refs := refs\<rparr>) r' x = pull_adds repo r r' x"
  by (simp add: pull_adds_def)

lemma commitDirToRepo_frame:
  assumes "commitDirToRepo co dirs spec r = (res, r')"
  shows "case res of Inl _ \<Rightarrow> r' = r | Inr c \<Rightarrow> r' = r\<lparr>or_refs := (or_refs r)(''local:'' @ spec \<mapsto> c)\<rparr>"
  using assms by (auto simp: commitDirToRepo_def Let_def split: option.splits if_splits list.splits sum.splits)

text \<open>A description that gives a reference: its version and architecture are those of the reference.\<close>

lemma fromPackageInfo_parts:
  assumes "Reference_fromPackageInfo i = Inr ref"
  shows "info_channel i = ref_channel ref" "info_id i = ref_id ref"
    "front (info_arch i) = Architecture_toString (ref_arch ref)"
    "info_version i \<in> {Version_toString (ref_version ref), Version_toString (ref_version ref) @ [CHR 0x0A]}"
proof -
  obtain v where v: "Version_parse (info_version i) = Inr v" "ref_version ref = v"
    and rest: "info_channel i = ref_channel ref" "info_id i = ref_id ref"
      "front (info_arch i) = Architecture_toString (ref_arch ref)"
    using assms by (auto simp: Reference_fromPackageInfo_def Let_def result_simps front_def
        split: if_splits list.splits)
  show "info_channel i = ref_channel ref" "info_id i = ref_id ref"
    "front (info_arch i) = Architecture_toString (ref_arch ref)" by (fact rest)+
  show "info_version i \<in> {Version_toString (ref_version ref), Version_toString (ref_version ref) @ [CHR 0x0A]}"
    using v Version_new_Inr [of "info_version i" v] chop_final_newline_cases [of "info_version i"]
    by (auto simp: result_simps)
qed

text \<open>The ref an import commits is not the ref its check out resolves, for these modules.\<close>

lemma import_ref_differs:
  assumes "Reference_fromPackageInfo i = Inr ref" and "info_module i = ''runtime'' \<or> subRef \<noteq> None"
  shows "ostreeSpecFromReferenceV2 ref None (info_module i) subRef \<noteq>
    info_channel i @ ''/'' @ info_id i @ ''/'' @ info_version i @ ''/'' @ front (info_arch i) @ ''/'' @ info_module i"
  using fromPackageInfo_parts [OF assms(1)] assms(2)
  by (auto simp: ostreeSpecFromReferenceV2_def spec_path_def Let_def split: option.splits if_splits)

lemma updateOstreeRepoConfig_frame:
  assumes "updateOstreeRepoConfig cv n u s = (res, s')"
  shows "\<exists>rem. s' = s\<lparr>cf_remotes := rem\<rparr> \<and> (is_ok res \<longrightarrow> rem n = Some (u @ ''/repos/'' @ n))"
  using assms
  by (auto simp: updateOstreeRepoConfig_def Let_def split: option.splits intro: exI [of _ "cf_remotes s"])

text \<open>
  When adding the remote fails, the old one is gone and nothing puts it back; when the rebuild of the
  cache fails, the cache has lost its layers.
\<close>

lemma setConfig_loses_remote:
  assumes "cv_open cv" "cv_yaml cv = None" "cv_delete cv = None" "cv_add cv = Some e"
    and "map_of (cfg_repos cfg) (cfg_defaultRepo cfg) = Some url"
    and "setConfig cv rb env dump os cfg s = Some (res, s')"
  shows "cf_remotes s' (cfg_defaultRepo cfg) = None"
  using assms
  by (auto simp: setConfig_def saveConfig_def updateOstreeRepoConfig_def Let_def Transaction_dtor_add
      Transaction_dtor_new split: if_splits option.splits)

lemma rebuildCache_failed: "os_refs os = Inl e \<Longrightarrow>
    rc_layers (rcs_cache (snd (rebuildCache env dump os cfg c))) = []"
  by (simp add: rebuildCache_def Let_def)

section \<open>Properties\<close>

text \<open>
  C23: A pull into a repository whose cached layers have their directories (none of them a symbolic
  link) keeps it that way, whatever ostree and the file system answer, and either reports its error
  to the task, or has added exactly one layer, not marked as deleted, whose directory exists.
\<close>

theorem pull_adds_layer_or_fails:
  assumes "repo_consistent r" and "\<not> de_isSymlink de"
    and "OSTreeRepo_pull pu de oe env dump repo ref moduleName (t, r) = (t', r')"
  shows "repo_consistent r' \<and> (pull_failed t' \<or> (\<exists>x. pull_adds repo r r' x))"
proof -
  have refs: "repo_consistent (r\<lparr>or_refs := refs\<rparr>)" for refs
    using assms(1) by (simp add: repo_consistent_refs)
  from assms(3) show ?thesis
  proof (cases rule: pull_cases)
    case (2 trace spec u refs)
    from pull_checkout_spec [OF refs assms(2) this] show ?thesis by (simp add: pull_adds_refs)
  qed (simp add: refs)
qed

definition demo_dir_env :: dir_env where
  "demo_dir_env = \<lparr>de_isSymlink = False, de_linkError = None, de_readLink = Inl [], de_removeLink = None,
     de_targetExists = (\<lambda>_. False), de_removeTarget = None, de_create = None\<rparr>"

definition demo_ostree_env :: ostree_env where
  "demo_ostree_env = \<lparr>oe_noRev = (1, []), oe_setRef = None, oe_mkpath = True, oe_rmdir = True, oe_checkout = None\<rparr>"

definition demo_pull_env :: "package_info_v2 pull_env" where
  "demo_pull_env = \<lparr>pu_pull = (\<lambda>_. ([Report \<lparr>pr_outstanding_writes = 1, pr_fetched = 1, pr_requested = 2,
        pr_caught_error = False, pr_bytes_transferred = 10, pr_total_delta_parts = 0,
        pr_fetched_delta_part_size = 0, pr_total_delta_part_size = 0, pr_outstanding_metadata_fetches = 0,
        pr_metadata_fetched = 30, pr_status = []\<rparr>], Inr ''c1'')),
     pu_read = (\<lambda>_ _. Inr (''c1'', demo_info)), pu_info = Inr\<rparr>"

definition demo_reference :: reference where
  "demo_reference = \<lparr>ref_channel = ''main'', ref_id = ''org.deepin.demo'',
     ref_version = \<lparr>major = 1, minor = 0, patch = 0, tweak = Some 0\<rparr>, ref_arch = X86_64\<rparr>"

lemmas demo_pull_defs = demo_dir_env_def demo_ostree_env_def demo_pull_env_def demo_reference_def

theorem pull_adds_layer_or_fails_witness:
  "\<exists>x. pull_adds ''stable'' demo_repo (snd (OSTreeRepo_pull demo_pull_env demo_dir_env demo_ostree_env demo_cache_env
      (\<lambda>_. []) ''stable'' demo_reference ''binary'' (PackageTask_new ''u'' [''r''] False, demo_repo))) x"
proof -
  let ?run = "OSTreeRepo_pull demo_pull_env demo_dir_env demo_ostree_env demo_cache_env (\<lambda>_. []) ''stable''
    demo_reference ''binary'' (PackageTask_new ''u'' [''r''] False, demo_repo)"
  have "repo_consistent demo_repo" "\<not> de_isSymlink demo_dir_env"
    by (simp_all add: repo_consistent_def demo_repo_def demo_cache_def layer_path_def layer_with_version_def
        demo_dir_env_def)
  moreover have "t_err (fst ?run) = None" by code_simp
  ultimately show ?thesis
    using pull_adds_layer_or_fails [of demo_repo demo_dir_env demo_pull_env demo_ostree_env demo_cache_env "\<lambda>_. []"
        "''stable''" demo_reference "''binary''" "PackageTask_new ''u'' [''r''] False" "fst ?run" "snd ?run"]
    by (simp add: pull_failed_def)
qed

text \<open>
  Importing a directory keeps the layers and their directories consistent, and when it succeeds
  it has added one layer of the repository \<open>local\<close> with the description of the directory. It cannot
  succeed for the module \<open>runtime\<close> or for a sub-reference, unless the ref was there before: the commit
  is stored under one ref and looked up under another.
\<close>

theorem importLayerDir_spec:
  assumes "repo_consistent r" and "\<not> de_isSymlink de"
    and "importLayerDir co de oe env dump std_sort dir ex info overlays subRef r = (res, r')"
  shows "repo_consistent r' \<and>
    (is_ok res \<longrightarrow> (\<exists>i x. info = Inr i \<and> item_info x = i \<and> pull_adds ''local'' r r' x \<and>
       (info_module i = ''runtime'' \<or> subRef \<noteq> None \<longrightarrow> or_refs r (ostreeRefSpecFromLayerItem x) \<noteq> None)))"
proof (cases "\<exists>i ref c r1. info = Inr i \<and> Reference_fromPackageInfo i = Inr ref \<and> ex \<and>
    \<not> is_ok (getLayerDir_ref std_sort r ref (info_module i) subRef) \<and>
    commitDirToRepo co (dir # overlays) (ostreeSpecFromReferenceV2 ref None (info_module i) subRef) r = (Inr c, r1)")
  case False
  then show ?thesis using assms(1,3)
    by (auto simp: importLayerDir_def Let_def split: if_splits sum.splits prod.splits dest!: commitDirToRepo_frame)
next
  case True
  then obtain i ref c r1 where i: "info = Inr i" "Reference_fromPackageInfo i = Inr ref" "ex"
      "\<not> is_ok (getLayerDir_ref std_sort r ref (info_module i) subRef)"
      "commitDirToRepo co (dir # overlays) (ostreeSpecFromReferenceV2 ref None (info_module i) subRef) r = (Inr c, r1)"
    by blast
  let ?spec = "ostreeSpecFromReferenceV2 ref None (info_module i) subRef"
  let ?x = "\<lparr>item_commit = c, item_deleted = None, item_info = i, item_repo = ''local''\<rparr>"
  have r1: "r1 = r\<lparr>or_refs := (or_refs r)(''local:'' @ ?spec \<mapsto> c)\<rparr>" using commitDirToRepo_frame [OF i(5)] by simp
  then have c1: "repo_consistent r1" using assms(1) by (simp add: repo_consistent_refs)
  obtain dres r2 where en: "ensureEmptyLayerDir de c r1 = (dres, r2)" by (metis surj_pair)
  show ?thesis
  proof (cases dres)
    case (Inl e)
    then have "r2 = r1" using ensureEmptyLayerDir_plain [OF assms(2), where c = c and r = r1] en by simp
    then show ?thesis using assms(3) i en Inl c1 by (auto simp: importLayerDir_def Let_def)
  next
    case d: (Inr d)
    obtain hres r3 where h: "handleRepositoryUpdate oe env dump d ?x r2 = (hres, r3)" by (metis surj_pair)
    have keep: "repo_consistent r3 \<and> (is_ok hres \<longrightarrow> layer_path r3 ?x \<in> set (or_layerDirs r3))"
      using place_layer_keeps [OF c1 assms(2) _ h] en d by simp
    have r2: "or_cache r2 = or_cache r" "or_refs r2 = (or_refs r)(''local:'' @ ?spec \<mapsto> c)"
      using layers_only(1,3) [of de c r1] en r1 by simp_all
    have res: "is_ok res = is_ok hres" "r' = r3"
      using assms(3) i en d h by (auto simp: importLayerDir_def Let_def split: sum.splits)
    have "or_refs r (ostreeRefSpecFromLayerItem ?x) \<noteq> None"
      if "is_ok hres" "info_module i = ''runtime'' \<or> subRef \<noteq> None"
      using handle_result [OF h] import_ref_differs [OF i(2) that(2)] that(1) r2(2)
      by (auto simp: ostreeRefSpecFromLayerItem_def ostreeRefFromLayerItem_def split: if_splits)
    moreover have "pull_adds ''local'' r r' ?x" if "is_ok hres"
      using handle_result [OF h] keep that res(2) r2(1) by (simp add: pull_adds_def item_is_deleted_def)
    ultimately show ?thesis using keep res i(1) by (metis layers_item.select_convs(3))
  qed
qed

definition demo_commit_env :: commit_env where
  "demo_commit_env = \<lparr>co_prepare = None, co_modifier = True, co_writeDir = (\<lambda>_. None), co_mtree = None,
     co_commit = (\<lambda>_. Inr ''c2''), co_transaction = None\<rparr>"

theorem importLayerDir_spec_witness:
  "(\<exists>x. item_info x = demo_info \<and> pull_adds ''local'' demo_repo (snd (importLayerDir demo_commit_env demo_dir_env
       demo_ostree_env demo_cache_env (\<lambda>_. []) (\<lambda>xs. xs) ''/mnt'' True (Inr demo_info) [] None demo_repo)) x) \<and>
   \<not> is_ok (fst (importLayerDir demo_commit_env demo_dir_env demo_ostree_env demo_cache_env (\<lambda>_. []) (\<lambda>xs. xs)
       ''/mnt'' True (Inr (demo_info\<lparr>info_module := ''runtime''\<rparr>)) [] None (demo_repo\<lparr>or_refs := Map.empty\<rparr>)))"
proof -
  let ?run = "\<lambda>i r. importLayerDir demo_commit_env demo_dir_env demo_ostree_env demo_cache_env (\<lambda>_. []) (\<lambda>xs. xs)
       ''/mnt'' True (Inr i) [] None r"
  have con: "repo_consistent demo_repo" "repo_consistent (demo_repo\<lparr>or_refs := Map.empty\<rparr>)" "\<not> de_isSymlink demo_dir_env"
    by (simp_all add: repo_consistent_def demo_repo_def demo_cache_def layer_path_def layer_with_version_def
        demo_dir_env_def)
  have "is_ok (fst (?run demo_info demo_repo))" by code_simp
  with importLayerDir_spec [OF con(1) con(3) surjective_pairing]
  have "\<exists>x. item_info x = demo_info \<and> pull_adds ''local'' demo_repo (snd (?run demo_info demo_repo)) x" by blast
  moreover have "\<not> is_ok (fst (?run (demo_info\<lparr>info_module := ''runtime''\<rparr>) (demo_repo\<lparr>or_refs := Map.empty\<rparr>)))"
    using importLayerDir_spec [OF con(2) con(3) surjective_pairing, of demo_commit_env demo_ostree_env demo_cache_env
        "\<lambda>_. []" "\<lambda>xs. xs" "''/mnt''" True "Inr (demo_info\<lparr>info_module := ''runtime''\<rparr>)" "[]" None]
    by auto
  ultimately show ?thesis by blast
qed

text \<open>
  Changing the configuration returns (it does not run into the exception of \<open>repos.at\<close>), and it
  is all or nothing for the value in memory, the server and the file, provided the file can be
  serialised and the rollback of the file works: after success all of them are new and the remote of
  the new default repository has the new address, after a failure they are what they were. The cache
  is not covered: when its rebuild fails, it already has the new configuration and no layers.
\<close>

theorem setConfig_spec:
  assumes "map_of (cfg_repos (cf_cfg s)) (cfg_defaultRepo (cf_cfg s)) = Some oldUrl"
    and "cf_file s = Some (cf_cfg s)" and "cv_yaml cv = None"
    and "cv_open rb" and "cv_yaml rb = None"
  shows "\<exists>res s'. setConfig cv rb env dump os cfg s = Some (res, s') \<and>
    (is_ok res \<longrightarrow> cf_cfg s' = cfg \<and> cf_file s' = Some cfg \<and>
       (\<exists>url. map_of (cfg_repos cfg) (cfg_defaultRepo cfg) = Some url \<and> cf_server s' = url \<and>
          cf_remotes s' (cfg_defaultRepo cfg) = Some (url @ ''/repos/'' @ cfg_defaultRepo cfg))) \<and>
    (\<not> is_ok res \<longrightarrow> cf_cfg s' = cf_cfg s \<and> cf_file s' = cf_file s \<and> cf_server s' = cf_server s)"
proof (cases "map_of (cfg_repos cfg) (cfg_defaultRepo cfg) = None \<or> \<not> cv_open cv")
  case True
  then show ?thesis using assms by (auto simp: setConfig_def saveConfig_def Let_def)
next
  case False
  then obtain url where url: "map_of (cfg_repos cfg) (cfg_defaultRepo cfg) = Some url" by auto
  let ?s1 = "s\<lparr>cf_file := Some cfg\<rparr>"
  have save: "saveConfig cv cfg s = (Inr (), ?s1)" using False assms(3) by (auto simp: saveConfig_def Let_def)
  have rb: "saveConfig rb (cf_cfg s) st = (Inr (), st\<lparr>cf_file := Some (cf_cfg s)\<rparr>)" for st
    using assms by (simp add: saveConfig_def Let_def)
  obtain ures s2 where up: "updateOstreeRepoConfig cv (cfg_defaultRepo cfg) url ?s1 = (ures, s2)" by (metis surj_pair)
  obtain rem where s2: "s2 = ?s1\<lparr>cf_remotes := rem\<rparr>"
      "is_ok ures \<longrightarrow> rem (cfg_defaultRepo cfg) = Some (url @ ''/repos/'' @ cfg_defaultRepo cfg)"
    using updateOstreeRepoConfig_frame [OF up] by blast
  have restore: "\<exists>rem. snd (updateOstreeRepoConfig rb n u st) = st\<lparr>cf_remotes := rem\<rparr>" for n u st
    using updateOstreeRepoConfig_frame [OF surjective_pairing, of rb n u st] by blast
  obtain cres c where cache: "rebuildCache env dump os cfg (cf_cache s2) = (cres, c)" by (metis surj_pair)
  show ?thesis
  proof (cases "is_ok ures \<and> \<not> is_ok cres")
    case True
    obtain rem' where "snd (updateOstreeRepoConfig rb (cfg_defaultRepo (cf_cfg s)) oldUrl (s2\<lparr>cf_cache := c\<rparr>)) =
        s2\<lparr>cf_cache := c, cf_remotes := rem'\<rparr>" using restore by fastforce
    then show ?thesis using True save rb up cache assms(1,2) url s2(1)
      by (auto simp: setConfig_def Let_def Transaction_dtor_add Transaction_dtor_new split: sum.splits)
  qed (use save rb up cache assms(1,2) url s2 in
      \<open>auto simp: setConfig_def Let_def Transaction_dtor_add Transaction_dtor_new split: sum.splits\<close>)
qed

definition demo_config :: "string \<Rightarrow> repo_config" where
  "demo_config u = \<lparr>cfg_defaultRepo = ''stable'', cfg_repos = [(''stable'', u)], cfg_version = 1\<rparr>"

definition demo_config_env :: config_env where
  "demo_config_env = \<lparr>cv_open = True, cv_yaml = None, cv_delete = None, cv_add = None, cv_write = None\<rparr>"

definition demo_config_state :: config_state where
  "demo_config_state = \<lparr>cf_cfg = demo_config ''a'', cf_file = Some (demo_config ''a''), cf_remotes = Map.empty,
     cf_server = ''a'', cf_cache = demo_cache []\<rparr>"

lemmas demo_config_defs = demo_config_def demo_config_env_def demo_config_state_def

theorem setConfig_spec_witness:
  "\<exists>res s'. setConfig (demo_config_env\<lparr>cv_add := Some (1, [])\<rparr>) demo_config_env demo_cache_env (\<lambda>_. [])
      (\<lparr>os_refs = Inr [], os_commit = (\<lambda>_. None), os_info = (\<lambda>_ :: unit. Inr demo_info)\<rparr>) (demo_config ''b'')
      demo_config_state = Some (res, s') \<and> (is_ok res \<or> cf_file s' = Some (demo_config ''a''))"
  using setConfig_spec [of demo_config_state "''a''" "demo_config_env\<lparr>cv_add := Some (1, [])\<rparr>" demo_config_env
      demo_cache_env "\<lambda>_. []" "\<lparr>os_refs = Inr [], os_commit = (\<lambda>_. None), os_info = (\<lambda>_ :: unit. Inr demo_info)\<rparr>"
      "demo_config ''b''"]
  by (auto simp: demo_config_defs)

end
