(* ===== verification/Repo_Merge.thy ===== *)
theory Repo_Merge
  imports Ostree_Repo
begin

text \<open>
  Merging the modules of an application, \<open>mergeModules\<close> and \<open>getMergedModuleDir\<close> of
  \<open>libs/linglong/src/linglong/repo/ostree_repo.cpp\<close>. The directory \<open>merged\<close> is a map from the names of its
  entries to the commits checked out there, in order. \<open>sha256hex\<close> is the hash of Qt over the
  concatenation of the commits, \<open>sort_modules\<close> is \<open>std::sort\<close> by module name.
\<close>

type_synonym merged_dirs = "string \<rightharpoonup> string list"

record merge_env =
  me_cleanTmp :: "string \<Rightarrow> (int \<times> string) option"
  me_createTmp :: "string \<Rightarrow> (int \<times> string) option"
  me_checkout :: "string \<Rightarrow> (int \<times> string) option"
  me_cleanOut :: "string \<Rightarrow> (int \<times> string) option"
  me_rename :: "string \<Rightarrow> (int \<times> string) option"
  me_list :: "(int \<times> string) option"
  me_removeStale :: "string \<Rightarrow> bool"

text \<open>\<open>Err(trace, msg, std::error_code)\<close>, through \<open>std::system_error\<close>: the code is the one of the system.\<close>

definition Err_ec :: "string \<Rightarrow> string \<Rightarrow> int \<times> string \<Rightarrow> error" where
  "Err_ec trace m e = Err trace (m @ '': '' @ snd e) (fst e)"

section \<open>Groups of layers\<close>

definition group_key :: "layers_item \<Rightarrow> string" where
  "group_key layer =
     info_id (item_info layer) @ ''/'' @ info_version (item_info layer) @ ''/'' @ front (info_arch (item_info layer))"

text \<open>The \<open>std::map\<close> from keys to vectors: keys in ascending order, layers in the order of the cache.\<close>

definition layerGroup :: "layers_item list \<Rightarrow> (string \<times> layers_item list) list" where
  "layerGroup layerItems =
     map (\<lambda>k. (k, filter (\<lambda>l. group_key l = k) layerItems)) (sort (remdups (map group_key layerItems)))"

definition module_lt :: "layers_item \<Rightarrow> layers_item \<Rightarrow> bool" where
  "module_lt lhs rhs = (info_module (item_info lhs) < info_module (item_info rhs))"

definition binary_commit :: "layers_item list \<Rightarrow> string" where
  "binary_commit layers =
     foldl (\<lambda>b l. if info_module (item_info l) = ''binary'' then item_commit l else b) [] layers"

section \<open>Merging\<close>

text \<open>The checkouts into the temporary directory: the commits that got there, and the error if one fails.\<close>

fun checkout_all ::
    "(string \<Rightarrow> (int \<times> string) option) \<Rightarrow> string list \<Rightarrow> string list \<Rightarrow> (int \<times> string) option \<times> string list" where
  "checkout_all co got [] = (None, got)"
| "checkout_all co got (c # cs) =
     (case co c of Some e \<Rightarrow> (Some e, got) | None \<Rightarrow> checkout_all co (got @ [c]) cs)"

definition build_merged ::
    "merge_env \<Rightarrow> string \<Rightarrow> string list \<Rightarrow> merged_dirs \<Rightarrow> unit result \<times> merged_dirs" where
  "build_merged me mergeID commits dirs =
     (let trace = ''merge modules''; tmp = ''tmp_'' @ mergeID in
      case me_cleanTmp me tmp of Some e \<Rightarrow> (Inl (Err_ec trace ''clean merge tmp dir'' e), dirs) | None \<Rightarrow>
      case me_createTmp me tmp of
        Some e \<Rightarrow> (Inl (Err_ec trace ''create merge tmp dir'' e), dirs(tmp := None))
      | None \<Rightarrow>
     (case checkout_all (me_checkout me) [] commits of
        (Some e, got) \<Rightarrow> (Inl (Err_gerror trace (''ostree_repo_checkout_at '' @ tmp) e), dirs(tmp \<mapsto> got))
      | (None, got) \<Rightarrow>
     (case me_cleanOut me mergeID of
        Some e \<Rightarrow> (Inl (Err_ec trace ''clean merge dir'' e), dirs(tmp \<mapsto> got))
      | None \<Rightarrow>
     (case me_rename me mergeID of
        Some e \<Rightarrow> (Inl (Err_ec trace ''rename merge dir'' e), dirs(tmp \<mapsto> got, mergeID := None))
      | None \<Rightarrow> (Inr (), dirs(tmp := None, mergeID \<mapsto> got))))))"

definition merge_group ::
    "merge_env \<Rightarrow> (string \<Rightarrow> string) \<Rightarrow> (layers_item list \<Rightarrow> layers_item list) \<Rightarrow> merged_item list option \<Rightarrow>
     string \<times> layers_item list \<Rightarrow> merged_dirs \<Rightarrow> merged_item option result \<times> merged_dirs" where
  "merge_group me sha256hex sort_modules mergedItems it dirs =
     (if length (snd it) = 1 then (Inr None, dirs)
      else let layers = sort_modules (snd it); commits = map item_commit layers in
        if binary_commit layers = [] then (Inr None, dirs)
        else let mergeID = sha256hex (concat commits) in
          case (case find (\<lambda>m. merged_id m = mergeID) (case mergedItems of None \<Rightarrow> [] | Some ms \<Rightarrow> ms) of
                  Some m \<Rightarrow> (if merged_commits m = commits then Some m else None)
                | None \<Rightarrow> None) of
            Some m \<Rightarrow> (Inr (Some m), dirs)
          | None \<Rightarrow>
             (case build_merged me mergeID commits dirs of
                (Inl e, d) \<Rightarrow> (Inl e, d)
              | (Inr _, d) \<Rightarrow>
                 (Inr (Some \<lparr>merged_binaryCommit = Some (binary_commit layers), merged_commits = commits, merged_id = mergeID,
                    merged_modules = map (\<lambda>l. info_module (item_info l)) layers, merged_name = Some (fst it)\<rparr>), d)))"

fun merge_groups ::
    "merge_env \<Rightarrow> (string \<Rightarrow> string) \<Rightarrow> (layers_item list \<Rightarrow> layers_item list) \<Rightarrow> merged_item list option \<Rightarrow>
     (string \<times> layers_item list) list \<Rightarrow> merged_item list \<Rightarrow> merged_dirs \<Rightarrow> merged_item list result \<times> merged_dirs" where
  "merge_groups me sha256hex sort_modules mergedItems [] new dirs = (Inr new, dirs)"
| "merge_groups me sha256hex sort_modules mergedItems (it # its) new dirs =
     (case merge_group me sha256hex sort_modules mergedItems it dirs of
        (Inl e, d) \<Rightarrow> (Inl e, d)
      | (Inr None, d) \<Rightarrow> merge_groups me sha256hex sort_modules mergedItems its new d
      | (Inr (Some m), d) \<Rightarrow> merge_groups me sha256hex sort_modules mergedItems its (new @ [m]) d)"

definition mergeModules ::
    "merge_env \<Rightarrow> (string \<Rightarrow> string) \<Rightarrow> (layers_item list \<Rightarrow> layers_item list) \<Rightarrow> cache_env \<Rightarrow>
     (repository_cache \<Rightarrow> string) \<Rightarrow> repo_cache \<times> merged_dirs \<Rightarrow> unit result \<times> repo_cache \<times> merged_dirs" where
  "mergeModules me sha256hex sort_modules env dump s =
     (case s of (cache, dirs) \<Rightarrow>
      let trace = ''merge modules'' in
      case merge_groups me sha256hex sort_modules (queryMergedItems cache)
             (layerGroup (queryExistingLayerItem cache)) [] dirs of
        (Inl e, d) \<Rightarrow> (Inl e, cache, d)
      | (Inr newMergedItems, d) \<Rightarrow>
         (case updateMergedItems env dump newMergedItems cache of
            (Inl e, c) \<Rightarrow> (Inl (Err_wrap_msg trace ''update merged items'' e), c, d)
          | (Inr _, c) \<Rightarrow>
             (case me_list me of
                Some e \<Rightarrow> (Inl (Err_ec trace ''read merge directory'' e), c, d)
              | None \<Rightarrow>
                  (Inr (), c, \<lambda>name. if name \<notin> merged_id ` set newMergedItems \<and> me_removeStale me name then None
                                     else d name))))"

text \<open>
  The other overload of \<open>getMergedModuleDir\<close>: the given modules of one reference in a temporary
  directory, which is removed when the last owner lets go of it.
\<close>

definition of_reference :: "reference \<Rightarrow> layers_item \<Rightarrow> bool" where
  "of_reference ref layer \<longleftrightarrow> info_id (item_info layer) = ref_id ref \<and>
     info_version (item_info layer) = Version_toString (ref_version ref) \<and>
     front (info_arch (item_info layer)) = Architecture_toString (ref_arch ref)"

definition getMergedModuleDir_modules ::
    "merge_env \<Rightarrow> (string \<Rightarrow> string) \<Rightarrow> repo_cache \<Rightarrow> reference \<Rightarrow> string list \<Rightarrow> merged_dirs \<Rightarrow> string result \<times> merged_dirs" where
  "getMergedModuleDir_modules me sha256hex cache ref loadModules dirs =
     (let trace = ''merge modules'';
          layers = filter (\<lambda>l. of_reference ref l \<and> info_module (item_info l) \<in> set loadModules)
                     (queryExistingLayerItem cache);
          commits = map item_commit layers;
          findModules = concat (map (\<lambda>l. info_module (item_info l) @ '' '') layers) in
      if commits = [] then (Inl (Err trace ''not found any layer'' (-1)), dirs)
      else if length commits < length loadModules
      then (Inl (Err trace (''missing module, only found: '' @ findModules) (-1)), dirs)
      else let tmp = ''tmp_'' @ sha256hex (concat commits);
               old = (case dirs tmp of None \<Rightarrow> [] | Some cs \<Rightarrow> cs) in
        case checkout_all (me_checkout me) old commits of
          (Some e, got) \<Rightarrow> (Inl (Err_gerror trace (''ostree_repo_checkout_at '' @ tmp) e), dirs(tmp \<mapsto> got))
        | (None, got) \<Rightarrow> (Inr tmp, dirs(tmp \<mapsto> got)))"

section \<open>Lemmas\<close>

lemma checkout_all_ok: "checkout_all co got cs = (None, res) \<Longrightarrow> res = got @ cs"
  by (induction co got cs rule: checkout_all.induct) (auto split: option.splits)

lemma build_merged_ok:
  assumes "build_merged me i cs dirs = (Inr u, d)"
  shows "d = dirs(''tmp_'' @ i := None, i \<mapsto> cs)"
  using assms by (auto simp: build_merged_def Let_def split: option.splits prod.splits dest!: checkout_all_ok)

text \<open>What a group is merged to, if it is.\<close>

definition group_item ::
    "(string \<Rightarrow> string) \<Rightarrow> (layers_item list \<Rightarrow> layers_item list) \<Rightarrow> string \<times> layers_item list \<Rightarrow> string list option" where
  "group_item sha256hex sort_modules it =
     (if length (snd it) = 1 \<or> binary_commit (sort_modules (snd it)) = [] then None
      else Some (map item_commit (sort_modules (snd it))))"

text \<open>The names \<open>sha\<close> gives are those the records carry, and no name of a temporary directory.\<close>

definition merged_ok :: "(string \<Rightarrow> string) \<Rightarrow> merged_item list \<Rightarrow> merged_dirs \<Rightarrow> bool" where
  "merged_ok sha ms dirs \<longleftrightarrow>
     (\<forall>m \<in> set ms. merged_id m = sha (concat (merged_commits m)) \<and> dirs (merged_id m) = Some (merged_commits m))"

definition hash_ok :: "(string \<Rightarrow> string) \<Rightarrow> string list set \<Rightarrow> bool" where
  "hash_ok sha C \<longleftrightarrow> inj_on (\<lambda>cs. sha (concat cs)) C \<and> (\<forall>x. \<not> starts_with (sha x) ''tmp_'')"

lemma merged_ok_update:
  assumes "hash_ok sha C" "cs \<in> C" "merged_commits ` set ms \<subseteq> C" "merged_ok sha ms dirs"
  shows "merged_ok sha ms (dirs(''tmp_'' @ sha (concat cs) := None, sha (concat cs) \<mapsto> cs))"
proof -
  have "(dirs(''tmp_'' @ sha (concat cs) := None, sha (concat cs) \<mapsto> cs)) (merged_id m) = Some (merged_commits m)"
    if m: "m \<in> set ms" for m
  proof (cases "merged_id m = sha (concat cs)")
    case True
    then have "merged_commits m = cs"
      using assms m by (auto simp: hash_ok_def merged_ok_def inj_on_def)
    then show ?thesis using True by simp
  next
    case False
    moreover have "merged_id m \<noteq> ''tmp_'' @ sha (concat cs)"
      using assms(1,4) m by (metis hash_ok_def merged_ok_def starts_with_append)
    moreover have "dirs (merged_id m) = Some (merged_commits m)" using assms(4) m unfolding merged_ok_def by blast
    ultimately show ?thesis by simp
  qed
  moreover have "merged_id m = sha (concat (merged_commits m))" if "m \<in> set ms" for m
    using assms(4) that unfolding merged_ok_def by blast
  ultimately show ?thesis unfolding merged_ok_def by blast
qed

lemma merged_ok_Nil [simp]: "merged_ok sha [] dirs"
  by (simp add: merged_ok_def)

lemma merge_group_ok:
  assumes hash: "hash_ok sha C" and old: "merged_commits ` set old \<subseteq> C" "merged_ok sha old dirs"
    and new: "merged_commits ` set new \<subseteq> C" "merged_ok sha new dirs"
    and C: "\<forall>cs. group_item sha srt it = Some cs \<longrightarrow> cs \<in> C"
    and run: "merge_group me sha srt ms it dirs = (Inr res, d)"
    and ms: "(case ms of None \<Rightarrow> [] | Some xs \<Rightarrow> xs) = old"
  shows "merged_ok sha old d \<and> merged_ok sha new d \<and>
    (case group_item sha srt it of
       None \<Rightarrow> res = None
     | Some cs \<Rightarrow> \<exists>m. res = Some m \<and> merged_commits m = cs \<and> merged_ok sha [m] d)"
proof (cases "group_item sha srt it")
  case None
  then show ?thesis using run old new by (auto simp: merge_group_def group_item_def Let_def split: if_splits)
next
  case (Some cs)
  then have cs: "cs = map item_commit (srt (snd it))" "\<not> (length (snd it) = 1)" "binary_commit (srt (snd it)) \<noteq> []" "cs \<in> C"
    using C by (auto simp: group_item_def split: if_splits)
  consider (reuse) m where "find (\<lambda>m. merged_id m = sha (concat cs)) old = Some m" "merged_commits m = cs" "res = Some m" "d = dirs"
    | (build) m where "res = Some m" "merged_commits m = cs" "merged_id m = sha (concat cs)"
        "build_merged me (sha (concat cs)) cs dirs = (Inr (), d)"
    using run cs ms by (auto simp: merge_group_def Let_def split: option.splits prod.splits sum.splits if_splits)
  then show ?thesis
  proof cases
    case reuse
    then have "m \<in> set old" by (auto simp: find_Some_iff)
    then show ?thesis using reuse Some old new by (auto simp: merged_ok_def)
  next
    case build
    then have d: "d = dirs(''tmp_'' @ sha (concat cs) := None, sha (concat cs) \<mapsto> cs)" using build_merged_ok by blast
    have "merged_ok sha [m] d" using build(2,3) d by (simp add: merged_ok_def)
    moreover have "merged_ok sha old d" "merged_ok sha new d"
      unfolding d by (rule merged_ok_update [OF hash cs(4) old], rule merged_ok_update [OF hash cs(4) new])
    ultimately show ?thesis using build(1,2) Some by simp
  qed
qed

lemma merge_groups_ok:
  assumes "hash_ok sha C" "merged_commits ` set old \<subseteq> C" "merged_ok sha old dirs"
    and "merged_commits ` set new \<subseteq> C" "merged_ok sha new dirs"
    and "\<forall>it \<in> set its. \<forall>cs. group_item sha srt it = Some cs \<longrightarrow> cs \<in> C"
    and "merge_groups me sha srt ms its new dirs = (Inr res, d)"
    and "(case ms of None \<Rightarrow> [] | Some xs \<Rightarrow> xs) = old"
  shows "merged_ok sha res d \<and> map merged_commits res = map merged_commits new @ List.map_filter (group_item sha srt) its"
  using assms
proof (induction its arbitrary: new dirs)
  case (Cons it its)
  obtain r1 d1 where run: "merge_group me sha srt ms it dirs = (r1, d1)" by (metis surj_pair)
  then obtain x where x: "r1 = Inr x" using Cons.prems(7) by (cases r1) auto
  have C: "\<forall>cs. group_item sha srt it = Some cs \<longrightarrow> cs \<in> C" using Cons.prems(6) by simp
  have step: "merged_ok sha old d1" "merged_ok sha new d1"
    "case group_item sha srt it of None \<Rightarrow> x = None
     | Some cs \<Rightarrow> \<exists>m. x = Some m \<and> merged_commits m = cs \<and> merged_ok sha [m] d1"
    using merge_group_ok [OF Cons.prems(1-5) C _ Cons.prems(8)] run x by simp_all
  show ?case
  proof (cases "group_item sha srt it")
    case None
    then show ?thesis using Cons.IH [OF Cons.prems(1,2) step(1) Cons.prems(4) step(2) _ _ Cons.prems(8)] Cons.prems(6,7)
        run x step(3) by (simp add: List.map_filter_simps)
  next
    case (Some cs)
    then obtain m where m: "x = Some m" "merged_commits m = cs" "merged_ok sha [m] d1" using step(3) by auto
    have "merged_ok sha (new @ [m]) d1" using step(2) m(3) by (auto simp: merged_ok_def)
    moreover have "merged_commits ` set (new @ [m]) \<subseteq> C" using Cons.prems(4) m(2) C Some by simp
    ultimately show ?thesis using Cons.IH [OF Cons.prems(1,2) step(1) _ _ _ _ Cons.prems(8), of "new @ [m]"] Cons.prems(6,7)
        run x m Some by (simp add: List.map_filter_simps)
  qed
qed (simp add: List.map_filter_simps)

lemma map_filter_set_mem: "x \<in> set xs \<Longrightarrow> f x = Some y \<Longrightarrow> y \<in> set (List.map_filter f xs)"
  by (induction xs) (auto simp: List.map_filter_simps split: option.splits)

section \<open>Properties\<close>

text \<open>
  C24: After a successful merge, and if stale directories can be removed, the records and the directory
  \<open>merged\<close> are exactly what the cache asks for: one record for every group of at least two live layers
  of the same application, version and architecture that has a binary module, with the commits in the
  order of the module names; every record has its directory, in which exactly these commits were
  checked out, whether it was built now or reused; and there is no other directory. This needs
  that the recorded directories were in order before, that the hash tells the commit lists apart
  and that it yields no name starting with \<open>tmp_\<close>.
\<close>

theorem mergeModules_spec:
  assumes "hash_ok sha C" and "merged_commits ` set old \<subseteq> C" and "merged_ok sha old dirs"
    and "(case queryMergedItems cache of None \<Rightarrow> [] | Some xs \<Rightarrow> xs) = old"
    and "groups = layerGroup (queryExistingLayerItem cache)"
    and "\<forall>it \<in> set groups. \<forall>cs. group_item sha srt it = Some cs \<longrightarrow> cs \<in> C"
    and "\<forall>name. me_removeStale me name"
    and "mergeModules me sha srt env dump (cache, dirs) = (Inr (), c', d')"
  shows "\<exists>new. queryMergedItems c' = Some new \<and> rc_layers (rcs_cache c') = rc_layers (rcs_cache cache) \<and>
    map merged_commits new = List.map_filter (group_item sha srt) groups \<and>
    merged_ok sha new d' \<and> dom d' = merged_id ` set new"
proof -
  obtain new d where mg: "merge_groups me sha srt (queryMergedItems cache) groups [] dirs = (Inr new, d)"
    and up: "updateMergedItems env dump new cache = (Inr (), c')"
    and d': "d' = (\<lambda>name. if name \<notin> merged_id ` set new then None else d name)"
    using assms(5,7,8) by (auto simp: mergeModules_def Let_def split: prod.splits sum.splits option.splits)
  have ok: "merged_ok sha new d" "map merged_commits new = List.map_filter (group_item sha srt) groups"
    using merge_groups_ok [OF assms(1-3) _ _ assms(6) mg assms(4)] by simp_all
  have "rcs_cache c' = (rcs_cache cache)\<lparr>rc_merged := Some new\<rparr>"
    using up by (auto simp: updateMergedItems_def split: prod.splits sum.splits dest!: writeToDisk_cacheD)
  moreover have "merged_ok sha new d'" "dom d' = merged_id ` set new"
    using ok(1) d' by (auto simp: merged_ok_def split: if_splits)
  ultimately show ?thesis using ok(2) by (simp add: queryMergedItems_def)
qed

definition demo_merge_env :: merge_env where
  "demo_merge_env = \<lparr>me_cleanTmp = (\<lambda>_. None), me_createTmp = (\<lambda>_. None), me_checkout = (\<lambda>_. None),
     me_cleanOut = (\<lambda>_. None), me_rename = (\<lambda>_. None), me_list = None, me_removeStale = (\<lambda>_. True)\<rparr>"

definition demo_module :: "string \<Rightarrow> string \<Rightarrow> layers_item" where
  "demo_module m c = \<lparr>item_commit = c, item_deleted = None, item_info = demo_info\<lparr>info_module := m\<rparr>, item_repo = ''stable''\<rparr>"

definition demo_modules :: repo_cache where
  "demo_modules = demo_cache [demo_module ''develop'' ''c2'', demo_module ''binary'' ''c1'']"

definition sort_by_module :: "layers_item list \<Rightarrow> layers_item list" where
  "sort_by_module = sort_key (\<lambda>l. info_module (item_info l))"

theorem mergeModules_spec_witness:
  "\<exists>new. queryMergedItems (fst (snd (mergeModules demo_merge_env (\<lambda>x. ''h'' @ x) sort_by_module demo_cache_env (\<lambda>_. [])
       (demo_modules, [''old'' \<mapsto> []])))) = Some new \<and> map merged_commits new = [[''c1'', ''c2'']]"
proof -
  let ?run = "mergeModules demo_merge_env (\<lambda>x. ''h'' @ x) sort_by_module demo_cache_env (\<lambda>_. []) (demo_modules, [''old'' \<mapsto> []])"
  let ?groups = "layerGroup (queryExistingLayerItem demo_modules)"
  have hash: "hash_ok (\<lambda>x. ''h'' @ x) {[''c1'', ''c2'']}" by (simp add: hash_ok_def)
  have item: "List.map_filter (group_item (\<lambda>x. ''h'' @ x) sort_by_module) ?groups = [[''c1'', ''c2'']]" by code_simp
  then have C: "\<forall>it \<in> set ?groups. \<forall>cs. group_item (\<lambda>x. ''h'' @ x) sort_by_module it = Some cs \<longrightarrow> cs \<in> {[''c1'', ''c2'']}"
    by (metis map_filter_set_mem list.set(1) list.set(2))
  have none: "(case queryMergedItems demo_modules of None \<Rightarrow> [] | Some xs \<Rightarrow> xs) = []" by code_simp
  have "fst ?run = Inr ()" by code_simp
  then have run: "?run = (Inr (), fst (snd ?run), snd (snd ?run))" by (metis prod.collapse)
  from mergeModules_spec [OF hash _ _ none refl C _ run] item show ?thesis
    by (auto simp: demo_merge_env_def merged_ok_def)
qed

end
