(* ===== verification/Repo_Export.thy ===== *)
theory Repo_Export
  imports Repo_Merge
begin

text \<open>
  Desktop integration, \<open>libs/linglong/src/linglong/repo/ostree_repo.cpp\<close>: links to the exported files of a
  layer in \<open>entries/share\<close>. The directory is a map from relative paths to links (with the absolute
  path of their target) or other files; directories themselves are left out. What a layer
  directory contains and the outcomes of the file system are fields of \<open>export_env\<close>.
\<close>

datatype share_entry = Link string | OtherFile

type_synonym share = "string \<rightharpoonup> share_entry"

text \<open>A file found below an export directory of a layer; \<open>xf_dangling\<close> marks a link to nowhere.\<close>

record export_file =
  xf_path :: string
  xf_dangling :: bool

record export_env =
  xe_entries :: "string \<Rightarrow> bool"
  xe_files :: "string \<Rightarrow> string \<Rightarrow> export_file list"
  xe_status :: "string \<Rightarrow> bool"
  xe_remove :: "string \<Rightarrow> bool"
  xe_link :: "string \<Rightarrow> bool"
  xe_isDir :: "string \<Rightarrow> bool"
  xe_targetExists :: "string \<Rightarrow> bool"

definition exportPaths :: "string list" where
  "exportPaths = [''applications'', ''mime'', ''icons'', ''dbus-1'', ''gnome-shell'', ''appdata'', ''metainfo'',
     ''plugins'', ''systemd'', ''deepin-manual'', ''deepin-elf-verify'']"

definition link_entry :: "export_env \<Rightarrow> string \<Rightarrow> share \<Rightarrow> export_file \<Rightarrow> share" where
  "link_entry xe layerDir es f =
     (if xf_dangling f then es
      else if \<not> xe_status xe (xf_path f) then es
      else if es (xf_path f) \<noteq> None \<and> \<not> xe_remove xe (xf_path f) then es
      else if \<not> xe_link xe (xf_path f) then es(xf_path f := None)
      else es(xf_path f \<mapsto> Link (layerDir @ ''/entries/share/'' @ xf_path f)))"

definition exportEntries ::
    "export_env \<Rightarrow> ostree_repo \<Rightarrow> layers_item \<Rightarrow> share \<Rightarrow> unit result \<times> share" where
  "exportEntries xe r item es =
     (let trace = ''export '' @ info_id (item_info item) in
      case getMergedModuleDir (xe_isDir xe) r item True of
        Inl e \<Rightarrow> (Inl (Err_wrap_msg trace ''get layer dir'' e), es)
      | Inr layerDir \<Rightarrow>
         (if \<not> xe_entries xe layerDir then (Inr (), es)
          else (Inr (), foldl (link_entry xe layerDir) es (concat (map (xe_files xe layerDir) exportPaths)))))"

definition exportReference ::
    "export_env \<Rightarrow> (layers_item list \<Rightarrow> layers_item list) \<Rightarrow> ostree_repo \<Rightarrow> reference \<Rightarrow> share \<Rightarrow> share" where
  "exportReference xe std_sort r ref es =
     (case getLayerItem std_sort (or_cache r) ref ''binary'' None of
        Inl _ \<Rightarrow> es
      | Inr item \<Rightarrow> snd (exportEntries xe r item es))"

definition unexportReference ::
    "export_env \<Rightarrow> (layers_item list \<Rightarrow> layers_item list) \<Rightarrow> ostree_repo \<Rightarrow> reference \<Rightarrow> share \<Rightarrow> share" where
  "unexportReference xe std_sort r ref es =
     (case getLayerDir_ref std_sort r ref ''binary'' None of
        Inl _ \<Rightarrow> es
      | Inr layerDir \<Rightarrow>
         (\<lambda>p. case es p of
                Some (Link target) \<Rightarrow>
                 (if starts_with target layerDir \<and> xe_remove xe p then None else Some (Link target))
              | x \<Rightarrow> x))"

definition removeDanglingXDGIntergation :: "export_env \<Rightarrow> share \<Rightarrow> share" where
  "removeDanglingXDGIntergation xe es =
     (\<lambda>p. case es p of
            Some (Link target) \<Rightarrow>
             (if \<not> xe_targetExists xe target \<and> xe_remove xe p then None else Some (Link target))
          | x \<Rightarrow> x)"

section \<open>Exporting everything\<close>

text \<open>
  The directories below \<open>entries\<close>, by name. When there is no \<open>share\<close> yet, the new directory is
  renamed from a path relative to the working directory of the process: \<open>xa_cwd\<close> is what is found
  there.
\<close>

type_synonym entry_dirs = "string \<rightharpoonup> share"

record export_all_env =
  xa_clean :: "(int \<times> string) option"
  xa_create :: "(int \<times> string) option"
  xa_cwd :: "(int \<times> string) + share"
  xa_renameOld :: "(int \<times> string) option"
  xa_renameNew :: "(int \<times> string) option"
  xa_removeOld :: "(int \<times> string) option"

fun export_items ::
    "export_env \<Rightarrow> ostree_repo \<Rightarrow> layers_item list \<Rightarrow> share \<Rightarrow> unit result \<times> share" where
  "export_items xe r [] es = (Inr (), es)"
| "export_items xe r (item # items) es =
     (if info_kind (item_info item) \<noteq> ''app'' then export_items xe r items es
      else case exportEntries xe r item es of
        (Inl e, es1) \<Rightarrow> (Inl e, es1)
      | (Inr _, es1) \<Rightarrow> export_items xe r items es1)"

definition exportAllEntries ::
    "export_all_env \<Rightarrow> export_env \<Rightarrow> string \<Rightarrow> string \<Rightarrow> ostree_repo \<Rightarrow> entry_dirs \<Rightarrow> unit result \<times> entry_dirs" where
  "exportAllEntries xa xe newId oldId r ds =
     (let trace = ''export all entries''; new = ''share_new_'' @ newId; oldshare = ''share_old_'' @ oldId in
      case (if ds new = None then None else xa_clean xa) of
        Some e \<Rightarrow> (Inl (Err_ec trace ''clean temp share directory'' e), ds)
      | None \<Rightarrow>
     (let ds1 = ds(new := None) in
      case xa_create xa of
        Some e \<Rightarrow> (Inl (Err_ec trace ''create temp share directory'' e), ds1)
      | None \<Rightarrow>
     (case export_items xe r (queryExistingLayerItem (or_cache r)) Map.empty of
        (Inl e, es) \<Rightarrow> (Inl e, ds1(new \<mapsto> es))
      | (Inr _, es) \<Rightarrow>
     (let ds2 = ds1(new \<mapsto> es) in
      case ds2 ''share'' of
        None \<Rightarrow>
         (case xa_cwd xa of
            Inl e \<Rightarrow> (Inl (Err_ec trace ''create new share symlink'' e), ds2)
          | Inr other \<Rightarrow> (Inr (), ds2(''share'' \<mapsto> other)))
      | Some old \<Rightarrow>
         (case xa_renameOld xa of
            Some e \<Rightarrow> (Inl (Err_ec trace ''rename old share directory'' e), ds2)
          | None \<Rightarrow>
             (let ds3 = ds2(''share'' := None, oldshare \<mapsto> old) in
              case xa_renameNew xa of
                Some e \<Rightarrow> (Inl (Err_ec trace ''create new share symlink'' e), ds3)
              | None \<Rightarrow>
                 (let ds4 = ds3(new := None, ''share'' \<mapsto> es) in
                  case xa_removeOld xa of
                    Some e \<Rightarrow> (Inl (Err_ec trace ''remove old share directory'' e), ds4)
                  | None \<Rightarrow> (Inr (), ds4(oldshare := None)))))))))"

section \<open>Lemmas\<close>

definition links_into :: "string \<Rightarrow> share \<Rightarrow> bool" where
  "links_into d es \<longleftrightarrow> (\<exists>p t. es p = Some (Link t) \<and> starts_with t d)"

text \<open>Every entry after linking is old or a link into the layer directory.\<close>

lemma link_entry_cases:
  "link_entry xe d es f p \<in> {es p, None, Some (Link (d @ ''/entries/share/'' @ p))}"
  by (simp add: link_entry_def)

lemma link_fold_cases:
  "foldl (link_entry xe d) es fs p \<in> {es p, None, Some (Link (d @ ''/entries/share/'' @ p))}"
proof (induction fs arbitrary: es)
  case (Cons f fs)
  show ?case using Cons [of "link_entry xe d es f"] link_entry_cases [of xe d es f p] by auto
qed simp

text \<open>A file that can be linked is linked.\<close>

lemma link_fold_present:
  assumes "f \<in> set fs" "\<not> xf_dangling f" "\<forall>p. xe_status xe p \<and> xe_remove xe p \<and> xe_link xe p"
  shows "foldl (link_entry xe d) es fs (xf_path f) = Some (Link (d @ ''/entries/share/'' @ xf_path f))"
  using assms(1)
proof (induction fs rule: rev_induct)
  case (snoc g fs)
  show ?case
  proof (cases "xf_path g = xf_path f \<and> \<not> xf_dangling g")
    case False
    then have "f \<in> set fs" using snoc.prems assms(2) by auto
    then show ?thesis using snoc.IH False assms(3) by (auto simp: link_entry_def)
  qed (use assms(3) in \<open>auto simp: link_entry_def\<close>)
qed simp

lemma getMergedModuleDir_cases:
  assumes "getMergedModuleDir ex r item True = Inr d"
  shows "d = layer_path r item \<and> d \<in> set (or_layerDirs r) \<or> (\<exists>m. d = or_repoDir r @ ''/merged/'' @ m \<and> ex d)"
  using assms by (auto simp: getMergedModuleDir_def getLayerDir_def Let_def find_Some_iff split: option.splits if_splits)

lemma merged_not_layer: "\<not> starts_with (or_repoDir r @ ''/merged/'' @ m) (layer_path r item)"
  by (auto simp: starts_with_iff layer_path_def)

lemma unexport_at:
  assumes "getLayerItem std_sort (or_cache r) ref ''binary'' None = Inr item" "layer_path r item \<in> set (or_layerDirs r)"
    and "\<forall>p. xe_remove xe p"
  shows "unexportReference xe std_sort r ref es p =
    (if \<exists>t. es p = Some (Link t) \<and> starts_with t (layer_path r item) then None else es p)"
  using assms by (auto simp: unexportReference_def getLayerDir_ref_def getLayerDir_def split: option.splits share_entry.splits)

text \<open>The links of a full export point into the directories of live applications.\<close>

lemma exportEntries_links:
  assumes "exportEntries xe r item es = (res, es')" "es' p = Some (Link t)"
  shows "es p = Some (Link t) \<or>
    (\<exists>d. getMergedModuleDir (xe_isDir xe) r item True = Inr d \<and> t = d @ ''/entries/share/'' @ p)"
proof (cases "getMergedModuleDir (xe_isDir xe) r item True")
  case (Inr d)
  then show ?thesis
    using assms link_fold_cases [of xe d es "concat (map (xe_files xe d) exportPaths)" p]
    by (auto simp: exportEntries_def Let_def split: if_splits)
qed (use assms in \<open>simp add: exportEntries_def Let_def\<close>)

lemma export_items_links:
  assumes "export_items xe r items es = (res, es')" "es' p = Some (Link t)"
  shows "es p = Some (Link t) \<or> (\<exists>item \<in> set items. info_kind (item_info item) = ''app'' \<and>
    (\<exists>d. getMergedModuleDir (xe_isDir xe) r item True = Inr d \<and> t = d @ ''/entries/share/'' @ p))"
  using assms
proof (induction xe r items es rule: export_items.induct)
  case (2 xe r item items es)
  show ?case
  proof (cases "info_kind (item_info item) \<noteq> ''app''")
    case False
    obtain q es1 where ex: "exportEntries xe r item es = (q, es1)" by (metis surj_pair)
    show ?thesis
    proof (cases q)
      case (Inl e)
      then show ?thesis using "2.prems" ex False exportEntries_links [OF ex] by auto
    next
      case (Inr u)
      then show ?thesis using 2 ex False exportEntries_links [OF ex, of p t] by auto
    qed
  qed (use 2 in auto)
qed simp

section \<open>Properties\<close>

text \<open>
  Exporting a reference links every exportable file of it and touches no other entry.
  Unexporting it again removes all its links when they were made into the layer directory; but when
  the modules of the application had been merged, the links were made into the merged directory and
  every one of them is left behind.
\<close>

theorem export_unexport:
  assumes "getLayerItem std_sort (or_cache r) ref ''binary'' None = Inr item"
    and "layer_path r item \<in> set (or_layerDirs r)"
    and "getMergedModuleDir (xe_isDir xe) r item True = Inr d" and "xe_entries xe d"
    and "\<forall>p. xe_status xe p \<and> xe_remove xe p \<and> xe_link xe p"
    and "files = concat (map (xe_files xe d) exportPaths)"
    and "es1 = exportReference xe std_sort r ref es" and "es2 = unexportReference xe std_sort r ref es1"
  shows "(\<forall>f \<in> set files. \<not> xf_dangling f \<longrightarrow> es1 (xf_path f) = Some (Link (d @ ''/entries/share/'' @ xf_path f))) \<and>
    (\<forall>p. (\<forall>f \<in> set files. xf_path f = p \<longrightarrow> xf_dangling f) \<longrightarrow> es1 p = es p) \<and>
    (if d = layer_path r item then \<not> links_into d es2
     else \<forall>f \<in> set files. \<not> xf_dangling f \<longrightarrow> es2 (xf_path f) = es1 (xf_path f))"
proof -
  have es1: "es1 = foldl (link_entry xe d) es files"
    using assms by (simp add: exportReference_def exportEntries_def Let_def)
  have linked: "es1 (xf_path f) = Some (Link (d @ ''/entries/share/'' @ xf_path f))"
    if "f \<in> set files" "\<not> xf_dangling f" for f
    unfolding es1 by (rule link_fold_present [OF that assms(5)])
  have other: "es1 p = es p" if "\<forall>f \<in> set files. xf_path f = p \<longrightarrow> xf_dangling f" for p
    unfolding es1 using that by (induction files rule: rev_induct) (auto simp: link_entry_def)
  have es2: "es2 p = (if \<exists>t. es1 p = Some (Link t) \<and> starts_with t (layer_path r item) then None else es1 p)" for p
    using unexport_at [OF assms(1,2)] assms(5,8) by blast
  have gone: "\<not> links_into d es2" if "d = layer_path r item"
    using es2 that by (auto simp: links_into_def split: if_splits)
  have kept: "es2 (xf_path f) = es1 (xf_path f)" if f: "f \<in> set files" "\<not> xf_dangling f" and d: "d \<noteq> layer_path r item" for f
  proof -
    obtain m where "d = or_repoDir r @ ''/merged/'' @ m" using getMergedModuleDir_cases [OF assms(3)] d by blast
    then have "\<not> starts_with (d @ ''/entries/share/'' @ xf_path f) (layer_path r item)"
      using merged_not_layer [of r "m @ ''/entries/share/'' @ xf_path f" item] by simp
    then show ?thesis using linked [OF f] es2 by auto
  qed
  show ?thesis using linked other gone kept by (cases "d = layer_path r item") auto
qed

definition demo_export_env :: export_env where
  "demo_export_env = \<lparr>xe_entries = (\<lambda>_. True),
     xe_files = (\<lambda>d k. if k = ''applications'' then [\<lparr>xf_path = ''applications/a.desktop'', xf_dangling = False\<rparr>] else []),
     xe_status = (\<lambda>_. True), xe_remove = (\<lambda>_. True), xe_link = (\<lambda>_. True), xe_isDir = (\<lambda>_. True),
     xe_targetExists = (\<lambda>_. True)\<rparr>"

definition demo_merged_repo :: ostree_repo where
  "demo_merged_repo = \<lparr>or_repoDir = ''/r'', or_cache = (let c = demo_cache [demo_module ''binary'' ''c1''] in
       c\<lparr>rcs_cache := (rcs_cache c)\<lparr>rc_merged := Some [\<lparr>merged_binaryCommit = Some ''c1'',
         merged_commits = [''c1'', ''c2''], merged_id = ''m'', merged_modules = [''binary'', ''develop''],
         merged_name = None\<rparr>]\<rparr>\<rparr>),
     or_refs = Map.empty, or_layerDirs = [''/r/layers/c1'']\<rparr>"

theorem export_unexport_witness:
  "unexportReference demo_export_env (\<lambda>xs. xs) demo_merged_repo
     \<lparr>ref_channel = ''main'', ref_id = ''org.deepin.demo'',
      ref_version = \<lparr>major = 1, minor = 0, patch = 0, tweak = Some 0\<rparr>, ref_arch = X86_64\<rparr>
     (exportReference demo_export_env (\<lambda>xs. xs) demo_merged_repo
     \<lparr>ref_channel = ''main'', ref_id = ''org.deepin.demo'',
      ref_version = \<lparr>major = 1, minor = 0, patch = 0, tweak = Some 0\<rparr>, ref_arch = X86_64\<rparr> Map.empty) ''applications/a.desktop''
   = Some (Link ''/r/merged/m/entries/share/applications/a.desktop'')"
proof -
  let ?ref = "\<lparr>ref_channel = ''main'', ref_id = ''org.deepin.demo'',
      ref_version = \<lparr>major = 1, minor = 0, patch = 0, tweak = Some 0\<rparr>, ref_arch = X86_64\<rparr>"
  have item: "getLayerItem (\<lambda>xs. xs) (or_cache demo_merged_repo) ?ref ''binary'' None = Inr (demo_module ''binary'' ''c1'')"
    and dir: "layer_path demo_merged_repo (demo_module ''binary'' ''c1'') \<in> set (or_layerDirs demo_merged_repo)"
    and merged: "getMergedModuleDir (xe_isDir demo_export_env) demo_merged_repo (demo_module ''binary'' ''c1'') True = Inr ''/r/merged/m''"
    and files: "[\<lparr>xf_path = ''applications/a.desktop'', xf_dangling = False\<rparr>] = concat (map (xe_files demo_export_env ''/r/merged/m'') exportPaths)"
    and ne: "''/r/merged/m'' \<noteq> layer_path demo_merged_repo (demo_module ''binary'' ''c1'')"
    by code_simp+
  from export_unexport [OF item dir merged _ _ files refl refl, of Map.empty] ne show ?thesis
    by (simp add: demo_export_env_def)
qed

text \<open>
  A full export swaps the directory \<open>share\<close> safely: when it succeeds over an existing \<open>share\<close>, the
  new one holds only links into the directories of live applications and no temporary directory is
  left; whenever it fails, the old \<open>share\<close> is still there, in place or under its temporary name,
  or the new one is complete. Without an existing \<open>share\<close> it depends on a path relative to the
  working directory and fails when there is nothing.
\<close>

theorem exportAllEntries_spec:
  assumes "exportAllEntries xa xe newId oldId r ds = (res, ds')"
    and "new = ''share_new_'' @ newId" and "oldshare = ''share_old_'' @ oldId"
  shows "(is_ok res \<and> ds ''share'' \<noteq> None \<longrightarrow> ds' new = None \<and> ds' oldshare = None \<and>
      (\<exists>es. ds' ''share'' = Some es \<and> (\<forall>p t. es p = Some (Link t) \<longrightarrow>
        (\<exists>item \<in> set (queryExistingLayerItem (or_cache r)). info_kind (item_info item) = ''app'' \<and>
          (\<exists>d. getMergedModuleDir (xe_isDir xe) r item True = Inr d \<and> starts_with t d))))) \<and>
    (\<forall>old. ds ''share'' = Some old \<and> \<not> is_ok res \<longrightarrow> ds' ''share'' = Some old \<or> ds' oldshare = Some old) \<and>
    (\<forall>e. ds ''share'' = None \<and> xa_cwd xa = Inl e \<longrightarrow> \<not> is_ok res)"
proof -
  let ?items = "queryExistingLayerItem (or_cache r)"
  obtain q es where ex: "export_items xe r ?items Map.empty = (q, es)" by (metis surj_pair)
  have links: "\<exists>item \<in> set ?items. info_kind (item_info item) = ''app'' \<and>
      (\<exists>d. getMergedModuleDir (xe_isDir xe) r item True = Inr d \<and> starts_with t d)"
    if "es p = Some (Link t)" for p t
    using export_items_links [OF ex that] by fastforce
  have names: "new \<noteq> ''share''" "oldshare \<noteq> ''share''" "new \<noteq> oldshare" using assms(2,3) by auto
  note run = assms(1) [unfolded exportAllEntries_def Let_def assms(2,3) [symmetric] ex]
  show ?thesis
  proof (cases "ds ''share''")
    case None
    then show ?thesis using run names
      by (auto split: option.splits sum.splits if_splits)
  next
    case (Some old)
    have ok: "ds' new = None \<and> ds' oldshare = None \<and> ds' ''share'' = Some es" if "is_ok res"
      using run names Some that by (auto split: option.splits sum.splits if_splits)
    have keep: "ds' ''share'' = Some old \<or> ds' oldshare = Some old" if "\<not> is_ok res"
      using run names Some that by (auto split: option.splits sum.splits if_splits)
    have "\<exists>es. ds' ''share'' = Some es \<and> (\<forall>p t. es p = Some (Link t) \<longrightarrow> (\<exists>item \<in> set ?items.
        info_kind (item_info item) = ''app'' \<and> (\<exists>d. getMergedModuleDir (xe_isDir xe) r item True = Inr d \<and> starts_with t d)))"
      if "is_ok res" using ok [OF that] links by (intro exI [of _ es]) simp
    then show ?thesis using ok keep Some by auto
  qed
qed

theorem exportAllEntries_spec_witness:
  "snd (exportAllEntries \<lparr>xa_clean = None, xa_create = None, xa_cwd = Inl (2, []), xa_renameOld = None,
      xa_renameNew = Some (1, []), xa_removeOld = None\<rparr> demo_export_env ''a'' ''b'' demo_merged_repo
      [''share'' \<mapsto> Map.empty]) ''share_old_b'' = Some Map.empty"
proof -
  let ?run = "exportAllEntries \<lparr>xa_clean = None, xa_create = None, xa_cwd = Inl (2, []), xa_renameOld = None,
      xa_renameNew = Some (1, []), xa_removeOld = None\<rparr> demo_export_env ''a'' ''b'' demo_merged_repo
      [''share'' \<mapsto> Map.empty]"
  have "\<not> is_ok (fst ?run)" "snd ?run ''share'' = None" by code_simp+
  with exportAllEntries_spec [OF surjective_pairing refl refl] show ?thesis
    by (metis append_Cons append_Nil fun_upd_same option.distinct(1))
qed

end
