(* ===== verification/Package_Jobs.thy ===== *)
theory Package_Jobs
  imports Task_Queue Repo_Update Repo_Export
begin

text \<open>
  What the package manager does to the repository, \<open>libs/linglong/src/linglong/package_manager/package_manager.cpp\<close>:
  the bodies of the install, uninstall, update, prune and deferred-uninstall jobs, and the lock of the
  repository. The manager only uses the public interface of \<open>OSTreeRepo\<close>, the record \<open>repo_ops\<close>
  over a state \<open>'w\<close>; \<open>ostree_ops\<close> is that interface on the model of \<open>OSTreeRepo\<close>, where every call that
  changes something has outcomes of its own. \<open>None\<close> is a process that ended: \<open>qFatal\<close>, or the
  dereference of an \<open>expected\<close> without a value.
\<close>

section \<open>The repository as the manager sees it\<close>

record 'w repo_ops =
  ro_clearReference :: "'w \<Rightarrow> fuzzy_reference \<Rightarrow> clear_option \<Rightarrow> string \<Rightarrow> reference result option"
  ro_getLayerItem :: "'w \<Rightarrow> reference \<Rightarrow> string \<Rightarrow> layers_item result"
  ro_getLayerDir :: "'w \<Rightarrow> reference \<Rightarrow> string \<Rightarrow> string result"
  ro_info :: "'w \<Rightarrow> string \<Rightarrow> package_info_v2 result"
  ro_valid :: "'w \<Rightarrow> string \<Rightarrow> bool"
  ro_getModuleList :: "'w \<Rightarrow> reference \<Rightarrow> string list"
  ro_listLocalBy :: "'w \<Rightarrow> repo_cache_query \<Rightarrow> layers_item list"
  ro_listLocal :: "'w \<Rightarrow> package_info_v2 list"
  ro_remove :: "reference \<Rightarrow> string \<Rightarrow> string option \<Rightarrow> 'w \<Rightarrow> unit result \<times> 'w"
  ro_markDeleted :: "reference \<Rightarrow> bool \<Rightarrow> string \<Rightarrow> 'w \<Rightarrow> unit result \<times> 'w"
  ro_pull :: "reference \<Rightarrow> string \<Rightarrow> package_task \<times> 'w \<Rightarrow> package_task \<times> 'w"
  ro_export :: "reference \<Rightarrow> 'w \<Rightarrow> 'w"
  ro_unexport :: "reference \<Rightarrow> 'w \<Rightarrow> 'w"
  ro_merge :: "'w \<Rightarrow> unit result \<times> 'w"
  ro_prune :: "'w \<Rightarrow> unit result \<times> 'w"
  ro_tmpId :: string

definition local_only :: clear_option where
  "local_only = \<lparr>opt_forceRemote = False, opt_fallbackToRemote = False\<rparr>"

definition force_remote :: clear_option where
  "force_remote = \<lparr>opt_forceRemote = True, opt_fallbackToRemote = True\<rparr>"

definition fallback_remote :: clear_option where
  "fallback_remote = \<lparr>opt_forceRemote = False, opt_fallbackToRemote = True\<rparr>"

section \<open>The lock and the running applications\<close>

text \<open>\<open>lk_open\<close>: \<open>lockFd\<close> is not -1; \<open>lk_leaked\<close> counts descriptors that were open when \<open>lockFd\<close> was overwritten.\<close>

record lock_state =
  lk_open :: bool
  lk_held :: bool
  lk_leaked :: nat

record lock_env =
  le_open :: "string option"
  le_lock :: "string option"
  le_unlock :: "string option"

definition lockRepo :: "lock_env \<Rightarrow> lock_state \<Rightarrow> unit result \<times> lock_state" where
  "lockRepo le s =
     (let trace = ''lock whole repo''; s1 = s\<lparr>lk_leaked := lk_leaked s + (if lk_open s then 1 else 0)\<rparr> in
      case le_open le of
        Some e \<Rightarrow> (Inl (Err trace (''failed to create lock file /run/linglong/lock: '' @ e) (-1)), s1\<lparr>lk_open := False\<rparr>)
      | None \<Rightarrow>
         (case le_lock le of
            Some e \<Rightarrow> (Inl (Err trace (''failed to lock /run/linglong/lock: '' @ e) (-1)), s1\<lparr>lk_open := True\<rparr>)
          | None \<Rightarrow> (Inr (), s1\<lparr>lk_open := True, lk_held := True\<rparr>)))"

definition unlockRepo :: "lock_env \<Rightarrow> lock_state \<Rightarrow> unit result \<times> lock_state" where
  "unlockRepo le s =
     (if \<not> lk_open s then (Inr (), s)
      else case le_unlock le of
        Some e \<Rightarrow> (Inl (Err ''unlock whole repo'' (''failed to unlock /run/linglong/lock: '' @ e) (-1)), s)
      | None \<Rightarrow> (Inr (), s\<lparr>lk_open := False, lk_held := False\<rparr>))"

record container_info =
  ci_app :: string
  ci_base :: string
  ci_containerID :: string
  ci_runtime :: "string option"

text \<open>
  \<open>/run/linglong\<close>: for every entry whether it is a directory and its files; for every file its name,
  whether it is a regular file, whether \<open>/proc/<name>\<close> exists (or the error of asking), and what its
  JSON gives. An \<open>Inl\<close> is the error of listing a directory.
\<close>

record state_file =
  sf_pid :: string
  sf_regular :: bool
  sf_proc :: "string + bool"
  sf_content :: "container_info result"

type_synonym run_dir = "string + (string \<times> bool \<times> (string + state_file list)) list"

fun read_state_files :: "string \<Rightarrow> state_file list \<Rightarrow> container_info list \<Rightarrow> container_info list result" where
  "read_state_files d [] acc = Inr acc"
| "read_state_files d (f # fs) acc =
     (let trace = ''get all running containers'' in
      if \<not> sf_regular f then read_state_files d fs acc
      else case sf_proc f of
        Inl e \<Rightarrow> Inl (Err trace (''failed to get state of /proc/'' @ sf_pid f @ '': '' @ e) (-1))
      | Inr False \<Rightarrow> read_state_files d fs acc
      | Inr True \<Rightarrow>
         (case sf_content f of
            Inl e \<Rightarrow> Inl (Err trace (''failed to load info from '' @ d @ ''/'' @ sf_pid f @ '': '' @ err_message e) (-1))
          | Inr c \<Rightarrow> read_state_files d fs (acc @ [c])))"

fun read_user_dirs ::
    "(string \<times> bool \<times> (string + state_file list)) list \<Rightarrow> container_info list \<Rightarrow> container_info list result" where
  "read_user_dirs [] acc = Inr acc"
| "read_user_dirs ((d, isDir, content) # ds) acc =
     (if \<not> isDir then read_user_dirs ds acc
      else case content of
        Inl e \<Rightarrow> Inl (Err ''get all running containers'' (''failed to list '' @ d @ '': '' @ e) (-1))
      | Inr fs \<Rightarrow> (case read_state_files d fs acc of Inl e \<Rightarrow> Inl e | Inr acc' \<Rightarrow> read_user_dirs ds acc'))"

definition getAllRunningContainers :: "run_dir \<Rightarrow> container_info list result" where
  "getAllRunningContainers rd =
     (case rd of
        Inl e \<Rightarrow> Inl (Err ''get all running containers'' (''failed to list /run/linglong: '' @ e) (-1))
      | Inr ds \<Rightarrow> read_user_dirs ds [])"

record pm_env =
  pe_lock :: lock_env
  pe_running :: run_dir

definition isRefBusy :: "pm_env \<Rightarrow> reference \<Rightarrow> lock_state \<Rightarrow> bool result \<times> lock_state" where
  "isRefBusy pe ref s =
     (let trace = ''check if ref['' @ Reference_toString ref @ ''] is used by some apps'' in
      case lockRepo (pe_lock pe) s of
        (Inl e, s1) \<Rightarrow>
          (Inl (Err trace (''failed to lock repo, underlying data will not be removed:'' @ err_message e) (-1)), s1)
      | (Inr _, s1) \<Rightarrow>
         (let s2 = snd (unlockRepo (pe_lock pe) s1) in
          case getAllRunningContainers (pe_running pe) of
            Inl e \<Rightarrow> (Inl (Err trace (''failed to get running containers:'' @ err_message e) (-1)), s2)
          | Inr running \<Rightarrow> (Inr (\<exists>c \<in> set running. ci_app c = Reference_toString ref), s2)))"

section \<open>Removing\<close>

text \<open>The rollbacks of the manager: transformers of the repository.\<close>

definition repull :: "'w repo_ops \<Rightarrow> reference \<Rightarrow> string \<Rightarrow> 'w \<Rightarrow> 'w" where
  "repull ops ref moduleName w = snd (ro_pull ops ref moduleName (createTemporaryTask (ro_tmpId ops), w))"

definition unremove :: "'w repo_ops \<Rightarrow> reference \<Rightarrow> string \<Rightarrow> 'w \<Rightarrow> 'w" where
  "unremove ops ref moduleName w = snd (ro_remove ops ref moduleName None w)"

definition remark :: "'w repo_ops \<Rightarrow> reference \<Rightarrow> bool \<times> string \<Rightarrow> 'w \<Rightarrow> 'w" where
  "remark ops ref a w = snd (ro_markDeleted ops ref (fst a) (snd a) w)"

fun mark_modules ::
    "'w repo_ops \<Rightarrow> reference \<Rightarrow> string list \<Rightarrow> 'w transaction \<Rightarrow> 'w \<Rightarrow> error option \<times> 'w transaction \<times> 'w" where
  "mark_modules ops ref [] tx w = (None, tx, w)"
| "mark_modules ops ref (m # ms) tx w =
     (case ro_markDeleted ops ref True m w of
        (Inl e, w1) \<Rightarrow> (Some e, tx, w1)
      | (Inr _, w1) \<Rightarrow> mark_modules ops ref ms (addRollBack (remark ops ref) (False, m) tx) w1)"

text \<open>
  The loop of \<open>removeAfterInstall\<close> over the modules calls \<open>remove(oldRef)\<close> without the module, so with
  the default \<open>binary\<close>, every time.
\<close>

fun remove_old_modules ::
    "'w repo_ops \<Rightarrow> reference \<Rightarrow> string list \<Rightarrow> 'w transaction \<Rightarrow> 'w \<Rightarrow> error option \<times> 'w transaction \<times> 'w" where
  "remove_old_modules ops ref [] tx w = (None, tx, w)"
| "remove_old_modules ops ref (m # ms) tx w =
     (case ro_remove ops ref ''binary'' None w of
        (Inl e, w1) \<Rightarrow> (Some e, tx, w1)
      | (Inr _, w1) \<Rightarrow> remove_old_modules ops ref ms (addRollBack (repull ops ref) m tx) w1)"

definition removeAfterInstall ::
    "'w repo_ops \<Rightarrow> pm_env \<Rightarrow> reference \<Rightarrow> reference \<Rightarrow> string list \<Rightarrow> lock_state \<times> 'w \<Rightarrow>
     unit result \<times> lock_state \<times> 'w" where
  "removeAfterInstall ops pe oldRef newRef modules s =
     (case s of (ls, w) \<Rightarrow>
      let trace = ''remove old reference after install'' in
      case isRefBusy pe oldRef ls of
        (Inl e, ls1) \<Rightarrow> (Inl (Err_wrap trace e), ls1, w)
      | (Inr True, ls1) \<Rightarrow>
         (case mark_modules ops oldRef modules Transaction_new w of
            (Some e, tx, w1) \<Rightarrow>
              (Inl (Err_wrap_msg trace (''Failed to mark old reference '' @ Reference_toString oldRef @ '' as deleted'') e),
               ls1, Transaction_dtor tx w1)
          | (None, tx, w1) \<Rightarrow> (Inr (), ls1, Transaction_dtor (commit tx) w1))
      | (Inr False, ls1) \<Rightarrow>
         (case remove_old_modules ops oldRef modules
                 (addRollBack (ro_export ops) oldRef Transaction_new) (ro_unexport ops oldRef w) of
            (Some e, tx, w1) \<Rightarrow>
              (Inl (Err_wrap_msg trace (''Failed to remove old reference '' @ Reference_toString oldRef) e),
               ls1, Transaction_dtor tx w1)
          | (None, tx, w1) \<Rightarrow>
              (Inr (), ls1, Transaction_dtor (commit tx) (ro_export ops newRef (snd (ro_merge ops w1))))))"

fun remove_modules ::
    "'w repo_ops \<Rightarrow> reference \<Rightarrow> string list \<Rightarrow> 'w transaction \<Rightarrow> 'w \<Rightarrow> error option \<times> 'w transaction \<times> 'w" where
  "remove_modules ops ref [] tx w = (None, tx, w)"
| "remove_modules ops ref (m # ms) tx w =
     (case ro_remove ops ref m None w of
        (Inl e, w1) \<Rightarrow> (Some e, tx, w1)
      | (Inr _, w1) \<Rightarrow> remove_modules ops ref ms (addRollBack (repull ops ref) m tx) w1)"

definition UninstallRef ::
    "'w repo_ops \<Rightarrow> reference \<Rightarrow> string list \<Rightarrow> package_task \<times> 'w \<Rightarrow> package_task \<times> 'w" where
  "UninstallRef ops ref modules s =
     (case s of (t, w) \<Rightarrow>
      if isTaskDone (t_subState t) then (t, w)
      else let trace = ''uninstall ref '' @ Reference_toString ref;
               t1 = updateSubState Uninstall ''Remove layer files'' t in
        case remove_modules ops ref modules Transaction_new w of
          (Some e, tx, w1) \<Rightarrow> (updateState Failed (err_message (Err_wrap trace e)) None t1, Transaction_dtor tx w1)
        | (None, tx, w1) \<Rightarrow> (t1, Transaction_dtor (commit tx) w1))"

definition Uninstall_job ::
    "'w repo_ops \<Rightarrow> reference \<Rightarrow> string \<Rightarrow> package_task \<times> 'w \<Rightarrow> package_task \<times> 'w" where
  "Uninstall_job ops ref moduleName s =
     (case s of (t, w) \<Rightarrow>
      if isTaskDone (t_subState t) then (t, w)
      else let t1 = updateSubState PreAction ''prepare uninstalling package''
                      (updateState Processing ''start to uninstalling package'' None t);
               whole = (moduleName = ''binary'' \<or> moduleName = ''runtime'');
               removedModules = (if whole then ro_getModuleList ops w ref else [moduleName]);
               w1 = (if whole then ro_unexport ops ref w else w);
               tx = (if whole then addRollBack (ro_export ops) ref Transaction_new else Transaction_new) in
        case UninstallRef ops ref removedModules (t1, w1) of
          (t2, w2) \<Rightarrow>
            (if isTaskDone (t_subState t2) then (t2, Transaction_dtor tx w2)
             else (updateState Succeed (''Uninstall '' @ Reference_toString ref @ '' success'') None t2,
                   snd (ro_merge ops (Transaction_dtor (commit tx) w2)))))"

section \<open>Installing\<close>

definition resolve_dep ::
    "'w repo_ops \<Rightarrow> string \<Rightarrow> 'w \<Rightarrow> (fuzzy_reference result \<times> reference result) option" where
  "resolve_dep ops raw w =
     (case FuzzyReference_parse raw of
        Inl e \<Rightarrow> Some (Inl e, Inl e)
      | Inr fuzzy \<Rightarrow>
         (case ro_clearReference ops w fuzzy fallback_remote ''binary'' of
            None \<Rightarrow> None
          | Some r \<Rightarrow> Some (Inr fuzzy, r)))"

text \<open>
  \<open>pullDependency\<close>. The transaction that removes a pulled runtime again is committed at the end, and
  runs its rollback on every return after the runtime has been pulled.
\<close>

definition pull_base ::
    "'w repo_ops \<Rightarrow> string \<Rightarrow> package_info_v2 \<Rightarrow> string \<Rightarrow> 'w transaction \<Rightarrow> package_task \<times> 'w \<Rightarrow>
     (package_task \<times> 'w) option" where
  "pull_base ops trace info moduleName tx s =
     (case s of (t, w) \<Rightarrow>
      case resolve_dep ops (info_base info) w of
        None \<Rightarrow> None
      | Some (_, Inl e) \<Rightarrow> Some (updateState Failed (err_message (Err_wrap trace e)) None t, Transaction_dtor tx w)
      | Some (_, Inr base) \<Rightarrow>
         (let t1 = updateSubState InstallBase (''Installing base '' @ Reference_toString base) t in
          case ro_getLayerDir ops w base moduleName of
            Inr _ \<Rightarrow> Some (t1, Transaction_dtor (commit tx) w)
          | Inl _ \<Rightarrow>
             (if isTaskDone (t_subState t1) then Some (t1, Transaction_dtor tx w)
              else case ro_pull ops base moduleName (t1, w) of
                (t2, w2) \<Rightarrow> (if isTaskDone (t_subState t2) then Some (t2, Transaction_dtor tx w2)
                            else Some (t2, Transaction_dtor (commit tx) w2)))))"

definition pullDependency ::
    "'w repo_ops \<Rightarrow> package_info_v2 \<Rightarrow> string \<Rightarrow> package_task \<times> 'w \<Rightarrow> (package_task \<times> 'w) option" where
  "pullDependency ops info moduleName s =
     (case s of (t, w) \<Rightarrow>
      if info_kind info \<noteq> ''app'' then Some (t, w)
      else if moduleName \<noteq> ''binary'' \<and> moduleName \<noteq> ''runtime'' then Some (t, w)
      else let trace = ''pull dependencies of '' @ info_id info in
        case info_runtime info of
          None \<Rightarrow> pull_base ops trace info moduleName Transaction_new (t, w)
        | Some rt \<Rightarrow>
           (case resolve_dep ops rt w of
              None \<Rightarrow> None
            | Some (Inl e, _) \<Rightarrow> Some (updateState Failed (err_message (Err_wrap trace e)) None t, w)
            | Some (Inr _, Inl e) \<Rightarrow> Some (updateState Failed (err_message e) None t, w)
            | Some (Inr _, Inr runtime) \<Rightarrow>
               (let t1 = updateSubState InstallRuntime (''Installing runtime '' @ Reference_toString runtime) t in
                case ro_getLayerDir ops w runtime ''binary'' of
                  Inr _ \<Rightarrow> pull_base ops trace info moduleName Transaction_new (t1, w)
                | Inl _ \<Rightarrow>
                   (if isTaskDone (t_subState t1) then Some (t1, w)
                    else case ro_pull ops runtime moduleName (t1, w) of
                      (t2, w2) \<Rightarrow>
                        (if isTaskDone (t_subState t2) then Some (t2, w2)
                         else pull_base ops trace info moduleName
                                (addRollBack (unremove ops runtime) moduleName Transaction_new) (t2, w2))))))"

text \<open>The loop of \<open>InstallRef\<close> over the layers marked as deleted; the flag is false when it returned early.\<close>

definition same_module :: "string \<Rightarrow> string \<Rightarrow> bool" where
  "same_module item m =
     (m = ''runtime'' \<and> item = ''binary'' \<or> m = ''binary'' \<and> item = ''runtime'' \<or> m = item)"

fun unmark_deleted ::
    "'w repo_ops \<Rightarrow> reference \<Rightarrow> layers_item list \<Rightarrow> string list \<Rightarrow> 'w transaction \<Rightarrow> package_task \<times> 'w \<Rightarrow>
     bool \<times> string list \<times> 'w transaction \<times> package_task \<times> 'w" where
  "unmark_deleted ops ref [] modules tx (t, w) = (True, modules, tx, t, w)"
| "unmark_deleted ops ref (item # items) modules tx (t, w) =
     (if isTaskDone (t_subState t) then (False, modules, tx, t, w)
      else let im = info_module (item_info item) in
        case index_of (same_module im) modules of
          None \<Rightarrow> unmark_deleted ops ref items modules tx (t, w)
        | Some k \<Rightarrow>
           (case ro_markDeleted ops ref False im w of
              (res, w1) \<Rightarrow>
                unmark_deleted ops ref items (erase_at k modules) (addRollBack (remark ops ref) (True, im) tx)
                  (if is_ok res then t else updateState Failed ''install failed'' None t, w1)))"

fun pull_modules ::
    "'w repo_ops \<Rightarrow> string \<Rightarrow> reference \<Rightarrow> string list \<Rightarrow> 'w transaction \<Rightarrow> package_task \<times> 'w \<Rightarrow>
     (bool \<times> 'w transaction \<times> package_task \<times> 'w) option" where
  "pull_modules ops trace ref [] tx (t, w) = Some (True, tx, t, w)"
| "pull_modules ops trace ref (m # ms) tx (t, w) =
     (if isTaskDone (t_subState t) then Some (False, tx, t, w)
      else case ro_pull ops ref m (t, w) of
        (t1, w1) \<Rightarrow>
          (if isTaskDone (t_subState t1) then Some (False, tx, t1, w1)
           else let tx1 = addRollBack (unremove ops ref) m tx in
             if m \<noteq> ''binary'' \<and> m \<noteq> ''runtime'' then pull_modules ops trace ref ms tx1 (t1, w1)
             else case ro_getLayerDir ops w1 ref ''binary'' of
               Inl e \<Rightarrow> Some (False, tx1, updateState Failed (err_message (Err_wrap trace e)) None t1, w1)
             | Inr d \<Rightarrow>
                (case ro_info ops w1 d of
                   Inl e \<Rightarrow> Some (False, tx1, updateState Failed (err_message (Err_wrap trace e)) None t1, w1)
                 | Inr info \<Rightarrow>
                    (case pullDependency ops info ''binary'' (t1, w1) of
                       None \<Rightarrow> None
                     | Some (t2, w2) \<Rightarrow> pull_modules ops trace ref ms tx1 (t2, w2)))))"

definition query_deleted :: "reference \<Rightarrow> repo_cache_query" where
  "query_deleted ref = \<lparr>q_id = Some (ref_id ref), q_repo = None, q_channel = Some (ref_channel ref),
     q_version = Some (Version_toString (ref_version ref)), q_module = None, q_uuid = None, q_deleted = Some True\<rparr>"

text \<open>\<open>InstallRef\<close> after the test of the architecture.\<close>

definition install_modules ::
    "'w repo_ops \<Rightarrow> reference \<Rightarrow> string list \<Rightarrow> package_task \<times> 'w \<Rightarrow> (package_task \<times> 'w) option" where
  "install_modules ops ref modules s =
     (case s of (t0, w) \<Rightarrow>
      let trace = ''install '' @ Reference_toString ref;
          t = updateSubState InstallApplication (''Installing application '' @ Reference_toString ref) t0 in
      case unmark_deleted ops ref (ro_listLocalBy ops w (query_deleted ref)) modules Transaction_new (t, w) of
        (False, _, tx, t1, w1) \<Rightarrow> Some (t1, Transaction_dtor tx w1)
      | (True, left, tx, t1, w1) \<Rightarrow>
         (case pull_modules ops trace ref left tx (t1, w1) of
            None \<Rightarrow> None
          | Some (False, tx2, t2, w2) \<Rightarrow> Some (t2, Transaction_dtor tx2 w2)
          | Some (True, tx2, t2, w2) \<Rightarrow> Some (t2, Transaction_dtor (commit tx2) w2)))"

text \<open>A wrong architecture is reported, but nothing returns.\<close>

definition InstallRef ::
    "'w repo_ops \<Rightarrow> architecture result \<Rightarrow> reference \<Rightarrow> string list \<Rightarrow> package_task \<times> 'w \<Rightarrow>
     (package_task \<times> 'w) option" where
  "InstallRef ops curArch ref modules s =
     (case s of (t0, w) \<Rightarrow>
      let t = updateSubState PreAction ''Beginning to install'' t0 in
      case curArch of
        Inl _ \<Rightarrow> None
      | Inr arch \<Rightarrow>
          install_modules ops ref modules
            (if ref_arch ref \<noteq> arch
             then updateState Failed (''app arch:'' @ Architecture_toString (ref_arch ref)
                                       @ '' not match host architecture'') None t
             else t, w))"

definition Install_job ::
    "'w repo_ops \<Rightarrow> pm_env \<Rightarrow> architecture result \<Rightarrow> reference \<Rightarrow> reference option \<Rightarrow> string list \<Rightarrow>
     package_task \<times> lock_state \<times> 'w \<Rightarrow> (package_task \<times> lock_state \<times> 'w) option" where
  "Install_job ops pe curArch newRef oldRef modules s =
     (case s of (t0, ls, w0) \<Rightarrow>
      case InstallRef ops curArch newRef modules
             (updateState Processing (''Installing '' @ Reference_toString newRef) None t0, w0) of
        None \<Rightarrow> None
      | Some (t1, w1) \<Rightarrow>
         (if isTaskDone (t_subState t1) then Some (t1, ls, w1)
          else let undo = (\<lambda>w. snd (UninstallRef ops newRef modules (createTemporaryTask (ro_tmpId ops), w)));
                   t2 = updateSubState PostAction ''processing after install'' t1;
                   w2 = snd (ro_merge ops w1);
                   success = updateState Succeed (''Install '' @ Reference_toString newRef @ '' success'') None in
            case ro_getLayerItem ops w2 newRef ''binary'' of
              Inl e \<Rightarrow> Some (reportError e t2, ls, undo w2)
            | Inr layer \<Rightarrow>
               (if info_kind (item_info layer) \<noteq> ''app'' then Some (success t2, ls, w2)
                else case oldRef of
                  None \<Rightarrow> Some (success t2, ls, ro_export ops newRef w2)
                | Some old \<Rightarrow>
                   (case removeAfterInstall ops pe old newRef (ro_getModuleList ops w2 old) (ls, w2) of
                      (Inl _, ls1, w3) \<Rightarrow>
                        Some (updateState Failed (''Failed to remove old reference '' @ Reference_toString old
                                @ '' after install '' @ Reference_toString newRef) None t2, ls1, undo w3)
                    | (Inr _, ls1, w3) \<Rightarrow> Some (success t2, ls1, w3)))))"

text \<open>\<open>setSubState\<close> and \<open>setMessage\<close> are called directly, without signals.\<close>

definition Update_job ::
    "'w repo_ops \<Rightarrow> pm_env \<Rightarrow> architecture result \<Rightarrow> reference \<Rightarrow> reference \<Rightarrow>
     package_task \<times> lock_state \<times> 'w \<Rightarrow> (package_task \<times> lock_state \<times> 'w) option" where
  "Update_job ops pe curArch ref newRef s =
     (case s of (t0, ls, w0) \<Rightarrow>
      let modules = ro_getModuleList ops w0 ref in
      case InstallRef ops curArch newRef modules
             (updateState Processing ''start to uninstalling package'' None t0, w0) of
        None \<Rightarrow> None
      | Some (t1, w1) \<Rightarrow>
         (if isTaskDone (t_subState t1) then Some (t1, ls, w1)
          else let t2 = (updateState PartCompleted (''Upgrade '' @ Reference_toString ref @ '' to ''
                           @ Reference_toString newRef @ '' success'') None t1)
                          \<lparr>t_subState := PackageManagerDone,
                           t_message := ''Please restart the application after saving the data to experience the new version.''\<rparr>
            in case ro_getLayerItem ops w1 newRef ''binary'' of
              Inl _ \<Rightarrow> Some (t2, ls, w1)
            | Inr newItem \<Rightarrow>
               (if info_kind (item_info newItem) = ''app''
                then case removeAfterInstall ops pe ref newRef modules (ls, w1) of
                  (_, ls1, w2) \<Rightarrow> Some (t2, ls1, w2)
                else Some (t2, ls, snd (ro_merge ops w1)))))"

section \<open>Pruning\<close>

text \<open>
  \<open>target\<close> counts the users of bases and runtimes; an \<open>unordered_map\<close>, here in the order of insertion.
\<close>

type_synonym use_count = "(reference \<times> nat) list"

fun try_emplace :: "reference \<Rightarrow> use_count \<Rightarrow> use_count" where
  "try_emplace r [] = [(r, 0)]"
| "try_emplace r ((q, n) # xs) = (if q = r then (q, n) # xs else (q, n) # try_emplace r xs)"

fun increment :: "reference \<Rightarrow> use_count \<Rightarrow> use_count" where
  "increment r [] = [(r, 1)]"
| "increment r ((q, n) # xs) = (if q = r then (q, n + 1) # xs else (q, n) # increment r xs)"

text \<open>The layer of the local repository a dependency resolves to; the outer \<open>None\<close> is the end of the process.\<close>

definition resolve_local :: "'w repo_ops \<Rightarrow> 'w \<Rightarrow> string \<Rightarrow> reference option option" where
  "resolve_local ops w raw =
     (case FuzzyReference_parse raw of
        Inl _ \<Rightarrow> Some None
      | Inr fuzzy \<Rightarrow>
         (case ro_clearReference ops w fuzzy local_only ''binary'' of
            None \<Rightarrow> None
          | Some (Inl _) \<Rightarrow> Some None
          | Some (Inr r) \<Rightarrow> Some (Some r)))"

definition count_base :: "'w repo_ops \<Rightarrow> 'w \<Rightarrow> package_info_v2 \<Rightarrow> use_count \<Rightarrow> use_count option" where
  "count_base ops w info target =
     (case resolve_local ops w (info_base info) of
        None \<Rightarrow> None
      | Some None \<Rightarrow> Some target
      | Some (Some r) \<Rightarrow> Some (increment r target))"

definition count_info :: "'w repo_ops \<Rightarrow> 'w \<Rightarrow> use_count \<Rightarrow> package_info_v2 \<Rightarrow> use_count option" where
  "count_info ops w target info =
     (if info_module info \<noteq> ''binary'' \<and> info_module info \<noteq> ''runtime'' then Some target
      else if info_kind info \<noteq> ''app''
      then (case Reference_fromPackageInfo info of Inl _ \<Rightarrow> Some target | Inr ref \<Rightarrow> Some (try_emplace ref target))
      else case info_runtime info of
        None \<Rightarrow> count_base ops w info target
      | Some rt \<Rightarrow>
         (case resolve_local ops w rt of
            None \<Rightarrow> None
          | Some None \<Rightarrow> Some target
          | Some (Some r) \<Rightarrow> count_base ops w info (increment r target)))"

fun count_all :: "'w repo_ops \<Rightarrow> 'w \<Rightarrow> use_count \<Rightarrow> package_info_v2 list \<Rightarrow> use_count option" where
  "count_all ops w target [] = Some target"
| "count_all ops w target (i # is) =
     (case count_info ops w target i of None \<Rightarrow> None | Some t \<Rightarrow> count_all ops w t is)"

fun prune_modules ::
    "'w repo_ops \<Rightarrow> reference \<Rightarrow> string list \<Rightarrow> package_info_v2 list \<Rightarrow> 'w \<Rightarrow>
     error option \<times> package_info_v2 list \<times> 'w" where
  "prune_modules ops ref [] removed w = (None, removed, w)"
| "prune_modules ops ref (m # ms) removed w =
     (case ro_getLayerDir ops w ref m of
        Inl _ \<Rightarrow> prune_modules ops ref ms removed w
      | Inr d \<Rightarrow>
         (case ro_info ops w d of
            Inl _ \<Rightarrow> prune_modules ops ref ms removed w
          | Inr info \<Rightarrow>
             (case ro_remove ops ref m None w of
                (Inl e, w1) \<Rightarrow> (Some e, removed @ [info], w1)
              | (Inr _, w1) \<Rightarrow> prune_modules ops ref ms (removed @ [info]) w1)))"

fun prune_refs ::
    "'w repo_ops \<Rightarrow> use_count \<Rightarrow> package_info_v2 list \<Rightarrow> 'w \<Rightarrow> error option \<times> package_info_v2 list \<times> 'w" where
  "prune_refs ops [] removed w = (None, removed, w)"
| "prune_refs ops ((ref, n) # rest) removed w =
     (if n \<noteq> 0 then prune_refs ops rest removed w
      else case prune_modules ops ref (ro_getModuleList ops w ref) removed w of
        (Some e, removed1, w1) \<Rightarrow> (Some e, removed1, w1)
      | (None, removed1, w1) \<Rightarrow> prune_refs ops rest removed1 w1)"

definition Prune :: "'w repo_ops \<Rightarrow> 'w \<Rightarrow> (unit result \<times> package_info_v2 list \<times> 'w) option" where
  "Prune ops w =
     (case count_all ops w [] (ro_listLocal ops w) of
        None \<Rightarrow> None
      | Some target \<Rightarrow>
         (case prune_refs ops target [] w of
            (Some e, removed, w1) \<Rightarrow> Some (Inl (Err_wrap ''prune'' e), removed, w1)
          | (None, removed, w1) \<Rightarrow>
             (if target = [] then Some (Inr (), removed, w1)
              else case ro_prune ops w1 of
                (Inl e, w2) \<Rightarrow> Some (Inl (Err_wrap ''prune'' e), removed, w2)
              | (Inr _, w2) \<Rightarrow> Some (Inr (), removed, snd (ro_merge ops w2)))))"

section \<open>Deferred uninstallation\<close>

fun group_deleted ::
    "layers_item list \<Rightarrow> (string \<times> layers_item list) list \<Rightarrow> (string \<times> layers_item list) list option" where
  "group_deleted [] gs = Some gs"
| "group_deleted (item # items) gs =
     (case Reference_fromPackageInfo (item_info item) of
        Inl _ \<Rightarrow> None
      | Inr ref \<Rightarrow>
         (let k = Reference_toString ref in
          group_deleted items
            (if k \<in> fst ` set gs then map (\<lambda>(j, is). if j = k then (j, is @ [item]) else (j, is)) gs
             else gs @ [(k, [item])])))"

fun remove_items :: "'w repo_ops \<Rightarrow> reference \<Rightarrow> layers_item list \<Rightarrow> 'w \<Rightarrow> 'w" where
  "remove_items ops ref [] w = w"
| "remove_items ops ref (item # items) w =
     remove_items ops ref items
       (snd (ro_remove ops ref (info_module (item_info item)) (info_uuid (item_info item)) w))"

fun uninstall_groups :: "'w repo_ops \<Rightarrow> (string \<times> layers_item list) list \<Rightarrow> 'w \<Rightarrow> 'w option" where
  "uninstall_groups ops [] w = Some w"
| "uninstall_groups ops ((k, items) # gs) w =
     (case Reference_parse k of
        Inl _ \<Rightarrow> Some w
      | Inr pkgRef \<Rightarrow>
         (let w1 = remove_items ops pkgRef items (ro_unexport ops pkgRef w);
              w2 = snd (ro_merge ops w1) in
          case FuzzyReference_create (Some (ref_channel pkgRef)) (ref_id pkgRef) None (Some (ref_arch pkgRef)) of
            Inl _ \<Rightarrow> Some w2
          | Inr fuzzy \<Rightarrow>
             (case ro_clearReference ops w2 fuzzy local_only ''binary'' of
                None \<Rightarrow> None
              | Some (Inl _) \<Rightarrow> None
              | Some (Inr latestRef) \<Rightarrow> uninstall_groups ops gs (ro_export ops latestRef w2))))"

definition query_all_deleted :: repo_cache_query where
  "query_all_deleted = \<lparr>q_id = None, q_repo = None, q_channel = None, q_version = None, q_module = None,
     q_uuid = None, q_deleted = Some True\<rparr>"

definition deferredUninstall ::
    "'w repo_ops \<Rightarrow> pm_env \<Rightarrow> lock_state \<times> 'w \<Rightarrow> (lock_state \<times> 'w) option" where
  "deferredUninstall ops pe s =
     (case s of (ls, w) \<Rightarrow>
      case lockRepo (pe_lock pe) ls of
        (Inl _, ls1) \<Rightarrow> Some (ls1, w)
      | (Inr _, ls1) \<Rightarrow>
         (let ls2 = snd (unlockRepo (pe_lock pe) ls1) in
          case group_deleted (ro_listLocalBy ops w query_all_deleted) [] of
            None \<Rightarrow> Some (ls2, w)
          | Some groups \<Rightarrow>
             (if groups = [] then Some (ls2, w)
              else case getAllRunningContainers (pe_running pe) of
                Inl _ \<Rightarrow> Some (ls2, w)
              | Inr running \<Rightarrow>
                  map_option (\<lambda>w'. (ls2, w'))
                    (uninstall_groups ops (filter (\<lambda>(k, _). k \<notin> ci_app ` set running) groups) w))))"

section \<open>The operations of OSTreeRepo\<close>

text \<open>The outcomes of one call: of ostree, of the file system, and of writing the cache.\<close>

record 'file call_env =
  oc_ostree :: ostree_env
  oc_cache :: cache_env
  oc_dir :: dir_env
  oc_pull :: "'file pull_env"
  oc_merge :: merge_env
  oc_export :: export_env
  oc_prune :: "gerror option"

record repo_world =
  rw_repo :: ostree_repo
  rw_merged :: merged_dirs
  rw_share :: share
  rw_calls :: nat

text \<open>\<open>rs_env n\<close> are the outcomes of the \<open>n\<close>-th call that changes the repository.\<close>

record 'file repo_setting =
  rs_env :: "nat \<Rightarrow> 'file call_env"
  rs_dump :: "repository_cache \<Rightarrow> string"
  rs_sort :: "layers_item list \<Rightarrow> layers_item list"
  rs_sortModules :: "layers_item list \<Rightarrow> layers_item list"
  rs_sha256hex :: "string \<Rightarrow> string"
  rs_arch :: "architecture result"
  rs_listRemote :: "fuzzy_reference \<Rightarrow> package_info_v2 list result"
  rs_defaultRepo :: string
  rs_info :: "string \<Rightarrow> package_info_v2 result"
  rs_valid :: "string \<Rightarrow> bool"
  rs_uuid :: string

definition next_env :: "'file repo_setting \<Rightarrow> repo_world \<Rightarrow> 'file call_env" where
  "next_env rs w = rs_env rs (rw_calls w)"

definition repo_call :: "('a \<times> ostree_repo) \<Rightarrow> repo_world \<Rightarrow> 'a \<times> repo_world" where
  "repo_call res w = (fst res, w\<lparr>rw_repo := snd res, rw_calls := Suc (rw_calls w)\<rparr>)"

definition repo_mark ::
    "'file repo_setting \<Rightarrow> reference \<Rightarrow> bool \<Rightarrow> string \<Rightarrow> repo_world \<Rightarrow> unit result \<times> repo_world" where
  "repo_mark rs ref deleted m w =
     (case markDeleted (oc_cache (next_env rs w)) (rs_dump rs) (rs_sort rs) ref deleted m None (or_cache (rw_repo w)) of
        (res, c) \<Rightarrow> repo_call (res, (rw_repo w)\<lparr>or_cache := c\<rparr>) w)"

definition repo_merge :: "'file repo_setting \<Rightarrow> repo_world \<Rightarrow> unit result \<times> repo_world" where
  "repo_merge rs w =
     (let en = next_env rs w in
      case mergeModules (oc_merge en) (rs_sha256hex rs) (rs_sortModules rs) (oc_cache en) (rs_dump rs)
             (or_cache (rw_repo w), rw_merged w) of
        (res, c, d) \<Rightarrow> (res, w\<lparr>rw_repo := (rw_repo w)\<lparr>or_cache := c\<rparr>, rw_merged := d, rw_calls := Suc (rw_calls w)\<rparr>))"

definition ostree_prune :: "gerror option \<Rightarrow> unit result" where
  "ostree_prune e =
     (case e of None \<Rightarrow> Inr () | Some g \<Rightarrow> Inl (Err_gerror ''prune ostree repo'' ''ostree_repo_prune'' g))"

definition ostree_ops :: "'file repo_setting \<Rightarrow> repo_world repo_ops" where
  "ostree_ops rs =
     \<lparr>ro_clearReference = (\<lambda>w. clearReference (rs_sort rs) (rs_arch rs) (rs_listRemote rs) (or_cache (rw_repo w))),
      ro_getLayerItem = (\<lambda>w ref m. getLayerItem (rs_sort rs) (or_cache (rw_repo w)) ref m None),
      ro_getLayerDir = (\<lambda>w ref m. getLayerDir_ref (rs_sort rs) (rw_repo w) ref m None),
      ro_info = (\<lambda>w. rs_info rs), ro_valid = (\<lambda>w. rs_valid rs),
      ro_getModuleList = (\<lambda>w. getModuleList (rs_sort rs) (rs_sortModules rs) (or_cache (rw_repo w))),
      ro_listLocalBy = (\<lambda>w q. queryLayerItem (rs_sort rs) q (or_cache (rw_repo w))),
      ro_listLocal = (\<lambda>w. listLocal (or_cache (rw_repo w))),
      ro_remove = (\<lambda>ref m sub w. let en = next_env rs w in
         repo_call (OSTreeRepo_remove (oc_ostree en) (oc_cache en) (rs_dump rs) (rs_sort rs) ref m sub (rw_repo w)) w),
      ro_markDeleted = repo_mark rs,
      ro_pull = (\<lambda>ref m (t, w). let en = next_env rs w in
         repo_call (OSTreeRepo_pull (oc_pull en) (oc_dir en) (oc_ostree en) (oc_cache en) (rs_dump rs)
           (rs_defaultRepo rs) ref m (t, rw_repo w)) w),
      ro_export = (\<lambda>ref w. w\<lparr>rw_share := exportReference (oc_export (next_env rs w)) (rs_sort rs) (rw_repo w) ref (rw_share w),
         rw_calls := Suc (rw_calls w)\<rparr>),
      ro_unexport = (\<lambda>ref w. w\<lparr>rw_share := unexportReference (oc_export (next_env rs w)) (rs_sort rs) (rw_repo w) ref (rw_share w),
         rw_calls := Suc (rw_calls w)\<rparr>),
      ro_merge = repo_merge rs,
      ro_prune = (\<lambda>w. (ostree_prune (oc_prune (next_env rs w)), w\<lparr>rw_calls := Suc (rw_calls w)\<rparr>)),
      ro_tmpId = rs_uuid rs\<rparr>"

section \<open>The contract of the repository\<close>

text \<open>
  What the jobs rely on: a successful removal takes one layer of the reference away, of the wanted
  module (binary and runtime stand for each other), and exporting or merging takes none.
\<close>

locale module_repository =
  fixes ops :: "'w repo_ops"
  assumes remove_takes: "ro_remove ops ref m sub w = (Inr u, w') \<Longrightarrow>
      \<exists>m'. same_module m' m \<and> m' \<in># mset (ro_getModuleList ops w ref) \<and>
        mset (ro_getModuleList ops w' ref) = mset (ro_getModuleList ops w ref) - {#m'#}"
    and unexport_keeps: "ro_getModuleList ops (ro_unexport ops r w) ref = ro_getModuleList ops w ref"
    and export_keeps: "ro_getModuleList ops (ro_export ops r w) ref = ro_getModuleList ops w ref"
    and merge_keeps: "ro_getModuleList ops (snd (ro_merge ops w)) ref = ro_getModuleList ops w ref"
begin

lemma remove_modules_count:
  "remove_modules ops ref ms tx w = (None, tx', w') \<Longrightarrow>
     length (ro_getModuleList ops w' ref) + length ms = length (ro_getModuleList ops w ref)"
proof (induction ms arbitrary: tx w)
  case (Cons m ms)
  then obtain u w1 where rm: "ro_remove ops ref m None w = (Inr u, w1)"
    and rest: "remove_modules ops ref ms (addRollBack (repull ops ref) m tx) w1 = (None, tx', w')"
    by (auto split: prod.splits sum.splits)
  obtain m' where m': "m' \<in># mset (ro_getModuleList ops w ref)"
      "mset (ro_getModuleList ops w1 ref) = mset (ro_getModuleList ops w ref) - {#m'#}"
    using remove_takes [OF rm] by blast
  have "Suc (length (ro_getModuleList ops w1 ref)) = length (ro_getModuleList ops w ref)"
    using size_Suc_Diff1 [OF m'(1)] m'(2) [symmetric] by (simp only: size_mset)
  then show ?case using Cons.IH [OF rest] by simp
qed simp

text \<open>Removing the modules the repository lists leaves none.\<close>

lemma remove_listed:
  "remove_modules ops ref (ro_getModuleList ops w ref) tx w = (None, tx', w') \<Longrightarrow> ro_getModuleList ops w' ref = []"
  using remove_modules_count by fastforce

text \<open>The loop of \<open>removeAfterInstall\<close> only ever takes the binary or runtime module away.\<close>

lemma remove_old_takes:
  "remove_old_modules ops ref ms tx w = (None, tx', w') \<Longrightarrow>
     \<exists>M. set_mset M \<subseteq> {''binary'', ''runtime''} \<and> size M = length ms \<and>
       mset (ro_getModuleList ops w ref) = mset (ro_getModuleList ops w' ref) + M"
proof (induction ms arbitrary: tx w)
  case (Cons m ms)
  then obtain u w1 where rm: "ro_remove ops ref ''binary'' None w = (Inr u, w1)"
    and rest: "remove_old_modules ops ref ms (addRollBack (repull ops ref) m tx) w1 = (None, tx', w')"
    by (auto split: prod.splits sum.splits)
  obtain m' where m': "same_module m' ''binary''" "m' \<in># mset (ro_getModuleList ops w ref)"
      "mset (ro_getModuleList ops w1 ref) = mset (ro_getModuleList ops w ref) - {#m'#}"
    using remove_takes [OF rm] by blast
  obtain M where M: "set_mset M \<subseteq> {''binary'', ''runtime''}" "size M = length ms"
      "mset (ro_getModuleList ops w1 ref) = mset (ro_getModuleList ops w' ref) + M"
    using Cons.IH [OF rest] by blast
  have "mset (ro_getModuleList ops w ref) = mset (ro_getModuleList ops w' ref) + add_mset m' M"
    using m'(2,3) M(3) by (metis insert_DiffM union_mset_add_mset_right)
  moreover have "set_mset (add_mset m' M) \<subseteq> {''binary'', ''runtime''}" using m'(1) M(1) by (auto simp: same_module_def)
  ultimately show ?case using M(2) by (intro exI [of _ "add_mset m' M"]) simp
qed (auto intro: exI [of _ "{#}"])

lemma uninstalled:
  assumes "\<not> isTaskDone (t_subState t)" and "t_taskParts t \<noteq> of_nat (length (t_refs t))"
    and "m = ''binary'' \<or> m = ''runtime''" and "Uninstall_job ops ref m (t, w) = (t', w')"
  shows "t_state t' = Succeed \<and> ro_getModuleList ops w' ref = [] \<or> t_state t' = Failed \<and> t_subState t' = AllDone"
proof -
  let ?t1 = "updateSubState PreAction ''prepare uninstalling package''
    (updateState Processing ''start to uninstalling package'' None t)"
  let ?t2 = "updateSubState Uninstall ''Remove layer files'' ?t1"
  obtain e tx w2 where rm: "remove_modules ops ref (ro_getModuleList ops w ref) Transaction_new (ro_unexport ops ref w) = (e, tx, w2)"
    by (metis prod_cases3)
  show ?thesis
  proof (cases e)
    case None
    then have "ro_getModuleList ops w2 ref = []"
      using rm remove_listed [of ref "ro_unexport ops ref w"] by (simp add: unexport_keeps)
    then show ?thesis using assms rm None
      by (auto simp: Uninstall_job_def UninstallRef_def Let_def isTaskDone_def Transaction_dtor_commit
          updateState_state merge_keeps)
  next
    case (Some x)
    then show ?thesis using assms rm
      by (auto simp: Uninstall_job_def UninstallRef_def Let_def isTaskDone_def updateState_state updateState_subState)
  qed
qed

lemma removed_after_install:
  assumes "fst (isRefBusy pe oldRef ls) = Inr False"
    and "removeAfterInstall ops pe oldRef newRef (ro_getModuleList ops w oldRef) (ls, w) = (Inr u, ls', w')"
  shows "ro_getModuleList ops w' oldRef = [] \<and> set (ro_getModuleList ops w oldRef) \<subseteq> {''binary'', ''runtime''}"
proof -
  let ?ms = "ro_getModuleList ops w oldRef"
  obtain ls1 where busy: "isRefBusy pe oldRef ls = (Inr False, ls1)" using assms(1) by (metis prod.collapse)
  obtain e tx w1 where rm: "remove_old_modules ops oldRef ?ms (addRollBack (ro_export ops) oldRef Transaction_new)
      (ro_unexport ops oldRef w) = (e, tx, w1)" by (metis prod_cases3)
  then have e: "e = None" and w': "w' = ro_export ops newRef (snd (ro_merge ops w1))"
    using assms(2) busy by (auto simp: removeAfterInstall_def Let_def Transaction_dtor_commit split: option.splits)
  obtain M where M: "set_mset M \<subseteq> {''binary'', ''runtime''}" "size M = length ?ms"
      "mset ?ms = mset (ro_getModuleList ops w1 oldRef) + M"
    using remove_old_takes rm e unexport_keeps by metis
  then have "size (mset (ro_getModuleList ops w1 oldRef)) = 0" by (metis add_cancel_left_left size_mset size_union)
  then have "ro_getModuleList ops w1 oldRef = []" by simp
  then show ?thesis using M(1,3) w' by (simp add: export_keeps merge_keeps flip: set_mset_mset)
qed

end

text \<open>\<open>std::sort\<close> permutes; the model of OSTreeRepo keeps the contract for every such sort.\<close>

lemma erase_at_mset: "i < length xs \<Longrightarrow> mset (erase_at i xs) = mset xs - {#xs ! i#}"
  using erase_at_split [of i xs] by (metis mset.simps(2) mset_append add_mset_remove_trivial union_mset_add_mset_right)

definition of_ref :: "reference \<Rightarrow> layers_item \<Rightarrow> bool" where
  "of_ref ref = query_matches (query_ref ref None None)"

lemma of_ref_iff: "of_ref ref x \<longleftrightarrow> info_id (item_info x) = ref_id ref \<and> info_channel (item_info x) = ref_channel ref \<and>
    info_version (item_info x) = Version_toString (ref_version ref)"
  by (auto simp: of_ref_def query_matches_def query_ref_def wants_def wants_opt_def)

lemma getLayerItem_found:
  assumes "\<forall>xs. mset (srt xs) = mset xs" and "getLayerItem srt s ref m sub = Inr x"
  shows "x \<in> set (rc_layers (rcs_cache s)) \<and> of_ref ref x \<and> same_module (info_module (item_info x)) m"
proof -
  have set: "set (srt xs) = set xs" for xs using assms(1) by (metis set_mset_mset)
  have found: "x \<in> set (rc_layers (rcs_cache s)) \<and> of_ref ref x \<and> info_module (item_info x) = k"
    if "queryLayerItem srt (query_ref ref (Some k) sub) s = [x]" for k
  proof -
    have "x \<in> set (queryLayerItem srt (query_ref ref (Some k) sub) s)" using that by simp
    then show ?thesis
      by (auto simp: queryLayerItem_def set of_ref_iff query_matches_def query_ref_def wants_def)
  qed
  show ?thesis using assms(2)
    by (auto simp: getLayerItem_def Let_def same_module_def split: list.splits if_splits dest!: found)
qed

lemma deleteLayerItem_takes:
  assumes "deleteLayerItem env dump x s = (Inr u, s')" and "of_ref ref x"
  shows "\<exists>y. y \<in># mset (rc_layers (rcs_cache s)) \<and> of_ref ref y \<and> info_module (item_info y) = info_module (item_info x) \<and>
    mset (rc_layers (rcs_cache s')) = mset (rc_layers (rcs_cache s)) - {#y#}"
proof -
  obtain i where i: "index_of (same_item x) (rc_layers (rcs_cache s)) = Some i"
    using assms(1) by (auto simp: deleteLayerItem_def findMatchingItem_def Let_def split: option.splits)
  have "rc_layers (rcs_cache s') = erase_at i (rc_layers (rcs_cache s))"
    using deleteLayerItem_found(1) [OF i refl, of env dump] assms(1) by simp
  moreover have "i < length (rc_layers (rcs_cache s))" "same_item x (rc_layers (rcs_cache s) ! i)"
    using index_of_Some [OF i] by auto
  ultimately show ?thesis using assms(2)
    by (intro exI [of _ "rc_layers (rcs_cache s) ! i"]) (auto simp: erase_at_mset same_item_def of_ref_iff)
qed

locale ostree_setting =
  fixes rs :: "'file repo_setting"
  assumes sort_permutes: "mset (rs_sort rs xs) = mset xs"
    and sortModules_permutes: "mset (rs_sortModules rs xs) = mset xs"
begin

lemma module_mset:
  "mset (ro_getModuleList (ostree_ops rs) w ref) =
     image_mset (\<lambda>x. info_module (item_info x)) (filter_mset (of_ref ref) (mset (rc_layers (rcs_cache (or_cache (rw_repo w))))))"
  by (simp add: ostree_ops_def getModuleList_def queryLayerItem_def sort_permutes sortModules_permutes of_ref_def)

lemma remove_one:
  assumes "ro_remove (ostree_ops rs) ref m sub w = (Inr u, w')"
  shows "\<exists>m'. same_module m' m \<and> m' \<in># mset (ro_getModuleList (ostree_ops rs) w ref) \<and>
    mset (ro_getModuleList (ostree_ops rs) w' ref) = mset (ro_getModuleList (ostree_ops rs) w ref) - {#m'#}"
proof -
  let ?en = "next_env rs w" and ?r = "rw_repo w"
  obtain layer where item: "getLayerItem (rs_sort rs) (or_cache ?r) ref m sub = Inr layer"
    using assms by (auto simp: ostree_ops_def repo_call_def OSTreeRepo_remove_def Let_def split: sum.splits)
  obtain res r1 where rm: "removeOstreeRef (oc_ostree ?en) (oc_cache ?en) (rs_dump rs) layer ?r = (res, r1)" by (metis surj_pair)
  have ok: "is_ok res" "or_cache (rw_repo w') = or_cache r1"
    using assms item rm by (auto simp: ostree_ops_def repo_call_def OSTreeRepo_remove_def Let_def split: sum.splits if_splits)
  then obtain v c where del: "deleteLayerItem (oc_cache ?en) (rs_dump rs) layer (or_cache ?r) = (Inr v, c)" "or_cache r1 = c"
    using rm by (auto simp: removeOstreeRef_def Let_def split: option.splits prod.splits sum.splits)
  have layer: "of_ref ref layer" "same_module (info_module (item_info layer)) m"
    using getLayerItem_found [OF _ item] sort_permutes by blast+
  obtain y where y: "y \<in># mset (rc_layers (rcs_cache (or_cache ?r)))" "of_ref ref y"
      "info_module (item_info y) = info_module (item_info layer)"
      "mset (rc_layers (rcs_cache c)) = mset (rc_layers (rcs_cache (or_cache ?r))) - {#y#}"
    using deleteLayerItem_takes [OF del(1) layer(1)] by blast
  have "mset (ro_getModuleList (ostree_ops rs) w' ref) =
      mset (ro_getModuleList (ostree_ops rs) w ref) - {#info_module (item_info y)#}"
    using y ok(2) del(2) by (simp add: module_mset image_mset_Diff)
  moreover have "info_module (item_info y) \<in># mset (ro_getModuleList (ostree_ops rs) w ref)"
    unfolding module_mset using y(1,2) by auto
  ultimately show ?thesis using layer(2) y(3) by (intro exI [of _ "info_module (item_info y)"]) simp
qed

end

lemma merge_keeps_layers:
  "rc_layers (rcs_cache (fst (snd (mergeModules me sha srt env dump (c, d))))) = rc_layers (rcs_cache c)"
  by (auto simp: mergeModules_def updateMergedItems_def Let_def split: prod.split sum.split option.split
      dest!: writeToDisk_cacheD)

sublocale ostree_setting \<subseteq> module_repository "ostree_ops rs"
proof
  show "ro_getModuleList (ostree_ops rs) (snd (ro_merge (ostree_ops rs) w)) ref = ro_getModuleList (ostree_ops rs) w ref" for w ref
    using merge_keeps_layers [of "oc_merge (next_env rs w)" "rs_sha256hex rs" "rs_sortModules rs" "oc_cache (next_env rs w)"
        "rs_dump rs" "or_cache (rw_repo w)" "rw_merged w"]
    by (auto simp: ostree_ops_def repo_merge_def getModuleList_def queryLayerItem_def Let_def split: prod.split)
qed (rule remove_one, assumption, simp_all add: ostree_ops_def)

context ostree_setting
begin

lemma is_repository: "module_repository (ostree_ops rs)"
  by unfold_locales

end

lemma ostree_repository:
  assumes "\<forall>xs. mset (rs_sort rs xs) = mset xs" and "\<forall>xs. mset (rs_sortModules rs xs) = mset xs"
  shows "module_repository (ostree_ops rs)"
  by (rule ostree_setting.is_repository) (use assms in \<open>unfold_locales, simp_all\<close>)

section \<open>Properties\<close>

text \<open>A small world: one application with the layers of the given modules, in which every call succeeds.\<close>

definition demo_call_env :: "package_info_v2 call_env" where
  "demo_call_env = \<lparr>oc_ostree = demo_ostree_env, oc_cache = demo_cache_env, oc_dir = demo_dir_env,
     oc_pull = demo_pull_env, oc_merge = demo_merge_env, oc_export = demo_export_env, oc_prune = None\<rparr>"

definition demo_setting :: "package_info_v2 repo_setting" where
  "demo_setting = \<lparr>rs_env = (\<lambda>_. demo_call_env), rs_dump = (\<lambda>_. []), rs_sort = (\<lambda>xs. xs), rs_sortModules = (\<lambda>xs. xs),
     rs_sha256hex = (\<lambda>x. ''h'' @ x), rs_arch = Inr X86_64, rs_listRemote = (\<lambda>_. Inr []), rs_defaultRepo = ''stable'',
     rs_info = (\<lambda>_. Inr demo_info), rs_valid = (\<lambda>_. True), rs_uuid = ''u''\<rparr>"

definition demo_world :: "layers_item list \<Rightarrow> repo_world" where
  "demo_world ls = \<lparr>rw_repo = \<lparr>or_repoDir = ''/r'', or_cache = demo_cache ls, or_refs = (\<lambda>_. Some ''c''),
       or_layerDirs = map (\<lambda>l. ''/r/layers/'' @ item_commit l) ls\<rparr>,
     rw_merged = Map.empty, rw_share = Map.empty, rw_calls = 0\<rparr>"

definition demo_task :: package_task where
  "demo_task = PackageTask_new ''u'' [''stable:main/org.deepin.demo/x86_64/binary''] False"

interpretation demo: ostree_setting demo_setting
  by unfold_locales (simp_all add: demo_setting_def)

text \<open>
  C16: Uninstalling a package ends in one of two ways: the task has succeeded and the repository
  has no layer of the reference left, or it has failed. This holds whatever ostree and the file system
  do on each call, for a task over at least one ref that has no part completed yet.
\<close>

theorem uninstall_complete:
  assumes "\<forall>xs. mset (rs_sort rs xs) = mset xs" and "\<forall>xs. mset (rs_sortModules rs xs) = mset xs"
    and "\<not> isTaskDone (t_subState t)" and "t_taskParts t \<noteq> of_nat (length (t_refs t))"
    and "m = ''binary'' \<or> m = ''runtime''" and "Uninstall_job (ostree_ops rs) ref m (t, w) = (t', w')"
  shows "t_state t' = Succeed \<and> getModuleList (rs_sort rs) (rs_sortModules rs) (or_cache (rw_repo w')) ref = [] \<or>
    t_state t' = Failed \<and> t_subState t' = AllDone"
  using module_repository.uninstalled [OF ostree_repository [OF assms(1,2)] assms(3-6)]
  by (simp add: ostree_ops_def)

theorem uninstall_complete_witness:
  "getModuleList (\<lambda>xs. xs) (\<lambda>xs. xs) (or_cache (rw_repo (snd (Uninstall_job (ostree_ops demo_setting) demo_reference ''binary''
     (demo_task, demo_world [demo_module ''develop'' ''c2'', demo_module ''binary'' ''c1'']))))) demo_reference = []"
proof -
  let ?run = "Uninstall_job (ostree_ops demo_setting) demo_reference ''binary''
     (demo_task, demo_world [demo_module ''develop'' ''c2'', demo_module ''binary'' ''c1''])"
  have "t_state (fst ?run) = Succeed" "\<not> isTaskDone (t_subState demo_task)" by code_simp+
  moreover have "t_taskParts demo_task \<noteq> of_nat (length (t_refs demo_task))" by (simp add: demo_task_def PackageTask_new_def)
  ultimately show ?thesis
    using uninstall_complete [of demo_setting demo_task "''binary''" demo_reference _ "fst ?run" "snd ?run"]
    by (simp add: demo_setting_def)
qed

text \<open>
  Replacing an installed version fails when the old version has a module other than binary and
  runtime, such as \<open>develop\<close>, and is not running: the loop over the modules asks for the binary
  module every time. The result is an error after the rollbacks, for every behaviour of ostree and the
  file system. When it succeeds, no layer of the old version is left.
\<close>

theorem removeAfterInstall_extra_module:
  assumes "\<forall>xs. mset (rs_sort rs xs) = mset xs" and "\<forall>xs. mset (rs_sortModules rs xs) = mset xs"
    and "fst (isRefBusy pe oldRef ls) = Inr False"
    and "modules = getModuleList (rs_sort rs) (rs_sortModules rs) (or_cache (rw_repo w)) oldRef"
    and "removeAfterInstall (ostree_ops rs) pe oldRef newRef modules (ls, w) = (res, ls', w')"
  shows "(\<not> set modules \<subseteq> {''binary'', ''runtime''} \<longrightarrow> \<not> is_ok res) \<and>
    (is_ok res \<longrightarrow> getModuleList (rs_sort rs) (rs_sortModules rs) (or_cache (rw_repo w')) oldRef = [])"
proof (cases res)
  case (Inr u)
  then show ?thesis
    using module_repository.removed_after_install [OF ostree_repository [OF assms(1,2)] assms(3)] assms(4,5)
    by (simp add: ostree_ops_def)
qed simp

definition demo_pm_env :: pm_env where
  "demo_pm_env = \<lparr>pe_lock = \<lparr>le_open = None, le_lock = None, le_unlock = None\<rparr>, pe_running = Inr []\<rparr>"

definition unlocked :: lock_state where
  "unlocked = \<lparr>lk_open = False, lk_held = False, lk_leaked = 0\<rparr>"

theorem removeAfterInstall_extra_module_witness:
  "\<not> is_ok (fst (removeAfterInstall (ostree_ops demo_setting) demo_pm_env demo_reference
     (demo_reference\<lparr>ref_version := \<lparr>major = 2, minor = 0, patch = 0, tweak = Some 0\<rparr>\<rparr>) [''binary'', ''develop'']
     (unlocked, demo_world [demo_module ''binary'' ''c1'', demo_module ''develop'' ''c2''])))"
proof -
  let ?w = "demo_world [demo_module ''binary'' ''c1'', demo_module ''develop'' ''c2'']"
  have perm: "\<forall>xs. mset (rs_sort demo_setting xs) = mset xs" "\<forall>xs. mset (rs_sortModules demo_setting xs) = mset xs"
    by (simp_all add: demo_setting_def)
  have facts: "fst (isRefBusy demo_pm_env demo_reference unlocked) = Inr False"
    "[''binary'', ''develop''] = getModuleList (rs_sort demo_setting) (rs_sortModules demo_setting) (or_cache (rw_repo ?w)) demo_reference"
    by code_simp+
  obtain res ls' w' where run: "removeAfterInstall (ostree_ops demo_setting) demo_pm_env demo_reference
     (demo_reference\<lparr>ref_version := \<lparr>major = 2, minor = 0, patch = 0, tweak = Some 0\<rparr>\<rparr>) [''binary'', ''develop'']
     (unlocked, ?w) = (res, ls', w')"
    by (metis prod_cases3)
  have "\<not> set [''binary'', ''develop''] \<subseteq> {''binary'', ''runtime''}" by simp
  with removeAfterInstall_extra_module [OF perm facts run] have "\<not> is_ok res" by blast
  then show ?thesis unfolding run by simp
qed

end
