(* ===== verification/Package_Safety.thy ===== *)
theory Package_Safety
  imports Package_Jobs
begin

text \<open>
  What the jobs of the package manager leave alone: pruning and deferred uninstallation take away
  only layers they are meant to, and a successful installation leaves the package installed. The laws the
  repository has to satisfy for that extend those of \<open>module_repository\<close>.
\<close>

section \<open>A repository whose operations have a frame\<close>

text \<open>References that name the same layers: the look-up ignores the architecture.\<close>

definition same_layers :: "reference \<Rightarrow> reference \<Rightarrow> bool" where
  "same_layers r q \<longleftrightarrow> ref_id r = ref_id q \<and> ref_channel r = ref_channel q \<and>
     Version_toString (ref_version r) = Version_toString (ref_version q)"

lemma same_layers_of_ref: "of_ref r x \<Longrightarrow> of_ref q x \<Longrightarrow> same_layers r q"
  by (simp add: of_ref_iff same_layers_def)

text \<open>An entry of \<open>target\<close> that is no dependency of an application.\<close>

definition listed_dependency :: "package_info_v2 \<Rightarrow> reference \<Rightarrow> bool" where
  "listed_dependency info q \<longleftrightarrow> info_module info \<in> {''binary'', ''runtime''} \<and> info_kind info \<noteq> ''app'' \<and>
     Reference_fromPackageInfo info = Inr q"

text \<open>
  What counts as a use: the runtime an installed application resolves to, and the base it resolves to
  unless it names a runtime that does not resolve.
\<close>

definition app_uses :: "'w repo_ops \<Rightarrow> 'w \<Rightarrow> package_info_v2 \<Rightarrow> reference \<Rightarrow> bool" where
  "app_uses ops w info q \<longleftrightarrow> info_module info \<in> {''binary'', ''runtime''} \<and> info_kind info = ''app'' \<and>
     (case info_runtime info of
        None \<Rightarrow> resolve_local ops w (info_base info) = Some (Some q)
      | Some rt \<Rightarrow> resolve_local ops w rt = Some (Some q) \<or>
          (\<exists>r. resolve_local ops w rt = Some (Some r)) \<and> resolve_local ops w (info_base info) = Some (Some q))"

subsection \<open>The counts of \<open>target\<close>\<close>

lemma try_emplace_map: "map_of (try_emplace r tg) = (map_of tg)(r \<mapsto> (case map_of tg r of None \<Rightarrow> 0 | Some n \<Rightarrow> n))"
  by (induction tg) (auto simp: fun_eq_iff split: option.splits)

lemma increment_map: "map_of (increment r tg) = (map_of tg)(r \<mapsto> (case map_of tg r of None \<Rightarrow> 1 | Some n \<Rightarrow> Suc n))"
  by (induction tg) (auto simp: fun_eq_iff split: option.splits)

lemma count_keys:
  "fst ` set (try_emplace r tg) = insert r (fst ` set tg)" "fst ` set (increment r tg) = insert r (fst ` set tg)"
  by (auto simp: try_emplace_map increment_map simp flip: dom_map_of_conv_image_fst split: if_splits)

lemma count_distinct:
  "distinct (map fst tg) \<Longrightarrow> distinct (map fst (try_emplace r tg))"
  "distinct (map fst tg) \<Longrightarrow> distinct (map fst (increment r tg))"
  by (induction tg) (auto simp: count_keys)

lemmas count_maps = try_emplace_map increment_map count_distinct

definition count_ok :: "'w repo_ops \<Rightarrow> 'w \<Rightarrow> package_info_v2 list \<Rightarrow> use_count \<Rightarrow> bool" where
  "count_ok ops w is tg \<longleftrightarrow> distinct (map fst tg) \<and>
     (\<forall>q. map_of tg q = Some 0 \<longrightarrow> (\<exists>i \<in> set is. listed_dependency i q) \<and> (\<forall>i \<in> set is. \<not> app_uses ops w i q)) \<and>
     (\<forall>i \<in> set is. \<forall>q. app_uses ops w i q \<longrightarrow> q \<in> dom (map_of tg))"

lemma count_base_ok:
  assumes "count_base ops w i tg = Some tg'" and "distinct (map fst tg)"
  shows "distinct (map fst tg')" and
    "map_of tg' q = Some 0 \<longleftrightarrow> map_of tg q = Some 0 \<and> resolve_local ops w (info_base i) \<noteq> Some (Some q)"
    "q \<in> dom (map_of tg') \<longleftrightarrow> q \<in> dom (map_of tg) \<or> resolve_local ops w (info_base i) = Some (Some q)"
  using assms by (auto simp: count_base_def count_maps split: option.splits if_splits)

lemma count_info_ok:
  assumes "count_info ops w tg i = Some tg'" and "distinct (map fst tg)"
  shows "distinct (map fst tg')" and
    "map_of tg' q = Some 0 \<longleftrightarrow>
       (map_of tg q = Some 0 \<or> map_of tg q = None \<and> listed_dependency i q) \<and> \<not> app_uses ops w i q"
    "q \<in> dom (map_of tg') \<longleftrightarrow> q \<in> dom (map_of tg) \<or> listed_dependency i q \<or> app_uses ops w i q"
proof -
  have "distinct (map fst tg') \<and>
    (map_of tg' q = Some 0 \<longleftrightarrow> (map_of tg q = Some 0 \<or> map_of tg q = None \<and> listed_dependency i q) \<and> \<not> app_uses ops w i q) \<and>
    (q \<in> dom (map_of tg') \<longleftrightarrow> q \<in> dom (map_of tg) \<or> listed_dependency i q \<or> app_uses ops w i q)"
  proof (cases "info_kind i = ''app'' \<and> info_module i \<in> {''binary'', ''runtime''}")
    case True
    show ?thesis
    proof (cases "info_runtime i")
      case None
      then have "count_base ops w i tg = Some tg'" using assms(1) True by (auto simp: count_info_def)
      from count_base_ok [OF this assms(2)] show ?thesis using None True
        by (auto simp: app_uses_def listed_dependency_def)
    next
      case (Some rt)
      note outer = Some
      show ?thesis
      proof (cases "resolve_local ops w rt")
        case None
        then show ?thesis using assms(1) True outer by (auto simp: count_info_def)
      next
        case res: (Some x)
        show ?thesis
        proof (cases x)
          case None
          then show ?thesis using assms True outer res by (auto simp: count_info_def app_uses_def listed_dependency_def)
        next
          case (Some r)
          then have "count_base ops w i (increment r tg) = Some tg'" using assms(1) True outer res by (auto simp: count_info_def)
          from count_base_ok [OF this count_distinct(2) [OF assms(2)]] show ?thesis using Some outer res True
            by (auto simp: app_uses_def listed_dependency_def increment_map split: option.splits if_splits)
        qed
      qed
    qed
  next
    case False
    then show ?thesis using assms
      by (auto simp: count_info_def app_uses_def listed_dependency_def count_maps simp del: map_of_eq_Some_iff
          split: if_splits sum.splits option.splits)
  qed
  then show "distinct (map fst tg')" and
    "map_of tg' q = Some 0 \<longleftrightarrow>
       (map_of tg q = Some 0 \<or> map_of tg q = None \<and> listed_dependency i q) \<and> \<not> app_uses ops w i q"
    "q \<in> dom (map_of tg') \<longleftrightarrow> q \<in> dom (map_of tg) \<or> listed_dependency i q \<or> app_uses ops w i q"
    by blast+
qed

lemma count_all_ok:
  assumes "count_all ops w tg is = Some tg'" and "count_ok ops w js tg"
  shows "count_ok ops w (js @ is) tg'"
  using assms
proof (induction "is" arbitrary: tg js)
  case (Cons i "is")
  then obtain t where t: "count_info ops w tg i = Some t" "count_all ops w t is = Some tg'"
    by (auto split: option.splits)
  have "count_ok ops w (js @ [i]) t"
    using Cons.prems(2) count_info_ok [OF t(1)] unfolding count_ok_def
    by (auto simp: domIff simp del: map_of_eq_Some_iff not_None_eq)
  from Cons.IH [OF t(2) this] show ?case by simp
qed simp

subsection \<open>The keys of deferred uninstallation\<close>

definition deleted_keys :: "layers_item list \<Rightarrow> string set" where
  "deleted_keys items = {Reference_toString q | q. \<exists>x \<in> set items. Reference_fromPackageInfo (item_info x) = Inr q}"

lemma deleted_keys_Cons:
  "deleted_keys (x # xs) = (case Reference_fromPackageInfo (item_info x) of
     Inl _ \<Rightarrow> deleted_keys xs | Inr q \<Rightarrow> insert (Reference_toString q) (deleted_keys xs))"
  by (auto simp: deleted_keys_def split: sum.splits)

lemma group_deleted_keys:
  "group_deleted items gs = Some gs' \<Longrightarrow> fst ` set gs' \<subseteq> fst ` set gs \<union> deleted_keys items"
proof (induction items arbitrary: gs)
  case (Cons x xs)
  then obtain q where q: "Reference_fromPackageInfo (item_info x) = Inr q" by (auto split: sum.splits)
  let ?k = "Reference_toString q"
  let ?gs = "if ?k \<in> fst ` set gs then map (\<lambda>(j, is). if j = ?k then (j, is @ [x]) else (j, is)) gs else gs @ [(?k, [x])]"
  have "fst ` set ?gs \<subseteq> insert ?k (fst ` set gs)" by (auto split: if_splits)
  moreover have "fst ` set gs' \<subseteq> fst ` set ?gs \<union> deleted_keys xs"
    using Cons.IH [of ?gs] Cons.prems q by (simp add: Let_def)
  ultimately show ?case unfolding deleted_keys_Cons q sum.case by blast
qed simp

subsection \<open>The laws\<close>

locale framed_repository = module_repository ops for ops :: "'w repo_ops" +
  assumes remove_frame: "\<not> same_layers r ref \<Longrightarrow>
      mset (ro_getModuleList ops (snd (ro_remove ops ref m sub w)) r) = mset (ro_getModuleList ops w r)"
    and prune_keeps: "ro_getModuleList ops (snd (ro_prune ops w)) r = ro_getModuleList ops w r"
begin

lemma prune_modules_frame:
  "prune_modules ops ref ms rem w = (e, rem', w') \<Longrightarrow> \<not> same_layers r ref \<Longrightarrow>
     mset (ro_getModuleList ops w' r) = mset (ro_getModuleList ops w r)"
proof (induction ms arbitrary: rem w)
  case (Cons m ms)
  then show ?case using remove_frame [of r ref m None w]
    by (force split: sum.splits prod.splits)
qed simp

lemma prune_refs_frame:
  "prune_refs ops tg rem w = (e, rem', w') \<Longrightarrow> (\<And>q. (q, 0) \<in> set tg \<Longrightarrow> \<not> same_layers r q) \<Longrightarrow>
     mset (ro_getModuleList ops w' r) = mset (ro_getModuleList ops w r)"
proof (induction tg arbitrary: rem w)
  case (Cons a tg)
  obtain q n where a: "a = (q, n)" by (cases a)
  show ?case
  proof (cases "n = 0")
    case False
    then show ?thesis using Cons.IH [of rem w] Cons.prems a by simp
  next
    case True
    obtain e1 rem1 w1 where p: "prune_modules ops q (ro_getModuleList ops w q) rem w = (e1, rem1, w1)"
      by (metis prod_cases3)
    have "mset (ro_getModuleList ops w1 r) = mset (ro_getModuleList ops w r)"
      using prune_modules_frame [OF p] Cons.prems(2) a True by auto
    then show ?thesis using Cons.IH [of rem1 w1] Cons.prems p a True by (auto split: option.splits)
  qed
qed simp

lemma pruned_only_unused:
  assumes "Prune ops w = Some (res, removed, w')"
    and "mset (ro_getModuleList ops w' r) \<noteq> mset (ro_getModuleList ops w r)"
  shows "\<exists>q. same_layers r q \<and> (\<exists>i \<in> set (ro_listLocal ops w). listed_dependency i q) \<and>
    (\<forall>i \<in> set (ro_listLocal ops w). \<not> app_uses ops w i q)"
proof (rule ccontr)
  assume none: "\<not> ?thesis"
  obtain tg where tg: "count_all ops w [] (ro_listLocal ops w) = Some tg"
    using assms(1) by (auto simp: Prune_def split: option.splits)
  have ok: "count_ok ops w (ro_listLocal ops w) tg"
    using count_all_ok [OF tg, of "[]"] by (simp add: count_ok_def)
  obtain e rem1 w1 where p: "prune_refs ops tg [] w = (e, rem1, w1)" by (metis prod_cases3)
  have "mset (ro_getModuleList ops w1 r) = mset (ro_getModuleList ops w r)"
    using prune_refs_frame [OF p] ok none unfolding count_ok_def by fastforce
  moreover have "ro_getModuleList ops w' r = ro_getModuleList ops w1 r"
    using assms(1) tg p prune_keeps [of w1 r] merge_keeps [of _ r]
    by (auto simp: Prune_def split: option.splits if_splits prod.splits sum.splits)
  ultimately show False using assms(2) by simp
qed

lemma remove_items_frame:
  "\<not> same_layers r ref \<Longrightarrow>
     mset (ro_getModuleList ops (remove_items ops ref items w) r) = mset (ro_getModuleList ops w r)"
  by (induction items arbitrary: w) (simp_all add: remove_frame)

lemma uninstall_groups_frame:
  "uninstall_groups ops gs w = Some w' \<Longrightarrow> (\<And>k is q. (k, is) \<in> set gs \<Longrightarrow> Reference_parse k = Inr q \<Longrightarrow> \<not> same_layers r q) \<Longrightarrow>
     mset (ro_getModuleList ops w' r) = mset (ro_getModuleList ops w r)"
proof (induction gs arbitrary: w)
  case (Cons a gs)
  obtain k "is" where a: "a = (k, is)" by (cases a)
  show ?case
  proof (cases "Reference_parse k")
    case (Inr q)
    let ?w2 = "snd (ro_merge ops (remove_items ops q is (ro_unexport ops q w)))"
    have kept: "mset (ro_getModuleList ops ?w2 r) = mset (ro_getModuleList ops w r)"
      using Cons.prems(2) [of k "is" q] Inr a by (simp add: merge_keeps remove_items_frame unexport_keeps)
    have "w' = ?w2 \<or> (\<exists>l. uninstall_groups ops gs (ro_export ops l ?w2) = Some w')"
      using Cons.prems(1) Inr a by (auto simp: Let_def split: sum.splits option.splits)
    moreover have "(\<And>k is q. (k, is) \<in> set gs \<Longrightarrow> Reference_parse k = Inr q \<Longrightarrow> \<not> same_layers r q)"
      using Cons.prems(2) by (metis list.set_intros(2))
    ultimately show ?thesis using kept Cons.IH by (metis export_keeps)
  qed (use Cons.prems a in simp)
qed simp

lemma deferred_only_deleted:
  assumes "deferredUninstall ops pe (ls, w) = Some (ls', w')"
    and "mset (ro_getModuleList ops w' r) \<noteq> mset (ro_getModuleList ops w r)"
  shows "\<exists>k q. k \<in> deleted_keys (ro_listLocalBy ops w query_all_deleted) \<and> Reference_parse k = Inr q \<and> same_layers r q \<and>
    (\<exists>running. getAllRunningContainers (pe_running pe) = Inr running \<and> k \<notin> ci_app ` set running)"
proof -
  let ?items = "ro_listLocalBy ops w query_all_deleted"
  obtain gs running where gs: "group_deleted ?items [] = Some gs"
      "getAllRunningContainers (pe_running pe) = Inr running"
      "uninstall_groups ops (filter (\<lambda>(k, _). k \<notin> ci_app ` set running) gs) w = Some w'"
    using assms by (auto simp: deferredUninstall_def Let_def split: prod.splits sum.splits option.splits if_splits)
  obtain k "is" q where "(k, is) \<in> set gs" "k \<notin> ci_app ` set running" "Reference_parse k = Inr q" "same_layers r q"
    using uninstall_groups_frame [OF gs(3), of r] assms(2) by auto
  moreover have "fst ` set gs \<subseteq> deleted_keys ?items" using group_deleted_keys [OF gs(1)] by simp
  ultimately show ?thesis using gs(2) by force
qed

end

section \<open>A repository one can install into\<close>

text \<open>A task that has not succeeded and has parts left; it stays so until an operation says \<open>Succeed\<close>.\<close>

definition unfinished :: "package_task \<Rightarrow> bool" where
  "unfinished t \<longleftrightarrow> t_state t \<noteq> Succeed \<and> t_taskParts t \<noteq> of_nat (length (t_refs t))"

lemma unfinished_updateState [simp]:
  "s \<notin> {Succeed, PartCompleted} \<Longrightarrow> unfinished t \<Longrightarrow> unfinished (updateState s m d t)"
  by (auto simp: unfinished_def updateState_state)

lemma unfinished_updateSubState [simp]: "unfinished (updateSubState s m t) = unfinished t"
  by (simp add: unfinished_def)

lemma unfinished_reportError [simp]: "unfinished t \<Longrightarrow> unfinished (reportError e t)"
  by (simp add: unfinished_def reportError_def Let_def emit_percentage_def setState_def setSubState_def setMessage_def
      changePropertiesDone_def emit_def)

locale installing_repository = framed_repository ops for ops :: "'w repo_ops" +
  assumes pull_unfinished: "unfinished t \<Longrightarrow> unfinished (fst (ro_pull ops ref m (t, w)))"
    and mark_keeps: "mset (ro_getModuleList ops (snd (ro_markDeleted ops ref d m w)) r) = mset (ro_getModuleList ops w r)"
    and item_listed: "ro_getLayerItem ops w ref m = Inr x \<Longrightarrow> ro_getModuleList ops w ref \<noteq> []"
begin

lemma pull_base_unfinished:
  "pull_base ops trace info m tx (t, w) = Some (t', w') \<Longrightarrow> unfinished t \<Longrightarrow> unfinished t'"
  using pull_unfinished
  by (auto simp: pull_base_def Let_def split: option.splits prod.splits sum.splits if_splits) (metis fst_conv unfinished_updateSubState)+

lemma pullDependency_unfinished:
  "pullDependency ops info m (t, w) = Some (t', w') \<Longrightarrow> unfinished t \<Longrightarrow> unfinished t'"
  using pull_unfinished pull_base_unfinished
  by (auto simp: pullDependency_def Let_def split: option.splits prod.splits sum.splits if_splits) (metis fst_conv unfinished_updateSubState)+

lemma pull_modules_unfinished:
  "pull_modules ops trace ref ms tx (t, w) = Some (b, tx', t', w') \<Longrightarrow> unfinished t \<Longrightarrow> unfinished t'"
proof (induction ms arbitrary: tx t w)
  case (Cons m ms)
  obtain t1 w1 where p: "ro_pull ops ref m (t, w) = (t1, w1)" by (metis surj_pair)
  have t1: "unfinished t1" using pull_unfinished [OF Cons.prems(2), of ref m w] p by simp
  show ?case using Cons.prems p t1
    by (auto simp: Let_def split: if_splits sum.splits option.splits dest: Cons.IH intro: Cons.IH pullDependency_unfinished)
qed simp

lemma unmark_deleted_unfinished:
  "unmark_deleted ops ref items ms tx (t, w) = (b, ms', tx', t', w') \<Longrightarrow> unfinished t \<Longrightarrow> unfinished t'"
proof (induction items arbitrary: ms tx t w)
  case (Cons x items)
  then show ?case
    by (auto simp: Let_def split: if_splits option.splits prod.splits intro: Cons.IH)
qed simp

lemma InstallRef_unfinished:
  "InstallRef ops arch ref ms (t, w) = Some (t', w') \<Longrightarrow> unfinished t \<Longrightarrow> unfinished t'"
  by (auto simp: InstallRef_def install_modules_def Let_def split: sum.splits prod.splits bool.splits option.splits if_splits
      dest!: unmark_deleted_unfinished pull_modules_unfinished)

lemma remove_old_frame:
  "remove_old_modules ops ref ms tx w = (e, tx', w') \<Longrightarrow> \<not> same_layers r ref \<Longrightarrow>
     mset (ro_getModuleList ops w' r) = mset (ro_getModuleList ops w r)"
proof (induction ms arbitrary: tx w)
  case (Cons m ms)
  then show ?case using remove_frame [of r ref "''binary''" None w] by (force split: sum.splits prod.splits)
qed simp

lemma mark_modules_keep:
  "mark_modules ops ref ms tx w = (e, tx', w') \<Longrightarrow> mset (ro_getModuleList ops w' r) = mset (ro_getModuleList ops w r)"
proof (induction ms arbitrary: tx w)
  case (Cons m ms)
  then show ?case using mark_keeps [of ref True m w r] by (force split: sum.splits prod.splits)
qed simp

lemma removeAfterInstall_frame:
  assumes "removeAfterInstall ops pe old new ms (ls, w) = (Inr u, ls', w')" and "\<not> same_layers r old"
  shows "mset (ro_getModuleList ops w' r) = mset (ro_getModuleList ops w r)"
  using assms
  by (auto simp: removeAfterInstall_def Let_def Transaction_dtor_commit unexport_keeps export_keeps merge_keeps
      split: prod.splits sum.splits bool.splits option.splits dest!: mark_modules_keep remove_old_frame)

lemma installed:
  assumes "Install_job ops pe arch new old ms (t, ls, w) = Some (t', ls', w')" and "t_state t' = Succeed"
    and "t_taskParts t \<noteq> of_nat (length (t_refs t))" and "\<And>o'. old = Some o' \<Longrightarrow> \<not> same_layers new o'"
  shows "ro_getModuleList ops w' new \<noteq> []"
proof -
  let ?t0 = "updateState Processing (''Installing '' @ Reference_toString new) None t"
  have "unfinished ?t0" using assms(3) by (simp add: unfinished_def updateState_state)
  then obtain t1 w1 where i: "InstallRef ops arch new ms (?t0, w) = Some (t1, w1)" and t1: "unfinished t1"
    using assms(1) InstallRef_unfinished by (auto simp: Install_job_def split: option.splits)
  let ?w2 = "snd (ro_merge ops w1)"
  have more: "\<not> isTaskDone (t_subState t1)" using assms(1,2) i t1 by (auto simp: Install_job_def unfinished_def)
  obtain x where x: "ro_getLayerItem ops ?w2 new ''binary'' = Inr x"
  proof (cases "ro_getLayerItem ops ?w2 new ''binary''")
    case (Inl e)
    then have "t' = reportError e (updateSubState PostAction ''processing after install'' t1)"
      using assms(1) i more by (simp add: Install_job_def Let_def)
    moreover have "unfinished (reportError e (updateSubState PostAction ''processing after install'' t1))" using t1 by simp
    ultimately show ?thesis using assms(2) by (simp add: unfinished_def)
  qed simp
  have "mset (ro_getModuleList ops w' new) = mset (ro_getModuleList ops ?w2 new)"
    using assms(1,2,4) i more x t1
    by (auto simp: Install_job_def Let_def export_keeps unfinished_def updateState_state removeAfterInstall_frame
        split: if_splits option.splits prod.splits sum.splits)
  then show ?thesis using item_listed [OF x] by auto
qed

end

section \<open>The repository of the program\<close>

lemma deleteLayerItem_frame:
  assumes "of_ref ref x" and "\<not> same_layers r ref"
  shows "filter_mset (of_ref r) (mset (rc_layers (rcs_cache (snd (deleteLayerItem env dump x s))))) =
    filter_mset (of_ref r) (mset (rc_layers (rcs_cache s)))"
proof (cases "index_of (same_item x) (rc_layers (rcs_cache s))")
  case None
  then show ?thesis by (simp add: deleteLayerItem_def findMatchingItem_def Let_def)
next
  case (Some i)
  have i: "i < length (rc_layers (rcs_cache s))" "same_item x (rc_layers (rcs_cache s) ! i)"
    using index_of_Some [OF Some] by auto
  have "of_ref ref (rc_layers (rcs_cache s) ! i)" using assms(1) i(2) by (simp add: of_ref_iff same_item_def)
  then have "\<not> of_ref r (rc_layers (rcs_cache s) ! i)" using same_layers_of_ref assms(2) by blast
  moreover have "rc_layers (rcs_cache (snd (deleteLayerItem env dump x s))) = erase_at i (rc_layers (rcs_cache s))"
    using deleteLayerItem_found(1) [OF Some refl, of env dump] by simp
  ultimately show ?thesis using i(1) by (simp add: erase_at_mset filter_diff_mset)
qed

lemma removeOstreeRef_frame:
  assumes "of_ref ref x" and "\<not> same_layers r ref"
  shows "filter_mset (of_ref r) (mset (rc_layers (rcs_cache (or_cache (snd (removeOstreeRef oe env dump x s)))))) =
    filter_mset (of_ref r) (mset (rc_layers (rcs_cache (or_cache s))))"
  using deleteLayerItem_frame [OF assms, of env dump "or_cache s"]
  by (auto simp: removeOstreeRef_def Let_def split: option.splits prod.split sum.splits)

lemma OSTreeRepo_remove_frame:
  assumes "\<forall>xs. mset (srt xs) = mset xs" and "\<not> same_layers r ref"
  shows "filter_mset (of_ref r) (mset (rc_layers (rcs_cache (or_cache (snd (OSTreeRepo_remove oe env dump srt ref m sub s)))))) =
    filter_mset (of_ref r) (mset (rc_layers (rcs_cache (or_cache s))))"
proof (cases "getLayerItem srt (or_cache s) ref m sub")
  case (Inr x)
  have "of_ref ref x" using getLayerItem_found [OF assms(1) Inr] by simp
  from removeOstreeRef_frame [OF this assms(2), of oe env dump s] show ?thesis using Inr
    by (auto simp: OSTreeRepo_remove_def Let_def split: prod.splits sum.splits)
qed (simp add: OSTreeRepo_remove_def Let_def)

sublocale ostree_setting \<subseteq> framed_repository "ostree_ops rs"
proof unfold_locales
  fix r ref m sub w
  assume "\<not> same_layers r ref"
  then show "mset (ro_getModuleList (ostree_ops rs) (snd (ro_remove (ostree_ops rs) ref m sub w)) r) =
      mset (ro_getModuleList (ostree_ops rs) w r)"
    unfolding module_mset
    using OSTreeRepo_remove_frame [of "rs_sort rs" r ref "oc_ostree (next_env rs w)" "oc_cache (next_env rs w)" "rs_dump rs" m sub "rw_repo w"]
    by (simp add: sort_permutes ostree_ops_def repo_call_def Let_def)
qed (simp add: ostree_ops_def)

lemma unfinished_updateTask [simp]: "unfinished (updateTask a b m t) = unfinished t"
  by (simp add: unfinished_def updateTask_def Let_def emit_percentage_def emit_def setMessage_def changePropertiesDone_def)

lemma unfinished_Cancel [simp]: "unfinished t \<Longrightarrow> unfinished (Cancel t)"
  by (simp add: Cancel_def) (simp add: unfinished_def updateState_state)

lemma on_pull_event_unfinished: "unfinished (snd s) \<Longrightarrow> unfinished (snd (on_pull_event s e))"
  by (cases s; cases e) (auto simp: progress_changed_def Let_def split: prod.splits if_splits)

lemma pull_events_unfinished: "unfinished (snd s) \<Longrightarrow> unfinished (snd (foldl on_pull_event s evs))"
  by (induction evs arbitrary: s) (simp_all add: on_pull_event_unfinished)

lemma pull_ref_unfinished:
  "pull_ref pu repo spec (d, t, r) = (e, d', t', r') \<Longrightarrow> unfinished t \<Longrightarrow> unfinished t'"
  using pull_events_unfinished [of "(d, t)" "fst (pu_pull pu spec)"]
  by (auto simp: pull_ref_def split: prod.splits sum.splits)

lemma pull_checkout_unfinished:
  "unfinished t \<Longrightarrow> unfinished (fst (pull_checkout pu de oe env dump repo trace spec (t, r)))"
  by (auto simp: pull_checkout_def Let_def split: sum.splits prod.splits)

lemma OSTreeRepo_pull_unfinished:
  "unfinished t \<Longrightarrow> unfinished (fst (OSTreeRepo_pull pu de oe env dump repo ref m (t, r)))"
  by (auto simp: OSTreeRepo_pull_def Let_def split: prod.split option.split dest!: pull_ref_unfinished
      intro: pull_checkout_unfinished)

text \<open>Marking changes no layer but for its flag.\<close>

lemma set_deleted_infos:
  "map item_info (rc_layers (rcs_cache (set_deleted i d s))) = map item_info (rc_layers (rcs_cache s))"
  by (cases "i < length (rc_layers (rcs_cache s))")
    (simp_all add: set_deleted_def set_layers_def map_update list_update_same_conv list_update_beyond)

lemma of_ref_infos:
  assumes "map item_info xs = map item_info ys"
  shows "image_mset (\<lambda>x. info_module (item_info x)) (filter_mset (of_ref r) (mset xs)) =
    image_mset (\<lambda>x. info_module (item_info x)) (filter_mset (of_ref r) (mset ys))"
proof -
  have "map (\<lambda>x. info_module (item_info x)) (filter (of_ref r) xs) = map (\<lambda>x. info_module (item_info x)) (filter (of_ref r) ys)"
    using assms
  proof (induction xs arbitrary: ys)
    case (Cons x xs)
    then obtain y ys' where "ys = y # ys'" "item_info x = item_info y" by (cases ys) auto
    with Cons show ?case by (auto simp: of_ref_iff)
  qed simp
  then show ?thesis by (metis mset_filter mset_map)
qed

lemma markDeleted_infos:
  "map item_info (rc_layers (rcs_cache (snd (markDeleted env dump srt ref d m sub s)))) = map item_info (rc_layers (rcs_cache s))"
  by (auto simp: markDeleted_def Let_def set_deleted_infos Transaction_dtor_def addRollBack_def
      Transaction_new_def commit_def TransactionRollback_def split: sum.splits prod.splits dest!: writeToDisk_cacheD)

sublocale ostree_setting \<subseteq> installing_repository "ostree_ops rs"
proof unfold_locales
  fix t ref m w
  assume "unfinished t"
  then show "unfinished (fst (ro_pull (ostree_ops rs) ref m (t, w)))"
    by (simp add: ostree_ops_def Let_def repo_call_def OSTreeRepo_pull_unfinished)
next
  fix ref d m w r
  show "mset (ro_getModuleList (ostree_ops rs) (snd (ro_markDeleted (ostree_ops rs) ref d m w)) r) =
      mset (ro_getModuleList (ostree_ops rs) w r)"
    unfolding module_mset
    using markDeleted_infos [of "oc_cache (next_env rs w)" "rs_dump rs" "rs_sort rs" ref d m None "or_cache (rw_repo w)"]
    by (intro of_ref_infos) (auto simp: ostree_ops_def repo_mark_def repo_call_def split: prod.split)
next
  fix w ref m x
  assume "ro_getLayerItem (ostree_ops rs) w ref m = Inr x"
  then have "x \<in> set (rc_layers (rcs_cache (or_cache (rw_repo w)))) \<and> of_ref ref x"
    using getLayerItem_found [of "rs_sort rs" "or_cache (rw_repo w)" ref m None x] sort_permutes
    by (simp add: ostree_ops_def)
  then have "mset (ro_getModuleList (ostree_ops rs) w ref) \<noteq> {#}" unfolding module_mset by auto
  then show "ro_getModuleList (ostree_ops rs) w ref \<noteq> []" by auto
qed

context ostree_setting
begin

lemma is_installing: "installing_repository (ostree_ops rs)"
  by unfold_locales

end

lemma ostree_installing:
  assumes "\<forall>xs. mset (rs_sort rs xs) = mset xs" and "\<forall>xs. mset (rs_sortModules rs xs) = mset xs"
  shows "installing_repository (ostree_ops rs)"
  by (rule ostree_setting.is_installing) (use assms in \<open>unfold_locales, simp_all\<close>)

context ostree_setting
begin

lemma is_framed: "framed_repository (ostree_ops rs)"
  by unfold_locales

end

lemma ostree_framed:
  assumes "\<forall>xs. mset (rs_sort rs xs) = mset xs" and "\<forall>xs. mset (rs_sortModules rs xs) = mset xs"
  shows "framed_repository (ostree_ops rs)"
  by (rule ostree_setting.is_framed) (use assms in \<open>unfold_locales, simp_all\<close>)

section \<open>Properties\<close>

text \<open>Layers of a base, installed beside the application.\<close>

definition demo_base :: "string \<Rightarrow> string \<Rightarrow> string \<Rightarrow> layers_item" where
  "demo_base i v c = \<lparr>item_commit = c, item_deleted = None,
     item_info = demo_info\<lparr>info_id := i, info_version := v, info_kind := ''base''\<rparr>, item_repo = ''stable''\<rparr>"

definition demo_pruned :: repo_world where
  "demo_pruned = demo_world [demo_module ''binary'' ''c1'', demo_base ''org.deepin.base'' ''23.1.0.0'' ''c2'',
     demo_base ''org.deepin.old'' ''1.0.0.0'' ''c3'']"

definition old_base :: reference where
  "old_base = demo_reference\<lparr>ref_id := ''org.deepin.old''\<rparr>"

text \<open>
  C19: Pruning takes layers away only from a base or runtime that no installed application
  resolves to: whenever the layers of a reference change, the reference is that of an installed
  package of another kind than \<open>app\<close>, and no installed application uses it, whatever ostree and
  the file system do and whether or not the prune succeeds. An application that names a runtime which is not
  installed does not count as a user of its base.
\<close>

theorem prune_removes_unused:
  assumes "\<forall>xs. mset (rs_sort rs xs) = mset xs" and "\<forall>xs. mset (rs_sortModules rs xs) = mset xs"
    and "Prune (ostree_ops rs) w = Some (res, removed, w')"
    and "mset (getModuleList (rs_sort rs) (rs_sortModules rs) (or_cache (rw_repo w')) ref) \<noteq>
         mset (getModuleList (rs_sort rs) (rs_sortModules rs) (or_cache (rw_repo w)) ref)"
  shows "\<exists>q. same_layers ref q \<and> (\<exists>i \<in> set (listLocal (or_cache (rw_repo w))). listed_dependency i q) \<and>
    (\<forall>i \<in> set (listLocal (or_cache (rw_repo w))). \<not> app_uses (ostree_ops rs) w i q)"
  using framed_repository.pruned_only_unused [OF ostree_framed [OF assms(1,2)] assms(3), of ref] assms(4)
  by (simp add: ostree_ops_def)

theorem prune_removes_unused_witness:
  "\<exists>q. same_layers old_base q \<and> (\<forall>i \<in> set (listLocal (or_cache (rw_repo demo_pruned))). \<not> app_uses (ostree_ops demo_setting) demo_pruned i q)"
proof -
  have perm: "\<forall>xs. mset (rs_sort demo_setting xs) = mset xs" "\<forall>xs. mset (rs_sortModules demo_setting xs) = mset xs"
    by (simp_all add: demo_setting_def)
  let ?run = "Prune (ostree_ops demo_setting) demo_pruned" and ?f = "\<lambda>w. getModuleList (\<lambda>xs. xs) (\<lambda>xs. xs) (or_cache (rw_repo w)) old_base"
  have "map_option (\<lambda>s. length (?f (snd (snd s)))) ?run = Some 0" and one: "length (?f demo_pruned) = 1" by code_simp+
  then have some: "?run \<noteq> None" and lens: "length (?f (snd (snd (the ?run)))) = 0" by auto
  from some have run: "?run = Some (fst (the ?run), fst (snd (the ?run)), snd (snd (the ?run)))" by (cases ?run) auto
  have "mset (?f (snd (snd (the ?run)))) \<noteq> mset (?f demo_pruned)" using lens one by (metis size_mset zero_neq_one)
  then have "mset (getModuleList (rs_sort demo_setting) (rs_sortModules demo_setting) (or_cache (rw_repo (snd (snd (the ?run))))) old_base) \<noteq>
      mset (getModuleList (rs_sort demo_setting) (rs_sortModules demo_setting) (or_cache (rw_repo demo_pruned)) old_base)"
    by (simp add: demo_setting_def)
  from prune_removes_unused [OF perm run this] show ?thesis by blast
qed

text \<open>
  C20: The periodic clean-up takes layers away only from packages that are marked as deleted
  and not running: whenever the layers of a reference change, a layer marked as deleted has its id,
  channel and version, and no running container has started from that reference.
\<close>

theorem deferred_spares_running:
  assumes "\<forall>xs. mset (rs_sort rs xs) = mset xs" and "\<forall>xs. mset (rs_sortModules rs xs) = mset xs"
    and "deferredUninstall (ostree_ops rs) pe (ls, w) = Some (ls', w')"
    and "mset (getModuleList (rs_sort rs) (rs_sortModules rs) (or_cache (rw_repo w')) ref) \<noteq>
         mset (getModuleList (rs_sort rs) (rs_sortModules rs) (or_cache (rw_repo w)) ref)"
  shows "\<exists>k q. k \<in> deleted_keys (queryLayerItem (rs_sort rs) query_all_deleted (or_cache (rw_repo w))) \<and>
    Reference_parse k = Inr q \<and> same_layers ref q \<and>
    (\<exists>running. getAllRunningContainers (pe_running pe) = Inr running \<and> k \<notin> ci_app ` set running)"
  using framed_repository.deferred_only_deleted [OF ostree_framed [OF assms(1,2)] assms(3), of ref] assms(4)
  by (simp add: ostree_ops_def)

definition demo_deferred :: repo_world where
  "demo_deferred = demo_world [(demo_module ''binary'' ''c1'')\<lparr>item_deleted := Some True\<rparr>,
     \<lparr>item_commit = ''c2'', item_deleted = None, item_info = demo_info\<lparr>info_version := ''2.0.0.0''\<rparr>, item_repo = ''stable''\<rparr>]"

theorem deferred_spares_running_witness:
  "\<exists>k q. Reference_parse k = Inr q \<and> same_layers demo_reference q \<and>
     k \<in> deleted_keys (queryLayerItem (\<lambda>xs. xs) query_all_deleted (or_cache (rw_repo demo_deferred)))"
proof -
  have perm: "\<forall>xs. mset (rs_sort demo_setting xs) = mset xs" "\<forall>xs. mset (rs_sortModules demo_setting xs) = mset xs"
    by (simp_all add: demo_setting_def)
  let ?run = "deferredUninstall (ostree_ops demo_setting) demo_pm_env (unlocked, demo_deferred)"
    and ?f = "\<lambda>w. getModuleList (\<lambda>xs. xs) (\<lambda>xs. xs) (or_cache (rw_repo w)) demo_reference"
  have "map_option (\<lambda>s. length (?f (snd s))) ?run = Some 0" and one: "length (?f demo_deferred) = 1" by code_simp+
  then have some: "?run \<noteq> None" and lens: "length (?f (snd (the ?run))) = 0" by auto
  from some have run: "?run = Some (fst (the ?run), snd (the ?run))" by (cases ?run) auto
  have "mset (?f (snd (the ?run))) \<noteq> mset (?f demo_deferred)" using lens one by (metis size_mset zero_neq_one)
  then have "mset (getModuleList (rs_sort demo_setting) (rs_sortModules demo_setting) (or_cache (rw_repo (snd (the ?run)))) demo_reference) \<noteq>
      mset (getModuleList (rs_sort demo_setting) (rs_sortModules demo_setting) (or_cache (rw_repo demo_deferred)) demo_reference)"
    by (simp add: demo_setting_def)
  from deferred_spares_running [OF perm run this] show ?thesis by (auto simp: demo_setting_def)
qed

text \<open>
  C18: When an installation ends in state \<open>Succeed\<close>, a layer of the new reference is in the
  repository, also after the version it replaces has been removed, for every behaviour of ostree,
  the server and the file system on each call, and also when the user cancels the task at any moment of a pull.
\<close>

theorem install_success_installed:
  assumes "\<forall>xs. mset (rs_sort rs xs) = mset xs" and "\<forall>xs. mset (rs_sortModules rs xs) = mset xs"
    and "Install_job (ostree_ops rs) pe arch newRef oldRef modules (t, ls, w) = Some (t', ls', w')"
    and "t_state t' = Succeed" and "t_taskParts t \<noteq> of_nat (length (t_refs t))"
    and "\<forall>old. oldRef = Some old \<longrightarrow> \<not> same_layers newRef old"
  shows "getModuleList (rs_sort rs) (rs_sortModules rs) (or_cache (rw_repo w')) newRef \<noteq> []"
  using installing_repository.installed [OF ostree_installing [OF assms(1,2)] assms(3-5)] assms(6)
  by (simp add: ostree_ops_def)

definition demo_old :: reference where
  "demo_old = demo_reference\<lparr>ref_version := \<lparr>major = 0, minor = 9, patch = 0, tweak = Some 0\<rparr>\<rparr>"

definition quiet_setting :: "package_info_v2 repo_setting" where
  "quiet_setting = demo_setting\<lparr>rs_env := \<lambda>_. demo_call_env\<lparr>oc_pull := demo_pull_env\<lparr>pu_pull := \<lambda>_. ([], Inr ''c1'')\<rparr>\<rparr>\<rparr>"

definition demo_installing :: repo_world where
  "demo_installing = demo_world [\<lparr>item_commit = ''c0'', item_deleted = None,
       item_info = demo_info\<lparr>info_version := ''0.9.0.0''\<rparr>, item_repo = ''stable''\<rparr>,
     demo_base ''org.deepin.base'' ''23.1.0.0'' ''c2'']"

theorem install_success_installed_witness:
  "getModuleList (\<lambda>xs. xs) (\<lambda>xs. xs) (or_cache (rw_repo (snd (snd (the
     (Install_job (ostree_ops quiet_setting) demo_pm_env (Inr X86_64) demo_reference (Some demo_old) [''binary'']
       (demo_task, unlocked, demo_installing))))))) demo_reference \<noteq> []"
proof -
  let ?run = "Install_job (ostree_ops quiet_setting) demo_pm_env (Inr X86_64) demo_reference (Some demo_old) [''binary'']
       (demo_task, unlocked, demo_installing)"
  have perm: "\<forall>xs. mset (rs_sort quiet_setting xs) = mset xs" "\<forall>xs. mset (rs_sortModules quiet_setting xs) = mset xs"
    by (simp_all add: quiet_setting_def demo_setting_def)
  have "map_option (\<lambda>s. t_state (fst s)) ?run = Some Succeed" by code_simp
  then have some: "?run \<noteq> None" and ok: "t_state (fst (the ?run)) = Succeed" by auto
  have other: "\<not> same_layers demo_reference demo_old" by code_simp
  from some have run: "?run = Some (fst (the ?run), fst (snd (the ?run)), snd (snd (the ?run)))" by (cases ?run) auto
  have "t_taskParts demo_task \<noteq> of_nat (length (t_refs demo_task))" by (simp add: demo_task_def PackageTask_new_def)
  from install_success_installed [OF perm run ok this] other show ?thesis by (simp add: quiet_setting_def demo_setting_def)
qed

end
