(* ===== verification/Package_Requests.thy ===== *)
theory Package_Requests
  imports Package_Safety Layer_File Uab_File
begin

text \<open>
  The requests the package manager answers on D-Bus, \<open>libs/linglong/src/linglong/package_manager/package_manager.cpp\<close>:
  \<open>Install\<close>, \<open>Uninstall\<close>, \<open>Update\<close>, \<open>Search\<close>, \<open>Prune\<close> and the configuration property. A request reads
  the repository, answers at once, and adds a task whose job is run later by the task queue. The
  parameters arrive as the result of \<open>fromQVariantMap\<close>. \<open>None\<close> is the end of the process.
\<close>

section \<open>Parameters and replies\<close>

record package_param =
  pk_channel :: "string option"
  pk_id :: string
  pk_module :: "string option"
  pk_version :: "string option"

record common_options =
  co_force :: bool
  co_skipInteraction :: bool

datatype interaction_type = MDowngrade | MInstall | MUninstall | MUnknown | MUpgrade

text \<open>\<open>CommonResult\<close>, \<open>PackageManager1PackageTaskResult\<close>, \<open>PackageManager1JobInfo\<close> and \<open>PackageManager1SearchResult\<close>.\<close>

datatype reply =
    CommonResult (rep_code: int) (rep_message: string) (rep_type: string)
  | TaskResult (rep_path: string) (rep_code: int) (rep_message: string)
  | JobInfo (rep_id: string) (rep_code: int) (rep_message: string)
  | SearchResult (rep_packages: "package_info_v2 list") (rep_code: int) (rep_message: string)

definition toDBusReply_err :: "error \<Rightarrow> reply" where
  "toDBusReply_err e = CommonResult (err_code e) (err_message e) ''display''"

definition toDBusReply :: "int \<Rightarrow> string \<Rightarrow> reply" where
  "toDBusReply code msg = CommonResult code msg ''display''"

definition fuzzyReferenceFromPackage :: "package_param \<Rightarrow> fuzzy_reference result" where
  "fuzzyReferenceFromPackage pkg =
     (case pk_version pkg of
        None \<Rightarrow> FuzzyReference_create (pk_channel pkg) (pk_id pkg) None None
      | Some v \<Rightarrow>
         (case Version_parse v of
            Inl e \<Rightarrow> Inl e
          | Inr ver \<Rightarrow> FuzzyReference_create (pk_channel pkg) (pk_id pkg) (Some ver) None))"

section \<open>The state of the service\<close>

text \<open>The jobs that are set with \<open>setJob\<close>: what their closures capture.\<close>

datatype pm_job =
    InstallJob reference "reference option" string bool interaction_type
  | UninstallJob reference string
  | UpdateJob "(reference \<times> reference) list"
  | LayerJob layer_file reference string common_options interaction_type "reference option"
  | UabJob uab_file "uab_layer list" string common_options interaction_type reference "reference option"

datatype queue_job = SearchJob string fuzzy_reference | PruneJob string

record service =
  sv_pm :: package_manager
  sv_jobs :: "string \<rightharpoonup> pm_job"
  sv_lock :: lock_state
  sv_search :: "queue_job job_queue"
  sv_prune :: "queue_job job_queue"

definition refSpec_of :: "string \<Rightarrow> reference \<Rightarrow> string \<Rightarrow> string" where
  "refSpec_of repo ref moduleName = repo @ '':'' @ ref_channel ref @ ''/'' @ ref_id ref @ ''/'' @
     Architecture_toString (ref_arch ref) @ ''/'' @ moduleName"

definition being_operated :: "string \<Rightarrow> service \<Rightarrow> bool" where
  "being_operated refSpec s = list_ex (\<lambda>t. isRefExist refSpec (pm_task t)) (pm_taskList (sv_pm s))"

definition operated_reply :: "string \<Rightarrow> reply" where
  "operated_reply refSpec = toDBusReply (-1) (''the target '' @ refSpec @ '' is being operated'')"

text \<open>A new task with its job, and the signal \<open>TaskListChanged\<close>.\<close>

definition enqueue :: "string \<Rightarrow> string list \<Rightarrow> pm_job \<Rightarrow> service \<Rightarrow> service" where
  "enqueue uuid refs job s =
     s\<lparr>sv_pm := addTask (new_task uuid refs) (sv_pm s),
       sv_jobs := (sv_jobs s)(pm_path (new_task uuid refs) \<mapsto> job)\<rparr>"

section \<open>Install\<close>

text \<open>
  What follows the resolution of the remote reference: an extra module needs its binary, and a version
  that is installed, or newer than the remote one without \<open>force\<close>, is refused. \<open>Inl\<close> is the reply.
\<close>

definition check_install ::
    "'w repo_ops \<Rightarrow> 'w \<Rightarrow> string \<Rightarrow> bool \<Rightarrow> reference option \<Rightarrow> reference \<Rightarrow> reply + interaction_type" where
  "check_install ops w curModule force localRef remoteRef =
     (if curModule \<noteq> ''binary'' \<and> curModule \<noteq> ''runtime'' \<and>
         (case ro_getLayerDir ops w remoteRef ''binary'' of Inl _ \<Rightarrow> True | Inr d \<Rightarrow> \<not> ro_valid ops w d)
      then Inl (toDBusReply (-1) ''to install the module, one must first install the binary'')
      else case localRef of
        None \<Rightarrow> Inr MInstall
      | Some l \<Rightarrow>
         (if Version_eq (ref_version remoteRef) (ref_version l)
          then Inl (toDBusReply (-1) (Reference_toString l @ '' is already installed''))
          else if Version_gt (ref_version remoteRef) (ref_version l) then Inr MUpgrade
          else if \<not> force
          then Inl (toDBusReply (-1) (''The latest version has been installed. If you want to replace it, try using 'll-cli install ''
                 @ ref_id remoteRef @ ''/'' @ Version_toString (ref_version remoteRef) @ '' --force'' @ [CHR 0x27]))
          else Inr MInstall))"

text \<open>
  The wanted version, if it is installed; and the reference to look for on the server, which for an
  extra module is that of the installed version.
\<close>

definition ref_of :: "reference result \<Rightarrow> reference option" where
  "ref_of r = (case r of Inl _ \<Rightarrow> None | Inr l \<Rightarrow> Some l)"

definition installed_version :: "'w repo_ops \<Rightarrow> 'w \<Rightarrow> fuzzy_reference \<Rightarrow> reference option option" where
  "installed_version ops w fuzzyRef =
     (if fz_version fuzzyRef = None then Some None
      else map_option ref_of (ro_clearReference ops w fuzzyRef local_only ''binary''))"

definition wanted_remote :: "string \<Rightarrow> reference option \<Rightarrow> fuzzy_reference \<Rightarrow> fuzzy_reference" where
  "wanted_remote curModule localRef fuzzyRef =
     (case localRef of
        None \<Rightarrow> fuzzyRef
      | Some l \<Rightarrow> if curModule \<noteq> ''binary'' \<and> curModule \<noteq> ''runtime''
                  then fuzzyRef\<lparr>fz_version := Some (ref_version l)\<rparr> else fuzzyRef)"

definition Install ::
    "'w repo_ops \<Rightarrow> string \<Rightarrow> string \<Rightarrow> (common_options \<times> package_param) result \<Rightarrow> 'w \<Rightarrow> service \<Rightarrow> (reply \<times> service) option" where
  "Install ops defaultRepo uuid paras w s =
     (case paras of Inl e \<Rightarrow> Some (toDBusReply_err e, s) | Inr (opts, pkg) \<Rightarrow>
     (case fuzzyReferenceFromPackage pkg of Inl e \<Rightarrow> Some (toDBusReply_err e, s) | Inr fuzzyRef \<Rightarrow>
     (case installed_version ops w fuzzyRef of
        None \<Rightarrow> None
      | Some (Some ref) \<Rightarrow> Some (toDBusReply (-1) (Reference_toString ref @ '' is already installed.''), s)
      | Some None \<Rightarrow>
     (let curModule = (case pk_module pkg of None \<Rightarrow> ''binary'' | Some m \<Rightarrow> m) in
      case ro_clearReference ops w (fuzzyRef\<lparr>fz_version := None\<rparr>) local_only ''binary'' of
        None \<Rightarrow> None
      | Some localRes \<Rightarrow>
     (let localRef = ref_of localRes in
      case ro_clearReference ops w (wanted_remote curModule localRef fuzzyRef) force_remote curModule of
        None \<Rightarrow> None
      | Some (Inl e) \<Rightarrow> Some (toDBusReply_err e, s)
      | Some (Inr remoteRef) \<Rightarrow>
     (case check_install ops w curModule (co_force opts) localRef remoteRef of
        Inl r \<Rightarrow> Some (r, s)
      | Inr msgType \<Rightarrow>
     (let refSpec = refSpec_of defaultRepo remoteRef curModule in
      if being_operated refSpec s then Some (operated_reply refSpec, s)
      else Some (TaskResult (pm_path (new_task uuid [refSpec])) 0 (Reference_toString remoteRef @ '' is now installing''),
        enqueue uuid [refSpec] (InstallJob remoteRef localRef curModule (co_skipInteraction opts) msgType) s))))))))"

section \<open>Uninstall\<close>

definition Uninstall_request ::
    "'w repo_ops \<Rightarrow> pm_env \<Rightarrow> string \<Rightarrow> string \<Rightarrow> package_param result \<Rightarrow> 'w \<Rightarrow> service \<Rightarrow> (reply \<times> service) option" where
  "Uninstall_request ops pe defaultRepo uuid paras w s =
     (case paras of Inl e \<Rightarrow> Some (toDBusReply_err e, s) | Inr pkg \<Rightarrow>
     (case fuzzyReferenceFromPackage pkg of Inl e \<Rightarrow> Some (toDBusReply_err e, s) | Inr fuzzyRef \<Rightarrow>
     (case ro_clearReference ops w fuzzyRef local_only ''binary'' of
        None \<Rightarrow> None
      | Some (Inl _) \<Rightarrow> Some (toDBusReply (-1) (FuzzyReference_toString fuzzyRef @ '' not installed.''), s)
      | Some (Inr reference) \<Rightarrow>
     (case isRefBusy pe reference (sv_lock s) of (running, lk) \<Rightarrow>
      let s1 = s\<lparr>sv_lock := lk\<rparr> in
      case running of
        Inl _ \<Rightarrow> Some (toDBusReply (-1) (''failed to get the state of target ref:'' @ Reference_toString reference), s1)
      | Inr True \<Rightarrow> Some (CommonResult (-1) (''The application is currently running and cannot be ''
            @ ''uninstalled. Please turn off the application and try again.'') ''notification'', s1)
      | Inr False \<Rightarrow>
         (let curModule = (case pk_module pkg of None \<Rightarrow> ''binary'' | Some m \<Rightarrow> m);
              refSpec = refSpec_of defaultRepo reference curModule in
          if being_operated refSpec s1 then Some (operated_reply refSpec, s1)
          else let s2 = enqueue uuid [refSpec] (UninstallJob reference curModule) s1;
                   path = pm_path (new_task uuid [refSpec]) in
            Some (TaskResult path 0 (Reference_toString reference @ '' is now uninstalling''),
              s2\<lparr>sv_pm := updateTask_at path (updateState Queued ''add uninstall task to task queue.'' None) (sv_pm s2)\<rparr>))))))"

section \<open>Update\<close>

definition latestRemoteReference ::
    "'w repo_ops \<Rightarrow> 'w \<Rightarrow> string \<Rightarrow> fuzzy_reference \<Rightarrow> reference result option" where
  "latestRemoteReference ops w kind fuzzyRef =
     map_option (map_sum (Err_wrap ''get latest reference'') (\<lambda>r. r))
       (ro_clearReference ops w (if kind = ''app'' then fuzzyRef\<lparr>fz_version := None\<rparr> else fuzzyRef) force_remote ''binary'')"

definition update_package ::
    "'w repo_ops \<Rightarrow> string \<Rightarrow> 'w \<Rightarrow> service \<Rightarrow> package_param \<Rightarrow> (reply + string \<times> reference \<times> reference) option" where
  "update_package ops defaultRepo w s pkg =
     (case fuzzyReferenceFromPackage pkg of Inl e \<Rightarrow> Some (Inl (toDBusReply_err e)) | Inr fuzzyRef \<Rightarrow>
     (case ro_clearReference ops w fuzzyRef local_only ''binary'' of
        None \<Rightarrow> None
      | Some (Inl _) \<Rightarrow> Some (Inl (toDBusReply (-1) (FuzzyReference_toString fuzzyRef @ '' not installed.'')))
      | Some (Inr ref) \<Rightarrow>
     (case ro_getLayerItem ops w ref ''binary'' of Inl e \<Rightarrow> Some (Inl (toDBusReply_err e)) | Inr layerItem \<Rightarrow>
     (case latestRemoteReference ops w (info_kind (item_info layerItem)) fuzzyRef of
        None \<Rightarrow> None
      | Some (Inl e) \<Rightarrow> Some (Inl (toDBusReply_err e))
      | Some (Inr newRef) \<Rightarrow>
         (if Version_le (ref_version newRef) (ref_version ref)
          then Some (Inl (toDBusReply (-1) (''remote version is '' @ Version_toString (ref_version newRef)
                 @ '', the latest version '' @ Version_toString (ref_version ref) @ '' is already installed'')))
          else let refSpec = refSpec_of defaultRepo ref (case pk_module pkg of None \<Rightarrow> ''binary'' | Some m \<Rightarrow> m) in
            if being_operated refSpec s then Some (Inl (operated_reply refSpec))
            else Some (Inr (refSpec, ref, newRef)))))))"

fun update_packages ::
    "'w repo_ops \<Rightarrow> string \<Rightarrow> 'w \<Rightarrow> service \<Rightarrow> package_param list \<Rightarrow> (reply + (string \<times> reference \<times> reference) list) option" where
  "update_packages ops defaultRepo w s [] = Some (Inr [])"
| "update_packages ops defaultRepo w s (p # ps) =
     (case update_package ops defaultRepo w s p of
        None \<Rightarrow> None
      | Some (Inl r) \<Rightarrow> Some (Inl r)
      | Some (Inr u) \<Rightarrow> map_option (map_sum (\<lambda>r. r) (\<lambda>us. u # us)) (update_packages ops defaultRepo w s ps))"

definition Update_request ::
    "'w repo_ops \<Rightarrow> string \<Rightarrow> string \<Rightarrow> package_param list result \<Rightarrow> 'w \<Rightarrow> service \<Rightarrow> (reply \<times> service) option" where
  "Update_request ops defaultRepo uuid paras w s =
     (case paras of Inl e \<Rightarrow> Some (toDBusReply_err e, s) | Inr pkgs \<Rightarrow>
     (case update_packages ops defaultRepo w s pkgs of
        None \<Rightarrow> None
      | Some (Inl r) \<Rightarrow> Some (r, s)
      | Some (Inr us) \<Rightarrow>
          Some (TaskResult (pm_path (new_task uuid (map fst us))) 0 ''updating'',
            enqueue uuid (map fst us) (UpdateJob (map snd us)) s)))"

section \<open>Search, Prune and the configuration\<close>

definition Search :: "string \<Rightarrow> string result \<Rightarrow> service \<Rightarrow> reply \<times> service" where
  "Search jobID paras s =
     (case paras of Inl e \<Rightarrow> (toDBusReply_err e, s) | Inr i \<Rightarrow>
     (case FuzzyReference_parse i of
        Inl e \<Rightarrow> (toDBusReply_err e, s)
      | Inr ref \<Rightarrow> (JobInfo jobID 0 [], s\<lparr>sv_search := runTask (SearchJob jobID ref) (sv_search s)\<rparr>)))"

text \<open>The bodies of the two queued jobs: the result that is emitted with \<open>SearchFinished\<close> or \<open>PruneFinished\<close>.\<close>

definition search_result :: "(fuzzy_reference \<Rightarrow> package_info_v2 list result) \<Rightarrow> fuzzy_reference \<Rightarrow> reply" where
  "search_result listRemote ref =
     (case listRemote ref of Inl e \<Rightarrow> toDBusReply_err e | Inr pkgInfos \<Rightarrow> SearchResult pkgInfos 0 [])"

definition Prune_request :: "string \<Rightarrow> service \<Rightarrow> reply \<times> service" where
  "Prune_request jobID s = (JobInfo jobID 0 [], s\<lparr>sv_prune := runTask (PruneJob jobID) (sv_prune s)\<rparr>)"

definition prune_result :: "'w repo_ops \<Rightarrow> 'w \<Rightarrow> (reply \<times> 'w) option" where
  "prune_result ops w =
     (case Prune ops w of
        None \<Rightarrow> None
      | Some (Inl e, _, w') \<Rightarrow> Some (toDBusReply_err e, w')
      | Some (Inr _, pkgs, w') \<Rightarrow> Some (SearchResult pkgs 0 [], w'))"

text \<open>
  \<open>setConfiguration\<close> on the configuration in memory; \<open>set\<close> is \<open>OSTreeRepo::setConfig\<close>. The first
  component is the error reply, if one is sent.
\<close>

datatype dbus_error = InvalidArgs | FailedError

definition setConfiguration ::
    "(repo_config \<Rightarrow> 'c \<Rightarrow> unit result \<times> 'c) \<Rightarrow> ('c \<Rightarrow> repo_config) \<Rightarrow> repo_config result \<Rightarrow> 'c \<Rightarrow>
     (dbus_error \<times> string) option \<times> 'c" where
  "setConfiguration setCfg getCfg paras c =
     (case paras of Inl e \<Rightarrow> (Some (InvalidArgs, err_message e), c) | Inr cfg \<Rightarrow>
      if cfg_version cfg = cfg_version (getCfg c) \<and> cfg_defaultRepo cfg = cfg_defaultRepo (getCfg c) \<and>
         cfg_repos cfg = cfg_repos (getCfg c)
      then (None, c)
      else if map_of (cfg_repos cfg) (cfg_defaultRepo cfg) = None
      then (Some (FailedError, ''default repository is missing after updating configuration.''), c)
      else case setCfg cfg c of
        (Inl e, c1) \<Rightarrow> (Some (FailedError, err_message e), c1)
      | (Inr _, c1) \<Rightarrow> (None, c1))"

end
