(* ===== verification/Package_Files.thy ===== *)
theory Package_Files
  imports Package_Requests
begin

text \<open>
  Installation from a file, \<open>libs/linglong/src/linglong/package_manager/package_manager.cpp\<close>: the requests
  \<open>installFromLayer\<close>, \<open>installFromUAB\<close> and \<open>InstallFromFile\<close>, and the jobs of all requests. The file is an argument
  (its content, what libelf and the JSON library read from it), as are the results of child processes
  and of the file system.
\<close>

section \<open>The requests\<close>

record 'json file_env =
  fe_realFile :: string
  fe_layer :: "bytes option"
  fe_loadMeta :: "bytes \<Rightarrow> 'json result"
  fe_parseInfo :: "'json \<Rightarrow> package_info_v2 result"
  fe_uab :: "string + bytes"
  fe_elf :: "elf_view option"
  fe_uabParse :: "bytes \<Rightarrow> string option + 'json"
  fe_uabGet :: "'json \<Rightarrow> uab_meta option"
  fe_sha256hex :: "bytes \<Rightarrow> string"

text \<open>
  What both requests do with the description of the package. The vector of architectures is
  subscripted without a test. The result is the package's reference.
\<close>

definition file_reference :: "architecture result \<Rightarrow> package_info_v2 \<Rightarrow> (reply + reference) option" where
  "file_reference curArch info =
     (case info_arch info of [] \<Rightarrow> None | a # _ \<Rightarrow> Some
     (case Architecture_parse a of Inl e \<Rightarrow> Inl (toDBusReply_err e) | Inr arch \<Rightarrow>
     (case curArch of Inl e \<Rightarrow> Inl (toDBusReply_err e) | Inr cur \<Rightarrow>
      if arch \<noteq> cur
      then Inl (toDBusReply (-1) (''app arch:'' @ Architecture_toString arch @ '' not match host architecture''))
      else case Version_parse (info_version info) of Inl e \<Rightarrow> Inl (toDBusReply_err e) | Inr _ \<Rightarrow>
        (case Reference_fromPackageInfo info of Inl e \<Rightarrow> Inl (toDBusReply_err e) | Inr ref \<Rightarrow> Inr ref))))"

text \<open>
  The latest installed version, and whether its layer is usable; the comparison with it. \<open>fileName\<close> is the
  name in the message that asks for \<open>--force\<close>.
\<close>

definition local_version ::
    "'w repo_ops \<Rightarrow> 'w \<Rightarrow> reference \<Rightarrow> string \<Rightarrow> (reply + reference option \<times> bool) option" where
  "local_version ops w ref moduleName =
     (case FuzzyReference_parse (ref_id ref) of Inl e \<Rightarrow> Some (Inl (toDBusReply_err e)) | Inr fuzzyRef \<Rightarrow>
     (case ro_clearReference ops w fuzzyRef local_only ''binary'' of
        None \<Rightarrow> None
      | Some (Inl _) \<Rightarrow> Some (Inr (None, False))
      | Some (Inr l) \<Rightarrow>
          Some (Inr (Some l, case ro_getLayerDir ops w l moduleName of Inl _ \<Rightarrow> False | Inr d \<Rightarrow> ro_valid ops w d))))"

definition check_file_version ::
    "bool \<Rightarrow> string \<Rightarrow> reference \<Rightarrow> reference option \<Rightarrow> bool \<Rightarrow> reply + interaction_type" where
  "check_file_version force fileName ref localRef usable =
     (case localRef of
        None \<Rightarrow> Inr MInstall
      | Some l \<Rightarrow>
         (if \<not> usable then Inr MInstall
          else if Version_eq (ref_version ref) (ref_version l)
          then Inl (toDBusReply (-1) (Reference_toString l @ '' is already installed''))
          else if Version_gt (ref_version ref) (ref_version l) then Inr MUpgrade
          else if \<not> force
          then Inl (toDBusReply (-1) (''The latest version has been installed. If you want to replace it, try using 'll-cli install ''
                 @ fileName @ '' --force'' @ [CHR 0x27]))
          else Inr MInstall))"

text \<open>The end of both requests: the task with its job.\<close>

definition start_file_task ::
    "string \<Rightarrow> string \<Rightarrow> reference \<Rightarrow> string \<Rightarrow> pm_job \<Rightarrow> service \<Rightarrow> reply \<times> service" where
  "start_file_task uuid realFile ref moduleName job s =
     (let refSpec = refSpec_of ''local'' ref moduleName in
      if being_operated refSpec s then (operated_reply refSpec, s)
      else (TaskResult (pm_path (new_task uuid [refSpec])) 0 (realFile @ '' is now installing''),
            enqueue uuid [refSpec] job s))"

definition installFromLayer ::
    "'w repo_ops \<Rightarrow> architecture result \<Rightarrow> 'json file_env \<Rightarrow> string \<Rightarrow> common_options \<Rightarrow> 'w \<Rightarrow> service \<Rightarrow>
     (reply \<times> service) option" where
  "installFromLayer ops curArch fe uuid opts w s =
     (case LayerFile_New (fe_layer fe) of Inl e \<Rightarrow> Some (toDBusReply_err e, s) | Inr layerFile \<Rightarrow>
     (case metaInfo (fe_loadMeta fe) layerFile of
        (Inl e, _) \<Rightarrow> Some (toDBusReply_err e, s)
      | (Inr json, layerFile1) \<Rightarrow>
     (case fe_parseInfo fe json of Inl e \<Rightarrow> Some (toDBusReply_err e, s) | Inr info \<Rightarrow>
      if info_module info \<noteq> ''binary'' \<and> info_module info \<noteq> ''runtime''
      then Some (toDBusReply (-1) ''The current version does not support the develop module installation.'', s)
      else case file_reference curArch info of
        None \<Rightarrow> None
      | Some (Inl r) \<Rightarrow> Some (r, s)
      | Some (Inr packageRef) \<Rightarrow>
     (case local_version ops w packageRef (info_module info) of
        None \<Rightarrow> None
      | Some (Inl r) \<Rightarrow> Some (r, s)
      | Some (Inr (localRef, usable)) \<Rightarrow>
     (let layerName = ref_id packageRef @ ''_'' @ Version_toString (ref_version packageRef) @ ''_'' @
            Architecture_toString (ref_arch packageRef) @ ''_'' @ info_module info @ ''.layer'' in
      case check_file_version (co_force opts) layerName packageRef localRef usable of
        Inl r \<Rightarrow> Some (r, s)
      | Inr msgType \<Rightarrow>
          Some (start_file_task uuid (fe_realFile fe) packageRef (info_module info)
            (LayerJob layerFile1 packageRef (info_module info) opts msgType localRef) s))))))"

definition installFromUAB ::
    "'w repo_ops \<Rightarrow> architecture result \<Rightarrow> 'json file_env \<Rightarrow> string \<Rightarrow> common_options \<Rightarrow> 'w \<Rightarrow> service \<Rightarrow>
     (reply \<times> service) option" where
  "installFromUAB ops curArch fe uuid opts w s =
     (case loadFromFile (fe_realFile fe) (fe_uab fe) (fe_elf fe) of Inl e \<Rightarrow> Some (toDBusReply_err e, s) | Inr uab \<Rightarrow>
     (case uab_verify (fe_uabParse fe) (fe_uabGet fe) (fe_sha256hex fe) uab of
        None \<Rightarrow> None
      | Some (Inl e, _) \<Rightarrow> Some (toDBusReply_err e, s)
      | Some (Inr False, _) \<Rightarrow> Some (toDBusReply (-1) ''couldn't pass uab verification'', s)
      | Some (Inr True, uab1) \<Rightarrow>
     (case getMetaInfo (fe_uabParse fe) (fe_uabGet fe) uab1 of
        None \<Rightarrow> None
      | Some (Inl e, _) \<Rightarrow> Some (toDBusReply_err e, s)
      | Some (Inr meta, uab2) \<Rightarrow>
     (case index_of (\<lambda>l. info_kind (layer_info l) = ''app'') (meta_layers meta) of
        None \<Rightarrow> Some (toDBusReply (-1) ''couldn't find application layer in this uab'', s)
      | Some k \<Rightarrow>
     (let appLayer = meta_layers meta ! k; info = layer_info appLayer in
      case file_reference curArch info of
        None \<Rightarrow> None
      | Some (Inl r) \<Rightarrow> Some (r, s)
      | Some (Inr appRef) \<Rightarrow>
     (case local_version ops w appRef (info_module info) of
        None \<Rightarrow> None
      | Some (Inl r) \<Rightarrow> Some (r, s)
      | Some (Inr (localRef, usable)) \<Rightarrow>
     (let uabName = ref_id appRef @ ''_'' @ Architecture_toString (ref_arch appRef) @ ''_'' @
            Version_toString (ref_version appRef) @ ''_'' @ info_module info @ ''.uab'' in
      case check_file_version (co_force opts) uabName appRef localRef usable of
        Inl r \<Rightarrow> Some (r, s)
      | Inr msgType \<Rightarrow>
          Some (start_file_task uuid (fe_realFile fe) appRef (info_module info)
            (UabJob uab2 (appLayer # erase_at k (meta_layers meta)) (meta_uuid meta) opts msgType appRef localRef) s))))))))"

text \<open>\<open>InstallFromFile\<close>; the code of an unsupported type is the enumeration value \<open>QDBusError::NotSupported\<close> of Qt.\<close>

definition NotSupported :: int where
  "NotSupported = 7"

definition InstallFromFile ::
    "'w repo_ops \<Rightarrow> architecture result \<Rightarrow> 'json file_env \<Rightarrow> string \<Rightarrow> string \<Rightarrow> common_options result \<Rightarrow> 'w \<Rightarrow> service \<Rightarrow>
     (reply \<times> service) option" where
  "InstallFromFile ops curArch fe uuid fileType opts w s =
     (case opts of Inl e \<Rightarrow> Some (toDBusReply_err e, s) | Inr o' \<Rightarrow>
      if fileType = ''layer'' then installFromLayer ops curArch fe uuid o' w s
      else if fileType = ''uab'' then installFromUAB ops curArch fe uuid o' w s
      else Some (toDBusReply NotSupported (fileType @ '' is unsupported fileType''), s))"

section \<open>Running a job\<close>

text \<open>
  The closures given to \<open>setJob\<close>. \<open>answer\<close> is what the user replies when an upgrade is to be
  confirmed: the result of reading the reply, and in it the action. \<open>isTaskDone\<close> is tested after that.
\<close>

definition confirm :: "interaction_type \<Rightarrow> bool \<Rightarrow> string option result \<Rightarrow> package_task \<Rightarrow> package_task option" where
  "confirm msgType skip answer t =
     (if msgType = MUpgrade \<and> \<not> skip
      then (case answer of
              Inl _ \<Rightarrow> None
            | Inr chosen \<Rightarrow> Some (if chosen \<noteq> Some ''yes'' then updateState Canceled ''canceled'' None t else t))
      else Some t)"

fun run_updates ::
    "'w repo_ops \<Rightarrow> pm_env \<Rightarrow> architecture result \<Rightarrow> (reference \<times> reference) list \<Rightarrow>
     package_task \<times> lock_state \<times> 'w \<Rightarrow> (package_task \<times> lock_state \<times> 'w) option" where
  "run_updates ops pe arch [] st = Some st"
| "run_updates ops pe arch ((oldRef, newRef) # us) st =
     (case Update_job ops pe arch oldRef newRef st of None \<Rightarrow> None | Some st' \<Rightarrow> run_updates ops pe arch us st')"

text \<open>
  What a job that installs a file depends on: child processes, directories and the descriptions in
  them, and \<open>importLayerDir\<close> of the repository.
\<close>

record ('json, 'w) job_env =
  je_exec :: "string \<Rightarrow> string list \<Rightarrow> unit result"
  je_workDir :: string
  je_layerPath :: string
  je_info :: "string \<Rightarrow> package_info_v2 result"
  je_import :: "string \<Rightarrow> string list \<Rightarrow> string option \<Rightarrow> 'w \<Rightarrow> string result \<times> 'w"
  je_uabParse :: "bytes \<Rightarrow> string option + 'json"
  je_uabGet :: "'json \<Rightarrow> uab_meta option"
  je_runtimeDir :: string
  je_mkdirs :: "string \<Rightarrow> string option"
  je_execUab :: "string \<Rightarrow> string list \<Rightarrow> string result"
  je_isDir :: "string \<Rightarrow> bool"
  je_exists :: "string \<Rightarrow> string + bool"
  je_sign :: sign_env

text \<open>The job of \<open>installFromLayer\<close>; the mount is undone on every way out, which does not touch the repository.\<close>

definition after_layer_import ::
    "'w repo_ops \<Rightarrow> pm_env \<Rightarrow> package_info_v2 \<Rightarrow> string \<Rightarrow> reference option \<Rightarrow> package_task \<times> lock_state \<times> 'w \<Rightarrow>
     package_task \<times> lock_state \<times> 'w" where
  "after_layer_import ops pe info moduleName localRef st =
     (case st of (t, ls, w) \<Rightarrow>
      let t1 = updateState Succeed ''install layer successfully'' None t in
      if moduleName \<noteq> ''binary'' \<and> moduleName \<noteq> ''runtime'' then (t1, ls, w)
      else if info_kind info \<noteq> ''app'' then (t1, ls, w)
      else case localRef of
        None \<Rightarrow>
         (case Reference_fromPackageInfo info of
            Inl e \<Rightarrow> (reportError e t1, ls, w)
          | Inr newRef \<Rightarrow> (t1, ls, ro_export ops newRef w))
      | Some l \<Rightarrow>
         (if moduleName \<notin> set (ro_getModuleList ops w l) then (t1, ls, w)
          else case Reference_fromPackageInfo info of
            Inl e \<Rightarrow> (reportError e t1, ls, w)
          | Inr newRef \<Rightarrow>
             (case removeAfterInstall ops pe l newRef [moduleName] (ls, w) of (_, ls1, w1) \<Rightarrow> (t1, ls1, w1))))"

definition run_layer_job ::
    "'w repo_ops \<Rightarrow> pm_env \<Rightarrow> ('json, 'w) job_env \<Rightarrow> layer_file \<Rightarrow> string \<Rightarrow> reference option \<Rightarrow>
     package_task \<times> lock_state \<times> 'w \<Rightarrow> (package_task \<times> lock_state \<times> 'w) option" where
  "run_layer_job ops pe je layerFile moduleName localRef st =
     (case st of (t, ls, w) \<Rightarrow>
      if isTaskDone (t_subState t) then Some st
      else let t1 = updateSubState PreAction ''preparing environment'' (updateState Processing ''installing layer'' None t) in
        case fst (LayerPackager_unpack (je_exec je) (je_workDir je) (je_layerPath je) layerFile) of
          Inl e \<Rightarrow> Some (reportError e t1, ls, w)
        | Inr layerDir \<Rightarrow>
           (case je_info je layerDir of
              Inl e \<Rightarrow> Some (reportError e t1, ls, w)
            | Inr info \<Rightarrow>
               (case pullDependency ops info moduleName (t1, w) of
                  None \<Rightarrow> None
                | Some (t2, w1) \<Rightarrow>
                   (if isTaskDone (t_subState t2) then Some (t2, ls, w1)
                    else case je_import je layerDir [] None w1 of
                      (Inl e, w2) \<Rightarrow> Some (reportError e t2, ls, w2)
                    | (Inr _, w2) \<Rightarrow> Some (after_layer_import ops pe info moduleName localRef (t2, ls, w2))))))"

text \<open>
  The loop of the UAB job over the layers: the flag says whether it ran to its end. A layer besides the
  application's is skipped when its version is installed.
\<close>

definition layer_present :: "'w repo_ops \<Rightarrow> 'w \<Rightarrow> reference \<Rightarrow> package_info_v2 \<Rightarrow> bool option" where
  "layer_present ops w ref info =
     (case FuzzyReference_parse (ref_id ref @ ''/'' @ Version_toString (ref_version ref)) of
        Inl _ \<Rightarrow> None
      | Inr fuzzyRef \<Rightarrow>
         (case ro_clearReference ops w fuzzyRef local_only ''binary'' of
            None \<Rightarrow> None
          | Some (Inl _) \<Rightarrow> Some False
          | Some (Inr localRef) \<Rightarrow>
             (case ro_getLayerDir ops w localRef (info_module info) of
                Inl _ \<Rightarrow> Some False
              | Inr d \<Rightarrow> Some (ro_valid ops w d \<and> Version_eq (ref_version ref) (ref_version localRef)))))"

definition undo_import :: "'w repo_ops \<Rightarrow> reference \<times> string \<times> string option \<Rightarrow> 'w \<Rightarrow> 'w" where
  "undo_import ops a w = (case a of (ref, m, subRef) \<Rightarrow> snd (ro_remove ops ref m subRef w))"

fun import_layers ::
    "'w repo_ops \<Rightarrow> ('json, 'w) job_env \<Rightarrow> string \<Rightarrow> string \<Rightarrow> uab_layer list \<Rightarrow> 'w transaction \<Rightarrow> package_task \<times> uab_file \<times> 'w \<Rightarrow>
     (bool \<times> 'w transaction \<times> package_task \<times> 'w) option" where
  "import_layers ops je dir metaUuid [] tx (t, uab, w) = Some (True, tx, t, w)"
| "import_layers ops je dir metaUuid (layer # layers) tx (t, uab, w) =
     (let fail = (\<lambda>t'. Some (False, tx, t', w));
          layerDir = dir @ ''/'' @ info_id (layer_info layer) @ ''/'' @ info_module (layer_info layer);
          isAppLayer = (info_kind (layer_info layer) = ''app'') in
      if isTaskDone (t_subState t) then fail t
      else case je_exists je layerDir of
        Inl why \<Rightarrow> fail (updateState task_state.Failed (''get status of'' @ layerDir @ ''failed:'' @ why) None t)
      | Inr False \<Rightarrow> fail (updateState task_state.Failed (''layer directory '' @ layerDir @ '' doesn't exist'') None t)
      | Inr True \<Rightarrow>
     (case je_info je layerDir of Inl e \<Rightarrow> fail (reportError e t) | Inr info \<Rightarrow>
     (case Reference_fromPackageInfo info of Inl e \<Rightarrow> fail (reportError e t) | Inr ref \<Rightarrow>
      let subRef = (if layer_minified layer \<and> \<not> isAppLayer then Some metaUuid else None);
          proceed = (\<lambda>overlays uab1.
            case je_import je layerDir overlays subRef w of
              (Inl e, w1) \<Rightarrow> Some (False, tx, reportError e t, w1)
            | (Inr _, w1) \<Rightarrow>
                import_layers ops je dir metaUuid layers
                  (addRollBack (undo_import ops) (ref, info_module info, subRef) tx) (t, uab1, w1)) in
      if isAppLayer
      then (case extractSignData (je_sign je) uab of
              None \<Rightarrow> None
            | Some (Inl e, _) \<Rightarrow> fail (reportError e t)
            | Some (Inr None, uab1) \<Rightarrow> proceed [] uab1
            | Some (Inr (Some d), uab1) \<Rightarrow> proceed [d] uab1)
      else (case layer_present ops w ref info of
              None \<Rightarrow> None
            | Some True \<Rightarrow> import_layers ops je dir metaUuid layers tx (t, uab, w)
            | Some False \<Rightarrow> proceed [] uab))))"

definition run_uab_job ::
    "'w repo_ops \<Rightarrow> pm_env \<Rightarrow> ('json, 'w) job_env \<Rightarrow> uab_file \<Rightarrow> uab_layer list \<Rightarrow> string \<Rightarrow> reference \<Rightarrow> reference option \<Rightarrow>
     package_task \<times> lock_state \<times> 'w \<Rightarrow> (package_task \<times> lock_state \<times> 'w) option" where
  "run_uab_job ops pe je uab layerInfos metaUuid newAppRef oldAppRef st =
     (case st of (t, ls, w) \<Rightarrow>
      if isTaskDone (t_subState t) then Some st
      else let t1 = updateSubState PreAction ''prepare environment'' (updateState Processing ''installing uab'' None t) in
        case mountUab (je_uabParse je) (je_uabGet je) (je_runtimeDir je) (je_mkdirs je) (je_execUab je) uab of
          None \<Rightarrow> None
        | Some (Inl e, _) \<Rightarrow> Some (reportError e t1, ls, w)
        | Some (Inr mountPoint, uab1) \<Rightarrow>
           (let dir = mountPoint @ ''/layers'' in
            if \<not> je_isDir je dir
            then Some (updateState task_state.Failed ''the contents of this uab file are invalid'' None t1, ls, w)
            else case import_layers ops je dir metaUuid layerInfos Transaction_new (t1, uab1, w) of
              None \<Rightarrow> None
            | Some (False, tx, t2, w1) \<Rightarrow> Some (t2, ls, Transaction_dtor tx w1)
            | Some (True, tx, t2, w1) \<Rightarrow>
               (let success = updateState Succeed ''install uab successfully'' None in
                case oldAppRef of
                  Some old \<Rightarrow>
                   (case removeAfterInstall ops pe old newAppRef (ro_getModuleList ops w1 old) (ls, w1) of
                      (_, ls1, w2) \<Rightarrow> Some (success t2, ls1, Transaction_dtor (commit tx) w2))
                | None \<Rightarrow>
                    Some (success t2, ls, Transaction_dtor (commit tx) (ro_export ops newAppRef (snd (ro_merge ops w1)))))))"

fun run_job ::
    "'w repo_ops \<Rightarrow> pm_env \<Rightarrow> ('json, 'w) job_env \<Rightarrow> architecture result \<Rightarrow> string option result \<Rightarrow> pm_job \<Rightarrow>
     package_task \<times> lock_state \<times> 'w \<Rightarrow> (package_task \<times> lock_state \<times> 'w) option" where
  "run_job ops pe je arch answer (InstallJob remoteRef localRef m skip msgType) (t, ls, w) =
     (case confirm msgType skip answer t of
        None \<Rightarrow> None
      | Some t1 \<Rightarrow>
         (if isTaskDone (t_subState t1) then Some (t1, ls, w)
          else Install_job ops pe arch remoteRef localRef [m] (t1, ls, w)))"
| "run_job ops pe je arch answer (UninstallJob ref m) (t, ls, w) =
     (if isTaskDone (t_subState t) then Some (t, ls, w)
      else case Uninstall_job ops ref m (t, w) of (t1, w1) \<Rightarrow> Some (t1, ls, w1))"
| "run_job ops pe je arch answer (UpdateJob us) (t, ls, w) =
     (if isTaskDone (t_subState t) then Some (t, ls, w) else run_updates ops pe arch us (t, ls, w))"
| "run_job ops pe je arch answer (LayerJob layerFile packageRef m opts msgType localRef) (t, ls, w) =
     (case confirm msgType (co_skipInteraction opts) answer t of
        None \<Rightarrow> None
      | Some t1 \<Rightarrow> run_layer_job ops pe je layerFile m localRef (t1, ls, w))"
| "run_job ops pe je arch answer (UabJob uab layers metaUuid opts msgType newRef oldRef) (t, ls, w) =
     (case confirm msgType (co_skipInteraction opts) answer t of
        None \<Rightarrow> None
      | Some t1 \<Rightarrow> run_uab_job ops pe je uab layers metaUuid newRef oldRef (t1, ls, w))"

end
