(* ===== verification/Package_Service.thy ===== *)
theory Package_Service
  imports Package_Files
begin

text \<open>
  The service as a state machine: the requests of \<open>PackageManager\<close> and what its task queue does by itself, and the
  properties of \<open>libs/linglong/src/linglong/package_manager/package_manager.cpp\<close> that span requests and jobs.
\<close>

section \<open>The service as a state machine\<close>

text \<open>
  The requests above, and what the task queue does by itself. The repository may have changed in any
  way between two requests.
\<close>

inductive service_step :: "'w repo_ops \<Rightarrow> string \<Rightarrow> service \<Rightarrow> service \<Rightarrow> bool" for ops repo where
  install: "Install ops repo uuid paras w s = Some (r, s') \<Longrightarrow> service_step ops repo s s'"
| uninstall: "Uninstall_request ops pe repo uuid pkg w s = Some (r, s') \<Longrightarrow> service_step ops repo s s'"
| update: "Update_request ops repo uuid pkgs w s = Some (r, s') \<Longrightarrow> service_step ops repo s s'"
| install_file: "InstallFromFile ops arch (fe :: string file_env) uuid fileType opts w s = Some (r, s') \<Longrightarrow> service_step ops repo s s'"
| search: "Search jobID i s = (r, s') \<Longrightarrow> service_step ops repo s s'"
| prune: "Prune_request jobID s = (r, s') \<Longrightarrow> service_step ops repo s s'"
| task: "t_refs \<circ> f = t_refs \<Longrightarrow> service_step ops repo s (s\<lparr>sv_pm := updateTask_at p f (sv_pm s)\<rparr>)"
| deliver: "pm_posted (sv_pm s) = p # ps \<Longrightarrow>
    service_step ops repo s (s\<lparr>sv_pm := onTaskListChanged p ((sv_pm s)\<lparr>pm_posted := ps\<rparr>)\<rparr>)"
| returned: "service_step ops repo s (s\<lparr>sv_pm := onJobReturned (sv_pm s)\<rparr>)"

definition task_refs :: "pm_task \<Rightarrow> string set" where
  "task_refs t = set (t_refs (pm_task t))"

definition refs_disjoint :: "service \<Rightarrow> bool" where
  "refs_disjoint s = sorted_wrt (\<lambda>a b. task_refs a \<inter> task_refs b = {}) (pm_taskList (sv_pm s))"

definition service_init :: service where
  "service_init = \<lparr>sv_pm = pm_init, sv_jobs = Map.empty, sv_lock = \<lparr>lk_open = False, lk_held = False, lk_leaked = 0\<rparr>,
     sv_search = jq_init, sv_prune = jq_init\<rparr>"

subsection \<open>Lemmas\<close>

lemma being_operated_iff: "being_operated r s \<longleftrightarrow> (\<exists>t \<in> set (pm_taskList (sv_pm s)). r \<in> task_refs t)"
  by (auto simp: being_operated_def list_ex_iff isRefExist_def task_refs_def)

lemma enqueue_disjoint:
  assumes "refs_disjoint s" and "\<forall>r \<in> set refs. \<not> being_operated r s"
  shows "refs_disjoint (enqueue uuid refs job s)"
  using assms
  by (auto simp: refs_disjoint_def enqueue_def addTask_def sorted_wrt_append being_operated_iff task_refs_def new_task_def
      PackageTask_new_def)

lemma refs_disjoint_map:
  assumes "refs_disjoint s" and "pm_taskList p = map g (pm_taskList (sv_pm s))" and "\<And>t. task_refs (g t) = task_refs t"
  shows "refs_disjoint (s\<lparr>sv_pm := p\<rparr>)"
  using assms by (simp add: refs_disjoint_def sorted_wrt_map)

lemma refs_disjoint_same: "refs_disjoint s \<Longrightarrow> sv_pm s' = sv_pm s \<Longrightarrow> refs_disjoint s'"
  by (simp add: refs_disjoint_def)

lemma task_refs_updateState [simp]: "task_refs (t\<lparr>pm_task := updateState st m d (pm_task t)\<rparr>) = task_refs t"
  by (simp add: task_refs_def updateState_state)

lemma updateTask_at_disjoint:
  assumes "refs_disjoint s" and "t_refs \<circ> f = t_refs"
  shows "refs_disjoint (s\<lparr>sv_pm := updateTask_at p f (sv_pm s)\<rparr>)"
  using assms(2)
  by (intro refs_disjoint_map [OF assms(1), where g = "\<lambda>t. if pm_path t = p then t\<lparr>pm_task := f (pm_task t)\<rparr> else t"])
    (auto simp: updateTask_at_def task_refs_def fun_eq_iff)

lemma notify_waiting_refs: "task_refs (notify_waiting p t) = task_refs t"
  by (simp add: notify_waiting_def)

lemma onTaskListChanged_list:
  "pm_taskList (onTaskListChanged p s) = pm_taskList s \<or>
   pm_taskList (onTaskListChanged p s) = map (notify_waiting (pm_running s)) (pm_taskList s)"
  by (auto simp: onTaskListChanged_def Let_def split: option.split)

lemma erase_task_set: "set (erase_task p ts) \<subseteq> set ts"
  by (induction ts) auto

lemma erase_task_sorted: "sorted_wrt P ts \<Longrightarrow> sorted_wrt P (erase_task p ts)"
proof (induction ts)
  case (Cons t ts)
  then show ?case using erase_task_set [of p ts] by auto
qed simp

lemma Install_enqueues:
  assumes "Install ops repo uuid paras w s = Some (r, s')"
  shows "s' = s \<or> (\<exists>refSpec job. \<not> being_operated refSpec s \<and> s' = enqueue uuid [refSpec] job s)"
  using assms by (auto simp: Install_def Let_def split: sum.splits prod.splits option.splits if_splits)

lemma start_file_task_enqueues:
  "start_file_task uuid f ref m job s = (r, s') \<Longrightarrow>
     s' = s \<or> (\<exists>refSpec job. \<not> being_operated refSpec s \<and> s' = enqueue uuid [refSpec] job s)"
  by (auto simp: start_file_task_def Let_def split: if_splits)

lemma InstallFromFile_enqueues:
  assumes "InstallFromFile ops arch fe uuid fileType opts w s = Some (r, s')"
  shows "s' = s \<or> (\<exists>refSpec job. \<not> being_operated refSpec s \<and> s' = enqueue uuid [refSpec] job s)"
proof -
  have layer: "installFromLayer ops arch fe uuid o' w s = Some (r, s') \<Longrightarrow> ?thesis" for o'
    by (auto simp: installFromLayer_def Let_def split: sum.splits prod.splits option.splits if_splits
        dest: start_file_task_enqueues)
  have uab: "installFromUAB ops arch fe uuid o' w s = Some (r, s') \<Longrightarrow> ?thesis" for o'
    by (auto simp: installFromUAB_def Let_def split: sum.splits prod.splits option.splits if_splits bool.splits
        dest: start_file_task_enqueues)
  show ?thesis using assms layer uab by (auto simp: InstallFromFile_def split: sum.splits if_splits)
qed

lemma Uninstall_enqueues:
  assumes "Uninstall_request ops pe repo uuid pkg w s = Some (r, s')"
  shows "\<exists>lk. s' = s\<lparr>sv_lock := lk\<rparr> \<or> (\<exists>refSpec job p m. \<not> being_operated refSpec s \<and>
    s' = (let s2 = enqueue uuid [refSpec] job (s\<lparr>sv_lock := lk\<rparr>) in
          s2\<lparr>sv_pm := updateTask_at p (updateState Queued m None) (sv_pm s2)\<rparr>))"
proof -
  have "being_operated x (s\<lparr>sv_lock := lk\<rparr>) = being_operated x s" for x lk by (simp add: being_operated_def)
  then show ?thesis using assms
    by (auto simp: Uninstall_request_def Let_def split: sum.splits prod.splits option.splits if_splits bool.splits
        intro: exI [of _ "sv_lock s"]) blast+
qed

lemma map_sum_Inr_iff: "map_sum f g z = Inr y \<longleftrightarrow> (\<exists>x. z = Inr x \<and> y = g x)"
  by (cases z) auto

lemma update_packages_checked:
  "update_packages ops repo w s ps = Some (Inr us) \<Longrightarrow>
     \<forall>(refSpec, old, new) \<in> set us. \<not> being_operated refSpec s \<and> \<not> Version_le (ref_version new) (ref_version old)"
proof (induction ps arbitrary: us)
  case (Cons p ps)
  obtain u us' where u: "update_package ops repo w s p = Some (Inr u)" "update_packages ops repo w s ps = Some (Inr us')"
    "us = u # us'"
    using Cons.prems by (auto simp: map_sum_Inr_iff split: option.splits sum.splits)
  have "\<not> being_operated (fst u) s \<and> \<not> Version_le (ref_version (snd (snd u))) (ref_version (fst (snd u)))"
    using u(1) by (auto simp: update_package_def Let_def split: sum.splits option.splits if_splits)
  then show ?case using Cons.IH [OF u(2)] u(3) by (auto split: prod.splits)
qed auto

lemma service_step_disjoint: "service_step ops repo s s' \<Longrightarrow> refs_disjoint s \<Longrightarrow> refs_disjoint s'"
proof (induction rule: service_step.induct)
  case (install uuid paras w s r s')
  then show ?case using Install_enqueues [OF install.hyps] by (auto intro: enqueue_disjoint)
next
  case (uninstall pe uuid pkg w s r s')
  obtain lk where lk: "s' = s\<lparr>sv_lock := lk\<rparr> \<or> (\<exists>refSpec job p m. \<not> being_operated refSpec s \<and>
    s' = (let s2 = enqueue uuid [refSpec] job (s\<lparr>sv_lock := lk\<rparr>) in
          s2\<lparr>sv_pm := updateTask_at p (updateState Queued m None) (sv_pm s2)\<rparr>))"
    using Uninstall_enqueues [OF uninstall.hyps] by blast
  have d: "refs_disjoint (s\<lparr>sv_lock := lk\<rparr>)" using uninstall.prems by (simp add: refs_disjoint_def)
  have op: "being_operated x (s\<lparr>sv_lock := lk\<rparr>) = being_operated x s" for x by (simp add: being_operated_def)
  from lk show ?case
  proof
    assume "\<exists>refSpec job p m. \<not> being_operated refSpec s \<and>
      s' = (let s2 = enqueue uuid [refSpec] job (s\<lparr>sv_lock := lk\<rparr>) in
            s2\<lparr>sv_pm := updateTask_at p (updateState Queued m None) (sv_pm s2)\<rparr>)"
    then show ?thesis
      by (auto simp: Let_def op intro!: updateTask_at_disjoint enqueue_disjoint d simp: updateState_state fun_eq_iff)
  qed (use d in simp)
next
  case (update uuid pkgs w s r s')
  then show ?case
    by (auto simp: Update_request_def split: sum.splits option.splits intro!: enqueue_disjoint)
      (use update_packages_checked in fastforce)
next
  case (install_file arch fe uuid fileType opts w s r s')
  then show ?case using InstallFromFile_enqueues [OF install_file.hyps] by (auto intro: enqueue_disjoint)
next
  case (task f s p)
  then show ?case by (intro updateTask_at_disjoint)
next
  case (deliver s p ps)
  show ?case using onTaskListChanged_list [of p "(sv_pm s)\<lparr>pm_posted := ps\<rparr>"] deliver.prems
    by (auto intro: refs_disjoint_map [OF deliver.prems, where g = "notify_waiting (pm_running (sv_pm s))"] simp: notify_waiting_refs)
      (simp add: refs_disjoint_def)
next
  case (returned s)
  then show ?case
    by (auto simp: refs_disjoint_def onJobReturned_def erase_task_sorted split: list.split)
qed (auto simp: Search_def Prune_request_def refs_disjoint_def split: sum.splits)

lemma sorted_disjoint_one:
  "sorted_wrt (\<lambda>a b. task_refs a \<inter> task_refs b = {}) ts \<Longrightarrow> length (filter (\<lambda>t. r \<in> task_refs t) ts) \<le> 1"
proof (induction ts)
  case (Cons t ts)
  then show ?case by (cases "r \<in> task_refs t") (auto simp: filter_empty_conv)
qed simp

text \<open>The reference the local search gives is that of a layer of the id.\<close>

lemma local_reference_layer:
  assumes "\<forall>xs. mset (srt xs) = mset xs" and "clearReference srt arch lr s fuzzy local_only m = Some (Inr l)"
  shows "\<exists>y \<in> set (rc_layers (rcs_cache s)). info_id (item_info y) = fz_id fuzzy \<and>
    Version_parse (info_version (item_info y)) = Inr (ref_version l)"
proof -
  have set: "set (srt xs) = set xs" for xs using assms(1) by (metis set_mset_mset)
  have "clearReferenceLocal srt arch s fuzzy = Some (Inr l)"
    using assms(2) by (auto simp: clearReference_def local_only_def Let_def split: option.splits sum.splits)
  then obtain y where y: "find_local (fz_version fuzzy) (queryLayerItem srt (query_id (fz_id fuzzy)) s) = Some (Some y)"
      "item_reference y = Some (Inr l)"
    by (auto simp: clearReferenceLocal_def Let_def split: option.splits sum.splits if_splits)
  have "y \<in> set (queryLayerItem srt (query_id (fz_id fuzzy)) s)" using find_local_Some [OF y(1)] by auto
  then show ?thesis using item_reference_version [OF y(2)]
    by (auto simp: queryLayerItem_def set query_matches_def query_id_def wants_def)
qed

lemma scan_remote_source:
  "scan_remote fuzzy m acc xs = Some r \<Longrightarrow> (\<And>a. acc = Some a \<Longrightarrow> P a) \<Longrightarrow>
     (\<And>x a. remote_candidate fuzzy m x = Some a \<Longrightarrow> P a) \<Longrightarrow> P r"
proof (induction xs arbitrary: acc)
  case (Cons x xs)
  show ?case
  proof (cases "remote_candidate fuzzy m x")
    case None
    then show ?thesis using Cons by simp
  next
    case (Some a)
    then obtain b where b: "scan_remote fuzzy m (Some b) xs = Some r" "P b"
      using Cons.prems by (cases acc; cases "reference_ge (the acc) a") auto
    then show ?thesis using Cons.IH [OF b(1)] Cons.prems(3) by blast
  qed
qed simp

lemma remote_reference_parts:
  assumes "clearReference srt arch lr s fuzzy force_remote m = Some (Inr r)"
  shows "ref_id r = fz_id fuzzy \<and> version_ok (ref_version r)"
proof -
  obtain xs where "scan_remote fuzzy m None xs = Some r"
    using assms by (auto simp: clearReference_def force_remote_def Let_def split: sum.splits option.splits)
  then show ?thesis
    by (rule scan_remote_source)
      (auto simp: remote_candidate_def result_simps split: option.splits sum.splits list.splits if_splits dest: Version_new_Inr)
qed

text \<open>A request that is accepted went through all the tests.\<close>

lemma check_install_refusal: "check_install ops w m f l r \<noteq> Inl (TaskResult p c x)"
  by (auto simp: check_install_def toDBusReply_def split: if_splits option.splits)

lemma wanted_remote_id: "\<exists>v. wanted_remote m l f = f\<lparr>fz_version := v\<rparr>"
  by (cases l) (auto simp: wanted_remote_def intro: exI [of _ "fz_version f"])

lemma Install_accepted:
  assumes "Install ops repo uuid (Inr (opts, pkg)) w s = Some (TaskResult path code msg, s')"
  obtains fuzzyRef localRes remoteRef m mt refSpec where "fuzzyReferenceFromPackage pkg = Inr fuzzyRef"
    "m = (case pk_module pkg of None \<Rightarrow> ''binary'' | Some m \<Rightarrow> m)"
    "ro_clearReference ops w (fuzzyRef\<lparr>fz_version := None\<rparr>) local_only ''binary'' = Some localRes"
    "ro_clearReference ops w (wanted_remote m (ref_of localRes) fuzzyRef) force_remote m = Some (Inr remoteRef)"
    "check_install ops w m (co_force opts) (ref_of localRes) remoteRef = Inr mt"
    "s' = enqueue uuid [refSpec] (InstallJob remoteRef (ref_of localRes) m (co_skipInteraction opts) mt) s"
    "path = pm_path (new_task uuid [refSpec])"
proof -
  obtain fuzzyRef where f: "fuzzyReferenceFromPackage pkg = Inr fuzzyRef"
    using assms by (cases "fuzzyReferenceFromPackage pkg") (auto simp: Install_def toDBusReply_err_def)
  define m where "m = (case pk_module pkg of None \<Rightarrow> ''binary'' | Some m \<Rightarrow> m)"
  have early: "installed_version ops w fuzzyRef = Some None"
    using assms f by (auto simp: Install_def toDBusReply_def split: option.splits)
  obtain localRes where l: "ro_clearReference ops w (fuzzyRef\<lparr>fz_version := None\<rparr>) local_only ''binary'' = Some localRes"
    using assms f early by (auto simp: Install_def Let_def split: option.splits)
  obtain remoteRef where r: "ro_clearReference ops w (wanted_remote m (ref_of localRes) fuzzyRef) force_remote m = Some (Inr remoteRef)"
    using assms f early l by (auto simp: Install_def Let_def m_def [symmetric] toDBusReply_err_def split: option.splits sum.splits)
  obtain mt where mt: "check_install ops w m (co_force opts) (ref_of localRes) remoteRef = Inr mt"
    using assms f early l r by (auto simp: Install_def Let_def m_def [symmetric] check_install_refusal split: sum.splits)
  show thesis
    by (rule that [OF f m_def l r mt, of "refSpec_of repo remoteRef m"])
      (use assms f early l r mt in \<open>auto simp: Install_def Let_def m_def [symmetric] operated_reply_def toDBusReply_def split: if_splits\<close>)
qed

lemma update_packages_refusal: "update_packages ops repo w s ps = Some (Inl r) \<Longrightarrow> \<exists>c m t. r = CommonResult c m t"
proof (induction ps)
  case (Cons p ps)
  have "update_package ops repo w s p = Some (Inl r) \<Longrightarrow> \<exists>c m t. r = CommonResult c m t" for r
    by (auto simp: update_package_def toDBusReply_def toDBusReply_err_def operated_reply_def Let_def
        split: sum.splits option.splits if_splits)
  then show ?case using Cons by (auto split: option.splits sum.splits) (metis map_sum.simps(1,2) old.sum.exhaust sum.simps(1) sum.simps(4))
qed simp

lemma update_packages_length: "update_packages ops repo w s ps = Some (Inr us) \<Longrightarrow> length us = length ps"
  by (induction ps arbitrary: us) (auto simp: map_sum_Inr_iff split: option.splits sum.splits)

section \<open>Properties\<close>

text \<open>A server that offers version 2.0.0.0.\<close>

definition update_setting :: "package_info_v2 repo_setting" where
  "update_setting = demo_setting\<lparr>rs_listRemote := \<lambda>_. Inr [demo_info\<lparr>info_version := ''2.0.0.0''\<rparr>]\<rparr>"

text \<open>
  C17: At every moment at most one task of the list works on a given ref: in every state the
  service can reach by requests, by cancelling, by the delivery of signals and by the end of jobs, with the
  repository changing in any way in between, no ref belongs to two tasks.
\<close>

theorem one_task_per_ref:
  assumes "(service_step ops repo)\<^sup>*\<^sup>* service_init s"
  shows "length (filter (\<lambda>t. isRefExist r (pm_task t)) (pm_taskList (sv_pm s))) \<le> 1"
proof -
  have "refs_disjoint s" using assms
    by (induction rule: rtranclp_induct) (auto simp: refs_disjoint_def service_init_def pm_init_def dest: service_step_disjoint
        [unfolded refs_disjoint_def])
  then show ?thesis using sorted_disjoint_one by (simp add: refs_disjoint_def task_refs_def isRefExist_def)
qed

definition demo_package :: package_param where
  "demo_package = \<lparr>pk_channel = None, pk_id = ''org.deepin.demo'', pk_module = None, pk_version = None\<rparr>"

definition demo_uninstall :: service where
  "demo_uninstall = snd (the (Uninstall_request (ostree_ops demo_setting) demo_pm_env ''stable'' ''u'' (Inr demo_package)
     (demo_world [demo_module ''binary'' ''c1'']) service_init))"

theorem one_task_per_ref_witness:
  "length (filter (\<lambda>t. isRefExist ''stable:main/org.deepin.demo/x86_64/binary'' (pm_task t)) (pm_taskList (sv_pm demo_uninstall))) = 1"
proof -
  let ?run = "Uninstall_request (ostree_ops demo_setting) demo_pm_env ''stable'' ''u'' (Inr demo_package)
     (demo_world [demo_module ''binary'' ''c1'']) service_init"
  have refs: "map_option (\<lambda>x. map (\<lambda>t. t_refs (pm_task t)) (pm_taskList (sv_pm (snd x)))) ?run =
      Some [[''stable:main/org.deepin.demo/x86_64/binary'']]" by code_simp
  then have run: "?run = Some (fst (the ?run), demo_uninstall)" by (cases ?run) (auto simp: demo_uninstall_def)
  obtain t where t: "pm_taskList (sv_pm demo_uninstall) = [t]" "t_refs (pm_task t) = [''stable:main/org.deepin.demo/x86_64/binary'']"
    using refs run by (auto simp: demo_uninstall_def)
  have "(service_step (ostree_ops demo_setting) ''stable'')\<^sup>*\<^sup>* service_init demo_uninstall"
    using service_step.uninstall [OF run] by blast
  from one_task_per_ref [OF this] have "length (filter (\<lambda>t. isRefExist ''stable:main/org.deepin.demo/x86_64/binary'' (pm_task t))
    (pm_taskList (sv_pm demo_uninstall))) \<le> 1" .
  moreover have "filter (\<lambda>t. isRefExist ''stable:main/org.deepin.demo/x86_64/binary'' (pm_task t)) (pm_taskList (sv_pm demo_uninstall)) = [t]"
    using t by (simp add: isRefExist_def)
  ultimately show ?thesis by simp
qed




definition develop_setting :: "package_info_v2 repo_setting" where
  "develop_setting = demo_setting\<lparr>rs_listRemote := \<lambda>_. Inr [demo_info\<lparr>info_module := ''develop''\<rparr>]\<rparr>"


section \<open>Requests with a file\<close>

text \<open>What a file request has checked of the package when it adds a task.\<close>

definition file_checked ::
    "'w repo_ops \<Rightarrow> 'w \<Rightarrow> architecture result \<Rightarrow> common_options \<Rightarrow> package_info_v2 \<Rightarrow> reference \<Rightarrow> reference option \<Rightarrow> interaction_type \<Rightarrow> bool" where
  "file_checked ops w curArch opts info ref localRef mt \<longleftrightarrow>
     Reference_fromPackageInfo info = Inr ref \<and> (\<exists>a as. info_arch info = a # as \<and> map_sum (\<lambda>_. ()) Architecture_toString curArch = Inr a) \<and>
     (\<forall>l d. localRef = Some l \<and> ro_getLayerDir ops w l (info_module info) = Inr d \<and> ro_valid ops w d \<longrightarrow>
        \<not> Version_eq (ref_version ref) (ref_version l) \<and>
        (Version_gt (ref_version ref) (ref_version l) \<and> mt = MUpgrade \<or> co_force opts))"

lemma start_file_task_accepted:
  "start_file_task uuid f ref m job s = (TaskResult path code msg, s') \<Longrightarrow> sv_jobs s' path = Some job"
  by (auto simp: start_file_task_def Let_def operated_reply_def toDBusReply_def enqueue_def split: if_splits)

lemma file_checkedI:
  assumes "file_reference curArch info = Some (Inr ref)" and "local_version ops w ref (info_module info) = Some (Inr (localRef, usable))"
    and "check_file_version (co_force opts) n ref localRef usable = Inr mt"
  shows "file_checked ops w curArch opts info ref localRef mt"
proof -
  obtain a as arch where a: "info_arch info = a # as" "Architecture_parse a = Inr arch" "curArch = Inr arch"
      "Reference_fromPackageInfo info = Inr ref"
    using assms(1) by (auto simp: file_reference_def split: list.splits sum.splits if_splits)
  then have "map_sum (\<lambda>_. ()) Architecture_toString curArch = Inr a" by (auto simp: result_simps)
  moreover have "\<not> Version_eq (ref_version ref) (ref_version l) \<and>
      (Version_gt (ref_version ref) (ref_version l) \<and> mt = MUpgrade \<or> co_force opts)"
    if "localRef = Some l" "ro_getLayerDir ops w l (info_module info) = Inr d" "ro_valid ops w d" for l d
    using assms(2,3) that
    by (auto simp: local_version_def check_file_version_def split: sum.splits option.splits if_splits)
  ultimately show ?thesis using a by (auto simp: file_checked_def)
qed

lemma erase_at_front: "k < length xs \<Longrightarrow> mset (xs ! k # erase_at k xs) = mset xs"
  by (simp add: erase_at_mset)

lemma refusal_simps [simp]: "toDBusReply_err e \<noteq> TaskResult p c m" "toDBusReply n x \<noteq> TaskResult p c m"
  by (simp_all add: toDBusReply_err_def toDBusReply_def)

lemma file_reference_refusal: "file_reference a i \<noteq> Some (Inl (TaskResult p c m))"
  by (auto simp: file_reference_def split: list.splits sum.splits if_splits)

lemma local_version_refusal: "local_version ops w r m \<noteq> Some (Inl (TaskResult p c x))"
  by (auto simp: local_version_def split: sum.splits option.splits)

lemma check_file_refusal: "check_file_version f n r l u \<noteq> Inl (TaskResult p c x)"
  by (auto simp: check_file_version_def split: option.splits if_splits)

lemmas file_refusals = file_reference_refusal local_version_refusal check_file_refusal

lemma installFromLayer_accepted:
  assumes "installFromLayer ops arch fe uuid opts w s = Some (TaskResult path code msg, s')"
  shows "\<exists>lf info ref mt l. sv_jobs s' path = Some (LayerJob lf ref (info_module info) opts mt l) \<and>
    info_module info \<in> {''binary'', ''runtime''} \<and> file_checked ops w arch opts info ref l mt"
  using assms
  by (auto simp: installFromLayer_def Let_def file_refusals split: sum.splits prod.splits option.splits if_splits
      dest!: start_file_task_accepted) (metis file_checkedI)+

lemma installFromUAB_accepted:
  assumes "installFromUAB ops arch fe uuid opts w s = Some (TaskResult path code msg, s')"
  shows "\<exists>uab uab' meta app layers ref mt l.
    loadFromFile (fe_realFile fe) (fe_uab fe) (fe_elf fe) = Inr uab \<and>
    uab_verify (fe_uabParse fe) (fe_uabGet fe) (fe_sha256hex fe) uab = Some (Inr True, uab') \<and>
    fst (the (getMetaInfo (fe_uabParse fe) (fe_uabGet fe) uab')) = Inr meta \<and>
    mset (app # layers) = mset (meta_layers meta) \<and> info_kind (layer_info app) = ''app'' \<and>
    (\<exists>uab2. sv_jobs s' path = Some (UabJob uab2 (app # layers) (meta_uuid meta) opts mt ref l)) \<and>
    file_checked ops w arch opts (layer_info app) ref l mt"
proof -
  obtain uab where uab: "loadFromFile (fe_realFile fe) (fe_uab fe) (fe_elf fe) = Inr uab"
    using assms by (auto simp: installFromUAB_def split: sum.splits)
  obtain uab' where ver: "uab_verify (fe_uabParse fe) (fe_uabGet fe) (fe_sha256hex fe) uab = Some (Inr True, uab')"
    using assms uab by (auto simp: installFromUAB_def split: option.splits prod.splits sum.splits bool.splits)
  obtain meta uab2 where meta: "getMetaInfo (fe_uabParse fe) (fe_uabGet fe) uab' = Some (Inr meta, uab2)"
    using assms uab ver by (auto simp: installFromUAB_def split: option.splits prod.splits sum.splits)
  obtain k where k: "index_of (\<lambda>l. info_kind (layer_info l) = ''app'') (meta_layers meta) = Some k"
    using assms uab ver meta by (auto simp: installFromUAB_def split: option.splits)
  let ?app = "meta_layers meta ! k"
  have app: "mset (?app # erase_at k (meta_layers meta)) = mset (meta_layers meta)" "info_kind (layer_info ?app) = ''app''"
    using index_of_Some [OF k] erase_at_front by auto
  obtain ref where ref: "file_reference arch (layer_info ?app) = Some (Inr ref)"
    using assms uab ver meta k by (auto simp: installFromUAB_def Let_def file_refusals split: option.splits sum.splits)
  obtain l u where l: "local_version ops w ref (info_module (layer_info ?app)) = Some (Inr (l, u))"
    using assms uab ver meta k ref by (auto simp: installFromUAB_def Let_def file_refusals split: option.splits sum.splits)
  let ?n = "ref_id ref @ ''_'' @ Architecture_toString (ref_arch ref) @ ''_'' @
            Version_toString (ref_version ref) @ ''_'' @ info_module (layer_info ?app) @ ''.uab''"
  obtain mt where mt: "check_file_version (co_force opts) ?n ref l u = Inr mt"
    using assms uab ver meta k ref l by (auto simp: installFromUAB_def Let_def file_refusals split: sum.splits)
  have "sv_jobs s' path = Some (UabJob uab2 (?app # erase_at k (meta_layers meta)) (meta_uuid meta) opts mt ref l)"
    using assms uab ver meta k ref l mt by (auto simp: installFromUAB_def Let_def dest!: start_file_task_accepted)
  then show ?thesis using uab ver meta app file_checkedI [OF ref l mt]
    by (intro exI [of _ uab] exI [of _ uab'] exI [of _ meta] exI [of _ ?app] exI [of _ "erase_at k (meta_layers meta)"]
        exI [of _ ref] exI [of _ mt] exI [of _ l]) auto
qed

text \<open>
  A request to install a file adds a task only for a package that has been checked. A layer
  has to be of module binary or runtime; a bundle has to pass the verification of its digest and to contain an
  application, whose layer the job handles first, the other layers following in any order but all
  of them. In both cases the package is for the architecture of the host, and when the latest
  installed version is usable, the package's version is another one, and newer (then the user is asked) or
  forced.
\<close>

theorem file_request_accepted:
  assumes "InstallFromFile ops curArch fe uuid fileType (Inr opts) w s = Some (TaskResult path code msg, s')"
  shows "\<exists>info ref localRef mt. file_checked ops w curArch opts info ref localRef mt \<and>
    (fileType = ''layer'' \<and> info_module info \<in> {''binary'', ''runtime''} \<and>
       (\<exists>lf. sv_jobs s' path = Some (LayerJob lf ref (info_module info) opts mt localRef)) \<or>
     fileType = ''uab'' \<and> info_kind info = ''app'' \<and>
       (\<exists>uab uab' meta app layers uab2. loadFromFile (fe_realFile fe) (fe_uab fe) (fe_elf fe) = Inr uab \<and>
          uab_verify (fe_uabParse fe) (fe_uabGet fe) (fe_sha256hex fe) uab = Some (Inr True, uab') \<and>
          fst (the (getMetaInfo (fe_uabParse fe) (fe_uabGet fe) uab')) = Inr meta \<and> layer_info app = info \<and>
          mset (app # layers) = mset (meta_layers meta) \<and>
          sv_jobs s' path = Some (UabJob uab2 (app # layers) (meta_uuid meta) opts mt ref localRef)))"
proof -
  consider "fileType = ''layer''" "installFromLayer ops curArch fe uuid opts w s = Some (TaskResult path code msg, s')"
    | "fileType = ''uab''" "installFromUAB ops curArch fe uuid opts w s = Some (TaskResult path code msg, s')"
    using assms by (auto simp: InstallFromFile_def split: if_splits)
  then show ?thesis
  proof cases
    case 1
    then show ?thesis using installFromLayer_accepted [OF 1(2)] by blast
  next
    case 2
    then show ?thesis using installFromUAB_accepted [OF 2(2)] by blast
  qed
qed

definition demo_file_env :: "unit file_env" where
  "demo_file_env = \<lparr>fe_realFile = ''/tmp/demo.layer'', fe_layer = Some (magicNumber @ [1, 0, 0, 0, 65]), fe_loadMeta = (\<lambda>_. Inr ()),
     fe_parseInfo = (\<lambda>_. Inr demo_info), fe_uab = Inl [], fe_elf = None, fe_uabParse = (\<lambda>_. Inr ()),
     fe_uabGet = (\<lambda>_. None), fe_sha256hex = (\<lambda>_. [])\<rparr>"

theorem file_request_accepted_witness:
  "\<exists>info ref localRef mt. file_checked (ostree_ops demo_setting) (demo_world []) (Inr X86_64)
     \<lparr>co_force = False, co_skipInteraction = True\<rparr> info ref localRef mt \<and> info_module info \<in> {''binary'', ''runtime''}"
proof -
  let ?run = "InstallFromFile (ostree_ops demo_setting) (Inr X86_64) demo_file_env ''u'' ''layer''
    (Inr \<lparr>co_force = False, co_skipInteraction = True\<rparr>) (demo_world []) service_init"
  have "map_option fst ?run = Some (TaskResult ''/org/deepin/linglong/Task1/u'' 0 ''/tmp/demo.layer is now installing'')" by code_simp
  then have run: "?run = Some (TaskResult ''/org/deepin/linglong/Task1/u'' 0 ''/tmp/demo.layer is now installing'', snd (the ?run))"
    by (cases ?run) auto
  from file_request_accepted [OF run] show ?thesis by auto
qed

end
