(* ===== verification/Generators.thy ===== *)
theory Generators
  imports Prelude "HOL-Library.Sublist"
begin

text \<open>
  The programs that complete a container configuration, \<open>apps/generators/*/src/main.cpp\<close>: each reads a JSON
  document on standard input, adds mounts, environment variables or id mappings to it, and prints it.
  The JSON library is modelled by the operations the programs use, with the exceptions these throw;
  environment variables and the file system are the record \<open>gen_env\<close>.
\<close>

section \<open>JSON values\<close>

text \<open>Objects are association lists in the order of their keys, as \<open>std::map\<close> keeps them.\<close>

datatype jvalue = JNull | JNum int | JString string | JArray "jvalue list" | JObject "(string \<times> jvalue) list"

text \<open>
  How a program ends early: \<open>return -1\<close>, or an exception nobody catches.
\<close>

datatype gen_error = ExitFailure | Uncaught

text \<open>\<open>at\<close>, the conversion to a string, \<open>operator[]\<close> followed by a change of the element, and \<open>push_back\<close>.\<close>

definition json_at :: "string \<Rightarrow> jvalue \<Rightarrow> jvalue option" where
  "json_at k j = (case j of JObject kvs \<Rightarrow> map_of kvs k | _ \<Rightarrow> None)"

definition get_string :: "jvalue \<Rightarrow> string option" where
  "get_string j = (case j of JString s \<Rightarrow> Some s | _ \<Rightarrow> None)"

definition modify_field :: "string \<Rightarrow> (jvalue \<Rightarrow> gen_error + jvalue) \<Rightarrow> jvalue \<Rightarrow> gen_error + jvalue" where
  "modify_field k f j =
     (case j of
        JNull \<Rightarrow> map_sum (\<lambda>e. e) (\<lambda>v. JObject [(k, v)]) (f JNull)
      | JObject kvs \<Rightarrow>
          map_sum (\<lambda>e. e) (\<lambda>v. JObject (put k v kvs)) (f (case map_of kvs k of None \<Rightarrow> JNull | Some v \<Rightarrow> v))
      | _ \<Rightarrow> Inl Uncaught)"

definition push_back :: "jvalue \<Rightarrow> jvalue \<Rightarrow> gen_error + jvalue" where
  "push_back v j = (case j of JNull \<Rightarrow> Inr (JArray [v]) | JArray xs \<Rightarrow> Inr (JArray (xs @ [v])) | _ \<Rightarrow> Inl Uncaught)"

text \<open>\<open>insert\<close> at the end, which wants an array even when there is nothing to insert.\<close>

definition insert_all :: "jvalue list \<Rightarrow> jvalue \<Rightarrow> gen_error + jvalue" where
  "insert_all vs j = (case j of JArray xs \<Rightarrow> Inr (JArray (xs @ vs)) | _ \<Rightarrow> Inl Uncaught)"

text \<open>The values an iteration over a JSON value visits.\<close>

definition items_of :: "jvalue \<Rightarrow> jvalue list" where
  "items_of j = (case j of JNull \<Rightarrow> [] | JArray xs \<Rightarrow> xs | JObject kvs \<Rightarrow> map snd kvs | _ \<Rightarrow> [j])"

section \<open>The environment\<close>

datatype file_kind = Missing | LinkFile | OtherKind | StatError

record user_directories =
  ud_allowed :: "string list option"
  ud_disallowed :: "string list option"

record gen_env =
  ge_getenv :: "string \<Rightarrow> string option"
  ge_environ :: "string list"
  ge_uid :: nat
  ge_gid :: nat
  ge_exists :: "string \<Rightarrow> bool option"
  ge_mkdirs :: "string \<Rightarrow> bool"
  ge_lstat :: "string \<Rightarrow> file_kind"
  ge_realpath :: "string \<Rightarrow> string option"
  ge_devices :: "string list option"
  ge_privileges :: "string \<Rightarrow> user_directories option"
  ge_perms :: "string \<Rightarrow> nat option"
  ge_owner :: "string \<Rightarrow> nat option"
  ge_cwd :: string
  ge_symlink :: "string \<Rightarrow> string \<Rightarrow> bool"

text \<open>
  \<open>None\<close> of \<open>ge_exists\<close> is an error of asking. A program's state is the document and the directories it has
  created, which exist from then on.
\<close>

record gstate =
  g_content :: jvalue
  g_created :: "string list"

type_synonym gstep = "gstate \<Rightarrow> gen_error + gstate"

definition made :: "gstate \<Rightarrow> string \<Rightarrow> bool" where
  "made s p = (\<exists>c \<in> set (g_created s). c = p \<or> starts_with c (p @ ''/''))"

definition fs_exists :: "gen_env \<Rightarrow> gstate \<Rightarrow> string \<Rightarrow> bool option" where
  "fs_exists ge s p = (if made s p then Some True else ge_exists ge p)"

fun run_steps :: "gstep list \<Rightarrow> gstep" where
  "run_steps [] s = Inr s"
| "run_steps (f # fs) s = (case f s of Inl e \<Rightarrow> Inl e | Inr s' \<Rightarrow> run_steps fs s')"

definition skip :: gstep where
  "skip s = Inr s"

definition fail :: gstep where
  "fail s = Inl ExitFailure"

definition on_content :: "(jvalue \<Rightarrow> gen_error + jvalue) \<Rightarrow> gstep" where
  "on_content f s = map_sum (\<lambda>e. e) (\<lambda>j. s\<lparr>g_content := j\<rparr>) (f (g_content s))"

definition mount_json :: "string \<Rightarrow> string list \<Rightarrow> string \<Rightarrow> string \<Rightarrow> jvalue" where
  "mount_json dest opts src typ =
     JObject [(''destination'', JString dest), (''options'', JArray (map JString opts)), (''source'', JString src), (''type'', JString typ)]"

definition push_mount :: "string \<Rightarrow> string list \<Rightarrow> string \<Rightarrow> string \<Rightarrow> gstep" where
  "push_mount dest opts src typ = on_content (modify_field ''mounts'' (push_back (mount_json dest opts src typ)))"

definition push_env :: "string \<Rightarrow> gstep" where
  "push_env e = on_content (modify_field ''process'' (modify_field ''env'' (push_back (JString e))))"

definition touch_mounts :: gstep where
  "touch_mounts = on_content (modify_field ''mounts'' Inr)"

definition touch_env :: gstep where
  "touch_env = on_content (modify_field ''process'' (modify_field ''env'' Inr))"

definition private_tmpfs :: "string \<Rightarrow> gstep" where
  "private_tmpfs dest = push_mount dest [''nodev'', ''nosuid'', ''mode=700''] ''tmpfs'' ''tmpfs''"

definition bind_opts :: "string \<Rightarrow> string list \<Rightarrow> string \<Rightarrow> gstep" where
  "bind_opts dest opts src = push_mount dest opts src ''bind''"

text \<open>\<open>bindIfExist\<close>; the call of \<open>exists\<close> without an error code throws when it fails.\<close>

definition bindIfExist :: "gen_env \<Rightarrow> string \<Rightarrow> string \<Rightarrow> gstep" where
  "bindIfExist ge source destination s =
     (case fs_exists ge s source of
        None \<Rightarrow> Inl Uncaught
      | Some False \<Rightarrow> Inr s
      | Some True \<Rightarrow> bind_opts (if destination = [] then source else destination) [''rbind''] source s)"

section \<open>The start of every program\<close>

text \<open>The document has to be an object with \<open>ociVersion\<close> 1.0.1; every failure ends the program with -1.\<close>

definition start_program :: "jvalue option \<Rightarrow> gen_error + gstate" where
  "start_program input =
     (case input of None \<Rightarrow> Inl ExitFailure | Some j \<Rightarrow>
      (case Option.bind (json_at ''ociVersion'' j) get_string of
         None \<Rightarrow> Inl ExitFailure
       | Some v \<Rightarrow> if v \<noteq> ''1.0.1'' then Inl ExitFailure else Inr \<lparr>g_content = j, g_created = []\<rparr>))"

definition run_program :: "gstep \<Rightarrow> jvalue option \<Rightarrow> gen_error + jvalue" where
  "run_program f input =
     (case start_program input of Inl e \<Rightarrow> Inl e | Inr s \<Rightarrow>
      (case f s of Inl e \<Rightarrow> Inl e | Inr s' \<Rightarrow> Inr (g_content s')))"

definition annotation :: "string \<Rightarrow> gstate \<Rightarrow> jvalue option" where
  "annotation k s = Option.bind (json_at ''annotations'' (g_content s)) (json_at k)"

definition app_id :: "gstate \<Rightarrow> string option" where
  "app_id s = Option.bind (annotation ''org.deepin.linglong.appID'' s) get_string"

text \<open>The \<open>try\<close> block that reads the application's id.\<close>

definition with_app_id :: "(string \<Rightarrow> gstep) \<Rightarrow> gstep" where
  "with_app_id f s = (case app_id s of None \<Rightarrow> Inl ExitFailure | Some i \<Rightarrow> f i s)"

section \<open>00-id-mapping, 05-initialize, 20-devices, 25-host-env and 90-legacy\<close>

definition id_mapping :: "nat \<Rightarrow> jvalue" where
  "id_mapping i = JArray [JObject [(''containerID'', JNum (int i)), (''hostID'', JNum (int i)), (''size'', JNum 1)]]"

definition gen_id_mapping :: "gen_env \<Rightarrow> jvalue option \<Rightarrow> gen_error + jvalue" where
  "gen_id_mapping ge = run_program (run_steps
     [on_content (modify_field ''linux'' (modify_field ''uidMappings'' (\<lambda>_. Inr (id_mapping (ge_uid ge))))),
      on_content (modify_field ''linux'' (modify_field ''gidMappings'' (\<lambda>_. Inr (id_mapping (ge_gid ge)))))])"

text \<open>The annotations are copied before; a value that is not a string makes \<open>get\<close> throw.\<close>

definition with_annotation :: "string \<Rightarrow> (string \<Rightarrow> gstep) \<Rightarrow> gstep" where
  "with_annotation k f s =
     (case annotation k s of
        None \<Rightarrow> Inr s
      | Some v \<Rightarrow> (case get_string v of None \<Rightarrow> Inl Uncaught | Some d \<Rightarrow> f d s))"

definition gen_initialize :: "jvalue option \<Rightarrow> gen_error + jvalue" where
  "gen_initialize = run_program (with_app_id (\<lambda>appID. run_steps
     [touch_mounts,
      with_annotation ''org.deepin.linglong.runtimeDir''
        (\<lambda>d. bind_opts ''/runtime'' [''rbind'', ''ro''] (path_div d ''files'')),
      with_annotation ''org.deepin.linglong.appDir''
        (\<lambda>d. run_steps [private_tmpfs ''/opt'',
          bind_opts (path_div (path_div ''/opt/apps'' appID) ''files'') [''rbind'', ''rw''] (path_div d ''files'')])]))"

definition device_mounts :: "gen_env \<Rightarrow> gstep" where
  "device_mounts ge s =
     (case ge_devices ge of
        None \<Rightarrow> Inl Uncaught
      | Some names \<Rightarrow>
          on_content (modify_field ''mounts'' (insert_all
            (map (\<lambda>n. mount_json (''/dev/'' @ n) [''rbind''] (''/dev/'' @ n) ''bind'')
              (filter (\<lambda>n. starts_with n ''video'' \<or> starts_with n ''nvidia'') names)))) s)"

definition gen_devices :: "gen_env \<Rightarrow> jvalue option \<Rightarrow> gen_error + jvalue" where
  "gen_devices ge = run_program (run_steps
     [touch_mounts, bindIfExist ge ''/run/udev'' [], bindIfExist ge ''/dev/snd'' [], bindIfExist ge ''/dev/dri'' [],
      device_mounts ge,
      (\<lambda>s. case fs_exists ge s ''/media'' of
             None \<Rightarrow> Inl Uncaught
           | Some False \<Rightarrow> Inr s
           | Some True \<Rightarrow> bind_opts ''/media'' [''rbind'', ''rshared''] ''/media'' s)])"

definition envList :: "string list" where
  "envList = [''DISPLAY'', ''LANG'', ''LANGUAGE'', ''XDG_SESSION_DESKTOP'', ''D_DISABLE_RT_SCREEN_SCALE'', ''XMODIFIERS'',
     ''DESKTOP_SESSION'', ''DEEPIN_WINE_SCALE'', ''XDG_CURRENT_DESKTOP'', ''XIM'', ''XDG_SESSION_TYPE'', ''XDG_RUNTIME_DIR'',
     ''CLUTTER_IM_MODULE'', ''QT4_IM_MODULE'', ''GTK_IM_MODULE'', ''auto_proxy'', ''http_proxy'', ''https_proxy'', ''ftp_proxy'',
     ''SOCKS_SERVER'', ''no_proxy'', ''USER'', ''QT_IM_MODULE'', ''LINGLONG_ROOT'', ''WAYLAND_DISPLAY'', ''QT_QPA_PLATFORM'',
     ''QT_WAYLAND_SHELL_INTEGRATION'', ''GDMSESSION'', ''QT_WAYLAND_FORCE_DPI'', ''GIO_LAUNCHED_DESKTOP_FILE'',
     ''GNOME_DESKTOP_SESSION_ID'']"

definition forwarded :: "string list \<Rightarrow> string list" where
  "forwarded environ = concat (map (\<lambda>name. filter (\<lambda>e. starts_with e (name @ ''='') \<and> length name + 1 < length e) environ) envList)"

definition gen_host_env :: "gen_env \<Rightarrow> jvalue option \<Rightarrow> gen_error + jvalue" where
  "gen_host_env ge = run_program (run_steps
     ([touch_env] @ map push_env (forwarded (ge_environ ge)) @
      [\<lambda>s. case app_id s of None \<Rightarrow> Inl Uncaught | Some i \<Rightarrow> push_env (''LINGLONG_APPID='' @ i) s]))"

text \<open>The multimap of 90-legacy, in the order of its iteration: by source, equal sources in the order of the list.\<close>

definition roMountMap :: "(string \<times> string) list" where
  "roMountMap = [(''/etc/machine-id'', ''/run/host/etc/machine-id''), (''/etc/machine-id'', ''/etc/machine-id''),
     (''/etc/resolvconf'', ''/run/host/etc/resolvconf''), (''/etc/resolvconf'', ''/etc/resolvconf''),
     (''/etc/ssl/certs'', ''/run/host/etc/ssl/certs''), (''/etc/ssl/certs'', ''/etc/ssl/certs''),
     (''/usr/lib/locale/'', ''/usr/lib/locale/''), (''/usr/share/fonts'', ''/usr/share/fonts''),
     (''/usr/share/icons'', ''/usr/share/icons''), (''/usr/share/themes'', ''/usr/share/themes''),
     (''/usr/share/zoneinfo'', ''/usr/share/zoneinfo''),
     (''/var/cache/fontconfig'', ''/run/host/appearance/fonts-cache''), (''/var/cache/fontconfig'', ''/var/cache/fontconfig'')]"

definition ro_mount :: "gen_env \<Rightarrow> string \<times> string \<Rightarrow> gstep" where
  "ro_mount ge m s =
     (case fs_exists ge s (fst m) of
        None \<Rightarrow> Inl Uncaught
      | Some False \<Rightarrow> Inr s
      | Some True \<Rightarrow> bind_opts (snd m) [''ro'', ''rbind''] (fst m) s)"

definition browser_data :: "gen_env \<Rightarrow> string \<Rightarrow> gstep" where
  "browser_data ge appID s =
     (case ge_getenv ge ''HOME'' of None \<Rightarrow> Inl ExitFailure | Some home \<Rightarrow>
     (case fs_exists ge s home of None \<Rightarrow> Inl Uncaught | Some False \<Rightarrow> Inl ExitFailure | Some True \<Rightarrow>
      let src = path_div (path_div (path_div (path_div home ''.linglong'') appID) ''share'') ''appdata'' in
      if \<not> ge_mkdirs ge src then Inl ExitFailure
      else run_steps [push_mount ''/apps-data'' [''nodev'', ''nosuid'', ''mode=777''] ''tmpfs'' ''tmpfs'',
             bind_opts ''/apps-data/private/com.360.browser-stable'' [''rw'', ''rbind''] src]
             (s\<lparr>g_created := src # g_created s\<rparr>)))"

definition gen_legacy :: "gen_env \<Rightarrow> jvalue option \<Rightarrow> gen_error + jvalue" where
  "gen_legacy ge = run_program (run_steps
     ([touch_mounts] @ map (ro_mount ge) roMountMap @
      [with_app_id (\<lambda>appID. if appID = ''com.360.browser-stable'' then browser_data ge appID else skip)]))"

section \<open>30-user-home\<close>

text \<open>\<open>mountDir\<close>: the directory on the host is created when it is missing; every failure ends the program.\<close>

definition mountDir :: "gen_env \<Rightarrow> string \<Rightarrow> string \<Rightarrow> gstep" where
  "mountDir ge hostDir containerDir s =
     (case fs_exists ge s hostDir of
        None \<Rightarrow> Inl ExitFailure
      | Some True \<Rightarrow> bind_opts containerDir [''rbind''] hostDir s
      | Some False \<Rightarrow>
         (if \<not> ge_mkdirs ge hostDir then Inl ExitFailure
          else bind_opts containerDir [''rbind''] hostDir (s\<lparr>g_created := hostDir # g_created s\<rparr>)))"

text \<open>\<open>envExist\<close> converts the items to strings until it finds one with the prefix.\<close>

fun env_exist :: "string \<Rightarrow> jvalue list \<Rightarrow> gen_error + bool" where
  "env_exist pre [] = Inr False"
| "env_exist pre (j # js) =
     (case get_string j of
        None \<Rightarrow> Inl Uncaught
      | Some item \<Rightarrow> if starts_with item pre then Inr True else env_exist pre js)"

definition process_env :: "gstate \<Rightarrow> jvalue" where
  "process_env s =
     (case Option.bind (json_at ''process'' (g_content s)) (json_at ''env'') of None \<Rightarrow> JNull | Some v \<Rightarrow> v)"

definition add_env :: "string \<Rightarrow> string \<Rightarrow> gstep" where
  "add_env key val s =
     (case env_exist (key @ ''='') (items_of (process_env s)) of
        Inl e \<Rightarrow> Inl e
      | Inr True \<Rightarrow> Inl ExitFailure
      | Inr False \<Rightarrow> push_env (key @ ''='' @ val) s)"

text \<open>
  One of the XDG directories: its place on the host, replaced by the directory \<open>private\<close> of the application when that
  exists, is mounted, and the variable is set to its place in the container. The rest of the program
  gets the place on the host.
\<close>

definition xdg_host :: "gen_env \<Rightarrow> string \<Rightarrow> string \<Rightarrow> string" where
  "xdg_host ge name dflt = (case ge_getenv ge name of None \<Rightarrow> dflt | Some v \<Rightarrow> if v = [] then dflt else v)"

definition private_or :: "gen_env \<Rightarrow> string option \<Rightarrow> string \<Rightarrow> gstate \<Rightarrow> string" where
  "private_or ge private hostDir s =
     (case private of None \<Rightarrow> hostDir | Some d \<Rightarrow> if fs_exists ge s d = Some True then d else hostDir)"

definition xdg_dir :: "gen_env \<Rightarrow> string \<Rightarrow> string \<Rightarrow> string option \<Rightarrow> string \<Rightarrow> (string \<Rightarrow> gstep) \<Rightarrow> gstep" where
  "xdg_dir ge name hostDefault private containerDir rest s =
     (let hostDir = private_or ge private (xdg_host ge name hostDefault) s in
      run_steps [mountDir ge hostDir containerDir, add_env name containerDir, rest hostDir] s)"

text \<open>A directory that is mounted when it exists, and a file that is.\<close>

definition if_exists :: "gen_env \<Rightarrow> string \<Rightarrow> gstep \<Rightarrow> gstep" where
  "if_exists ge p f s = (if fs_exists ge s p = Some True then f s else Inr s)"

definition blackList :: "string list" where
  "blackList = [''.gnupg'', ''.ssh'']"

definition sort_unique :: "string list \<Rightarrow> string list" where
  "sort_unique xs = remdups_adj (sort xs)"

definition invalid_relative :: "string \<Rightarrow> bool" where
  "invalid_relative p = (p = [] \<or> starts_with p ''/'')"

definition hide_dir :: "gen_env \<Rightarrow> string \<Rightarrow> string \<Rightarrow> string \<Rightarrow> string \<Rightarrow> gstep" where
  "hide_dir ge hostHome containerHome privateDir relative s =
     (if invalid_relative relative then Inl ExitFailure
      else case fs_exists ge s (path_div hostHome relative) of
        None \<Rightarrow> Inl ExitFailure
      | Some False \<Rightarrow> Inr s
      | Some True \<Rightarrow> mountDir ge (path_div privateDir relative) (path_div containerHome relative) s)"

definition lstat :: "gen_env \<Rightarrow> gstate \<Rightarrow> string \<Rightarrow> file_kind" where
  "lstat ge s p = (if made s p then OtherKind else ge_lstat ge p)"

definition show_dir :: "gen_env \<Rightarrow> string \<Rightarrow> string \<Rightarrow> string \<Rightarrow> gstep" where
  "show_dir ge hostHome containerHome relative s =
     (if invalid_relative relative then Inl ExitFailure
      else if relative \<in> set blackList then Inr s
      else let hostLocation = path_div hostHome relative in
        case lstat ge s hostLocation of
          Missing \<Rightarrow> Inr s
        | StatError \<Rightarrow> Inl ExitFailure
        | OtherKind \<Rightarrow> mountDir ge hostLocation (path_div containerHome relative) s
        | LinkFile \<Rightarrow>
           (case ge_realpath ge hostLocation of None \<Rightarrow> Inl ExitFailure | Some real \<Rightarrow>
           (case fs_exists ge s real of
              None \<Rightarrow> Inl ExitFailure
            | Some False \<Rightarrow> Inr s
            | Some True \<Rightarrow>
               (if \<not> starts_with real hostHome then Inl ExitFailure
                else bind_opts hostLocation [''rbind'', ''copy-symlink''] hostLocation s))))"

text \<open>The permissions of the application: the directories to hide and to show.\<close>

definition with_privileges :: "gen_env \<Rightarrow> string \<Rightarrow> (user_directories \<Rightarrow> gstep) \<Rightarrow> gstep" where
  "with_privileges ge config f s =
     (case fs_exists ge s config of
        None \<Rightarrow> Inl ExitFailure
      | Some False \<Rightarrow> f \<lparr>ud_allowed = None, ud_disallowed = None\<rparr> s
      | Some True \<Rightarrow> (case ge_privileges ge config of None \<Rightarrow> Inl ExitFailure | Some d \<Rightarrow> f d s))"

definition user_dirs :: "gen_env \<Rightarrow> string \<Rightarrow> string \<Rightarrow> string \<Rightarrow> gstep" where
  "user_dirs ge hostHome containerHome privateDir =
     with_privileges ge (path_div privateDir ''permissions.json'') (\<lambda>d. run_steps
       (map (hide_dir ge hostHome containerHome privateDir)
          (sort_unique ((case ud_disallowed d of None \<Rightarrow> [] | Some xs \<Rightarrow> xs) @ blackList)) @
        map (show_dir ge hostHome containerHome)
          (sort_unique (case ud_allowed d of None \<Rightarrow> [] | Some xs \<Rightarrow> xs))))"

text \<open>From the configuration directory on; \<open>XDGConfigHome\<close> and \<open>XDGCacheHome\<close> are known here.\<close>

definition config_mounts :: "gen_env \<Rightarrow> string \<Rightarrow> string \<Rightarrow> string \<Rightarrow> string \<Rightarrow> string \<Rightarrow> gstep" where
  "config_mounts ge hostHome containerHome privateDir XDGConfigHome XDGCacheHome =
     (let config = path_div containerHome ''.config''; cache = path_div containerHome ''.cache'';
          systemd = path_div (path_div XDGConfigHome ''systemd'') ''user''; dconf = path_div XDGConfigHome ''dconf'';
          dde = path_div (path_div XDGCacheHome ''deepin'') ''dde-api'';
          dirs = path_div XDGConfigHome ''user-dirs.dirs''; locale = path_div XDGConfigHome ''user-dirs.locale'' in
      run_steps
       [if_exists ge systemd (mountDir ge systemd (path_div (path_div config ''systemd'') ''user'')),
        if_exists ge dconf (mountDir ge dconf (path_div config ''dconf'')),
        if_exists ge dde (mountDir ge dde (path_div (path_div cache ''deepin'') ''dde-api'')),
        if_exists ge dirs (bind_opts (path_div config ''user-dirs.dirs'') [''rbind''] dirs),
        if_exists ge locale (bind_opts (path_div config ''user-dirs.locale'') [''rbind''] locale),
        (\<lambda>s. case fs_exists ge s ''/etc/skel/.bashrc'' of
               None \<Rightarrow> Inl Uncaught
             | Some False \<Rightarrow> Inr s
             | Some True \<Rightarrow> bind_opts (path_div hostHome ''.bashrc'') [''ro'', ''rbind''] ''/etc/skel/.bashrc'' s),
        mountDir ge (path_div (path_div hostHome ''.linglong'') ''data'') (path_div containerHome ''.linglong''),
        user_dirs ge hostHome containerHome privateDir])"

definition make_dir :: "gen_env \<Rightarrow> string \<Rightarrow> gstep" where
  "make_dir ge d s = (if \<not> ge_mkdirs ge d then Inl ExitFailure else Inr (s\<lparr>g_created := d # g_created s\<rparr>))"

text \<open>The part of 30-user-home after the mount of the home directory.\<close>

definition home_rest :: "gen_env \<Rightarrow> string \<Rightarrow> string \<Rightarrow> string \<Rightarrow> gstep list" where
  "home_rest ge hostHome containerHome privateDir =
     [add_env ''HOME'' containerHome,
      make_dir ge privateDir,
      xdg_dir ge ''XDG_DATA_HOME'' (path_div (path_div hostHome ''.local'') ''share'') None
        (path_div (path_div containerHome ''.local'') ''share'') (\<lambda>_. skip),
      xdg_dir ge ''XDG_CONFIG_HOME'' (path_div hostHome ''.config'') (Some (path_div privateDir ''config''))
        (path_div containerHome ''.config'') (\<lambda>XDGConfigHome.
      xdg_dir ge ''XDG_CACHE_HOME'' (path_div hostHome ''.cache'') (Some (path_div privateDir ''cache''))
        (path_div containerHome ''.cache'') (\<lambda>XDGCacheHome.
      xdg_dir ge ''XDG_STATE_HOME'' (path_div (path_div hostHome ''.local'') ''state'')
        (Some (path_div privateDir ''config'')) (path_div (path_div containerHome ''.local'') ''state'') (\<lambda>_.
      config_mounts ge hostHome containerHome privateDir XDGConfigHome XDGCacheHome)))]"

definition gen_user_home :: "gen_env \<Rightarrow> jvalue option \<Rightarrow> gen_error + jvalue" where
  "gen_user_home ge = run_program (with_app_id (\<lambda>appID. run_steps
     [touch_mounts, touch_env,
      (\<lambda>s. case (ge_getenv ge ''HOME'', ge_getenv ge ''USER'') of
        (Some hostHome, Some user) \<Rightarrow>
         (let containerHome = path_div ''/home'' user; privateDir = path_div (path_div hostHome ''.linglong'') appID in
          case fs_exists ge s hostHome of
            None \<Rightarrow> Inl Uncaught
          | Some False \<Rightarrow> Inl ExitFailure
          | Some True \<Rightarrow>
              run_steps ([private_tmpfs ''/home'', mountDir ge hostHome containerHome] @
                home_rest ge hostHome containerHome privateDir) s)
      | _ \<Rightarrow> Inl ExitFailure)]))"

section \<open>40-host-ipc\<close>

definition when_exists :: "gen_env \<Rightarrow> string \<Rightarrow> gstep \<Rightarrow> gstep" where
  "when_exists ge p f s = (case fs_exists ge s p of None \<Rightarrow> Inl Uncaught | Some False \<Rightarrow> Inr s | Some True \<Rightarrow> f s)"

definition system_bus :: "gen_env \<Rightarrow> gstep" where
  "system_bus ge s =
     (let dflt = ''/var/run/dbus/system_bus_socket'';
          add = (\<lambda>bus. when_exists ge bus (run_steps
            [bind_opts ''/run/dbus/system_bus_socket'' [''rbind''] bus,
             push_env ''DBUS_SYSTEM_BUS_ADDRESS=unix:path=/run/dbus/system_bus_socket''])) in
      case ge_getenv ge ''DBUS_SYSTEM_BUS_ADDRESS'' of
        None \<Rightarrow> add dflt s
      | Some e \<Rightarrow> (case fs_exists ge s e of None \<Rightarrow> Inl Uncaught | Some b \<Rightarrow> add (if b then e else dflt) s))"

definition session_bus :: "gen_env \<Rightarrow> string \<Rightarrow> gstep" where
  "session_bus ge runtimeDir =
     (case ge_getenv ge ''DBUS_SESSION_BUS_ADDRESS'' of
        None \<Rightarrow> skip
      | Some bus \<Rightarrow>
         (if \<not> starts_with bus ''unix:path='' then skip
          else let socket = drop (length ''unix:path='') bus; inside = path_div runtimeDir ''bus'' in
            when_exists ge socket (run_steps
              [bind_opts inside [''rbind''] socket, push_env (''DBUS_SESSION_BUS_ADDRESS=unix:path='' @ inside)])))"

definition runtime_dir :: "gen_env \<Rightarrow> gstep" where
  "runtime_dir ge s =
     (case ge_getenv ge ''XDG_RUNTIME_DIR'' of None \<Rightarrow> Inr s | Some host \<Rightarrow>
     (case ge_perms ge host of None \<Rightarrow> Inl Uncaught | Some perms \<Rightarrow>
      if perms \<noteq> 448 then Inr s
      else if ge_owner ge host \<noteq> Some (ge_uid ge) then Inr s
      else let inside = path_div ''/run/user'' (show_nat (ge_uid ge)) in
        run_steps
         [private_tmpfs inside, push_env (''XDG_RUNTIME_DIR='' @ inside),
          bindIfExist ge (path_div host ''pulse'') (path_div inside ''pulse''),
          bindIfExist ge (path_div host ''gvfs'') (path_div inside ''gvfs''),
          (case ge_getenv ge ''WAYLAND_DISPLAY'' of
             None \<Rightarrow> skip
           | Some d \<Rightarrow> when_exists ge (path_div host d) (bind_opts (path_div inside d) [''rbind''] (path_div host d))),
          session_bus ge inside,
          when_exists ge (path_div host ''dconf'') (bind_opts (path_div inside ''dconf'') [''rbind''] (path_div host ''dconf''))] s))"

definition xauthority :: "gen_env \<Rightarrow> gstep" where
  "xauthority ge s =
     (case (ge_getenv ge ''HOME'', ge_getenv ge ''USER'') of
        (Some home, Some user) \<Rightarrow>
         (let inside = ''/home/'' @ user @ ''/.Xauthority'';
              host = (case ge_getenv ge ''XAUTHORITY'' of
                        Some f \<Rightarrow> if fs_exists ge s f = Some True then f else home @ ''/.Xauthority''
                      | None \<Rightarrow> home @ ''/.Xauthority'') in
          if fs_exists ge s host \<noteq> Some True then Inr s
          else run_steps [bind_opts inside [''rbind''] host, push_env (''XAUTHORITY='' @ inside)] s)
      | _ \<Rightarrow> Inr s)"

text \<open>A file that is a link into the file system of the host; the target of \<open>/etc/localtime\<close> is resolved.\<close>

definition link_mount :: "gen_env \<Rightarrow> string \<times> string \<times> string \<Rightarrow> gstep" where
  "link_mount ge a s =
     (case a of (name, dest, target) \<Rightarrow>
      let linkfile = path_div (ge_cwd ge) name in
      if ge_symlink ge target linkfile
      then bind_opts dest [''rbind'', ''ro'', ''nosymfollow'', ''copy-symlink''] linkfile s else Inr s)"

definition localtime_target :: "gen_env \<Rightarrow> gen_error + string" where
  "localtime_target ge =
     (case ge_lstat ge ''/etc/localtime'' of
        LinkFile \<Rightarrow>
         (case ge_realpath ge ''/etc/localtime'' of
            None \<Rightarrow> Inl ExitFailure
          | Some t \<Rightarrow> Inr (path_div ''/run/host/rootfs'' (dropWhile (\<lambda>c. c = CHR ''/'') t)))
      | StatError \<Rightarrow> Inl Uncaught
      | _ \<Rightarrow> Inr ''/run/host/rootfs/etc/localtime'')"

definition gen_host_ipc :: "gen_env \<Rightarrow> jvalue option \<Rightarrow> gen_error + jvalue" where
  "gen_host_ipc ge = run_program (run_steps
     [touch_mounts, bindIfExist ge ''/tmp/.X11-unix'' [], system_bus ge, private_tmpfs ''/run/user'', runtime_dir ge, xauthority ge,
      (\<lambda>s. case localtime_target ge of Inl e \<Rightarrow> Inl e | Inr localtime \<Rightarrow>
        run_steps ([private_tmpfs ''/run/linglong/etc''] @ map (link_mount ge)
          [(''ld.so.cache'', ''/etc/ld.so.cache'', ''/run/linglong/etc/ld.so.cache''),
           (''localtime'', ''/etc/localtime'', localtime),
           (''resolv.conf'', ''/etc/resolv.conf'', ''/run/host/rootfs/etc/resolv.conf''),
           (''timezone'', ''/etc/timezone'', ''/run/host/rootfs/etc/timezone'')]) s)])"

section \<open>All programs\<close>

text \<open>The programs, in the order in which the container builder runs them: that of their file names.\<close>

definition generators :: "gen_env \<Rightarrow> (jvalue option \<Rightarrow> gen_error + jvalue) list" where
  "generators ge = [gen_id_mapping ge, gen_initialize, gen_devices ge, gen_host_env ge, gen_user_home ge, gen_host_ipc ge, gen_legacy ge]"

end
