(* ===== verification/Generator_Safety.thy ===== *)
theory Generator_Safety
  imports Generators
begin

text \<open>
  What the programs that complete a container configuration keep of it, and how 30-user-home hides directories of
  the user.
\<close>

section \<open>What a program may change\<close>

declare run_steps.simps(2) [simp del]

definition elems :: "jvalue option \<Rightarrow> jvalue list" where
  "elems j = (case j of Some (JArray xs) \<Rightarrow> xs | _ \<Rightarrow> [])"

definition field :: "string \<Rightarrow> string \<Rightarrow> jvalue \<Rightarrow> jvalue option" where
  "field k l j = Option.bind (json_at k j) (json_at l)"

text \<open>Only mounts, environment variables and the two id mappings change, and of the first two nothing is lost.\<close>

definition adds :: "jvalue \<Rightarrow> jvalue \<Rightarrow> bool" where
  "adds c c' \<longleftrightarrow>
     (\<forall>k. k \<notin> {''mounts'', ''process'', ''linux''} \<longrightarrow> json_at k c' = json_at k c) \<and>
     (\<forall>l. l \<noteq> ''env'' \<longrightarrow> field ''process'' l c' = field ''process'' l c) \<and>
     (\<forall>l. l \<notin> {''uidMappings'', ''gidMappings''} \<longrightarrow> field ''linux'' l c' = field ''linux'' l c) \<and>
     prefix (elems (json_at ''mounts'' c)) (elems (json_at ''mounts'' c')) \<and>
     prefix (elems (field ''process'' ''env'' c)) (elems (field ''process'' ''env'' c'))"

lemma adds_refl [simp]: "adds c c"
  by (simp add: adds_def)

lemma adds_trans: "adds a b \<Longrightarrow> adds b c \<Longrightarrow> adds a c"
  by (auto simp: adds_def intro: prefix_order.trans)

lemma modify_field_at:
  assumes "modify_field k f j = Inr j'"
  obtains v where "f (case json_at k j of None \<Rightarrow> JNull | Some v \<Rightarrow> v) = Inr v" "json_at k j' = Some v"
    "\<And>l. l \<noteq> k \<Longrightarrow> json_at l j' = json_at l j"
  using assms that
  by (cases j) (auto simp: modify_field_def json_at_def put_map_of map_sum_Inr split: option.splits if_splits sum.splits)

lemma adds_mounts:
  assumes "modify_field ''mounts'' f j = Inr j'"
    and f: "\<And>m m'. f m = Inr m' \<Longrightarrow> prefix (elems (Some m)) (elems (Some m'))"
  shows "adds j j'"
  using assms(1)
proof (rule modify_field_at)
  fix v assume v: "f (case json_at ''mounts'' j of None \<Rightarrow> JNull | Some v \<Rightarrow> v) = Inr v" "json_at ''mounts'' j' = Some v"
    and o: "\<And>l. l \<noteq> ''mounts'' \<Longrightarrow> json_at l j' = json_at l j"
  have "prefix (elems (json_at ''mounts'' j)) (elems (json_at ''mounts'' j'))"
    using f [OF v(1)] v(2) by (cases "json_at ''mounts'' j") (simp_all add: elems_def)
  then show ?thesis using o by (auto simp: adds_def field_def)
qed

lemma adds_env:
  assumes "modify_field ''process'' (modify_field ''env'' f) j = Inr j'"
    and f: "\<And>m m'. f m = Inr m' \<Longrightarrow> prefix (elems (Some m)) (elems (Some m'))"
  shows "adds j j'"
  using assms(1)
proof (rule modify_field_at)
  let ?p = "case json_at ''process'' j of None \<Rightarrow> JNull | Some v \<Rightarrow> v"
  fix p assume p: "modify_field ''env'' f ?p = Inr p" "json_at ''process'' j' = Some p"
    and o: "\<And>l. l \<noteq> ''process'' \<Longrightarrow> json_at l j' = json_at l j"
  have at: "field ''process'' l j = json_at l ?p" for l
    by (cases "json_at ''process'' j") (simp_all add: field_def json_at_def)
  have at': "field ''process'' l j' = json_at l p" for l
    using p(2) by (simp add: field_def)
  from p(1) show ?thesis
  proof (rule modify_field_at)
    fix v assume v: "f (case json_at ''env'' ?p of None \<Rightarrow> JNull | Some v \<Rightarrow> v) = Inr v" "json_at ''env'' p = Some v"
      and i: "\<And>l. l \<noteq> ''env'' \<Longrightarrow> json_at l p = json_at l ?p"
    have "prefix (elems (json_at ''env'' ?p)) (elems (json_at ''env'' p))"
      using f [OF v(1)] v(2) by (cases "json_at ''env'' ?p") (simp_all add: elems_def)
    then show ?thesis using o i by (auto simp: adds_def at at') (auto simp: field_def)
  qed
qed

lemma adds_id_mapping:
  assumes "modify_field ''linux'' (modify_field k f) j = Inr j'" "k = ''uidMappings'' \<or> k = ''gidMappings''"
  shows "adds j j'"
  using assms(1)
proof (rule modify_field_at)
  let ?p = "case json_at ''linux'' j of None \<Rightarrow> JNull | Some v \<Rightarrow> v"
  fix p assume p: "modify_field k f ?p = Inr p" "json_at ''linux'' j' = Some p"
    and o: "\<And>l. l \<noteq> ''linux'' \<Longrightarrow> json_at l j' = json_at l j"
  have at: "field ''linux'' l j = json_at l ?p" for l
    by (cases "json_at ''linux'' j") (simp_all add: field_def json_at_def)
  have at': "field ''linux'' l j' = json_at l p" for l
    using p(2) by (simp add: field_def)
  from p(1) show ?thesis
  proof (rule modify_field_at)
    assume i: "\<And>l. l \<noteq> k \<Longrightarrow> json_at l p = json_at l ?p"
    then have "field ''linux'' l j' = field ''linux'' l j" if "l \<notin> {''uidMappings'', ''gidMappings''}" for l
      unfolding at at' using that assms(2) by auto
    then show ?thesis using o by (auto simp: adds_def field_def)
  qed
qed

lemma push_back_prefix: "push_back v m = Inr m' \<Longrightarrow> prefix (elems (Some m)) (elems (Some m'))"
  by (cases m) (auto simp: push_back_def elems_def)

lemma insert_all_prefix: "insert_all vs m = Inr m' \<Longrightarrow> prefix (elems (Some m)) (elems (Some m'))"
  by (cases m) (auto simp: insert_all_def elems_def)

text \<open>
  What the programs do to a document they do by a few changes. A relation that these respect
  relates the input and the output of every program.
\<close>

definition maintains :: "(jvalue \<Rightarrow> jvalue \<Rightarrow> bool) \<Rightarrow> gstep \<Rightarrow> bool" where
  "maintains R f \<longleftrightarrow> (\<forall>s s'. f s = Inr s' \<longrightarrow> R (g_content s) (g_content s'))"

definition completes :: "(jvalue \<Rightarrow> jvalue \<Rightarrow> bool) \<Rightarrow> jvalue option \<Rightarrow> jvalue \<Rightarrow> bool" where
  "completes R input c' \<longleftrightarrow>
     (\<exists>c. input = Some c \<and> json_at ''ociVersion'' c = Some (JString ''1.0.1'') \<and> R c c')"

named_theorems keeping \<open>steps that respect the relation of a locale\<close>

locale document_relation =
  fixes R :: "jvalue \<Rightarrow> jvalue \<Rightarrow> bool"
  assumes same: "R j j"
    and trans: "R a b \<Longrightarrow> R b c \<Longrightarrow> R a c"
    and push_one: "modify_field ''mounts'' (push_back (mount_json dest opts src typ)) j = Inr j' \<Longrightarrow> R j j'"
      "modify_field ''process'' (modify_field ''env'' (push_back (JString e))) j = Inr j' \<Longrightarrow> R j j'"
    and touch_one: "modify_field ''mounts'' Inr j = Inr j' \<Longrightarrow> R j j'"
      "modify_field ''process'' (modify_field ''env'' Inr) j = Inr j' \<Longrightarrow> R j j'"
    and insert_mounts: "modify_field ''mounts'' (insert_all (map (\<lambda>n. mount_json (f n) opts (f n) ''bind'') (ns :: string list))) j = Inr j' \<Longrightarrow> R j j'"
    and set_ids: "modify_field ''linux'' (modify_field ''uidMappings'' (\<lambda>_. Inr (id_mapping i))) j = Inr j' \<Longrightarrow> R j j'"
      "modify_field ''linux'' (modify_field ''gidMappings'' (\<lambda>_. Inr (id_mapping i))) j = Inr j' \<Longrightarrow> R j j'"
begin

declare same [simp]

abbreviation keeps :: "gstep \<Rightarrow> bool" where
  "keeps \<equiv> maintains R"

lemma keepsI: "(\<And>s s'. f s = Inr s' \<Longrightarrow> R (g_content s) (g_content s')) \<Longrightarrow> keeps f"
  by (simp add: maintains_def)

lemma keepsD: "keeps f \<Longrightarrow> f s = Inr s' \<Longrightarrow> R (g_content s) (g_content s')"
  by (simp add: maintains_def)

lemma keeps_skip [keeping]: "keeps skip" "keeps Inr"
  by (simp_all add: maintains_def skip_def same)

lemma keeps_run_steps [keeping]: "list_all keeps fs \<Longrightarrow> keeps (run_steps fs)"
proof (induction fs)
  case Nil
  show ?case by (simp add: maintains_def)
next
  case (Cons f fs)
  then have f: "keeps f" and fs: "keeps (run_steps fs)" by simp_all
  show ?case
  proof (rule keepsI)
    fix s s' assume "run_steps (f # fs) s = Inr s'"
    then obtain t where "f s = Inr t" "run_steps fs t = Inr s'" by (auto simp: run_steps.simps split: sum.splits)
    then show "R (g_content s) (g_content s')"
      using keepsD [OF f] keepsD [OF fs] trans by blast
  qed
qed

lemma keeps_on_content: "(\<And>j j'. f j = Inr j' \<Longrightarrow> R j j') \<Longrightarrow> keeps (on_content f)"
  by (auto simp: maintains_def on_content_def map_sum_Inr)

lemma keeps_pushes [keeping]:
  "keeps (push_mount dest opts src typ)" "keeps (push_env e)" "keeps touch_mounts" "keeps touch_env"
  "keeps (on_content (modify_field ''mounts'' (insert_all (map (\<lambda>n. mount_json (f n) opts (f n) ''bind'') (ns :: string list)))))"
  unfolding push_mount_def push_env_def touch_mounts_def touch_env_def
  by (auto intro!: keeps_on_content intro: push_one touch_one insert_mounts)

lemma keeps_binds [keeping]: "keeps (private_tmpfs d)" "keeps (bind_opts d opts src)"
  by (simp_all add: private_tmpfs_def bind_opts_def keeps_pushes)

lemma keeps_if [keeping]:
  "keeps f \<Longrightarrow> keeps g \<Longrightarrow> keeps (\<lambda>s. if P s then f s else g s)"
  by (simp add: maintains_def)

lemma keeps_fail [keeping]: "keeps (\<lambda>s. Inl e)"
  by (simp add: maintains_def)

lemmas keeping_steps = keeps_pushes [THEN keepsD] keeps_binds [THEN keepsD]

lemma keeps_bindIfExist [keeping]: "keeps (bindIfExist ge src dest)"
  by (rule keepsI) (auto simp: bindIfExist_def dest: keeping_steps split: option.splits bool.splits)

lemma keeps_mountDir [keeping]: "keeps (mountDir ge h c)"
  by (rule keepsI) (auto simp: mountDir_def dest!: keeping_steps split: option.splits bool.splits if_splits)

lemma keeps_add_env [keeping]: "keeps (add_env k v)"
  by (rule keepsI) (auto simp: add_env_def dest: keeping_steps split: sum.splits bool.splits)

lemma keeps_guards [keeping]:
  "keeps f \<Longrightarrow> keeps (when_exists ge p f)" "keeps f \<Longrightarrow> keeps (if_exists ge p f)"
  "(\<And>d. keeps (g d)) \<Longrightarrow> keeps (with_annotation k g)" "(\<And>d. keeps (g d)) \<Longrightarrow> keeps (with_app_id g)"
  "(\<And>u. keeps (h u)) \<Longrightarrow> keeps (with_privileges ge p h)"
  by (auto simp: maintains_def when_exists_def if_exists_def with_annotation_def with_app_id_def with_privileges_def
      split: option.splits bool.splits)

lemma keeps_ite: "keeps f \<Longrightarrow> keeps g \<Longrightarrow> keeps (if P then f else g)"
  by simp

lemma keeps_cases:
  "keeps f \<Longrightarrow> (\<And>x. keeps (g x)) \<Longrightarrow> keeps (case z of None \<Rightarrow> f | Some x \<Rightarrow> g x)"
  by (simp split: option.split)

lemma keeps_make_dir [keeping]: "keeps (make_dir ge d)"
  by (rule keepsI) (auto simp: make_dir_def split: if_splits)

lemma keeps_at: "(\<And>s. \<exists>g. keeps g \<and> f s = g s) \<Longrightarrow> keeps f"
  unfolding maintains_def by metis

lemma keeps_xdg_dir [keeping]: "(\<And>h. keeps (rest h)) \<Longrightarrow> keeps (xdg_dir ge name h p c rest)"
  unfolding xdg_dir_def Let_def
  by (rule keeps_at, intro exI conjI, rule keeps_run_steps) (simp_all add: keeping)

lemma keeps_dirs [keeping]: "keeps (hide_dir ge h c p r)" "keeps (show_dir ge h c r)"
proof -
  show "keeps (hide_dir ge h c p r)"
    by (rule keepsI) (auto simp: hide_dir_def dest: keeps_mountDir [THEN keepsD] split: if_splits option.splits bool.splits)
  show "keeps (show_dir ge h c r)"
    by (rule keepsI) (auto simp: show_dir_def Let_def dest: keeps_mountDir [THEN keepsD] keeping_steps
        split: if_splits option.splits bool.splits file_kind.splits)
qed

lemma keeps_user_dirs [keeping]: "keeps (user_dirs ge h c p)"
  unfolding user_dirs_def by (intro keeps_guards keeps_run_steps) (simp add: list_all_iff image_iff keeping ball_Un)

lemma keeps_exists: "keeps f \<Longrightarrow> keeps (\<lambda>s. case fs_exists ge s p of None \<Rightarrow> Inl e | Some False \<Rightarrow> Inr s | Some True \<Rightarrow> f s)"
  by (auto simp: maintains_def split: option.splits bool.splits)

lemma keeps_config_mounts [keeping]: "keeps (config_mounts ge h c p x y)"
  unfolding config_mounts_def Let_def by (intro keeps_run_steps) (simp add: keeping keeps_exists)

lemma keeps_ro_mount [keeping]: "keeps (ro_mount ge m)"
  by (rule keepsI) (auto simp: ro_mount_def dest: keeping_steps split: option.splits bool.splits)

lemma keeps_system_bus [keeping]: "keeps (system_bus ge)"
proof (rule keepsI)
  fix s s' assume "system_bus ge s = Inr s'"
  then show "R (g_content s) (g_content s')"
    by (auto simp: system_bus_def Let_def intro!: keepsD [OF keeps_guards(1)] simp: keeping split: option.splits if_splits)
qed

lemma keeps_session_bus [keeping]: "keeps (session_bus ge r)"
  by (simp add: session_bus_def Let_def keeping split: option.split)

lemma keeps_option:
  "keeps f \<Longrightarrow> (\<And>x. keeps (g x)) \<Longrightarrow> keeps (\<lambda>s. case z of None \<Rightarrow> f s | Some x \<Rightarrow> g x s)"
  by (cases z) simp_all

lemma keeps_runtime_dir [keeping]: "keeps (runtime_dir ge)"
  unfolding runtime_dir_def [abs_def] Let_def
  by (intro keeps_option keeps_if keeps_skip(2) keeps_fail keeps_run_steps)
    (simp add: keeping split: option.split)

lemma keeps_xauthority [keeping]: "keeps (xauthority ge)"
  by (rule keepsI) (auto simp: xauthority_def Let_def split: option.splits if_splits
      dest!: keeps_run_steps [THEN keepsD, rotated] simp: keeping)

lemma keeps_link_mount [keeping]: "keeps (link_mount ge a)"
  by (rule keepsI) (auto simp: link_mount_def Let_def split: prod.splits if_splits dest: keeping_steps)

lemma keeps_browser_data [keeping]: "keeps (browser_data ge i)"
  by (rule keepsI) (auto simp: browser_data_def Let_def split: option.splits bool.splits if_splits
      dest!: keeps_run_steps [THEN keepsD, rotated] simp: keeping)

lemma keeps_device_mounts [keeping]: "keeps (device_mounts ge)"
  by (rule keepsI) (auto simp: device_mounts_def split: option.splits dest: keeping_steps)

lemma run_program_completes:
  assumes "run_program f input = Inr c'" "keeps f"
  shows "completes R input c'"
  using assms(1) keepsD [OF assms(2)]
  by (fastforce simp: run_program_def start_program_def get_string_def completes_def
      split: sum.splits option.splits if_splits Option.bind_splits jvalue.splits)

lemma id_mapping_completes: "gen_id_mapping ge input = Inr c' \<Longrightarrow> completes R input c'"
  unfolding gen_id_mapping_def
  by (erule run_program_completes, rule keeps_run_steps)
    (auto intro!: keeps_on_content intro: set_ids)

lemma initialize_completes: "gen_initialize input = Inr c' \<Longrightarrow> completes R input c'"
  unfolding gen_initialize_def by (erule run_program_completes, intro keeps_guards keeps_run_steps) (simp add: keeping)

lemma devices_completes: "gen_devices ge input = Inr c' \<Longrightarrow> completes R input c'"
  unfolding gen_devices_def by (erule run_program_completes, intro keeps_run_steps) (simp add: keeping keeps_exists)

lemma host_env_completes: "gen_host_env ge input = Inr c' \<Longrightarrow> completes R input c'"
proof -
  have "keeps (\<lambda>s. case app_id s of None \<Rightarrow> Inl Uncaught | Some i \<Rightarrow> push_env (''LINGLONG_APPID='' @ i) s)"
    by (rule keepsI) (auto split: option.splits dest: keeping_steps)
  then show "gen_host_env ge input = Inr c' \<Longrightarrow> completes R input c'"
    unfolding gen_host_env_def
    by (elim run_program_completes, intro keeps_run_steps) (simp add: keeping list.pred_map list_all_iff)
qed

lemma legacy_completes: "gen_legacy ge input = Inr c' \<Longrightarrow> completes R input c'"
  unfolding gen_legacy_def
  by (erule run_program_completes, intro keeps_run_steps) (simp add: keeping list.pred_map list_all_iff)

lemma keeps_let: "(\<And>x. keeps (f x)) \<Longrightarrow> keeps (\<lambda>s. let x = t in f x s)"
  by (simp add: Let_def)

lemma keeps_home_rest: "list_all keeps (home_rest ge h c p)"
  by (simp add: home_rest_def keeping)

lemma user_home_completes: "gen_user_home ge input = Inr c' \<Longrightarrow> completes R input c'"
  unfolding gen_user_home_def
  by (erule run_program_completes, intro keeps_guards keeps_run_steps,
      cases "ge_getenv ge ''HOME''"; cases "ge_getenv ge ''USER''")
    (auto intro!: keepsI dest!: keeps_run_steps [THEN keepsD, rotated]
      simp: keeping Let_def keeps_home_rest split: option.splits bool.splits)

lemma host_ipc_completes: "gen_host_ipc ge input = Inr c' \<Longrightarrow> completes R input c'"
  unfolding gen_host_ipc_def
  by (erule run_program_completes, intro keeps_run_steps, cases "localtime_target ge") (simp_all add: keeping)

lemma programs:
  "g \<in> set (generators ge) \<Longrightarrow> g input = Inr c' \<Longrightarrow> completes R input c'"
  unfolding generators_def
  by (auto intro: id_mapping_completes initialize_completes devices_completes host_env_completes user_home_completes
      host_ipc_completes legacy_completes)

end

interpretation adding: document_relation adds
  by unfold_locales
    (auto elim!: adds_trans adds_mounts adds_env adds_id_mapping dest: push_back_prefix insert_all_prefix)

section \<open>The home directory\<close>

text \<open>A step that runs in the course of a longer one, which adds around it only.\<close>

definition within :: "gstep \<Rightarrow> gstate \<Rightarrow> gstate \<Rightarrow> bool" where
  "within f s s' \<longleftrightarrow> (\<exists>t u. adds (g_content s) (g_content t) \<and> f t = Inr u \<and> adds (g_content u) (g_content s'))"

definition mounts_of :: "gstate \<Rightarrow> jvalue list" where
  "mounts_of s = elems (json_at ''mounts'' (g_content s))"

lemma within_mem:
  assumes "run_steps fs s = Inr s'" "f \<in> set fs" "list_all (maintains adds) fs"
  shows "within f s s'"
  using assms
proof (induction fs arbitrary: s)
  case (Cons g fs)
  then obtain t where t: "g s = Inr t" "run_steps fs t = Inr s'" by (auto simp: run_steps.simps split: sum.splits)
  have st: "adds (g_content s) (g_content t)" "adds (g_content t) (g_content s')"
    using t Cons.prems(3) adding.keeps_run_steps by (auto dest: adding.keepsD)
  show ?case
  proof (cases "f = g")
    case True
    then show ?thesis using t st adds_refl unfolding within_def by blast
  next
    case False
    then have "within f t s'" using Cons t by simp
    then show ?thesis using st adds_trans unfolding within_def by blast
  qed
qed simp

lemma within_trans: "within f s s' \<Longrightarrow> (\<And>t u. f t = Inr u \<Longrightarrow> within g t u) \<Longrightarrow> within g s s'"
  unfolding within_def by (meson adds_trans)

lemma adds_mounts_of: "adds (g_content s) (g_content s') \<Longrightarrow> \<exists>ms. mounts_of s' = mounts_of s @ ms"
  by (auto simp: adds_def mounts_of_def prefix_def)

lemma bind_opts_mounts:
  assumes "bind_opts d opts src s = Inr s'"
  shows "mounts_of s' = mounts_of s @ [mount_json d opts src ''bind'']"
proof -
  from assms obtain j where j: "modify_field ''mounts'' (push_back (mount_json d opts src ''bind'')) (g_content s) = Inr j"
    "s' = s\<lparr>g_content := j\<rparr>"
    by (auto simp: bind_opts_def push_mount_def on_content_def map_sum_Inr)
  from j(1) show ?thesis
    by (rule modify_field_at)
      (auto simp: mounts_of_def j(2) push_back_def elems_def split: jvalue.splits option.splits)
qed

lemma mountDir_mounts:
  "mountDir ge h c s = Inr s' \<Longrightarrow> mounts_of s' = mounts_of s @ [mount_json c [''rbind''] h ''bind'']"
  by (auto simp: mountDir_def mounts_of_def dest!: bind_opts_mounts [unfolded mounts_of_def]
      split: option.splits bool.splits if_splits)

lemma hide_dir_mounts:
  assumes "hide_dir ge h c p d s = Inr s'" "ge_exists ge (path_div h d) = Some True"
  shows "mounts_of s' = mounts_of s @ [mount_json (path_div c d) [''rbind''] (path_div p d) ''bind'']"
  using assms by (auto simp: hide_dir_def fs_exists_def dest: mountDir_mounts split: if_splits option.splits bool.splits)

lemma set_sort_unique [simp]: "set (sort_unique xs) = set xs"
  by (simp add: sort_unique_def)

lemma with_privileges_runs: "with_privileges ge p f s = Inr s' \<Longrightarrow> \<exists>u. f u s = Inr s'"
  by (auto simp: with_privileges_def split: option.splits bool.splits)

lemma user_dirs_hide:
  assumes "user_dirs ge h c p s = Inr s'" "d \<in> set blackList"
  shows "within (hide_dir ge h c p d) s s'"
  using with_privileges_runs [OF assms(1) [unfolded user_dirs_def]]
  by (elim exE within_mem) (use assms(2) in \<open>auto simp: list_all_iff adding.keeps_dirs\<close>)

lemma config_mounts_dirs: "config_mounts ge h c p x y s = Inr s' \<Longrightarrow> within (user_dirs ge h c p) s s'"
  unfolding config_mounts_def Let_def by (erule within_mem) (simp_all add: keeping adding.keeps_exists)

lemma xdg_dir_within:
  assumes "xdg_dir ge name h p c rest s = Inr s'" "\<And>h. maintains adds (rest h)"
    and "\<And>h t u. rest h t = Inr u \<Longrightarrow> within g t u"
  shows "within g s s'"
proof -
  have "within (rest (private_or ge p (xdg_host ge name h) s)) s s'"
    using assms(1) unfolding xdg_dir_def Let_def by (rule within_mem) (simp_all add: keeping assms(2))
  then show ?thesis by (rule within_trans) (rule assms(3))
qed

lemma home_rest_hides:
  assumes "run_steps (home_rest ge h c p) s = Inr s'" "d \<in> set blackList"
  shows "within (hide_dir ge h c p d) s s'"
proof -
  have "within (last (home_rest ge h c p)) s s'"
    using assms(1) by (rule within_mem) (simp_all add: adding.keeps_home_rest, simp add: home_rest_def)
  then show ?thesis
  proof (rule within_trans)
    fix t u assume "last (home_rest ge h c p) t = Inr u"
    then show "within (hide_dir ge h c p d) t u"
      by (auto simp: home_rest_def keeping elim!: xdg_dir_within within_trans [OF config_mounts_dirs] user_dirs_hide [OF _ assms(2)])
  qed
qed

lemma run_program_runs:
  assumes "run_program f (Some c) = Inr c'"
  obtains s s' where "g_content s = c" "f s = Inr s'" "g_content s' = c'"
proof -
  have "g_content s = c" if "start_program (Some c) = Inr s" for s
    using that by (auto simp: start_program_def split: option.splits if_splits)
  then show thesis using assms that by (auto simp: run_program_def split: sum.splits)
qed

lemma gen_user_home_runs:
  assumes "gen_user_home ge (Some c) = Inr c'" "ge_getenv ge ''HOME'' = Some h" "ge_getenv ge ''USER'' = Some u"
    and "field ''annotations'' ''org.deepin.linglong.appID'' c = Some (JString i)"
  obtains s s' where "g_content s' = c'"
    "run_steps ([private_tmpfs ''/home'', mountDir ge h (path_div ''/home'' u)] @
       home_rest ge h (path_div ''/home'' u) (path_div (path_div h ''.linglong'') i)) s = Inr s'"
  using assms(1) unfolding gen_user_home_def
proof (rule run_program_runs)
  fix s s' assume c: "g_content s = c" "g_content s' = c'"
    and run: "with_app_id (\<lambda>appID. run_steps
     [touch_mounts, touch_env,
      (\<lambda>s. case (ge_getenv ge ''HOME'', ge_getenv ge ''USER'') of
        (Some hostHome, Some user) \<Rightarrow>
         (let containerHome = path_div ''/home'' user; privateDir = path_div (path_div hostHome ''.linglong'') appID in
          case fs_exists ge s hostHome of
            None \<Rightarrow> Inl Uncaught
          | Some False \<Rightarrow> Inl ExitFailure
          | Some True \<Rightarrow>
              run_steps ([private_tmpfs ''/home'', mountDir ge hostHome containerHome] @
                home_rest ge hostHome containerHome privateDir) s)
      | _ \<Rightarrow> Inl ExitFailure)]) s = Inr s'"
  have "app_id s = Some i"
    using assms(4) c(1) by (simp add: app_id_def annotation_def field_def get_string_def)
  then show thesis
    using run c(2) that [of s'] assms(2,3)
    by (auto simp: with_app_id_def run_steps.simps(2) [of _ "[_]"] run_steps.simps(2) [of _ "[_, _]"] run_steps.simps(1)
       run_steps.simps(2) [of _ "[]"] Let_def split: sum.splits option.splits bool.splits)
qed

text \<open>
  C10: When 30-user-home succeeds, every directory of the block list (\<open>.gnupg\<close>, \<open>.ssh\<close>) that the user has on the host is
  hidden: the configuration mounts the home directory into the container, and after that it mounts the application's private
  directory over the blocked one.
\<close>

theorem blocked_directories_hidden:
  assumes "gen_user_home ge (Some c) = Inr c'"
    and "ge_getenv ge ''HOME'' = Some home" "ge_getenv ge ''USER'' = Some user"
    and "field ''annotations'' ''org.deepin.linglong.appID'' c = Some (JString appID)"
    and "d \<in> set blackList" "ge_exists ge (path_div home d) = Some True"
  shows "\<exists>before between after. elems (json_at ''mounts'' c') =
     before @ [mount_json (path_div ''/home'' user) [''rbind''] home ''bind''] @ between @
     [mount_json (path_div (path_div ''/home'' user) d) [''rbind'']
        (path_div (path_div (path_div home ''.linglong'') appID) d) ''bind''] @ after"
proof -
  let ?c = "path_div ''/home'' user" and ?p = "path_div (path_div home ''.linglong'') appID"
  from gen_user_home_runs [OF assms(1-4)] obtain s s' where s': "g_content s' = c'"
    and run: "run_steps ([private_tmpfs ''/home'', mountDir ge home ?c] @ home_rest ge home ?c ?p) s = Inr s'" .
  from run obtain t u where t: "mountDir ge home ?c t = Inr u" and u: "run_steps (home_rest ge home ?c ?p) u = Inr s'"
    by (auto simp: run_steps.simps(2) split: sum.splits)
  from home_rest_hides [OF u assms(5)] obtain v w where v: "adds (g_content u) (g_content v)"
    "hide_dir ge home ?c ?p d v = Inr w" "adds (g_content w) (g_content s')"
    by (auto simp: within_def)
  from mountDir_mounts [OF t] adds_mounts_of [OF v(1)] hide_dir_mounts [OF v(2) assms(6)] adds_mounts_of [OF v(3)]
  show ?thesis using s' by (fastforce simp: mounts_of_def)
qed

definition demo_doc :: jvalue where
  "demo_doc = JObject
     [(''annotations'', JObject [(''org.deepin.linglong.appID'', JString ''org.demo'')]),
      (''mounts'', JArray [mount_json ''/proc'' [] ''proc'' ''proc'']), (''ociVersion'', JString ''1.0.1''),
      (''process'', JObject [(''env'', JArray [JString ''A=1''])])]"

definition demo_env :: "user_directories option \<Rightarrow> gen_env" where
  "demo_env dirs =
     \<lparr>ge_getenv = (\<lambda>v. map_of [(''HOME'', ''/home/u''), (''USER'', ''u'')] v), ge_environ = [''LANG=C''], ge_uid = 1000, ge_gid = 1000,
      ge_exists = (\<lambda>p. Some (p \<in> set [''/home/u'', ''/home/u/.ssh'', ''/home/u/./.ssh'', ''/etc/machine-id''] \<or>
        dirs \<noteq> None \<and> p = ''/home/u/.linglong/org.demo/permissions.json'')),
      ge_mkdirs = (\<lambda>_. True), ge_lstat = (\<lambda>_. OtherKind), ge_realpath = (\<lambda>_. None), ge_devices = Some [''video0'', ''null''],
      ge_privileges = (\<lambda>_. dirs), ge_perms = (\<lambda>_. None), ge_owner = (\<lambda>_. None), ge_cwd = ''/b'', ge_symlink = (\<lambda>_ _. True)\<rparr>"

definition demo_result :: "user_directories option \<Rightarrow> jvalue" where
  "demo_result dirs = (case gen_user_home (demo_env dirs) (Some demo_doc) of Inl _ \<Rightarrow> JNull | Inr c \<Rightarrow> c)"

text \<open>
  C9: Every program that completes the container configuration only runs on a document with \<open>ociVersion\<close> 1.0.1, and all
  it changes are the mounts, the environment of the process and the two id mappings; the mounts and variables that
  were there remain, in their order, and new ones come after them.
\<close>

theorem generators_only_add:
  assumes "g \<in> set (generators ge)" "g input = Inr c'"
  shows "\<exists>c. input = Some c \<and> json_at ''ociVersion'' c = Some (JString ''1.0.1'') \<and>
    (\<forall>k. k \<in> {''mounts'', ''process'', ''linux''} \<or> json_at k c' = json_at k c) \<and>
    (\<forall>l. l = ''env'' \<or> field ''process'' l c' = field ''process'' l c) \<and>
    (\<forall>l. l \<in> {''uidMappings'', ''gidMappings''} \<or> field ''linux'' l c' = field ''linux'' l c) \<and>
    prefix (elems (json_at ''mounts'' c)) (elems (json_at ''mounts'' c')) \<and>
    prefix (elems (field ''process'' ''env'' c)) (elems (field ''process'' ''env'' c'))"
  using adding.programs [OF assms] unfolding completes_def adds_def by (simp only: disj_imp simp_thms)

theorem generators_only_add_witness:
  "prefix (elems (json_at ''mounts'' demo_doc)) (elems (json_at ''mounts'' (demo_result None)))"
proof -
  have "gen_user_home (demo_env None) (Some demo_doc) = Inr (demo_result None)" by code_simp
  then show ?thesis
    using generators_only_add [of "gen_user_home (demo_env None)" "demo_env None" "Some demo_doc" "demo_result None"]
    by (simp add: generators_def)
qed

theorem blocked_directories_hidden_witness:
  "\<exists>before between after. elems (json_at ''mounts'' (demo_result None)) =
     before @ [mount_json ''/home/u'' [''rbind''] ''/home/u'' ''bind''] @ between @
     [mount_json ''/home/u/.ssh'' [''rbind''] ''/home/u/.linglong/org.demo/.ssh'' ''bind''] @ after"
proof -
  have "gen_user_home (demo_env None) (Some demo_doc) = Inr (demo_result None)" by code_simp
  moreover have "ge_getenv (demo_env None) ''HOME'' = Some ''/home/u''" "ge_getenv (demo_env None) ''USER'' = Some ''u''"
    "field ''annotations'' ''org.deepin.linglong.appID'' demo_doc = Some (JString ''org.demo'')"
    "''.ssh'' \<in> set blackList" "ge_exists (demo_env None) (path_div ''/home/u'' ''.ssh'') = Some True"
    by code_simp+
  ultimately show ?thesis
    using blocked_directories_hidden [of "demo_env None" demo_doc "demo_result None" "''/home/u''" "''u''" "''org.demo''" "''.ssh''"]
    by (simp add: path_div_def)
qed

text \<open>The block list is compared as a string, so a permission for \<open>./.ssh\<close> shows the directory again.\<close>

lemma blocklist_bypassed:
  "last (elems (json_at ''mounts'' (demo_result (Some \<lparr>ud_allowed = Some [''./.ssh''], ud_disallowed = None\<rparr>)))) =
     mount_json ''/home/u/./.ssh'' [''rbind''] ''/home/u/./.ssh'' ''bind''"
  by code_simp

section \<open>Well-formed documents\<close>

text \<open>The keys of an object are sorted and distinct, at every level: what \<open>std::map\<close> guarantees.\<close>

fun wf_json :: "jvalue \<Rightarrow> bool" where
  "wf_json (JArray xs) = (\<forall>x \<in> set xs. wf_json x)"
| "wf_json (JObject kvs) = (sorted_wrt (<) (map fst kvs) \<and> (\<forall>p \<in> set kvs. wf_json (snd p)))"
| "wf_json _ = True"

lemma wf_modify_field:
  assumes "modify_field k f j = Inr j'" "wf_json j" "\<And>v v'. f v = Inr v' \<Longrightarrow> wf_json v \<Longrightarrow> wf_json v'"
  shows "wf_json j'"
proof (cases j)
  case JNull
  then show ?thesis using assms by (auto simp: modify_field_def map_sum_Inr)
next
  case (JObject kvs)
  let ?v = "case map_of kvs k of None \<Rightarrow> JNull | Some v \<Rightarrow> v"
  from JObject assms(1) obtain v where v: "f ?v = Inr v" "j' = JObject (put k v kvs)"
    by (auto simp: modify_field_def map_sum_Inr)
  have "wf_json ?v" using JObject assms(2) by (auto split: option.split dest!: map_of_SomeD)
  then have "wf_json v" using assms(3) v(1) by blast
  then show ?thesis using JObject assms(2) v(2) by (auto simp: sorted_put dest!: set_put)
qed (use assms(1) in \<open>auto simp: modify_field_def\<close>)

lemma wf_changes:
  "push_back v j = Inr j' \<Longrightarrow> wf_json v \<Longrightarrow> wf_json j \<Longrightarrow> wf_json j'"
  "insert_all vs j = Inr j' \<Longrightarrow> \<forall>v \<in> set vs. wf_json v \<Longrightarrow> wf_json j \<Longrightarrow> wf_json j'"
  by (cases j; auto simp: push_back_def insert_all_def)+

lemma wf_values [simp]: "wf_json (mount_json d opts src typ)" "wf_json (id_mapping i)"
  by (auto simp: mount_json_def id_mapping_def)

interpretation forming: document_relation "\<lambda>j j'. wf_json j \<longrightarrow> wf_json j'"
  by unfold_locales (auto elim!: wf_modify_field intro: wf_modify_field wf_changes(1) elim!: wf_changes(2))


end
