(* ===== verification/Container_Run.thy ===== *)
theory Container_Run
  imports Oci_Config Reference "HOL-Library.Sublist"
begin

text \<open>
  Starting a container, \<open>libs/linglong/src/linglong/runtime/container.cpp\<close>: \<open>Container::run\<close> completes the
  process of the configuration, writes the bundle and calls the OCI runtime. The file system, the identity of the
  user and the runtime are the record \<open>run_env\<close>. The result has the configuration and the files as they
  were written, and what became of the bundle directory. \<open>None\<close> is the dereference of missing mounts.
\<close>

section \<open>Data\<close>

record oci_process =
  pr_args :: "string list option"
  pr_env :: "string list option"
  pr_cwd :: string
  pr_user :: "(nat \<times> nat) option"
  pr_terminal :: "bool option"

record container =
  ct_id :: string
  ct_appID :: string
  ct_process :: "oci_process option"
  ct_mounts :: "mount list option"

record run_env =
  re_runtimeDir :: string
  re_mkRootfs :: bool
  re_debug :: bool
  re_archive :: bool
  re_removeBundle :: bool
  re_currentPath :: string
  re_uid :: nat
  re_gid :: nat
  re_isatty :: bool
  re_interpreter :: string
  re_openLdConf :: bool
  re_openConfig :: bool
  re_cliRun :: "string \<Rightarrow> string list \<Rightarrow> string option"

text \<open>What the guard at the end of \<open>run\<close> does with the bundle directory.\<close>

datatype bundle_fate = NotMade | Archived | Removed | LeftBehind

record run_outcome =
  ro_container :: container
  ro_ldConf :: "string list option"
  ro_started :: bool
  ro_bundle :: bundle_fate

section \<open>Operations\<close>

definition quote_arg :: "string \<Rightarrow> string" where
  "quote_arg a = [CHR 0x27] @ escape_quotes a @ [CHR 0x27]"

definition bash_args :: "string list \<Rightarrow> string list" where
  "bash_args args = [''/bin/bash'', ''--login'', ''-e'', ''-c'', join_with (CHR '' '') (map quote_arg args @ [''; wait''])]"

text \<open>The user's variables are appended unless a variable that is there starts with their name.\<close>

definition env_key :: "string \<Rightarrow> string" where
  "env_key e = takeWhile (\<lambda>c. c \<noteq> CHR ''='') e"

fun merge_env :: "string list \<Rightarrow> string list \<Rightarrow> string list" where
  "merge_env originEnvs [] = originEnvs"
| "merge_env originEnvs (e # es) =
     (if list_ex (\<lambda>o'. starts_with o' (env_key e)) originEnvs then merge_env originEnvs es
      else merge_env (originEnvs @ [e]) es)"

definition complete_process :: "run_env \<Rightarrow> string list \<Rightarrow> oci_process \<Rightarrow> oci_process" where
  "complete_process env originEnvs process =
     process\<lparr>pr_cwd := (if pr_cwd process = [] then ''/run/host/rootfs'' @ re_currentPath env else pr_cwd process),
       pr_user := Some (re_uid env, re_gid env),
       pr_terminal := (if re_isatty env then Some True else pr_terminal process),
       pr_args := map_option bash_args (pr_args process),
       pr_env := Some (merge_env originEnvs (case pr_env process of None \<Rightarrow> [] | Some es \<Rightarrow> es))\<rparr>"

definition ld_conf :: "string \<Rightarrow> architecture \<Rightarrow> string list" where
  "ld_conf appID arch =
     [''/runtime/lib'', ''/runtime/lib/'' @ getTriplet arch, ''/opt/apps/'' @ appID @ ''/files/lib'',
      ''/opt/apps/'' @ appID @ ''/files/lib/'' @ getTriplet arch]"

definition ld_conf_mount :: "string \<Rightarrow> mount" where
  "ld_conf_mount bundle =
     \<lparr>mnt_destination = ''/etc/ld.so.conf.d/zz_deepin-linglong-app.conf'', mnt_options = [''ro'', ''rbind''],
      mnt_source = bundle @ ''/zz_deepin-linglong-app.ld.so.conf'', mnt_type = ''bind''\<rparr>"

definition clean_bundle :: "run_env \<Rightarrow> bundle_fate" where
  "clean_bundle env =
     (if re_debug env \<and> re_archive env then Archived else if re_removeBundle env then Removed else LeftBehind)"

definition Container_run :: "run_env \<Rightarrow> oci_process \<Rightarrow> container \<Rightarrow> (unit result \<times> run_outcome) option" where
  "Container_run env process c =
     (let trace = ''run container '' @ ct_id c; bundle = re_runtimeDir env @ ''/linglong/'' @ ct_id c;
          left = (\<lambda>c' conf started. \<lparr>ro_container = c', ro_ldConf = conf, ro_started = started, ro_bundle = clean_bundle env\<rparr>) in
      if \<not> re_mkRootfs env
      then Some (Inl (Err trace ''make rootfs directory'' (-1)),
             \<lparr>ro_container = c, ro_ldConf = None, ro_started = False, ro_bundle = NotMade\<rparr>)
      else case ct_process c of
        None \<Rightarrow> Some (Inl (Err trace ''process is not set'' (-1)), left c None False)
      | Some p \<Rightarrow> (case pr_env p of
        None \<Rightarrow> Some (Inl (Err trace ''process.env is not set'' (-1)), left c None False)
      | Some originEnvs \<Rightarrow>
         (let c1 = c\<lparr>ct_process := Some (complete_process env originEnvs process)\<rparr> in
          case currentCPUArchitecture (re_interpreter env) of
            Inl e \<Rightarrow> Some (Inl (Err_wrap trace e), left c1 None False)
          | Inr arch \<Rightarrow>
             (if \<not> re_openLdConf env
              then Some (Inl (Err trace ''create ld config in bundle directory'' (-1)), left c1 None False)
              else let conf = ld_conf (ct_appID c) arch in
              case ct_mounts c of
                None \<Rightarrow> None
              | Some ms \<Rightarrow>
                 (let c2 = c1\<lparr>ct_mounts := Some (ms @ [ld_conf_mount bundle])\<rparr> in
                  if \<not> re_openConfig env
                  then Some (Inl (Err trace ''create config.json in bundle directory'' (-1)), left c2 (Some conf) False)
                  else case re_cliRun env (ct_id c) [bundle, ''--cgroup-manager=disabled''] of
                    Some e \<Rightarrow> Some (Inl (Err trace (''cli run: '' @ e) (-1)), left c2 (Some conf) True)
                  | None \<Rightarrow> Some (Inr (), left c2 (Some conf) True))))))"

section \<open>How a shell reads a command\<close>

text \<open>
  The words of a command line: single quotes, the backslash outside quotes, blanks and semicolons between words.
  \<open>None\<close> is an open quote or a backslash at the end.
\<close>

datatype sh_token = Word string | Semicolon

definition flush :: "string option \<Rightarrow> sh_token list" where
  "flush w = (case w of None \<Rightarrow> [] | Some v \<Rightarrow> [Word v])"

definition grow :: "string option \<Rightarrow> string \<Rightarrow> string option" where
  "grow w v = Some ((case w of None \<Rightarrow> [] | Some u \<Rightarrow> u) @ v)"

fun sh_lex :: "string option \<Rightarrow> bool \<Rightarrow> string \<Rightarrow> sh_token list option" where
  "sh_lex w True [] = None"
| "sh_lex w False [] = Some (flush w)"
| "sh_lex w True (c # cs) = (if c = CHR 0x27 then sh_lex w False cs else sh_lex (grow w [c]) True cs)"
| "sh_lex w False (c # cs) =
     (if c = CHR 0x27 then sh_lex (grow w []) True cs
      else if c = CHR 0x5C then (case cs of [] \<Rightarrow> None | d # ds \<Rightarrow> sh_lex (grow w [d]) False ds)
      else if c = CHR '' '' then map_option (\<lambda>ts. flush w @ ts) (sh_lex None False cs)
      else if c = CHR '';'' then map_option (\<lambda>ts. flush w @ [Semicolon] @ ts) (sh_lex None False cs)
      else sh_lex (grow w [c]) False cs)"

section \<open>Lemmas\<close>

lemma grow_grow [simp]: "grow (grow w u) v = grow w (u @ v)"
  by (simp add: grow_def)

lemma sh_lex_escaped: "sh_lex (grow w u) True (escape_quotes a @ cs) = sh_lex (grow w (u @ a)) True cs"
  by (induction a arbitrary: u) auto

lemma sh_lex_quoted: "sh_lex None False (quote_arg a @ cs) = sh_lex (Some a) False cs"
  using sh_lex_escaped [of None "[]" a "CHR 0x27 # cs"] by (simp add: quote_arg_def grow_def)

lemma sh_lex_args:
  "sh_lex None False (join_with (CHR '' '') (map quote_arg args @ [''; wait''])) = Some (map Word args @ [Semicolon, Word ''wait''])"
proof (induction args)
  case Nil
  show ?case by (simp add: flush_def grow_def)
next
  case (Cons a args)
  have "join_with (CHR '' '') (map quote_arg (a # args) @ [''; wait'']) =
      quote_arg a @ '' '' @ join_with (CHR '' '') (map quote_arg args @ [''; wait''])"
    by (cases args) simp_all
  then show ?case using Cons.IH by (simp add: sh_lex_quoted flush_def)
qed

lemma merge_env_prefix: "\<exists>es'. merge_env o' es = o' @ es' \<and> set es' \<subseteq> set es"
proof (induction es arbitrary: o')
  case (Cons e es)
  from Cons.IH [of o'] Cons.IH [of "o' @ [e]"] show ?case by fastforce
qed simp

lemma merge_env_new:
  assumes "e \<in> set es" "\<forall>x \<in> set o' \<union> set es. x = e \<or> \<not> starts_with x (env_key e)"
  shows "e \<in> set (merge_env o' es)"
  using assms
proof (induction es arbitrary: o')
  case (Cons d es)
  show ?case
  proof (cases "e \<in> set o'")
    case True
    then show ?thesis using merge_env_prefix [of o' "d # es"] by auto
  next
    case False
    then have new: "\<not> list_ex (\<lambda>x. starts_with x (env_key e)) o'" using Cons.prems(2) by (auto simp: list_ex_iff)
    show ?thesis
    proof (cases "d = e")
      case True
      then show ?thesis using new merge_env_prefix [of "o' @ [e]" es] by auto
    next
      case False
      then have "e \<in> set es" using Cons.prems(1) by simp
      then show ?thesis using Cons by simp
    qed
  qed
qed simp

lemma Container_run_started:
  assumes "Container_run env process c = Some (r, out)" "ro_started out"
  shows "ct_appID (ro_container out) = ct_appID c \<and>
    (\<exists>q. ct_process (ro_container out) = Some q \<and> pr_args q = map_option bash_args (pr_args process))"
  using assms by (auto simp: Container_run_def Let_def complete_process_def split: if_splits option.splits sum.splits)

section \<open>Properties\<close>

text \<open>
  The command of a container is quoted correctly: whatever characters the arguments have, the shell that
  runs in the container reads exactly the given arguments as words, followed by the command \<open>wait\<close>.
\<close>

theorem bash_args_roundtrip:
  "\<exists>cmd. bash_args args = [''/bin/bash'', ''--login'', ''-e'', ''-c'', cmd] \<and>
     sh_lex None False cmd = Some (map Word args @ [Semicolon, Word ''wait''])"
  by (simp add: bash_args_def sh_lex_args)


definition demo_run_env :: run_env where
  "demo_run_env = \<lparr>re_runtimeDir = ''/run/user/1000'', re_mkRootfs = True, re_debug = False, re_archive = False,
     re_removeBundle = True, re_currentPath = ''/home/u'', re_uid = 1000, re_gid = 1000, re_isatty = False,
     re_interpreter = ''/lib64/ld-linux-x86-64.so.2'', re_openLdConf = True, re_openConfig = True, re_cliRun = (\<lambda>_ _. None)\<rparr>"

definition demo_process :: "string list \<Rightarrow> oci_process" where
  "demo_process es = \<lparr>pr_args = Some [''sh''], pr_env = Some es, pr_cwd = [], pr_user = None, pr_terminal = None\<rparr>"

definition demo_container :: container where
  "demo_container = \<lparr>ct_id = ''c1'', ct_appID = ''org.demo'', ct_process = Some (demo_process [''HOME=/home/u'']), ct_mounts = Some []\<rparr>"

definition demo_run :: "string list \<Rightarrow> unit result \<times> run_outcome" where
  "demo_run es = the (Container_run demo_run_env (demo_process es) demo_container)"


text \<open>
  A variable of the caller is kept when no other variable starts with its name; one whose name is only the beginning
  of the name of another is dropped, which the comparison does not mean to do.
\<close>

lemma caller_env_kept:
  assumes "e \<in> set es" "\<forall>x \<in> set origin \<union> set es. x = e \<or> \<not> starts_with x (env_key e)"
  shows "e \<in> set (merge_env origin es)"
  using merge_env_new [OF assms] .

lemma env_name_prefix_dropped: "merge_env [''HOME=/home/u''] [''HO=1'', ''A=1''] = [''HOME=/home/u'', ''A=1'']"
  by (simp add: env_key_def)

end
