(* ===== verification/Cli_Task.thy ===== *)
theory Cli_Task
  imports Package_Requests
begin

text \<open>
  The command line client, \<open>libs/linglong/src/linglong/cli/cli.cpp\<close>: its options and state, what it prints, and how
  it follows a task of the package manager until the task is removed. The package manager is reached over D-Bus: a call
  either fails or brings a reply that may not have the expected form. Signals arrive while the client waits in its
  event loop; the model of the loop takes the list of the signals that are delivered.
\<close>

section \<open>State and outputs\<close>

record cli_options =
  op_filePaths :: "string list"
  op_fileUrls :: "string list"
  op_workDir :: string
  op_appid :: string
  op_instance :: string
  op_module :: string
  op_type :: string
  op_repoName :: string
  op_repoUrl :: string
  op_commands :: "string list"
  op_showDevel :: bool
  op_showUpgradeList :: bool
  op_forceOpt :: bool
  op_confirmOpt :: bool

record cli_container =
  cc_id :: string
  cc_package :: string
  cc_pid :: int

record upgrade_item =
  ug_id :: string
  ug_newVersion :: string
  ug_oldVersion :: string

datatype cli_output =
    PrintErr error
  | PrintReply int string
  | Notify string
  | PrintPackages "package_info_v2 list"
  | PrintUpgradeList "upgrade_item list"
  | PrintPackage package_info_v2
  | PrintLayerInfo string
  | PrintContent "string list"
  | PrintRepoConfig repo_config
  | PrintPruneResult "package_info_v2 list"
  | PrintContainers "cli_container list"
  | PrintTaskState rat string int int

text \<open>
  \<open>lastState\<close> and \<open>lastSubState\<close> are integers cast to the enumerations; the codes are the positions in these.
  \<open>cl_task\<close>: the pointer \<open>task\<close> is not null; \<open>cl_replies\<close>: the calls of \<open>ReplyInteraction\<close>.
\<close>

record cli_state =
  cl_options :: cli_options
  cl_out :: "cli_output list"
  cl_taskPath :: string
  cl_task :: bool
  cl_lastState :: int
  cl_lastSubState :: int
  cl_lastMessage :: string
  cl_lastPercentage :: rat
  cl_replies :: "(string \<times> string) list"
  cl_cancels :: nat

definition state_code :: "task_state \<Rightarrow> int" where
  "state_code s = (case s of Canceled \<Rightarrow> 0 | task_state.Failed \<Rightarrow> 1 | PartCompleted \<Rightarrow> 2 | Pending \<Rightarrow> 3 | Processing \<Rightarrow> 4
     | Queued \<Rightarrow> 5 | Succeed \<Rightarrow> 6 | UnknownState \<Rightarrow> 7)"

definition sub_state_code :: "sub_state \<Rightarrow> int" where
  "sub_state_code s = (case s of AllDone \<Rightarrow> 0 | InstallApplication \<Rightarrow> 1 | InstallBase \<Rightarrow> 2 | InstallRuntime \<Rightarrow> 3
     | PackageManagerDone \<Rightarrow> 4 | PostAction \<Rightarrow> 5 | PreAction \<Rightarrow> 6 | Uninstall \<Rightarrow> 7 | UnknownSubState \<Rightarrow> 8)"

definition message_code :: "interaction_type \<Rightarrow> int" where
  "message_code m = (case m of MDowngrade \<Rightarrow> 0 | MInstall \<Rightarrow> 1 | MUninstall \<Rightarrow> 2 | MUnknown \<Rightarrow> 3 | MUpgrade \<Rightarrow> 4)"

definition new_cli :: "cli_options \<Rightarrow> cli_state" where
  "new_cli opts = \<lparr>cl_options = opts, cl_out = [], cl_taskPath = [], cl_task = False,
     cl_lastState = state_code UnknownState, cl_lastSubState = sub_state_code UnknownSubState,
     cl_lastMessage = [], cl_lastPercentage = 0, cl_replies = [], cl_cancels = 0\<rparr>"

definition emit :: "cli_output \<Rightarrow> cli_state \<Rightarrow> cli_state" where
  "emit x st = st\<lparr>cl_out := cl_out st @ [x]\<rparr>"

text \<open>How a command ends: an exit code, the process replaced by \<open>pkexec\<close>, aborted, or still in the event loop.\<close>

datatype cli_result = Exited int | Replaced "string list" | Aborted | StillWaiting

datatype 'a dbus = Replied 'a | AccessDenied | DbusFailed int string

record task_result =
  tr_path :: "string option"
  tr_code :: int
  tr_message :: string
  tr_type :: string

section \<open>Signals\<close>

text \<open>The value of a changed property, by what the conversions of \<open>QVariant\<close> return for it.\<close>

record prop_value =
  pv_int :: "int option"
  pv_double :: "rat option"
  pv_string :: "string option"

text \<open>
  An interaction comes with the additional message, or the error of reading it, and with the answer of the notifier (none when
  the request failed) and the outcome of sending the reply.
\<close>

datatype cli_event =
    TaskAdd string
  | TaskRemoved string int int string rat
  | PropertiesChanged string string "(string \<times> prop_value) list"
  | RequestInteraction string int "(string \<times> string) result" "string option option" "unit dbus"

definition task_interface :: string where
  "task_interface = ''org.deepin.linglong.Task1''"

definition printProgress :: "cli_state \<Rightarrow> cli_state" where
  "printProgress st =
     (if cl_lastState st = state_code UnknownState then st
      else emit (PrintTaskState (cl_lastPercentage st) (cl_lastMessage st) (cl_lastState st) (cl_lastSubState st)) st)"

fun set_property :: "string \<times> prop_value \<Rightarrow> cli_state \<Rightarrow> cli_state" where
  "set_property (key, v) st =
     (if key = ''State'' then (case pv_int v of None \<Rightarrow> st | Some i \<Rightarrow> st\<lparr>cl_lastState := i\<rparr>)
      else if key = ''SubState'' then (case pv_int v of None \<Rightarrow> st | Some i \<Rightarrow> st\<lparr>cl_lastSubState := i\<rparr>)
      else if key = ''Percentage'' then (case pv_double v of None \<Rightarrow> st | Some r \<Rightarrow> st\<lparr>cl_lastPercentage := r\<rparr>)
      else if key = ''Message'' then (case pv_string v of None \<Rightarrow> st | Some m \<Rightarrow> st\<lparr>cl_lastMessage := m\<rparr>)
      else st)"

definition onTaskPropertiesChanged :: "string \<Rightarrow> (string \<times> prop_value) list \<Rightarrow> cli_state \<Rightarrow> cli_state" where
  "onTaskPropertiesChanged interface changed_properties st =
     (if interface \<noteq> task_interface then st else printProgress (fold set_property changed_properties st))"

text \<open>The result says whether \<open>taskDone\<close> was emitted.\<close>

definition onTaskRemoved :: "string \<Rightarrow> int \<Rightarrow> int \<Rightarrow> string \<Rightarrow> rat \<Rightarrow> cli_state \<Rightarrow> bool \<times> cli_state" where
  "onTaskRemoved path state subState message percentage st =
     (if path \<noteq> cl_taskPath st then (False, st)
      else let st1 = st\<lparr>cl_task := False\<rparr> in
        if cl_lastState st1 = state \<and> cl_lastSubState st1 = subState \<and> cl_lastMessage st1 = message \<and>
           cl_lastPercentage st1 = percentage
        then (True, st1)
        else let st2 = st1\<lparr>cl_lastState := state, cl_lastSubState := subState, cl_lastMessage := message,
                           cl_lastPercentage := percentage\<rparr> in
          if cl_lastSubState st2 = sub_state_code AllDone then (True, printProgress st2)
          else if cl_lastSubState st2 = sub_state_code PackageManagerDone then (True, emit (Notify (cl_lastMessage st2)) st2)
          else (True, st2))"

definition permission_denied :: string where
  "permission_denied = ''Permission deny, please check whether you are running as root.''"

definition yes_action :: "string \<Rightarrow> bool" where
  "yes_action a = (a \<in> {''Y'', ''y'', ''Yes'', ''yes'', ''dummy''})"

text \<open>
  \<open>None\<close>: the additional message or the answer is used although it is missing.
\<close>

definition interaction ::
    "string \<Rightarrow> int \<Rightarrow> (string \<times> string) result \<Rightarrow> string option option \<Rightarrow> unit dbus \<Rightarrow> cli_state \<Rightarrow> cli_state option" where
  "interaction path messageID msg answer outcome st =
     (if path \<noteq> cl_taskPath st then Some st
      else if messageID = message_code MUpgrade \<and> \<not> is_ok msg then None
      else case answer of
        Some None \<Rightarrow> None
      | _ \<Rightarrow>
         (let action = (case answer of Some (Some a) \<Rightarrow> if yes_action a then ''yes'' else ''no'' | _ \<Rightarrow> ''no'');
              st1 = st\<lparr>cl_replies := cl_replies st @ [(path, action)]\<rparr> in
          case outcome of
            Replied _ \<Rightarrow> Some st1
          | AccessDenied \<Rightarrow> Some (emit (Notify permission_denied) st1)
          | DbusFailed t m \<Rightarrow> Some (emit (PrintErr (Err ''interactive with user'' m t)) st1)))"

text \<open>
  One delivered signal. Interactions are connected by the two forms of installation only. Property changes are
  connected for the path of the task, and use the task object.
\<close>

definition deliver :: "bool \<Rightarrow> cli_event \<Rightarrow> cli_state \<Rightarrow> (bool \<times> cli_state) option" where
  "deliver interactive e st =
     (case e of
        TaskAdd _ \<Rightarrow> Some (False, st)
      | TaskRemoved path state subState message percentage \<Rightarrow> Some (onTaskRemoved path state subState message percentage st)
      | PropertiesChanged path interface props \<Rightarrow>
         (if path \<noteq> cl_taskPath st then Some (False, st)
          else if \<not> cl_task st then None
          else Some (False, onTaskPropertiesChanged interface props st))
      | RequestInteraction path messageID msg answer outcome \<Rightarrow>
         (if \<not> interactive then Some (False, st)
          else map_option (\<lambda>s. (False, s)) (interaction path messageID msg answer outcome st)))"

section \<open>Following a task\<close>

definition exit_code :: "cli_state \<Rightarrow> int" where
  "exit_code st = (if cl_lastState st = state_code Succeed then 0 else -1)"

fun wait_task :: "bool \<Rightarrow> cli_event list \<Rightarrow> cli_state \<Rightarrow> cli_result \<times> cli_state" where
  "wait_task interactive [] st = (StillWaiting, st)"
| "wait_task interactive (e # es) st =
     (case deliver interactive e st of
        None \<Rightarrow> (Aborted, st)
      | Some (True, st') \<Rightarrow> (Exited (exit_code st'), st')
      | Some (False, st') \<Rightarrow> wait_task interactive es st')"

text \<open>
  What installation, upgrade and removal do with a task that was accepted; \<open>connects\<close> says which connections of signals succeed.
\<close>

definition follow_task ::
    "(string \<Rightarrow> bool) \<Rightarrow> bool \<Rightarrow> task_result \<Rightarrow> cli_event list \<Rightarrow> cli_state \<Rightarrow> cli_result \<times> cli_state" where
  "follow_task connects interactive result events st =
     (case tr_path result of
        None \<Rightarrow> (Aborted, st)
      | Some path \<Rightarrow>
         (let st1 = st\<lparr>cl_taskPath := path, cl_task := True\<rparr> in
          if \<not> connects ''PropertiesChanged'' \<or> \<not> connects ''taskDone'' then (Exited (-1), st1)
          else wait_task interactive events st1))"

definition cancelCurrentTask :: "cli_state \<Rightarrow> cli_state" where
  "cancelCurrentTask st =
     (if cl_lastSubState st \<noteq> sub_state_code AllDone \<and> cl_lastSubState st \<noteq> sub_state_code PackageManagerDone \<and> cl_task st
      then st\<lparr>cl_cancels := cl_cancels st + 1\<rparr> else st)"

section \<open>Lemmas\<close>

lemma emit_sel [simp]:
  "cl_taskPath (emit x st) = cl_taskPath st" "cl_task (emit x st) = cl_task st" "cl_lastState (emit x st) = cl_lastState st"
  "cl_replies (emit x st) = cl_replies st" "cl_out (emit x st) = cl_out st @ [x]" "cl_options (emit x st) = cl_options st"
  by (simp_all add: emit_def)

lemma printProgress_sel [simp]:
  "cl_taskPath (printProgress st) = cl_taskPath st" "cl_task (printProgress st) = cl_task st"
  "cl_lastState (printProgress st) = cl_lastState st" "cl_options (printProgress st) = cl_options st"
  by (simp_all add: printProgress_def)

lemma set_property_sel [simp]:
  "cl_taskPath (set_property p st) = cl_taskPath st" "cl_task (set_property p st) = cl_task st"
  by (cases p; simp split: option.split)+

lemma fold_property_sel [simp]:
  "cl_taskPath (fold set_property ps st) = cl_taskPath st" "cl_task (fold set_property ps st) = cl_task st"
  by (induction ps arbitrary: st) simp_all

lemma onTaskPropertiesChanged_sel [simp]:
  "cl_taskPath (onTaskPropertiesChanged i ps st) = cl_taskPath st" "cl_task (onTaskPropertiesChanged i ps st) = cl_task st"
  by (simp_all add: onTaskPropertiesChanged_def)

lemma onTaskRemoved_own:
  "path = cl_taskPath st \<Longrightarrow> fst (onTaskRemoved path s ss m p st) \<and> cl_lastState (snd (onTaskRemoved path s ss m p st)) = s"
  by (auto simp: onTaskRemoved_def Let_def)

lemma deliver_quits:
  assumes "deliver interactive e st = Some (True, st')"
  obtains s ss m p where "e = TaskRemoved (cl_taskPath st) s ss m p" "cl_lastState st' = s"
proof (cases e)
  case (TaskRemoved path s ss m p)
  then have "onTaskRemoved path s ss m p st = (True, st')" using assms by (simp add: deliver_def)
  then show thesis
    using that TaskRemoved onTaskRemoved_own [of path st s ss m p] by (cases "path = cl_taskPath st") (auto simp: onTaskRemoved_def)
qed (use assms in \<open>auto simp: deliver_def split: if_splits\<close>)

lemma interaction_sel:
  "interaction path i msg answer outcome st = Some st' \<Longrightarrow> cl_taskPath st' = cl_taskPath st \<and> cl_task st' = cl_task st"
  by (auto simp: interaction_def Let_def split: if_splits option.splits dbus.splits)

lemma deliver_goes_on:
  assumes "deliver interactive e st = Some (False, st')"
  shows "cl_taskPath st' = cl_taskPath st \<and> cl_task st' = cl_task st \<and>
    (\<forall>s ss m p. e \<noteq> TaskRemoved (cl_taskPath st) s ss m p)"
proof (cases e)
  case (TaskRemoved path s ss m p)
  then show ?thesis using assms onTaskRemoved_own [of path st s ss m p]
    by (cases "path = cl_taskPath st") (auto simp: deliver_def onTaskRemoved_def)
next
  case (RequestInteraction path i msg answer outcome)
  then show ?thesis using assms by (auto simp: deliver_def dest: interaction_sel split: if_splits)
qed (use assms in \<open>auto simp: deliver_def split: if_splits\<close>)

end
