(* ===== verification/Cli_Packages.thy ===== *)
theory Cli_Packages
  imports Cli_Task
begin

text \<open>
  The commands of the client that manage packages, \<open>libs/linglong/src/linglong/cli/cli.cpp\<close>: install, upgrade, search, prune,
  uninstall, list, repo, info and content. The package manager is the record \<open>pm_client\<close> of its D-Bus calls, the
  repository the record \<open>cli_repo\<close> of what the client asks it, and the operating system the record \<open>cli_env\<close>.
\<close>

section \<open>What the client uses\<close>

record job_info =
  ji_id :: "string option"
  ji_code :: int
  ji_message :: string

record found_packages =
  fp_packages :: "package_info_v2 list option"
  fp_code :: int
  fp_message :: string

record pm_client =
  pc_Install :: "common_options \<times> package_param \<Rightarrow> task_result result dbus"
  pc_InstallFromFile :: "string \<Rightarrow> string \<Rightarrow> common_options \<Rightarrow> task_result result dbus"
  pc_Update :: "package_param list \<Rightarrow> task_result result dbus"
  pc_Uninstall :: "package_param \<Rightarrow> task_result result dbus"
  pc_Search :: "string \<Rightarrow> job_info result dbus"
  pc_Prune :: "job_info result dbus"
  pc_configuration :: "repo_config result dbus"
  pc_setConfiguration :: "repo_config \<Rightarrow> unit dbus"

record cli_repo =
  cr_clearReference :: "fuzzy_reference \<Rightarrow> reference result option"
  cr_getMergedModuleDir :: "reference \<Rightarrow> string result"
  cr_getLayerDir :: "reference \<Rightarrow> string \<Rightarrow> string option \<Rightarrow> string result"
  cr_info :: "string \<Rightarrow> package_info_v2 result"
  cr_getLayerItem :: "reference \<Rightarrow> string \<Rightarrow> layers_item result"
  cr_listLocal :: "package_info_v2 list result"
  cr_listLocalLatest :: "package_info_v2 list result"
  cr_listRemote :: "fuzzy_reference \<Rightarrow> package_info_v2 list result"

text \<open>
  \<open>ce_execvp\<close> returns only when it fails; \<open>ce_exists\<close> may throw (\<open>None\<close>); \<open>ce_open\<close> gives the code and the text of an error.
\<close>

record cli_env =
  ce_auth :: "unit dbus"
  ce_arguments :: "string list"
  ce_execvp :: "string list \<Rightarrow> int option"
  ce_exists :: "string \<Rightarrow> bool option"
  ce_absolute :: "string \<Rightarrow> string"
  ce_isFile :: "string \<Rightarrow> bool"
  ce_absoluteFilePath :: "string \<Rightarrow> string"
  ce_suffix :: "string \<Rightarrow> string"
  ce_open :: "string \<Rightarrow> (int \<times> string) option"
  ce_connects :: "string \<Rightarrow> bool"
  ce_readFile :: "string \<Rightarrow> bytes option"
  ce_loadLayerInfo :: "bytes \<Rightarrow> string result"
  ce_entries :: "string \<Rightarrow> string list option"
  ce_fileExists :: "string \<Rightarrow> bool"
  ce_root :: string

section \<open>Permissions and failed calls\<close>

definition print_exit :: "error \<Rightarrow> cli_state \<Rightarrow> cli_result \<times> cli_state" where
  "print_exit e st = (Exited (-1), emit (PrintErr e) st)"

definition runningAsRoot :: "cli_env \<Rightarrow> string list \<Rightarrow> cli_state \<Rightarrow> cli_result \<times> cli_state" where
  "runningAsRoot env args st =
     (let argv = ''pkexec'' # args in
      case ce_execvp env argv of
        None \<Rightarrow> (Replaced argv, st)
      | Some ret \<Rightarrow> print_exit (Err ''run with pkexec'' ''execve error'' ret) st)"

text \<open>The client first calls a method it is not allowed to call without permission.\<close>

definition authorized :: "cli_env \<Rightarrow> bool" where
  "authorized env = (ce_auth env \<noteq> AccessDenied)"

definition with_permission ::
    "cli_env \<Rightarrow> string list \<Rightarrow> (cli_state \<Rightarrow> cli_result \<times> cli_state) \<Rightarrow> cli_state \<Rightarrow> cli_result \<times> cli_state" where
  "with_permission env args f st = (if authorized env then f st else runningAsRoot env args st)"

text \<open>A call of the package manager and the ways it can fail; \<open>unread\<close> is what happens when the reply cannot be read.\<close>

definition on_reply ::
    "'a result dbus \<Rightarrow> (int \<Rightarrow> string \<Rightarrow> error) \<Rightarrow> (error \<Rightarrow> cli_state \<Rightarrow> cli_result \<times> cli_state) \<Rightarrow>
     ('a \<Rightarrow> cli_state \<Rightarrow> cli_result \<times> cli_state) \<Rightarrow> cli_state \<Rightarrow> cli_result \<times> cli_state" where
  "on_reply call failed unread f st =
     (case call of
        AccessDenied \<Rightarrow> (Exited (-1), emit (Notify permission_denied) st)
      | DbusFailed t m \<Rightarrow> print_exit (failed t m) st
      | Replied (Inl e) \<Rightarrow> unread e st
      | Replied (Inr r) \<Rightarrow> f r st)"

definition abort_unread :: "error \<Rightarrow> cli_state \<Rightarrow> cli_result \<times> cli_state" where
  "abort_unread e st = (Aborted, st)"

section \<open>Install\<close>

definition replace_arg :: "string \<Rightarrow> string \<Rightarrow> string list \<Rightarrow> string list" where
  "replace_arg a b = map (\<lambda>x. if x = a then b else x)"

definition installFromFile ::
    "cli_env \<Rightarrow> pm_client \<Rightarrow> cli_event list \<Rightarrow> string \<Rightarrow> common_options \<Rightarrow> cli_state \<Rightarrow> cli_result \<times> cli_state" where
  "installFromFile env pm events filePath options st =
     (let trace = ''install from file '' @ filePath in
      case ce_open env filePath of
        Some (code, m) \<Rightarrow> print_exit (Err trace (filePath @ '': '' @ m) code) st
      | None \<Rightarrow>
         (if \<not> ce_connects env ''RequestInteraction'' then (Exited (-1), st)
          else on_reply (pc_InstallFromFile pm filePath (ce_suffix env filePath) options)
            (\<lambda>t m. Err trace m (-1)) abort_unread
            (\<lambda>result st.
               if tr_code result \<noteq> 0 then print_exit (Err trace (tr_message result) (tr_code result)) st
               else follow_task (ce_connects env) True result events st) st))"

definition package_of :: "fuzzy_reference \<Rightarrow> package_param" where
  "package_of fuzzyRef = \<lparr>pk_channel = fz_channel fuzzyRef, pk_id = fz_id fuzzyRef, pk_module = None,
     pk_version = map_option Version_toString (fz_version fuzzyRef)\<rparr>"

definition with_module :: "string \<Rightarrow> package_param \<Rightarrow> package_param" where
  "with_module m pkg = (if m = [] then pkg else pkg\<lparr>pk_module := Some m\<rparr>)"

definition Cli_install :: "cli_env \<Rightarrow> pm_client \<Rightarrow> cli_event list \<Rightarrow> cli_state \<Rightarrow> cli_result \<times> cli_state" where
  "Cli_install env pm events st =
     (let trace = ''command install''; opts = cl_options st; app = op_appid opts;
          options = \<lparr>co_force = op_forceOpt opts, co_skipInteraction = op_confirmOpt opts\<rparr> in
      if \<not> authorized env
      then (case ce_exists env app of
              None \<Rightarrow> (Aborted, st)
            | Some present \<Rightarrow>
                runningAsRoot env (if present then replace_arg app (ce_absolute env app) (ce_arguments env) else ce_arguments env) st)
      else if ce_isFile env app then installFromFile env pm events (ce_absoluteFilePath env app) options st
      else if \<not> ce_connects env ''RequestInteraction'' then (Exited (-1), st)
      else case FuzzyReference_parse app of
        Inl e \<Rightarrow> print_exit e st
      | Inr fuzzyRef \<Rightarrow>
          on_reply (pc_Install pm (options, with_module (op_module opts) (package_of fuzzyRef)))
            (\<lambda>t m. Err trace m t) abort_unread
            (\<lambda>result st.
               if tr_code result \<noteq> 0 then (Exited (-1), emit (PrintReply (tr_code result) (tr_message result)) st)
               else follow_task (ce_connects env) True result events st) st)"

section \<open>The upgradable packages\<close>

definition filterPackageInfosFromType :: "string \<Rightarrow> package_info_v2 list \<Rightarrow> package_info_v2 list" where
  "filterPackageInfosFromType typ xs = (if typ = ''all'' then xs else filter (\<lambda>i. info_kind i = typ) xs)"

definition upgrade_candidate :: "fuzzy_reference \<Rightarrow> package_info_v2 \<Rightarrow> reference option" where
  "upgrade_candidate fuzzy record =
     (if (case fz_channel fuzzy of None \<Rightarrow> False | Some c \<Rightarrow> c \<noteq> info_channel record) then None
      else if fz_id fuzzy \<noteq> info_id record then None
      else case Version_parse (info_version record) of Inl _ \<Rightarrow> None | Inr ver \<Rightarrow>
        (case info_arch record of [] \<Rightarrow> None | a # _ \<Rightarrow>
        (case Architecture_parse a of Inl _ \<Rightarrow> None | Inr arch \<Rightarrow>
        (case Reference_create (info_channel record) (fz_id fuzzy) ver arch of Inl _ \<Rightarrow> None | Inr r \<Rightarrow> Some r))))"

fun newest_candidate :: "fuzzy_reference \<Rightarrow> reference option \<Rightarrow> package_info_v2 list \<Rightarrow> reference option" where
  "newest_candidate fuzzy ref [] = ref"
| "newest_candidate fuzzy ref (x # xs) =
     (case upgrade_candidate fuzzy x of
        None \<Rightarrow> newest_candidate fuzzy ref xs
      | Some cur \<Rightarrow>
         (case ref of
            None \<Rightarrow> newest_candidate fuzzy (Some cur) xs
          | Some r \<Rightarrow> newest_candidate fuzzy (if reference_ge r cur then Some r else Some cur) xs))"

text \<open>\<open>None\<close>: the version of an installed package cannot be parsed and is used all the same.\<close>

fun upgrade_list ::
    "package_info_v2 list \<Rightarrow> package_info_v2 list \<Rightarrow> cli_state \<Rightarrow> (upgrade_item list \<times> cli_state) option" where
  "upgrade_list remotePkgs [] st = Some ([], st)"
| "upgrade_list remotePkgs (pkg # pkgs) st =
     (case FuzzyReference_parse (info_id pkg) of
        Inl e \<Rightarrow> upgrade_list remotePkgs pkgs (emit (PrintErr e) st)
      | Inr fuzzy \<Rightarrow>
         (case newest_candidate fuzzy None remotePkgs of
            None \<Rightarrow> upgrade_list remotePkgs pkgs st
          | Some reference \<Rightarrow>
             (case Version_parse (info_version pkg) of
                Inl _ \<Rightarrow> None
              | Inr oldVersion \<Rightarrow>
                 (if Version_le (ref_version reference) oldVersion then upgrade_list remotePkgs pkgs st
                  else map_option (\<lambda>(us, st'). (\<lparr>ug_id = info_id pkg,
                      ug_newVersion = Version_toString (ref_version reference),
                      ug_oldVersion = Version_toString oldVersion\<rparr> # us, st'))
                    (upgrade_list remotePkgs pkgs st)))))"

definition listUpgradable ::
    "cli_repo \<Rightarrow> string \<Rightarrow> cli_state \<Rightarrow> (upgrade_item list result \<times> cli_state) option" where
  "listUpgradable repo typ st =
     (let trace = ''list upgradable'' in
      case cr_listLocalLatest repo of
        Inl e \<Rightarrow> Some (Inl (Err_wrap trace e), st)
      | Inr pkgs0 \<Rightarrow>
         (let pkgs = (if typ = [] then pkgs0 else filterPackageInfosFromType (op_type (cl_options st)) pkgs0) in
          case FuzzyReference_parse ''.'' of
            Inl e \<Rightarrow> Some (Inl (Err_wrap trace e), st)
          | Inr full \<Rightarrow>
             (case cr_listRemote repo full of
                Inl e \<Rightarrow> Some (Inl (Err_wrap trace e), st)
              | Inr remotePkgs \<Rightarrow> map_option (\<lambda>(us, st'). (Inr us, st')) (upgrade_list remotePkgs pkgs st))))"

section \<open>Upgrade\<close>

fun upgrade_refs :: "upgrade_item list \<Rightarrow> fuzzy_reference list result" where
  "upgrade_refs [] = Inr []"
| "upgrade_refs (u # us) =
     (case FuzzyReference_parse (ug_id u @ ''/'' @ ug_oldVersion u) of
        Inl e \<Rightarrow> Inl e
      | Inr r \<Rightarrow> (case upgrade_refs us of Inl e \<Rightarrow> Inl e | Inr rs \<Rightarrow> Inr (r # rs)))"

definition update_call ::
    "cli_env \<Rightarrow> pm_client \<Rightarrow> cli_event list \<Rightarrow> fuzzy_reference list \<Rightarrow> cli_state \<Rightarrow> cli_result \<times> cli_state" where
  "update_call env pm events fuzzyRefs =
     (let trace = ''command upgrade'' in
      on_reply (pc_Update pm (map package_of fuzzyRefs)) (\<lambda>t m. Err trace m (-1)) print_exit
        (\<lambda>result st.
           if tr_code result \<noteq> 0 then print_exit (Err trace (tr_message result) (tr_code result)) st
           else follow_task (ce_connects env) False result events st))"

definition Cli_upgrade ::
    "cli_env \<Rightarrow> cli_repo \<Rightarrow> pm_client \<Rightarrow> cli_event list \<Rightarrow> cli_state \<Rightarrow> cli_result \<times> cli_state" where
  "Cli_upgrade env repo pm events = with_permission env (ce_arguments env) (\<lambda>st.
     let app = op_appid (cl_options st) in
     if app \<noteq> []
     then (case FuzzyReference_parse app of Inl e \<Rightarrow> print_exit e st | Inr r \<Rightarrow> update_call env pm events [r] st)
     else case listUpgradable repo ''app'' st of
       None \<Rightarrow> (Aborted, st)
     | Some (Inl e, st1) \<Rightarrow> print_exit e st1
     | Some (Inr us, st1) \<Rightarrow>
        (case upgrade_refs us of Inl e \<Rightarrow> print_exit e st1 | Inr rs \<Rightarrow> update_call env pm events rs st1))"

section \<open>Search and prune\<close>

text \<open>The signals \<open>SearchFinished\<close> and \<open>PruneFinished\<close> carry the id of the job.\<close>

fun wait_search :: "string \<Rightarrow> (string \<times> found_packages result) list \<Rightarrow> cli_state \<Rightarrow> cli_result \<times> cli_state" where
  "wait_search job [] st = (StillWaiting, st)"
| "wait_search job ((jobID, data) # es) st =
     (if jobID \<noteq> job then wait_search job es st
      else case data of
        Inl e \<Rightarrow> print_exit e st
      | Inr result \<Rightarrow>
         (if fp_code result \<noteq> 0
          then (Exited (fp_code result),
                emit (PrintErr (Err ''command search'' ([CHR 0x0A] @ fp_message result) (fp_code result))) st)
          else case fp_packages result of
            None \<Rightarrow> (Exited 0, emit (PrintPackages []) st)
          | Some packages \<Rightarrow>
             (let opts = cl_options st;
                  pkgs = (if op_showDevel opts then packages else filter (\<lambda>i. info_module i \<noteq> ''develop'') packages);
                  shown = (if op_type opts = [] then pkgs else filterPackageInfosFromType (op_type opts) pkgs) in
              (Exited 0, emit (PrintPackages shown) st))))"

definition started_job ::
    "string \<Rightarrow> job_info result dbus \<Rightarrow> (string \<Rightarrow> cli_state \<Rightarrow> cli_result \<times> cli_state) \<Rightarrow> cli_state \<Rightarrow>
     cli_result \<times> cli_state" where
  "started_job trace call f =
     on_reply call (\<lambda>t m. Err trace m (-1)) print_exit
       (\<lambda>result st.
          case ji_id result of
            None \<Rightarrow> print_exit (Err trace ([CHR 0x0A] @ ji_message result) (ji_code result)) st
          | Some job \<Rightarrow> f job st)"

definition Cli_search :: "pm_client \<Rightarrow> (string \<times> found_packages result) list \<Rightarrow> cli_state \<Rightarrow> cli_result \<times> cli_state" where
  "Cli_search pm events st =
     started_job ''command search'' (pc_Search pm (op_appid (cl_options st))) (\<lambda>job. wait_search job events) st"

text \<open>When the result cannot be read the handler goes on and uses it.\<close>

fun wait_prune :: "string \<Rightarrow> (string \<times> found_packages result) list \<Rightarrow> cli_state \<Rightarrow> cli_result \<times> cli_state" where
  "wait_prune job [] st = (StillWaiting, st)"
| "wait_prune job ((jobID, data) # es) st =
     (if jobID \<noteq> job then wait_prune job es st
      else case data of
        Inl e \<Rightarrow> (Aborted, emit (PrintErr e) st)
      | Inr result \<Rightarrow>
         (case fp_packages result of
            None \<Rightarrow> (Aborted, st)
          | Some packages \<Rightarrow> (Exited 0, emit (PrintPruneResult packages) st)))"

definition Cli_prune ::
    "cli_env \<Rightarrow> pm_client \<Rightarrow> (string \<times> found_packages result) list \<Rightarrow> cli_state \<Rightarrow> cli_result \<times> cli_state" where
  "Cli_prune env pm events = with_permission env (ce_arguments env)
     (started_job ''command prune'' (pc_Prune pm) (\<lambda>job. wait_prune job events))"

section \<open>Uninstall and list\<close>

definition Cli_uninstall ::
    "cli_env \<Rightarrow> cli_repo \<Rightarrow> pm_client \<Rightarrow> cli_event list \<Rightarrow> cli_state \<Rightarrow> cli_result \<times> cli_state" where
  "Cli_uninstall env repo pm events = with_permission env (ce_arguments env) (\<lambda>st.
     let trace = ''command uninstall''; opts = cl_options st in
     case FuzzyReference_parse (op_appid opts) of Inl e \<Rightarrow> print_exit e st | Inr fuzzyRef \<Rightarrow>
     (case cr_clearReference repo fuzzyRef of
        None \<Rightarrow> (Aborted, st)
      | Some (Inl e) \<Rightarrow> print_exit e st
      | Some (Inr ref) \<Rightarrow>
     (case cr_getLayerItem repo ref (if op_module opts = [] then ''binary'' else op_module opts) of
        Inl e \<Rightarrow> print_exit e st
      | Inr layerItem \<Rightarrow>
         (if info_kind (item_info layerItem) \<noteq> ''app''
          then print_exit (Err trace (''This layer is not an application, please use 'll-cli prune'' @ [CHR 0x27] @ ''.'') (-1)) st
          else on_reply (pc_Uninstall pm (with_module (op_module opts) (package_of fuzzyRef)))
            (\<lambda>t m. Err trace m (-1)) print_exit
            (\<lambda>result st.
               if tr_code result \<noteq> 0
               then (if tr_type result = ''notification'' then (Exited (-1), emit (Notify (tr_message result)) st)
                     else print_exit (Err trace (tr_message result) (tr_code result)) st)
               else follow_task (ce_connects env) False result events st) st))))"

definition Cli_list :: "cli_repo \<Rightarrow> cli_state \<Rightarrow> cli_result \<times> cli_state" where
  "Cli_list repo st =
     (let opts = cl_options st in
      if \<not> op_showUpgradeList opts
      then (case cr_listLocal repo of
              Inl e \<Rightarrow> print_exit e st
            | Inr pkgs \<Rightarrow>
                (Exited 0, emit (PrintPackages (if op_type opts = [] then pkgs
                                                else filterPackageInfosFromType (op_type opts) pkgs)) st))
      else case listUpgradable repo (op_type opts) st of
        None \<Rightarrow> (Aborted, st)
      | Some (Inl e, st1) \<Rightarrow> print_exit e st1
      | Some (Inr us, st1) \<Rightarrow> (Exited 0, emit (PrintUpgradeList us) st1))"

section \<open>Repositories\<close>

datatype repo_command = RepoShow | RepoModify | RepoAdd | RepoUpdate | RepoRemove | RepoSetDefault | RepoOther

definition EINVAL :: int where
  "EINVAL = 22"

definition setRepoConfig :: "cli_env \<Rightarrow> pm_client \<Rightarrow> repo_config \<Rightarrow> cli_state \<Rightarrow> cli_result \<times> cli_state" where
  "setRepoConfig env pm cfg = with_permission env (ce_arguments env) (\<lambda>st.
     case pc_setConfiguration pm cfg of
       AccessDenied \<Rightarrow> (Exited (-1), emit (Notify permission_denied) st)
     | DbusFailed t m \<Rightarrow> print_exit (Err ''set repo config'' m (-1)) st
     | Replied _ \<Rightarrow> (Exited 0, st))"

text \<open>The last slash is removed from the option, of which \<open>url\<close> is a copy.\<close>

definition drop_slash :: "cli_state \<Rightarrow> cli_state" where
  "drop_slash st =
     (let url = op_repoUrl (cl_options st) in
      if last url = CHR ''/'' then st\<lparr>cl_options := (cl_options st)\<lparr>op_repoUrl := butlast url\<rparr>\<rparr> else st)"

definition changed_config :: "repo_command \<Rightarrow> string \<Rightarrow> string \<Rightarrow> repo_config \<Rightarrow> string + repo_config option" where
  "changed_config cmd name url cfg =
     (if cmd = RepoAdd
      then (if map_of (cfg_repos cfg) name \<noteq> None then Inl (''repo '' @ name @ '' already exist.'')
            else Inr (Some (cfg\<lparr>cfg_repos := put name url (cfg_repos cfg)\<rparr>)))
      else if map_of (cfg_repos cfg) name = None then Inl (''the operated repo '' @ name @ '' doesn't exist'')
      else case cmd of
        RepoRemove \<Rightarrow>
         (if cfg_defaultRepo cfg = name
          then Inl (''repo '' @ name @ ''is default repo, please change default repo before removing it.'')
          else Inr (Some (cfg\<lparr>cfg_repos := filter (\<lambda>r. fst r \<noteq> name) (cfg_repos cfg)\<rparr>)))
      | RepoUpdate \<Rightarrow> Inr (Some (cfg\<lparr>cfg_repos := put name url (cfg_repos cfg)\<rparr>))
      | RepoSetDefault \<Rightarrow> Inr (if cfg_defaultRepo cfg \<noteq> name then Some (cfg\<lparr>cfg_defaultRepo := name\<rparr>) else None)
      | _ \<Rightarrow> Inl ''unknown operation'')"

definition Cli_repo :: "cli_env \<Rightarrow> pm_client \<Rightarrow> repo_command \<Rightarrow> cli_state \<Rightarrow> cli_result \<times> cli_state" where
  "Cli_repo env pm cmd st =
     (let trace = ''command repo'' in
      on_reply (pc_configuration pm) (\<lambda>t m. Err trace m (-1)) abort_unread
        (\<lambda>cfg st.
           if cmd = RepoShow then (Exited 0, emit (PrintRepoConfig cfg) st)
           else if cmd = RepoModify
           then (Exited EINVAL, emit (PrintErr (Err trace (''sub-command 'modify' already has been deprecated, please use sub-command ''
                  @ [CHR 0x27] @ ''add' to add a remote repository and use it as default.'') (-1))) st)
           else let url = op_repoUrl (cl_options st); name = op_repoName (cl_options st) in
             if (cmd = RepoAdd \<or> cmd = RepoUpdate) \<and> \<not> starts_with url ''http''
             then (Exited EINVAL, emit (PrintErr (Err trace (''url is invalid: '' @ url) (-1))) st)
             else let st1 = (if cmd = RepoAdd \<or> cmd = RepoUpdate then drop_slash st else st) in
               case changed_config cmd name url cfg of
                 Inl m \<Rightarrow> print_exit (Err trace m (-1)) st1
               | Inr None \<Rightarrow> (Exited 0, st1)
               | Inr (Some cfg') \<Rightarrow> setRepoConfig env pm cfg' st1) st)"

section \<open>Info and content\<close>

definition Cli_info :: "cli_env \<Rightarrow> cli_repo \<Rightarrow> cli_state \<Rightarrow> cli_result \<times> cli_state" where
  "Cli_info env repo st =
     (let trace = ''command info''; app = op_appid (cl_options st) in
      if app = [] then print_exit (Err trace ''failed to get layer path'' (-1)) st
      else if \<not> (ce_isFile env app \<and> ce_suffix env app = ''layer'')
      then (case FuzzyReference_parse app of Inl e \<Rightarrow> print_exit e st | Inr fuzzyRef \<Rightarrow>
           (case cr_clearReference repo fuzzyRef of
              None \<Rightarrow> (Aborted, st)
            | Some (Inl _) \<Rightarrow> print_exit (Err trace ''Can not find such application.'' (-1)) st
            | Some (Inr ref) \<Rightarrow>
           (case cr_getLayerDir repo ref ''binary'' None of Inl e \<Rightarrow> print_exit e st | Inr layer \<Rightarrow>
           (case cr_info repo layer of Inl e \<Rightarrow> print_exit e st | Inr info \<Rightarrow> (Exited 0, emit (PrintPackage info) st)))))
      else case LayerFile_New (ce_readFile env app) of
        Inl e \<Rightarrow> print_exit e st
      | Inr f \<Rightarrow>
         (case fst (metaInfo (ce_loadLayerInfo env) f) of
            Inl e \<Rightarrow> print_exit e st
          | Inr layerInfo \<Rightarrow> (Exited 0, emit (PrintLayerInfo layerInfo) st)))"

text \<open>\<open>QString::replace\<close>, for a text that is not empty.\<close>

function replace_all :: "string \<Rightarrow> string \<Rightarrow> string \<Rightarrow> string" where
  "replace_all old new s =
     (if old = [] then s
      else case s of
        [] \<Rightarrow> []
      | c # cs \<Rightarrow> if starts_with s old then new @ replace_all old new (drop (length old) s)
                  else c # replace_all old new cs)"
  by pat_completeness auto
termination by (relation "measure (\<lambda>(old, new, s). length s)") (auto simp: less_Suc_eq_le neq_Nil_conv)

text \<open>The loop removes the entries that are not exported; after a removal it goes on behind the entry that moved up.\<close>

fun drop_missing :: "(string \<Rightarrow> bool) \<Rightarrow> string list \<Rightarrow> string list" where
  "drop_missing ex [] = []"
| "drop_missing ex (x # xs) =
     (if ex x then x # drop_missing ex xs
      else case xs of [] \<Rightarrow> [] | y # ys \<Rightarrow> y # drop_missing ex ys)"

definition Cli_content :: "cli_env \<Rightarrow> cli_repo \<Rightarrow> cli_state \<Rightarrow> cli_result \<times> cli_state" where
  "Cli_content env repo st =
     (let trace = ''command content'' in
      case FuzzyReference_parse (op_appid (cl_options st)) of Inl e \<Rightarrow> print_exit e st | Inr fuzzyRef \<Rightarrow>
      (case cr_clearReference repo fuzzyRef of
         None \<Rightarrow> (Aborted, st)
       | Some (Inl _) \<Rightarrow> print_exit (Err trace ''Can not find such application.'' (-1)) st
       | Some (Inr ref) \<Rightarrow>
      (case cr_getLayerDir repo ref ''binary'' None of Inl e \<Rightarrow> print_exit e st | Inr layer \<Rightarrow>
       let entriesDir = layer @ ''/entries/share'' in
       case ce_entries env entriesDir of
         None \<Rightarrow> print_exit (Err trace ''no entries found'' (-1)) st
       | Some files \<Rightarrow>
          (let contents = map (replace_all entriesDir (ce_root env @ ''/entries/share'')) files in
           (Exited 0, emit (PrintContent (drop_missing (ce_fileExists env) contents)) st)))))"

end
