(* ===== verification/Cli_Safety.thy ===== *)
theory Cli_Safety
  imports Cli_Packages
begin

text \<open>
  What the exit codes and requests of the client mean, and how its parameters are read by the package manager.
\<close>

section \<open>Waiting for a task\<close>

lemma wait_task_exits:
  assumes "wait_task interactive events st = (Exited c, st')"
  shows "\<exists>before s ss m p after. events = before @ TaskRemoved (cl_taskPath st) s ss m p # after \<and>
     (c = 0 \<longleftrightarrow> s = state_code Succeed)"
  using assms
proof (induction events arbitrary: st)
  case (Cons e es)
  from Cons.prems obtain quits u where d: "deliver interactive e st = Some (quits, u)"
    by (auto split: option.splits)
  show ?case
  proof (cases quits)
    case True
    then obtain s ss m p where "e = TaskRemoved (cl_taskPath st) s ss m p" "cl_lastState u = s"
      using d deliver_quits by metis
    moreover have "c = exit_code u" using Cons.prems d True by auto
    ultimately have "e # es = [] @ TaskRemoved (cl_taskPath st) s ss m p # es" "c = 0 \<longleftrightarrow> s = state_code Succeed"
      by (simp_all add: exit_code_def)
    then show ?thesis by blast
  next
    case False
    then have "wait_task interactive es u = (Exited c, st')" "cl_taskPath u = cl_taskPath st"
      using Cons.prems d deliver_goes_on [of interactive e st u] by simp_all
    with Cons.IH [of u] show ?thesis by (metis append_Cons)
  qed
qed simp

lemma follow_task_success:
  assumes "fst (follow_task connects interactive r events st) = Exited 0"
  shows "\<exists>path ss m p. tr_path r = Some path \<and> TaskRemoved path (state_code Succeed) ss m p \<in> set events"
proof -
  from assms obtain path where path: "tr_path r = Some path"
    and "fst (wait_task interactive events (st\<lparr>cl_taskPath := path, cl_task := True\<rparr>)) = Exited 0"
    by (auto simp: follow_task_def Let_def split: option.splits if_splits)
  then obtain st' where "wait_task interactive events (st\<lparr>cl_taskPath := path, cl_task := True\<rparr>) = (Exited 0, st')"
    by (metis prod.collapse)
  from wait_task_exits [OF this] path show ?thesis by force
qed

lemma on_reply_success:
  assumes "fst (on_reply call failed unread f st) = Exited 0" "\<And>e st. fst (unread e st) \<noteq> Exited 0"
  obtains r where "call = Replied (Inr r)" "fst (f r st) = Exited 0"
  using assms by (auto simp: on_reply_def print_exit_def split: dbus.splits sum.splits)

lemma print_exit_code [simp]: "fst (print_exit e st) = Exited (-1)"
  by (simp add: print_exit_def)

lemma abort_unread_code [simp]: "fst (abort_unread e st) = Aborted"
  by (simp add: abort_unread_def)

lemma runningAsRoot_code: "fst (runningAsRoot env args st) \<noteq> Exited 0"
  by (simp add: runningAsRoot_def Let_def split: option.split)

text \<open>The requests a command sends that lead to a task.\<close>

definition accepted :: "task_result result dbus \<Rightarrow> cli_event list \<Rightarrow> bool" where
  "accepted call events \<longleftrightarrow>
     (\<exists>r path ss m p. call = Replied (Inr r) \<and> tr_code r = 0 \<and> tr_path r = Some path \<and>
        TaskRemoved path (state_code Succeed) ss m p \<in> set events)"

lemma acceptedI:
  "call = Replied (Inr r) \<Longrightarrow> tr_code r = 0 \<Longrightarrow> fst (follow_task connects interactive r events st) = Exited 0 \<Longrightarrow>
     accepted call events"
  using follow_task_success unfolding accepted_def by blast

lemma with_permission_success:
  "fst (with_permission env args f st) = Exited 0 \<Longrightarrow> authorized env \<and> fst (f st) = Exited 0"
  by (simp add: with_permission_def runningAsRoot_code split: if_splits)

lemma installFromFile_success:
  assumes "fst (installFromFile env pm events path opts st) = Exited 0"
  shows "accepted (pc_InstallFromFile pm path (ce_suffix env path) opts) events"
  using assms unfolding installFromFile_def Let_def
  by (auto split: option.splits if_splits elim!: on_reply_success intro: acceptedI)

lemma update_call_success:
  "fst (update_call env pm events rs st) = Exited 0 \<Longrightarrow> accepted (pc_Update pm (map package_of rs)) events"
  unfolding update_call_def Let_def by (erule on_reply_success) (auto intro: acceptedI split: if_splits)

section \<open>Versions and references\<close>

lemma Version_parse_printed: "Version_parse s = Inr v \<Longrightarrow> Version_parse (Version_toString v) = Inr v"
  using Version_new_ok Version_parse_toString by (simp add: Version_parse_Inr_iff)

lemma FuzzyReference_parse_parts:
  assumes "FuzzyReference_parse s = Inr r"
  shows "fz_channel r \<noteq> Some [] \<and> fz_id r \<noteq> [] \<and> (\<forall>v. fz_version r = Some v \<longrightarrow> Version_parse (Version_toString v) = Inr v)"
  using assms
  by (auto simp: FuzzyReference_parse_def Let_def FuzzyReference_create_Inr try_wrap_def map_sum_Inr
      split: option.splits sum.splits dest: Version_parse_printed)

lemma newest_candidate_keep_latest:
  "newest_candidate fuzzy ref records = keep_latest reference_ge ref (List.map_filter (upgrade_candidate fuzzy) records)"
  by (induction fuzzy ref records rule: newest_candidate.induct)
    (auto simp: map_filter_simps split: option.split)


section \<open>Properties\<close>

text \<open>
  C12: The client reports success only when the work is done. When \<open>install\<close>, \<open>uninstall\<close> or \<open>upgrade\<close> exits with
  0, the package manager accepted the request for the package or the file the user named (for an upgrade without a name, for the
  list of upgradable packages), and it has reported the removal of exactly the task it started, in the state \<open>Succeed\<close>.
\<close>

theorem cli_success_means_done:
  shows "(fst (Cli_install env pm events st) = Exited 0 \<longrightarrow>
      (let opts = cl_options st; app = op_appid opts;
           common = \<lparr>co_force = op_forceOpt opts, co_skipInteraction = op_confirmOpt opts\<rparr> in
       if ce_isFile env app
       then accepted (pc_InstallFromFile pm (ce_absoluteFilePath env app) (ce_suffix env (ce_absoluteFilePath env app)) common) events
       else \<exists>r. FuzzyReference_parse app = Inr r \<and>
              accepted (pc_Install pm (common, with_module (op_module opts) (package_of r))) events)) \<and>
    (fst (Cli_uninstall env repo pm events st) = Exited 0 \<longrightarrow>
      (\<exists>r. FuzzyReference_parse (op_appid (cl_options st)) = Inr r \<and>
         accepted (pc_Uninstall pm (with_module (op_module (cl_options st)) (package_of r))) events)) \<and>
    (fst (Cli_upgrade env repo pm events st) = Exited 0 \<longrightarrow>
      (\<exists>rs. accepted (pc_Update pm (map package_of rs)) events \<and>
         (op_appid (cl_options st) \<noteq> [] \<longrightarrow> (\<exists>r. FuzzyReference_parse (op_appid (cl_options st)) = Inr r \<and> rs = [r])) \<and>
         (op_appid (cl_options st) = [] \<longrightarrow>
            (\<exists>us st1. listUpgradable repo ''app'' st = Some (Inr us, st1) \<and> upgrade_refs us = Inr rs))))"
proof (intro conjI impI)
  assume "fst (Cli_install env pm events st) = Exited 0"
  then show "let opts = cl_options st; app = op_appid opts;
           common = \<lparr>co_force = op_forceOpt opts, co_skipInteraction = op_confirmOpt opts\<rparr> in
       if ce_isFile env app
       then accepted (pc_InstallFromFile pm (ce_absoluteFilePath env app) (ce_suffix env (ce_absoluteFilePath env app)) common) events
       else \<exists>r. FuzzyReference_parse app = Inr r \<and>
              accepted (pc_Install pm (common, with_module (op_module opts) (package_of r))) events"
    unfolding Cli_install_def Let_def
    by (auto split: if_splits option.splits sum.splits elim!: on_reply_success
        intro: acceptedI [OF refl] installFromFile_success simp: runningAsRoot_code)
next
  assume "fst (Cli_uninstall env repo pm events st) = Exited 0"
  then show "\<exists>r. FuzzyReference_parse (op_appid (cl_options st)) = Inr r \<and>
         accepted (pc_Uninstall pm (with_module (op_module (cl_options st)) (package_of r))) events"
    unfolding Cli_uninstall_def Let_def
    by (auto dest!: with_permission_success split: if_splits option.splits sum.splits elim!: on_reply_success
        intro!: acceptedI [OF refl])
next
  assume "fst (Cli_upgrade env repo pm events st) = Exited 0"
  then show "\<exists>rs. accepted (pc_Update pm (map package_of rs)) events \<and>
         (op_appid (cl_options st) \<noteq> [] \<longrightarrow> (\<exists>r. FuzzyReference_parse (op_appid (cl_options st)) = Inr r \<and> rs = [r])) \<and>
         (op_appid (cl_options st) = [] \<longrightarrow>
            (\<exists>us st1. listUpgradable repo ''app'' st = Some (Inr us, st1) \<and> upgrade_refs us = Inr rs))"
    unfolding Cli_upgrade_def Let_def
    by (auto dest!: with_permission_success split: if_splits option.splits sum.splits prod.splits dest!: update_call_success)
qed

text \<open>
  The package manager reads from a request what the user typed: the reference it builds from the parameters of \<open>install\<close>,
  \<open>uninstall\<close> and \<open>upgrade\<close> is the one the client parsed, without its architecture, which the parameters do not carry.
\<close>

theorem request_reference_roundtrip:
  assumes "FuzzyReference_parse app = Inr r"
  shows "fuzzyReferenceFromPackage (with_module m (package_of r)) = Inr (r\<lparr>fz_arch := None\<rparr>)"
  using FuzzyReference_parse_parts [OF assms]
  by (cases r) (auto simp: fuzzyReferenceFromPackage_def with_module_def package_of_def FuzzyReference_create_Inr split: option.split)

text \<open>
  Every configuration the command \<open>repo\<close> sends keeps the default repository among the repositories and the names
  sorted and distinct, provided the current configuration has these properties, so the package manager never
  rejects it for a missing default.
\<close>

theorem repo_command_keeps_default:
  assumes "changed_config cmd name url cfg = Inr (Some cfg')"
    and "map_of (cfg_repos cfg) (cfg_defaultRepo cfg) \<noteq> None" "sorted_wrt (<) (map fst (cfg_repos cfg))"
  shows "map_of (cfg_repos cfg') (cfg_defaultRepo cfg') \<noteq> None \<and> sorted_wrt (<) (map fst (cfg_repos cfg')) \<and>
    (\<forall>setCfg getCfg c m. setConfiguration setCfg getCfg (Inr cfg') c = (Some (FailedError, m), c) \<longrightarrow>
       (\<exists>e c1. setCfg cfg' c = (Inl e, c1) \<and> m = err_message e))"
proof -
  have keep: "map_of (filter (\<lambda>r. fst r \<noteq> name) xs) k = map_of xs k" if "k \<noteq> name" for xs :: "(string \<times> string) list" and k
    using that by (induction xs) auto
  have sorted: "sorted_wrt (<) (map fst (filter P xs))" if "sorted_wrt (<) (map fst xs)" for P and xs :: "(string \<times> string) list"
    using that by (simp add: sorted_wrt_map sorted_wrt_filter)
  have "map_of (cfg_repos cfg') (cfg_defaultRepo cfg') \<noteq> None" "sorted_wrt (<) (map fst (cfg_repos cfg'))"
    using assms
    by (auto simp: changed_config_def put_map_of keep sorted_put sorted split: if_splits repo_command.splits)
  then show ?thesis by (auto simp: setConfiguration_def split: if_splits prod.splits sum.splits)
qed

text \<open>Why a package is in the list: \<open>ref\<close> is a newest candidate of the remote and not at most the installed version.\<close>

definition upgrades :: "package_info_v2 list \<Rightarrow> package_info_v2 \<Rightarrow> upgrade_item \<Rightarrow> bool" where
  "upgrades remote pkg u \<longleftrightarrow>
     (\<exists>fuzzy ref old. FuzzyReference_parse (info_id pkg) = Inr fuzzy \<and> Version_parse (info_version pkg) = Inr old \<and>
        ref \<in> set (List.map_filter (upgrade_candidate fuzzy) remote) \<and>
        (\<forall>c \<in> set (List.map_filter (upgrade_candidate fuzzy) remote). \<not> Version_lt (ref_version ref) (ref_version c)) \<and>
        \<not> Version_le (ref_version ref) old \<and>
        u = \<lparr>ug_id = info_id pkg, ug_newVersion = Version_toString (ref_version ref), ug_oldVersion = Version_toString old\<rparr>)"

lemma newest_candidate_spec:
  assumes "newest_candidate fuzzy None remote = Some ref"
  shows "ref \<in> set (List.map_filter (upgrade_candidate fuzzy) remote) \<and>
    (\<forall>c \<in> set (List.map_filter (upgrade_candidate fuzzy) remote). \<not> Version_lt (ref_version ref) (ref_version c))"
  using keep_latest_mem [OF assms [unfolded newest_candidate_keep_latest]]
    refver.keep_latest_max [OF assms [unfolded newest_candidate_keep_latest]] by simp

lemma upgrade_list_sound:
  "upgrade_list remote pkgs st = Some (us, st') \<Longrightarrow> \<forall>u \<in> set us. \<exists>pkg \<in> set pkgs. upgrades remote pkg u"
proof (induction remote pkgs st arbitrary: us st' rule: upgrade_list.induct)
  case (2 remote pkg pkgs st)
  show ?case
  proof (cases "FuzzyReference_parse (info_id pkg)")
    case (Inl e)
    then show ?thesis using 2 by auto
  next
    case (Inr fuzzy)
    show ?thesis
    proof (cases "newest_candidate fuzzy None remote")
      case None
      then show ?thesis using 2 Inr by auto
    next
      case (Some ref)
      then obtain old where old: "Version_parse (info_version pkg) = Inr old"
        using "2.prems" Inr by (auto split: sum.splits)
      show ?thesis
      proof (cases "Version_le (ref_version ref) old")
        case True
        then show ?thesis using "2.IH"(3) [OF Inr Some old True] "2.prems" Inr Some old by auto
      next
        case False
        then obtain vs where vs: "upgrade_list remote pkgs st = Some (vs, st')"
          and us: "us = \<lparr>ug_id = info_id pkg, ug_newVersion = Version_toString (ref_version ref),
             ug_oldVersion = Version_toString old\<rparr> # vs"
          using "2.prems" Inr Some old by auto
        have "upgrades remote pkg (hd us)"
          using newest_candidate_spec [OF Some] Inr old False unfolding upgrades_def us by auto
        then show ?thesis using "2.IH"(4) [OF Inr Some old False vs] us by auto
      qed
    qed
  qed
qed simp

lemma newer_not_le:
  "Version_lt old c \<Longrightarrow> \<not> Version_lt ref c \<Longrightarrow> \<not> Version_le ref old"
  using ver.trans by (auto simp: Version_le_def Version_eq_iff)

lemma upgrade_list_complete:
  assumes "upgrade_list remote pkgs st = Some (us, st')" "pkg \<in> set pkgs" "FuzzyReference_parse (info_id pkg) = Inr fuzzy"
    and "Version_parse (info_version pkg) = Inr old" "c \<in> set (List.map_filter (upgrade_candidate fuzzy) remote)"
    and "Version_lt old (ref_version c)"
  shows "\<exists>u \<in> set us. ug_id u = info_id pkg"
  using assms(1,2)
proof (induction pkgs arbitrary: us st)
  case (Cons q pkgs)
  obtain vs st1 where vs: "upgrade_list remote pkgs st1 = Some (vs, st')" "set vs \<subseteq> set us"
    using Cons.prems(1) by (auto split: sum.splits option.splits if_splits) blast+
  show ?case
  proof (cases "pkg \<in> set pkgs")
    case True
    then show ?thesis using Cons.IH [OF vs(1)] vs(2) by auto
  next
    case False
    then have q: "q = pkg" using Cons.prems(2) by simp
    obtain ref where ref: "newest_candidate fuzzy None remote = Some ref"
      using assms(5) by (cases "newest_candidate fuzzy None remote")
        (auto simp: newest_candidate_keep_latest keep_latest_None_iff)
    have "\<not> Version_le (ref_version ref) old"
      using newest_candidate_spec [OF ref] assms(5,6) newer_not_le by blast
    then show ?thesis using Cons.prems(1) q assms(3,4) ref by auto
  qed
qed simp

text \<open>
  The list of upgradable packages is right. Every entry belongs to an installed package of the selected type: it names its
  version and the version of a candidate of the remote with the same id which no other candidate exceeds
  and which is not at most the installed one. Every selected package for which the remote has a greater version has an entry.
\<close>

theorem listUpgradable_spec:
  assumes "listUpgradable repo typ st = Some (Inr us, st')" "FuzzyReference_parse ''.'' = Inr full"
    and "cr_listRemote repo full = Inr remote" "cr_listLocalLatest repo = Inr local"
    and "pkgs = (if typ = [] then local else filterPackageInfosFromType (op_type (cl_options st)) local)"
  shows "(\<forall>u \<in> set us. \<exists>pkg \<in> set pkgs. upgrades remote pkg u) \<and>
    (\<forall>pkg \<in> set pkgs. \<forall>fuzzy old c.
       FuzzyReference_parse (info_id pkg) = Inr fuzzy \<and> Version_parse (info_version pkg) = Inr old \<and>
       c \<in> set (List.map_filter (upgrade_candidate fuzzy) remote) \<and> Version_lt old (ref_version c) \<longrightarrow>
       (\<exists>u \<in> set us. ug_id u = info_id pkg))"
proof -
  have "upgrade_list remote pkgs st = Some (us, st')"
    using assms by (auto simp: listUpgradable_def Let_def split: if_splits)
  from upgrade_list_sound [OF this] upgrade_list_complete [OF this] show ?thesis by blast
qed

section \<open>Witnesses\<close>

definition demo_options :: "string \<Rightarrow> cli_options" where
  "demo_options app = \<lparr>op_filePaths = [], op_fileUrls = [], op_workDir = [], op_appid = app, op_instance = [], op_module = [],
     op_type = ''app'', op_repoName = [], op_repoUrl = [], op_commands = [], op_showDevel = False, op_showUpgradeList = False,
     op_forceOpt = False, op_confirmOpt = False\<rparr>"

definition demo_cli_env :: cli_env where
  "demo_cli_env = \<lparr>ce_auth = Replied (), ce_arguments = [], ce_execvp = (\<lambda>_. None), ce_exists = (\<lambda>_. Some False),
     ce_absolute = (\<lambda>p. p), ce_isFile = (\<lambda>_. False), ce_absoluteFilePath = (\<lambda>p. p), ce_suffix = (\<lambda>_. []),
     ce_open = (\<lambda>_. None), ce_connects = (\<lambda>_. True), ce_readFile = (\<lambda>_. None), ce_loadLayerInfo = (\<lambda>_. Inr []),
     ce_entries = (\<lambda>_. None), ce_fileExists = (\<lambda>_. False), ce_root = ''/var/lib/linglong''\<rparr>"

definition demo_result_ok :: task_result where
  "demo_result_ok = \<lparr>tr_path = Some ''/t1'', tr_code = 0, tr_message = [], tr_type = []\<rparr>"

definition demo_pm :: pm_client where
  "demo_pm = \<lparr>pc_Install = (\<lambda>_. Replied (Inr demo_result_ok)), pc_InstallFromFile = (\<lambda>_ _ _. AccessDenied),
     pc_Update = (\<lambda>_. AccessDenied), pc_Uninstall = (\<lambda>_. AccessDenied), pc_Search = (\<lambda>_. AccessDenied),
     pc_Prune = AccessDenied, pc_configuration = AccessDenied, pc_setConfiguration = (\<lambda>_. AccessDenied)\<rparr>"

definition demo_cli_repo :: cli_repo where
  "demo_cli_repo = \<lparr>cr_clearReference = (\<lambda>_. None), cr_getMergedModuleDir = (\<lambda>_. Inr []), cr_getLayerDir = (\<lambda>_ _ _. Inr []),
     cr_info = (\<lambda>_. Inr demo_info), cr_getLayerItem = (\<lambda>_ _. Inr demo_item), cr_listLocal = Inr [],
     cr_listLocalLatest = Inr [demo_info\<lparr>info_version := ''1.0.0.0''\<rparr>],
     cr_listRemote = (\<lambda>_. Inr [demo_info\<lparr>info_version := ''9.0.0.0''\<rparr>, demo_info\<lparr>info_version := ''10.0.0.0''\<rparr>])\<rparr>"

definition demo_events :: "cli_event list" where
  "demo_events = [TaskRemoved ''/t0'' 1 0 [] 0, TaskRemoved ''/t1'' 6 0 ''done'' 100]"

lemma demo_parse: "FuzzyReference_parse ''org.demo'' =
    Inr \<lparr>fz_channel = None, fz_id = ''org.demo'', fz_version = None, fz_arch = None\<rparr>"
  by code_simp

theorem cli_success_means_done_witness:
  "fst (Cli_install demo_cli_env demo_pm demo_events (new_cli (demo_options ''org.demo''))) = Exited 0 \<and>
     (\<exists>r. FuzzyReference_parse ''org.demo'' = Inr r \<and>
        accepted (pc_Install demo_pm (\<lparr>co_force = False, co_skipInteraction = False\<rparr>, package_of r)) demo_events)"
proof -
  have "fst (Cli_install demo_cli_env demo_pm demo_events (new_cli (demo_options ''org.demo''))) = Exited 0"
    by (simp add: Cli_install_def demo_parse demo_cli_env_def demo_pm_def demo_events_def new_cli_def demo_options_def authorized_def
        on_reply_def demo_result_ok_def follow_task_def deliver_def onTaskRemoved_def exit_code_def state_code_def Let_def
        sub_state_code_def printProgress_def emit_def)
  then show ?thesis
    using cli_success_means_done [of demo_cli_env demo_pm demo_events "new_cli (demo_options ''org.demo'')" demo_cli_repo]
    by (simp add: new_cli_def demo_options_def demo_cli_env_def with_module_def)
qed

theorem request_reference_roundtrip_witness:
  "fuzzyReferenceFromPackage (with_module ''develop'' (package_of
     \<lparr>fz_channel = None, fz_id = ''org.demo'', fz_version = None, fz_arch = None\<rparr>)) =
   Inr \<lparr>fz_channel = None, fz_id = ''org.demo'', fz_version = None, fz_arch = None\<rparr>"
  using request_reference_roundtrip [OF demo_parse, of "''develop''"] by simp

theorem repo_command_keeps_default_witness:
  "map_of (cfg_repos \<lparr>cfg_defaultRepo = ''b'', cfg_repos = [(''a'', ''http://x''), (''b'', ''http://y'')], cfg_version = 1\<rparr>) ''b'' \<noteq> None"
proof -
  have "changed_config RepoSetDefault ''b'' []
      \<lparr>cfg_defaultRepo = ''a'', cfg_repos = [(''a'', ''http://x''), (''b'', ''http://y'')], cfg_version = 1\<rparr> =
    Inr (Some \<lparr>cfg_defaultRepo = ''b'', cfg_repos = [(''a'', ''http://x''), (''b'', ''http://y'')], cfg_version = 1\<rparr>)"
    by code_simp
  from repo_command_keeps_default [OF this] show ?thesis by simp
qed

theorem listUpgradable_spec_witness:
  "\<exists>us st'. listUpgradable demo_cli_repo ''app'' (new_cli (demo_options [])) = Some (Inr us, st') \<and>
     (\<exists>u \<in> set us. ug_id u = info_id demo_info)"
proof -
  let ?st = "new_cli (demo_options [])"
  let ?local = "[demo_info\<lparr>info_version := ''1.0.0.0''\<rparr>]"
  let ?remote = "[demo_info\<lparr>info_version := ''9.0.0.0''\<rparr>, demo_info\<lparr>info_version := ''10.0.0.0''\<rparr>]"
  let ?fuzzy = "\<lparr>fz_channel = None, fz_id = ''org.deepin.demo'', fz_version = None, fz_arch = None\<rparr>"
  let ?c = "\<lparr>ref_channel = ''main'', ref_id = ''org.deepin.demo'',
    ref_version = \<lparr>major = 10, minor = 0, patch = 0, tweak = Some 0\<rparr>, ref_arch = X86_64\<rparr>"
  have full: "FuzzyReference_parse ''.'' = Inr \<lparr>fz_channel = None, fz_id = ''.'', fz_version = None, fz_arch = None\<rparr>"
    by code_simp
  have sel: "cr_listRemote demo_cli_repo f = Inr ?remote" "cr_listLocalLatest demo_cli_repo = Inr ?local" for f
    by (simp_all add: demo_cli_repo_def)
  have pkgs: "?local = (if ''app'' = [] then ?local else filterPackageInfosFromType (op_type (cl_options ?st)) ?local)"
    by code_simp
  have parsed: "FuzzyReference_parse (info_id (hd ?local)) = Inr ?fuzzy"
    "Version_parse (info_version (hd ?local)) = Inr \<lparr>major = 1, minor = 0, patch = 0, tweak = Some 0\<rparr>"
    "?c \<in> set (List.map_filter (upgrade_candidate ?fuzzy) ?remote)"
    "Version_lt \<lparr>major = 1, minor = 0, patch = 0, tweak = Some 0\<rparr> (ref_version ?c)"
    by code_simp+
  have "(case upgrade_list ?remote ?local ?st of None \<Rightarrow> False | Some _ \<Rightarrow> True)" by code_simp
  then obtain us st' where "upgrade_list ?remote ?local ?st = Some (us, st')" by (auto split: option.splits)
  then have run: "listUpgradable demo_cli_repo ''app'' ?st = Some (Inr us, st')"
    using full pkgs by (simp add: listUpgradable_def sel Let_def)
  from listUpgradable_spec [OF run full sel pkgs] parsed run show ?thesis by auto
qed

text \<open>
  Two places where the client does not do what it means to: the loop of \<open>content\<close> leaves every entry in place that follows
  a removed one, and a failed \<open>prune\<close>, whose reply has no packages, makes the client use them all the same.
\<close>

lemma content_keeps_missing: "drop_missing (\<lambda>_. False) [a, b] = [b]"
  by simp

lemma failed_prune_aborts:
  "wait_prune job [(job, Inr \<lparr>fp_packages = None, fp_code = code, fp_message = m\<rparr>)] st = (Aborted, st)"
  by simp
end
