(* ===== verification/Cli_Run.thy ===== *)
theory Cli_Run
  imports Cli_Packages Container_Run
begin

text \<open>
  The commands of the client that deal with containers, \<open>libs/linglong/src/linglong/cli/cli.cpp\<close>: \<open>run\<close>, \<open>exec\<close>, \<open>ps\<close> and
  \<open>kill\<close>, and how arguments that are files or URLs are mapped into the container. A running client is known to the
  others by a file \<open>/run/linglong/<uid>/<pid>\<close>. The record \<open>box_env\<close> has what the operating system and the OCI runtime
  answer; containers are created and started by the operations of \<open>Oci_Config\<close> and \<open>Container_Run\<close>.
\<close>

section \<open>Mapping of files\<close>

record box_env =
  bx_uid :: nat
  bx_pid :: nat
  bx_createPid :: bool
  bx_list :: "(string \<times> int) list result"
  bx_files :: "state_file list option"
  bx_pidFile :: "string + bool"
  bx_openPid :: bool
  bx_exec :: "string \<Rightarrow> string list \<Rightarrow> string option"
  bx_kill :: "string \<Rightarrow> string option"
  bx_symlink :: "string \<Rightarrow> bool"
  bx_realpath :: "string \<Rightarrow> string option"
  bx_containerID :: "string \<Rightarrow> string"
  bx_absPath :: "string \<Rightarrow> string"
  bx_oci :: oci_env
  bx_run :: run_env

text \<open>\<open>lexically_relative("/")\<close>: the elements of an absolute path; a path that is not absolute gives the empty path.\<close>

definition relative_to_root :: "string \<Rightarrow> string" where
  "relative_to_root p =
     (if \<not> starts_with p ''/'' then []
      else let es = filter (\<lambda>e. e \<noteq> []) (split_on (CHR ''/'') p) in
        if es = [] then ''.'' else join_with (CHR ''/'') es @ (if last p = CHR ''/'' then ''/'' else []))"

definition mappingFile :: "box_env \<Rightarrow> string \<Rightarrow> string" where
  "mappingFile bx file =
     (if \<not> bx_symlink bx file then file
      else case bx_realpath bx file of
        None \<Rightarrow> file
      | Some target \<Rightarrow> ''/run/host/rootfs/'' @ relative_to_root target)"

definition mappingUrl :: "box_env \<Rightarrow> string \<Rightarrow> string" where
  "mappingUrl bx url =
     (if starts_with url ''/'' then mappingFile bx url
      else if starts_with url ''file://''
      then ''file://'' @ relative_to_root (mappingFile bx (drop (length ''file://'') url))
      else url)"

fun filePathMapping :: "box_env \<Rightarrow> cli_options \<Rightarrow> string list \<Rightarrow> string list" where
  "filePathMapping bx opts [] = []"
| "filePathMapping bx opts (arg # args) =
     (if \<not> starts_with arg ''%%'' then arg # filePathMapping bx opts args
      else if arg = ''%%f'' \<or> arg = ''%%F'' then map (mappingFile bx) (op_filePaths opts) @ filePathMapping bx opts args
      else if arg = ''%%u'' \<or> arg = ''%%U'' then map (mappingUrl bx) (op_fileUrls opts) @ filePathMapping bx opts args
      else filePathMapping bx opts args)"

section \<open>Containers of the user\<close>

text \<open>\<open>None\<close>: the directory cannot be listed, which throws in a function that must not.\<close>

fun my_containers :: "(string \<times> int) list \<Rightarrow> state_file list \<Rightarrow> cli_container list" where
  "my_containers containers [] = []"
| "my_containers containers (f # fs) =
     (if sf_proc f \<noteq> Inr True then my_containers containers fs
      else case sf_content f of
        Inl _ \<Rightarrow> my_containers containers fs
      | Inr info \<Rightarrow>
         (case map_of containers (ci_containerID info) of
            None \<Rightarrow> my_containers containers fs
          | Some pid \<Rightarrow> \<lparr>cc_id = ci_containerID info, cc_package = ci_app info, cc_pid = pid\<rparr> # my_containers containers fs))"

definition getCurrentContainers :: "box_env \<Rightarrow> cli_container list result option" where
  "getCurrentContainers bx =
     (case bx_list bx of
        Inl e \<Rightarrow> Some (Inl (Err_wrap ''get current running containers'' e))
      | Inr containers \<Rightarrow> map_option (\<lambda>fs. Inr (my_containers containers fs)) (bx_files bx))"

definition Cli_ps :: "box_env \<Rightarrow> cli_state \<Rightarrow> cli_result \<times> cli_state" where
  "Cli_ps bx st =
     (case getCurrentContainers bx of
        None \<Rightarrow> (Aborted, st)
      | Some (Inl e) \<Rightarrow> print_exit e st
      | Some (Inr cs) \<Rightarrow> (Exited 0, emit (PrintContainers (map (\<lambda>c. c\<lparr>cc_id := take 12 (cc_id c)\<rparr>) cs)) st))"

fun kill_targets :: "string \<Rightarrow> cli_container list \<Rightarrow> cli_state \<Rightarrow> string list \<times> cli_state" where
  "kill_targets app [] st = ([], st)"
| "kill_targets app (c # cs) st =
     (case FuzzyReference_parse (cc_package c) of
        Inl e \<Rightarrow> kill_targets app cs (emit (PrintErr e) st)
      | Inr r \<Rightarrow>
         (if fz_id r = app \<or> FuzzyReference_toString r = app
          then (case kill_targets app cs st of (ids, st') \<Rightarrow> (cc_id c # ids, st'))
          else kill_targets app cs st))"

fun kill_all :: "box_env \<Rightarrow> string list \<Rightarrow> int \<Rightarrow> cli_state \<Rightarrow> cli_result \<times> cli_state" where
  "kill_all bx [] ret st = (Exited ret, st)"
| "kill_all bx (i # ids) ret st =
     (case bx_kill bx i of
        None \<Rightarrow> kill_all bx ids ret st
      | Some e \<Rightarrow> kill_all bx ids (-1) (emit (PrintErr (Err ''command kill'' e (-1))) st))"

definition Cli_kill :: "box_env \<Rightarrow> cli_state \<Rightarrow> cli_result \<times> cli_state" where
  "Cli_kill bx st =
     (case getCurrentContainers bx of
        None \<Rightarrow> (Aborted, st)
      | Some (Inl e) \<Rightarrow> print_exit (Err_wrap ''command kill'' e) st
      | Some (Inr cs) \<Rightarrow>
         (case kill_targets (op_appid (cl_options st)) cs st of (ids, st1) \<Rightarrow> kill_all bx ids 0 st1))"

section \<open>exec\<close>

text \<open>The command for a running container: the last argument is not part of the command line.\<close>

definition exec_args :: "string list \<Rightarrow> string list" where
  "exec_args args =
     [''/bin/bash'', ''--login'', ''-c'',
      join_with (CHR '' '') (if args = [] then [] else ''exec'' # map quote_arg args), ''; wait'']"

definition run_exec :: "box_env \<Rightarrow> string \<Rightarrow> string \<Rightarrow> string list \<Rightarrow> cli_state \<Rightarrow> cli_result \<times> cli_state" where
  "run_exec bx trace containerID commands st =
     (case bx_exec bx containerID commands of
        Some e \<Rightarrow> print_exit (Err trace e (-1)) st
      | None \<Rightarrow> (Exited 0, st))"

definition Cli_exec :: "box_env \<Rightarrow> cli_state \<Rightarrow> cli_result \<times> cli_state" where
  "Cli_exec bx st =
     (let trace = ''ll-cli exec''; opts = cl_options st in
      case getCurrentContainers bx of
        None \<Rightarrow> (Aborted, st)
      | Some (Inl e) \<Rightarrow> print_exit (Err_wrap trace e) st
      | Some (Inr cs) \<Rightarrow>
         (let containerID = (case find (\<lambda>c. cc_package c = op_instance opts) cs of None \<Rightarrow> [] | Some c \<Rightarrow> cc_id c) in
          if containerID = [] then print_exit (Err trace ''no container found'' (-1)) st
          else run_exec bx trace containerID
            (if op_commands opts \<noteq> [] then exec_args (op_commands opts) else [''bash'', ''--login'']) st))"

section \<open>run\<close>

record run_effect =
  rf_result :: cli_result
  rf_state :: cli_state
  rf_dumped :: "container_info option"
  rf_outcome :: "run_outcome option"

definition ended :: "cli_result \<times> cli_state \<Rightarrow> run_effect" where
  "ended r = \<lparr>rf_result = fst r, rf_state = snd r, rf_dumped = None, rf_outcome = None\<rparr>"

text \<open>
  \<open>dumpContainerInfo\<close>: the continuation gets what was written. When the state of the file cannot be read, the error's number
  becomes the result, which counts as success.
\<close>

definition dumpContainerInfo ::
    "box_env \<Rightarrow> container_info \<Rightarrow> (container_info option \<Rightarrow> cli_state \<Rightarrow> run_effect) \<Rightarrow> cli_state \<Rightarrow> run_effect" where
  "dumpContainerInfo bx info f st =
     (case bx_pidFile bx of
        Inl _ \<Rightarrow> f None st
      | Inr False \<Rightarrow> ended (Aborted, st)
      | Inr True \<Rightarrow>
         (if \<not> bx_openPid bx then ended (print_exit (Err ''dump info'' (''failed to open /run/linglong/'' @ show_nat (bx_uid bx) @ ''/'' @ show_nat (bx_pid bx)) (-1)) st)
          else f (Some info) st))"

text \<open>The layers of an application: its runtime, if it has one, and its base.\<close>

definition layer_of ::
    "cli_repo \<Rightarrow> string option \<Rightarrow> string \<Rightarrow> (error \<Rightarrow> error) \<Rightarrow> cli_state \<Rightarrow> run_effect + (reference \<times> string)" where
  "layer_of repo uuid text wrap st =
     (case FuzzyReference_parse text of Inl e \<Rightarrow> Inl (ended (print_exit e st)) | Inr fuzzy \<Rightarrow>
     (case cr_clearReference repo fuzzy of
        None \<Rightarrow> Inl (ended (Aborted, st))
      | Some (Inl e) \<Rightarrow> Inl (ended (print_exit (wrap e) st))
      | Some (Inr ref) \<Rightarrow>
     (case (if uuid = None then cr_getMergedModuleDir repo ref else cr_getLayerDir repo ref ''binary'' uuid) of
        Inl e \<Rightarrow> Inl (ended (print_exit (wrap e) st))
      | Inr dir \<Rightarrow> Inr (ref, dir))))"

definition runtime_layer ::
    "cli_repo \<Rightarrow> package_info_v2 \<Rightarrow> cli_state \<Rightarrow> run_effect + (string option \<times> string option)" where
  "runtime_layer repo info st =
     (case info_runtime info of
        None \<Rightarrow> Inr (None, None)
      | Some text \<Rightarrow>
         (case layer_of repo (info_uuid info) text (\<lambda>e. e) st of
            Inl r \<Rightarrow> Inl r
          | Inr (ref, dir) \<Rightarrow> Inr (if info_uuid info = None then None else Some (Reference_toString ref), Some dir)))"

definition permission_mounts :: "package_info_v2 \<Rightarrow> mount list" where
  "permission_mounts info =
     (case info_permissions info of
        None \<Rightarrow> []
      | Some perm \<Rightarrow>
          map (\<lambda>b. \<lparr>mnt_destination = permissions_bind.bind_destination b, mnt_options = [''rbind''],
                    mnt_source = permissions_bind.bind_source b, mnt_type = ''bind''\<rparr>)
            (case binds perm of None \<Rightarrow> [] | Some bs \<Rightarrow> bs) @
          map (\<lambda>b. \<lparr>mnt_destination = permissions_bind.bind_destination b, mnt_options = [''rbind''],
                    mnt_source = ''rootfs'' @ permissions_bind.bind_source b, mnt_type = ''bind''\<rparr>)
            (case innerBinds perm of None \<Rightarrow> [] | Some bs \<Rightarrow> bs))"

definition run_commands :: "box_env \<Rightarrow> cli_options \<Rightarrow> package_info_v2 \<Rightarrow> string list" where
  "run_commands bx opts info =
     (let commands = (if op_commands opts \<noteq> [] then op_commands opts
                      else case info_command info of None \<Rightarrow> [] | Some cs \<Rightarrow> cs) in
      filePathMapping bx opts (if commands = [] then [''bash''] else commands))"

definition container_of :: "container_options \<Rightarrow> oci_config \<Rightarrow> container" where
  "container_of opts c =
     \<lparr>ct_id = opt_containerID opts, ct_appID = opt_appID opts,
      ct_process = Some \<lparr>pr_args = None, pr_env = oci_env c, pr_cwd = [], pr_user = None, pr_terminal = None\<rparr>,
      ct_mounts = oci_mounts c\<rparr>"

definition run_new :: "box_env \<Rightarrow> container_options \<Rightarrow> string list \<Rightarrow> container_info \<Rightarrow> cli_state \<Rightarrow> run_effect" where
  "run_new bx opts execArgs info st =
     (case ContainerBuilder_create (bx_oci bx) (bx_absPath bx) opts of
        None \<Rightarrow> ended (Aborted, st)
      | Some (Inl e) \<Rightarrow> ended (print_exit e st)
      | Some (Inr (cfg, _)) \<Rightarrow>
          dumpContainerInfo bx info (\<lambda>dumped st.
            case Container_run (bx_run bx)
                \<lparr>pr_args = Some execArgs, pr_env = None, pr_cwd = [], pr_user = None, pr_terminal = None\<rparr> (container_of opts cfg) of
              None \<Rightarrow> \<lparr>rf_result = Aborted, rf_state = st, rf_dumped = dumped, rf_outcome = None\<rparr>
            | Some (Inl e, out) \<Rightarrow>
                \<lparr>rf_result = Exited (-1), rf_state = emit (PrintErr e) st, rf_dumped = dumped, rf_outcome = Some out\<rparr>
            | Some (Inr _, out) \<Rightarrow> \<lparr>rf_result = Exited 0, rf_state = st, rf_dumped = dumped, rf_outcome = Some out\<rparr>) st)"

definition run_app ::
    "cli_repo \<Rightarrow> box_env \<Rightarrow> reference \<Rightarrow> string \<Rightarrow> package_info_v2 \<Rightarrow> reference \<times> string \<Rightarrow> string option \<times> string option \<Rightarrow>
     cli_state \<Rightarrow> run_effect" where
  "run_app repo bx curAppRef appDir info base runtime st =
     (let app = Reference_toString curAppRef; newContainerID = bx_containerID bx (app @ ''-'');
          state = \<lparr>ci_app = app, ci_base = Reference_toString (fst base), ci_containerID = newContainerID, ci_runtime = fst runtime\<rparr>;
          execArgs = run_commands bx (cl_options st) info in
      case getCurrentContainers bx of
        None \<Rightarrow> ended (Aborted, st)
      | Some r \<Rightarrow>
         (case find (\<lambda>c. cc_package c = app) (case r of Inl _ \<Rightarrow> [] | Inr cs \<Rightarrow> cs) of
            Some c \<Rightarrow>
              dumpContainerInfo bx state (\<lambda>dumped st.
                (ended (run_exec bx ''command run'' (cc_id c) (exec_args execArgs) st))\<lparr>rf_dumped := dumped\<rparr>) st
          | None \<Rightarrow>
              run_new bx \<lparr>opt_appID = ref_id curAppRef, opt_containerID = newContainerID, opt_runtimeDir = snd runtime,
                  opt_baseDir = snd base, opt_appDir = Some appDir, opt_patches = [], opt_mounts = permission_mounts info,
                  opt_masks = []\<rparr> execArgs state st))"

definition Cli_run :: "cli_repo \<Rightarrow> box_env \<Rightarrow> cli_state \<Rightarrow> run_effect" where
  "Cli_run repo bx st =
     (if bx_uid bx = 0 then ended (Exited (-1), st)
      else if \<not> bx_createPid bx then ended (Exited (-1), st)
      else case FuzzyReference_parse (op_appid (cl_options st)) of Inl e \<Rightarrow> ended (print_exit e st) | Inr fuzzyRef \<Rightarrow>
      (case cr_clearReference repo fuzzyRef of
         None \<Rightarrow> ended (Aborted, st)
       | Some (Inl e) \<Rightarrow> ended (print_exit e st)
       | Some (Inr curAppRef) \<Rightarrow>
      (case cr_getMergedModuleDir repo curAppRef of Inl e \<Rightarrow> ended (print_exit e st) | Inr appDir \<Rightarrow>
      (case cr_info repo appDir of Inl e \<Rightarrow> ended (print_exit e st) | Inr info \<Rightarrow>
      (case runtime_layer repo info st of Inl r \<Rightarrow> r | Inr runtime \<Rightarrow>
      (case layer_of repo (info_uuid info) (info_base info) (Err_wrap ''command run'') st of Inl r \<Rightarrow> r | Inr base \<Rightarrow>
         run_app repo bx curAppRef appDir info base runtime st))))))"

section \<open>Lemmas\<close>

lemma sh_lex_words:
  "args \<noteq> [] \<Longrightarrow> sh_lex None False (join_with (CHR '' '') (map quote_arg args)) = Some (map Word args)"
proof (induction args)
  case (Cons a args)
  show ?case
  proof (cases args)
    case Nil
    then show ?thesis using sh_lex_quoted [of a "[]"] by (simp add: flush_def)
  next
    case (Cons b bs)
    then show ?thesis using Cons.IH by (simp add: sh_lex_quoted flush_def)
  qed
qed simp

lemma exec_args_words:
  assumes "args \<noteq> []"
  shows "\<exists>cmd. exec_args args = [''/bin/bash'', ''--login'', ''-c'', cmd, ''; wait''] \<and>
    sh_lex None False cmd = Some (Word ''exec'' # map Word args)"
proof -
  obtain a as where args: "args = a # as" using assms by (cases args) auto
  show ?thesis using sh_lex_words [OF assms] unfolding exec_args_def args by (simp add: grow_def flush_def)
qed

lemma dumpContainerInfo_cases:
  "dumpContainerInfo bx info f st = f None st \<or> dumpContainerInfo bx info f st = f (Some info) st \<or>
   rf_dumped (dumpContainerInfo bx info f st) = None \<and> rf_outcome (dumpContainerInfo bx info f st) = None"
  by (auto simp: dumpContainerInfo_def ended_def split: sum.splits bool.splits)

lemma ended_sel [simp]: "rf_dumped (ended r) = None" "rf_outcome (ended r) = None" "rf_result (ended r) = fst r"
  by (simp_all add: ended_def)

lemma layer_of_failed: "layer_of repo uuid text wrap st = Inl r \<Longrightarrow> rf_dumped r = None \<and> rf_outcome r = None"
  by (auto simp: layer_of_def split: sum.splits option.splits if_splits)

lemma runtime_layer_failed: "runtime_layer repo info st = Inl r \<Longrightarrow> rf_dumped r = None \<and> rf_outcome r = None"
  by (auto simp: runtime_layer_def dest: layer_of_failed split: option.splits sum.splits)

text \<open>Only the last part of \<open>run\<close> writes the state file or starts a container.\<close>

lemma Cli_run_app:
  assumes "rf_dumped (Cli_run repo bx st) \<noteq> None \<or> rf_outcome (Cli_run repo bx st) \<noteq> None"
  obtains fuzzy ref appDir info base runtime where
    "FuzzyReference_parse (op_appid (cl_options st)) = Inr fuzzy" "cr_clearReference repo fuzzy = Some (Inr ref)"
    "cr_getMergedModuleDir repo ref = Inr appDir" "cr_info repo appDir = Inr info"
    "Cli_run repo bx st = run_app repo bx ref appDir info base runtime st"
  using assms that unfolding Cli_run_def
  by (auto split: if_splits sum.splits option.splits dest: layer_of_failed runtime_layer_failed)

lemma run_new_dumped: "rf_dumped (run_new bx opts args info st) = Some d \<Longrightarrow> d = info"
  by (auto simp: run_new_def dumpContainerInfo_def split: option.splits sum.splits prod.splits bool.splits if_splits)

lemma run_app_dumped:
  "rf_dumped (run_app repo bx ref appDir info base runtime st) = Some d \<Longrightarrow> ci_app d = Reference_toString ref"
  by (auto simp: run_app_def Let_def dumpContainerInfo_def dest!: run_new_dumped
      split: option.splits sum.splits bool.splits if_splits)

lemma run_app_started:
  assumes "rf_outcome (run_app repo bx ref appDir info base runtime st) = Some out"
  shows "\<exists>c r. Container_run (bx_run bx) \<lparr>pr_args = Some (run_commands bx (cl_options st) info), pr_env = None, pr_cwd = [],
    pr_user = None, pr_terminal = None\<rparr> c = Some (r, out) \<and> ct_appID c = ref_id ref"
  using assms
  by (auto simp: run_app_def run_new_def Let_def dumpContainerInfo_def container_of_def
      split: option.splits sum.splits bool.splits if_splits prod.splits)

lemma lockRepo_ok: "le_open le = None \<Longrightarrow> le_lock le = None \<Longrightarrow> fst (lockRepo le s) = Inr ()"
  by (simp add: lockRepo_def Let_def)

lemma isRefBusy_running:
  assumes "le_open (pe_lock pe) = None" "le_lock (pe_lock pe) = None" "getAllRunningContainers (pe_running pe) = Inr running"
    and "c \<in> set running" "ci_app c = Reference_toString ref"
  shows "fst (isRefBusy pe ref s) = Inr True"
  using assms lockRepo_ok [OF assms(1,2), of s] by (auto simp: isRefBusy_def Let_def split: prod.splits sum.splits)

section \<open>Properties\<close>

text \<open>
  C13: An application that runs is not removed. When \<open>run\<close> has written its state file, and the package manager reads the
  state files with that one among them, then a request to uninstall a package that resolves to the running version is answered
  with the notification that it is running; no task is created.
\<close>

theorem running_application_kept:
  assumes "rf_dumped (Cli_run repo bx st) = Some info"
    and "FuzzyReference_parse (op_appid (cl_options st)) = Inr fuzzy" "cr_clearReference repo fuzzy = Some (Inr ref)"
    and "le_open (pe_lock pe) = None" "le_lock (pe_lock pe) = None"
    and "getAllRunningContainers (pe_running pe) = Inr running" "info \<in> set running"
    and "fuzzyReferenceFromPackage pkg = Inr wanted" "ro_clearReference ops w wanted local_only ''binary'' = Some (Inr ref)"
  shows "\<exists>m s'. Uninstall_request ops pe defaultRepo uuid (Inr pkg) w s = Some (CommonResult (-1) m ''notification'', s') \<and>
    sv_pm s' = sv_pm s \<and> sv_jobs s' = sv_jobs s"
proof -
  have "rf_dumped (Cli_run repo bx st) \<noteq> None \<or> rf_outcome (Cli_run repo bx st) \<noteq> None" using assms(1) by simp
  then obtain appDir pinfo base runtime where "Cli_run repo bx st = run_app repo bx ref appDir pinfo base runtime st"
    by (rule Cli_run_app) (use assms(2,3) in auto)
  then have "ci_app info = Reference_toString ref" using assms(1) run_app_dumped by simp
  from isRefBusy_running [OF assms(4-7) this, of "sv_lock s"] show ?thesis
    using assms(8,9) by (cases "isRefBusy pe ref (sv_lock s)") (simp add: Uninstall_request_def Let_def)
qed

text \<open>
  C14: What runs is what was asked for: in a container that \<open>run\<close> starts, the shell reads exactly the command of the user or,
  without one, that of the package, after the mapping of file arguments, and the container belongs to the
  application the reference resolves to.
\<close>

theorem run_starts_command:
  assumes "rf_outcome (Cli_run repo bx st) = Some out" "ro_started out"
  shows "\<exists>fuzzy ref appDir info q cmd. FuzzyReference_parse (op_appid (cl_options st)) = Inr fuzzy \<and>
    cr_clearReference repo fuzzy = Some (Inr ref) \<and> cr_getMergedModuleDir repo ref = Inr appDir \<and> cr_info repo appDir = Inr info \<and>
    ct_appID (ro_container out) = ref_id ref \<and> ct_process (ro_container out) = Some q \<and>
    pr_args q = Some [''/bin/bash'', ''--login'', ''-e'', ''-c'', cmd] \<and>
    sh_lex None False cmd = Some (map Word (run_commands bx (cl_options st) info) @ [Semicolon, Word ''wait''])"
proof -
  have "rf_dumped (Cli_run repo bx st) \<noteq> None \<or> rf_outcome (Cli_run repo bx st) \<noteq> None" using assms(1) by simp
  then obtain fuzzy ref appDir info base runtime where run:
    "FuzzyReference_parse (op_appid (cl_options st)) = Inr fuzzy" "cr_clearReference repo fuzzy = Some (Inr ref)"
    "cr_getMergedModuleDir repo ref = Inr appDir" "cr_info repo appDir = Inr info"
    "Cli_run repo bx st = run_app repo bx ref appDir info base runtime st"
    by (rule Cli_run_app) blast
  obtain c r where c: "Container_run (bx_run bx) \<lparr>pr_args = Some (run_commands bx (cl_options st) info), pr_env = None,
      pr_cwd = [], pr_user = None, pr_terminal = None\<rparr> c = Some (r, out)" "ct_appID c = ref_id ref"
    using run_app_started assms(1) run(5) by metis
  from Container_run_started [OF c(1) assms(2)] c(2) run show ?thesis
    by (auto simp: bash_args_def sh_lex_args)
qed


section \<open>Witnesses\<close>

definition demo_app_repo :: cli_repo where
  "demo_app_repo = \<lparr>cr_clearReference = (\<lambda>_. Some (Inr demo_reference)), cr_getMergedModuleDir = (\<lambda>_. Inr ''/layers/app''),
     cr_getLayerDir = (\<lambda>_ _ _. Inr ''/layers/app''), cr_info = (\<lambda>_. Inr demo_info), cr_getLayerItem = (\<lambda>_ _. Inr demo_item),
     cr_listLocal = Inr [], cr_listLocalLatest = Inr [], cr_listRemote = (\<lambda>_. Inr [])\<rparr>"

definition demo_box :: "(string \<times> int) list \<Rightarrow> state_file list \<Rightarrow> box_env" where
  "demo_box cs fs = \<lparr>bx_uid = 1000, bx_pid = 7, bx_createPid = True, bx_list = Inr cs, bx_files = Some fs, bx_pidFile = Inr True, bx_openPid = True,
     bx_exec = (\<lambda>_ _. None), bx_kill = (\<lambda>_. None), bx_symlink = (\<lambda>_. False), bx_realpath = (\<lambda>_. None), bx_containerID = (\<lambda>_. ''c2''),
     bx_absPath = (\<lambda>p. p), bx_oci = demo_oci_env\<lparr>env_configVar := ''/etc/box.json''\<rparr>, bx_run = demo_run_env\<rparr>"

definition demo_run_options :: cli_options where
  "demo_run_options = \<lparr>op_filePaths = [], op_fileUrls = [], op_workDir = [], op_appid = ''org.deepin.demo'', op_instance = [], op_module = [],
     op_type = ''app'', op_repoName = [], op_repoUrl = [], op_commands = [''demo'', ''a b''], op_showDevel = False,
     op_showUpgradeList = False, op_forceOpt = False, op_confirmOpt = False\<rparr>"

definition demo_state_info :: container_info where
  "demo_state_info = \<lparr>ci_app = Reference_toString demo_reference, ci_base = Reference_toString demo_reference, ci_containerID = ''c2'', ci_runtime = None\<rparr>"

definition demo_running :: pm_env where
  "demo_running = \<lparr>pe_lock = \<lparr>le_open = None, le_lock = None, le_unlock = None\<rparr>,
     pe_running = Inr [(''/run/linglong/1000'', True,
       Inr [\<lparr>sf_pid = ''7'', sf_regular = True, sf_proc = Inr True, sf_content = Inr demo_state_info\<rparr>])]\<rparr>"

lemma demo_app_parse: "FuzzyReference_parse ''org.deepin.demo'' =
    Inr \<lparr>fz_channel = None, fz_id = ''org.deepin.demo'', fz_version = None, fz_arch = None\<rparr>"
  by code_simp

lemma demo_base_parse: "FuzzyReference_parse ''org.deepin.base/23.1.0'' =
    Inr \<lparr>fz_channel = None, fz_id = ''org.deepin.base'', fz_version = Some \<lparr>major = 23, minor = 1, patch = 0, tweak = None\<rparr>, fz_arch = None\<rparr>"
  by code_simp

lemma demo_run_app:
  "Cli_run demo_app_repo (demo_box cs fs) (new_cli demo_run_options) =
     run_app demo_app_repo (demo_box cs fs) demo_reference ''/layers/app'' demo_info (demo_reference, ''/layers/app'') (None, None)
       (new_cli demo_run_options)"
  by (simp add: Cli_run_def demo_box_def demo_app_repo_def new_cli_def demo_run_options_def demo_app_parse demo_base_parse
      runtime_layer_def layer_of_def demo_info_def)

theorem running_application_kept_witness:
  "\<forall>s. \<exists>m s'. Uninstall_request (ostree_ops demo_setting) demo_running ''stable'' ''u''
      (Inr \<lparr>pk_channel = None, pk_id = ''org.deepin.demo'', pk_module = None, pk_version = None\<rparr>)
      (demo_world [demo_module ''binary'' ''c1'']) s = Some (CommonResult (-1) m ''notification'', s')"
proof -
  let ?files = "[\<lparr>sf_pid = ''6'', sf_regular = True, sf_proc = Inr True,
     sf_content = Inr (demo_state_info\<lparr>ci_containerID := ''c1''\<rparr>)\<rparr>]"
  have run: "rf_dumped (Cli_run demo_app_repo (demo_box [(''c1'', 6)] ?files) (new_cli demo_run_options)) = Some demo_state_info"
    unfolding demo_run_app
    by (simp add: run_app_def getCurrentContainers_def demo_box_def demo_state_info_def dumpContainerInfo_def Let_def)
  have app: "FuzzyReference_parse (op_appid (cl_options (new_cli demo_run_options))) =
      Inr \<lparr>fz_channel = None, fz_id = ''org.deepin.demo'', fz_version = None, fz_arch = None\<rparr>"
    by (simp add: new_cli_def demo_run_options_def demo_app_parse)
  have ref: "cr_clearReference demo_app_repo \<lparr>fz_channel = None, fz_id = ''org.deepin.demo'', fz_version = None, fz_arch = None\<rparr> =
      Some (Inr demo_reference)"
    by (simp add: demo_app_repo_def)
  have daemon: "le_open (pe_lock demo_running) = None" "le_lock (pe_lock demo_running) = None"
    "getAllRunningContainers (pe_running demo_running) = Inr [demo_state_info]" "demo_state_info \<in> set [demo_state_info]"
    "fuzzyReferenceFromPackage \<lparr>pk_channel = None, pk_id = ''org.deepin.demo'', pk_module = None, pk_version = None\<rparr> =
      Inr \<lparr>fz_channel = None, fz_id = ''org.deepin.demo'', fz_version = None, fz_arch = None\<rparr>"
    by (simp_all add: demo_running_def getAllRunningContainers_def fuzzyReferenceFromPackage_def FuzzyReference_create_def
        FuzzyReference_new_def)
  have clear: "ro_clearReference (ostree_ops demo_setting) (demo_world [demo_module ''binary'' ''c1''])
      \<lparr>fz_channel = None, fz_id = ''org.deepin.demo'', fz_version = None, fz_arch = None\<rparr> local_only ''binary'' =
      Some (Inr demo_reference)"
    by code_simp
  from running_application_kept [OF run app ref daemon clear, of "''stable''" "''u''"] show ?thesis by blast
qed

theorem run_starts_command_witness:
  "\<exists>out q cmd. rf_outcome (Cli_run demo_app_repo (demo_box [] []) (new_cli demo_run_options)) = Some out \<and>
     ct_process (ro_container out) = Some q \<and> pr_args q = Some [''/bin/bash'', ''--login'', ''-e'', ''-c'', cmd] \<and>
     sh_lex None False cmd = Some [Word ''demo'', Word ''a b'', Semicolon, Word ''wait'']"
proof -
  have "(case rf_outcome (Cli_run demo_app_repo (demo_box [] []) (new_cli demo_run_options)) of None \<Rightarrow> False | Some out \<Rightarrow> ro_started out)"
    unfolding demo_run_app by code_simp
  then obtain out where out: "rf_outcome (Cli_run demo_app_repo (demo_box [] []) (new_cli demo_run_options)) = Some out"
    "ro_started out" by (auto split: option.splits)
  have "run_commands (demo_box [] []) (cl_options (new_cli demo_run_options)) i = [''demo'', ''a b'']" for i
    by (simp add: run_commands_def new_cli_def demo_run_options_def Let_def)
  with run_starts_command [OF out] out show ?thesis by auto
qed

text \<open>
  Where the code does not do what it means to: a file URL loses the slash before its path; a client that has created its
  state file and not yet written it makes the package manager unable to tell what is running; the runtime of an application is not
  recorded in the state file unless the application has an uuid.
\<close>

lemma file_url_loses_slash: "mappingUrl (demo_box [] []) ''file:///home/f'' = ''file://home/f''"
  by code_simp

lemma empty_state_file_blocks:
  assumes "pe_running pe = Inr [(d, True, Inr [\<lparr>sf_pid = p, sf_regular = True, sf_proc = Inr True, sf_content = Inl e\<rparr>])]"
    and "le_open (pe_lock pe) = None" "le_lock (pe_lock pe) = None"
  shows "\<not> is_ok (fst (isRefBusy pe ref s))"
  using assms lockRepo_ok [OF assms(2,3), of s]
  by (auto simp: isRefBusy_def Let_def getAllRunningContainers_def split: prod.splits sum.splits)

lemma runtime_not_recorded:
  "info_uuid info = None \<Longrightarrow> runtime_layer repo info st = Inr (r, d) \<Longrightarrow> r = None"
  by (auto simp: runtime_layer_def split: option.splits sum.splits)
end
