(* ===== verification/Repo_Remote.thy ===== *)
theory Repo_Remote
  imports Repo_Update "HOL-Library.Monad_Syntax"
begin

text \<open>
  The rest of \<open>libs/linglong/src/linglong/repo/ostree_repo.cpp\<close>: opening or creating the repository, the
  requests to the server (\<open>listRemote\<close>, \<open>push\<close>, \<open>pushToRemote\<close>, with \<open>client_factory.cpp\<close>), and what is done
  for layer directories that are symbolic links. The generated HTTP client is a parameter: a call
  gives no response (a null pointer) or a response, whose members may be null pointers too.
\<close>

section \<open>The client\<close>

record client_factory =
  m_server :: string

definition ClientFactory_new :: "string \<Rightarrow> client_factory" where
  "ClientFactory_new server = \<lparr>m_server = server\<rparr>"

definition setServer :: "string \<Rightarrow> client_factory \<Rightarrow> client_factory" where
  "setServer server f = f\<lparr>m_server := server\<rparr>"

text \<open>A client is its base path and its user agent; \<open>version\<close> is \<open>LINGLONG_VERSION\<close>.\<close>

record api_client =
  basePath :: string
  userAgent :: string

definition createClientV2 :: "string \<Rightarrow> client_factory \<Rightarrow> api_client" where
  "createClientV2 version f = \<lparr>basePath = m_server f, userAgent = ''linglong/'' @ version\<rparr>"

record 'data response =
  res_code :: int
  res_data :: "'data option"
  res_msg :: "string option"

definition response_msg :: "'data response \<Rightarrow> string" where
  "response_msg res = (case res_msg res of Some msg \<Rightarrow> msg | None \<Rightarrow> ''cannot send request to remote server'')"

section \<open>Searching the server\<close>

record fuzzy_search_req =
  rq_channel :: string
  rq_version :: string
  rq_arch :: string
  rq_app_id :: string
  rq_repo_name :: string

record register_struct =
  reg_app_id :: "string option"
  reg_arch :: "string option"
  reg_channel :: "string option"
  reg_description :: "string option"
  reg_kind :: "string option"
  reg_module :: "string option"
  reg_name :: "string option"
  reg_runtime :: "string option"
  reg_size :: int
  reg_version :: "string option"

text \<open>
  A record of the answer as a package description. A string made of a null pointer throws, and a null
  record is dereferenced: both are \<open>None\<close>.
\<close>

definition remote_info :: "register_struct option \<Rightarrow> package_info_v2 option" where
  "remote_info entry =
     do {
       item \<leftarrow> entry;
       arch \<leftarrow> reg_arch item;
       channel \<leftarrow> reg_channel item;
       description \<leftarrow> reg_description item;
       app_id \<leftarrow> reg_app_id item;
       kind \<leftarrow> reg_kind item;
       moduleName \<leftarrow> reg_module item;
       name \<leftarrow> reg_name item;
       runtime \<leftarrow> reg_runtime item;
       version \<leftarrow> reg_version item;
       Some \<lparr>info_arch = [arch], info_base = [], info_channel = channel, info_command = None,
             info_compatibleVersion = None, info_description = Some description, info_id = app_id,
             info_kind = kind, info_module = moduleName, info_name = name, info_permissions = None,
             info_runtime = Some runtime, info_schemaVersion = [], info_size = reg_size item,
             info_uuid = None, info_version = version\<rparr>
     }"

definition search_arch :: "architecture result \<Rightarrow> fuzzy_reference \<Rightarrow> architecture option" where
  "search_arch curArch fuzzyRef =
     (case fz_arch fuzzyRef of
        Some a \<Rightarrow> Some a
      | None \<Rightarrow> (case curArch of Inl _ \<Rightarrow> None | Inr a \<Rightarrow> Some a))"

definition search_req :: "string \<Rightarrow> architecture \<Rightarrow> fuzzy_reference \<Rightarrow> fuzzy_search_req" where
  "search_req repo arch fuzzyRef =
     \<lparr>rq_channel = (case fz_channel fuzzyRef of None \<Rightarrow> [] | Some c \<Rightarrow> c),
      rq_version = (case fz_version fuzzyRef of None \<Rightarrow> [] | Some v \<Rightarrow> Version_toString v),
      rq_arch = Architecture_toString arch, rq_app_id = fz_id fuzzyRef, rq_repo_name = repo\<rparr>"

definition listRemote ::
    "architecture result \<Rightarrow> (api_client \<Rightarrow> fuzzy_search_req \<Rightarrow> register_struct option list response option) \<Rightarrow>
     api_client \<Rightarrow> string \<Rightarrow> fuzzy_reference \<Rightarrow> package_info_v2 list result option" where
  "listRemote curArch fuzzySearchApp client repo fuzzyRef =
     (let trace = ''list remote references'' in
      case search_arch curArch fuzzyRef of None \<Rightarrow> None | Some arch \<Rightarrow>
      case fuzzySearchApp client (search_req repo arch fuzzyRef) of
        None \<Rightarrow> Some (Inl (Err trace ''cannot send request to remote server'' (-1)))
      | Some res \<Rightarrow>
         (if res_code res \<noteq> 200 then Some (Inl (Err trace (response_msg res) (-1)))
          else case res_data res of
            None \<Rightarrow> Some (Inr [])
          | Some entries \<Rightarrow> map_option Inr (those (map remote_info entries))))"

section \<open>Pushing a layer\<close>

text \<open>
  How a push ends, if it does: with a result, or with the process (a null pointer is dereferenced or
  made a string).
\<close>

datatype push_end = Pushed "unit result" | Crashed

record upload_env =
  ps_username :: string
  ps_password :: string
  ps_signIn :: "api_client \<Rightarrow> string \<Rightarrow> string \<Rightarrow> string option response option"
  ps_newTask :: "api_client \<Rightarrow> string option \<Rightarrow> string \<Rightarrow> string \<Rightarrow> string option response option"
  ps_tmpDir :: "string + string"
  ps_tar :: "string list \<Rightarrow> string result"
  ps_upload :: "api_client \<Rightarrow> string option \<Rightarrow> string option \<Rightarrow> string \<Rightarrow> unit response option"
  ps_info :: "api_client \<Rightarrow> string option \<Rightarrow> string option \<Rightarrow> nat \<Rightarrow> string option response option"

definition cstr :: "string option \<Rightarrow> string" where
  "cstr p = (case p of None \<Rightarrow> [] | Some s \<Rightarrow> s)"

text \<open>One answer to the question for the state of the upload; \<open>None\<close>: ask again.\<close>

definition upload_answer :: "string \<Rightarrow> string option \<Rightarrow> string option response option \<Rightarrow> push_end option" where
  "upload_answer trace taskID info =
     (case info of
        None \<Rightarrow> Some (Pushed (Inl (Err trace (''get upload info error('' @ cstr taskID @ '')'') (-1))))
      | Some res \<Rightarrow>
         (if res_code res \<noteq> 200
          then Some (Pushed (Inl (Err trace (''get upload info error('' @ cstr taskID @ ''): '' @ response_msg res) (-1))))
          else case res_data res of
            Some (Some status) \<Rightarrow>
             (if status = ''complete'' then Some (Pushed (Inr ()))
              else if status = ''failed''
              then Some (Pushed (Inl (Err trace (''An error occurred on the remote server('' @ cstr taskID @ '')'') (-1))))
              else None)
          | _ \<Rightarrow> Some Crashed))"

text \<open>The loop: question number \<open>n\<close> is asked after \<open>n + 1\<close> seconds. \<open>None\<close> is a loop without end.\<close>

partial_function (option) poll_upload ::
    "string \<Rightarrow> string option \<Rightarrow> (nat \<Rightarrow> string option response option) \<Rightarrow> nat \<Rightarrow> push_end option" where
  "poll_upload trace taskID info n =
     (case upload_answer trace taskID (info n) of
        Some e \<Rightarrow> Some e
      | None \<Rightarrow> poll_upload trace taskID info (Suc n))"

declare poll_upload.simps [code]

text \<open>
  What comes before the loop: the end, or the token and the id of the task that has been uploaded.
  The address \<open>url\<close> is only logged.
\<close>

definition tar_args :: "string \<Rightarrow> string \<Rightarrow> string list" where
  "tar_args tarFile layerDir = [''-zcf'', tarFile, ''-C'', layerDir, ''.'']"

definition push_upload ::
    "upload_env \<Rightarrow> api_client \<Rightarrow> string result \<Rightarrow> string \<Rightarrow> string \<Rightarrow> reference \<Rightarrow> string \<Rightarrow>
     push_end + (string option \<times> string option)" where
  "push_upload ps client layerDir trace remoteRepo ref moduleName =
     (let fail = (\<lambda>msg. Inl (Pushed (Inl (Err trace msg (-1)))));
          wrap = (\<lambda>e. Inl (Pushed (Inl (Err_wrap trace e)))) in
      case layerDir of Inl e \<Rightarrow> Inl (Pushed (Inl (Err_wrap_msg trace ''layer not found'' e))) | Inr d \<Rightarrow>
      case ps_signIn ps client (ps_username ps) (ps_password ps) of None \<Rightarrow> fail ''sign error'' | Some sign \<Rightarrow>
      if res_code sign \<noteq> 200
      then fail (''sign error('' @ ps_username ps @ ''): '' @ response_msg sign)
      else case res_data sign of None \<Rightarrow> Inl Crashed | Some token \<Rightarrow>
     (case ps_newTask ps client token (ostreeSpecFromReferenceV2 ref None moduleName None) remoteRepo of
        None \<Rightarrow> fail ''create task error''
      | Some task \<Rightarrow>
      if res_code task \<noteq> 200 then fail (''create task error: '' @ response_msg task)
      else case res_data task of None \<Rightarrow> Inl Crashed | Some taskID \<Rightarrow>
     (case ps_tmpDir ps of Inl msg \<Rightarrow> fail msg | Inr tmp \<Rightarrow>
      let tarFile = tmp @ ''/'' @ ref_id ref @ ''.tgz'' in
      case ps_tar ps (tar_args tarFile d) of Inl e \<Rightarrow> wrap e | Inr _ \<Rightarrow>
     (case ps_upload ps client token taskID tarFile of
        None \<Rightarrow> fail (''upload file error('' @ cstr taskID @ '')'')
      | Some res \<Rightarrow>
         (if res_code res \<noteq> 200
          then fail (''upload file error('' @ cstr taskID @ ''): '' @ response_msg res)
          else Inr (token, taskID))))))"

definition pushToRemote ::
    "upload_env \<Rightarrow> (layers_item list \<Rightarrow> layers_item list) \<Rightarrow> api_client \<Rightarrow> ostree_repo \<Rightarrow> string \<Rightarrow> string \<Rightarrow>
     reference \<Rightarrow> string \<Rightarrow> push_end option" where
  "pushToRemote ps std_sort client r remoteRepo url ref moduleName =
     (let trace = ''push '' @ Reference_toString ref in
      case push_upload ps client (getLayerDir_ref std_sort r ref moduleName None) trace remoteRepo ref moduleName of
        Inl e \<Rightarrow> Some e
      | Inr (token, taskID) \<Rightarrow> poll_upload trace taskID (ps_info ps client token taskID) 0)"

definition OSTreeRepo_push ::
    "upload_env \<Rightarrow> (layers_item list \<Rightarrow> layers_item list) \<Rightarrow> api_client \<Rightarrow> repo_config \<Rightarrow> ostree_repo \<Rightarrow>
     reference \<Rightarrow> string \<Rightarrow> push_end option" where
  "OSTreeRepo_push ps std_sort client cfg r ref moduleName =
     (case map_of (cfg_repos cfg) (cfg_defaultRepo cfg) of
        None \<Rightarrow> Some Crashed
      | Some url \<Rightarrow> pushToRemote ps std_sort client r (cfg_defaultRepo cfg) url ref moduleName)"

section \<open>Opening the repository\<close>

text \<open>
  \<open>se_open\<close>: \<open>ostree_repo_open\<close> succeeds; \<open>cv\<close> holds the outcomes of the calls of
  \<open>updateOstreeRepoConfig\<close>.
\<close>

record start_env =
  se_exists :: bool
  se_readable :: bool
  se_open :: bool
  se_writable :: bool
  se_create :: "gerror option"

definition ostreeRepoDir :: "string \<Rightarrow> string" where
  "ostreeRepoDir repoDir = repoDir @ ''/repo''"

text \<open>A repository that has been created has no remote yet.\<close>

definition createOstreeRepo ::
    "start_env \<Rightarrow> config_env \<Rightarrow> string \<Rightarrow> string \<Rightarrow> string \<Rightarrow> config_state \<Rightarrow> unit result \<times> config_state" where
  "createOstreeRepo se cv location remoteName url s =
     (let trace = ''create linglong repository at '' @ location in
      if \<not> se_writable se then (Inl (Err trace ''permission denied'' (-1)), s)
      else case se_create se of
        Some e \<Rightarrow> (Inl (Err_gerror trace ''ostree_repo_create'' e), s)
      | None \<Rightarrow>
         (case updateOstreeRepoConfig cv remoteName url (s\<lparr>cf_remotes := Map.empty\<rparr>) of
            (Inl e, s1) \<Rightarrow> (Inl (Err_wrap trace e), s1)
          | (Inr _, s1) \<Rightarrow> (Inr (), s1)))"

text \<open>
  The constructor; \<open>s\<close> is what the process finds: the file, the remotes of the ostree repository, the
  server of the client factory and the directory of the cache. \<open>None\<close> is \<open>qFatal\<close>, or the exception of
  \<open>repos.at\<close> in a \<open>noexcept\<close> function. A failing update of the remote is only logged for a repository
  that could be opened. For a new one the default repository is looked up with \<open>operator[]\<close>, which
  adds it with an empty address when it is missing.
\<close>

definition with_default :: "repo_config \<Rightarrow> repo_config" where
  "with_default cfg =
     (case map_of (cfg_repos cfg) (cfg_defaultRepo cfg) of
        Some _ \<Rightarrow> cfg
      | None \<Rightarrow> cfg\<lparr>cfg_repos := put (cfg_defaultRepo cfg) [] (cfg_repos cfg)\<rparr>)"

definition repo_url :: "repo_config \<Rightarrow> string" where
  "repo_url cfg = (case map_of (cfg_repos cfg) (cfg_defaultRepo cfg) of Some url \<Rightarrow> url | None \<Rightarrow> [])"

definition open_cache ::
    "cache_env \<Rightarrow> (repository_cache \<Rightarrow> string) \<Rightarrow> (string \<Rightarrow> repository_cache result) \<Rightarrow> 'file ostree_view \<Rightarrow>
     repository_cache \<Rightarrow> repo_config \<Rightarrow> config_state \<Rightarrow> config_state option" where
  "open_cache env dump load os blank cfg s =
     (case RepoCache_create env dump load os blank cfg (rcs_dir (cf_cache s)) of
        (Inl _, _) \<Rightarrow> None
      | (Inr c, _) \<Rightarrow> Some (s\<lparr>cf_cfg := cfg, cf_cache := c\<rparr>))"

definition OSTreeRepo_new ::
    "start_env \<Rightarrow> config_env \<Rightarrow> cache_env \<Rightarrow> (repository_cache \<Rightarrow> string) \<Rightarrow>
     (string \<Rightarrow> repository_cache result) \<Rightarrow> 'file ostree_view \<Rightarrow> repository_cache \<Rightarrow> string \<Rightarrow> repo_config \<Rightarrow>
     config_state \<Rightarrow> config_state option" where
  "OSTreeRepo_new se cv env dump load os blank path cfg s =
     (if \<not> se_exists se \<or> \<not> se_readable se then None
      else if se_open se
      then case map_of (cfg_repos cfg) (cfg_defaultRepo cfg) of
             None \<Rightarrow> None
           | Some url \<Rightarrow>
              open_cache env dump load os blank cfg (snd (updateOstreeRepoConfig cv (cfg_defaultRepo cfg) url s))
      else let cfg' = with_default cfg in
        case createOstreeRepo se cv (ostreeRepoDir path) (cfg_defaultRepo cfg) (repo_url cfg) s of
          (Inl _, _) \<Rightarrow> None
        | (Inr _, s1) \<Rightarrow> open_cache env dump load os blank cfg' s1)"

text \<open>
  \<open>updateConfig\<close>, the older variant of \<open>setConfig\<close>: the rollback is registered before the result of the
  update is looked at, and it covers only the remote. It runs \<open>repos.at\<close> in a \<open>noexcept\<close> lambda.
\<close>

definition updateConfig ::
    "config_env \<Rightarrow> config_env \<Rightarrow> repo_config \<Rightarrow> config_state \<Rightarrow> (unit result \<times> config_state) option" where
  "updateConfig cv rb newCfg s =
     (let trace = ''update underlying config'' in
      case saveConfig cv newCfg s of
        (Inl e, s1) \<Rightarrow> Some (Inl (Err_wrap trace e), s1)
      | (Inr _, s1) \<Rightarrow>
         (case map_of (cfg_repos newCfg) (cfg_defaultRepo newCfg) of
            None \<Rightarrow> None
          | Some url \<Rightarrow>
             (case updateOstreeRepoConfig cv (cfg_defaultRepo newCfg) url s1 of
                (Inr _, s2) \<Rightarrow> Some (Inr (), s2\<lparr>cf_server := url, cf_cfg := newCfg\<rparr>)
              | (Inl e, s2) \<Rightarrow>
                 (case map_of (cfg_repos (cf_cfg s)) (cfg_defaultRepo (cf_cfg s)) of
                    None \<Rightarrow> None
                  | Some oldUrl \<Rightarrow>
                     (let restore = (\<lambda>_ st. snd (updateOstreeRepoConfig rb (cfg_defaultRepo (cf_cfg s)) oldUrl st));
                          tx = addRollBack restore () Transaction_new in
                      Some (Inl (Err_wrap trace e), Transaction_dtor tx s2))))))"

section \<open>Shared files and links\<close>

text \<open>The commands \<open>updateSharedInfo\<close> runs, each with its argument; their failures are only logged.\<close>

definition updateSharedInfo :: "(string \<Rightarrow> bool) \<Rightarrow> string \<Rightarrow> (string \<times> string) list" where
  "updateSharedInfo exists repoDir =
     filter (\<lambda>(_, d). exists d)
       [(''update-desktop-database'', repoDir @ ''/entries/share/applications''),
        (''update-mime-database'', repoDir @ ''/entries/share/mime''),
        (''glib-compile-schemas'', repoDir @ ''/entries/share/glib-2.0/schemas'')]"

text \<open>
  What \<open>remove\<close> does when the layer directory is a symbolic link. Paths are lists of names;
  \<open>QFile::remove\<close> removes links and files but no directory. \<open>isEmpty\<close> does not see hidden names. \<open>cdUp\<close>
  fails at the root and when the parent does not exist. The first result holds the directories
  a warning is written for.
\<close>

type_synonym path = "string list"

record link_fs =
  lf_links :: "(path \<times> path) list"
  lf_dirs :: "path list"
  lf_files :: "path list"

definition lf_entries :: "link_fs \<Rightarrow> path list" where
  "lf_entries fs = map fst (lf_links fs) @ lf_dirs fs @ lf_files fs"

definition QFile_remove :: "path \<Rightarrow> link_fs \<Rightarrow> bool \<times> link_fs" where
  "QFile_remove p fs =
     (if p \<in> set (map fst (lf_links fs)) \<or> p \<in> set (lf_files fs)
      then (True, fs\<lparr>lf_links := filter (\<lambda>l. fst l \<noteq> p) (lf_links fs), lf_files := removeAll p (lf_files fs)\<rparr>)
      else (False, fs))"

definition hidden_name :: "string \<Rightarrow> bool" where
  "hidden_name n \<longleftrightarrow> starts_with n ''.''"

definition is_empty_dir :: "link_fs \<Rightarrow> path \<Rightarrow> bool" where
  "is_empty_dir fs d \<longleftrightarrow> \<not> list_ex (\<lambda>q. q \<noteq> [] \<and> butlast q = d \<and> \<not> hidden_name (last q)) (lf_entries fs)"

definition remove_if_empty :: "path \<Rightarrow> link_fs \<Rightarrow> path list \<times> link_fs" where
  "remove_if_empty target fs =
     (if \<not> is_empty_dir fs target then ([], fs)
      else case QFile_remove target fs of (ok, fs1) \<Rightarrow> (if ok then [] else [target], fs1))"

function remove_parents :: "path \<Rightarrow> path \<Rightarrow> link_fs \<Rightarrow> path list \<times> link_fs" where
  "remove_parents topLevel target fs =
     (if target = topLevel then ([], fs)
      else if target = [] \<or> butlast target \<notin> set (lf_dirs (snd (remove_if_empty target fs)))
      then remove_if_empty target fs
      else apfst (append (fst (remove_if_empty target fs)))
             (remove_parents topLevel (butlast target) (snd (remove_if_empty target fs))))"
  by pat_completeness auto

termination by (relation "measure (\<lambda>(_, target, _). length target)") auto

declare remove_parents.simps [simp del]

text \<open>
  \<open>removeRecursively\<close> on the link removes what is in the directory it points to, given that each of
  the entries can be removed; \<open>rmdir\<close> of the link fails. Then the loop above starts at the parent of
  the target, if that exists, and the link is removed.
\<close>

definition below_dir :: "path \<Rightarrow> path \<Rightarrow> bool" where
  "below_dir d q \<longleftrightarrow> length d < length q \<and> take (length d) q = d"

definition clear_dir :: "path \<Rightarrow> link_fs \<Rightarrow> link_fs" where
  "clear_dir d fs = fs\<lparr>lf_links := filter (\<lambda>l. \<not> below_dir d (fst l)) (lf_links fs),
     lf_dirs := filter (\<lambda>q. \<not> below_dir d q) (lf_dirs fs), lf_files := filter (\<lambda>q. \<not> below_dir d q) (lf_files fs)\<rparr>"

definition remove_linked :: "path \<Rightarrow> link_fs \<Rightarrow> path list \<times> link_fs" where
  "remove_linked layerDir fs =
     (case map_of (lf_links fs) layerDir of
        None \<Rightarrow> ([], fs)
      | Some target \<Rightarrow>
         (let fs1 = clear_dir target fs;
              start = (if target = [] \<or> butlast target \<notin> set (lf_dirs fs1) then target else butlast target) in
          case remove_parents (butlast layerDir) start fs1 of
            (warned, fs2) \<Rightarrow> (warned, snd (QFile_remove layerDir fs2))))"

section \<open>Lemmas\<close>

lemma those_Some: "those xs = Some ys \<longleftrightarrow> xs = map Some ys"
  by (induction xs arbitrary: ys) (auto split: option.splits)

lemma those_None: "those xs = None \<longleftrightarrow> None \<in> set xs"
  by (induction xs) (auto split: option.splits)

lemma remote_info_None: "remote_info entry = None \<longleftrightarrow>
    (case entry of None \<Rightarrow> True | Some i \<Rightarrow> None \<in> {reg_arch i, reg_channel i, reg_description i, reg_app_id i,
       reg_kind i, reg_module i, reg_name i, reg_runtime i, reg_version i})"
  by (auto simp: remote_info_def Option.bind_eq_None_conv split: option.splits)

text \<open>The loop ends with the first answer that is not a request to wait, and runs forever without one.\<close>

lemma poll_upload_step:
  "upload_answer trace taskID (info n) = None \<Longrightarrow> poll_upload trace taskID info n = poll_upload trace taskID info (Suc n)"
  by (subst poll_upload.simps) simp

lemma poll_upload_skip:
  assumes "\<And>k. m \<le> k \<Longrightarrow> k < n \<Longrightarrow> upload_answer trace taskID (info k) = None" and "m \<le> n"
  shows "poll_upload trace taskID info m = poll_upload trace taskID info n"
  using assms(2,1)
proof (induction rule: inc_induct)
  case (step j)
  then show ?case using poll_upload_step [of trace taskID info j] by simp
qed simp

lemma poll_upload_first:
  assumes "\<And>k. k < n \<Longrightarrow> upload_answer trace taskID (info k) = None"
    and "upload_answer trace taskID (info n) = Some e"
  shows "poll_upload trace taskID info 0 = Some e"
proof -
  have "poll_upload trace taskID info n = Some e" using assms(2) by (subst poll_upload.simps) simp
  then show ?thesis using poll_upload_skip [of 0 n] assms(1) by simp
qed

lemma poll_upload_None:
  assumes "\<And>k. upload_answer trace taskID (info k) = None"
  shows "poll_upload trace taskID info n = None"
proof (rule ccontr)
  assume "poll_upload trace taskID info n \<noteq> None"
  then obtain e where e: "poll_upload trace taskID info n = Some e" by blast
  have "\<exists>k. upload_answer trace taskID (info k) \<noteq> None"
    by (rule poll_upload.raw_induct [OF _ e]) (auto split: option.splits)
  then show False using assms by simp
qed

lemma poll_upload_Some: "poll_upload trace taskID info 0 = Some e \<longleftrightarrow>
    (\<exists>n. upload_answer trace taskID (info n) = Some e \<and> (\<forall>k<n. upload_answer trace taskID (info k) = None))"
proof
  assume e: "poll_upload trace taskID info 0 = Some e"
  let ?P = "\<lambda>n. upload_answer trace taskID (info n) \<noteq> None"
  have "\<exists>n. ?P n" using poll_upload_None [of trace taskID info 0] e by (metis option.distinct(1))
  then have "?P (LEAST n. ?P n)" by (rule LeastI_ex)
  moreover have least: "\<forall>k < (LEAST n. ?P n). upload_answer trace taskID (info k) = None"
    using not_less_Least [of _ ?P] by blast
  ultimately have "upload_answer trace taskID (info (LEAST n. ?P n)) = Some e"
    using poll_upload_first [of "LEAST n. ?P n" trace taskID info] e by (metis option.exhaust option.inject)
  with least show "\<exists>n. upload_answer trace taskID (info n) = Some e \<and> (\<forall>k<n. upload_answer trace taskID (info k) = None)"
    by blast
qed (auto intro: poll_upload_first)

lemma poll_upload_forever:
  "poll_upload trace taskID info 0 = None \<longleftrightarrow> (\<forall>n. upload_answer trace taskID (info n) = None)"
  using poll_upload_None [of trace taskID info 0] LeastI_ex [of "\<lambda>n. upload_answer trace taskID (info n) \<noteq> None"]
    poll_upload_first [of "LEAST n. upload_answer trace taskID (info n) \<noteq> None" trace taskID info] not_less_Least
  by (metis (mono_tags, lifting) option.exhaust option.simps(3))

text \<open>A call that was answered with the code 200 and some data, and one that was accepted.\<close>

definition answered :: "'data response option \<Rightarrow> 'data \<Rightarrow> bool" where
  "answered res x \<longleftrightarrow> (case res of None \<Rightarrow> False | Some q \<Rightarrow> res_code q = 200 \<and> res_data q = Some x)"

definition upload_accepted :: "'data response option \<Rightarrow> bool" where
  "upload_accepted res \<longleftrightarrow> (case res of None \<Rightarrow> False | Some q \<Rightarrow> res_code q = 200)"

lemma upload_answer_pending: "upload_answer trace taskID info = None \<longleftrightarrow>
    (\<exists>status. answered info (Some status) \<and> status \<noteq> ''complete'' \<and> status \<noteq> ''failed'')"
  by (auto simp: upload_answer_def answered_def split: option.splits)

lemma upload_answer_complete:
  "upload_answer trace taskID info = Some (Pushed (Inr ())) \<longleftrightarrow> answered info (Some ''complete'')"
  by (auto simp: upload_answer_def answered_def split: option.splits)

lemma push_upload_not_done: "push_upload ps client layerDir trace remoteRepo ref moduleName \<noteq> Inl (Pushed (Inr ()))"
  by (auto simp: push_upload_def Let_def split: sum.splits option.splits)

definition layer_uploaded ::
    "upload_env \<Rightarrow> (layers_item list \<Rightarrow> layers_item list) \<Rightarrow> api_client \<Rightarrow> ostree_repo \<Rightarrow> string \<Rightarrow> reference \<Rightarrow> string \<Rightarrow>
     string option \<Rightarrow> string option \<Rightarrow> bool" where
  "layer_uploaded ps std_sort client r remoteRepo ref moduleName token taskID \<longleftrightarrow>
     (\<exists>d tmp out. getLayerDir_ref std_sort r ref moduleName None = Inr d \<and>
       answered (ps_signIn ps client (ps_username ps) (ps_password ps)) token \<and>
       answered (ps_newTask ps client token (ostreeSpecFromReferenceV2 ref None moduleName None) remoteRepo) taskID \<and>
       ps_tmpDir ps = Inr tmp \<and> ps_tar ps (tar_args (tmp @ ''/'' @ ref_id ref @ ''.tgz'') d) = Inr out \<and>
       upload_accepted (ps_upload ps client token taskID (tmp @ ''/'' @ ref_id ref @ ''.tgz'')))"

definition upload_waiting :: "upload_env \<Rightarrow> api_client \<Rightarrow> string option \<Rightarrow> string option \<Rightarrow> nat \<Rightarrow> bool" where
  "upload_waiting ps client token taskID k \<longleftrightarrow>
     (\<exists>status. answered (ps_info ps client token taskID k) (Some status) \<and> status \<noteq> ''complete'' \<and> status \<noteq> ''failed'')"

lemma push_upload_Inr: "push_upload ps client layerDir trace remoteRepo ref moduleName = Inr (token, taskID) \<longleftrightarrow>
    (\<exists>d tmp out. layerDir = Inr d \<and> answered (ps_signIn ps client (ps_username ps) (ps_password ps)) token \<and>
       answered (ps_newTask ps client token (ostreeSpecFromReferenceV2 ref None moduleName None) remoteRepo) taskID \<and>
       ps_tmpDir ps = Inr tmp \<and> ps_tar ps (tar_args (tmp @ ''/'' @ ref_id ref @ ''.tgz'') d) = Inr out \<and>
       upload_accepted (ps_upload ps client token taskID (tmp @ ''/'' @ ref_id ref @ ''.tgz'')))"
  by (auto simp: push_upload_def answered_def upload_accepted_def Let_def split: sum.splits option.splits if_splits)

lemma QFile_remove_dirs [simp]: "lf_dirs (snd (QFile_remove p fs)) = lf_dirs fs"
  by (simp add: QFile_remove_def)

lemma remove_if_empty_dirs [simp]: "lf_dirs (snd (remove_if_empty target fs)) = lf_dirs fs"
  by (simp add: remove_if_empty_def QFile_remove_def)

lemma remove_parents_dirs [simp]: "lf_dirs (snd (remove_parents topLevel target fs)) = lf_dirs fs"
  by (induction topLevel target fs rule: remove_parents.induct) (subst remove_parents.simps, simp)

lemma QFile_remove_gone: "p \<notin> set (map fst (lf_links (snd (QFile_remove p fs))))"
  by (auto simp: QFile_remove_def)

text \<open>
  Removing a layer whose directory is a link: the link is gone, and the directory it points to is
  emptied. Neither that directory nor one of its parents is removed, since \<open>QFile::remove\<close> does not
  remove directories.
\<close>

lemma remove_linked_keeps_dirs:
  assumes "map_of (lf_links fs) layerDir = Some target"
  shows "layerDir \<notin> set (map fst (lf_links (snd (remove_linked layerDir fs)))) \<and>
    lf_dirs (snd (remove_linked layerDir fs)) = filter (\<lambda>q. \<not> below_dir target q) (lf_dirs fs)"
proof -
  obtain ws fs2 where run: "remove_parents (butlast layerDir)
      (if target = [] \<or> butlast target \<notin> set (lf_dirs (clear_dir target fs)) then target else butlast target)
      (clear_dir target fs) = (ws, fs2)" by (metis surj_pair)
  then have "lf_dirs fs2 = lf_dirs (clear_dir target fs)"
    by (metis remove_parents_dirs snd_conv)
  then show ?thesis using assms run QFile_remove_gone [of layerDir fs2]
    by (simp add: remove_linked_def Let_def clear_dir_def)
qed

text \<open>The server is asked for the architecture of the host unless another one is wanted.\<close>

lemma listRemote_cases:
  assumes "search_arch curArch fuzzyRef = Some arch"
    and "answered (fuzzySearchApp client (search_req repo arch fuzzyRef)) entries"
  shows "listRemote curArch fuzzySearchApp client repo fuzzyRef =
    (if None \<in> set (map remote_info entries) then None else Some (Inr (map (the \<circ> remote_info) entries)))"
proof (cases "None \<in> set (map remote_info entries)")
  case True
  then show ?thesis using assms those_None [of "map remote_info entries"]
    by (auto simp: listRemote_def answered_def split: option.splits)
next
  case False
  then have "map remote_info entries = map Some (map (the \<circ> remote_info) entries)"
    by (induction entries) (auto simp: option.collapse)
  then have "those (map remote_info entries) = Some (map (the \<circ> remote_info) entries)" by (simp add: those_Some)
  then show ?thesis using assms False by (auto simp: listRemote_def answered_def split: option.splits)
qed

lemma updateOstreeRepoConfig_sel [simp]:
  "cf_file (snd (updateOstreeRepoConfig cv n u s)) = cf_file s"
  "cf_cfg (snd (updateOstreeRepoConfig cv n u s)) = cf_cfg s"
  by (simp_all add: updateOstreeRepoConfig_def Let_def split: option.splits)

text \<open>A failed \<open>updateConfig\<close> leaves the new configuration in the file and the old one in memory.\<close>

lemma updateConfig_file_kept:
  assumes "cv_open cv" "cv_yaml cv = None" "map_of (cfg_repos newCfg) (cfg_defaultRepo newCfg) \<noteq> None"
    and "updateConfig cv rb newCfg s = Some (Inl e, s')"
  shows "cf_file s' = Some newCfg \<and> cf_cfg s' = cf_cfg s"
proof -
  obtain url where url: "map_of (cfg_repos newCfg) (cfg_defaultRepo newCfg) = Some url" using assms(3) by blast
  have save: "saveConfig cv newCfg s = (Inr (), s\<lparr>cf_file := Some newCfg\<rparr>)"
    using assms(1-3) by (auto simp: saveConfig_def Let_def)
  obtain ures s2 where up: "updateOstreeRepoConfig cv (cfg_defaultRepo newCfg) url (s\<lparr>cf_file := Some newCfg\<rparr>) = (ures, s2)"
    by (metis surj_pair)
  have "cf_file s2 = Some newCfg" "cf_cfg s2 = cf_cfg s"
    using updateOstreeRepoConfig_sel [of cv "cfg_defaultRepo newCfg" url "s\<lparr>cf_file := Some newCfg\<rparr>"] up by simp_all
  then show ?thesis using assms(4) save url up
    by (auto simp: updateConfig_def Let_def Transaction_dtor_add Transaction_dtor_new split: sum.splits option.splits)
qed

text \<open>
  A configuration without its default repository ends the process when the repository exists, and
  gives a new repository a remote without a host.
\<close>

lemma OSTreeRepo_new_no_default:
  assumes "map_of (cfg_repos cfg) (cfg_defaultRepo cfg) = None"
    and "OSTreeRepo_new se cv env dump load os blank path cfg s = Some s'"
  shows "\<not> se_open se \<and> cf_remotes s' (cfg_defaultRepo cfg) = Some (''/repos/'' @ cfg_defaultRepo cfg)"
proof -
  have "\<not> se_open se" using assms by (auto simp: OSTreeRepo_new_def split: if_splits)
  moreover have "cf_remotes s1 (cfg_defaultRepo cfg) = Some (''/repos/'' @ cfg_defaultRepo cfg)"
    if "createOstreeRepo se cv l (cfg_defaultRepo cfg) (repo_url cfg) s = (Inr u, s1)" for l u s1
    using that assms(1)
    by (auto simp: createOstreeRepo_def updateOstreeRepoConfig_def repo_url_def Let_def split: if_splits option.splits)
  ultimately show ?thesis using assms(2)
    by (auto simp: OSTreeRepo_new_def open_cache_def Let_def split: if_splits prod.splits sum.splits)
qed

section \<open>Properties\<close>

text \<open>
  C29: When a push returns. It reports success exactly when the layer is in the repository, the
  server accepted the user, the task for the ref of the layer in the named repository and the
  archive of the layer directory, and after finitely many answers that say neither \<open>complete\<close> nor
  \<open>failed\<close> it said \<open>complete\<close>. It does not return exactly when everything up to the upload succeeds
  and every later answer is of that kind: there is no limit on the time.
\<close>

theorem pushToRemote_spec:
  "(pushToRemote ps std_sort client r remoteRepo url ref moduleName = Some (Pushed (Inr ())) \<longleftrightarrow>
      (\<exists>token taskID n. layer_uploaded ps std_sort client r remoteRepo ref moduleName token taskID \<and>
         (\<forall>k<n. upload_waiting ps client token taskID k) \<and>
         answered (ps_info ps client token taskID n) (Some ''complete''))) \<and>
    (pushToRemote ps std_sort client r remoteRepo url ref moduleName = None \<longleftrightarrow>
      (\<exists>token taskID. layer_uploaded ps std_sort client r remoteRepo ref moduleName token taskID \<and>
         (\<forall>k. upload_waiting ps client token taskID k)))"
proof -
  let ?up = "push_upload ps client (getLayerDir_ref std_sort r ref moduleName None) (''push '' @ Reference_toString ref)
    remoteRepo ref moduleName"
  let ?uploaded = "layer_uploaded ps std_sort client r remoteRepo ref moduleName"
  have up: "?uploaded token taskID \<longleftrightarrow> ?up = Inr (token, taskID)" for token taskID
    unfolding push_upload_Inr layer_uploaded_def by simp
  show ?thesis
  proof (cases ?up)
    case (Inl e)
    then show ?thesis using push_upload_not_done [of ps client "getLayerDir_ref std_sort r ref moduleName None"
          "''push '' @ Reference_toString ref" remoteRepo ref moduleName]
      by (simp add: pushToRemote_def Let_def up del: append.simps)
  next
    case (Inr p)
    obtain token taskID where p: "p = (token, taskID)" by (cases p)
    with Inr have only: "?uploaded token' taskID' \<longleftrightarrow> token' = token \<and> taskID' = taskID" for token' taskID'
      unfolding up by auto
    have run: "pushToRemote ps std_sort client r remoteRepo url ref moduleName =
        poll_upload (''push '' @ Reference_toString ref) taskID (ps_info ps client token taskID) 0"
      using Inr p by (simp add: pushToRemote_def Let_def del: append.simps)
    show ?thesis unfolding run only poll_upload_Some poll_upload_forever upload_answer_pending
        upload_answer_complete upload_waiting_def by blast
  qed
qed

definition demo_upload_env :: upload_env where
  "demo_upload_env = \<lparr>ps_username = ''u'', ps_password = ''p'',
     ps_signIn = (\<lambda>_ _ _. Some \<lparr>res_code = 200, res_data = Some (Some ''token''), res_msg = None\<rparr>),
     ps_newTask = (\<lambda>_ _ _ _. Some \<lparr>res_code = 200, res_data = Some (Some ''7''), res_msg = None\<rparr>),
     ps_tmpDir = Inr ''/tmp/x'', ps_tar = (\<lambda>_. Inr []),
     ps_upload = (\<lambda>_ _ _ _. Some \<lparr>res_code = 200, res_data = None, res_msg = None\<rparr>),
     ps_info = (\<lambda>_ _ _ n. Some \<lparr>res_code = 200, res_data = Some (Some (if n < 2 then ''pending'' else ''complete'')),
                            res_msg = None\<rparr>)\<rparr>"

definition demo_pushed :: reference where
  "demo_pushed = demo_reference\<lparr>ref_version := \<lparr>major = 9, minor = 0, patch = 0, tweak = Some 0\<rparr>\<rparr>"

theorem pushToRemote_spec_witness:
  "pushToRemote demo_upload_env (\<lambda>xs. xs) \<lparr>basePath = ''s'', userAgent = []\<rparr> demo_repo ''stable'' [] demo_pushed ''binary''
     = Some (Pushed (Inr ()))"
proof -
  have dir: "is_ok (getLayerDir_ref (\<lambda>xs. xs) demo_repo demo_pushed ''binary'' None)" by code_simp
  then obtain d where d: "getLayerDir_ref (\<lambda>xs. xs) demo_repo demo_pushed ''binary'' None = Inr d"
    by (cases "getLayerDir_ref (\<lambda>xs. xs) demo_repo demo_pushed ''binary'' None") auto
  show ?thesis
    by (rule pushToRemote_spec [THEN conjunct1, THEN iffD2])
      (use d in \<open>intro exI [of _ "Some ''token''"] exI [of _ "Some ''7''"] exI [of _ 2],
        auto simp: demo_upload_env_def layer_uploaded_def upload_waiting_def answered_def upload_accepted_def\<close>)
qed

end
