(* ===== verification/Uab_Packager.thy ===== *)
theory Uab_Packager
  imports Uab_File Reference
begin

text \<open>
  Building a bundle: \<open>libs/linglong/src/linglong/package/uab_packager.{h,cpp}\<close>. The packager collects
  layers, copies their files (less those that are excluded) into a directory, makes a file system
  image of it and adds image and meta information to a copy of the program \<open>uab-header\<close>. The files below
  the build directory are the state; the files outside, the external programs and the outcomes of
  system calls are fields of the environment records. \<open>None\<close> results are exceptions and undefined
  values in \<open>noexcept\<close> functions.
\<close>

section \<open>Files\<close>

text \<open>
  What the file system answers for paths outside the build directory: \<open>fv_walk\<close> is
  \<open>recursive_directory_iterator\<close>, with an error from its construction or \<open>None\<close> for an exception
  on the way.
\<close>

record fs_view =
  fv_exists :: "string \<Rightarrow> string + bool"
  fv_regular :: "string \<Rightarrow> string + bool"
  fv_directory :: "string \<Rightarrow> string + bool"
  fv_symlink :: "string \<Rightarrow> string + bool"
  fv_walk :: "string \<Rightarrow> string + string list option"
  fv_content :: "string \<Rightarrow> bytes"
  fv_target :: "string \<Rightarrow> string"

datatype bundle_entry = BDir | BFile bytes | BLink string

type_synonym bundle_dir = "(string \<times> bundle_entry) list"

text \<open>The error of a \<open>QFile\<close>, code and text, and \<open>LINGLONG_ERR\<close> of the file.\<close>

type_synonym qfile_error = "int \<times> string"

definition Err_qfile :: "string \<Rightarrow> string \<Rightarrow> qfile_error \<Rightarrow> error" where
  "Err_qfile trace fileName e = Err trace (fileName @ '': '' @ snd e) (fst e)"

record gen_file =
  gf_path :: string
  gf_executable :: bool
  gf_link :: "string option"
  gf_exists :: bool
  gf_content :: bytes

record layer_dir =
  ld_path :: string
  ld_exists :: bool
  ld_info :: "package_info_v2 result"
  ld_top :: "(string \<times> bundle_entry) list"

record uab_pack_env =
  pe_header :: "bytes option"
  pe_removeApp :: bool
  pe_copyHeader :: bool
  pe_removeExport :: bool
  pe_copyExport :: bool
  pe_chmod :: bool
  pe_removeBuilt :: bool
  pe_ar :: "string list \<Rightarrow> bytes option \<Rightarrow> bytes result"
  pe_objcopy :: "string list \<Rightarrow> bytes \<Rightarrow> bytes \<Rightarrow> bytes result"
  pe_mkfs :: "string list \<Rightarrow> bundle_dir \<Rightarrow> bytes result"
  pe_mkpath :: "string \<Rightarrow> bool"
  pe_mkdir :: "string \<Rightarrow> string option"
  pe_place :: "string \<Rightarrow> string option"
  pe_newer :: "string \<Rightarrow> bool"
  pe_loader :: "bytes option"
  pe_chmodLoader :: "qfile_error option"
  pe_loadInfo :: "bytes \<Rightarrow> package_info_v2 result"
  pe_dumpInfo :: "package_info_v2 \<Rightarrow> bytes"
  pe_openInfo :: bool
  pe_cfgDir :: bool
  pe_initCfg :: "bytes option"
  pe_genDir :: bool
  pe_gens :: "gen_file list"
  pe_arch :: "architecture result"
  pe_openLd :: "qfile_error option"
  pe_encode :: "string \<Rightarrow> bytes"
  pe_box :: "(string \<times> bytes) option"
  pe_openBundle :: "qfile_error option"
  pe_addData :: bool
  pe_openMeta :: "qfile_error option"
  pe_writeMeta :: "qfile_error option"
  pe_dumpMeta :: "uab_meta \<Rightarrow> bytes"
  pe_sha256hex :: "bytes \<Rightarrow> string"

text \<open>Creating directories and files below the bundle directory; paths are relative to it.\<close>

definition dir_chain :: "string \<Rightarrow> string list" where
  "dir_chain p = map (\<lambda>i. take i p) (filter (\<lambda>i. 0 < i \<and> p ! i = CHR ''/'') [0..<length p]) @ [p]"

definition add_dir :: "string \<Rightarrow> bundle_dir \<Rightarrow> bundle_dir" where
  "add_dir d b = (if map_of b d = None then (d, BDir) # b else b)"

definition is_place :: "bundle_dir \<Rightarrow> string \<Rightarrow> bool" where
  "is_place b d = (case map_of b d of None \<Rightarrow> True | Some e \<Rightarrow> e = BDir)"

definition make_dirs :: "uab_pack_env \<Rightarrow> string \<Rightarrow> bundle_dir \<Rightarrow> string + bundle_dir" where
  "make_dirs pe p b =
     (if \<not> list_all (is_place b) (dir_chain p) then Inl ''Not a directory''
      else case pe_mkdir pe p of Some why \<Rightarrow> Inl why | None \<Rightarrow> Inr (fold add_dir (dir_chain p) b))"

definition place_new :: "uab_pack_env \<Rightarrow> string \<Rightarrow> bundle_entry \<Rightarrow> bundle_dir \<Rightarrow> string + bundle_dir" where
  "place_new pe p e b =
     (if map_of b p \<noteq> None then Inl ''File exists''
      else case pe_place pe p of Some why \<Rightarrow> Inl why | None \<Rightarrow> Inr ((p, e) # b))"

definition parent_path :: "string \<Rightarrow> string" where
  "parent_path p = rev (drop 1 (dropWhile (\<lambda>c. c \<noteq> CHR ''/'') (rev p)))"

definition file_name :: "string \<Rightarrow> string" where
  "file_name p = rev (takeWhile (\<lambda>c. c \<noteq> CHR ''/'') (rev p))"

section \<open>State\<close>

record uab_packager =
  up_buildDir :: string
  up_icon :: "string option"
  up_layers :: "layer_dir list"
  up_excludeFiles :: "string list"
  up_includeFiles :: "string list"
  up_meta :: uab_meta

text \<open>The files in the build directory and the exported file with its executable bit.\<close>

record pack_files =
  pk_app :: "bytes option"
  pk_icon :: "bytes option"
  pk_bundleDir :: bundle_dir
  pk_bundleFile :: "bytes option"
  pk_meta :: "bytes option"
  pk_export :: "bytes option"
  pk_executable :: bool

section \<open>The ELF file\<close>

definition elfHelper_create :: "bool \<Rightarrow> string \<Rightarrow> string result" where
  "elfHelper_create exists filePath =
     (if \<not> exists then Inl (Err ''create elfHelper'' (filePath @ ''doesn't exists'') (-1)) else Inr filePath)"

definition objcopy_args :: "string \<Rightarrow> string \<Rightarrow> string list \<Rightarrow> string \<Rightarrow> string list" where
  "objcopy_args sectionName dataFile flags elfPath =
     [''--add-section'', sectionName @ ''='' @ dataFile]
       @ (if flags = [] then [] else [''--set-section-flags'', join_with (CHR '','') flags])
       @ [elfPath, elfPath]"

definition addNewSection ::
    "uab_pack_env \<Rightarrow> string \<Rightarrow> string \<Rightarrow> bytes \<Rightarrow> string list \<Rightarrow> string \<Rightarrow> bytes \<Rightarrow> bytes result" where
  "addNewSection pe sectionName dataFile data flags elfPath elf =
     (case pe_objcopy pe (objcopy_args sectionName dataFile flags elfPath) data elf of
        Inl e \<Rightarrow> Inl (Err_wrap (''add section:'' @ sectionName) e)
      | Inr elf' \<Rightarrow> Inr elf')"

section \<open>Setting up the packager\<close>

definition UABPackager_new :: "bool \<Rightarrow> string \<Rightarrow> string \<Rightarrow> uab_packager option" where
  "UABPackager_new mkpath workingDir uuid =
     (if \<not> mkpath then None
      else Some \<lparr>up_buildDir = workingDir @ ''/.uabBuild'', up_icon = None, up_layers = [],
                 up_excludeFiles = [], up_includeFiles = [],
                 up_meta = \<lparr>meta_digest = [], meta_layers = [],
                            meta_sections = \<lparr>sections_bundle = [], sections_icon = None\<rparr>,
                            meta_uuid = uuid, meta_version = ''1''\<rparr>\<rparr>)"

text \<open>What becomes of the build directory.\<close>

datatype build_dir_end = RenamedTo string | Removed | LeftBehind

definition UABPackager_dtor :: "string option \<Rightarrow> string \<Rightarrow> bool \<Rightarrow> bool \<Rightarrow> uab_packager \<Rightarrow> build_dir_end" where
  "UABPackager_dtor debug suffix rename_ok remove_ok up =
     (let randomName = up_buildDir up @ ''-'' @ take 6 suffix in
      if (case debug of None \<Rightarrow> False | Some v \<Rightarrow> v \<noteq> []) \<and> rename_ok then RenamedTo randomName
      else if remove_ok then Removed else LeftBehind)"

definition setIcon :: "bool \<Rightarrow> bool \<Rightarrow> string \<Rightarrow> uab_packager \<Rightarrow> unit result \<times> uab_packager" where
  "setIcon exists isFile newIcon up =
     (let trace = ''append icon to uab'' in
      if \<not> exists then (Inl (Err trace ''icon doesn't exists'' (-1)), up)
      else if \<not> isFile then (Inl (Err trace ''icon isn't a file'' (-1)), up)
      else (Inr (), up\<lparr>up_icon := Some newIcon\<rparr>))"

definition appendLayer :: "layer_dir \<Rightarrow> uab_packager \<Rightarrow> unit result \<times> uab_packager" where
  "appendLayer layer up =
     (if \<not> ld_exists layer then (Inl (Err ''append layer to uab'' ''icon doesn't exists'' (-1)), up)
      else (Inr (), up\<lparr>up_layers := up_layers up @ [layer]\<rparr>))"

text \<open>The filters; those before an invalid one are kept.\<close>

definition invalid_filter :: "string \<Rightarrow> bool" where
  "invalid_filter file \<longleftrightarrow> file = [] \<or> hd file \<noteq> CHR ''/''"

fun add_filters :: "string \<Rightarrow> string \<Rightarrow> string list \<Rightarrow> string list \<Rightarrow> unit result \<times> string list" where
  "add_filters trace what [] acc = (Inr (), acc)"
| "add_filters trace what (file # files) acc =
     (if invalid_filter file
      then (Inl (Err trace (''invalid format, '' @ what @ '' file:'' @ file) (-1)), acc)
      else add_filters trace what files (List.insert file acc))"

definition exclude_files :: "string list \<Rightarrow> uab_packager \<Rightarrow> unit result \<times> uab_packager" where
  "exclude_files files up =
     map_prod (\<lambda>r. r) (\<lambda>fs. up\<lparr>up_excludeFiles := fs\<rparr>)
       (add_filters ''append excluding files'' ''excluding'' files (up_excludeFiles up))"

definition include_files :: "string list \<Rightarrow> uab_packager \<Rightarrow> unit result \<times> uab_packager" where
  "include_files files up =
     map_prod (\<lambda>r. r) (\<lambda>fs. up\<lparr>up_includeFiles := fs\<rparr>)
       (add_filters ''append including files'' ''including'' files (up_includeFiles up))"

section \<open>Filtering the files of a layer\<close>

definition expand_entry :: "fs_view \<Rightarrow> string \<Rightarrow> string list result option" where
  "expand_entry fv entry =
     (let fail = (\<lambda>why. Some (Inl (Err ''expand all filters'' why (-1)))) in
      case fv_exists fv entry of Inl why \<Rightarrow> fail why | Inr False \<Rightarrow> Some (Inr [])
      | Inr True \<Rightarrow>
     (case fv_regular fv entry of Inl why \<Rightarrow> fail why | Inr True \<Rightarrow> Some (Inr [entry])
      | Inr False \<Rightarrow>
     (case fv_directory fv entry of Inl why \<Rightarrow> fail why | Inr False \<Rightarrow> Some (Inr [])
      | Inr True \<Rightarrow>
     (case fv_walk fv entry of Inl why \<Rightarrow> fail why | Inr None \<Rightarrow> None
      | Inr (Some files) \<Rightarrow> Some (Inr files)))))"

fun expandPaths :: "fs_view \<Rightarrow> string \<Rightarrow> string list \<Rightarrow> string list result option" where
  "expandPaths fv prefix [] = Some (Inr [])"
| "expandPaths fv prefix (originalEntry # entries) =
     (case expand_entry fv (path_div prefix (drop 1 originalEntry)) of
        None \<Rightarrow> None
      | Some (Inl e) \<Rightarrow> Some (Inl e)
      | Some (Inr files) \<Rightarrow> map_option (map_sum (\<lambda>e. e) (append files)) (expandPaths fv prefix entries))"

definition layer_files_dir :: "layer_dir \<Rightarrow> string" where
  "layer_files_dir layer = ld_path layer @ ''/files''"

definition filteringFiles :: "fs_view \<Rightarrow> uab_packager \<Rightarrow> layer_dir \<Rightarrow> (bool \<times> string list) result option" where
  "filteringFiles fv up layer =
     (let trace = ''filtering files in layer directory''; filesDir = layer_files_dir layer in
      if fv_exists fv filesDir \<noteq> Inr True
      then Some (Inl (Err trace (''there isn't a files dir in layer '' @ ld_path layer) (-1)))
      else case expandPaths fv filesDir (up_excludeFiles up) of
        None \<Rightarrow> None | Some (Inl e) \<Rightarrow> Some (Inl (Err_wrap trace e))
      | Some (Inr excludes) \<Rightarrow>
     (case expandPaths fv filesDir (up_includeFiles up) of
        None \<Rightarrow> None | Some (Inl e) \<Rightarrow> Some (Inl (Err_wrap trace e))
      | Some (Inr includes) \<Rightarrow>
     (case fv_walk fv filesDir of
        Inl why \<Rightarrow> Some (Inl (Err trace why (-1))) | Inr None \<Rightarrow> None
      | Inr (Some allFiles) \<Rightarrow>
         (let excluded = filter (\<lambda>f. f \<notin> set includes) excludes in
          Some (Inr (excluded \<noteq> [], filter (\<lambda>f. f \<notin> set excluded) (remdups allFiles)))))))"

section \<open>Exporting the layers\<close>

text \<open>
  First the files in the layer directory itself (\<open>copy_symlinks\<close>, \<open>update_existing\<close>: an existing file is
  replaced if it is older), then the files that were kept.
\<close>

definition copy_top :: "uab_pack_env \<Rightarrow> string \<Rightarrow> string \<times> bundle_entry \<Rightarrow> bundle_dir \<Rightarrow> string + bundle_dir" where
  "copy_top pe moduleDir f b =
     (let dest = moduleDir @ ''/'' @ fst f in
      case (map_of b dest, snd f) of
        (Some (BFile _), BFile c) \<Rightarrow> Inr (if pe_newer pe dest then (dest, BFile c) # b else b)
      | _ \<Rightarrow> place_new pe dest (snd f) b)"

fun copy_tops ::
    "uab_pack_env \<Rightarrow> string \<Rightarrow> string \<Rightarrow> (string \<times> bundle_entry) list \<Rightarrow> bundle_dir \<Rightarrow> string + bundle_dir" where
  "copy_tops pe layerPath moduleDir [] b = Inr b"
| "copy_tops pe layerPath moduleDir (f # fs) b =
     (case copy_top pe moduleDir f b of
        Inl why \<Rightarrow> Inl (''couldn't copy from '' @ layerPath @ ''/'' @ fst f @ '' to '' @ moduleDir @ ''/'' @ fst f @ '' '' @ why)
      | Inr b1 \<Rightarrow> copy_tops pe layerPath moduleDir fs b1)"

definition destination :: "string \<Rightarrow> string \<Rightarrow> string \<Rightarrow> string" where
  "destination basePath moduleFilesDir source = moduleFilesDir @ drop (length basePath) source"

definition bundle_file ::
    "fs_view \<Rightarrow> uab_pack_env \<Rightarrow> string \<Rightarrow> string \<Rightarrow> string \<Rightarrow> bundle_dir \<Rightarrow> string + bundle_dir" where
  "bundle_file fv pe basePath moduleFilesDir source b =
     (let dest = destination basePath moduleFilesDir source in
      case make_dirs pe (parent_path dest) b of
        Inl why \<Rightarrow> Inl (''couldn't create directories '' @ parent_path dest @ '':'' @ why)
      | Inr b1 \<Rightarrow>
     (case fv_symlink fv source of
        Inl why \<Rightarrow> Inl (''is_symlink error:'' @ why)
      | Inr True \<Rightarrow>
         (case place_new pe dest (BLink (fv_target fv source)) b1 of
            Inl why \<Rightarrow> Inl (''couldn't copy symlink from '' @ source @ '' to '' @ dest @ '' '' @ why)
          | Inr b2 \<Rightarrow> Inr b2)
      | Inr False \<Rightarrow>
     (case fv_directory fv source of
        Inl why \<Rightarrow> Inl (''is_directory error:'' @ why)
      | Inr True \<Rightarrow>
         (case make_dirs pe dest b1 of
            Inl why \<Rightarrow> Inl (''couldn't create directory: '' @ dest @ '', error: '' @ why)
          | Inr b2 \<Rightarrow> Inr b2)
      | Inr False \<Rightarrow>
         (case place_new pe dest (BFile (fv_content fv source)) b1 of
            Inl why \<Rightarrow> Inl (''couldn't link from '' @ source @ '' to '' @ dest @ '' '' @ why)
          | Inr b2 \<Rightarrow> Inr b2))))"

fun export_kept ::
    "fs_view \<Rightarrow> uab_pack_env \<Rightarrow> string \<Rightarrow> string \<Rightarrow> string list \<Rightarrow> bundle_dir \<Rightarrow> string + bundle_dir" where
  "export_kept fv pe basePath moduleFilesDir [] b = Inr b"
| "export_kept fv pe basePath moduleFilesDir (source # sources) b =
     (case bundle_file fv pe basePath moduleFilesDir source b of
        Inl why \<Rightarrow> Inl why
      | Inr b1 \<Rightarrow> export_kept fv pe basePath moduleFilesDir sources b1)"

definition moduleDir_of :: "package_info_v2 \<Rightarrow> string" where
  "moduleDir_of info = ''layers/'' @ info_id info @ ''/'' @ info_module info"

definition prepare_trace :: string where
  "prepare_trace = ''prepare layers for make a bundle''"

definition copy_layer ::
    "fs_view \<Rightarrow> uab_pack_env \<Rightarrow> layer_dir \<Rightarrow> string \<Rightarrow> string list \<Rightarrow> bundle_dir \<Rightarrow> string + bundle_dir" where
  "copy_layer fv pe layer moduleDir files b =
     (case copy_tops pe (ld_path layer) moduleDir (ld_top layer) b of
        Inl why \<Rightarrow> Inl why
      | Inr b1 \<Rightarrow>
         (let moduleFilesDir = moduleDir @ ''/files'' in
          case make_dirs pe moduleFilesDir b1 of
            Inl why \<Rightarrow> Inl (''couldn't create directory: '' @ moduleFilesDir @ '', error: '' @ why)
          | Inr b2 \<Rightarrow> export_kept fv pe (layer_files_dir layer) moduleFilesDir files b2))"

text \<open>
  The description of an application with minified layers gets the identifier of the bundle. The code
  tests another result than the one it has just computed, so a description that cannot be read is
  dereferenced all the same.
\<close>

definition mark_minified :: "uab_pack_env \<Rightarrow> uab_meta \<Rightarrow> string \<Rightarrow> bundle_dir \<Rightarrow> bundle_dir result option" where
  "mark_minified pe meta moduleDir b =
     (let appInfoPath = moduleDir @ ''/info.json'' in
      case map_of b appInfoPath of
        Some (BFile text) \<Rightarrow>
         (case pe_loadInfo pe text of
            Inl _ \<Rightarrow> None
          | Inr i \<Rightarrow>
             (if \<not> pe_openInfo pe then Some (Inl (Err prepare_trace (''couldn't open file: '' @ appInfoPath) (-1)))
              else Some (Inr ((appInfoPath, BFile (pe_dumpInfo pe (i\<lparr>info_uuid := Some (meta_uuid meta)\<rparr>))) # b))))
      | _ \<Rightarrow> None)"

text \<open>The loop over the layers: the application (empty if there is none), the meta information and the files.\<close>

type_synonym prepared = "string \<times> uab_meta \<times> bundle_dir"

definition export_layer ::
    "fs_view \<Rightarrow> uab_pack_env \<Rightarrow> uab_packager \<Rightarrow> layer_dir \<Rightarrow> prepared \<Rightarrow> (bool \<times> prepared) result option" where
  "export_layer fv pe up layer s =
     (case s of (appID, meta, b) \<Rightarrow>
      case ld_info layer of
        Inl e \<Rightarrow> Some (Inl (Err_wrap_msg prepare_trace (''failed export layer '' @ ld_path layer @ '':'') e))
      | Inr info \<Rightarrow>
         (let moduleDir = moduleDir_of info in
          case make_dirs pe moduleDir b of
            Inl _ \<Rightarrow> Some (Inl (Err prepare_trace (''couldn't create directory '' @ moduleDir) (-1)))
          | Inr b1 \<Rightarrow>
         (case filteringFiles fv up layer of
            None \<Rightarrow> None
          | Some (Inl e) \<Rightarrow> Some (Inl (Err_wrap prepare_trace e))
          | Some (Inr (minified, files)) \<Rightarrow>
         (case copy_layer fv pe layer moduleDir files b1 of
            Inl why \<Rightarrow> Some (Inl (Err prepare_trace why (-1)))
          | Inr b2 \<Rightarrow>
             (let meta' = meta\<lparr>meta_layers := meta_layers meta @ [\<lparr>layer_info = info, layer_minified = minified\<rparr>]\<rparr> in
              if info_kind info \<noteq> ''app'' then Some (Inr (True, appID, meta', b2))
              else if \<not> list_ex layer_minified (meta_layers meta') then Some (Inr (False, info_id info, meta', b2))
              else map_option (map_sum (\<lambda>e. e) (\<lambda>b3. (True, info_id info, meta', b3)))
                     (mark_minified pe meta' moduleDir b2))))))"

fun export_layers ::
    "fs_view \<Rightarrow> uab_pack_env \<Rightarrow> uab_packager \<Rightarrow> layer_dir list \<Rightarrow> prepared \<Rightarrow> prepared result option" where
  "export_layers fv pe up [] s = Some (Inr s)"
| "export_layers fv pe up (layer # layers) s =
     (case export_layer fv pe up layer s of
        None \<Rightarrow> None
      | Some (Inl e) \<Rightarrow> Some (Inl e)
      | Some (Inr (go, s1)) \<Rightarrow> if go then export_layers fv pe up layers s1 else Some (Inr s1))"

section \<open>Extra data\<close>

definition generator_file :: "gen_file \<Rightarrow> string option" where
  "generator_file gen =
     (case gf_link gen of
        Some target \<Rightarrow>
         (if gf_executable gen then Some target
          else if ends_with (file_name (gf_path gen)) ''.json'' then Some (gf_path gen) else None)
      | None \<Rightarrow> if ends_with (file_name (gf_path gen)) ''.json'' then Some (gf_path gen) else None)"

fun copy_generators :: "uab_pack_env \<Rightarrow> gen_file list \<Rightarrow> bundle_dir \<Rightarrow> string + bundle_dir" where
  "copy_generators pe [] b = Inr b"
| "copy_generators pe (gen # gens) b =
     (case generator_file gen of
        None \<Rightarrow> copy_generators pe gens b
      | Some realGen \<Rightarrow>
         (if \<not> gf_exists gen then Inl (''config generator '' @ realGen @ '' doesn't exist'')
          else let destGen = ''extra/container/config.d/'' @ file_name realGen in
            case place_new pe destGen (BFile (gf_content gen)) b of
              Inl why \<Rightarrow> Inl (''couldn't copy '' @ realGen @ '' to '' @ destGen @ '': '' @ why)
            | Inr b1 \<Rightarrow> copy_generators pe gens b1))"

definition ld_confs :: "string \<Rightarrow> string \<Rightarrow> string" where
  "ld_confs triplet appID =
     concat (map (\<lambda>l. l @ [CHR 0x0A])
       [''/runtime/lib'', ''/runtime/lib/'' @ triplet, ''/opt/apps/'' @ appID @ ''/files/lib'',
        ''/opt/apps/'' @ appID @ ''/files/lib/'' @ triplet])"

definition bundle_config :: "uab_pack_env \<Rightarrow> bundle_dir \<Rightarrow> string + bundle_dir" where
  "bundle_config pe b =
     (let cannot = (\<lambda>d. ''couldn't create directory '' @ d) in
      case make_dirs pe ''extra'' b of Inl _ \<Rightarrow> Inl (cannot ''extra'') | Inr b1 \<Rightarrow>
      if \<not> pe_cfgDir pe then Inl ''the container configuration directory doesn't exist: ''
      else case make_dirs pe ''extra/container'' b1 of Inl _ \<Rightarrow> Inl (cannot ''extra/container'') | Inr b2 \<Rightarrow>
     (case pe_initCfg pe of None \<Rightarrow> Inl ''config.json doesn't exist or it's not a file'' | Some cfg \<Rightarrow>
     (case place_new pe ''extra/container/config.json'' (BFile cfg) b2 of
        Inl why \<Rightarrow> Inl (''couldn't copy config.json to extra/container/config.json: '' @ why)
      | Inr b3 \<Rightarrow>
      if \<not> pe_genDir pe then Inl ''config.d doesn't exist or it's not a directory''
      else case make_dirs pe ''extra/container/config.d'' b3 of Inl _ \<Rightarrow> Inl (cannot ''extra/container'') | Inr b4 \<Rightarrow>
        copy_generators pe (pe_gens pe) b4)))"

definition bundle_extra :: "uab_pack_env \<Rightarrow> string \<Rightarrow> bundle_dir \<Rightarrow> bundle_dir result option" where
  "bundle_extra pe appID b =
     (let fail = (\<lambda>msg. Some (Inl (Err prepare_trace msg (-1)))); ldConf = ''extra/ld.conf.d/zz_deepin-linglong-app.ld.so.conf'' in
      case bundle_config pe b of Inl msg \<Rightarrow> fail msg | Inr b1 \<Rightarrow>
     (case make_dirs pe ''extra/ld.conf.d'' b1 of Inl _ \<Rightarrow> fail ''couldn't create directory extra/container'' | Inr b2 \<Rightarrow>
     (case pe_openLd pe of Some e \<Rightarrow> Some (Inl (Err_qfile prepare_trace ldConf e)) | None \<Rightarrow>
     (case pe_arch pe of Inl _ \<Rightarrow> None | Inr arch \<Rightarrow>
      let b3 = (ldConf, BFile (pe_encode pe (ld_confs (getTriplet arch) appID))) # b2 in
      case pe_box pe of None \<Rightarrow> fail ''couldn't find ll-box'' | Some (boxBin, content) \<Rightarrow>
     (case place_new pe ''extra/ll-box'' (BFile content) b3 of
        Inl why \<Rightarrow> fail (''couldn't copy '' @ boxBin @ '' to extra/ll-box: '' @ why)
      | Inr b4 \<Rightarrow> Some (Inr b4))))))"

section \<open>Packing\<close>

definition prepareBundle ::
    "fs_view \<Rightarrow> uab_pack_env \<Rightarrow> uab_packager \<Rightarrow> bundle_dir \<Rightarrow> (uab_packager \<times> bundle_dir) result option" where
  "prepareBundle fv pe up b =
     (let fail = (\<lambda>msg. Some (Inl (Err prepare_trace msg (-1)))) in
      case pe_loader pe of None \<Rightarrow> fail ''the loader of uab application doesn't exist.'' | Some loader \<Rightarrow>
      case place_new pe ''loader'' (BFile loader) b of
        Inl why \<Rightarrow> fail (''couldn't copy loader uab-loader to loader: '' @ why)
      | Inr b1 \<Rightarrow>
     (case pe_chmodLoader pe of Some e \<Rightarrow> Some (Inl (Err_qfile prepare_trace ''loader'' e)) | None \<Rightarrow>
      case make_dirs pe ''layers'' b1 of Inl _ \<Rightarrow> fail ''couldn't create directory layers'' | Inr b2 \<Rightarrow>
     (case export_layers fv pe up (up_layers up) ([], up_meta up, b2) of
        None \<Rightarrow> None
      | Some (Inl e) \<Rightarrow> Some (Inl e)
      | Some (Inr (appID, meta, b3)) \<Rightarrow>
          map_option (map_sum (\<lambda>e. e) (\<lambda>b4. (up\<lparr>up_meta := meta\<rparr>, b4))) (bundle_extra pe appID b3))))"

definition mkfs_args :: "string \<Rightarrow> string \<Rightarrow> string list" where
  "mkfs_args bundleFile bundleDir = [''-zlz4hc,9'', ''-b4096'', bundleFile, bundleDir]"

text \<open>The image is made only when there is none yet.\<close>

definition make_bundle ::
    "fs_view \<Rightarrow> uab_pack_env \<Rightarrow> uab_packager \<Rightarrow> pack_files \<Rightarrow> (bytes \<times> uab_packager \<times> pack_files) result option" where
  "make_bundle fv pe up k =
     (case pk_bundleFile k of
        Some img \<Rightarrow> Some (Inr (img, up, k))
      | None \<Rightarrow>
         (case prepareBundle fv pe up (pk_bundleDir k) of
            None \<Rightarrow> None
          | Some (Inl e) \<Rightarrow> Some (Inl e)
          | Some (Inr (up1, b)) \<Rightarrow>
             (case pe_mkfs pe (mkfs_args (up_buildDir up @ ''/bundle.ef'') (up_buildDir up @ ''/bundle'')) b of
                Inl e \<Rightarrow> Some (Inl (Err_wrap ''add layers to uab'' e))
              | Inr img \<Rightarrow> Some (Inr (img, up1, k\<lparr>pk_bundleDir := b, pk_bundleFile := Some img\<rparr>)))))"

definition packBundle ::
    "fs_view \<Rightarrow> uab_pack_env \<Rightarrow> string \<Rightarrow> bytes \<Rightarrow> uab_packager \<Rightarrow> pack_files \<Rightarrow>
     (bytes \<times> uab_packager \<times> pack_files) result option" where
  "packBundle fv pe elfPath elf up k =
     (let trace = ''add layers to uab''; bundleFile = up_buildDir up @ ''/bundle.ef'' in
      if \<not> pe_mkpath pe (up_buildDir up @ ''/bundle'')
      then Some (Inl (Err trace (''couldn't create directory '' @ up_buildDir up @ ''/bundle'') (-1)))
      else case make_bundle fv pe up k of
        None \<Rightarrow> None | Some (Inl e) \<Rightarrow> Some (Inl e)
      | Some (Inr (img, up1, k1)) \<Rightarrow>
     (case pe_openBundle pe of Some e \<Rightarrow> Some (Inl (Err_qfile trace bundleFile e)) | None \<Rightarrow>
      if \<not> pe_addData pe
      then Some (Inl (Err trace (''failed to calculate digest from '' @ bundleFile @ '': %2'') (-1)))
      else let meta1 = (up_meta up1)\<lparr>meta_digest := pe_sha256hex pe img\<rparr> in
        case addNewSection pe ''linglong.bundle'' bundleFile img [] elfPath elf of
          Inl e \<Rightarrow> Some (Inl (Err_wrap trace e))
        | Inr elf1 \<Rightarrow>
            Some (Inr (elf1, up1\<lparr>up_meta := meta1\<lparr>meta_sections := (meta_sections meta1)\<lparr>sections_bundle := ''linglong.bundle''\<rparr>\<rparr>\<rparr>,
                       k1\<lparr>pk_app := Some elf1\<rparr>))))"

definition packIcon ::
    "uab_pack_env \<Rightarrow> string \<Rightarrow> bytes \<Rightarrow> string \<Rightarrow> uab_packager \<Rightarrow> pack_files \<Rightarrow> (bytes \<times> uab_packager \<times> pack_files) result" where
  "packIcon pe elfPath elf icon up k =
     (let trace = ''add icon to uab''; iconAchieve = up_buildDir up @ ''/icon.a'' in
      case pe_ar pe [''q'', iconAchieve, icon] (pk_icon k) of Inl e \<Rightarrow> Inl (Err_wrap trace e) | Inr ar \<Rightarrow>
      case addNewSection pe ''linglong.icon'' iconAchieve ar [] elfPath elf of
        Inl e \<Rightarrow> Inl (Err_wrap trace e)
      | Inr elf1 \<Rightarrow>
          Inr (elf1, up\<lparr>up_meta := (up_meta up)\<lparr>meta_sections := (meta_sections (up_meta up))\<lparr>sections_icon := Some ''linglong.icon''\<rparr>\<rparr>\<rparr>,
               k\<lparr>pk_icon := Some ar, pk_app := Some elf1\<rparr>))"

definition packMetaInfo ::
    "uab_pack_env \<Rightarrow> string \<Rightarrow> bytes \<Rightarrow> uab_packager \<Rightarrow> pack_files \<Rightarrow> (bytes \<times> pack_files) result" where
  "packMetaInfo pe elfPath elf up k =
     (let trace = ''add metaInfo to uab''; metaFile = up_buildDir up @ ''/metaInfo.json''; text = pe_dumpMeta pe (up_meta up) in
      case pe_openMeta pe of Some e \<Rightarrow> Inl (Err_qfile trace metaFile e) | None \<Rightarrow>
      case pe_writeMeta pe of Some e \<Rightarrow> Inl (Err_qfile trace metaFile e) | None \<Rightarrow>
     (case addNewSection pe ''linglong.meta'' metaFile text [''linglong.meta=readonly,code''] elfPath elf of
        Inl e \<Rightarrow> Inl (Err_wrap trace e)
      | Inr elf1 \<Rightarrow> Inr (elf1, k\<lparr>pk_meta := Some text, pk_app := Some elf1\<rparr>)))"

text \<open>
  The sections in the order of the code. \<open>pe_removeExport\<close> and \<open>pe_removeApp\<close> are the results of removing an
  existing file, which is then gone.
\<close>

definition pack_sections ::
    "fs_view \<Rightarrow> uab_pack_env \<Rightarrow> string \<Rightarrow> bytes \<Rightarrow> uab_packager \<Rightarrow> pack_files \<Rightarrow>
     (bytes \<times> uab_packager \<times> pack_files) result option" where
  "pack_sections fv pe uabApp header up k =
     (case (case up_icon up of None \<Rightarrow> Inr (header, up, k) | Some icon \<Rightarrow> packIcon pe uabApp header icon up k) of
        Inl e \<Rightarrow> Some (Inl e)
      | Inr (elf1, up1, k1) \<Rightarrow>
     (case packBundle fv pe uabApp elf1 up1 k1 of
        None \<Rightarrow> None | Some (Inl e) \<Rightarrow> Some (Inl e)
      | Some (Inr (elf2, up2, k2)) \<Rightarrow>
         (case packMetaInfo pe uabApp elf2 up2 k2 of
            Inl e \<Rightarrow> Some (Inl e)
          | Inr (elf3, k3) \<Rightarrow> Some (Inr (elf3, up2, k3)))))"

definition UABPackager_pack ::
    "fs_view \<Rightarrow> uab_pack_env \<Rightarrow> string \<Rightarrow> uab_packager \<Rightarrow> pack_files \<Rightarrow> (uab_packager \<times> pack_files) result option" where
  "UABPackager_pack fv pe uabFilename up k =
     (let trace = ''package uab''; fail = (\<lambda>msg. Some (Inl (Err trace msg (-1))));
          uabApp = up_buildDir up @ ''/'' @ uabFilename; exportPath = parent_path (up_buildDir up) @ ''/'' @ uabFilename in
      case pe_header pe of None \<Rightarrow> fail ''uab-header is missing'' | Some header \<Rightarrow>
      if pk_app k \<noteq> None \<and> \<not> pe_removeApp pe then fail ''couldn't remove uab cache''
      else if \<not> pe_copyHeader pe then fail (''couldn't copy uab header from uab-header to '' @ uabApp)
      else case elfHelper_create True uabApp of Inl e \<Rightarrow> Some (Inl (Err_wrap trace e)) | Inr elfPath \<Rightarrow>
     (case pack_sections fv pe elfPath header up (k\<lparr>pk_app := Some header\<rparr>) of
        None \<Rightarrow> None | Some (Inl e) \<Rightarrow> Some (Inl e)
      | Some (Inr (elf, up1, k1)) \<Rightarrow>
         (if pk_export k1 \<noteq> None \<and> \<not> pe_removeExport pe then fail ''couldn't remove previous uab file''
          else if \<not> pe_copyExport pe then fail (''export uab from '' @ uabApp @ '' to '' @ exportPath @ '' failed'')
          else if \<not> pe_chmod pe then fail ''couldn't set executable permission to uab''
          else Some (Inr (up1, k1\<lparr>pk_export := Some elf, pk_executable := True,
                                   pk_app := (if pe_removeBuilt pe then None else Some elf)\<rparr>)))))"

section \<open>Lemmas\<close>

text \<open>What a filter stands for.\<close>

definition expanded :: "fs_view \<Rightarrow> string \<Rightarrow> string list \<Rightarrow> string set" where
  "expanded fv filesDir filters =
     {f. \<exists>p \<in> set filters. let entry = path_div filesDir (drop 1 p) in fv_exists fv entry = Inr True \<and>
        (if fv_regular fv entry = Inr True then f = entry
         else fv_directory fv entry = Inr True \<and> (\<exists>files. fv_walk fv entry = Inr (Some files) \<and> f \<in> set files))}"

lemma expand_entry_set:
  "expand_entry fv entry = Some (Inr files) \<Longrightarrow> set files =
     {f. fv_exists fv entry = Inr True \<and>
        (if fv_regular fv entry = Inr True then f = entry
         else fv_directory fv entry = Inr True \<and> (\<exists>files. fv_walk fv entry = Inr (Some files) \<and> f \<in> set files))}"
  by (auto simp: expand_entry_def Let_def split: sum.splits bool.splits option.splits)

lemma expandPaths_set: "expandPaths fv filesDir filters = Some (Inr files) \<Longrightarrow> set files = expanded fv filesDir filters"
proof (induction filters arbitrary: files)
  case (Cons p filters)
  then obtain fs rest where *: "expand_entry fv (path_div filesDir (drop 1 p)) = Some (Inr fs)"
      "expandPaths fv filesDir filters = Some (Inr rest)" "files = fs @ rest"
    by (auto simp: map_sum_Inr split: option.splits sum.splits)
  show ?case using expand_entry_set [OF *(1)] Cons.IH [OF *(2)] *(3) by (auto simp: expanded_def Let_def)
qed (simp add: expanded_def)

text \<open>Files deep in the bundle, that is below the \<open>files\<close> directory of a module, are never overwritten.\<close>

definition slashes :: "string \<Rightarrow> nat" where
  "slashes p = length (filter (\<lambda>c. c = CHR ''/'') p)"

definition keeps :: "bundle_dir \<Rightarrow> bundle_dir \<Rightarrow> bool" where
  "keeps b b' \<longleftrightarrow> (\<forall>p e. 3 < slashes p \<longrightarrow> map_of b p = Some e \<longrightarrow> map_of b' p = Some e)"

lemma keeps_refl [simp]: "keeps b b"
  by (simp add: keeps_def)

lemma keeps_trans [trans]: "keeps a b \<Longrightarrow> keeps b c \<Longrightarrow> keeps a c"
  by (simp add: keeps_def)

lemma slashes_append [simp]: "slashes (a @ b) = slashes a + slashes b"
  by (simp add: slashes_def)

lemma slashes_Cons [simp]: "slashes (c # a) = (if c = CHR ''/'' then Suc (slashes a) else slashes a)"
  by (simp add: slashes_def)

lemma slashes_Nil [simp]: "slashes [] = 0"
  by (simp add: slashes_def)

lemma keeps_fold_add_dir: "keeps b (fold add_dir ds b)"
proof (induction ds arbitrary: b)
  case (Cons d ds)
  have "keeps b (add_dir d b)" by (auto simp: keeps_def add_dir_def)
  then show ?case using Cons keeps_trans by fastforce
qed simp

lemma fold_add_dir_in: "d \<in> set ds \<Longrightarrow> list_all (is_place b) ds \<Longrightarrow> map_of (fold add_dir ds b) d = Some BDir"
proof (induction ds arbitrary: b)
  case (Cons x ds)
  have p: "list_all (is_place (add_dir x b)) ds"
    using Cons.prems(2) by (auto simp: list_all_iff is_place_def add_dir_def split: option.splits)
  have x: "map_of (add_dir x b) x = Some BDir"
    using Cons.prems(2) by (auto simp: is_place_def add_dir_def split: option.splits)
  have "map_of (fold add_dir ds c) x = Some BDir" if "map_of c x = Some BDir" for c
    using that by (induction ds arbitrary: c) (auto simp: add_dir_def)
  then show ?case using Cons.IH [OF _ p] Cons.prems(1) x by auto
qed simp

lemma dir_chain_self [simp]: "p \<in> set (dir_chain p)"
  by (simp add: dir_chain_def)

lemma make_dirs_keeps: "make_dirs pe p b = Inr b' \<Longrightarrow> keeps b b' \<and> map_of b' p = Some BDir"
  by (auto simp: make_dirs_def keeps_fold_add_dir fold_add_dir_in split: if_splits option.splits)

lemma place_new_keeps: "place_new pe p e b = Inr b' \<Longrightarrow> keeps b b' \<and> map_of b' p = Some e"
  by (auto simp: place_new_def keeps_def split: if_splits option.splits)

definition kept_entry :: "fs_view \<Rightarrow> string \<Rightarrow> bundle_entry" where
  "kept_entry fv source =
     (if fv_symlink fv source = Inr True then BLink (fv_target fv source)
      else if fv_directory fv source = Inr True then BDir else BFile (fv_content fv source))"

lemma bundle_file_keeps:
  assumes "bundle_file fv pe basePath moduleFilesDir source b = Inr b'"
  shows "keeps b b' \<and> map_of b' (destination basePath moduleFilesDir source) = Some (kept_entry fv source)"
proof -
  let ?dest = "destination basePath moduleFilesDir source"
  obtain b1 where b1: "make_dirs pe (parent_path ?dest) b = Inr b1"
    using assms by (cases "make_dirs pe (parent_path ?dest) b") (auto simp: bundle_file_def Let_def)
  then have k: "keeps b b1" using make_dirs_keeps by blast
  consider "fv_symlink fv source = Inr True" | "fv_symlink fv source = Inr False" "fv_directory fv source = Inr True"
    | "fv_symlink fv source = Inr False" "fv_directory fv source = Inr False"
    using assms b1 by (auto simp: bundle_file_def Let_def split: sum.splits bool.splits)
  then have "keeps b1 b' \<and> map_of b' ?dest = Some (kept_entry fv source)"
  proof cases
    case 2
    then have "make_dirs pe ?dest b1 = Inr b'"
      using assms b1 by (auto simp: bundle_file_def Let_def split: sum.splits)
    then show ?thesis using 2 make_dirs_keeps by (auto simp: kept_entry_def)
  qed (use assms b1 in \<open>auto simp: bundle_file_def Let_def kept_entry_def split: sum.splits dest: place_new_keeps\<close>)
  then show ?thesis using k keeps_trans by blast
qed

lemma export_kept_keeps:
  assumes "export_kept fv pe basePath moduleFilesDir sources b = Inr b'"
  shows "keeps b b' \<and> (\<forall>source \<in> set sources. 3 < slashes (destination basePath moduleFilesDir source) \<longrightarrow>
    map_of b' (destination basePath moduleFilesDir source) = Some (kept_entry fv source))"
  using assms
proof (induction sources arbitrary: b)
  case (Cons source sources)
  then obtain b1 where b1: "bundle_file fv pe basePath moduleFilesDir source b = Inr b1"
      "export_kept fv pe basePath moduleFilesDir sources b1 = Inr b'"
    by (auto split: sum.splits)
  from Cons.IH [OF this(2)] bundle_file_keeps [OF this(1)] show ?case
    using keeps_trans by (auto simp: keeps_def)
qed simp

lemma keeps_cons: "slashes p \<le> 3 \<Longrightarrow> keeps b ((p, e) # b)"
  by (auto simp: keeps_def)

lemma copy_top_keeps:
  assumes "copy_top pe moduleDir f b = Inr b'" and "slashes (moduleDir @ ''/'' @ fst f) \<le> 3"
  shows "keeps b b'"
proof -
  let ?dest = "moduleDir @ ''/'' @ fst f"
  have "place_new pe ?dest (snd f) b = Inr b' \<or> b' = b \<or> (\<exists>c. b' = (?dest, c) # b)"
  proof (cases "\<exists>c c'. map_of b ?dest = Some (BFile c) \<and> snd f = BFile c'")
    case True
    then show ?thesis using assms(1) by (auto simp: copy_top_def Let_def)
  next
    case False
    then have "copy_top pe moduleDir f b = place_new pe ?dest (snd f) b"
      by (auto simp: copy_top_def Let_def split: option.split bundle_entry.split)
    then show ?thesis using assms(1) by simp
  qed
  moreover have "keeps b ((?dest, c) # b)" for c
    using keeps_cons assms(2) by blast
  ultimately show ?thesis using place_new_keeps keeps_refl by blast
qed

lemma copy_tops_keeps:
  "copy_tops pe layerPath moduleDir fs b = Inr b' \<Longrightarrow> \<forall>f \<in> set fs. slashes (moduleDir @ ''/'' @ fst f) \<le> 3 \<Longrightarrow> keeps b b'"
proof (induction fs arbitrary: b)
  case (Cons f fs)
  then obtain b1 where b1: "copy_top pe moduleDir f b = Inr b1" "copy_tops pe layerPath moduleDir fs b1 = Inr b'"
    by (auto split: sum.splits)
  have "keeps b b1" by (rule copy_top_keeps [OF b1(1)]) (use Cons.prems(2) in simp)
  moreover have "keeps b1 b'" by (rule Cons.IH [OF b1(2)]) (use Cons.prems(2) in simp)
  ultimately show ?case by (rule keeps_trans)
qed simp

text \<open>A layer whose names and whose files are named the way a file system names them.\<close>

definition plain_layer :: "fs_view \<Rightarrow> layer_dir \<Rightarrow> bool" where
  "plain_layer fv layer \<longleftrightarrow>
     (\<forall>i. ld_info layer = Inr i \<longrightarrow> slashes (info_id i) = 0 \<and> slashes (info_module i) = 0) \<and>
     (\<forall>f \<in> set (ld_top layer). slashes (fst f) = 0) \<and>
     (\<forall>files. fv_walk fv (layer_files_dir layer) = Inr (Some files) \<longrightarrow>
        (\<forall>f \<in> set files. starts_with f (layer_files_dir layer @ ''/'')))"

definition layer_exported :: "fs_view \<Rightarrow> uab_packager \<Rightarrow> bundle_dir \<Rightarrow> layer_dir \<Rightarrow> uab_layer \<Rightarrow> bool" where
  "layer_exported fv up b layer m \<longleftrightarrow>
     ld_info layer = Inr (layer_info m) \<and>
     (\<exists>files. filteringFiles fv up layer = Some (Inr (layer_minified m, files)) \<and>
        (\<forall>source \<in> set files.
           map_of b (destination (layer_files_dir layer) (moduleDir_of (layer_info m) @ ''/files'') source)
             = Some (kept_entry fv source)))"

lemma filtered_below:
  assumes "filteringFiles fv up layer = Some (Inr (minified, files))" and "plain_layer fv layer" and "source \<in> set files"
  shows "starts_with source (layer_files_dir layer @ ''/'')"
  using assms by (auto simp: filteringFiles_def plain_layer_def Let_def split: if_splits option.splits sum.splits)

lemma destination_deep:
  assumes "starts_with source (base @ ''/'')" and "slashes (info_id i) = 0" and "slashes (info_module i) = 0"
  shows "3 < slashes (destination base (moduleDir_of i @ ''/files'') source)"
proof -
  obtain r where "source = base @ ''/'' @ r" using assms(1) by (auto simp: starts_with_iff)
  then show ?thesis using assms(2,3) by (simp add: destination_def moduleDir_of_def)
qed

lemma layer_exported_keeps:
  assumes "layer_exported fv up b layer m" and "keeps b b'" and "plain_layer fv layer"
  shows "layer_exported fv up b' layer m"
proof -
  obtain files where f: "filteringFiles fv up layer = Some (Inr (layer_minified m, files))" "ld_info layer = Inr (layer_info m)"
      "\<forall>source \<in> set files. map_of b (destination (layer_files_dir layer) (moduleDir_of (layer_info m) @ ''/files'') source)
         = Some (kept_entry fv source)"
    using assms(1) by (auto simp: layer_exported_def)
  have "3 < slashes (destination (layer_files_dir layer) (moduleDir_of (layer_info m) @ ''/files'') source)"
    if "source \<in> set files" for source
    using destination_deep [OF filtered_below [OF f(1) assms(3) that]] assms(3) f(2) by (auto simp: plain_layer_def)
  then show ?thesis using f assms(2) by (auto simp: layer_exported_def keeps_def)
qed

lemma copy_layer_keeps:
  assumes "copy_layer fv pe layer (moduleDir_of i) files b = Inr b'" and "plain_layer fv layer" and "ld_info layer = Inr i"
    and "\<And>source. source \<in> set files \<Longrightarrow> starts_with source (layer_files_dir layer @ ''/'')"
  shows "keeps b b' \<and> (\<forall>source \<in> set files.
    map_of b' (destination (layer_files_dir layer) (moduleDir_of i @ ''/files'') source) = Some (kept_entry fv source))"
proof -
  obtain b1 b2 where b: "copy_tops pe (ld_path layer) (moduleDir_of i) (ld_top layer) b = Inr b1"
      "make_dirs pe (moduleDir_of i @ ''/files'') b1 = Inr b2"
      "export_kept fv pe (layer_files_dir layer) (moduleDir_of i @ ''/files'') files b2 = Inr b'"
    using assms(1) by (auto simp: copy_layer_def Let_def split: sum.splits)
  have names: "slashes (info_id i) = 0" "slashes (info_module i) = 0" "\<forall>f \<in> set (ld_top layer). slashes (fst f) = 0"
    using assms(2,3) by (auto simp: plain_layer_def)
  have "keeps b b1" by (rule copy_tops_keeps [OF b(1)]) (use names in \<open>simp add: moduleDir_of_def\<close>)
  moreover have "keeps b1 b2" using make_dirs_keeps [OF b(2)] by simp
  moreover note export_kept_keeps [OF b(3)]
  ultimately show ?thesis using destination_deep [OF assms(4) names(1,2)] keeps_trans by blast
qed

lemma mark_minified_keeps:
  assumes "mark_minified pe meta (moduleDir_of i) b = Some (Inr b')" and "slashes (info_id i) = 0" "slashes (info_module i) = 0"
  shows "keeps b b'"
proof -
  obtain e where "b' = (moduleDir_of i @ ''/info.json'', e) # b"
    using assms(1) by (auto simp: mark_minified_def Let_def split: option.splits bundle_entry.splits sum.splits if_splits)
  then show ?thesis using assms(2,3) by (simp add: keeps_cons moduleDir_of_def)
qed

lemma export_layer_spec:
  assumes "export_layer fv pe up layer (appID, meta, b) = Some (Inr (go, appID', meta', b'))" and "plain_layer fv layer"
  shows "\<exists>m. keeps b b' \<and> meta' = meta\<lparr>meta_layers := meta_layers meta @ [m]\<rparr> \<and> layer_exported fv up b' layer m \<and>
    (\<not> go \<longrightarrow> info_kind (layer_info m) = ''app'' \<and> \<not> list_ex layer_minified (meta_layers meta'))"
proof -
  obtain i where i: "ld_info layer = Inr i" using assms(1) by (cases "ld_info layer") (auto simp: export_layer_def)
  obtain b1 minified files b2 where b: "make_dirs pe (moduleDir_of i) b = Inr b1"
      "filteringFiles fv up layer = Some (Inr (minified, files))" "copy_layer fv pe layer (moduleDir_of i) files b1 = Inr b2"
    using assms(1) i by (auto simp: export_layer_def Let_def split: sum.splits option.splits)
  let ?m = "\<lparr>layer_info = i, layer_minified = minified\<rparr>"
  let ?meta = "meta\<lparr>meta_layers := meta_layers meta @ [?m]\<rparr>"
  have names: "slashes (info_id i) = 0" "slashes (info_module i) = 0" using assms(2) i by (auto simp: plain_layer_def)
  have copied: "keeps b1 b2 \<and> layer_exported fv up b2 layer ?m"
    using copy_layer_keeps [OF b(3) assms(2) i filtered_below [OF b(2) assms(2)]] i b(2) by (simp add: layer_exported_def)
  have res: "meta' = ?meta" "b' = b2 \<or> mark_minified pe ?meta (moduleDir_of i) b2 = Some (Inr b')"
      "\<not> go \<longrightarrow> info_kind i = ''app'' \<and> \<not> list_ex layer_minified (meta_layers ?meta)"
    using assms(1) i b by (auto simp: export_layer_def Let_def map_sum_Inr split: if_splits)
  have "keeps b2 b'" using res(2) mark_minified_keeps [OF _ names] by auto
  then have "keeps b b' \<and> layer_exported fv up b' layer ?m"
    using make_dirs_keeps [OF b(1)] copied layer_exported_keeps [OF _ _ assms(2)] keeps_trans by blast
  then show ?thesis using res(1,3) by auto
qed

text \<open>
  The layers that are exported: all of them, or those up to the first application such that no layer
  so far is minified.
\<close>

lemma export_layers_spec:
  assumes "export_layers fv pe up layers (appID, meta, b) = Some (Inr (appID', meta', b'))"
    and "\<forall>layer \<in> set layers. plain_layer fv layer"
  shows "\<exists>n ms. n \<le> length layers \<and> keeps b b' \<and> meta' = meta\<lparr>meta_layers := meta_layers meta @ ms\<rparr> \<and>
    list_all2 (layer_exported fv up b') (take n layers) ms \<and>
    (n < length layers \<longrightarrow> ms \<noteq> [] \<and> info_kind (layer_info (last ms)) = ''app'' \<and> \<not> list_ex layer_minified (meta_layers meta'))"
  using assms
proof (induction layers arbitrary: appID meta b)
  case Nil
  then show ?case by (intro exI [of _ 0] exI [of _ "[]"]) simp
next
  case (Cons layer layers)
  then obtain go appID1 meta1 b1 where run: "export_layer fv pe up layer (appID, meta, b) = Some (Inr (go, appID1, meta1, b1))"
      "if go then export_layers fv pe up layers (appID1, meta1, b1) = Some (Inr (appID', meta', b'))
       else (appID1, meta1, b1) = (appID', meta', b')"
    by (auto split: option.splits sum.splits if_splits)
  have plain: "plain_layer fv layer" "\<forall>l \<in> set layers. plain_layer fv l" using Cons.prems(2) by auto
  obtain m where m: "keeps b b1" "meta1 = meta\<lparr>meta_layers := meta_layers meta @ [m]\<rparr>" "layer_exported fv up b1 layer m"
      "\<not> go \<longrightarrow> info_kind (layer_info m) = ''app'' \<and> \<not> list_ex layer_minified (meta_layers meta1)"
    using export_layer_spec [OF run(1) plain(1)] by blast
  show ?case
  proof (cases go)
    case True
    obtain n ms where n: "n \<le> length layers" "keeps b1 b'" "meta' = meta1\<lparr>meta_layers := meta_layers meta1 @ ms\<rparr>"
        "list_all2 (layer_exported fv up b') (take n layers) ms"
        "n < length layers \<longrightarrow> ms \<noteq> [] \<and> info_kind (layer_info (last ms)) = ''app'' \<and> \<not> list_ex layer_minified (meta_layers meta')"
      using Cons.IH [of appID1 meta1 b1] run(2) True plain(2) by auto
    have "layer_exported fv up b' layer m" by (rule layer_exported_keeps [OF m(3) n(2) plain(1)])
    moreover have "keeps b b'" using m(1) n(2) by (rule keeps_trans)
    ultimately show ?thesis using n m(2) by (intro exI [of _ "Suc n"] exI [of _ "m # ms"]) auto
  next
    case False
    then have "meta1 = meta'" "b1 = b'" using run(2) by auto
    then show ?thesis using m False by (intro exI [of _ 1] exI [of _ "[m]"]) simp
  qed
qed

lemma copy_generators_keeps: "copy_generators pe gens b = Inr b' \<Longrightarrow> keeps b b'"
proof (induction gens arbitrary: b)
  case (Cons gen gens)
  show ?case
  proof (cases "generator_file gen")
    case (Some r)
    then obtain b1 where "place_new pe (''extra/container/config.d/'' @ file_name r) (BFile (gf_content gen)) b = Inr b1"
        "copy_generators pe gens b1 = Inr b'"
      using Cons.prems by (auto simp: Let_def split: if_splits sum.splits)
    then show ?thesis using Cons.IH place_new_keeps keeps_trans by blast
  qed (use Cons in simp)
qed simp

lemma bundle_config_keeps:
  assumes "bundle_config pe b = Inr b'"
  shows "keeps b b'"
proof -
  obtain b1 b2 cfg b3 b4 where "make_dirs pe ''extra'' b = Inr b1" "make_dirs pe ''extra/container'' b1 = Inr b2"
      "place_new pe ''extra/container/config.json'' (BFile cfg) b2 = Inr b3"
      "make_dirs pe ''extra/container/config.d'' b3 = Inr b4" "copy_generators pe (pe_gens pe) b4 = Inr b'"
    using assms by (auto simp: bundle_config_def Let_def split: sum.splits if_splits option.splits)
  then show ?thesis using make_dirs_keeps place_new_keeps copy_generators_keeps keeps_trans by meson
qed

lemma bundle_extra_keeps:
  assumes "bundle_extra pe appID b = Some (Inr b')"
  shows "keeps b b'"
proof -
  obtain b1 b2 c box b4 where s: "bundle_config pe b = Inr b1" "make_dirs pe ''extra/ld.conf.d'' b1 = Inr b2"
      "place_new pe ''extra/ll-box'' (BFile box) ((''extra/ld.conf.d/zz_deepin-linglong-app.ld.so.conf'', c) # b2) = Inr b4" "b' = b4"
    using assms by (auto simp: bundle_extra_def Let_def split: sum.splits option.splits)
  have "keeps b2 ((''extra/ld.conf.d/zz_deepin-linglong-app.ld.so.conf'', c) # b2)" by (rule keeps_cons) simp
  then show ?thesis using bundle_config_keeps [OF s(1)] make_dirs_keeps [OF s(2)] place_new_keeps [OF s(3)] s(4) keeps_trans
    by meson
qed

text \<open>
  An opened bundle, with \<open>elf_of\<close> for what libelf makes of the bytes, the bytes of one of its sections, and
  what \<open>objcopy --add-section\<close> promises for the sections this code adds.
\<close>

definition opened_uab :: "(bytes \<Rightarrow> elf_view) \<Rightarrow> string \<Rightarrow> bytes \<Rightarrow> uab_file" where
  "opened_uab elf_of fileName content = \<lparr>uab_fileName = fileName, uab_content = content, uab_pos = 0,
     uab_elf = elf_of content, uab_metaInfo = None, uab_mountPoint = []\<rparr>"

definition section_bytes :: "(bytes \<Rightarrow> elf_view) \<Rightarrow> bytes \<Rightarrow> string \<Rightarrow> bytes option" where
  "section_bytes elf_of content name =
     (case getSectionHeader name (opened_uab elf_of [] content) of
        Inl _ \<Rightarrow> None
      | Inr sh \<Rightarrow>
         (if unat (sh_offset sh) + unat (sh_size sh) \<le> length content
          then Some (read_at content (unat (sh_offset sh)) (unat (sh_size sh))) else None))"

definition uab_section_names :: "string set" where
  "uab_section_names = {''linglong.icon'', ''linglong.bundle'', ''linglong.meta''}"

definition objcopy_adds :: "(bytes \<Rightarrow> elf_view) \<Rightarrow> (string list \<Rightarrow> bytes \<Rightarrow> bytes \<Rightarrow> bytes result) \<Rightarrow> bool" where
  "objcopy_adds elf_of objcopy \<longleftrightarrow>
     (\<forall>name \<in> uab_section_names. \<forall>file flags path data elf elf'.
        objcopy (objcopy_args name file flags path) data elf = Inr elf' \<longrightarrow> section_bytes elf_of elf name = None \<longrightarrow>
        section_bytes elf_of elf' name = Some data \<and>
        (\<forall>n \<in> uab_section_names. n \<noteq> name \<longrightarrow>
           section_bytes elf_of elf' n = section_bytes elf_of elf n))"

lemma addNewSection_adds:
  assumes "objcopy_adds elf_of (pe_objcopy pe)" and "addNewSection pe name file data flags path elf = Inr elf'"
    and "name \<in> uab_section_names" and "section_bytes elf_of elf name = None"
  shows "section_bytes elf_of elf' name = Some data"
    and "n \<in> uab_section_names \<Longrightarrow> n \<noteq> name \<Longrightarrow>
      section_bytes elf_of elf' n = section_bytes elf_of elf n"
proof -
  have run: "pe_objcopy pe (objcopy_args name file flags path) data elf = Inr elf'"
    using assms(2) by (auto simp: addNewSection_def split: sum.splits)
  note law = assms(1) [unfolded objcopy_adds_def, rule_format, OF assms(3) run assms(4)]
  show "section_bytes elf_of elf' name = Some data" using law by simp
  show "section_bytes elf_of elf' n = section_bytes elf_of elf n" if "n \<in> uab_section_names" "n \<noteq> name"
    using law that by simp
qed

lemma section_bytes_Some:
  assumes "section_bytes elf_of content name = Some d"
  obtains sh where "getSectionHeader name (opened_uab elf_of [] content) = Inr sh"
    "d = read_at content (unat (sh_offset sh)) (unat (sh_size sh))" "length d = unat (sh_size sh)"
    "unat (sh_offset sh) + unat (sh_size sh) \<le> length content"
  using assms by (auto simp: section_bytes_def read_at_def split: sum.splits if_splits)

lemma getSectionHeader_elf: "uab_elf f = uab_elf g \<Longrightarrow> getSectionHeader name f = getSectionHeader name g"
  by (simp add: getSectionHeader_def)

text \<open>Reading back: a file with the two sections is accepted when the digest is that of the image.\<close>

lemma uab_accepted:
  assumes meta: "section_bytes elf_of elf ''linglong.meta'' = Some text" and "text \<noteq> []"
    and json: "parse text = Inr j" "get j = Some i"
    and bun: "section_bytes elf_of elf (sections_bundle (meta_sections i)) = Some img" and img: "img \<noteq> []" "4096 dvd length img"
    and len: "length elf < 2 ^ 63" and "meta_digest i = sha256hex img"
  shows "uab_verify parse get sha256hex (opened_uab elf_of fileName elf) =
    Some (Inr True, (opened_uab elf_of fileName elf)\<lparr>uab_metaInfo := Some i\<rparr>)"
proof -
  let ?f = "opened_uab elf_of fileName elf"
  obtain sh where sh: "getSectionHeader ''linglong.meta'' (opened_uab elf_of [] elf) = Inr sh"
      "text = read_at elf (unat (sh_offset sh)) (unat (sh_size sh))"
      "unat (sh_offset sh) + unat (sh_size sh) \<le> length elf"
    using section_bytes_Some [OF meta] by metis
  obtain bh where bh: "getSectionHeader (sections_bundle (meta_sections i)) (opened_uab elf_of [] elf) = Inr bh"
      "img = read_at elf (unat (sh_offset bh)) (unat (sh_size bh))" "length img = unat (sh_size bh)"
      "unat (sh_offset bh) + unat (sh_size bh) \<le> length elf"
    using section_bytes_Some [OF bun] by metis
  have same: "getSectionHeader n g = getSectionHeader n (opened_uab elf_of [] elf)" if "uab_elf g = elf_of elf" for n g
    by (rule getSectionHeader_elf) (simp add: that opened_uab_def)
  have info: "getMetaInfo parse get ?f = Some (Inr i, ?f\<lparr>uab_metaInfo := Some i\<rparr>)"
    using sh len json \<open>text \<noteq> []\<close> same [of ?f]
    by (simp add: getMetaInfo_def Let_def QFile_read_def QFile_seek_def opened_uab_def)
  have "unat (sh_size bh) \<noteq> 0" using img(1) unfolding bh(3) [symmetric] by simp
  then have "whole_buffers elf (unat (sh_offset bh)) (unat (sh_size bh))"
    using bh(4) img(2) unfolding bh(3) by (simp add: whole_buffers_def)
  then have "verify_loop sha256hex elf (unat (sh_offset bh)) (sh_size bh) [] = sha256hex img"
    using verify_loop_spec [OF len, of sha256hex "unat (sh_offset bh)" "sh_size bh"] bh(2) by simp
  moreover have "unat (sh_offset bh) < 2 ^ 63" using bh(4) len by simp
  ultimately show ?thesis using info bh(1) assms(9) same [of "?f\<lparr>uab_metaInfo := Some i\<rparr>"]
    by (simp add: uab_verify_def Let_def QFile_seek_def opened_uab_def)
qed

lemma packIcon_adds:
  assumes "objcopy_adds elf_of (pe_objcopy pe)" and "packIcon pe path elf icon up k = Inr (elf1, up1, k1)"
    and "\<forall>n \<in> uab_section_names. section_bytes elf_of elf n = None"
  shows "section_bytes elf_of elf1 ''linglong.bundle'' = None \<and> section_bytes elf_of elf1 ''linglong.meta'' = None"
proof -
  obtain ar where add: "addNewSection pe ''linglong.icon'' (up_buildDir up @ ''/icon.a'') ar [] path elf = Inr elf1"
    using assms(2) by (auto simp: packIcon_def Let_def split: sum.splits)
  have "''linglong.icon'' \<in> uab_section_names" by (simp add: uab_section_names_def)
  from addNewSection_adds(2) [OF assms(1) add this] show ?thesis
    using assms(3) by (simp add: uab_section_names_def)
qed

lemma packBundle_adds:
  assumes "objcopy_adds elf_of (pe_objcopy pe)" and "packBundle fv pe path elf up k = Some (Inr (elf1, up1, k1))"
    and "section_bytes elf_of elf ''linglong.bundle'' = None"
  shows "\<exists>img. pk_bundleFile k1 = Some img \<and> section_bytes elf_of elf1 ''linglong.bundle'' = Some img \<and>
    section_bytes elf_of elf1 ''linglong.meta'' = section_bytes elf_of elf ''linglong.meta'' \<and>
    meta_digest (up_meta up1) = pe_sha256hex pe img \<and> sections_bundle (meta_sections (up_meta up1)) = ''linglong.bundle''"
proof -
  obtain img up0 k0 where mk: "make_bundle fv pe up k = Some (Inr (img, up0, k0))"
      and add: "addNewSection pe ''linglong.bundle'' (up_buildDir up @ ''/bundle.ef'') img [] path elf = Inr elf1"
      and res: "k1 = k0\<lparr>pk_app := Some elf1\<rparr>" "meta_digest (up_meta up1) = pe_sha256hex pe img"
        "sections_bundle (meta_sections (up_meta up1)) = ''linglong.bundle''"
    using assms(2) by (auto simp: packBundle_def Let_def split: if_splits option.splits sum.splits)
  have "pk_bundleFile k0 = Some img"
    using mk by (auto simp: make_bundle_def split: option.splits sum.splits)
  moreover have "''linglong.bundle'' \<in> uab_section_names" "''linglong.meta'' \<in> uab_section_names"
    by (simp_all add: uab_section_names_def)
  ultimately show ?thesis
    using addNewSection_adds [OF assms(1) add _ assms(3)] res by simp
qed

lemma pack_sections_adds:
  assumes "objcopy_adds elf_of (pe_objcopy pe)" and "pack_sections fv pe path header up k = Some (Inr (elf, up', k'))"
    and "\<forall>n \<in> uab_section_names. section_bytes elf_of header n = None"
  shows "\<exists>img. pk_bundleFile k' = Some img \<and> section_bytes elf_of elf ''linglong.bundle'' = Some img \<and>
    section_bytes elf_of elf ''linglong.meta'' = Some (pe_dumpMeta pe (up_meta up')) \<and>
    meta_digest (up_meta up') = pe_sha256hex pe img \<and> sections_bundle (meta_sections (up_meta up')) = ''linglong.bundle''"
proof -
  obtain elf1 up1 k1 elf2 k2 where
      icon: "(case up_icon up of None \<Rightarrow> Inr (header, up, k) | Some icon \<Rightarrow> packIcon pe path header icon up k) = Inr (elf1, up1, k1)"
      and bun: "packBundle fv pe path elf1 up1 k1 = Some (Inr (elf2, up', k2))"
      and meta: "packMetaInfo pe path elf2 up' k2 = Inr (elf, k')"
    using assms(2) by (auto simp: pack_sections_def split: option.splits sum.splits)
  have none: "section_bytes elf_of elf1 ''linglong.bundle'' = None" "section_bytes elf_of elf1 ''linglong.meta'' = None"
    using icon assms(3) packIcon_adds [OF assms(1) _ assms(3)]
    by (auto simp: uab_section_names_def split: option.splits)
  obtain img where img: "pk_bundleFile k2 = Some img" "section_bytes elf_of elf2 ''linglong.bundle'' = Some img"
      "section_bytes elf_of elf2 ''linglong.meta'' = None" "meta_digest (up_meta up') = pe_sha256hex pe img"
      "sections_bundle (meta_sections (up_meta up')) = ''linglong.bundle''"
    using packBundle_adds [OF assms(1) bun none(1)] none(2) by auto
  have add: "addNewSection pe ''linglong.meta'' (up_buildDir up' @ ''/metaInfo.json'') (pe_dumpMeta pe (up_meta up'))
      [''linglong.meta=readonly,code''] path elf2 = Inr elf" "pk_bundleFile k' = pk_bundleFile k2"
    using meta by (auto simp: packMetaInfo_def Let_def split: option.splits sum.splits)
  have "''linglong.bundle'' \<in> uab_section_names" "''linglong.meta'' \<in> uab_section_names"
    by (simp_all add: uab_section_names_def)
  then show ?thesis using addNewSection_adds [OF assms(1) add(1) _ img(3)] add(2) img by simp
qed

section \<open>Properties\<close>

text \<open>
  Which files of a layer are kept, and when it counts as minified: a filter stands for the regular
  file it names or for everything below the directory it names. A directory itself is never excluded.
\<close>

theorem filteringFiles_spec:
  assumes "filteringFiles fv up layer = Some (Inr (minified, files))"
  shows "\<exists>allFiles. fv_walk fv (layer_files_dir layer) = Inr (Some allFiles) \<and> distinct files \<and>
    (let excluded = expanded fv (layer_files_dir layer) (up_excludeFiles up) - expanded fv (layer_files_dir layer) (up_includeFiles up)
     in set files = set allFiles - excluded \<and> (minified \<longleftrightarrow> excluded \<noteq> {}))"
proof -
  let ?d = "layer_files_dir layer"
  obtain ex inc allFiles where s: "expandPaths fv ?d (up_excludeFiles up) = Some (Inr ex)"
      "expandPaths fv ?d (up_includeFiles up) = Some (Inr inc)" "fv_walk fv ?d = Inr (Some allFiles)"
      "minified = (filter (\<lambda>f. f \<notin> set inc) ex \<noteq> [])"
      "files = filter (\<lambda>f. f \<notin> set (filter (\<lambda>f. f \<notin> set inc) ex)) (remdups allFiles)"
    using assms by (auto simp: filteringFiles_def Let_def split: if_splits option.splits sum.splits)
  have "minified \<longleftrightarrow> set ex - set inc \<noteq> {}" unfolding s(4) by (auto simp: filter_empty_conv)
  moreover have "set files = set allFiles - (set ex - set inc)" unfolding s(5) by auto
  ultimately show ?thesis using s(3,5) expandPaths_set [OF s(1)] expandPaths_set [OF s(2)] by (simp add: Let_def)
qed

text \<open>
  Excluding a link to a directory excludes the paths behind the link, which are not among the files of the
  layer: nothing is left out, and the layer counts as minified all the same.
\<close>

lemma excluded_link_kept:
  assumes "filteringFiles fv up layer = Some (Inr (minified, files))"
    and "up_excludeFiles up = [p]" and "up_includeFiles up = []" and "entry = path_div (layer_files_dir layer) (drop 1 p)"
    and "fv_exists fv entry = Inr True" "fv_regular fv entry = Inr False" "fv_directory fv entry = Inr True"
    and "fv_walk fv entry = Inr (Some inside)" "inside \<noteq> []" "fv_walk fv (layer_files_dir layer) = Inr (Some allFiles)"
    and "set inside \<inter> set allFiles = {}"
  shows "minified \<and> set files = set allFiles"
proof -
  have "expanded fv (layer_files_dir layer) (up_excludeFiles up) = set inside" "expanded fv (layer_files_dir layer) (up_includeFiles up) = {}"
    using assms(2-8) by (auto simp: expanded_def Let_def)
  then show ?thesis using filteringFiles_spec [OF assms(1)] assms(9-11) by (auto simp: Let_def)
qed

text \<open>
  The bundle is complete. When the directory of the bundle has been prepared, the meta information
  lists the layers in order with their descriptions and whether they are minified: all of them, or
  those up to the first application with no minified layer up to it. For each of them every file that the filters keep is
  in the bundle below the directory of its module, as the link, the directory or the contents it was; whatever
  is copied later replaces none of them.
\<close>

theorem bundle_complete:
  assumes "prepareBundle fv pe up b = Some (Inr (up', b'))" and "\<forall>layer \<in> set (up_layers up). plain_layer fv layer"
    and "meta_layers (up_meta up) = []"
  shows "\<exists>n \<le> length (up_layers up). list_all2 (layer_exported fv up b') (take n (up_layers up)) (meta_layers (up_meta up')) \<and>
    (n < length (up_layers up) \<longrightarrow> meta_layers (up_meta up') \<noteq> [] \<and>
       info_kind (layer_info (last (meta_layers (up_meta up')))) = ''app'' \<and>
       \<not> list_ex layer_minified (meta_layers (up_meta up')))"
proof -
  obtain b2 appID meta b3 where s: "export_layers fv pe up (up_layers up) ([], up_meta up, b2) = Some (Inr (appID, meta, b3))"
      "bundle_extra pe appID b3 = Some (Inr b')" "up' = up\<lparr>up_meta := meta\<rparr>"
    using assms(1) by (auto simp: prepareBundle_def Let_def map_sum_Inr split: option.splits sum.splits)
  obtain n ms where n: "n \<le> length (up_layers up)" "meta = (up_meta up)\<lparr>meta_layers := meta_layers (up_meta up) @ ms\<rparr>"
      "list_all2 (layer_exported fv up b3) (take n (up_layers up)) ms"
      "n < length (up_layers up) \<longrightarrow> ms \<noteq> [] \<and> info_kind (layer_info (last ms)) = ''app'' \<and> \<not> list_ex layer_minified (meta_layers meta)"
    using export_layers_spec [OF s(1) assms(2)] by blast
  have "list_all2 (layer_exported fv up b') (take n (up_layers up)) ms"
    by (rule list.rel_mono_strong [OF n(3)])
      (use assms(2) in \<open>auto intro: layer_exported_keeps [OF _ bundle_extra_keeps [OF s(2)]] dest: in_set_takeD\<close>)
  then show ?thesis using n s(3) assms(3) by auto
qed

text \<open>
  C32: What the packager makes is accepted. Given that \<open>objcopy\<close> adds sections and that the JSON library reads
  back what it writes, packing that succeeds leaves an executable file whose meta information is that of
  the packager and whose bundle section passes \<open>verify\<close>, for images made of whole blocks of 4096 bytes.
\<close>

theorem uab_pack_verifies:
  assumes "objcopy_adds elf_of (pe_objcopy pe)"
    and "\<And>header n. pe_header pe = Some header \<Longrightarrow> n \<in> uab_section_names \<Longrightarrow> section_bytes elf_of header n = None"
    and "UABPackager_pack fv pe uabFilename up k = Some (Inr (up', k'))"
    and "pe_dumpMeta pe (up_meta up') \<noteq> []" and "parse (pe_dumpMeta pe (up_meta up')) = Inr j" and "get j = Some (up_meta up')"
    and "\<And>img. pk_bundleFile k' = Some img \<Longrightarrow> img \<noteq> [] \<and> 4096 dvd length img"
    and "\<And>elf. pk_export k' = Some elf \<Longrightarrow> length elf < 2 ^ 63"
  shows "\<exists>elf. pk_export k' = Some elf \<and> pk_executable k' \<and>
    uab_verify parse get (pe_sha256hex pe) (opened_uab elf_of fileName elf) =
      Some (Inr True, (opened_uab elf_of fileName elf)\<lparr>uab_metaInfo := Some (up_meta up')\<rparr>)"
proof -
  obtain header elf path k1 where s: "pe_header pe = Some header"
      "pack_sections fv pe path header up (k\<lparr>pk_app := Some header\<rparr>) = Some (Inr (elf, up', k1))"
      "pk_export k' = Some elf" "pk_executable k'" "pk_bundleFile k' = pk_bundleFile k1"
    using assms(3) by (auto simp: UABPackager_pack_def Let_def split: if_splits option.splits sum.splits)
  obtain img where img: "pk_bundleFile k1 = Some img" "section_bytes elf_of elf ''linglong.bundle'' = Some img"
      "section_bytes elf_of elf ''linglong.meta'' = Some (pe_dumpMeta pe (up_meta up'))"
      "meta_digest (up_meta up') = pe_sha256hex pe img" "sections_bundle (meta_sections (up_meta up')) = ''linglong.bundle''"
    using pack_sections_adds [OF assms(1) s(2)] assms(2) s(1) by blast
  show ?thesis
    using uab_accepted [OF img(3), of parse j get "up_meta up'" img "pe_sha256hex pe" fileName] img assms(4-8) s(3-5) by simp
qed

definition demo_img :: bytes where
  "demo_img = replicate 4096 0"

definition demo_elf :: "bytes \<Rightarrow> elf_view" where
  "demo_elf content = \<lparr>elf_shstrndx_ok = True, elf_sections =
     (if length content < 4097 then []
      else Some \<lparr>sh_name = Some ''linglong.bundle'', sh_offset = 1, sh_size = 4096\<rparr> #
        (if length content < 4099 then []
         else [Some \<lparr>sh_name = Some ''linglong.meta'', sh_offset = 4097, sh_size = 2\<rparr>])), elf_msg = []\<rparr>"

definition demo_objcopy :: "string list \<Rightarrow> bytes \<Rightarrow> bytes \<Rightarrow> bytes result" where
  "demo_objcopy args data elf =
     (if elf = [1] \<and> starts_with (args ! 1) ''linglong.bundle='' \<and> length data = 4096 then Inr (elf @ data)
      else if length elf = 4097 \<and> starts_with (args ! 1) ''linglong.meta='' \<and> length data = 2 then Inr (elf @ data)
      else Inl (Err ''exec'' [] 1))"

definition demo_pack_env :: uab_pack_env where
  "demo_pack_env = \<lparr>pe_header = Some [1], pe_removeApp = True, pe_copyHeader = True, pe_removeExport = True,
     pe_copyExport = True, pe_chmod = True, pe_removeBuilt = True, pe_ar = (\<lambda>_ _. Inr []), pe_objcopy = demo_objcopy,
     pe_mkfs = (\<lambda>_ _. Inr demo_img), pe_mkpath = (\<lambda>_. True), pe_mkdir = (\<lambda>_. None), pe_place = (\<lambda>_. None), pe_newer = (\<lambda>_. False),
     pe_loader = Some [2], pe_chmodLoader = None, pe_loadInfo = (\<lambda>_. Inr demo_info), pe_dumpInfo = (\<lambda>_. [3]), pe_openInfo = True,
     pe_cfgDir = True, pe_initCfg = Some [4], pe_genDir = True,
     pe_gens = [\<lparr>gf_path = ''/c/20-devices'', gf_executable = True, gf_link = Some ''/l/20-devices-static'', gf_exists = True, gf_content = [5]\<rparr>],
     pe_arch = Inr X86_64, pe_openLd = None, pe_encode = (\<lambda>_. [6]), pe_box = Some (''/bin/ll-box'', [7]), pe_openBundle = None,
     pe_addData = True, pe_openMeta = None, pe_writeMeta = None, pe_dumpMeta = (\<lambda>_. [8, 9]), pe_sha256hex = (\<lambda>_. ''d'')\<rparr>"

definition demo_files :: fs_view where
  "demo_files = \<lparr>fv_exists = (\<lambda>_. Inr True), fv_regular = (\<lambda>p. Inr (p = ''/l/files/a'' \<or> p = ''/l/files/b'')),
     fv_directory = (\<lambda>p. Inr (p = ''/l/files'')), fv_symlink = (\<lambda>p. Inr (p = ''/l/files/c'')),
     fv_walk = (\<lambda>_. Inr (Some [''/l/files/a'', ''/l/files/b'', ''/l/files/c''])), fv_content = (\<lambda>_. [1]), fv_target = (\<lambda>_. ''a'')\<rparr>"

definition demo_layer :: layer_dir where
  "demo_layer = \<lparr>ld_path = ''/l'', ld_exists = True, ld_info = Inr demo_info, ld_top = [(''info.json'', BFile [2])]\<rparr>"

definition demo_packager :: uab_packager where
  "demo_packager = \<lparr>up_buildDir = ''/w/.uabBuild'', up_icon = None, up_layers = [demo_layer], up_excludeFiles = [''/a'', ''/b''],
     up_includeFiles = [''/b''],
     up_meta = \<lparr>meta_digest = [], meta_layers = [], meta_sections = \<lparr>sections_bundle = [], sections_icon = None\<rparr>,
                meta_uuid = ''u'', meta_version = ''1''\<rparr>\<rparr>"

lemmas demo_pack_defs = demo_pack_env_def demo_files_def demo_layer_def demo_packager_def

theorem bundle_complete_witness:
  "\<exists>up' b'. prepareBundle demo_files demo_pack_env demo_packager [] = Some (Inr (up', b')) \<and>
     map_of b' ''layers/org.deepin.demo/binary/files/b'' = Some (BFile [1]) \<and>
     map layer_minified (meta_layers (up_meta up')) = [True]"
proof -
  let ?run = "prepareBundle demo_files demo_pack_env demo_packager []"
  have "case ?run of Some (Inr _) \<Rightarrow> True | _ \<Rightarrow> False" by code_simp
  then obtain up' b' where run: "?run = Some (Inr (up', b'))" by (auto split: option.splits sum.splits)
  have kept: "filteringFiles demo_files demo_packager demo_layer = Some (Inr (True, [''/l/files/b'', ''/l/files/c'']))" by code_simp
  have "plain_layer demo_files demo_layer"
    by (auto simp: plain_layer_def demo_pack_defs demo_info_def layer_files_dir_def)
  then obtain n where n: "list_all2 (layer_exported demo_files demo_packager b') (take n [demo_layer]) (meta_layers (up_meta up'))"
      "n < 1 \<longrightarrow> meta_layers (up_meta up') \<noteq> []"
    using bundle_complete [OF run] by (auto simp: demo_packager_def)
  then obtain m where m: "meta_layers (up_meta up') = [m]" "layer_exported demo_files demo_packager b' demo_layer m"
    by (cases n) (auto simp: list_all2_Cons1)
  have "layer_info m = demo_info" using m(2) by (simp add: layer_exported_def demo_layer_def)
  then have "map_of b' ''layers/org.deepin.demo/binary/files/b'' = Some (BFile [1]) \<and> layer_minified m"
    using m(2) kept
    by (simp add: layer_exported_def kept_entry_def destination_def moduleDir_of_def layer_files_dir_def demo_files_def demo_layer_def demo_info_def)
  then show ?thesis using run m(1) by simp
qed

lemma demo_objcopy_adds: "objcopy_adds demo_elf demo_objcopy"
  unfolding objcopy_adds_def uab_section_names_def
  by (auto simp: demo_objcopy_def demo_elf_def objcopy_args_def section_bytes_def opened_uab_def getSectionHeader_def
      section_named_def read_at_def split: if_splits)

theorem uab_pack_verifies_witness:
  "\<exists>up' k' elf. UABPackager_pack demo_files demo_pack_env ''a.uab'' demo_packager
       \<lparr>pk_app = None, pk_icon = None, pk_bundleDir = [], pk_bundleFile = None, pk_meta = None, pk_export = None, pk_executable = False\<rparr>
     = Some (Inr (up', k')) \<and> pk_export k' = Some elf \<and>
     fst (the (uab_verify (\<lambda>_. Inr ()) (\<lambda>_. Some (up_meta up')) (\<lambda>_. ''d'') (opened_uab demo_elf ''a.uab'' elf))) = Inr True"
proof -
  let ?k = "\<lparr>pk_app = None, pk_icon = None, pk_bundleDir = [], pk_bundleFile = None, pk_meta = None, pk_export = None, pk_executable = False\<rparr>"
  have "case prepareBundle demo_files demo_pack_env demo_packager [] of Some (Inr _) \<Rightarrow> True | _ \<Rightarrow> False" by code_simp
  then obtain up1 b1 where prep: "prepareBundle demo_files demo_pack_env demo_packager [] = Some (Inr (up1, b1))"
    by (auto split: option.splits sum.splits)
  have "\<exists>up' k'. UABPackager_pack demo_files demo_pack_env ''a.uab'' demo_packager ?k = Some (Inr (up', k')) \<and>
      pk_bundleFile k' = Some demo_img \<and> (\<forall>elf. pk_export k' = Some elf \<longrightarrow> length elf < 2 ^ 63)"
    using prep
    by (simp add: UABPackager_pack_def pack_sections_def packBundle_def make_bundle_def packMetaInfo_def addNewSection_def Let_def
        elfHelper_create_def demo_objcopy_def objcopy_args_def demo_img_def demo_pack_env_def demo_packager_def)
  then obtain up' k' where run: "UABPackager_pack demo_files demo_pack_env ''a.uab'' demo_packager ?k = Some (Inr (up', k'))"
      "pk_bundleFile k' = Some demo_img" "\<And>elf. pk_export k' = Some elf \<Longrightarrow> length elf < 2 ^ 63" by blast
  have "section_bytes demo_elf header n = None" if "pe_header demo_pack_env = Some header" for header n
    using that by (auto simp: demo_pack_env_def section_bytes_def demo_elf_def opened_uab_def getSectionHeader_def)
  then have "\<exists>elf. pk_export k' = Some elf \<and> pk_executable k' \<and>
      uab_verify (\<lambda>_. Inr ()) (\<lambda>_. Some (up_meta up')) (pe_sha256hex demo_pack_env) (opened_uab demo_elf ''a.uab'' elf) =
        Some (Inr True, (opened_uab demo_elf ''a.uab'' elf)\<lparr>uab_metaInfo := Some (up_meta up')\<rparr>)"
    by (intro uab_pack_verifies [where parse = "\<lambda>_. Inr ()" and get = "\<lambda>_. Some (up_meta up')" and j = "()"])
      (use run demo_objcopy_adds in \<open>auto simp: demo_pack_env_def demo_img_def\<close>)
  then show ?thesis using run(1) by (auto simp: demo_pack_env_def)
qed

end
