(* ===== verification/Builder_Install.thy ===== *)
theory Builder_Install
  imports Uab_Packager Repo_Update
begin

text \<open>
  The file operations of the builder, \<open>libs/linglong/src/linglong/builder/linglong_builder.cpp\<close>: the size of a directory,
  copying a directory, and distributing the files of a build over the modules of the package. The
  files are an association list of absolute paths. Matching of regular expressions (\<open>QRegularExpression\<close>) is
  the parameter \<open>rx\<close>, of a pattern and a text.
\<close>

section \<open>Files\<close>

text \<open>A link has the length of its text and knows what it points to.\<close>

datatype link_kind = ToDir | ToFile | Broken

datatype build_entry = EDir | EFile nat | ELink nat link_kind

type_synonym build_files = "(string \<times> build_entry) list"

definition lookup_file :: "build_files \<Rightarrow> string \<Rightarrow> build_entry option" where
  "lookup_file fs p = map_of fs p"

text \<open>\<open>QFileInfo::isDir\<close> and \<open>exists\<close> follow links.\<close>

definition is_dir_entry :: "build_entry \<Rightarrow> bool" where
  "is_dir_entry e = (case e of EDir \<Rightarrow> True | EFile _ \<Rightarrow> False | ELink _ k \<Rightarrow> k = ToDir)"

definition make_path :: "string \<Rightarrow> build_files \<Rightarrow> build_files" where
  "make_path p fs = fold (\<lambda>d fs. if lookup_file fs d = None then (d, EDir) # fs else fs) (dir_chain p) fs"

text \<open>\<open>QFile::rename\<close> of something that is not a directory; it fails when the new name exists.\<close>

definition rename_file :: "string \<Rightarrow> string \<Rightarrow> build_files \<Rightarrow> build_files" where
  "rename_file old new fs =
     (case (lookup_file fs old, lookup_file fs new) of
        (Some e, None) \<Rightarrow> (new, e) # filter (\<lambda>x. fst x \<noteq> old) fs
      | _ \<Rightarrow> fs)"

text \<open>Writing a file, which replaces the old one, and \<open>QDir::removeRecursively\<close>.\<close>

definition put_file :: "string \<Rightarrow> build_entry \<Rightarrow> build_files \<Rightarrow> build_files" where
  "put_file p e fs = (p, e) # filter (\<lambda>x. fst x \<noteq> p) fs"

definition remove_dir :: "string \<Rightarrow> build_files \<Rightarrow> build_files" where
  "remove_dir d fs = filter (\<lambda>x. fst x \<noteq> d \<and> \<not> starts_with (fst x) (d @ ''/'')) fs"

text \<open>
  \<open>QDir::entryInfoList\<close> without filters lists neither hidden names nor broken links.
\<close>

definition visible :: "string \<times> build_entry \<Rightarrow> bool" where
  "visible x \<longleftrightarrow> \<not> starts_with (file_name (fst x)) ''.'' \<and> (case snd x of ELink _ k \<Rightarrow> k \<noteq> Broken | _ \<Rightarrow> True)"

definition entryInfoList :: "build_files \<Rightarrow> string \<Rightarrow> (string \<times> build_entry) list" where
  "entryInfoList fs d = filter (\<lambda>x. parent_path (fst x) = d \<and> length d < length (fst x) \<and> visible x) fs"

section \<open>The size of a directory\<close>

definition longest :: "build_files \<Rightarrow> nat" where
  "longest fs = foldr (\<lambda>x. max (length (fst x))) fs 0"

lemma longest_ge: "x \<in> set fs \<Longrightarrow> length (fst x) \<le> longest fs"
  by (induction fs) (auto simp: longest_def)

function sizeOfDir :: "build_files \<Rightarrow> string \<Rightarrow> u64" where
  "sizeOfDir fs d =
     foldr (\<lambda>x acc. acc + (case snd x of
                 ELink n _ \<Rightarrow> of_nat n
               | EDir \<Rightarrow> 4 * 1024 + sizeOfDir fs (fst x)
               | EFile n \<Rightarrow> of_nat n)) (entryInfoList fs d) 0"
  by pat_completeness auto

termination
proof (relation "measure (\<lambda>(fs, d). Suc (longest fs) - length d)")
  fix fs d x z
  assume "x \<in> set (entryInfoList fs d)"
  then have "length d < length (fst x)" "length (fst x) \<le> longest fs"
    using longest_ge by (auto simp: entryInfoList_def)
  then show "((fs, fst x), fs, d) \<in> measure (\<lambda>(fs, d). Suc (longest fs) - length d)" by simp
qed simp

declare sizeOfDir.simps [simp del]

text \<open>The same by recursion on the nesting, which is what is evaluated.\<close>

fun size_nested :: "nat \<Rightarrow> build_files \<Rightarrow> string \<Rightarrow> u64" where
  "size_nested 0 fs d = 0"
| "size_nested (Suc n) fs d =
     foldr (\<lambda>x acc. acc + (case snd x of
                 ELink k _ \<Rightarrow> of_nat k
               | EDir \<Rightarrow> 4 * 1024 + size_nested n fs (fst x)
               | EFile k \<Rightarrow> of_nat k)) (entryInfoList fs d) 0"

lemma size_nested_enough: "longest fs < n + length d \<Longrightarrow> size_nested (Suc n) fs d = sizeOfDir fs d"
proof (induction n arbitrary: d)
  case 0
  then have "entryInfoList fs d = []" using longest_ge by (fastforce simp: entryInfoList_def filter_empty_conv)
  then show ?case by (subst sizeOfDir.simps) simp
next
  case (Suc n)
  have deeper: "size_nested (Suc n) fs (fst x) = sizeOfDir fs (fst x)" if "x \<in> set (entryInfoList fs d)" for x
    using that Suc.prems by (intro Suc.IH) (simp add: entryInfoList_def)
  have "size_nested (Suc (Suc n)) fs d = foldr (\<lambda>x acc. acc + (case snd x of
        ELink k _ \<Rightarrow> of_nat k | EDir \<Rightarrow> 4 * 1024 + sizeOfDir fs (fst x) | EFile k \<Rightarrow> of_nat k)) (entryInfoList fs d) 0"
    unfolding size_nested.simps(2) [of "Suc n"] by (intro foldr_cong refl) (simp only: deeper)
  then show ?case by (subst sizeOfDir.simps) simp
qed

lemma sizeOfDir_code [code]: "sizeOfDir fs d = size_nested (Suc (Suc (longest fs))) fs d"
  by (rule size_nested_enough [symmetric]) simp

section \<open>Copying a directory\<close>

text \<open>
  \<open>real\<close> is the directory a path leads to, with links followed; \<open>cp\<close> and \<open>ln\<close> are the errors of copying a file and of
  making a link, \<open>rl\<close> says whether \<open>readlink\<close> works. A link to a directory is
  entered like a directory; the first argument bounds the nesting.
\<close>

record copy_env =
  cpy_real :: "string \<Rightarrow> string"
  cpy_mkpath :: "string \<Rightarrow> bool"
  cpy_copy :: "string \<Rightarrow> qfile_error option"
  cpy_readlink :: "string \<Rightarrow> bool"
  cpy_link :: "string \<Rightarrow> bool"

definition copy_one ::
    "copy_env \<Rightarrow> string \<Rightarrow> string \<times> build_entry \<Rightarrow> string \<Rightarrow> build_files \<Rightarrow> unit result \<times> build_files" where
  "copy_one ce trace x dst fs =
     (let newFile = dst @ ''/'' @ file_name (fst x) in
      case snd x of
        ELink n k \<Rightarrow>
         (if \<not> cpy_readlink ce (fst x) then (Inl (Err trace (''readlink failed! '' @ fst x) (-1)), fs)
          else if lookup_file fs newFile \<noteq> None \<or> \<not> cpy_link ce newFile
          then (Inl (Err trace ''Failed to create link: Unknown error'' (-1)), fs)
          else (Inr (), (newFile, ELink n k) # fs))
      | e \<Rightarrow>
         (if lookup_file fs newFile \<noteq> None then (Inl (Err_qfile trace (fst x) (1, ''Destination file exists'')), fs)
          else case cpy_copy ce newFile of
            Some er \<Rightarrow> (Inl (Err_qfile trace (fst x) er), fs)
          | None \<Rightarrow> (Inr (), (newFile, e) # fs)))"

fun copyDir :: "nat \<Rightarrow> copy_env \<Rightarrow> string \<Rightarrow> string \<Rightarrow> build_files \<Rightarrow> (unit result \<times> build_files) option"
  and copy_list :: "nat \<Rightarrow> copy_env \<Rightarrow> string \<Rightarrow> string \<Rightarrow> (string \<times> build_entry) list \<Rightarrow> build_files \<Rightarrow>
    (unit result \<times> build_files) option" where
  "copyDir 0 ce src dst fs = None"
| "copyDir (Suc n) ce src dst fs =
     (let trace = ''copy '' @ src @ '' to '' @ dst in
      if lookup_file fs dst = None \<and> \<not> cpy_mkpath ce dst
      then Some (Inl (Err trace (''create '' @ dst @ '': failed'') (-1)), fs)
      else copy_list n ce src dst (entryInfoList fs (cpy_real ce src)) (make_path dst fs))"
| "copy_list n ce src dst [] fs = Some (Inr (), fs)"
| "copy_list n ce src dst (x # xs) fs =
     (if is_dir_entry (snd x)
      then case copyDir n ce (src @ ''/'' @ file_name (fst x)) (dst @ ''/'' @ file_name (fst x)) fs of
             None \<Rightarrow> None
           | Some (Inl e, fs1) \<Rightarrow> Some (Inl e, fs1)
           | Some (Inr _, fs1) \<Rightarrow> copy_list n ce src dst xs fs1
      else case copy_one ce (''copy '' @ src @ '' to '' @ dst) x dst fs of
             (Inl e, fs1) \<Rightarrow> Some (Inl e, fs1)
           | (Inr _, fs1) \<Rightarrow> copy_list n ce src dst xs fs1)"

section \<open>Installing a module\<close>

text \<open>\<open>QString::simplified\<close> (of spaces and control characters) and \<open>replace\<close>.\<close>

definition is_blank :: "char \<Rightarrow> bool" where
  "is_blank c \<longleftrightarrow> c \<in> {CHR '' '', CHR 0x09, CHR 0x0A, CHR 0x0B, CHR 0x0C, CHR 0x0D}"

fun simplify_from :: "bool \<Rightarrow> string \<Rightarrow> string" where
  "simplify_from gap [] = []"
| "simplify_from gap (c # cs) =
     (if is_blank c then simplify_from True cs
      else (if gap then [CHR '' '', c] else [c]) @ simplify_from False cs)"

definition simplified :: "string \<Rightarrow> string" where
  "simplified s = simplify_from False (dropWhile is_blank s)"

function qreplace :: "string \<Rightarrow> string \<Rightarrow> string \<Rightarrow> string" where
  "qreplace pat rep s =
     (if pat = [] then s else if starts_with s pat then rep @ qreplace pat rep (drop (length pat) s)
      else case s of [] \<Rightarrow> [] | c # cs \<Rightarrow> c # qreplace pat rep cs)"
  by pat_completeness auto

termination
proof (relation "measure (\<lambda>(_, _, s). length s)")
  fix pat rep s :: string
  assume "pat \<noteq> []" "starts_with s pat"
  then show "((pat, rep, drop (length pat) s), pat, rep, s) \<in> measure (\<lambda>(_, _, s). length s)"
    by (cases pat) (auto simp: starts_with_iff)
qed auto

declare qreplace.simps [simp del]

lemma qreplace_code [code]:
  "qreplace pat rep [] = []"
  "qreplace pat rep (c # cs) =
     (if pat = [] then c # cs else if starts_with (c # cs) pat then rep @ qreplace pat rep (drop (length pat) (c # cs))
      else c # qreplace pat rep cs)"
proof -
  have "starts_with [] pat \<longleftrightarrow> pat = []" by (cases pat) auto
  then show "qreplace pat rep [] = []" by (subst qreplace.simps) simp
  show "qreplace pat rep (c # cs) =
     (if pat = [] then c # cs else if starts_with (c # cs) pat then rep @ qreplace pat rep (drop (length pat) (c # cs))
      else c # qreplace pat rep cs)" by (subst qreplace.simps) simp
qed

definition installFile :: "string \<times> build_entry \<Rightarrow> string \<Rightarrow> build_files \<Rightarrow> build_files" where
  "installFile info dstPath fs =
     (if is_dir_entry (snd info) then make_path dstPath fs
      else rename_file (fst info) dstPath (make_path (parent_path dstPath) fs))"

text \<open>What a rule selects: one path, or every path below \<open>src\<close> that the expression matches.\<close>

definition regex_of :: "string \<Rightarrow> string \<Rightarrow> string" where
  "regex_of src rule =
     (if starts_with rule ''^/'' then ''^'' @ src @ drop 1 rule else ''^'' @ src @ ''/'' @ drop 1 rule)"

text \<open>\<open>QDir::cleanPath\<close> of an absolute path, as \<open>absoluteFilePath\<close> does it.\<close>

fun clean_parts :: "string list \<Rightarrow> string list \<Rightarrow> string list" where
  "clean_parts acc [] = rev acc"
| "clean_parts acc (p # ps) =
     (if p = [] \<or> p = ''.'' then clean_parts acc ps
      else if p = ''..'' then clean_parts (drop 1 acc) ps
      else clean_parts (p # acc) ps)"

definition clean_path :: "string \<Rightarrow> string" where
  "clean_path p = concat (map (\<lambda>d. CHR ''/'' # d) (clean_parts [] (split_on (CHR ''/'') p)))"

definition entries :: "build_files \<Rightarrow> (string \<times> build_entry) list" where
  "entries fs = List.map_filter (\<lambda>p. map_option (\<lambda>e. (p, e)) (lookup_file fs p)) (remdups (map fst fs))"

definition selected :: "(string \<Rightarrow> string \<Rightarrow> bool) \<Rightarrow> string \<Rightarrow> string \<Rightarrow> build_files \<Rightarrow> (string \<times> build_entry) list" where
  "selected rx src rule fs =
     (if rule = [] \<or> starts_with rule ''#'' then []
      else if \<not> starts_with rule ''^''
      then (case lookup_file fs (clean_path (src @ ''/'' @ rule)) of
              None \<Rightarrow> []
            | Some e \<Rightarrow> if ends_with rule ''/'' \<and> \<not> is_dir_entry e then [] else [(clean_path (src @ ''/'' @ rule), e)])
      else filter (\<lambda>x. starts_with (fst x) (src @ ''/'') \<and> rx (regex_of src rule) (fst x)) (entries fs))"

definition install_rule ::
    "(string \<Rightarrow> string \<Rightarrow> bool) \<Rightarrow> string \<Rightarrow> string \<Rightarrow> string \<Rightarrow> build_files \<Rightarrow> build_files" where
  "install_rule rx src dest rule fs =
     fold (\<lambda>x. installFile x (qreplace src dest (fst x))) (selected rx src (simplified rule) fs) fs"

definition installModule ::
    "(string \<Rightarrow> string \<Rightarrow> bool) \<Rightarrow> string list \<Rightarrow> string \<Rightarrow> string \<Rightarrow> build_files \<Rightarrow> build_files" where
  "installModule rx installRules src dest fs =
     fold (install_rule rx src dest) installRules (make_path dest (make_path src fs))"

section \<open>Lemmas\<close>

definition below :: "string \<Rightarrow> string \<Rightarrow> bool" where
  "below d p \<longleftrightarrow> (\<exists>r. p = d @ CHR ''/'' # r)"

lemma below_iff: "starts_with p (d @ ''/'') \<longleftrightarrow> below d p"
  by (auto simp: below_def starts_with_iff)

lemma below_code [code]: "below d p = starts_with p (d @ ''/'')"
  by (simp add: below_iff)

lemma below_trans: "below a b \<Longrightarrow> below b c \<Longrightarrow> below a c"
  by (auto simp: below_def)

lemma below_irrefl: "\<not> below p p"
  by (auto simp: below_def)

lemma dir_chain_iff: "q \<in> set (dir_chain p) \<longleftrightarrow> q = p \<or> (q \<noteq> [] \<and> below q p)"
proof
  assume "q \<in> set (dir_chain p)"
  then consider "q = p" | i where "i < length p" "0 < i" "p ! i = CHR ''/''" "q = take i p"
    by (auto simp: dir_chain_def)
  then show "q = p \<or> (q \<noteq> [] \<and> below q p)"
  proof cases
    case 2
    then have "p = q @ CHR ''/'' # drop (Suc i) p" by (metis id_take_nth_drop)
    then show ?thesis using 2 by (auto simp: below_def)
  qed simp
next
  assume "q = p \<or> (q \<noteq> [] \<and> below q p)"
  moreover have "q \<in> set (dir_chain p)" if "q \<noteq> []" "p = q @ CHR ''/'' # r" for r
    using that by (auto simp: dir_chain_def intro!: image_eqI [of _ _ "length q"])
  ultimately show "q \<in> set (dir_chain p)" by (auto simp: below_def)
qed

lemma make_path_lookup: "lookup_file (make_path p fs) q =
    (case lookup_file fs q of Some e \<Rightarrow> Some e | None \<Rightarrow> if q \<in> set (dir_chain p) then Some EDir else None)"
proof -
  have "lookup_file (fold (\<lambda>d fs. if lookup_file fs d = None then (d, EDir) # fs else fs) ds fs) q =
      (case lookup_file fs q of Some e \<Rightarrow> Some e | None \<Rightarrow> if q \<in> set ds then Some EDir else None)" for ds
    by (induction ds arbitrary: fs) (auto simp: lookup_file_def split: option.splits)
  then show ?thesis by (simp add: make_path_def)
qed

lemma map_of_filter_ne: "map_of (filter (\<lambda>x. fst x \<noteq> old) fs) q = (if q = old then None else map_of fs q)"
  by (induction fs) auto

lemma rename_file_lookup:
  assumes "lookup_file fs old = Some e" and "lookup_file fs new = None"
  shows "lookup_file (rename_file old new fs) q = (if q = new then Some e else if q = old then None else lookup_file fs q)"
  using assms by (auto simp: rename_file_def lookup_file_def map_of_filter_ne)

lemma rename_file_other: "q \<noteq> old \<Longrightarrow> q \<noteq> new \<Longrightarrow> lookup_file (rename_file old new fs) q = lookup_file fs q"
  by (auto simp: rename_file_def lookup_file_def map_of_filter_ne split: option.splits)

lemma rename_file_keeps: "q \<noteq> old \<Longrightarrow> lookup_file fs q = Some e \<Longrightarrow> lookup_file (rename_file old new fs) q = Some e"
  by (auto simp: rename_file_def lookup_file_def map_of_filter_ne split: option.splits)

lemma replace_none: "\<not> strstr s pat \<Longrightarrow> qreplace pat rep s = s"
proof (induction s)
  case Nil
  then show ?case by (subst qreplace.simps) (cases pat, auto)
next
  case (Cons c s)
  then show ?case by (subst qreplace.simps) auto
qed

lemma replace_prefix: "pat \<noteq> [] \<Longrightarrow> \<not> strstr r pat \<Longrightarrow> qreplace pat rep (pat @ r) = rep @ r"
  by (subst qreplace.simps) (simp add: replace_none)

lemma parent_path_split:
  assumes "CHR ''/'' \<in> set p"
  shows "\<exists>n. p = parent_path p @ CHR ''/'' # n"
proof -
  let ?P = "\<lambda>c. c \<noteq> CHR ''/''"
  have "dropWhile ?P (rev p) \<noteq> []" using assms by auto
  then obtain d ds where d: "dropWhile ?P (rev p) = d # ds" by (cases "dropWhile ?P (rev p)") auto
  then have "d = CHR ''/''" using hd_dropWhile [of ?P "rev p"] by auto
  then have "rev p = takeWhile ?P (rev p) @ CHR ''/'' # ds" using d by (metis takeWhile_dropWhile_id)
  then have "p = rev ds @ CHR ''/'' # rev (takeWhile ?P (rev p))" by (metis rev.simps(2) rev_append rev_rev_ident append.assoc append_Cons append_Nil)
  then show ?thesis using d by (auto simp: parent_path_def)
qed

text \<open>Two directories such that neither is in the other, and files that can be moved between them.\<close>

definition apart :: "string \<Rightarrow> string \<Rightarrow> bool" where
  "apart a b \<longleftrightarrow> a \<noteq> [] \<and> b \<noteq> [] \<and> a \<noteq> b \<and> \<not> below a b \<and> \<not> below b a"

lemma apart_below: "apart a b \<Longrightarrow> below a p \<Longrightarrow> \<not> below b p"
  by (auto simp: apart_def below_def append_eq_append_conv2 append_eq_Cons_conv Cons_eq_append_conv)

definition movable :: "string \<Rightarrow> string \<Rightarrow> bool" where
  "movable src p \<longleftrightarrow> below src p \<and> \<not> strstr (drop (length src) p) src"

definition install_step :: "string \<Rightarrow> string \<Rightarrow> string \<times> build_entry \<Rightarrow> build_files \<Rightarrow> build_files" where
  "install_step src dest x fs = installFile x (qreplace src dest (fst x)) fs"

definition target :: "string \<Rightarrow> string \<Rightarrow> string \<Rightarrow> string" where
  "target src dest p = dest @ drop (length src) p"

lemma target_below: "below src p \<Longrightarrow> below dest (target src dest p)"
  by (auto simp: below_def target_def)

lemma target_below_iff: "below src p \<Longrightarrow> below src q \<Longrightarrow> below (target src dest p) (target src dest q) \<longleftrightarrow> below p q"
  by (auto simp: below_def target_def)

lemma target_eq_iff: "below src p \<Longrightarrow> below src q \<Longrightarrow> target src dest p = target src dest q \<longleftrightarrow> p = q"
  by (auto simp: below_def target_def)

lemma replace_target: "src \<noteq> [] \<Longrightarrow> movable src p \<Longrightarrow> qreplace src dest p = target src dest p"
  by (auto simp: movable_def below_def target_def replace_prefix)

lemma target_parent: "below src p \<Longrightarrow> below (parent_path (target src dest p)) (target src dest p)"
  using parent_path_split [of "target src dest p"] by (force simp: below_def target_def)

lemma chain_target:
  assumes "below src p" and "q \<in> set (dir_chain (target src dest p)) \<or> q \<in> set (dir_chain (parent_path (target src dest p)))"
  shows "q = target src dest p \<or> below q (target src dest p)"
  using assms(2) target_parent [OF assms(1)] below_trans by (auto simp: dir_chain_iff)

lemma chain_parent_ne: "below src p \<Longrightarrow> q \<in> set (dir_chain (parent_path (target src dest p))) \<Longrightarrow> below q (target src dest p)"
  using target_parent [of src p dest] below_trans by (auto simp: dir_chain_iff)

lemma make_path_keeps: "lookup_file fs q = Some e \<Longrightarrow> lookup_file (make_path p fs) q = Some e"
  by (simp add: make_path_lookup)

lemma install_step_outside:
  assumes "movable src (fst x)" and "\<not> below src q" and "lookup_file fs q = Some e"
  shows "lookup_file (install_step src dest x fs) q = Some e"
proof -
  have "q \<noteq> fst x" using assms by (auto simp: movable_def)
  then show ?thesis
    using assms(3) by (simp add: install_step_def installFile_def make_path_keeps rename_file_keeps)
qed

lemma install_step_other:
  assumes "apart src dest" and "movable src (fst x)" and "below src p" and "fst x \<noteq> p"
  shows "lookup_file (install_step src dest x fs) p = lookup_file fs p"
proof -
  have x: "below src (fst x)" "qreplace src dest (fst x) = target src dest (fst x)"
    using assms(1,2) replace_target by (auto simp: movable_def apart_def)
  have "\<not> below src (target src dest (fst x))"
    using target_below [OF x(1), of dest] apart_below [OF assms(1)] by blast
  then have "\<not> (p = target src dest (fst x) \<or> below p (target src dest (fst x)))" using assms(3) below_trans by blast
  then have "p \<notin> set (dir_chain (target src dest (fst x)))" "p \<notin> set (dir_chain (parent_path (target src dest (fst x))))"
      "p \<noteq> target src dest (fst x)"
    using chain_target [OF x(1)] by blast+
  then show ?thesis using x(2) assms(4)
    by (simp add: install_step_def installFile_def make_path_lookup rename_file_other split: option.split)
qed

lemma install_step_free:
  assumes "apart src dest" and "movable src (fst x)" and "below src p" and "fst x \<noteq> p" and "\<not> below p (fst x)"
    and "lookup_file fs (target src dest p) = None"
  shows "lookup_file (install_step src dest x fs) (target src dest p) = None"
proof -
  have x: "below src (fst x)" "qreplace src dest (fst x) = target src dest (fst x)"
    using assms(1,2) replace_target by (auto simp: movable_def apart_def)
  have ne: "target src dest p \<noteq> target src dest (fst x)" "\<not> below (target src dest p) (target src dest (fst x))"
    using assms(3-5) x(1) target_eq_iff target_below_iff by blast+
  then have "target src dest p \<notin> set (dir_chain (target src dest (fst x)))"
      "target src dest p \<notin> set (dir_chain (parent_path (target src dest (fst x))))"
    using chain_target [OF x(1)] by blast+
  moreover have "target src dest p \<noteq> fst x"
    using target_below [OF assms(3), of dest] x(1) apart_below [OF assms(1)] by metis
  ultimately show ?thesis using x(2) ne(1) assms(6)
    by (simp add: install_step_def installFile_def make_path_lookup rename_file_other)
qed

lemma install_step_moves:
  assumes "apart src dest" and "movable src p" and "lookup_file fs p = Some e" and "\<not> is_dir_entry e"
    and "lookup_file fs (target src dest p) = None"
  shows "lookup_file (install_step src dest (p, e) fs) p = None \<and>
    lookup_file (install_step src dest (p, e) fs) (target src dest p) = Some e"
proof -
  let ?fs = "make_path (parent_path (target src dest p)) fs"
  have p: "below src p" "qreplace src dest p = target src dest p"
    using assms(1,2) replace_target by (auto simp: movable_def apart_def)
  have "target src dest p \<noteq> p" using target_below [OF p(1), of dest] p(1) apart_below [OF assms(1)] by metis
  moreover have "target src dest p \<notin> set (dir_chain (parent_path (target src dest p)))"
    using chain_parent_ne [OF p(1)] below_irrefl by blast
  then have "lookup_file ?fs (target src dest p) = None" using assms(5) by (simp add: make_path_lookup)
  ultimately show ?thesis using p(2) assms(3,4) make_path_keeps [OF assms(3)]
    by (simp add: install_step_def installFile_def rename_file_lookup)
qed

lemma install_step_elsewhere:
  assumes "apart src dest" and "movable src (fst x)" and "below d q" and "apart dest d" and "lookup_file fs q = None"
  shows "lookup_file (install_step src dest x fs) q = None"
proof -
  have x: "below src (fst x)" "qreplace src dest (fst x) = target src dest (fst x)"
    using assms(1,2) replace_target by (auto simp: movable_def apart_def)
  have "\<not> below d (target src dest (fst x))"
    using target_below [OF x(1), of dest] apart_below [OF assms(4)] by blast
  then have "\<not> (q = target src dest (fst x) \<or> below q (target src dest (fst x)))" using assms(3) below_trans by blast
  then have q: "q \<notin> set (dir_chain (target src dest (fst x)))" "q \<notin> set (dir_chain (parent_path (target src dest (fst x))))"
      "q \<noteq> target src dest (fst x)"
    using chain_target [OF x(1)] by blast+
  show ?thesis
  proof (cases "q = fst x")
    case True
    then have "\<not> is_dir_entry (snd x) \<Longrightarrow> rename_file (fst x) (target src dest (fst x))
        (make_path (parent_path (target src dest (fst x))) fs) = make_path (parent_path (target src dest (fst x))) fs"
      using assms(5) q(2) by (simp add: rename_file_def make_path_lookup)
    then show ?thesis using x(2) q assms(5) by (simp add: install_step_def installFile_def make_path_lookup)
  qed (use x(2) q assms(5) in \<open>simp add: install_step_def installFile_def make_path_lookup rename_file_other\<close>)
qed

definition at_source :: "string \<Rightarrow> string \<Rightarrow> build_entry \<Rightarrow> string \<Rightarrow> build_files \<Rightarrow> bool" where
  "at_source src p e dest fs \<longleftrightarrow> lookup_file fs p = Some e \<and> lookup_file fs (target src dest p) = None"

definition at_target :: "string \<Rightarrow> string \<Rightarrow> build_entry \<Rightarrow> string \<Rightarrow> build_files \<Rightarrow> bool" where
  "at_target src p e dest fs \<longleftrightarrow> lookup_file fs p = None \<and> lookup_file fs (target src dest p) = Some e"

lemma fold_install_target:
  assumes "apart src dest" and "below src p"
    and "\<forall>x \<in> set xs. movable src (fst x) \<and> fst x \<noteq> p" and "at_target src p e dest fs"
  shows "at_target src p e dest (fold (install_step src dest) xs fs)"
  using assms(3,4)
proof (induction xs arbitrary: fs)
  case (Cons x xs)
  have "\<not> below src (target src dest p)" using target_below [OF assms(2)] apart_below [OF assms(1)] by blast
  then have "at_target src p e dest (install_step src dest x fs)"
    using Cons.prems install_step_other [OF assms(1) _ assms(2), of x fs] install_step_outside [of src x "target src dest p" fs e dest]
    by (simp add: at_target_def)
  then show ?case using Cons by simp
qed simp

lemma fold_install_source:
  assumes "apart src dest" and "movable src p" and "\<not> is_dir_entry e" and "distinct (map fst xs)"
    and "\<forall>x \<in> set xs. movable src (fst x) \<and> \<not> below p (fst x) \<and> (fst x = p \<longrightarrow> snd x = e)" and "at_source src p e dest fs"
  shows "if p \<in> fst ` set xs then at_target src p e dest (fold (install_step src dest) xs fs)
    else at_source src p e dest (fold (install_step src dest) xs fs)"
  using assms(4-6)
proof (induction xs arbitrary: fs)
  case (Cons x xs)
  have p: "below src p" using assms(2) by (simp add: movable_def)
  show ?case
  proof (cases "fst x = p")
    case True
    then have "x = (p, e)" using Cons.prems(2) by (cases x) auto
    then have "at_target src p e dest (install_step src dest x fs)"
      using install_step_moves [OF assms(1,2) _ assms(3)] Cons.prems(3) by (simp add: at_source_def at_target_def)
    moreover have "\<forall>y \<in> set xs. movable src (fst y) \<and> fst y \<noteq> p" using Cons.prems(1,2) True by force
    ultimately show ?thesis using fold_install_target [OF assms(1) p] True by simp
  next
    case False
    then have "at_source src p e dest (install_step src dest x fs)"
      using Cons.prems(2,3) install_step_other [OF assms(1) _ p, of x fs] install_step_free [OF assms(1) _ p, of x fs]
      by (simp add: at_source_def)
    then show ?thesis using Cons False by auto
  qed
qed simp

lemma fold_install_free:
  assumes "apart src dest" and "below src p" and "\<forall>x \<in> set xs. movable src (fst x) \<and> \<not> below p (fst x) \<and> fst x \<noteq> p"
    and "lookup_file fs (target src dest p) = None"
  shows "lookup_file (fold (install_step src dest) xs fs) (target src dest p) = None"
  using assms(3,4) by (induction xs arbitrary: fs) (auto simp: install_step_free [OF assms(1) _ assms(2)])

lemma fold_install_elsewhere:
  assumes "apart src dest" and "apart dest d" and "below d q" and "\<forall>x \<in> set xs. movable src (fst x)" and "lookup_file fs q = None"
  shows "lookup_file (fold (install_step src dest) xs fs) q = None"
  using assms(4,5)
  by (induction xs arbitrary: fs) (auto simp: install_step_elsewhere [OF assms(1) _ assms(3,2)])

lemma fold_install_outside:
  assumes "\<forall>x \<in> set xs. movable src (fst x)" and "\<not> below src q" and "lookup_file fs q = Some e"
  shows "lookup_file (fold (install_step src dest) xs fs) q = Some e"
  using assms(1,3) by (induction xs arbitrary: fs) (auto simp: install_step_outside [OF _ assms(2)])

lemma fold_install_keys:
  assumes "apart src dest" and "\<forall>x \<in> set xs. movable src (fst x) \<and> fst x \<in> K"
    and "\<forall>q. below src q \<and> lookup_file fs q \<noteq> None \<longrightarrow> q \<in> K" and "below src q" and "lookup_file (fold (install_step src dest) xs fs) q \<noteq> None"
  shows "q \<in> K"
  using assms(2,3,5)
proof (induction xs arbitrary: fs)
  case (Cons x xs)
  have "\<forall>q. below src q \<and> lookup_file (install_step src dest x fs) q \<noteq> None \<longrightarrow> q \<in> K"
    using Cons.prems(1,2) install_step_other [OF assms(1), of x] by (metis list.set_intros(1))
  then show ?case using Cons.IH [of "install_step src dest x fs"] Cons.prems by simp
qed (use assms(4) in simp)

text \<open>Whether a rule selects a file that is not a directory.\<close>

definition selects :: "(string \<Rightarrow> string \<Rightarrow> bool) \<Rightarrow> string \<Rightarrow> string \<Rightarrow> string \<Rightarrow> bool" where
  "selects rx src rule p \<longleftrightarrow>
     (let r = simplified rule in r \<noteq> [] \<and> \<not> starts_with r ''#'' \<and>
        (if starts_with r ''^'' then rx (regex_of src r) p
         else clean_path (src @ ''/'' @ r) = p \<and> \<not> ends_with r ''/''))"

text \<open>A rule that does not lead out of the build directory.\<close>

definition rule_inside :: "string \<Rightarrow> string \<Rightarrow> bool" where
  "rule_inside src rule \<longleftrightarrow>
     (let r = simplified rule in r = [] \<or> starts_with r ''#'' \<or> starts_with r ''^'' \<or> movable src (clean_path (src @ ''/'' @ r)))"

text \<open>The files below the build directory, and a file \<open>p\<close> among them.\<close>

definition sane_source :: "string \<Rightarrow> string \<Rightarrow> build_files \<Rightarrow> bool" where
  "sane_source src p fs \<longleftrightarrow> (\<forall>q. below src q \<and> lookup_file fs q \<noteq> None \<longrightarrow> movable src q \<and> \<not> below p q)"

lemma entries_iff: "(p, e) \<in> set (entries fs) \<longleftrightarrow> lookup_file fs p = Some e"
proof -
  have "p \<in> fst ` set fs" if "map_of fs p = Some e" using that by (metis map_of_eq_None_iff option.simps(3))
  then show ?thesis by (auto simp: entries_def lookup_file_def List.map_filter_def image_iff)
qed

lemma entries_distinct: "distinct (map fst (entries fs))"
proof -
  have "map fst (List.map_filter (\<lambda>p. map_option (\<lambda>e. (p, e)) (f p)) ps) = filter (\<lambda>p. f p \<noteq> None) ps" for f and ps :: "string list"
    by (induction ps) (auto simp: List.map_filter_simps)
  from this [of "lookup_file fs" "remdups (map fst fs)"] show ?thesis unfolding entries_def by (metis distinct_filter distinct_remdups)
qed

lemma selected_props:
  assumes "sane_source src p fs" and "rule_inside src rule"
  shows "distinct (map fst (selected rx src (simplified rule) fs))"
    and "x \<in> set (selected rx src (simplified rule) fs) \<Longrightarrow>
      movable src (fst x) \<and> \<not> below p (fst x) \<and> lookup_file fs (fst x) = Some (snd x)"
    and "below src p \<Longrightarrow> lookup_file fs p = Some e \<Longrightarrow> \<not> is_dir_entry e \<Longrightarrow>
      p \<in> fst ` set (selected rx src (simplified rule) fs) \<longleftrightarrow> selects rx src rule p"
proof -
  let ?r = "simplified rule"
  show "distinct (map fst (selected rx src ?r fs))"
    using entries_distinct by (auto simp: selected_def distinct_map_filter split: option.splits)
  have look: "lookup_file fs (fst x) = Some (snd x)" if "x \<in> set (selected rx src ?r fs)"
    using that entries_iff [of "fst x" "snd x" fs] by (auto simp: selected_def split: if_splits option.splits)
  moreover have "movable src (fst x)" if "x \<in> set (selected rx src ?r fs)"
    using that look [OF that] assms
    by (auto simp: selected_def rule_inside_def sane_source_def Let_def below_iff split: if_splits option.splits)
  ultimately show "movable src (fst x) \<and> \<not> below p (fst x) \<and> lookup_file fs (fst x) = Some (snd x)"
    if "x \<in> set (selected rx src ?r fs)" using that assms(1) by (auto simp: sane_source_def movable_def)
  show "p \<in> fst ` set (selected rx src ?r fs) \<longleftrightarrow> selects rx src rule p"
    if "below src p" "lookup_file fs p = Some e" "\<not> is_dir_entry e"
  proof (cases "starts_with ?r ''^''")
    case True
    then show ?thesis using that entries_iff [of p e fs]
      by (auto simp: selected_def selects_def Let_def below_iff image_iff)
  next
    case False
    then show ?thesis using that by (auto simp: selected_def selects_def Let_def split: option.splits if_splits)
  qed
qed

lemma sane_source_step:
  assumes "apart src dest" and "sane_source src p fs" and "\<forall>x \<in> set xs. movable src (fst x) \<and> lookup_file fs (fst x) \<noteq> None"
  shows "sane_source src p (fold (install_step src dest) xs fs)"
proof -
  let ?K = "{q. lookup_file fs q \<noteq> None}"
  have "lookup_file fs q \<noteq> None" if "below src q" "lookup_file (fold (install_step src dest) xs fs) q \<noteq> None" for q
    using fold_install_keys [OF assms(1), of xs ?K fs q] assms(3) that by auto
  then show ?thesis using assms(2) by (auto simp: sane_source_def)
qed

lemma install_rule_fold: "install_rule rx src dest rule fs =
    fold (install_step src dest) (selected rx src (simplified rule) fs) fs"
  by (simp add: install_rule_def install_step_def [abs_def])

lemma install_rule_moves:
  assumes "apart src dest" and "movable src p" and "\<not> is_dir_entry e" and "rule_inside src rule" and "sane_source src p fs"
    and fs': "fs' = install_rule rx src dest rule fs"
  shows "sane_source src p fs'"
    and "at_target src p e dest fs \<Longrightarrow> at_target src p e dest fs'"
    and "at_source src p e dest fs \<Longrightarrow> (if selects rx src rule p then at_target src p e dest fs' else at_source src p e dest fs')"
    and "apart dest d \<Longrightarrow> below d q \<Longrightarrow> lookup_file fs q = None \<Longrightarrow> lookup_file fs' q = None"
    and "\<not> below src q \<Longrightarrow> lookup_file fs q = Some a \<Longrightarrow> lookup_file fs' q = Some a"
    and "lookup_file fs p = None \<Longrightarrow> lookup_file fs' p = None"
    and "lookup_file fs p = None \<Longrightarrow> lookup_file fs (target src dest p) = None \<Longrightarrow> lookup_file fs' (target src dest p) = None"
proof -
  let ?xs = "selected rx src (simplified rule) fs"
  note sel = selected_props [OF assms(5,4), where rx = rx]
  have p: "below src p" using assms(2) by (simp add: movable_def)
  show "sane_source src p fs'" unfolding fs' install_rule_fold
    by (rule sane_source_step [OF assms(1,5)]) (use sel(2) in auto)
  show "at_target src p e dest fs'" if "at_target src p e dest fs" unfolding fs' install_rule_fold
    by (rule fold_install_target [OF assms(1) p _ that]) (use sel(2) that in \<open>fastforce simp: at_target_def\<close>)
  show "if selects rx src rule p then at_target src p e dest fs' else at_source src p e dest fs'" if at: "at_source src p e dest fs"
  proof -
    have "\<forall>x \<in> set ?xs. movable src (fst x) \<and> \<not> below p (fst x) \<and> (fst x = p \<longrightarrow> snd x = e)"
      using sel(2) at by (fastforce simp: at_source_def)
    from fold_install_source [OF assms(1-3) sel(1) this at] show ?thesis
      using sel(3) [OF p _ assms(3)] at unfolding fs' install_rule_fold at_source_def by simp
  qed
  show "lookup_file fs' q = None" if "apart dest d" "below d q" "lookup_file fs q = None"
    unfolding fs' install_rule_fold by (rule fold_install_elsewhere [OF assms(1) that(1,2) _ that(3)]) (use sel(2) in auto)
  show "lookup_file fs' q = Some a" if "\<not> below src q" "lookup_file fs q = Some a"
    unfolding fs' install_rule_fold by (rule fold_install_outside [OF _ that]) (use sel(2) in auto)
  show "lookup_file fs' p = None" if "lookup_file fs p = None"
    using fold_install_keys [OF assms(1), of ?xs "{q. lookup_file fs q \<noteq> None}" fs p] sel(2) p that
    unfolding fs' install_rule_fold by (auto simp del: not_None_eq)
  show "lookup_file fs' (target src dest p) = None" if "lookup_file fs p = None" "lookup_file fs (target src dest p) = None"
  proof -
    have "\<forall>x \<in> set ?xs. movable src (fst x) \<and> \<not> below p (fst x) \<and> fst x \<noteq> p" using sel(2) that(1) by fastforce
    from fold_install_free [OF assms(1) p this that(2)] show ?thesis unfolding fs' install_rule_fold .
  qed
qed

lemma install_rules_move:
  assumes "apart src dest" and "movable src p" and "\<not> is_dir_entry e" and "\<forall>rule \<in> set rules. rule_inside src rule"
    and "sane_source src p fs" and "fs' = fold (install_rule rx src dest) rules fs"
  shows "sane_source src p fs' \<and> (at_target src p e dest fs \<longrightarrow> at_target src p e dest fs') \<and>
    (at_source src p e dest fs \<longrightarrow>
       (if list_ex (\<lambda>r. selects rx src r p) rules then at_target src p e dest fs' else at_source src p e dest fs')) \<and>
    (\<forall>d q. apart dest d \<longrightarrow> below d q \<longrightarrow> lookup_file fs q = None \<longrightarrow> lookup_file fs' q = None) \<and>
    (\<forall>q a. \<not> below src q \<longrightarrow> lookup_file fs q = Some a \<longrightarrow> lookup_file fs' q = Some a) \<and>
    (lookup_file fs p = None \<longrightarrow> lookup_file fs' p = None) \<and>
    (lookup_file fs p = None \<longrightarrow> lookup_file fs (target src dest p) = None \<longrightarrow> lookup_file fs' (target src dest p) = None)"
  using assms(4-6)
proof (induction rules arbitrary: fs)
  case (Cons rule rules)
  let ?fs = "install_rule rx src dest rule fs"
  have rule: "rule_inside src rule" and rules: "\<forall>r \<in> set rules. rule_inside src r" using Cons.prems(1) by auto
  note step = install_rule_moves [OF assms(1-3) rule Cons.prems(2) refl, where rx = rx]
  note rest = Cons.IH [OF rules step(1)] Cons.prems(3)
  show ?case using rest step(2,3) by (auto simp: step(4,5,6,7) split: if_splits)
qed simp

lemma module_dirs_keep:
  assumes "apart src dest" and "below src p" and "fs' = make_path dest (make_path src fs)"
  shows "sane_source src p fs \<Longrightarrow> sane_source src p fs'"
    and "lookup_file fs' p = lookup_file fs p" and "lookup_file fs' (target src dest p) = lookup_file fs (target src dest p)"
    and "apart dest d \<Longrightarrow> apart src d \<Longrightarrow> below d q \<Longrightarrow> lookup_file fs' q = lookup_file fs q"
    and "lookup_file fs q = Some a \<Longrightarrow> lookup_file fs' q = Some a"
proof -
  have free: "q \<notin> set (dir_chain src)" "q \<notin> set (dir_chain dest)" if "below src q" for q
    using that assms(1) below_trans below_irrefl by (auto simp: dir_chain_iff apart_def)
  have free': "target src dest p \<notin> set (dir_chain src)" "target src dest p \<notin> set (dir_chain dest)"
    using target_below [OF assms(2), of dest] assms(1) below_trans below_irrefl by (auto simp: dir_chain_iff apart_def)
  have free'': "q \<notin> set (dir_chain src)" "q \<notin> set (dir_chain dest)" if "apart dest d" "apart src d" "below d q"
    using that below_trans by (auto simp: dir_chain_iff apart_def)
  have src: "lookup_file fs' q = lookup_file fs q" if "below src q" for q
    using free [OF that] assms(3) by (simp add: make_path_lookup split: option.split)
  then show "sane_source src p fs \<Longrightarrow> sane_source src p fs'" by (auto simp: sane_source_def)
  show "lookup_file fs' p = lookup_file fs p" by (rule src [OF assms(2)])
  show "lookup_file fs' (target src dest p) = lookup_file fs (target src dest p)"
    using free' assms(3) by (simp add: make_path_lookup split: option.split)
  show "lookup_file fs' q = lookup_file fs q" if "apart dest d" "apart src d" "below d q"
    using free'' [OF that] assms(3) by (simp add: make_path_lookup split: option.split)
  show "lookup_file fs q = Some a \<Longrightarrow> lookup_file fs' q = Some a" using assms(3) by (simp add: make_path_keeps)
qed

lemma installModule_moves:
  assumes "apart src dest" and "movable src p" and "\<not> is_dir_entry e" and "\<forall>rule \<in> set rules. rule_inside src rule"
    and "sane_source src p fs" and "fs' = installModule rx rules src dest fs"
  shows "sane_source src p fs' \<and>
    (at_source src p e dest fs \<longrightarrow>
       (if list_ex (\<lambda>r. selects rx src r p) rules then at_target src p e dest fs' else at_source src p e dest fs')) \<and>
    (\<forall>d q. apart dest d \<longrightarrow> apart src d \<longrightarrow> below d q \<longrightarrow> lookup_file fs q = None \<longrightarrow> lookup_file fs' q = None) \<and>
    (\<forall>q a. \<not> below src q \<longrightarrow> lookup_file fs q = Some a \<longrightarrow> lookup_file fs' q = Some a) \<and>
    (lookup_file fs p = None \<longrightarrow> lookup_file fs' p = None) \<and>
    (lookup_file fs p = None \<longrightarrow> lookup_file fs (target src dest p) = None \<longrightarrow> lookup_file fs' (target src dest p) = None)"
proof -
  let ?fs = "make_path dest (make_path src fs)"
  have p: "below src p" using assms(2) by (simp add: movable_def)
  note dirs = module_dirs_keep [OF assms(1) p refl]
  have "fs' = fold (install_rule rx src dest) rules ?fs" using assms(6) by (simp add: installModule_def)
  from install_rules_move [OF assms(1-4) dirs(1) [OF assms(5)] this] show ?thesis
    using dirs(2,3,5) by (auto simp: at_source_def at_target_def dirs(4) split: if_splits)
qed

text \<open>
  Installing several modules one after another; each also gets a file with its rules, which is neither in the build
  directory nor in the files of a module.
\<close>

type_synonym module_step = "string list \<times> string \<times> string \<times> build_entry"

definition install_all :: "(string \<Rightarrow> string \<Rightarrow> bool) \<Rightarrow> string \<Rightarrow> module_step list \<Rightarrow> build_files \<Rightarrow> build_files" where
  "install_all rx src ms fs =
     fold (\<lambda>(rules, dest, ruleFile, entry) fs. put_file ruleFile entry (installModule rx rules src dest fs)) ms fs"

definition module_dirs :: "module_step list \<Rightarrow> string list" where
  "module_dirs ms = map (\<lambda>(rules, dest, ruleFile, entry). dest) ms"

definition module_wants :: "(string \<Rightarrow> string \<Rightarrow> bool) \<Rightarrow> string \<Rightarrow> string \<Rightarrow> module_step \<Rightarrow> bool" where
  "module_wants rx src p m = list_ex (\<lambda>r. selects rx src r p) (fst m)"

definition sane_modules :: "string \<Rightarrow> module_step list \<Rightarrow> bool" where
  "sane_modules src ms \<longleftrightarrow> sorted_wrt apart (module_dirs ms) \<and> (\<forall>d \<in> set (module_dirs ms). apart src d) \<and>
     (\<forall>(rules, dest, ruleFile, entry) \<in> set ms. (\<forall>r \<in> set rules. rule_inside src r) \<and> \<not> below src ruleFile \<and>
        (\<forall>d \<in> set (module_dirs ms). \<not> below d ruleFile))"

lemma module_dirs_Cons [simp]: "module_dirs ((rules, dest, ruleFile, entry) # ms) = dest # module_dirs ms"
  by (simp add: module_dirs_def)

lemma module_dirs_Nil [simp]: "module_dirs [] = []"
  by (simp add: module_dirs_def)

lemma apart_sym: "apart a b \<Longrightarrow> apart b a"
  by (auto simp: apart_def)

lemma sane_modules_Cons:
  "sane_modules src ((rules, dest, ruleFile, entry) # ms) \<Longrightarrow>
     sane_modules src ms \<and> apart src dest \<and> (\<forall>d \<in> set (module_dirs ms). apart dest d \<and> apart src d) \<and>
     (\<forall>r \<in> set rules. rule_inside src r) \<and> \<not> below src ruleFile \<and> \<not> below dest ruleFile \<and>
     (\<forall>d \<in> set (module_dirs ms). \<not> below d ruleFile)"
  by (auto simp: sane_modules_def module_dirs_def)

lemma lookup_put [simp]: "lookup_file (put_file p e fs) q = (if q = p then Some e else lookup_file fs q)"
  by (simp add: lookup_file_def put_file_def map_of_filter_ne)

lemma install_all_Cons: "install_all rx src ((rules, dest, ruleFile, entry) # ms) fs =
    install_all rx src ms (put_file ruleFile entry (installModule rx rules src dest fs))"
  by (simp add: install_all_def)

text \<open>A file that has been moved stays where it is, and does not come up anywhere else.\<close>

lemma install_all_stay:
  assumes "sane_modules src ms" and "movable src p" and "sane_source src p fs" and "lookup_file fs p = None"
  shows "lookup_file (install_all rx src ms fs) p = None \<and>
    (\<forall>d \<in> set (module_dirs ms). lookup_file fs (target src d p) = None \<longrightarrow>
       lookup_file (install_all rx src ms fs) (target src d p) = None) \<and>
    (\<forall>q e. \<not> below src q \<longrightarrow> (\<forall>m \<in> set ms. fst (snd (snd m)) \<noteq> q) \<longrightarrow> lookup_file fs q = Some e \<longrightarrow>
       lookup_file (install_all rx src ms fs) q = Some e) \<and>
    (\<forall>d q. apart src d \<longrightarrow> (\<forall>d' \<in> set (module_dirs ms). apart d' d) \<longrightarrow> (\<forall>m \<in> set ms. fst (snd (snd m)) \<noteq> q) \<longrightarrow>
       below d q \<longrightarrow> lookup_file fs q = None \<longrightarrow> lookup_file (install_all rx src ms fs) q = None)"
  using assms(1,3,4)
proof (induction ms arbitrary: fs)
  case (Cons m ms)
  obtain rules dest ruleFile entry where m: "m = (rules, dest, ruleFile, entry)" by (cases m) auto
  note sane = sane_modules_Cons [OF Cons.prems(1) [unfolded m]]
  let ?fs = "installModule rx rules src dest fs"
  let ?fs1 = "put_file ruleFile entry ?fs"
  have src: "below src p" using assms(2) by (simp add: movable_def)
  have step: "sane_source src p ?fs \<and>
    (\<forall>d q. apart dest d \<longrightarrow> apart src d \<longrightarrow> below d q \<longrightarrow> lookup_file fs q = None \<longrightarrow> lookup_file ?fs q = None) \<and>
    (\<forall>q a. \<not> below src q \<longrightarrow> lookup_file fs q = Some a \<longrightarrow> lookup_file ?fs q = Some a) \<and> lookup_file ?fs p = None \<and>
    (lookup_file fs (target src dest p) = None \<longrightarrow> lookup_file ?fs (target src dest p) = None)"
    using installModule_moves [OF _ assms(2) _ _ Cons.prems(2) refl, of dest "EFile 0" rules rx] sane Cons.prems(3)
    by (simp add: is_dir_entry_def)
  have "sane_source src p ?fs1" "lookup_file ?fs1 p = None" using step sane src by (auto simp: sane_source_def)
  note rest = Cons.IH [OF conjunct1 [OF sane] this]
  have "ruleFile \<noteq> target src d p" if "d \<in> set (module_dirs (m # ms))" for d
    using that sane target_below [OF src, of d] by (auto simp: m)
  then have dirs: "lookup_file ?fs1 (target src d p) = None"
    if "d \<in> set (module_dirs (m # ms))" "lookup_file fs (target src d p) = None" for d
  proof -
    have "d = dest \<or> apart dest d \<and> apart src d" using that(1) sane by (auto simp: m)
    then have "lookup_file ?fs (target src d p) = None" using step that(2) target_below [OF src, of d]
      by (cases "d = dest") (simp, blast)
    then show ?thesis using \<open>\<And>d. d \<in> set (module_dirs (m # ms)) \<Longrightarrow> ruleFile \<noteq> target src d p\<close> that(1) by auto
  qed
  have "lookup_file (install_all rx src ms ?fs1) (target src dest p) = None" if "lookup_file fs (target src dest p) = None"
  proof -
    have "\<forall>m' \<in> set ms. \<not> below dest (fst (snd (snd m')))"
      using Cons.prems(1) by (force simp: m sane_modules_def module_dirs_def)
    then have "\<forall>m' \<in> set ms. fst (snd (snd m')) \<noteq> target src dest p" using target_below [OF src, of dest] by metis
    moreover have "\<forall>d' \<in> set (module_dirs ms). apart d' dest" "apart src dest" using sane apart_sym by blast+
    moreover have "lookup_file ?fs1 (target src dest p) = None" using dirs [of dest] that by (simp add: m)
    ultimately show ?thesis using rest target_below [OF src, of dest] by blast
  qed
  then show ?case using rest step dirs by (auto simp: m install_all_Cons)
qed (simp add: install_all_def)

lemma install_all_elsewhere:
  assumes "sane_modules src ms" and "movable src p" and "sane_source src p fs" and "apart src d" and "\<forall>d' \<in> set (module_dirs ms). apart d' d"
    and "\<forall>m \<in> set ms. fst (snd (snd m)) \<noteq> q" and "below d q" and "lookup_file fs q = None"
  shows "lookup_file (install_all rx src ms fs) q = None"
  using assms(1,3,5,6,8)
proof (induction ms arbitrary: fs)
  case (Cons m ms)
  obtain rules dest ruleFile entry where m: "m = (rules, dest, ruleFile, entry)" by (cases m) auto
  note sane = sane_modules_Cons [OF Cons.prems(1) [unfolded m]]
  let ?fs = "installModule rx rules src dest fs"
  have "sane_source src p ?fs \<and> lookup_file ?fs q = None"
    using installModule_moves [OF _ assms(2) _ _ Cons.prems(2) refl, of dest "EFile 0" rules rx] sane Cons.prems(3,5) assms(4,7)
    by (simp add: is_dir_entry_def m) blast
  then have "sane_source src p (put_file ruleFile entry ?fs)" "lookup_file (put_file ruleFile entry ?fs) q = None"
    using sane Cons.prems(4) by (auto simp: sane_source_def m)
  then show ?case using Cons.IH [of "put_file ruleFile entry ?fs"] sane Cons.prems(3,4)
    by (simp add: m install_all_Cons)
qed (simp add: install_all_def)

text \<open>
  A link to a directory is not moved: the module gets an empty directory in its place. A file whose name has two spaces in a row
  is not selected by the rule that is its own path, since rules are simplified. Hidden files and broken links
  are not copied by \<open>copyDir\<close> and do not count for the size.
\<close>

lemma dir_link_not_moved:
  assumes "apart src dest" and "movable src p" and "lookup_file fs p = Some (ELink n ToDir)" and "lookup_file fs (target src dest p) = None"
  shows "lookup_file (install_step src dest (p, ELink n ToDir) fs) p = Some (ELink n ToDir) \<and>
    lookup_file (install_step src dest (p, ELink n ToDir) fs) (target src dest p) = Some EDir"
  using assms replace_target [of src p dest]
  by (simp add: install_step_def installFile_def is_dir_entry_def apart_def make_path_lookup)

lemma double_space_not_selected: "\<not> selects rx ''/o/_build'' ''/a  b'' ''/o/_build/a  b''"
  by code_simp

lemma hidden_not_listed: "x \<in> set (entryInfoList fs d) \<Longrightarrow> \<not> starts_with (file_name (fst x)) ''.''"
  by (simp add: entryInfoList_def visible_def)

text \<open>
  Every file that is not a directory ends up in exactly one module, the first one with a rule that
  selects it.
\<close>

lemma files_in_one_module:
  assumes "sane_modules src ms" and "movable src p" and "\<not> is_dir_entry e" and "sane_source src p fs" and "lookup_file fs p = Some e"
    and "\<forall>d \<in> set (module_dirs ms). lookup_file fs (target src d p) = None"
  shows "case find (module_wants rx src p) ms of
      None \<Rightarrow> lookup_file (install_all rx src ms fs) p = Some e \<and>
        (\<forall>d \<in> set (module_dirs ms). lookup_file (install_all rx src ms fs) (target src d p) = None)
    | Some (rules, dest, _) \<Rightarrow> lookup_file (install_all rx src ms fs) p = None \<and>
        lookup_file (install_all rx src ms fs) (target src dest p) = Some e \<and>
        (\<forall>d \<in> set (module_dirs ms). d \<noteq> dest \<longrightarrow> lookup_file (install_all rx src ms fs) (target src d p) = None)"
  using assms(1,4-6)
proof (induction ms arbitrary: fs)
  case Nil
  then show ?case by (simp add: install_all_def)
next
  case (Cons m ms)
  obtain rules dest ruleFile entry where m: "m = (rules, dest, ruleFile, entry)" by (cases m) auto
  note sane = sane_modules_Cons [OF Cons.prems(1) [unfolded m]]
  let ?fs = "installModule rx rules src dest fs"
  let ?fs1 = "put_file ruleFile entry ?fs"
  have src: "below src p" using assms(2) by (simp add: movable_def)
  have at: "at_source src p e dest fs" using Cons.prems(3,4) by (simp add: at_source_def m)
  note step = installModule_moves [OF _ assms(2,3) _ Cons.prems(2) refl, of dest rules rx]
  have keep: "sane_source src p ?fs1" "ruleFile \<noteq> p" "ruleFile \<noteq> target src dest p"
      "\<And>d. d \<in> set (module_dirs ms) \<Longrightarrow> ruleFile \<noteq> target src d p"
    using step sane src target_below [OF src] by (auto simp: sane_source_def)
  have dirs: "lookup_file ?fs1 (target src d p) = None" if "d \<in> set (module_dirs ms)" for d
  proof -
    have "apart dest d" "apart src d" "lookup_file fs (target src d p) = None"
      using that sane Cons.prems(4) by (auto simp: m)
    then have "lookup_file ?fs (target src d p) = None" using step sane target_below [OF src, of d] by blast
    then show ?thesis using keep(4) [OF that] by simp
  qed
  have other: "\<forall>m' \<in> set ms. fst (snd (snd m')) \<noteq> target src dest p"
    using Cons.prems(1) target_below [OF src, of dest] by (force simp: m sane_modules_def module_dirs_def)
  have out: "\<not> below src (target src dest p)" using target_below [OF src, of dest] sane apart_below by blast
  have ne: "dest \<notin> set (module_dirs ms)" using sane by (auto simp: apart_def)
  show ?case
  proof (cases "module_wants rx src p m")
    case True
    then have "lookup_file ?fs1 p = None" "lookup_file ?fs1 (target src dest p) = Some e"
      using step sane at keep by (auto simp: module_wants_def m at_target_def)
    then show ?thesis using install_all_stay [OF conjunct1 [OF sane] assms(2) keep(1), of rx] dirs other out True ne
      by (auto simp: m install_all_Cons)
  next
    case False
    then have src1: "lookup_file ?fs1 p = Some e" "lookup_file ?fs1 (target src dest p) = None"
      using step sane at keep by (auto simp: module_wants_def m at_source_def)
    have "\<forall>d' \<in> set (module_dirs ms). apart d' dest" "apart src dest" using sane apart_sym by blast+
    then have "lookup_file (install_all rx src ms ?fs1) (target src dest p) = None"
      using install_all_elsewhere [OF conjunct1 [OF sane] assms(2) keep(1), of dest] other src1(2) target_below [OF src, of dest]
      by blast
    then show ?thesis using Cons.IH [OF conjunct1 [OF sane] keep(1) src1(1)] dirs False ne
      by (auto simp: m install_all_Cons split: option.splits)
  qed
qed

text \<open>Nothing new comes up in the build directory.\<close>

lemma installModule_source:
  assumes "apart src dest" and "movable src p" and "\<forall>rule \<in> set rules. rule_inside src rule" and "sane_source src p fs"
    and "below src q" and "lookup_file fs q = None"
  shows "lookup_file (installModule rx rules src dest fs) q = None"
proof -
  let ?fs = "make_path dest (make_path src fs)"
  have p: "below src p" using assms(2) by (simp add: movable_def)
  have "lookup_file ?fs q = None" using module_dirs_keep(2) [OF assms(1,5) refl, of fs] assms(6) by simp
  moreover have "apart dest src" using assms(1) by (rule apart_sym)
  ultimately show ?thesis
    using install_rules_move [OF assms(1,2) _ assms(3) module_dirs_keep(1) [OF assms(1) p refl assms(4)] refl, of "EFile 0" rx] assms(5)
    by (simp add: installModule_def is_dir_entry_def)
qed

lemma install_all_source:
  assumes "sane_modules src ms" and "movable src p" and "sane_source src p fs" and "below src q" and "lookup_file fs q = None"
  shows "lookup_file (install_all rx src ms fs) q = None"
  using assms(1,3,5)
proof (induction ms arbitrary: fs)
  case (Cons m ms)
  obtain rules dest ruleFile entry where m: "m = (rules, dest, ruleFile, entry)" by (cases m) auto
  note sane = sane_modules_Cons [OF Cons.prems(1) [unfolded m]]
  let ?fs = "installModule rx rules src dest fs"
  have "sane_source src p ?fs"
    using installModule_moves [OF _ assms(2) _ _ Cons.prems(2) refl, of dest "EFile 0" rules rx] sane by (simp add: is_dir_entry_def)
  moreover have "lookup_file ?fs q = None" using installModule_source [OF _ assms(2) _ Cons.prems(2) assms(4) Cons.prems(3)] sane by blast
  ultimately have "sane_source src p (put_file ruleFile entry ?fs)" "lookup_file (put_file ruleFile entry ?fs) q = None"
    using sane assms(4) by (auto simp: sane_source_def)
  then show ?case using Cons.IH sane by (simp add: m install_all_Cons)
qed (simp add: install_all_def)

end
