(* ===== verification/Builder.thy ===== *)
theory Builder
  imports Builder_Install Package_Safety Cli_Run Layer_File Repo_Remote
begin

text \<open>
  Building a package: \<open>libs/linglong/src/linglong/builder/linglong_builder.cpp\<close>, \<open>source_fetcher.cpp\<close>. A build fetches the
  sources, pulls base and runtime, runs the build script in a container, distributes the files over
  modules and commits these to the local repository. The state is the repository (\<open>'w\<close>, behind the
  record \<open>build_ops\<close>) and the files in the working directory. Messages to the terminal are left out.
\<close>

section \<open>Actions\<close>

text \<open>
  A step on a state that returns an error or a value, or ends the process (\<open>None\<close>).
\<close>

type_synonym ('s, 'a) action = "'s \<Rightarrow> ('a result \<times> 's) option"

definition give :: "'a \<Rightarrow> ('s, 'a) action" where
  "give x s = Some (Inr x, s)"

definition refuse :: "error \<Rightarrow> ('s, 'a) action" where
  "refuse e s = Some (Inl e, s)"

definition crash :: "('s, 'a) action" where
  "crash s = None"

definition of_result :: "'a result \<Rightarrow> ('s, 'a) action" where
  "of_result r s = Some (r, s)"

definition and_then :: "('s, 'a) action \<Rightarrow> ('a \<Rightarrow> ('s, 'b) action) \<Rightarrow> ('s, 'b) action" where
  "and_then m f s =
     (case m s of
        None \<Rightarrow> None
      | Some (Inl e, s1) \<Rightarrow> Some (Inl e, s1)
      | Some (Inr x, s1) \<Rightarrow> f x s1)"

text \<open>\<open>return LINGLONG_ERR(x)\<close> and \<open>return LINGLONG_ERR(msg, x)\<close> for a failing step.\<close>

definition map_error :: "(error \<Rightarrow> error) \<Rightarrow> ('s, 'a) action \<Rightarrow> ('s, 'a) action" where
  "map_error h m s = map_option (map_prod (map_sum h (\<lambda>x. x)) (\<lambda>s. s)) (m s)"

definition get_state :: "('s, 's) action" where
  "get_state s = Some (Inr s, s)"

definition of_step :: "('s \<Rightarrow> 'a result \<times> 's) \<Rightarrow> ('s, 'a) action" where
  "of_step f s = Some (f s)"

lemma and_then_Some [simp]:
  "and_then m f s = Some (Inr y, s') \<longleftrightarrow> (\<exists>x s1. m s = Some (Inr x, s1) \<and> f x s1 = Some (Inr y, s'))"
  by (auto simp: and_then_def split: option.splits sum.splits)

lemma map_error_Some [simp]: "map_error h m s = Some (Inr x, s') \<longleftrightarrow> m s = Some (Inr x, s')"
  by (auto simp: map_error_def map_prod_def split: sum.splits) (metis map_sum.simps(1) obj_sumE sum.distinct(1) map_sum.simps(2) sum.inject(2))

lemma action_Some [simp]:
  "give x s = Some (Inr y, s') \<longleftrightarrow> y = x \<and> s' = s"
  "refuse e s \<noteq> Some (Inr y, s')"
  "crash s \<noteq> Some z"
  "of_result r s = Some (Inr y, s') \<longleftrightarrow> r = Inr y \<and> s' = s"
  "get_state s = Some (Inr t, s') \<longleftrightarrow> t = s \<and> s' = s"
  "of_step f s = Some (Inr y, s') \<longleftrightarrow> f s = (Inr y, s')"
  by (auto simp: give_def refuse_def crash_def of_result_def get_state_def of_step_def)

section \<open>Projects\<close>

record build_source =
  so_commit :: "string option"
  so_digest :: "string option"
  so_kind :: string
  so_name :: "string option"
  so_url :: "string option"

record build_project =
  pj_base :: string
  pj_build :: string
  pj_command :: "string list option"
  pj_exclude :: "string list option"
  pj_include :: "string list option"
  pj_modules :: "(string \<times> string list) list option"
  pj_arch :: "string option"
  pj_description :: string
  pj_id :: string
  pj_kind :: string
  pj_name :: string
  pj_version :: string
  pj_permissions :: "permissions_rec option"
  pj_runtime :: "string option"
  pj_sources :: "build_source list option"

record build_options =
  bo_fullDevelop :: bool
  bo_skipFetchSource :: bool
  bo_skipPullDepend :: bool
  bo_skipRunContainer :: bool
  bo_skipCommitOutput :: bool
  bo_skipCheckOutput :: bool
  bo_skipStripSymbols :: bool

text \<open>The channel of the project is not used.\<close>

definition currentReference :: "architecture result \<Rightarrow> build_project \<Rightarrow> reference result" where
  "currentReference curArch project =
     (let trace = ''get current project reference'' in
      case Version_parse (pj_version project) of Inl e \<Rightarrow> Inl (Err_wrap trace e) | Inr version \<Rightarrow>
      case (case pj_arch project of None \<Rightarrow> curArch | Some a \<Rightarrow> Architecture_parse a) of
        Inl e \<Rightarrow> Inl (Err_wrap trace e)
      | Inr architecture \<Rightarrow>
         (case Reference_create ''main'' (pj_id project) version architecture of
            Inl e \<Rightarrow> Inl (Err_wrap trace e)
          | Inr ref \<Rightarrow> Inr ref))"

section \<open>Sources\<close>

text \<open>
  \<open>ft_installed\<close>: the script is installed; otherwise it is copied to the temporary directory \<open>ft_tmp\<close>.
  \<open>ft_fileName\<close> is \<open>QUrl::fileName\<close>, \<open>ft_sh\<close> runs the script.
\<close>

record fetch_env =
  ft_mkpath :: bool
  ft_installed :: "string \<Rightarrow> bool"
  ft_libexec :: string
  ft_tmp :: string
  ft_fileName :: "string \<Rightarrow> string"
  ft_sh :: "string list \<Rightarrow> string result"

definition getSourceName :: "fetch_env \<Rightarrow> build_source \<Rightarrow> string" where
  "getSourceName ft source =
     (case so_name source of
        Some n \<Rightarrow> n
      | None \<Rightarrow> (case so_url source of Some url \<Rightarrow> ft_fileName ft url | None \<Rightarrow> ''unknown''))"

definition fetch_args :: "fetch_env \<Rightarrow> build_source \<Rightarrow> string \<Rightarrow> string \<Rightarrow> string \<Rightarrow> string \<Rightarrow> string list" where
  "fetch_args ft source url check cacheDir dest =
     (let scriptName = ''fetch-'' @ so_kind source @ ''-source'' in
      [(if ft_installed ft (ft_libexec ft @ ''/'' @ scriptName) then ft_libexec ft else ft_tmp ft) @ ''/'' @ scriptName,
       dest @ ''/'' @ getSourceName ft source, url, check, cacheDir])"

definition SourceFetcher_fetch :: "fetch_env \<Rightarrow> string \<Rightarrow> build_source \<Rightarrow> string \<Rightarrow> unit result" where
  "SourceFetcher_fetch ft cacheDir source dest =
     (let trace = ''fetch source''; fail = (\<lambda>msg. Inl (Err trace msg (-1))) in
      if \<not> ft_mkpath ft then fail (dest @ ''source directory failed to create.'')
      else if so_kind source \<notin> {''git'', ''dsc'', ''file'', ''archive''} then fail ''unknown source kind''
      else case so_url source of None \<Rightarrow> fail ''URL is missing'' | Some url \<Rightarrow>
      case (if so_kind source = ''git'' then so_commit source else so_digest source) of
        None \<Rightarrow> fail ''digest missing''
      | Some check \<Rightarrow>
         (case ft_sh ft (fetch_args ft source url check cacheDir dest) of
            Inl e \<Rightarrow> Inl (Err_wrap_msg trace ''stderr:'' e)
          | Inr _ \<Rightarrow> Inr ()))"

fun fetchSources :: "fetch_env \<Rightarrow> string \<Rightarrow> string \<Rightarrow> build_source list \<Rightarrow> unit result" where
  "fetchSources ft cacheDir dest [] = Inr ()"
| "fetchSources ft cacheDir dest (source # sources) =
     (let trace = ''fetch sources to '' @ dest in
      if so_url source = None then Inl (Err trace ''source missing url'' (-1))
      else case SourceFetcher_fetch ft cacheDir source dest of
        Inl e \<Rightarrow> Inl (Err_wrap trace e)
      | Inr _ \<Rightarrow> fetchSources ft cacheDir dest sources)"

section \<open>Dependencies\<close>

text \<open>The repository as the builder sees it.\<close>

record 'w build_ops =
  bp_repo :: "'w repo_ops"
  bp_import :: "string \<Rightarrow> package_info_v2 result \<Rightarrow> 'w \<Rightarrow> string result \<times> 'w"
  bp_mergedDir :: "'w \<Rightarrow> reference \<Rightarrow> bool \<Rightarrow> string result"
  bp_mergedModules :: "reference \<Rightarrow> string list \<Rightarrow> 'w \<Rightarrow> string result \<times> 'w"
  bp_push :: "reference \<Rightarrow> string \<Rightarrow> 'w \<Rightarrow> push_end option"
  bp_pushToRemote :: "string \<Rightarrow> string \<Rightarrow> reference \<Rightarrow> string \<Rightarrow> 'w \<Rightarrow> push_end option"

definition remote_only :: clear_option where
  "remote_only = \<lparr>opt_forceRemote = True, opt_fallbackToRemote = False\<rparr>"

definition task_error :: "package_task \<Rightarrow> error" where
  "task_error t = (case t_err t of Some e \<Rightarrow> e | None \<Rightarrow> ErrorImpl 0 [] None)"

definition builder_pullDependency ::
    "'w build_ops \<Rightarrow> fuzzy_reference \<Rightarrow> string \<Rightarrow> bool \<Rightarrow> ('w, reference) action" where
  "builder_pullDependency bp fuzzyRef moduleName onlyLocal w =
     (let ops = bp_repo bp; trace = ''pull '' @ FuzzyReference_toString fuzzyRef in
      case ro_clearReference ops w fuzzyRef (if onlyLocal then local_only else remote_only) ''binary'' of
        None \<Rightarrow> None
      | Some (Inl e) \<Rightarrow> Some (Inl (Err_wrap trace e), w)
      | Some (Inr ref) \<Rightarrow>
         (if onlyLocal \<or> is_ok (ro_getLayerDir ops w ref moduleName) then Some (Inr ref, w)
          else case ro_pull ops ref moduleName (createTemporaryTask (ro_tmpId ops), w) of (t, w1) \<Rightarrow>
            if t_state t = task_state.Failed
            then Some (Inl (Err_wrap_msg trace (''pull '' @ Reference_toString ref @ '' failed'') (task_error t)), w1)
            else Some (Inr ref, w1)))"

definition pullDependency_str :: "'w build_ops \<Rightarrow> string \<Rightarrow> string \<Rightarrow> bool \<Rightarrow> ('w, reference) action" where
  "pullDependency_str bp fuzzyRefStr moduleName onlyLocal =
     map_error (Err_wrap (''pull '' @ fuzzyRefStr)) (and_then (of_result (FuzzyReference_parse fuzzyRefStr))
       (\<lambda>fuzzyRef. builder_pullDependency bp fuzzyRef moduleName onlyLocal))"

text \<open>
  One dependency of a build: both modules, then the merged directory. When the base has no merged
  directory, the code falls back to the module \<open>develop\<close> and then returns an error from a result that is
  none; the runtime is handled as intended.
\<close>

definition merged_or_develop :: "bool \<Rightarrow> string \<Rightarrow> 'w build_ops \<Rightarrow> string \<Rightarrow> reference \<Rightarrow> ('w, string) action" where
  "merged_or_develop is_base trace bp msg ref w =
     (case bp_mergedDir bp w ref False of
        Inr d \<Rightarrow> Some (Inr d, w)
      | Inl _ \<Rightarrow>
         (case ro_getLayerDir (bp_repo bp) w ref ''develop'' of
            Inl e \<Rightarrow> Some (Inl (Err_wrap_msg trace msg e), w)
          | Inr d \<Rightarrow> if is_base then None else Some (Inr d, w)))"

definition pull_both ::
    "bool \<Rightarrow> string \<Rightarrow> string \<Rightarrow> string \<Rightarrow> string \<Rightarrow> 'w build_ops \<Rightarrow> bool \<Rightarrow> fuzzy_reference \<Rightarrow> ('w, reference \<times> string) action" where
  "pull_both is_base trace binaryMsg developMsg dirMsg bp onlyLocal fuzzy =
     and_then (map_error (Err_wrap_msg trace binaryMsg) (builder_pullDependency bp fuzzy ''binary'' onlyLocal)) (\<lambda>_.
     and_then (map_error (Err_wrap_msg trace developMsg) (builder_pullDependency bp fuzzy ''develop'' onlyLocal)) (\<lambda>ref.
     and_then (map_error (Err_wrap trace) (of_step (ro_merge (bp_repo bp)))) (\<lambda>_.
     and_then (merged_or_develop is_base trace bp dirMsg ref) (\<lambda>d. give (ref, d)))))"

definition build_deps ::
    "string \<Rightarrow> 'w build_ops \<Rightarrow> bool \<Rightarrow> build_project \<Rightarrow>
     ('w, (fuzzy_reference \<times> reference \<times> string) \<times> (fuzzy_reference \<times> reference \<times> string) option) action" where
  "build_deps trace bp onlyLocal project =
     and_then (map_error (Err_wrap trace) (of_result (FuzzyReference_parse (pj_base project)))) (\<lambda>fuzzyBase.
     and_then (pull_both True trace ''pull base binary'' ''pull base develop'' ''get base layer dir'' bp onlyLocal fuzzyBase) (\<lambda>base.
     case pj_runtime project of
       None \<Rightarrow> give ((fuzzyBase, base), None)
     | Some runtime \<Rightarrow>
         and_then (map_error (Err_wrap trace) (of_result (FuzzyReference_parse runtime))) (\<lambda>fuzzyRuntime.
         and_then (pull_both False trace ''pull runtime'' ''pull runtime'' ''get runtime layer dir'' bp onlyLocal fuzzyRuntime)
           (\<lambda>rt. give ((fuzzyBase, base), Some (fuzzyRuntime, rt))))))"

section \<open>The environment of a build\<close>

text \<open>
  \<open>be_fault op p\<close> is the error of the file operation \<open>op\<close> on \<open>p\<close>, if it fails. \<open>be_script\<close> is what the process in the container
  does to the files, \<open>be_confgen\<close> what \<open>app-conf-generator\<close> does, \<open>be_text\<close> the text of a file of the project, \<open>be_dump\<close>
  the length of an \<open>info.json\<close>. \<open>be_url\<close>: the default repository has an address.
\<close>

record build_env =
  be_arch :: "architecture result"
  be_workingDir :: string
  be_url :: bool
  be_fetch :: fetch_env
  be_fetchCache :: string
  be_helper :: string
  be_helperExists :: bool
  be_now :: string
  be_debug :: bool
  be_sha256hex :: "string \<Rightarrow> string"
  be_oci :: oci_env
  be_absPath :: "string \<Rightarrow> string"
  be_run :: run_env
  be_script :: "oci_process \<Rightarrow> build_files \<Rightarrow> build_files"
  be_confgen :: "build_files \<Rightarrow> build_files"
  be_rx :: "string \<Rightarrow> string \<Rightarrow> bool"
  be_copy :: copy_env
  be_depth :: nat
  be_fault :: "string \<Rightarrow> string \<Rightarrow> qfile_error option"
  be_mkpath :: "string \<Rightarrow> bool"
  be_text :: "string \<Rightarrow> string option"
  be_dump :: "package_info_v2 \<Rightarrow> nat"

type_synonym 'w workspace = "'w \<times> build_files"

definition on_repo :: "('w, 'a) action \<Rightarrow> ('w workspace, 'a) action" where
  "on_repo m s = map_option (\<lambda>(r, w). (r, (w, snd s))) (m (fst s))"

definition on_files :: "(build_files, 'a) action \<Rightarrow> ('w workspace, 'a) action" where
  "on_files m s = map_option (\<lambda>(r, fs). (r, (fst s, fs))) (m (snd s))"

definition change :: "('s \<Rightarrow> 's) \<Rightarrow> ('s, unit) action" where
  "change f s = Some (Inr (), f s)"

definition require :: "bool \<Rightarrow> error \<Rightarrow> ('s, unit) action" where
  "require b e = (if b then give () else refuse e)"

definition Err_qfile_msg :: "string \<Rightarrow> string \<Rightarrow> qfile_error \<Rightarrow> error" where
  "Err_qfile_msg trace m e = Err trace (m @ '': '' @ snd e) (fst e)"

text \<open>A file operation that may fail; \<open>wrap\<close> makes the error of the function out of the error of the file.\<close>

definition try_file :: "build_env \<Rightarrow> string \<Rightarrow> string \<Rightarrow> (qfile_error \<Rightarrow> error) \<Rightarrow> ('s, unit) action" where
  "try_file env what p wrap = (case be_fault env what p of None \<Rightarrow> give () | Some e \<Rightarrow> refuse (wrap e))"

lemma on_repo_Some [simp]: "on_repo m s = Some (Inr x, s') \<longleftrightarrow> m (fst s) = Some (Inr x, fst s') \<and> snd s' = snd s"
  by (cases s') (auto simp: on_repo_def)

lemma on_files_Some [simp]: "on_files m s = Some (Inr x, s') \<longleftrightarrow> m (snd s) = Some (Inr x, snd s') \<and> fst s' = fst s"
  by (cases s') (auto simp: on_files_def)

lemma step_Some [simp]:
  "change f t = Some (Inr u, t') \<longleftrightarrow> t' = f t"
  "require b e t = Some (Inr u, t') \<longleftrightarrow> b \<and> t' = t"
  "try_file env what p wrap t = Some (Inr u, t') \<longleftrightarrow> be_fault env what p = None \<and> t' = t"
  by (auto simp: change_def require_def try_file_def split: option.split)

definition in_work :: "build_env \<Rightarrow> string \<Rightarrow> string" where
  "in_work env p = be_workingDir env @ ''/'' @ p"

definition buildOutput :: "build_env \<Rightarrow> string" where
  "buildOutput env = in_work env ''linglong/output/_build''"

definition module_output :: "build_env \<Rightarrow> string \<Rightarrow> string" where
  "module_output env m = in_work env (''linglong/output/'' @ m)"

definition genContainerID :: "build_env \<Rightarrow> reference \<Rightarrow> string" where
  "genContainerID env ref =
     (let content = ref_id ref @ ''-'' @ be_now env in if be_debug env then content else be_sha256hex env content)"

section \<open>The build\<close>

definition build_sources :: "build_env \<Rightarrow> build_options \<Rightarrow> string \<Rightarrow> build_project \<Rightarrow> ('s, unit) action" where
  "build_sources env bo trace project =
     (case pj_sources project of
        None \<Rightarrow> give ()
      | Some sources \<Rightarrow>
         (if bo_skipFetchSource bo then give ()
          else map_error (Err_wrap trace) (of_result (fetchSources (be_fetch env)
                 (if be_fetchCache env = [] then in_work env ''linglong/cache'' else be_fetchCache env)
                 (in_work env ''linglong/sources'') sources))))"

definition newline :: string where
  "newline = [CHR 0x0A]"

text \<open>The compiler flags for C++ are taken from those for C.\<close>

definition entry_script :: "build_env \<Rightarrow> build_options \<Rightarrow> build_project \<Rightarrow> string" where
  "entry_script env bo project =
     ''#!/bin/bash'' @ newline @ ''set -e'' @ newline @ newline @
     ''# This file is generated by `build` in linglong.yaml'' @ newline @ ''# DO NOT EDIT IT'' @ newline @
     (if bo_skipStripSymbols bo then []
      else newline @ ''# enable strip symbols'' @ newline @ ''export CFLAGS=\"-g $CFLAGS\"'' @ newline @
           ''export CXXFLAGS=\"-g $CFLAGS\"'' @ newline) @
     pj_build project @ newline @
     (if bo_skipCheckOutput bo \<or> pj_kind project \<noteq> ''app'' then []
      else ''# POST BUILD PROCESS'' @ newline @ be_helper env @ ''/main-check.sh'' @ newline) @
     (if bo_skipStripSymbols bo then [] else be_helper env @ ''/symbols-strip.sh'' @ newline)"

text \<open>\<open>write\<close> stops at a NUL in the text; then the number of bytes is wrong although the file has no error.\<close>

definition write_entry :: "build_env \<Rightarrow> string \<Rightarrow> string \<Rightarrow> (build_files, unit) action" where
  "write_entry env trace content =
     (let p = in_work env ''linglong/entry.sh''; wrap = Err_qfile trace p;
          short = Err_qfile_msg trace ''Failed to write script content to file'' in
      and_then (\<lambda>fs. (if lookup_file fs p = None then give () else try_file env ''remove'' p wrap) fs) (\<lambda>_.
      and_then (try_file env ''open'' p wrap) (\<lambda>_.
      and_then (try_file env ''write'' p short) (\<lambda>_.
      and_then (require (CHR 0x00 \<notin> set content) (short (0, ''Unknown error''))) (\<lambda>_.
      and_then (change (put_file p (EFile (length content)))) (\<lambda>_.
      and_then (try_file env ''close'' p wrap) (\<lambda>_.
        try_file env ''permissions'' p (Err_qfile_msg trace ''set file permission error:''))))))))"

definition clean_output :: "build_env \<Rightarrow> string \<Rightarrow> (build_files, unit) action" where
  "clean_output env trace =
     and_then (change (remove_dir (in_work env ''linglong/output''))) (\<lambda>_.
     and_then (require (be_mkpath env (buildOutput env)) (Err trace (''make path '' @ buildOutput env @ '': failed.'') (-1))) (\<lambda>_.
       change (make_path (buildOutput env))))"

definition installPrefix :: "build_project \<Rightarrow> string" where
  "installPrefix project = (if pj_kind project \<noteq> ''runtime'' then ''/opt/apps/'' @ pj_id project @ ''/files'' else ''/runtime'')"

definition rbind_mount :: "string \<Rightarrow> string list \<Rightarrow> string \<Rightarrow> mount" where
  "rbind_mount dest options source = \<lparr>mnt_destination = dest, mnt_options = options, mnt_source = source, mnt_type = ''bind''\<rparr>"

definition build_container_options :: "build_env \<Rightarrow> build_project \<Rightarrow> reference \<Rightarrow> string \<Rightarrow> string option \<Rightarrow> container_options" where
  "build_container_options env project ref baseDir runtimeDir =
     \<lparr>opt_appID = pj_id project, opt_containerID = genContainerID env ref, opt_runtimeDir = runtimeDir, opt_baseDir = baseDir,
      opt_appDir = None, opt_patches = [],
      opt_mounts = [rbind_mount (installPrefix project) [''rbind'', ''rw''] (buildOutput env)] @
        (if be_helperExists env then [rbind_mount (be_helper env) [''rbind'', ''ro''] (be_helper env)] else []) @
        [rbind_mount ''/project'' [''rbind'', ''rw''] (be_workingDir env)],
      opt_masks = [''/project/linglong/output'']\<rparr>"

definition build_process :: "build_project \<Rightarrow> architecture \<Rightarrow> string list \<Rightarrow> oci_process" where
  "build_process project arch args =
     \<lparr>pr_args = Some args, pr_env = Some [''PREFIX='' @ installPrefix project, ''TRIPLET='' @ getTriplet arch],
      pr_cwd = ''/project'', pr_user = None, pr_terminal = Some True\<rparr>"

text \<open>Creating and running a container; the process changes the files once it has been started.\<close>

definition run_container :: "build_env \<Rightarrow> string \<Rightarrow> container_options \<Rightarrow> oci_process \<Rightarrow> (build_files, unit) action" where
  "run_container env trace opts process fs =
     (case ContainerBuilder_create (be_oci env) (be_absPath env) opts of
        None \<Rightarrow> None
      | Some (Inl e) \<Rightarrow> Some (Inl (Err_wrap trace e), fs)
      | Some (Inr (cfg, _)) \<Rightarrow>
         (case Container_run (be_run env) process (container_of opts cfg) of
            None \<Rightarrow> None
          | Some (Inl e, out) \<Rightarrow> Some (Inl (Err_wrap trace e), if ro_started out then be_script env process fs else fs)
          | Some (Inr _, out) \<Rightarrow> Some (Inr (), if ro_started out then be_script env process fs else fs)))"

definition build_in_container ::
    "build_env \<Rightarrow> build_options \<Rightarrow> string \<Rightarrow> build_project \<Rightarrow> architecture \<Rightarrow> string list \<Rightarrow> string \<Rightarrow> string option \<Rightarrow>
     (build_files, reference) action" where
  "build_in_container env bo trace project arch args baseDir runtimeDir =
     and_then (write_entry env trace (entry_script env bo project)) (\<lambda>_.
     and_then (clean_output env trace) (\<lambda>_.
     and_then (map_error (Err_wrap trace) (of_result (currentReference (be_arch env) project))) (\<lambda>ref.
     and_then (run_container env trace (build_container_options env project ref baseDir runtimeDir) (build_process project arch args)) (\<lambda>_.
       give ref))))"

section \<open>Installing the files\<close>

text \<open>\<open>QStringList::removeDuplicates\<close> keeps the first of equal strings.\<close>

definition removeDuplicates :: "string list \<Rightarrow> string list" where
  "removeDuplicates xs = rev (remdups (rev xs))"

definition default_develop :: "string list" where
  "default_develop = [''^/include/.+'', ''^/lib/debug/.+'', ''^/lib/.+'' @ [CHR 0x5C] @ ''.a$'']"

definition projectModules :: "build_options \<Rightarrow> build_project \<Rightarrow> (string \<times> string list) list" where
  "projectModules bo project =
     (let ms = (case pj_modules project of None \<Rightarrow> [] | Some ms \<Rightarrow> ms) in
      ms @ (if bo_fullDevelop bo \<or> ''develop'' \<in> fst ` set ms then [] else [(''develop'', default_develop)]))"

definition join_lines :: "string list \<Rightarrow> string" where
  "join_lines xs = (case xs of [] \<Rightarrow> [] | x # ls \<Rightarrow> x @ concat (map (\<lambda>l. newline @ l) ls))"

definition save_rules :: "build_env \<Rightarrow> string \<Rightarrow> string \<Rightarrow> string list \<Rightarrow> (build_files, unit) action" where
  "save_rules env trace p rules =
     and_then (try_file env ''open'' p (Err_qfile_msg trace (''open file '' @ p))) (\<lambda>_.
     and_then (try_file env ''write'' p (Err_qfile_msg trace (''write file '' @ p))) (\<lambda>_.
       change (put_file p (EFile (length (join_lines rules))))))"

definition rules_path :: "build_env \<Rightarrow> build_project \<Rightarrow> string \<Rightarrow> string" where
  "rules_path env project name = module_output env name @ ''/'' @ pj_id project @ ''.install''"

definition install_one :: "build_env \<Rightarrow> string \<Rightarrow> build_project \<Rightarrow> string \<Rightarrow> string list \<Rightarrow> (build_files, unit) action" where
  "install_one env trace project name rules =
     and_then (change (installModule (be_rx env) rules (buildOutput env) (module_output env name @ ''/files''))) (\<lambda>_.
       save_rules env trace (rules_path env project name) rules)"

fun install_project_modules :: "build_env \<Rightarrow> string \<Rightarrow> build_project \<Rightarrow> (string \<times> string list) list \<Rightarrow> (build_files, unit) action" where
  "install_project_modules env trace project [] = give ()"
| "install_project_modules env trace project (m # ms) =
     and_then (install_one env trace project (fst m) (removeDuplicates (snd m))) (\<lambda>_.
       install_project_modules env trace project ms)"

text \<open>The rules of the module \<open>binary\<close>: those of \<open>$appid.install\<close>, or all that is left in the build directory.\<close>

definition all_rules :: "string \<Rightarrow> build_files \<Rightarrow> string list" where
  "all_rules src fs = map (\<lambda>x. drop (length src) (fst x)) (filter (\<lambda>x. starts_with (fst x) (src @ ''/'')) (entries fs))"

definition binary_rules :: "build_env \<Rightarrow> string \<Rightarrow> build_project \<Rightarrow> (build_files, string list) action" where
  "binary_rules env trace project fs =
     (let p = in_work env (pj_id project @ ''.install'') in
      case be_text env p of
        None \<Rightarrow> give (all_rules (buildOutput env) fs) fs
      | Some text \<Rightarrow>
          and_then (try_file env ''open'' p (Err_qfile_msg trace ''open file'')) (\<lambda>_.
            give (removeDuplicates (filter (\<lambda>l. l \<noteq> []) (map (qreplace (installPrefix project) []) (split_on (CHR 0x0A) text))))) fs)"

definition install_files :: "build_env \<Rightarrow> build_options \<Rightarrow> string \<Rightarrow> build_project \<Rightarrow> (build_files, unit) action" where
  "install_files env bo trace project =
     and_then (change (be_confgen env)) (\<lambda>_.
     and_then (if bo_fullDevelop bo
               then copyDir (be_depth env) (be_copy env) (buildOutput env) (module_output env ''develop'' @ ''/files'')
               else give ()) (\<lambda>_.
     and_then (install_project_modules env trace project (projectModules bo project)) (\<lambda>_.
     and_then (binary_rules env trace project) (\<lambda>rules.
       install_one env trace project ''binary'' rules))))"

section \<open>Entries\<close>

definition entry_paths :: "string list" where
  "entry_paths = [''share/applications'', ''share/mime'', ''share/icons'', ''share/dbus-1'', ''share/gnome-shell'', ''share/appdata'',
     ''share/metainfo'', ''share/plugins'', ''share/systemd'', ''share/deepin-manual'']"

text \<open>\<open>QDir::exists\<close> follows links; \<open>QFile::link\<close> fails when the name is taken, which is only logged.\<close>

definition file_exists :: "build_files \<Rightarrow> string \<Rightarrow> bool" where
  "file_exists fs p = (case lookup_file fs p of None \<Rightarrow> False | Some (ELink _ k) \<Rightarrow> k \<noteq> Broken | Some _ \<Rightarrow> True)"

definition link_export :: "string \<Rightarrow> string \<Rightarrow> string \<Rightarrow> build_files \<Rightarrow> build_files" where
  "link_export files entriesDir path fs =
     (if \<not> file_exists fs (files @ ''/'' @ path) then fs
      else let name = entriesDir @ ''/'' @ (if path = ''share/appdata'' then ''share/metainfo'' else path);
               kind = (case lookup_file fs (files @ ''/'' @ path) of Some e \<Rightarrow> if is_dir_entry e then ToDir else ToFile | None \<Rightarrow> Broken) in
        if lookup_file fs name \<noteq> None then fs else put_file name (ELink (length (''../../files/'' @ path)) kind) fs)"

text \<open>
  User units are copied. When \<open>share/systemd\<close> has become a link, the directory they are copied to is the one the link leads to;
  messages name that directory.
\<close>

definition units_dir :: "string \<Rightarrow> string \<Rightarrow> build_files \<Rightarrow> string" where
  "units_dir files entriesDir fs =
     (case lookup_file fs (entriesDir @ ''/share/systemd'') of
        Some (ELink _ _) \<Rightarrow> files @ ''/share/systemd/user''
      | _ \<Rightarrow> entriesDir @ ''/share/systemd/user'')"

definition copy_units :: "build_env \<Rightarrow> string \<Rightarrow> string \<Rightarrow> string \<Rightarrow> (build_files, unit) action" where
  "copy_units env trace files entriesDir fs =
     (if \<not> file_exists fs (files @ ''/lib/systemd/user'') then give () fs
      else let dst = units_dir files entriesDir fs in
        map_error (Err_wrap trace) (copyDir (be_depth env) (be_copy env) (files @ ''/lib/systemd/user'') dst)
          (if be_mkpath env dst then make_path dst fs else fs))"

definition make_entries :: "build_env \<Rightarrow> string \<Rightarrow> build_project \<Rightarrow> (build_files, unit) action" where
  "make_entries env trace project =
     (let files = module_output env ''binary/files''; entriesDir = module_output env ''binary/entries'' in
      if pj_kind project = ''runtime'' then give ()
      else
        and_then (require (be_mkpath env entriesDir) (Err trace (''make path '' @ entriesDir @ '': failed.'') (-1))) (\<lambda>_.
        and_then (change (make_path entriesDir)) (\<lambda>_.
        and_then (\<lambda>fs. (if file_exists fs (files @ ''/share'')
                        then and_then (require (be_mkpath env (entriesDir @ ''/share'')) (Err trace ''mkpath files/share: failed'' (-1)))
                               (\<lambda>_. change (make_path (entriesDir @ ''/share'')))
                        else give ()) fs) (\<lambda>_.
        and_then (change (fold (link_export files entriesDir) entry_paths)) (\<lambda>_.
        and_then (copy_units env trace files entriesDir) (\<lambda>_.
          require (pj_command project \<noteq> None \<and> pj_command project \<noteq> Some [])
            (Err trace ''command field is required, please specify!'' (-1))))))))"

section \<open>Committing\<close>

text \<open>
  A version without a fourth number in the project is written to the description without one. A reference without a version
  has no value to look at.
\<close>

definition written_ref :: "fuzzy_reference \<Rightarrow> reference \<Rightarrow> string option" where
  "written_ref fuzzy ref =
     (case fz_version fuzzy of
        None \<Rightarrow> None
      | Some v \<Rightarrow> Some (Reference_toString (if tweak v = None then ref\<lparr>ref_version := (ref_version ref)\<lparr>tweak := None\<rparr>\<rparr> else ref)))"

definition build_info ::
    "build_project \<Rightarrow> architecture \<Rightarrow> reference \<Rightarrow> fuzzy_reference \<times> reference \<Rightarrow> (fuzzy_reference \<times> reference) option \<Rightarrow>
     package_info_v2 option" where
  "build_info project arch ref base runtime =
     (case written_ref (fst base) (snd base) of None \<Rightarrow> None | Some b \<Rightarrow>
      case map_option (\<lambda>(fz, r). written_ref fz r) runtime of
        Some None \<Rightarrow> None
      | rt \<Rightarrow> Some
         \<lparr>info_arch = [Architecture_toString arch], info_base = b, info_channel = ref_channel ref, info_command = pj_command project,
          info_compatibleVersion = None, info_description = Some (pj_description project), info_id = pj_id project,
          info_kind = pj_kind project, info_module = [], info_name = pj_name project, info_permissions = pj_permissions project,
          info_runtime = (case rt of Some r \<Rightarrow> r | None \<Rightarrow> None), info_schemaVersion = PACKAGE_INFO_VERSION, info_size = 0,
          info_uuid = None, info_version = pj_version project\<rparr>)"

definition remove_existing :: "'w build_ops \<Rightarrow> reference \<Rightarrow> 'w \<Rightarrow> 'w" where
  "remove_existing bp ref w =
     fold (\<lambda>m w. snd (ro_remove (bp_repo bp) ref m None w)) (ro_getModuleList (bp_repo bp) w ref) w"

definition commit_names :: "build_options \<Rightarrow> build_project \<Rightarrow> string list" where
  "commit_names bo project =
     ''binary'' # (if bo_fullDevelop bo then [''develop''] else []) @ map fst (projectModules bo project)"

text \<open>\<open>std::filesystem::copy\<close> without options fails when the file is already there.\<close>

definition commit_one :: "build_env \<Rightarrow> 'w build_ops \<Rightarrow> string \<Rightarrow> package_info_v2 \<Rightarrow> string \<Rightarrow> ('w workspace, unit) action" where
  "commit_one env bp trace info m =
     (let out = module_output env m; infoFile = out @ ''/info.json''; yaml = out @ ''/linglong.yaml'';
          bad = (\<lambda>why. Err trace (''copy linglong.yaml to output failed: '' @ why) (-1)) in
      and_then get_state (\<lambda>s.
      let info1 = info\<lparr>info_module := m, info_size := sint (sizeOfDir (snd s) out)\<rparr> in
      and_then (try_file env ''open'' infoFile (Err_qfile trace infoFile)) (\<lambda>_.
      and_then (try_file env ''write'' infoFile (Err_qfile trace infoFile)) (\<lambda>_.
      and_then (on_files (change (put_file infoFile (EFile (be_dump env info1))))) (\<lambda>_.
      and_then (require (lookup_file (snd s) yaml = None) (bad ''File exists'')) (\<lambda>_.
      and_then (try_file env ''copy'' yaml (\<lambda>e. bad (snd e))) (\<lambda>_.
      and_then (on_files (change (put_file yaml (EFile 0)))) (\<lambda>_.
      and_then (map_error (Err_wrap trace) (on_repo (of_step (bp_import bp out (Inr info1))))) (\<lambda>_. give ())))))))))"

fun commit_all :: "build_env \<Rightarrow> 'w build_ops \<Rightarrow> string \<Rightarrow> package_info_v2 \<Rightarrow> string list \<Rightarrow> ('w workspace, unit) action" where
  "commit_all env bp trace info [] = give ()"
| "commit_all env bp trace info (m # ms) = and_then (commit_one env bp trace info m) (\<lambda>_. commit_all env bp trace info ms)"

definition commit_output ::
    "build_env \<Rightarrow> 'w build_ops \<Rightarrow> build_options \<Rightarrow> string \<Rightarrow> build_project \<Rightarrow> architecture \<Rightarrow> reference \<Rightarrow>
     fuzzy_reference \<times> reference \<Rightarrow> (fuzzy_reference \<times> reference) option \<Rightarrow> ('w workspace, unit) action" where
  "commit_output env bp bo trace project arch ref base runtime =
     and_then (on_files (install_files env bo trace project)) (\<lambda>_.
     and_then (on_files (make_entries env trace project)) (\<lambda>_.
     case build_info project arch ref base runtime of
       None \<Rightarrow> crash
     | Some info \<Rightarrow>
         and_then (on_repo (change (remove_existing bp ref))) (\<lambda>_.
         and_then (commit_all env bp trace info (commit_names bo project)) (\<lambda>_.
           on_repo (of_step (ro_merge (bp_repo bp)))))))"

definition build ::
    "build_env \<Rightarrow> 'w build_ops \<Rightarrow> build_options \<Rightarrow> build_project \<Rightarrow> string list \<Rightarrow> ('w workspace, unit) action" where
  "build env bp bo project args =
     (let trace = ''build project '' @ in_work env ''linglong.yaml'' in
      and_then (map_error (Err_wrap trace) (of_result (be_arch env))) (\<lambda>arch.
      if \<not> be_url env then crash
      else
        and_then (on_files (change (make_path (in_work env ''linglong'')))) (\<lambda>_.
        and_then (build_sources env bo trace project) (\<lambda>_.
        and_then (on_repo (build_deps trace bp (bo_skipPullDepend bo) project)) (\<lambda>((fuzzyBase, baseRef, baseDir), rt).
        if bo_skipRunContainer bo then give ()
        else
          and_then (on_files (build_in_container env bo trace project arch args baseDir (map_option (\<lambda>(_, _, d). d) rt))) (\<lambda>ref.
          if bo_skipCommitOutput bo then give ()
          else commit_output env bp bo trace project arch ref (fuzzyBase, baseRef) (map_option (\<lambda>(fz, r, _). (fz, r)) rt)))))))"

end
