(* ===== verification/Builder_Commands.thy ===== *)
theory Builder_Commands
  imports Builder "HOL-Library.List_Lexorder" "HOL-Library.Char_ord"
begin

text \<open>
  The other commands of the builder: exporting a bundle and layers, extracting and importing a layer, pushing, running
  the application, listing and removing packages (\<open>libs/linglong/src/linglong/builder/linglong_builder.cpp\<close>), and its configuration
  (\<open>config.cpp\<close>).
\<close>

section \<open>Configuration\<close>

record builder_config =
  bc_arch :: "string option"
  bc_cache :: "string option"
  bc_offline :: "bool option"
  bc_repo :: string
  bc_version :: int

text \<open>\<open>read\<close> opens a file, \<open>load\<close> parses YAML; an exception (\<open>Inl\<close>) carries its text.\<close>

definition load_builder_config ::
    "(string \<Rightarrow> qfile_error + string) \<Rightarrow> (string \<Rightarrow> string + builder_config result) \<Rightarrow> string \<Rightarrow> builder_config result" where
  "load_builder_config read load file =
     (let trace = ''load build config from '' @ file in
      case read file of Inl e \<Rightarrow> Inl (Err_qfile_msg trace ''read build config file'' e) | Inr data \<Rightarrow>
      case load data of
        Inl what \<Rightarrow> Inl (Err trace what (-1))
      | Inr (Inl e) \<Rightarrow> Inl (Err_wrap_msg trace ''parse build config'' e)
      | Inr (Inr config) \<Rightarrow>
         (if bc_version config \<noteq> 1
          then Inl (Err trace (''wrong configuration file version '' @ show_int (bc_version config)) (-1))
          else Inr config))"

fun load_first_config :: "(string \<Rightarrow> builder_config result) \<Rightarrow> string \<Rightarrow> string list \<Rightarrow> builder_config result" where
  "load_first_config load trace [] = Inl (Err trace ''all failed'' (-1))"
| "load_first_config load trace (file # files) =
     (case load file of Inr config \<Rightarrow> Inr config | Inl _ \<Rightarrow> load_first_config load trace files)"

definition load_builder_configs ::
    "(string \<Rightarrow> qfile_error + string) \<Rightarrow> (string \<Rightarrow> string + builder_config result) \<Rightarrow> string list \<Rightarrow> builder_config result" where
  "load_builder_configs read load files =
     load_first_config (load_builder_config read load)
       (''load build config from '' @ (case files of [] \<Rightarrow> [] | f # fs \<Rightarrow> f @ concat (map (\<lambda>g. '' '' @ g) fs))) files"

definition save_builder_config :: "bool \<Rightarrow> string option \<Rightarrow> string \<Rightarrow> unit result" where
  "save_builder_config opens exception path =
     (let trace = ''save config to '' @ path in
      if \<not> opens then Inl (Err trace ''open failed'' (-1))
      else case exception of Some what \<Rightarrow> Inl (Err trace what (-1)) | None \<Rightarrow> Inr ())"

text \<open>Another repository path ends the process.\<close>

definition Builder_setConfig :: "builder_config \<Rightarrow> builder_config \<Rightarrow> builder_config option" where
  "Builder_setConfig new old = (if bc_repo old \<noteq> bc_repo new then None else Some new)"

section \<open>Packages of the local repository\<close>

definition cmdListApp :: "'w build_ops \<Rightarrow> 'w \<Rightarrow> string list" where
  "cmdListApp bp w =
     remdups_adj (sort (List.map_filter (\<lambda>i. case Reference_fromPackageInfo i of Inl _ \<Rightarrow> None | Inr r \<Rightarrow> Some (Reference_toString r))
       (ro_listLocal (bp_repo bp) w)))"

text \<open>Errors are printed; the next module or reference is handled all the same.\<close>

definition remove_ref :: "'w build_ops \<Rightarrow> string \<Rightarrow> 'w \<Rightarrow> 'w" where
  "remove_ref bp text w = (case Reference_parse text of Inl _ \<Rightarrow> w | Inr r \<Rightarrow> remove_existing bp r w)"

definition cmdRemoveApp :: "'w build_ops \<Rightarrow> string list \<Rightarrow> ('w, unit) action" where
  "cmdRemoveApp bp refs w =
     Some (Inr (), snd (ro_merge (bp_repo bp) (snd (ro_prune (bp_repo bp) (fold (remove_ref bp) refs w)))))"

section \<open>Exporting\<close>

text \<open>\<open>xu_layer\<close> is what a layer directory holds.\<close>

record export_uab_env =
  xu_mkpath :: bool
  xu_buildDir :: bool
  xu_uuid :: string
  xu_iconExists :: bool
  xu_iconIsFile :: bool
  xu_layer :: "string \<Rightarrow> layer_dir"
  xu_files :: fs_view
  xu_pack :: uab_pack_env

definition uab_name :: "reference \<Rightarrow> string" where
  "uab_name r = ref_id r @ ''_'' @ Architecture_toString (ref_arch r) @ ''_'' @ Version_toString (ref_version r) @ ''_'' @
     ref_channel r @ ''.uab''"

definition append_dir :: "export_uab_env \<Rightarrow> string \<Rightarrow> uab_packager \<Rightarrow> uab_packager" where
  "append_dir xu d up = snd (appendLayer (xu_layer xu d) up)"

text \<open>The layers of the bundle: the base, the runtime if there is one, and last the application. Errors of \<open>exclude\<close> and \<open>include\<close> are ignored.\<close>

definition uab_filters :: "build_project \<Rightarrow> uab_packager \<Rightarrow> uab_packager" where
  "uab_filters project up =
     (let up1 = (case pj_exclude project of None \<Rightarrow> up | Some fs \<Rightarrow> snd (exclude_files fs up)) in
      case pj_include project of None \<Rightarrow> up1 | Some fs \<Rightarrow> snd (include_files fs up1))"

definition dependency_dir :: "string \<Rightarrow> 'w build_ops \<Rightarrow> string \<Rightarrow> ('w, string) action" where
  "dependency_dir trace bp text =
     and_then (map_error (Err_wrap trace) (pullDependency_str bp text ''binary'' False)) (\<lambda>ref.
     and_then get_state (\<lambda>w. map_error (Err_wrap trace) (of_result (ro_getLayerDir (bp_repo bp) w ref ''binary''))))"

definition exportUAB ::
    "architecture result \<Rightarrow> export_uab_env \<Rightarrow> 'w build_ops \<Rightarrow> build_project \<Rightarrow> string \<Rightarrow> string \<Rightarrow> pack_files \<Rightarrow>
     ('w, uab_packager \<times> pack_files) action" where
  "exportUAB curArch xu bp project dest iconPath k =
     (let trace = ''export uab file'' in
      and_then (require (xu_mkpath xu) (Err trace (''mkpath '' @ dest @ '': failed'') (-1))) (\<lambda>_.
      case UABPackager_new (xu_buildDir xu) dest (xu_uuid xu) of None \<Rightarrow> crash | Some up0 \<Rightarrow>
      and_then (if iconPath = [] then give up0
                else case setIcon (xu_iconExists xu) (xu_iconIsFile xu) iconPath up0 of
                  (Inl e, _) \<Rightarrow> refuse (Err_wrap trace e) | (Inr _, up) \<Rightarrow> give up) (\<lambda>up1.
      and_then (dependency_dir trace bp (pj_base project)) (\<lambda>baseDir.
      and_then (case pj_runtime project of
                  None \<Rightarrow> give [] | Some rt \<Rightarrow> and_then (dependency_dir trace bp rt) (\<lambda>d. give [d])) (\<lambda>runtimeDirs.
      and_then (map_error (Err_wrap trace) (of_result (currentReference curArch project))) (\<lambda>curRef.
      and_then get_state (\<lambda>w.
      and_then (map_error (Err_wrap trace) (of_result (ro_getLayerDir (bp_repo bp) w curRef ''binary''))) (\<lambda>appDir.
      let up2 = fold (append_dir xu) ([baseDir] @ runtimeDirs @ [appDir]) (uab_filters project up1) in
      case UABPackager_pack (xu_files xu) (xu_pack xu) (uab_name curRef) up2 k of
        None \<Rightarrow> crash
      | Some (Inl e) \<Rightarrow> refuse (Err_wrap trace e)
      | Some (Inr r) \<Rightarrow> give r))))))))"

text \<open>
  Layers: each module goes to its own file. What a module comes to is \<open>None\<close> when its directory is not found; in both cases
  errors are only logged.
\<close>

record export_layer_env =
  xl_exists :: bool
  xl_absolute :: string
  xl_pack :: "string \<Rightarrow> pack_env"
  xl_dump :: "package_info_v2 \<Rightarrow> bytes"

definition layer_name :: "export_layer_env \<Rightarrow> reference \<Rightarrow> string \<Rightarrow> string" where
  "layer_name xl ref m = xl_absolute xl @ ''/'' @ ref_id ref @ ''_'' @ Version_toString (ref_version ref) @ ''_'' @
     Architecture_toString (ref_arch ref) @ ''_'' @ m @ ''.layer''"

definition exportLayer ::
    "architecture result \<Rightarrow> export_layer_env \<Rightarrow> 'w build_ops \<Rightarrow> build_project \<Rightarrow> string \<Rightarrow> 'w \<Rightarrow>
     unit result \<times> (string \<times> layer_file result option) list" where
  "exportLayer curArch xl bp project dest w =
     (let trace = ''export layer file''; ops = bp_repo bp in
      if \<not> xl_exists xl then (Inl (Err trace (''mkpath '' @ dest @ '': failed'') (-1)), [])
      else case currentReference curArch project of
        Inl e \<Rightarrow> (Inl (Err_wrap trace e), [])
      | Inr ref \<Rightarrow>
         (Inr (), map (\<lambda>m. let f = layer_name xl ref m in
            (f, case ro_getLayerDir ops w ref m of
                  Inl _ \<Rightarrow> None
                | Inr d \<Rightarrow> Some (LayerPackager_pack (xl_pack xl f) (ro_info ops w d) (xl_dump xl)))) (ro_getModuleList ops w ref)))"

definition extractLayer ::
    "bytes option \<Rightarrow> bool \<Rightarrow> (string \<Rightarrow> string list \<Rightarrow> unit result) \<Rightarrow> string \<Rightarrow> string \<Rightarrow> string \<Rightarrow> unit result" where
  "extractLayer content destExists exec workDir layerPath dest =
     (let trace = ''extract '' @ layerPath @ '' to '' @ dest in
      case LayerFile_New content of Inl e \<Rightarrow> Inl (Err_wrap trace e) | Inr f \<Rightarrow>
      if destExists then Inl (Err trace (dest @ '' already exists'') (-1))
      else case fst (LayerPackager_unpack exec workDir layerPath f) of
        Inl e \<Rightarrow> Inl (Err_wrap trace e)
      | Inr layerDir \<Rightarrow> try_wrap trace (exec ''cp'' [''-r'', layerDir, dest]) Inr)"

definition importLayer ::
    "bytes option \<Rightarrow> (string \<Rightarrow> string list \<Rightarrow> unit result) \<Rightarrow> string \<Rightarrow> string \<Rightarrow> 'w build_ops \<Rightarrow> ('w, unit) action" where
  "importLayer content exec workDir path bp =
     (let trace = ''import layer'' in
      and_then (map_error (Err_wrap trace) (of_result (LayerFile_New content))) (\<lambda>f.
      and_then (map_error (Err_wrap trace) (of_result (fst (LayerPackager_unpack exec workDir path f)))) (\<lambda>layerDir.
      and_then get_state (\<lambda>w.
      and_then (map_error (Err_wrap trace) (of_step (bp_import bp layerDir (ro_info (bp_repo bp) w layerDir)))) (\<lambda>_. give ())))))"

definition Builder_push ::
    "architecture result \<Rightarrow> 'w build_ops \<Rightarrow> build_project \<Rightarrow> string \<Rightarrow> string \<Rightarrow> string \<Rightarrow> 'w \<Rightarrow> push_end option" where
  "Builder_push curArch bp project m repoUrl repoName w =
     (case currentReference curArch project of
        Inl e \<Rightarrow> Some (Pushed (Inl (Err_wrap ''push reference to remote repository'' e)))
      | Inr ref \<Rightarrow>
         (if repoName = [] \<or> repoUrl = [] then bp_push bp ref m w else bp_pushToRemote bp repoName repoUrl ref m w))"

section \<open>Running the application\<close>

definition run_layer_dir :: "'w build_ops \<Rightarrow> bool \<Rightarrow> 'w \<Rightarrow> reference \<Rightarrow> string result" where
  "run_layer_dir bp debug w ref = (if debug then bp_mergedDir bp w ref True else ro_getLayerDir (bp_repo bp) w ref ''binary'')"

text \<open>A stream that does not open writes nothing, silently. \<open>debug_files\<close> makes the two scripts for the debugger.\<close>

definition stream_file :: "build_env \<Rightarrow> string \<Rightarrow> string \<Rightarrow> build_files \<Rightarrow> build_files" where
  "stream_file env p text fs = (if be_fault env ''open'' p = None then put_file p (EFile (length text)) fs else fs)"

definition debug_files :: "build_env \<Rightarrow> build_project \<Rightarrow> build_files \<Rightarrow> build_files" where
  "debug_files env project fs =
     (let host = ''set substitute-path /project '' @ be_workingDir env @ newline @ ''set debug-file-directory '' @
            in_work env ''linglong/output/develop/files/lib/debug'' @ newline @ ''# target remote :12345'';
          inner = ''set debug-file-directory /usr/lib/debug:/runtime/lib/debug:/opt/apps/'' @ pj_id project @ ''/files/lib/debug'' @ newline in
      stream_file env (in_work env ''linglong/gdbinit'') inner (stream_file env (in_work env ''linglong/host_gdbinit'') host fs))"

definition debug_mounts :: "build_env \<Rightarrow> string \<Rightarrow> mount list" where
  "debug_mounts env home =
     [rbind_mount (path_div home ''.gdbinit'') [''ro'', ''rbind''] (in_work env ''linglong/gdbinit''),
      rbind_mount ''/project'' [''rbind'', ''ro''] (be_workingDir env)]"

definition run_dirs ::
    "string \<Rightarrow> 'w build_ops \<Rightarrow> bool \<Rightarrow> bool \<Rightarrow> build_project \<Rightarrow> ('w, string \<times> string option) action" where
  "run_dirs trace bp onlyLocal debug project =
     and_then (map_error (Err_wrap trace) (pullDependency_str bp (pj_base project) ''binary'' onlyLocal)) (\<lambda>baseRef.
     and_then (case pj_runtime project of
                 None \<Rightarrow> and_then (of_step (ro_merge (bp_repo bp))) (\<lambda>_. give None)
               | Some rt \<Rightarrow>
                   and_then (map_error (Err_wrap trace) (pullDependency_str bp rt ''binary'' onlyLocal)) (\<lambda>ref.
                   and_then (of_step (ro_merge (bp_repo bp))) (\<lambda>_.
                   and_then get_state (\<lambda>w.
                   and_then (map_error (Err_wrap trace) (of_result (run_layer_dir bp debug w ref))) (\<lambda>d. give (Some d)))))) (\<lambda>runtimeDir.
     and_then get_state (\<lambda>w.
     and_then (map_error (Err_wrap trace) (of_result (run_layer_dir bp debug w baseRef))) (\<lambda>baseDir. give (baseDir, runtimeDir)))))"

definition run_layer :: "string \<Rightarrow> 'w build_ops \<Rightarrow> reference \<Rightarrow> string list \<Rightarrow> ('w, string) action" where
  "run_layer trace bp curRef modules =
     map_error (Err_wrap trace)
       (if length modules > 1 then of_step (bp_mergedModules bp curRef modules)
        else and_then get_state (\<lambda>w. of_result (ro_getLayerDir (bp_repo bp) w curRef ''binary'')))"

text \<open>Without \<open>HOME\<close>, debugging makes a path out of a null pointer.\<close>

definition Builder_run ::
    "build_env \<Rightarrow> 'w build_ops \<Rightarrow> bool \<Rightarrow> string option \<Rightarrow> build_project \<Rightarrow> string list \<Rightarrow> string list \<Rightarrow> bool \<Rightarrow>
     ('w workspace, unit) action" where
  "Builder_run env bp onlyLocal home project modules args debug =
     (let trace = ''run application'' in
      and_then (map_error (Err_wrap trace) (of_result (currentReference (be_arch env) project))) (\<lambda>curRef.
      and_then (on_repo (run_dirs trace bp onlyLocal debug project)) (\<lambda>(baseDir, runtimeDir).
      and_then (on_repo (run_layer trace bp curRef modules)) (\<lambda>curDir.
      and_then get_state (\<lambda>s.
      and_then (map_error (Err_wrap trace) (of_result (ro_info (bp_repo bp) (fst s) curDir))) (\<lambda>info.
      and_then (require (pj_kind project = ''app'') (Err trace ''when kind equals to runtime, it cannot run'' (-1))) (\<lambda>_.
      if debug \<and> home = None then crash
      else
        and_then (on_files (change (if debug then debug_files env project else (\<lambda>fs. fs)))) (\<lambda>_.
          on_files (run_container env trace
            \<lparr>opt_appID = ref_id curRef, opt_containerID = genContainerID env curRef, opt_runtimeDir = runtimeDir, opt_baseDir = baseDir,
             opt_appDir = Some curDir, opt_patches = [],
             opt_mounts = permission_mounts info @ (case home of Some h \<Rightarrow> if debug then debug_mounts env h else [] | None \<Rightarrow> []),
             opt_masks = []\<rparr>
            \<lparr>pr_args = Some (if args \<noteq> [] then args else case pj_command project of Some c \<Rightarrow> c | None \<Rightarrow> [''bash'']),
             pr_env = None, pr_cwd = [], pr_user = None, pr_terminal = None\<rparr>)))))))))"

end
