(* ===== verification/Builder_Files.thy ===== *)
theory Builder_Files
  imports Builder_Commands
begin

text \<open>
  No file of a build is lost: what the build script has put into the build directory is distributed over the modules,
  \<open>install_files\<close> of the theory \<open>Builder\<close>.
\<close>

section \<open>The directories of the modules\<close>

definition module_files :: "build_env \<Rightarrow> string \<Rightarrow> string" where
  "module_files env n = module_output env n @ ''/files''"

text \<open>A name that can be a directory below the output, next to the build directory.\<close>

definition plain_module :: "string \<Rightarrow> bool" where
  "plain_module n \<longleftrightarrow> CHR ''/'' \<notin> set n \<and> n \<noteq> ''_build''"

lemma slash_parts:
  assumes "CHR ''/'' \<notin> set n"
  shows "takeWhile (\<lambda>c. c \<noteq> CHR ''/'') (n @ CHR ''/'' # a) = n" and "dropWhile (\<lambda>c. c \<noteq> CHR ''/'') (n @ CHR ''/'' # a) = CHR ''/'' # a"
  using assms by (induction n) auto

lemma slash_cancel:
  assumes "n @ CHR ''/'' # a = m @ CHR ''/'' # b" and "CHR ''/'' \<notin> set n" and "CHR ''/'' \<notin> set m"
  shows "n = m \<and> a = b"
  using slash_parts [OF assms(2), of a] slash_parts [OF assms(3), of b] assms(1) by simp

lemma below_output:
  "below (in_work env (''linglong/output/'' @ a)) (in_work env (''linglong/output/'' @ b)) \<longleftrightarrow> (\<exists>r. b = a @ CHR ''/'' # r)"
  by (auto simp: below_def in_work_def)

lemma module_files_in: "module_files env n = in_work env (''linglong/output/'' @ n @ CHR ''/'' # ''files'')"
  and buildOutput_in: "buildOutput env = in_work env (''linglong/output/'' @ ''_build'')"
  and rules_path_in: "rules_path env project n = in_work env (''linglong/output/'' @ n @ CHR ''/'' # pj_id project @ ''.install'')"
  by (simp_all add: module_files_def module_output_def in_work_def buildOutput_def rules_path_def)

lemma in_work_eq: "in_work env a = in_work env b \<longleftrightarrow> a = b" "in_work env a \<noteq> []"
  by (auto simp: in_work_def)

lemma module_files_apart:
  assumes "plain_module n" and "plain_module m" and "n \<noteq> m"
  shows "apart (module_files env n) (module_files env m)"
proof -
  have "m @ CHR ''/'' # ''files'' \<noteq> n @ CHR ''/'' # a" "n @ CHR ''/'' # ''files'' \<noteq> m @ CHR ''/'' # a" for a
    using assms slash_cancel [of m "''files''" n a] slash_cancel [of n "''files''" m a] by (auto simp: plain_module_def)
  then show ?thesis using assms(3) unfolding apart_def module_files_in below_output in_work_eq by (simp add: in_work_eq)
qed

lemma source_apart:
  assumes "plain_module n"
  shows "apart (buildOutput env) (module_files env n)"
proof -
  have "n @ CHR ''/'' # ''files'' \<noteq> ''_build'' @ CHR ''/'' # a" for a
    using assms slash_cancel [of n "''files''" "''_build''" a] by (auto simp: plain_module_def)
  moreover have "''_build'' \<noteq> n @ CHR ''/'' # a" for a
  proof
    assume "''_build'' = n @ CHR ''/'' # a"
    then have "CHR ''/'' \<in> set ''_build''" by (metis in_set_conv_decomp)
    then show False by simp
  qed
  ultimately show ?thesis unfolding apart_def module_files_in buildOutput_in below_output by (simp add: in_work_eq)
qed

lemma rules_outside:
  assumes "plain_module n" and "CHR ''/'' \<notin> set (pj_id project)"
  shows "\<not> below (buildOutput env) (rules_path env project n)"
    and "plain_module m \<Longrightarrow> \<not> below (module_files env m) (rules_path env project n)"
proof -
  let ?f = "pj_id project @ ''.install''"
  have "n @ CHR ''/'' # ?f \<noteq> ''_build'' @ CHR ''/'' # a" for a
    using assms slash_cancel [of n ?f "''_build''" a] by (auto simp: plain_module_def)
  then show "\<not> below (buildOutput env) (rules_path env project n)" unfolding buildOutput_in rules_path_in below_output by blast
  have "?f \<noteq> ''files'' @ CHR ''/'' # a" for a
  proof
    assume "?f = ''files'' @ CHR ''/'' # a"
    then have "CHR ''/'' \<in> set ?f" by (metis in_set_conv_decomp)
    then show False using assms(2) by simp
  qed
  then have "n @ CHR ''/'' # ?f \<noteq> (m @ CHR ''/'' # ''files'') @ CHR ''/'' # a" if "plain_module m" for a
    using assms that slash_cancel [of n ?f m "''files'' @ CHR ''/'' # a"] by (auto simp: plain_module_def)
  then show "\<not> below (module_files env m) (rules_path env project n)" if "plain_module m"
    using that unfolding module_files_in rules_path_in below_output by blast
qed

section \<open>The steps of the installation\<close>

definition module_step_of :: "build_env \<Rightarrow> build_project \<Rightarrow> string \<Rightarrow> string list \<Rightarrow> module_step" where
  "module_step_of env project n rules =
     (rules, module_files env n, rules_path env project n, EFile (length (join_lines rules)))"

lemma install_one_step:
  "install_one env trace project n rules fs = Some (Inr u, fs') \<Longrightarrow>
     fs' = install_all (be_rx env) (buildOutput env) [module_step_of env project n rules] fs"
  by (auto simp: install_one_def save_rules_def install_all_def module_step_of_def module_files_def)

lemma install_all_append: "install_all rx src (ms @ ns) fs = install_all rx src ns (install_all rx src ms fs)"
  by (simp add: install_all_def)

lemma install_project_modules_steps:
  "install_project_modules env trace project ms fs = Some (Inr u, fs') \<Longrightarrow>
     fs' = install_all (be_rx env) (buildOutput env) (map (\<lambda>m. module_step_of env project (fst m) (removeDuplicates (snd m))) ms) fs"
proof (induction ms arbitrary: fs)
  case (Cons m ms)
  then obtain fs1 where "install_one env trace project (fst m) (removeDuplicates (snd m)) fs = Some (Inr (), fs1)"
      "install_project_modules env trace project ms fs1 = Some (Inr u, fs')" by auto
  from Cons.IH [OF this(2)] install_one_step [OF this(1)] show ?case by (simp add: install_all_def)
qed (simp add: install_all_def)

definition project_steps :: "build_env \<Rightarrow> build_options \<Rightarrow> build_project \<Rightarrow> module_step list" where
  "project_steps env bo project =
     map (\<lambda>m. module_step_of env project (fst m) (removeDuplicates (snd m))) (projectModules bo project)"

lemma install_files_steps:
  assumes "install_files env bo trace project fs = Some (Inr u, fs')" and "\<not> bo_fullDevelop bo"
    and "be_text env (in_work env (pj_id project @ ''.install'')) = None"
  shows "fs' = install_all (be_rx env) (buildOutput env) (project_steps env bo project @
    [module_step_of env project ''binary'' (all_rules (buildOutput env)
       (install_all (be_rx env) (buildOutput env) (project_steps env bo project) (be_confgen env fs)))]) (be_confgen env fs)"
proof -
  obtain fs1 where "install_project_modules env trace project (projectModules bo project) (be_confgen env fs) = Some (Inr (), fs1)"
      "install_one env trace project ''binary'' (all_rules (buildOutput env) fs1) fs1 = Some (Inr u, fs')"
    using assms by (auto simp: install_files_def binary_rules_def Let_def)
  from install_one_step [OF this(2)] install_project_modules_steps [OF this(1)] show ?thesis
    by (simp add: project_steps_def install_all_append)
qed

section \<open>The module of a file\<close>

definition module_of :: "build_env \<Rightarrow> build_options \<Rightarrow> build_project \<Rightarrow> string \<Rightarrow> string" where
  "module_of env bo project p =
     (case find (\<lambda>m. list_ex (\<lambda>r. selects (be_rx env) (buildOutput env) r p) (snd m)) (projectModules bo project) of
        Some m \<Rightarrow> fst m
      | None \<Rightarrow> ''binary'')"

text \<open>A path below \<open>src\<close> that is its own rule: no spaces that are simplified, no parts that are cleaned away.\<close>

definition plain_path :: "string \<Rightarrow> string \<Rightarrow> bool" where
  "plain_path src q \<longleftrightarrow> movable src q \<and> simplified (drop (length src) q) = drop (length src) q \<and>
     clean_path (src @ ''/'' @ drop (length src) q) = q \<and> \<not> ends_with (drop (length src) q) ''/''"

definition plain_source :: "string \<Rightarrow> string \<Rightarrow> build_files \<Rightarrow> bool" where
  "plain_source src p fs \<longleftrightarrow> (\<forall>q. below src q \<and> lookup_file fs q \<noteq> None \<longrightarrow> plain_path src q \<and> \<not> below p q)"

lemma plain_source_sane: "plain_source src p fs \<Longrightarrow> sane_source src p fs"
  by (auto simp: plain_source_def sane_source_def plain_path_def)

text \<open>Modules whose names are different and plain, with rules that stay in the build directory.\<close>

definition plain_project :: "build_env \<Rightarrow> build_options \<Rightarrow> build_project \<Rightarrow> bool" where
  "plain_project env bo project \<longleftrightarrow> distinct (''binary'' # map fst (projectModules bo project)) \<and>
     list_all plain_module (map fst (projectModules bo project)) \<and> CHR ''/'' \<notin> set (pj_id project) \<and>
     (\<forall>m \<in> set (projectModules bo project). \<forall>r \<in> set (snd m). rule_inside (buildOutput env) r)"

lemma own_rule:
  assumes "below src q" and "plain_path src q"
  shows "selects rx src (drop (length src) q) q" and "rule_inside src (drop (length src) q)"
proof -
  obtain r where r: "drop (length src) q = CHR ''/'' # r" using assms(1) by (auto simp: below_def)
  show "selects rx src (drop (length src) q) q" "rule_inside src (drop (length src) q)"
    using assms(2) r by (auto simp: plain_path_def selects_def rule_inside_def Let_def)
qed

lemma all_rules_in: "below src q \<Longrightarrow> lookup_file fs q = Some e \<Longrightarrow> drop (length src) q \<in> set (all_rules src fs)"
  by (force simp: all_rules_def below_iff image_iff entries_iff)

lemma all_rules_inside:
  assumes "plain_source src p fs" and "r \<in> set (all_rules src fs)"
  shows "rule_inside src r"
  using assms own_rule(2) by (auto simp: all_rules_def below_iff entries_iff plain_source_def)

lemma plain_modules_sane:
  assumes "distinct (map fst ms)" and "list_all plain_module (map fst ms)" and "CHR ''/'' \<notin> set (pj_id project)"
    and "\<forall>m \<in> set ms. \<forall>r \<in> set (snd m). rule_inside (buildOutput env) r"
  shows "sane_modules (buildOutput env) (map (\<lambda>m. module_step_of env project (fst m) (snd m)) ms)"
proof -
  have dirs: "module_dirs (map (\<lambda>m. module_step_of env project (fst m) (snd m)) ms) = map (\<lambda>m. module_files env (fst m)) ms" for ms
    by (induction ms) (simp_all add: module_step_of_def)
  have "sorted_wrt apart (map (\<lambda>m. module_files env (fst m)) ms)"
    using assms(1,2) module_files_apart by (induction ms) (force simp: list_all_iff)+
  then show ?thesis unfolding sane_modules_def dirs
    using assms(2-4) source_apart rules_outside by (auto simp: list_all_iff module_step_of_def)
qed

lemma set_removeDuplicates [simp]: "set (removeDuplicates xs) = set xs"
  by (simp add: removeDuplicates_def)

text \<open>All the steps of the installation as one list: those of the project and the one for \<open>binary\<close>.\<close>

definition all_modules :: "build_env \<Rightarrow> build_options \<Rightarrow> build_project \<Rightarrow> build_files \<Rightarrow> (string \<times> string list) list" where
  "all_modules env bo project fs =
     map (\<lambda>m. (fst m, removeDuplicates (snd m))) (projectModules bo project) @
       [(''binary'', all_rules (buildOutput env) (install_all (be_rx env) (buildOutput env) (project_steps env bo project) fs))]"

lemma find_app: "find P (xs @ ys) = (case find P xs of None \<Rightarrow> find P ys | Some x \<Rightarrow> Some x)"
  by (induction xs) simp_all

lemma find_steps:
  "find (module_wants rx src p) (map (\<lambda>m. module_step_of env project (fst m) (snd m)) ms) =
     map_option (\<lambda>m. module_step_of env project (fst m) (snd m)) (find (\<lambda>m. list_ex (\<lambda>r. selects rx src r p) (snd m)) ms)"
  by (induction ms) (simp_all add: module_wants_def module_step_of_def)

lemma find_map_dups:
  "find (\<lambda>m. list_ex P (snd m)) (map (\<lambda>m. (fst m, removeDuplicates (snd m))) ms) =
     map_option (\<lambda>m. (fst m, removeDuplicates (snd m))) (find (\<lambda>m. list_ex P (snd m)) ms)"
  by (induction ms) (simp_all add: list_ex_iff)

lemma module_dirs_steps:
  "set (module_dirs (map (\<lambda>m. module_step_of env project (fst m) (snd m)) ms)) = module_files env ` fst ` set ms"
  by (force simp: module_dirs_def module_step_of_def)

lemma module_files_eq: "module_files env n = module_files env m \<longleftrightarrow> n = m"
  by (simp add: module_files_def module_output_def in_work_def)

lemma all_modules_sane:
  assumes "plain_project env bo project" and "plain_source (buildOutput env) p fs" and "movable (buildOutput env) p"
  shows "sane_modules (buildOutput env) (project_steps env bo project)"
    and "sane_modules (buildOutput env) (map (\<lambda>m. module_step_of env project (fst m) (snd m)) (all_modules env bo project fs))"
proof -
  let ?src = "buildOutput env" and ?ms = "map (\<lambda>m. (fst m, removeDuplicates (snd m))) (projectModules bo project)"
  note plain = assms(1) [unfolded plain_project_def]
  have "project_steps env bo project = map (\<lambda>m. module_step_of env project (fst m) (snd m)) ?ms"
    by (simp add: project_steps_def)
  moreover have "sane_modules ?src (map (\<lambda>m. module_step_of env project (fst m) (snd m)) ?ms)"
    by (rule plain_modules_sane) (use plain in \<open>simp_all add: comp_def\<close>)
  ultimately show sane: "sane_modules ?src (project_steps env bo project)" by simp
  let ?fs1 = "install_all (be_rx env) ?src (project_steps env bo project) fs"
  have "plain_source ?src p ?fs1"
    using install_all_source [OF sane assms(3) plain_source_sane [OF assms(2)]] assms(2)
    unfolding plain_source_def by (metis (no_types, lifting))
  then have "\<forall>r \<in> set (all_rules ?src ?fs1). rule_inside ?src r" using all_rules_inside by blast
  then show "sane_modules ?src (map (\<lambda>m. module_step_of env project (fst m) (snd m)) (all_modules env bo project fs))"
    by (intro plain_modules_sane) (use plain in \<open>auto simp: all_modules_def comp_def plain_module_def\<close>)
qed

lemma find_all_modules:
  assumes "plain_project env bo project" and "plain_source (buildOutput env) p fs" and "movable (buildOutput env) p"
    and "lookup_file fs p = Some e" and "\<not> is_dir_entry e"
    and "\<forall>n \<in> set (''binary'' # map fst (projectModules bo project)). lookup_file fs (target (buildOutput env) (module_files env n) p) = None"
  shows "\<exists>rules. find (module_wants (be_rx env) (buildOutput env) p)
      (map (\<lambda>m. module_step_of env project (fst m) (snd m)) (all_modules env bo project fs)) =
    Some (module_step_of env project (module_of env bo project p) rules)"
proof (cases "find (\<lambda>m. list_ex (\<lambda>r. selects (be_rx env) (buildOutput env) r p) (snd m)) (projectModules bo project)")
  case (Some m)
  then show ?thesis by (simp add: find_steps all_modules_def find_map_dups find_app module_of_def del: map_append) blast
next
  case None
  let ?src = "buildOutput env" and ?fs1 = "install_all (be_rx env) (buildOutput env) (project_steps env bo project) fs"
  note sane = all_modules_sane(1) [OF assms(1-3)]
  have steps: "project_steps env bo project =
      map (\<lambda>m. module_step_of env project (fst m) (snd m)) (map (\<lambda>m. (fst m, removeDuplicates (snd m))) (projectModules bo project))"
    by (simp add: project_steps_def)
  have "find (module_wants (be_rx env) ?src p) (project_steps env bo project) = None"
    unfolding steps find_steps find_map_dups None by simp
  moreover have "\<forall>d \<in> set (module_dirs (project_steps env bo project)). lookup_file fs (target ?src d p) = None"
    using assms(6) unfolding steps module_dirs_steps by auto
  ultimately have "lookup_file ?fs1 p = Some e"
    using files_in_one_module [OF sane assms(3,5) plain_source_sane [OF assms(2)] assms(4), of "be_rx env"] by simp
  moreover have below: "below ?src p" using assms(3) by (simp add: movable_def)
  ultimately have "drop (length ?src) p \<in> set (all_rules ?src ?fs1)" using all_rules_in by blast
  moreover have "plain_path ?src p" using assms(2,4) below by (auto simp: plain_source_def)
  ultimately have "list_ex (\<lambda>r. selects (be_rx env) ?src r p) (all_rules ?src ?fs1)"
    using own_rule(1) [OF below, of "be_rx env"] by (auto simp: list_ex_iff)
  then show ?thesis using None by (simp add: find_steps all_modules_def find_map_dups find_app module_of_def del: map_append) blast
qed

section \<open>Properties\<close>

text \<open>
  C31: When the files of a build have been installed, every file of the build directory that is not a directory is in exactly
  one module: the first module of the project with a rule that selects it, and \<open>binary\<close> if there is none; there it has
  the same place below \<open>files\<close>, and it is gone from the build directory. This is for a project without \<open>$appid.install\<close> and without the
  full \<open>develop\<close> module, with different and plain module names, rules that stay in the build directory, paths
  that are not changed when they are read as rules, and modules that have no such file yet.
\<close>

theorem build_files_in_one_module:
  assumes "install_files env bo trace project fs = Some (Inr (), fs')" and "\<not> bo_fullDevelop bo"
    and "be_text env (in_work env (pj_id project @ ''.install'')) = None" and "plain_project env bo project"
    and "plain_source (buildOutput env) p (be_confgen env fs)" and "movable (buildOutput env) p"
    and "lookup_file (be_confgen env fs) p = Some e" and "\<not> is_dir_entry e"
    and "\<forall>n \<in> set (commit_names bo project). lookup_file (be_confgen env fs) (target (buildOutput env) (module_files env n) p) = None"
  shows "lookup_file fs' p = None \<and>
    lookup_file fs' (target (buildOutput env) (module_files env (module_of env bo project p)) p) = Some e \<and>
    (\<forall>n \<in> set (commit_names bo project). n \<noteq> module_of env bo project p \<longrightarrow>
       lookup_file fs' (target (buildOutput env) (module_files env n) p) = None)"
proof -
  let ?src = "buildOutput env" and ?fs = "be_confgen env fs"
  let ?steps = "map (\<lambda>m. module_step_of env project (fst m) (snd m)) (all_modules env bo project ?fs)"
  have names: "set (commit_names bo project) = set (''binary'' # map fst (projectModules bo project))"
    using assms(2) by (simp add: commit_names_def)
  have fs': "fs' = install_all (be_rx env) ?src ?steps ?fs"
    using install_files_steps [OF assms(1-3)] by (simp add: all_modules_def project_steps_def comp_def)
  have dirs: "set (module_dirs ?steps) = module_files env ` set (commit_names bo project)"
    unfolding module_dirs_steps names by (simp add: all_modules_def image_Un image_image)
  obtain rules where found: "find (module_wants (be_rx env) ?src p) ?steps = Some (module_step_of env project (module_of env bo project p) rules)"
    using find_all_modules [OF assms(4-8) assms(9) [unfolded names]] by blast
  have "\<forall>d \<in> set (module_dirs ?steps). lookup_file ?fs (target ?src d p) = None" using assms(9) unfolding dirs by auto
  from files_in_one_module [OF all_modules_sane(2) [OF assms(4-6)] assms(6,8) plain_source_sane [OF assms(5)] assms(7) this, of "be_rx env"]
  show ?thesis unfolding fs' [symmetric] dirs found by (simp add: module_step_of_def module_files_eq)
qed

definition demo_files_env :: build_env where
  "demo_files_env =
     \<lparr>be_arch = Inr X86_64, be_workingDir = ''/w'', be_url = True,
      be_fetch = \<lparr>ft_mkpath = True, ft_installed = (\<lambda>_. True), ft_libexec = ''/l'', ft_tmp = ''/tmp'', ft_fileName = file_name,
                  ft_sh = (\<lambda>_. Inr [])\<rparr>,
      be_fetchCache = [], be_helper = ''/helper'', be_helperExists = True, be_now = ''7'', be_debug = True, be_sha256hex = (\<lambda>x. x),
      be_oci = demo_oci_env, be_absPath = (\<lambda>p. p), be_run = demo_run_env, be_script = (\<lambda>_ fs. fs), be_confgen = (\<lambda>fs. fs),
      be_rx = (\<lambda>_ p. strstr p ''.h''),
      be_copy = \<lparr>cpy_real = (\<lambda>p. p), cpy_mkpath = (\<lambda>_. True), cpy_copy = (\<lambda>_. None), cpy_readlink = (\<lambda>_. True), cpy_link = (\<lambda>_. True)\<rparr>,
      be_depth = 0, be_fault = (\<lambda>_ _. None), be_mkpath = (\<lambda>_. True), be_text = (\<lambda>_. None), be_dump = (\<lambda>_. 100)\<rparr>"

definition demo_files_project :: build_project where
  "demo_files_project =
     \<lparr>pj_base = ''base/20.0.0'', pj_build = ''make'', pj_command = Some [''run''], pj_exclude = None, pj_include = None,
      pj_modules = Some [(''develop'', [''^/.+''])], pj_arch = None, pj_description = [], pj_id = ''demo'', pj_kind = ''app'', pj_name = ''demo'',
      pj_version = ''1.0.0.0'', pj_permissions = None, pj_runtime = None, pj_sources = None\<rparr>"

definition demo_files_options :: build_options where
  "demo_files_options = \<lparr>bo_fullDevelop = False, bo_skipFetchSource = False, bo_skipPullDepend = True, bo_skipRunContainer = False,
     bo_skipCommitOutput = False, bo_skipCheckOutput = False, bo_skipStripSymbols = False\<rparr>"

definition demo_built_files :: build_files where
  "demo_built_files = [(''/w/linglong/output/_build/a.h'', EFile 5), (''/w/linglong/output/_build/run'', EFile 7), (''/w/linglong/output/_build'', EDir)]"

lemma demo_files_installed:
  "\<exists>fs. install_files demo_files_env demo_files_options [] demo_files_project demo_built_files = Some (Inr (), fs)"
proof -
  have ok: "\<exists>fs'. install_one demo_files_env [] demo_files_project n rules fs = Some (Inr (), fs')" for n rules fs
    by (simp add: install_one_def save_rules_def) (simp add: demo_files_env_def)
  have "\<exists>fs'. install_project_modules demo_files_env [] demo_files_project ms fs = Some (Inr (), fs')" for ms fs
    using ok by (induction ms arbitrary: fs) (simp, simp, blast)
  moreover have "binary_rules demo_files_env [] demo_files_project fs = Some (Inr (all_rules (buildOutput demo_files_env) fs), fs)" for fs
    by (simp add: binary_rules_def Let_def give_def) (simp add: demo_files_env_def)
  ultimately show ?thesis using ok
    by (simp add: install_files_def demo_files_options_def) blast
qed

theorem build_files_in_one_module_witness:
  "\<exists>fs. install_files demo_files_env demo_files_options [] demo_files_project demo_built_files = Some (Inr (), fs) \<and>
     lookup_file fs ''/w/linglong/output/develop/files/a.h'' = Some (EFile 5) \<and>
     lookup_file fs ''/w/linglong/output/binary/files/a.h'' = None \<and> lookup_file fs ''/w/linglong/output/_build/a.h'' = None"
proof -
  let ?src = "''/w/linglong/output/_build''" and ?p = "''/w/linglong/output/_build/a.h''"
  obtain fs where run: "install_files demo_files_env demo_files_options [] demo_files_project demo_built_files = Some (Inr (), fs)"
    using demo_files_installed by blast
  have src: "buildOutput demo_files_env = ?src" by code_simp
  have opts: "\<not> bo_fullDevelop demo_files_options" "be_text demo_files_env x = None" "be_confgen demo_files_env y = y" for x y
    by (simp_all add: demo_files_options_def demo_files_env_def)
  have mods: "projectModules demo_files_options demo_files_project = [(''develop'', [''^/.+''])]"
    and names: "commit_names demo_files_options demo_files_project = [''binary'', ''develop'']"
    and found: "module_of demo_files_env demo_files_options demo_files_project ?p = ''develop''" by code_simp+
  have "rule_inside ?src ''^/.+''" by code_simp
  then have plain: "plain_project demo_files_env demo_files_options demo_files_project"
    by (simp add: plain_project_def mods src plain_module_def) (simp add: demo_files_project_def)
  have paths: "simplified ''/a.h'' = ''/a.h''" "simplified ''/run'' = ''/run''" "clean_path (?src @ ''/'' @ ''/a.h'') = ?p"
      "clean_path (?src @ ''/'' @ ''/run'') = ?src @ ''/run''" "\<not> ends_with ''/a.h'' ''/''" "\<not> ends_with ''/run'' ''/''"
      "\<not> strstr ''/a.h'' ?src" "\<not> strstr ''/run'' ?src" by code_simp+
  have "plain_source ?src ?p demo_built_files"
    using paths by (auto simp: plain_source_def plain_path_def movable_def below_def demo_built_files_def lookup_file_def split: if_splits)
  moreover have "movable ?src ?p" using paths by (simp add: movable_def below_def)
  moreover have "lookup_file demo_built_files ?p = Some (EFile 5)" by (simp add: demo_built_files_def lookup_file_def)
  moreover have "lookup_file demo_built_files (target ?src (module_files demo_files_env n) ?p) = None" if "n \<in> {''binary'', ''develop''}" for n
    using that by (auto simp: demo_built_files_def lookup_file_def target_def module_files_def module_output_def in_work_def demo_files_env_def)
  ultimately show ?thesis
    using build_files_in_one_module [OF run opts(1) opts(2) plain, of ?p "EFile 5"] run
    by (simp add: opts src names found is_dir_entry_def target_def module_files_def module_output_def in_work_def)
      (simp add: demo_files_env_def)
qed

end
