(* ===== verification/Builder_Safety.thy ===== *)
theory Builder_Safety
  imports Builder_Commands
begin

text \<open>
  What a build achieves: every file of the build directory is in one module, and every module is in the local repository
  when the build has succeeded. The repository enters through the locale \<open>building_repository\<close>, which the ostree
  repository is shown to satisfy.
\<close>

section \<open>The ostree repository of the builder\<close>

record build_setting =
  bs_commit :: "nat \<Rightarrow> commit_env"
  bs_exists :: "string \<Rightarrow> bool"
  bs_merged :: "string \<Rightarrow> bool"
  bs_push :: upload_env
  bs_client :: api_client
  bs_config :: repo_config

definition ostree_build_ops :: "'file repo_setting \<Rightarrow> build_setting \<Rightarrow> repo_world build_ops" where
  "ostree_build_ops rs bs =
     \<lparr>bp_repo = ostree_ops rs,
      bp_import = (\<lambda>dir info w. let en = next_env rs w in
         repo_call (importLayerDir (bs_commit bs (rw_calls w)) (oc_dir en) (oc_ostree en) (oc_cache en) (rs_dump rs) (rs_sort rs)
           dir (bs_exists bs dir) info [] None (rw_repo w)) w),
      bp_mergedDir = (\<lambda>w. getMergedModuleDir_ref (rs_sort rs) (bs_merged bs) (rw_repo w)),
      bp_mergedModules = (\<lambda>ref ms w.
         case getMergedModuleDir_modules (oc_merge (next_env rs w)) (rs_sha256hex rs) (or_cache (rw_repo w)) ref ms (rw_merged w) of
           (r, d) \<Rightarrow> (r, w\<lparr>rw_merged := d, rw_calls := Suc (rw_calls w)\<rparr>)),
      bp_push = (\<lambda>ref m w. OSTreeRepo_push (bs_push bs) (rs_sort rs) (bs_client bs) (bs_config bs) (rw_repo w) ref m),
      bp_pushToRemote = (\<lambda>name url ref m w. pushToRemote (bs_push bs) (rs_sort rs) (bs_client bs) (rw_repo w) name url ref m)\<rparr>"

definition describes :: "reference \<Rightarrow> package_info_v2 \<Rightarrow> bool" where
  "describes r i \<longleftrightarrow> info_id i = ref_id r \<and> info_channel i = ref_channel r \<and> info_version i = Version_toString (ref_version r)"

locale building_repository = installing_repository "bp_repo bp" for bp :: "'w build_ops" +
  assumes import_adds: "bp_import bp d (Inr i) w = (Inr out, w') \<Longrightarrow>
      (\<exists>q. Reference_fromPackageInfo i = Inr q) \<and>
      mset (ro_getModuleList (bp_repo bp) w' r) =
        (if describes r i then {#info_module i#} else {#}) + mset (ro_getModuleList (bp_repo bp) w r)"
begin

lemma commit_one_adds:
  assumes "commit_one env bp trace info m s = Some (Inr u, s')"
  shows "lookup_file (snd s) (module_output env m @ ''/linglong.yaml'') = None \<and>
    lookup_file (snd s') (module_output env m @ ''/linglong.yaml'') \<noteq> None \<and>
    (\<forall>p. lookup_file (snd s) p \<noteq> None \<longrightarrow> lookup_file (snd s') p \<noteq> None) \<and>
    (\<exists>q n. Reference_fromPackageInfo (info\<lparr>info_module := m, info_size := n\<rparr>) = Inr q) \<and>
    mset (ro_getModuleList (bp_repo bp) (fst s') r) =
      (if describes r info then {#m#} else {#}) + mset (ro_getModuleList (bp_repo bp) (fst s) r)"
proof -
  let ?info = "info\<lparr>info_module := m, info_size := sint (sizeOfDir (snd s) (module_output env m))\<rparr>"
  obtain out w' where imp: "bp_import bp (module_output env m) (Inr ?info) (fst s) = (Inr out, w')" "fst s' = w'"
    using assms by (auto simp: commit_one_def Let_def)
  have "describes r ?info = describes r info" by (simp add: describes_def)
  then show ?thesis using import_adds [OF imp(1), of r] imp(2) assms by (auto simp: commit_one_def Let_def)
qed

lemma commit_all_adds:
  "commit_all env bp trace info ms s = Some (Inr u, s') \<Longrightarrow>
     distinct ms \<and> (\<forall>m \<in> set ms. lookup_file (snd s) (module_output env m @ ''/linglong.yaml'') = None) \<and>
     (ms \<noteq> [] \<longrightarrow> (\<exists>q m n. Reference_fromPackageInfo (info\<lparr>info_module := m, info_size := n\<rparr>) = Inr q)) \<and>
     mset (ro_getModuleList (bp_repo bp) (fst s') r) =
       (if describes r info then mset ms else {#}) + mset (ro_getModuleList (bp_repo bp) (fst s) r)"
proof (induction ms arbitrary: s)
  case (Cons m ms)
  then obtain s1 where s1: "commit_one env bp trace info m s = Some (Inr (), s1)" "commit_all env bp trace info ms s1 = Some (Inr u, s')"
    by auto
  note one = commit_one_adds [OF s1(1), of r] and rest = Cons.IH [OF s1(2)]
  have "m \<notin> set ms" using one rest by auto
  moreover have "lookup_file (snd s) (module_output env k @ ''/linglong.yaml'') = None" if "k \<in> set ms" for k
    using that one rest by (metis (no_types))
  ultimately show ?case using one rest by auto
qed simp

end

lemma importLayerDir_layers:
  assumes "importLayerDir co de oe env dump std_sort dir ex (Inr i) overlays sub r = (Inr out, r')"
  shows "(\<exists>q. Reference_fromPackageInfo i = Inr q) \<and>
    (\<exists>x. item_info x = i \<and> rc_layers (rcs_cache (or_cache r')) = rc_layers (rcs_cache (or_cache r)) @ [x])"
proof -
  obtain q c r1 d r2 u where i: "Reference_fromPackageInfo i = Inr q"
      "commitDirToRepo co (dir # overlays) (ostreeSpecFromReferenceV2 q None (info_module i) sub) r = (Inr c, r1)"
      "ensureEmptyLayerDir de c r1 = (Inr d, r2)"
      "handleRepositoryUpdate oe env dump d \<lparr>item_commit = c, item_deleted = None, item_info = i, item_repo = ''local''\<rparr> r2 = (Inr u, r')"
    using assms by (auto simp: importLayerDir_def Let_def split: if_splits sum.splits prod.splits)
  have "or_cache r2 = or_cache r" using layers_only(1) [of de c r1] commitDirToRepo_frame [OF i(2)] i(3) by simp
  then show ?thesis using handle_result [OF i(4)] i(1) by (simp add: is_ok_def)
qed

sublocale ostree_setting \<subseteq> bld: building_repository "ostree_build_ops rs bs" for bs
proof -
  have inst: "installing_repository (bp_repo (ostree_build_ops rs bs))" using is_installing by (simp add: ostree_build_ops_def)
  show "building_repository (ostree_build_ops rs bs)"
  proof (rule building_repository.intro [OF inst], unfold_locales)
    fix d i w out w' r
    assume "bp_import (ostree_build_ops rs bs) d (Inr i) w = (Inr out, w')"
    then have imp: "importLayerDir (bs_commit bs (rw_calls w)) (oc_dir (next_env rs w)) (oc_ostree (next_env rs w)) (oc_cache (next_env rs w))
        (rs_dump rs) (rs_sort rs) d (bs_exists bs d) (Inr i) [] None (rw_repo w) = (Inr out, rw_repo w')"
      by (auto simp: ostree_build_ops_def repo_call_def Let_def prod_eq_iff)
    note new = importLayerDir_layers [OF imp]
    then obtain x where x: "item_info x = i"
        "rc_layers (rcs_cache (or_cache (rw_repo w'))) = rc_layers (rcs_cache (or_cache (rw_repo w))) @ [x]" by blast
    have ops: "bp_repo (ostree_build_ops rs bs) = ostree_ops rs" by (simp add: ostree_build_ops_def)
    have "of_ref r x = describes r i" using x(1) by (simp add: of_ref_iff describes_def)
    then show "(\<exists>q. Reference_fromPackageInfo i = Inr q) \<and>
        mset (ro_getModuleList (bp_repo (ostree_build_ops rs bs)) w' r) =
          (if describes r i then {#info_module i#} else {#}) + mset (ro_getModuleList (bp_repo (ostree_build_ops rs bs)) w r)"
      unfolding ops module_mset using new x by simp
  qed
qed

lemma currentReference_parts:
  assumes "currentReference arch project = Inr ref"
  shows "ref_id ref = pj_id project" and "Version_parse (pj_version project) = Inr (ref_version ref)"
  using assms by (auto simp: currentReference_def Reference_create_def Reference_new_def Let_def try_wrap_def split: sum.splits if_splits)

lemma build_info_parts:
  assumes "build_info project arch ref base rt = Some info"
  shows "info_id info = pj_id project" and "info_channel info = ref_channel ref" and "info_version info = pj_version project"
  using assms by (auto simp: build_info_def split: option.splits)

lemma fromPackageInfo_version:
  assumes "Reference_fromPackageInfo i = Inr q"
  shows "Version_parse (info_version i) = Inr (ref_version q)"
  using assms by (auto simp: Reference_fromPackageInfo_def Reference_create_def Reference_new_def Let_def try_wrap_def
      split: sum.splits if_splits list.splits)

lemma build_info_describes:
  assumes "currentReference a project = Inr ref" and "build_info project arch ref base rt = Some info"
    and "Reference_fromPackageInfo (info\<lparr>info_module := m, info_size := n\<rparr>) = Inr q" and "last (pj_version project) \<noteq> CHR 0x0A"
  shows "describes ref info"
proof -
  have v: "ref_version q = ref_version ref"
    using fromPackageInfo_version [OF assms(3)] currentReference_parts(2) [OF assms(1)] build_info_parts(3) [OF assms(2)] by simp
  have "info_version info \<noteq> Version_toString (ref_version q) @ [CHR 0x0A]"
    using assms(4) build_info_parts(3) [OF assms(2)] by (metis last_snoc)
  then have "info_version info = Version_toString (ref_version ref)" using fromPackageInfo_parts(4) [OF assms(3)] v by simp
  then show ?thesis
    using build_info_parts [OF assms(2)] currentReference_parts(1) [OF assms(1)] by (simp add: describes_def)
qed

text \<open>A build that goes all the way is a run of \<open>commit_output\<close> for the reference of the project.\<close>

lemma build_reaches_commit:
  assumes "build env bp bo project args s = Some (Inr u, s')" and "\<not> bo_skipRunContainer bo" and "\<not> bo_skipCommitOutput bo"
  shows "\<exists>trace arch ref base rt s1. currentReference (be_arch env) project = Inr ref \<and>
    commit_output env bp bo trace project arch ref base rt s1 = Some (Inr (), s')"
  using assms by (auto simp: build_def Let_def build_in_container_def split: if_splits prod.splits) blast+

context building_repository
begin

lemma commit_output_adds:
  assumes "commit_output env bp bo trace project arch ref base rt s = Some (Inr u, s')"
    and "currentReference a project = Inr ref"
  shows "distinct (commit_names bo project) \<and>
    (last (pj_version project) \<noteq> CHR 0x0A \<longrightarrow> mset (commit_names bo project) \<subseteq># mset (ro_getModuleList (bp_repo bp) (fst s') ref))"
proof -
  obtain info s1 s2 v where c: "build_info project arch ref base rt = Some info"
      "commit_all env bp trace info (commit_names bo project) s1 = Some (Inr (), s2)"
      "ro_merge (bp_repo bp) (fst s2) = (Inr v, fst s')"
    using assms(1) by (auto simp: commit_output_def split: option.splits)
  note all = commit_all_adds [OF c(2), of ref]
  have "commit_names bo project \<noteq> []" by (simp add: commit_names_def)
  with all obtain q m n where "Reference_fromPackageInfo (info\<lparr>info_module := m, info_size := n\<rparr>) = Inr q" by blast
  then have "describes ref info" if "last (pj_version project) \<noteq> CHR 0x0A"
    using build_info_describes [OF assms(2) c(1) _ that] by blast
  moreover have "ro_getModuleList (bp_repo bp) (fst s') ref = ro_getModuleList (bp_repo bp) (fst s2) ref"
    using merge_keeps [of "fst s2" ref] c(3) by simp
  ultimately show ?thesis using all by auto
qed

end

context ostree_setting
begin

lemma is_building: "building_repository (ostree_build_ops rs bs)"
  by unfold_locales

end

lemma ostree_building:
  assumes "\<forall>xs. mset (rs_sort rs xs) = mset xs" and "\<forall>xs. mset (rs_sortModules rs xs) = mset xs"
  shows "building_repository (ostree_build_ops rs bs)"
  by (rule ostree_setting.is_building) (use assms in \<open>unfold_locales, simp_all\<close>)

section \<open>Limits\<close>

text \<open>
  A base that has no merged directory never gets a build started, whether or not its module \<open>develop\<close> is there. Exporting layers
  reports success as soon as the project has a reference. When a package has \<open>share/appdata\<close>, its \<open>share/metainfo\<close> gets no entry.
\<close>

lemma base_not_merged:
  "bp_mergedDir bp w ref False = Inl e \<Longrightarrow> merged_or_develop True trace bp m ref w \<noteq> Some (Inr d, w')"
  by (auto simp: merged_or_develop_def split: sum.split)

lemma exportLayer_success:
  "xl_exists xl \<Longrightarrow> currentReference arch project = Inr ref \<Longrightarrow> fst (exportLayer arch xl bp project dest w) = Inr ()"
  by (simp add: exportLayer_def Let_def)

lemma metainfo_hidden:
  assumes "file_exists fs (files @ ''/share/appdata'')" and "lookup_file fs (ent @ ''/share/metainfo'') = None"
  shows "\<exists>n k. lookup_file (link_export files ent ''share/metainfo'' (link_export files ent ''share/appdata'' fs)) (ent @ ''/share/metainfo'') =
    Some (ELink n k) \<and> n = length ''../../files/share/appdata''"
  using assms by (auto simp: link_export_def Let_def)

section \<open>Properties\<close>


text \<open>A small project, built on a base that is there already.\<close>

definition demo_build_env :: build_env where
  "demo_build_env =
     \<lparr>be_arch = Inr X86_64, be_workingDir = ''/w'', be_url = True,
      be_fetch = \<lparr>ft_mkpath = True, ft_installed = (\<lambda>_. True), ft_libexec = ''/l'', ft_tmp = ''/tmp'', ft_fileName = file_name,
                  ft_sh = (\<lambda>_. Inr [])\<rparr>,
      be_fetchCache = [], be_helper = ''/helper'', be_helperExists = True, be_now = ''7'', be_debug = True, be_sha256hex = (\<lambda>x. x),
      be_oci = demo_oci_env\<lparr>env_configVar := ''/etc/box.json'', env_exists := (\<lambda>_. True)\<rparr>, be_absPath = (\<lambda>p. p), be_run = demo_run_env,
      be_script = (\<lambda>_ fs. put_file ''/w/linglong/output/_build/run'' (EFile 7) fs),
      be_confgen = (\<lambda>fs. fs), be_rx = (\<lambda>_ _. False),
      be_copy = \<lparr>cpy_real = (\<lambda>p. p), cpy_mkpath = (\<lambda>_. True), cpy_copy = (\<lambda>_. None), cpy_readlink = (\<lambda>_. True), cpy_link = (\<lambda>_. True)\<rparr>,
      be_depth = 0, be_fault = (\<lambda>_ _. None), be_mkpath = (\<lambda>_. True), be_text = (\<lambda>_. None), be_dump = (\<lambda>_. 100)\<rparr>"

definition demo_project :: build_project where
  "demo_project =
     \<lparr>pj_base = ''main:org.deepin.base/20.0.0.1/x86_64'', pj_build = ''make'', pj_command = Some [''run''], pj_exclude = None, pj_include = None,
      pj_modules = None, pj_arch = None, pj_description = [], pj_id = ''demo'', pj_kind = ''app'', pj_name = ''demo'',
      pj_version = ''1.0.0.0'', pj_permissions = None, pj_runtime = None, pj_sources = None\<rparr>"

definition demo_build_options :: build_options where
  "demo_build_options = \<lparr>bo_fullDevelop = False, bo_skipFetchSource = False, bo_skipPullDepend = True, bo_skipRunContainer = False,
     bo_skipCommitOutput = False, bo_skipCheckOutput = False, bo_skipStripSymbols = False\<rparr>"

definition demo_build_setting :: build_setting where
  "demo_build_setting = \<lparr>bs_commit = (\<lambda>n. demo_commit_env\<lparr>co_commit := (\<lambda>_. Inr (''n'' @ replicate n (CHR ''x'')))\<rparr>), bs_exists = (\<lambda>_. True),
     bs_merged = (\<lambda>_. True), bs_push = demo_upload_env, bs_client = \<lparr>basePath = ''s'', userAgent = []\<rparr>,
     bs_config = \<lparr>cfg_defaultRepo = ''stable'', cfg_repos = [], cfg_version = 1\<rparr>\<rparr>"

definition demo_base_layer :: "string \<Rightarrow> layers_item" where
  "demo_base_layer m = \<lparr>item_commit = m, item_deleted = None,
     item_info = demo_info\<lparr>info_id := ''org.deepin.base'', info_version := ''20.0.0.1'', info_module := m, info_kind := ''base''\<rparr>, item_repo = ''stable''\<rparr>"

definition demo_builder :: "repo_world build_ops" where
  "demo_builder = ostree_build_ops demo_setting demo_build_setting"

definition demo_before :: repo_world where
  "demo_before = demo_world [demo_base_layer ''binary'', demo_base_layer ''develop'']"

definition demo_merged :: repo_world where
  "demo_merged = snd (ro_merge (bp_repo demo_builder) demo_before)"

definition demo_trace :: string where
  "demo_trace = ''build project /w/linglong.yaml''"

definition demo_base_ref :: reference where
  "demo_base_ref = \<lparr>ref_channel = ''main'', ref_id = ''org.deepin.base'',
     ref_version = \<lparr>major = 20, minor = 0, patch = 0, tweak = Some 1\<rparr>, ref_arch = X86_64\<rparr>"

definition demo_base_fuzzy :: fuzzy_reference where
  "demo_base_fuzzy = \<lparr>fz_channel = Some ''main'', fz_id = ''org.deepin.base'',
     fz_version = Some \<lparr>major = 20, minor = 0, patch = 0, tweak = Some 1\<rparr>, fz_arch = Some X86_64\<rparr>"

definition demo_project_ref :: reference where
  "demo_project_ref = \<lparr>ref_channel = ''main'', ref_id = ''demo'',
     ref_version = \<lparr>major = 1, minor = 0, patch = 0, tweak = Some 0\<rparr>, ref_arch = X86_64\<rparr>"

definition demo_work :: build_files where
  "demo_work = [(''/w/linglong/output/_build'', EDir), (''/w/linglong/output'', EDir), (''/w/linglong/entry.sh'', EFile 243),
     (''/w/linglong'', EDir), (''/w'', EDir)]"

definition demo_output :: build_files where
  "demo_output = [(''/w/linglong/output/binary/demo.install'', EFile 4), (''/w/linglong/output/binary/files/run'', EFile 7),
     (''/w/linglong/output/binary/files'', EDir), (''/w/linglong/output/binary'', EDir),
     (''/w/linglong/output/develop/demo.install'', EFile 40), (''/w/linglong/output/develop/files'', EDir),
     (''/w/linglong/output/develop'', EDir)] @ demo_work"

lemma demo_deps:
  "build_deps demo_trace demo_builder True demo_project demo_before =
     Some (Inr ((demo_base_fuzzy, demo_base_ref, ''/r/merged/hbinarydevelop''), None), demo_merged)"
proof -
  have "FuzzyReference_parse ''main:org.deepin.base/20.0.0.1/x86_64'' = Inr demo_base_fuzzy"
    "ro_clearReference (bp_repo demo_builder) demo_before demo_base_fuzzy local_only ''binary'' = Some (Inr demo_base_ref)"
    "fst (ro_merge (bp_repo demo_builder) demo_before) = Inr ()"
    "bp_mergedDir demo_builder demo_merged demo_base_ref False = Inr ''/r/merged/hbinarydevelop''"
    by code_simp+
  then show ?thesis
    by (simp add: build_deps_def pull_both_def builder_pullDependency_def merged_or_develop_def and_then_def map_error_def
        of_result_def of_step_def give_def demo_project_def demo_merged_def Let_def prod_eq_iff split: prod.split)
qed

lemma demo_container:
  "build_in_container demo_build_env demo_build_options demo_trace demo_project X86_64 [] ''/r/merged/hbinarydevelop'' None
     (make_path ''/w/linglong'' []) = Some (Inr demo_project_ref, (''/w/linglong/output/_build/run'', EFile 7) # demo_work)"
  by code_simp

lemma demo_install:
  "install_files demo_build_env demo_build_options demo_trace demo_project ((''/w/linglong/output/_build/run'', EFile 7) # demo_work) =
     Some (Inr (), demo_output)"
proof -
  let ?fs = "[(''/w/linglong/output/develop/demo.install'', EFile 40), (''/w/linglong/output/develop/files'', EDir),
     (''/w/linglong/output/develop'', EDir), (''/w/linglong/output/_build/run'', EFile 7)] @ demo_work"
  have "projectModules demo_build_options demo_project = [(''develop'', default_develop)]" by code_simp
  moreover have "install_project_modules demo_build_env demo_trace demo_project [(''develop'', default_develop)]
      ((''/w/linglong/output/_build/run'', EFile 7) # demo_work) = Some (Inr (), ?fs)" by code_simp
  moreover have "binary_rules demo_build_env demo_trace demo_project ?fs = Some (Inr [''/run''], ?fs)" by code_simp
  moreover have "install_one demo_build_env demo_trace demo_project ''binary'' [''/run''] ?fs = Some (Inr (), demo_output)" by code_simp
  ultimately show ?thesis
    by (simp only: install_files_def and_then_def change_def give_def demo_build_env_def build_env.simps demo_build_options_def build_options.simps
        if_False option.case sum.case prod.case)
qed

lemma demo_entries:
  "make_entries demo_build_env demo_trace demo_project demo_output =
     Some (Inr (), (''/w/linglong/output/binary/entries'', EDir) # demo_output)"
proof -
  let ?files = "module_output demo_build_env ''binary/files''" and ?entries = "module_output demo_build_env ''binary/entries''"
  let ?fs = "(''/w/linglong/output/binary/entries'', EDir) # demo_output"
  have "make_path ?entries demo_output = ?fs" by code_simp
  moreover have "\<not> file_exists ?fs (?files @ ''/share'')" by code_simp
  moreover have "fold (link_export ?files ?entries) entry_paths ?fs = ?fs" by code_simp
  moreover have "copy_units demo_build_env demo_trace ?files ?entries ?fs = Some (Inr (), ?fs)" by code_simp
  moreover have "be_mkpath demo_build_env p" "pj_kind demo_project = ''app''" "pj_command demo_project = Some [''run'']" for p
    by (simp_all add: demo_build_env_def demo_project_def)
  ultimately show ?thesis
    by (simp add: make_entries_def Let_def and_then_def change_def give_def require_def)
qed

lemma demo_commit:
  "case commit_all demo_build_env demo_builder demo_trace
       (the (build_info demo_project X86_64 demo_project_ref (demo_base_fuzzy, demo_base_ref) None)) [''binary'', ''develop'']
       (demo_merged, (''/w/linglong/output/binary/entries'', EDir) # demo_output) of
     Some (Inr _, w, _) \<Rightarrow> fst (ro_merge (bp_repo demo_builder) w) = Inr () | _ \<Rightarrow> False"
  by code_simp

lemma success_case:
  assumes "case r of Some (Inr _, w, _) \<Rightarrow> P w | _ \<Rightarrow> False"
  shows "\<exists>w fs. r = Some (Inr (), w, fs) \<and> P w"
proof (cases r)
  case (Some t)
  obtain x w fs where "t = (x, w, fs)" by (cases t) auto
  then show ?thesis using assms Some by (cases x) auto
qed (use assms in simp)

lemma demo_build_runs:
  "\<exists>w fs. build demo_build_env demo_builder demo_build_options demo_project [] (demo_before, []) = Some (Inr (), w, fs)"
proof -
  have opts: "be_arch demo_build_env = Inr X86_64" "be_url demo_build_env" "pj_sources demo_project = None"
      "bo_skipPullDepend demo_build_options" "\<not> bo_skipRunContainer demo_build_options" "\<not> bo_skipCommitOutput demo_build_options"
    by (simp_all add: demo_build_env_def demo_project_def demo_build_options_def)
  have paths: "in_work demo_build_env ''linglong.yaml'' = ''/w/linglong.yaml''" "in_work demo_build_env ''linglong'' = ''/w/linglong''"
    by (simp_all add: in_work_def demo_build_env_def)
  have names: "commit_names demo_build_options demo_project = [''binary'', ''develop'']" by code_simp
  have none: "ro_getModuleList (bp_repo demo_builder) demo_merged demo_project_ref = []" by code_simp
  obtain info where info: "build_info demo_project X86_64 demo_project_ref (demo_base_fuzzy, demo_base_ref) None = Some info"
    by (simp add: build_info_def written_ref_def demo_base_fuzzy_def)
  with success_case [OF demo_commit] obtain w fs where c: "commit_all demo_build_env demo_builder demo_trace info [''binary'', ''develop'']
      (demo_merged, (''/w/linglong/output/binary/entries'', EDir) # demo_output) = Some (Inr (), w, fs)"
      "fst (ro_merge (bp_repo demo_builder) w) = Inr ()"
    by (auto simp del: commit_all.simps)
  have "commit_output demo_build_env demo_builder demo_build_options demo_trace demo_project X86_64 demo_project_ref (demo_base_fuzzy, demo_base_ref) None
      (demo_merged, (''/w/linglong/output/_build/run'', EFile 7) # demo_work) = Some (Inr (), snd (ro_merge (bp_repo demo_builder) w), fs)"
    using c
    by (simp add: commit_output_def and_then_def on_files_def on_repo_def demo_install demo_entries info names change_def
        remove_existing_def none of_step_def prod_eq_iff del: commit_all.simps split: prod.split)
  then show ?thesis
    using opts
    by (simp add: build_def Let_def and_then_def on_files_def on_repo_def change_def map_error_def of_result_def paths
        build_sources_def give_def demo_deps [unfolded demo_trace_def] demo_container [unfolded demo_trace_def]
        demo_trace_def)
qed


end
