(* ===== verification/Uab_Header.thy ===== *)
theory Uab_Header
  imports Uab_Packager Sha256
begin

text \<open>
  The program at the front of a bundle, \<open>apps/uab/header/src/main.cpp\<close>: it imports the bundle with \<open>ll-cli\<close> if there is one, and otherwise
  mounts the image in its own file and starts the loader in it. The file, its ELF view, child processes and the file system
  are parameters; \<open>None\<close> is a process that is ended by an exception or a null pointer. Child processes return a status as
  \<open>WEXITSTATUS\<close> shows it, which is 0 also for a process that was ended by a signal. Output is left out, and so
  is what the child that serves the image does once \<open>erofsfuse_main\<close> has returned in it.
\<close>

section \<open>Environment\<close>

datatype child = NoFork | NoWait | Status nat

text \<open>An answer of \<open>read\<close>: interrupted, an error, or at most so many bytes (and at least one, unless the file has ended).\<close>

datatype read_answer = Interrupted | ReadError | UpTo nat

datatype mkdirs_answer = Created | Present | DirError int

datatype exists_answer = IsThere | IsMissing | ExistsError

datatype uab_opt = OptHelp | OptExtract string | OptMeta | OptUnknown

record header_env =
  he_PATH :: "string option"
  he_executable :: "string \<Rightarrow> bool"
  he_pipe :: bool
  he_list :: "string \<Rightarrow> child"
  he_listOutput :: "string option"
  he_packages :: "string \<Rightarrow> package_info_v2 list option"
  he_install :: "string list \<Rightarrow> child"
  he_openMeta :: bool
  he_openBundle :: bool
  he_content :: bytes
  he_procLink :: bool
  he_elf :: "elf_view option"
  he_metaRead :: read_answer
  he_dup :: bool
  he_reads :: "nat \<Rightarrow> read_answer"
  he_fuse :: "string list \<Rightarrow> child"
  he_umount :: "string \<Rightarrow> child"
  he_removed :: "string \<Rightarrow> bool"
  he_exists :: "string \<Rightarrow> exists_answer"
  he_runtimeDir :: "string option"
  he_realpath :: "string \<Rightarrow> string option"
  he_mkdirs :: "string \<Rightarrow> mkdirs_answer"
  he_extract :: "string \<Rightarrow> mkdirs_answer"
  he_copy :: "string \<Rightarrow> string \<Rightarrow> int"
  he_getopt :: "string list \<Rightarrow> uab_opt list"
  he_loader :: "string list \<Rightarrow> child"
  he_execCli :: "string list \<Rightarrow> bool"
  he_errno :: int

text \<open>The two flags and the path of the program, and the calls for which they stand.\<close>

record header_state =
  hs_mountFlag :: bool
  hs_createFlag :: bool
  hs_mountPoint :: string

definition header_start :: header_state where
  "header_start = \<lparr>hs_mountFlag = False, hs_createFlag = False, hs_mountPoint = []\<rparr>"

section \<open>Importing\<close>

definition resolveRealPath :: "header_env \<Rightarrow> string \<Rightarrow> string" where
  "resolveRealPath env source = (case he_realpath env source of None \<Rightarrow> [] | Some p \<Rightarrow> p)"

text \<open>What comes after the last colon is not looked at.\<close>

definition detectLinglong :: "header_env \<Rightarrow> string" where
  "detectLinglong env =
     (case he_PATH env of
        None \<Rightarrow> []
      | Some path \<Rightarrow>
         (case find (he_executable env) (map (\<lambda>d. d @ ''/ll-cli'') (butlast (split_on (CHR '':'') path))) of
            None \<Rightarrow> []
          | Some p \<Rightarrow> p))"

fun package_ref :: "package_info_v2 \<Rightarrow> string option" where
  "package_ref i = (case info_arch i of [] \<Rightarrow> None
     | a # _ \<Rightarrow> Some (info_channel i @ '':'' @ info_id i @ ''/'' @ info_version i @ ''/'' @ a))"

fun already_installed :: "string \<Rightarrow> package_info_v2 list \<Rightarrow> bool option" where
  "already_installed appRef [] = Some False"
| "already_installed appRef (i # is) =
     (case package_ref i of None \<Rightarrow> None | Some r \<Rightarrow> if r = appRef then Some True else already_installed appRef is)"

definition importSelf :: "header_env \<Rightarrow> string \<Rightarrow> string \<Rightarrow> string \<Rightarrow> int option" where
  "importSelf env cliBin appRef uab =
     (if \<not> he_pipe env then Some (-1)
      else case he_list env cliBin of
        NoFork \<Rightarrow> Some (-1)
      | c \<Rightarrow>
         (case he_listOutput env of None \<Rightarrow> Some (-1) | Some content \<Rightarrow>
          if c \<noteq> Status 0 then Some (-1)
          else case he_packages env content of None \<Rightarrow> Some (-1) | Some packages \<Rightarrow>
          case already_installed appRef packages of
            None \<Rightarrow> None
          | Some True \<Rightarrow> Some 0
          | Some False \<Rightarrow> Some (if he_install env [cliBin, ''install'', uab] = Status 0 then 0 else -1)))"

section \<open>Sections and the digest\<close>

text \<open>A section whose name is a null pointer ends the process.\<close>

fun find_section :: "string \<Rightarrow> gelf_shdr option list \<Rightarrow> gelf_shdr option option" where
  "find_section name [] = Some None"
| "find_section name (None # scns) = Some None"
| "find_section name (Some sh # scns) =
     (case sh_name sh of None \<Rightarrow> None | Some s \<Rightarrow> if s = name then Some (Some sh) else find_section name scns)"

definition header_section :: "header_env \<Rightarrow> string \<Rightarrow> gelf_shdr option option" where
  "header_section env name =
     (if \<not> he_procLink env then Some None
      else case he_elf env of
        None \<Rightarrow> Some None
      | Some e \<Rightarrow> if \<not> elf_shstrndx_ok e then Some None else find_section name (elf_sections e))"

definition hex_digit :: "nat \<Rightarrow> char" where
  "hex_digit n = ''0123456789abcdef'' ! n"

definition hex_text :: "bytes \<Rightarrow> string" where
  "hex_text bs = concat (map (\<lambda>b. [hex_digit (unat b div 16), hex_digit (unat b mod 16)]) bs)"

text \<open>
  The loop of \<open>calculateDigest\<close>: \<open>k\<close> counts the calls of \<open>read\<close>. When the file ends before the section does, the digest is that of an array
  of zeros.
\<close>

partial_function (option) digest_loop ::
    "(nat \<Rightarrow> read_answer) \<Rightarrow> bytes \<Rightarrow> nat \<Rightarrow> nat \<Rightarrow> nat \<Rightarrow> u64 \<Rightarrow> sha256 \<Rightarrow> string option" where
  "digest_loop reads content k pos expectedRead bundleLength s =
     (case reads k of
        Interrupted \<Rightarrow> digest_loop reads content (Suc k) pos expectedRead bundleLength s
      | ReadError \<Rightarrow> Some []
      | UpTo n \<Rightarrow>
         (let buf = read_at content pos (min expectedRead (max 1 n)) in
          if buf = [] then Some (hex_text (replicate 32 0))
          else let s' = update s buf; left = bundleLength - word_of_nat (length buf) in
            if left = 0 then Some (hex_text (final s'))
            else digest_loop reads content (Suc k) (pos + length buf) (min 4096 (unat left)) left s'))"

declare digest_loop.simps [code]

definition calculateDigest :: "header_env \<Rightarrow> u64 \<Rightarrow> u64 \<Rightarrow> string option" where
  "calculateDigest env bundleOffset bundleLength =
     (if \<not> he_dup env \<or> 2 ^ 63 \<le> unat bundleOffset then Some []
      else digest_loop (he_reads env) (he_content env) 0 (unat bundleOffset) 4096 bundleLength SHA256_init)"

section \<open>Mounting\<close>

text \<open>
  \<open>mountSelfBundle\<close>: a file that cannot be opened is reported as success (\<open>return {}\<close>).
\<close>

definition fuse_args :: "string \<Rightarrow> u64 \<Rightarrow> string \<Rightarrow> string list" where
  "fuse_args selfBin offset mountPoint = [''erofsfuse'', ''--offset='' @ show_nat (unat offset), selfBin, mountPoint]"

definition mountSelfBundle :: "header_env \<Rightarrow> string \<Rightarrow> uab_meta \<Rightarrow> header_state \<Rightarrow> int option" where
  "mountSelfBundle env selfBin meta st =
     (if \<not> he_openBundle env then Some 0
      else case header_section env (sections_bundle (meta_sections meta)) of
        None \<Rightarrow> None
      | Some None \<Rightarrow> Some (-1)
      | Some (Some bundleSh) \<Rightarrow>
         (case calculateDigest env (sh_offset bundleSh) (sh_size bundleSh) of
            None \<Rightarrow> None
          | Some digest \<Rightarrow>
             (if digest \<noteq> meta_digest meta then Some (-1)
              else Some (if he_fuse env (fuse_args selfBin (sh_offset bundleSh) (hs_mountPoint st)) = Status 0 then 0 else -1))))"

text \<open>
  \<open>create_directories\<close> returns false without an error when the directory is there already; the function then returns 0
  before it has set the path.
\<close>

definition createMountPoint :: "header_env \<Rightarrow> string \<Rightarrow> header_state \<Rightarrow> int \<times> header_state" where
  "createMountPoint env uuid st =
     (if hs_createFlag st then (0, st)
      else let runtimeDir = (case he_runtimeDir env of None \<Rightarrow> ''/tmp'' | Some d \<Rightarrow> d);
               p = path_div (path_div (resolveRealPath env runtimeDir) ''linglong/UAB'') uuid;
               st' = st\<lparr>hs_mountPoint := p, hs_createFlag := True\<rparr> in
        case he_mkdirs env p of
          Created \<Rightarrow> (0, st')
        | Present \<Rightarrow> (0, st)
        | DirError e \<Rightarrow> if e \<noteq> 17 then (e, st) else (0, st'))"

definition mountSelf :: "header_env \<Rightarrow> string \<Rightarrow> uab_meta \<Rightarrow> header_state \<Rightarrow> (int \<times> header_state) option" where
  "mountSelf env selfBin meta st =
     (if hs_mountFlag st then Some (0, st)
      else case createMountPoint env (meta_uuid meta) st of (ret, st1) \<Rightarrow>
        if ret \<noteq> 0 then Some (ret, st1)
        else case mountSelfBundle env selfBin meta st1 of
          None \<Rightarrow> None
        | Some r \<Rightarrow> if r \<noteq> 0 then Some (-1, st1) else Some (0, st1\<lparr>hs_mountFlag := True\<rparr>))"

text \<open>
  \<open>cleanResource\<close>: the exit status of \<open>umount\<close> is not looked at. \<open>he_removed\<close>: \<open>remove_all\<close> removed something and had no error.
\<close>

definition unmount :: "header_env \<Rightarrow> header_state \<Rightarrow> bool \<times> header_state" where
  "unmount env st =
     (if \<not> hs_mountFlag st then (True, st)
      else case he_umount env (hs_mountPoint st) of
        NoFork \<Rightarrow> (False, st)
      | NoWait \<Rightarrow> (False, st)
      | Status _ \<Rightarrow> (True, st\<lparr>hs_mountFlag := False\<rparr>))"

definition cleanResource :: "header_env \<Rightarrow> header_state \<Rightarrow> header_state" where
  "cleanResource env st =
     (case unmount env st of (ok, st1) \<Rightarrow>
        if \<not> ok \<or> \<not> hs_createFlag st1 then st1
        else case he_exists env (hs_mountPoint st1) of
          ExistsError \<Rightarrow> st1
        | IsMissing \<Rightarrow> st1\<lparr>hs_createFlag := False\<rparr>
        | IsThere \<Rightarrow> if he_removed env (hs_mountPoint st1) then st1\<lparr>hs_createFlag := False\<rparr> else st1)"

section \<open>Main\<close>

text \<open>
  \<open>getMetaInfo\<close>. One call of \<open>read\<close>; what it does not fill stays zero. A text that is no JSON leaves a null value, and its conversion ends
  the process like any failing conversion.
\<close>

definition header_meta ::
    "(bytes \<Rightarrow> 'json option) \<Rightarrow> ('json \<Rightarrow> uab_meta option) \<Rightarrow> header_env \<Rightarrow> uab_meta option option" where
  "header_meta parse get env =
     (if \<not> he_openMeta env then Some None
      else case header_section env ''linglong.meta'' of
        None \<Rightarrow> None
      | Some None \<Rightarrow> Some None
      | Some (Some sh) \<Rightarrow>
         (if 2 ^ 63 \<le> unat (sh_offset sh) then Some None
          else case he_metaRead env of
            UpTo n \<Rightarrow>
             (let raw = read_at (he_content env) (unat (sh_offset sh)) (min (unat (sh_size sh)) (max 1 n));
                  text = raw @ replicate (unat (sh_size sh) - length raw) 0 in
              case parse text of None \<Rightarrow> None | Some j \<Rightarrow> map_option Some (get j))
          | _ \<Rightarrow> Some None))"

definition extractBundle :: "header_env \<Rightarrow> string \<Rightarrow> header_state \<Rightarrow> int" where
  "extractBundle env dest st =
     (case he_extract env dest of
        DirError e \<Rightarrow> if e \<noteq> 0 then e else he_copy env (hs_mountPoint st) dest
      | _ \<Rightarrow> he_copy env (hs_mountPoint st) dest)"

record arg_option =
  ao_help :: bool
  ao_printMeta :: bool
  ao_extractPath :: string
  ao_loaderArgs :: "string list"

definition add_option :: "uab_opt \<Rightarrow> arg_option \<times> nat \<Rightarrow> arg_option \<times> nat" where
  "add_option opt s =
     (case opt of
        OptHelp \<Rightarrow> ((fst s)\<lparr>ao_help := True\<rparr>, Suc (snd s))
      | OptMeta \<Rightarrow> ((fst s)\<lparr>ao_printMeta := True\<rparr>, Suc (snd s))
      | OptExtract p \<Rightarrow> ((fst s)\<lparr>ao_extractPath := p\<rparr>, Suc (snd s))
      | OptUnknown \<Rightarrow> s)"

definition parseArgs :: "header_env \<Rightarrow> string list \<Rightarrow> arg_option option" where
  "parseArgs env args =
     (let uabArgs = takeWhile (\<lambda>a. a \<noteq> ''--'') args; loaderArgs = drop 1 (dropWhile (\<lambda>a. a \<noteq> ''--'') args);
          start = \<lparr>ao_help = False, ao_printMeta = False, ao_extractPath = [], ao_loaderArgs = loaderArgs\<rparr>;
          (opts, counter) = fold add_option (he_getopt env uabArgs) (start, 0) in
      if counter > 1 then None else Some opts)"

text \<open>How the program ends: its exit code (or the program it has become), what it ran, and its flags at the end.\<close>

datatype started = Nothing | Loader "string list" | LlCli "string list"

record header_end =
  hx_exit :: int
  hx_started :: started
  hx_state :: header_state

definition header_exit :: "int \<Rightarrow> header_state \<Rightarrow> header_end" where
  "header_exit code st = \<lparr>hx_exit = code, hx_started = Nothing, hx_state = st\<rparr>"

definition cleanAndExit :: "header_env \<Rightarrow> int \<Rightarrow> header_state \<Rightarrow> header_end" where
  "cleanAndExit env code st = header_exit code (cleanResource env st)"

definition runAppLoader :: "header_env \<Rightarrow> string list \<Rightarrow> header_state \<Rightarrow> header_end" where
  "runAppLoader env loaderArgs st =
     (let argv = path_div (hs_mountPoint st) ''loader'' # loaderArgs in
      case he_loader env argv of
        NoFork \<Rightarrow> cleanAndExit env (he_errno env) st
      | NoWait \<Rightarrow> (cleanAndExit env (he_errno env) st)\<lparr>hx_started := Loader argv\<rparr>
      | Status n \<Rightarrow> (cleanAndExit env (int n) st)\<lparr>hx_started := Loader argv\<rparr>)"

text \<open>The loader arguments are not passed on to \<open>ll-cli run\<close>.\<close>

definition runAppLinglong :: "header_env \<Rightarrow> string \<Rightarrow> uab_layer \<Rightarrow> header_state \<Rightarrow> header_end" where
  "runAppLinglong env cliBin layer st =
     (let argv = [cliBin, ''run'', info_id (layer_info layer)] in
      if he_execCli env argv then \<lparr>hx_exit = 0, hx_started = LlCli argv, hx_state = st\<rparr> else cleanAndExit env (-1) st)"

definition header_run :: "header_env \<Rightarrow> string \<Rightarrow> arg_option \<Rightarrow> uab_meta \<Rightarrow> header_end option" where
  "header_run env selfBin opts meta =
     (case find (\<lambda>l. info_kind (layer_info l) = ''app'') (meta_layers meta) of
        None \<Rightarrow> Some (header_exit (-1) header_start)
      | Some appLayer \<Rightarrow>
         (case package_ref (layer_info appLayer) of None \<Rightarrow> None | Some appRef \<Rightarrow>
          let cliPath = detectLinglong env in
          if cliPath \<noteq> []
          then case importSelf env cliPath appRef selfBin of
                 None \<Rightarrow> None
               | Some r \<Rightarrow> Some (if r \<noteq> 0 then header_exit (-1) header_start else runAppLinglong env cliPath appLayer header_start)
          else case mountSelf env selfBin meta header_start of
                 None \<Rightarrow> None
               | Some (r, st) \<Rightarrow> Some (if r \<noteq> 0 then cleanAndExit env (-1) st else runAppLoader env (ao_loaderArgs opts) st)))"

definition header_main ::
    "(bytes \<Rightarrow> 'json option) \<Rightarrow> ('json \<Rightarrow> uab_meta option) \<Rightarrow> header_env \<Rightarrow> string list \<Rightarrow> header_end option" where
  "header_main parse get env args =
     (case args of [] \<Rightarrow> None | selfBin # _ \<Rightarrow>
      case parseArgs env args of None \<Rightarrow> Some (header_exit (-1) header_start) | Some opts \<Rightarrow>
      if ao_help opts then Some (header_exit 0 header_start)
      else case header_meta parse get env of
        None \<Rightarrow> None
      | Some None \<Rightarrow> Some (header_exit (-1) header_start)
      | Some (Some meta) \<Rightarrow>
         (if ao_printMeta opts then Some (header_exit 0 header_start)
          else if ao_extractPath opts \<noteq> []
          then case mountSelf env selfBin meta header_start of
                 None \<Rightarrow> None
               | Some (r, st) \<Rightarrow> Some (if r \<noteq> 0 then cleanAndExit env (-1) st
                   else cleanAndExit env (extractBundle env (ao_extractPath opts) st) st)
          else header_run env selfBin opts meta))"

section \<open>The digest\<close>

lemma digest_loop_interrupted:
  assumes "\<forall>i. k \<le> i \<and> i < j \<longrightarrow> reads i = Interrupted" and "k \<le> j"
  shows "digest_loop reads content k pos n len s = digest_loop reads content j pos n len s"
  using assms
proof (induction "j - k" arbitrary: k)
  case (Suc d)
  then have "reads k = Interrupted" "Suc k \<le> j" by auto
  moreover have "digest_loop reads content (Suc k) pos n len s = digest_loop reads content j pos n len s"
    using Suc by (intro Suc.hyps(1)) auto
  ultimately show ?case by (subst digest_loop.simps) simp
qed simp

definition fair_reads :: "(nat \<Rightarrow> read_answer) \<Rightarrow> bool" where
  "fair_reads reads \<longleftrightarrow> (\<forall>k. reads k \<noteq> ReadError \<and> (\<exists>j \<ge> k. reads j \<noteq> Interrupted))"

lemma next_read:
  assumes "fair_reads reads"
  obtains j n where "reads j = UpTo n"
    "\<And>content pos e len s. digest_loop reads content k pos e len s = digest_loop reads content j pos e len s"
proof -
  let ?j = "LEAST j. k \<le> j \<and> reads j \<noteq> Interrupted"
  obtain j0 where "k \<le> j0 \<and> reads j0 \<noteq> Interrupted" using assms by (auto simp: fair_reads_def)
  then have j: "k \<le> ?j \<and> reads ?j \<noteq> Interrupted" by (rule LeastI)
  moreover have "reads ?j \<noteq> ReadError" using assms by (simp add: fair_reads_def)
  ultimately obtain n where "reads ?j = UpTo n" by (cases "reads ?j") auto
  moreover have "\<forall>i. k \<le> i \<and> i < ?j \<longrightarrow> reads i = Interrupted" using not_less_Least by blast
  ultimately show thesis using digest_loop_interrupted j by (intro that) blast+
qed

lemma digest_loop_spec:
  assumes "fair_reads reads"
  shows "0 < unat left \<Longrightarrow> pos + unat left \<le> length content \<Longrightarrow> 0 < e \<Longrightarrow> e \<le> unat left \<or> pos + unat left = length content \<Longrightarrow>
    digest_loop reads content k pos e left (foldl update SHA256_init ds) =
      Some (hex_text (sha256_spec (concat ds @ read_at content pos (unat left))))"
proof (induction "unat left" arbitrary: left pos e k ds rule: less_induct)
  case less
  obtain j n where j: "reads j = UpTo n"
      "\<And>content pos e len s. digest_loop reads content k pos e len s = digest_loop reads content j pos e len s"
    using next_read [OF assms, of k] by blast
  let ?buf = "read_at content pos (min e (max 1 n))"
  have len: "length ?buf = min (min e (max 1 n)) (length content - pos)" by (simp add: read_at_def)
  then have b: "0 < length ?buf" "length ?buf \<le> unat left" using less.prems by (auto simp: min_le_iff_disj)
  let ?left = "left - word_of_nat (length ?buf)"
  have "word_of_nat (length ?buf) \<le> left" using b(2) by (simp add: word_le_nat_alt unat_of_nat)
  moreover have "unat left < 2 ^ 64" using unsigned_less [of left] by simp
  ultimately have ul: "unat ?left = unat left - length ?buf" using b(2) by (simp add: unat_sub unat_of_nat)
  have s: "update (foldl update SHA256_init ds) ?buf = foldl update SHA256_init (ds @ [?buf])" by simp
  have split: "read_at content pos (unat left) = ?buf @ read_at content (pos + length ?buf) (unat ?left)"
    using read_at_split [of content pos "length ?buf" "unat left - length ?buf"] read_at_length_self [of content pos] b(2) ul by simp
  show ?case
  proof (cases "?left = 0")
    case True
    then have "read_at content pos (unat left) = ?buf" using split ul by (simp add: read_at_def)
    then show ?thesis unfolding j(2) using True b j(1) sha.chunks_result [of "ds @ [?buf]"]
      by (subst digest_loop.simps) (simp add: Let_def s)
  next
    case False
    then have "0 < unat ?left" by (simp add: unat_gt_0)
    then have "digest_loop reads content (Suc j) (pos + length ?buf) (min 4096 (unat ?left)) ?left (foldl update SHA256_init (ds @ [?buf])) =
        Some (hex_text (sha256_spec (concat (ds @ [?buf]) @ read_at content (pos + length ?buf) (unat ?left))))"
      using less.prems b ul by (intro less.hyps) auto
    then show ?thesis unfolding j(2) using False b j(1)
      by (subst digest_loop.simps) (simp add: Let_def s split)
  qed
qed

lemma calculateDigest_section:
  assumes "he_dup env" and "fair_reads (he_reads env)" and "unat off + unat n \<le> length (he_content env)" and "length (he_content env) < 2 ^ 63"
    and "0 < unat n" and "4096 \<le> unat n \<or> unat off + unat n = length (he_content env)"
  shows "calculateDigest env off n = Some (hex_text (sha256_spec (read_at (he_content env) (unat off) (unat n))))"
proof -
  have "unat off < 2 ^ 63" using assms(3,4) by linarith
  then show ?thesis
    using digest_loop_spec [OF assms(2,5,3), of 4096 0 "[]"] assms(1,6) by (simp add: calculateDigest_def)
qed

section \<open>Sections\<close>

text \<open>The header and the library find the same section, as long as every section has a name.\<close>

lemma find_section_agrees:
  assumes "next_section m name scns = Inr sh" and "name \<noteq> []" and "\<forall>q. Some q \<in> set scns \<longrightarrow> sh_name q \<noteq> None"
  shows "find_section name scns = Some (Some sh)"
  using assms by (induction m name scns rule: next_section.induct) (auto simp: section_named_def split: if_splits option.splits)

definition named_sections :: "elf_view \<Rightarrow> bool" where
  "named_sections e \<longleftrightarrow> list_all (\<lambda>s. case s of None \<Rightarrow> True | Some sh \<Rightarrow> sh_name sh \<noteq> None) (elf_sections e)"

lemma header_section_agrees:
  assumes "he_procLink env" and "he_elf env = Some e" and "named_sections e" and "uab_elf f = e"
    and "getSectionHeader name f = Inr sh" and "name \<noteq> []"
  shows "header_section env name = Some (Some sh)"
proof -
  have "\<forall>q. Some q \<in> set (elf_sections e) \<longrightarrow> sh_name q \<noteq> None"
    using assms(3) by (auto simp: named_sections_def list_all_iff)
  then show ?thesis using assms find_section_agrees by (auto simp: header_section_def getSectionHeader_def Let_def split: if_splits)
qed

section \<open>Mounting\<close>

lemma mountSelf_ok:
  assumes "mountSelf env selfBin meta st = Some (0, st')" and "\<not> hs_mountFlag st"
  shows "\<exists>st1. createMountPoint env (meta_uuid meta) st = (0, st1) \<and> mountSelfBundle env selfBin meta st1 = Some 0 \<and>
    st' = st1\<lparr>hs_mountFlag := True\<rparr>"
  using assms by (auto simp: mountSelf_def split: prod.splits option.splits if_splits)

lemma mountSelfBundle_ok:
  assumes "mountSelfBundle env selfBin meta st = Some 0" and "he_openBundle env"
  shows "\<exists>sh. header_section env (sections_bundle (meta_sections meta)) = Some (Some sh) \<and>
    calculateDigest env (sh_offset sh) (sh_size sh) = Some (meta_digest meta) \<and>
    he_fuse env (fuse_args selfBin (sh_offset sh) (hs_mountPoint st)) = Status 0"
  using assms by (auto simp: mountSelfBundle_def split: option.splits if_splits)

text \<open>
  A bundle that cannot be opened counts as mounted. When the directory for the mount is there already (from another
  run of the same bundle), the path stays empty, and the image would have to be mounted at the empty path.
\<close>

lemma unopened_mounts: "\<not> he_openBundle env \<Longrightarrow> mountSelfBundle env selfBin meta st = Some 0"
  by (simp add: mountSelfBundle_def)

lemma second_run_refused:
  assumes "\<forall>p. he_mkdirs env p = Present" and "he_openBundle env" and "\<forall>off. he_fuse env (fuse_args selfBin off []) \<noteq> Status 0"
    and "mountSelf env selfBin meta header_start = Some (r, st)"
  shows "r = -1"
  using assms
  by (auto simp: mountSelf_def createMountPoint_def header_start_def mountSelfBundle_def Let_def
      split: option.splits if_splits prod.splits)

text \<open>Whatever happened before, the flags are cleared when \<open>umount\<close> could be run and the directory was removed.\<close>

lemma cleanResource_clears:
  assumes "\<exists>n. he_umount env (hs_mountPoint st) = Status n" and "he_exists env (hs_mountPoint st) \<noteq> ExistsError"
    and "he_exists env (hs_mountPoint st) = IsThere \<Longrightarrow> he_removed env (hs_mountPoint st)"
  shows "\<not> hs_mountFlag (cleanResource env st) \<and> \<not> hs_createFlag (cleanResource env st)"
  using assms by (cases "he_exists env (hs_mountPoint st)") (auto simp: cleanResource_def unmount_def)

lemma header_state_kept: "hs_mountFlag (cleanResource env st) \<Longrightarrow> hs_mountFlag st" "hs_createFlag (cleanResource env st) \<Longrightarrow> hs_createFlag st"
  by (auto simp: cleanResource_def unmount_def split: child.splits exists_answer.splits if_splits)

section \<open>Properties\<close>

text \<open>
  The digest that the header computes is the SHA-256 of exactly the bundle section, however the reads are split and interrupted,
  if no read fails and not all reads from some point on are interrupted, and the computation returns. The section has to be in the file and to have at least 4096 bytes or
  to end with the file (a shorter section in the middle is read past its end).
\<close>

theorem header_digest:
  assumes "he_dup env" and "fair_reads (he_reads env)" and "unat off + unat n \<le> length (he_content env)" and "length (he_content env) < 2 ^ 63"
    and "0 < unat n" and "4096 \<le> unat n \<or> unat off + unat n = length (he_content env)"
  shows "calculateDigest env off n = Some (hex_text (sha256_spec (read_at (he_content env) (unat off) (unat n))))"
  by (rule calculateDigest_section [OF assms])

text \<open>
  C37: The header starts the loader only with a mounted image whose digest is the one in the meta information of the file, if the file can be
  opened for the check; the loader is the one at the mount point.
\<close>

theorem header_starts_verified:
  assumes "header_main parse get env args = Some e" and "hx_started e = Loader argv" and "he_openBundle env"
  shows "\<exists>meta sh (st :: header_state). header_meta parse get env = Some (Some meta) \<and>
    header_section env (sections_bundle (meta_sections meta)) = Some (Some sh) \<and>
    calculateDigest env (sh_offset sh) (sh_size sh) = Some (meta_digest meta) \<and>
    he_fuse env (fuse_args (hd args) (sh_offset sh) (hs_mountPoint st)) = Status 0 \<and>
    hd argv = path_div (hs_mountPoint st) ''loader''"
proof -
  obtain meta opts where m: "header_meta parse get env = Some (Some meta)" "header_run env (hd args) opts meta = Some e"
    using assms(1,2)
    by (auto simp: header_main_def header_exit_def cleanAndExit_def split: list.splits option.splits if_splits prod.splits)
  then obtain st where st: "mountSelf env (hd args) meta header_start = Some (0, st)" "e = runAppLoader env (ao_loaderArgs opts) st"
    using assms(2)
    by (auto simp: header_run_def header_exit_def cleanAndExit_def runAppLinglong_def Let_def split: option.splits if_splits prod.splits)
  from st(1) obtain st1 where st1: "mountSelfBundle env (hd args) meta st1 = Some 0" "hs_mountPoint st = hs_mountPoint st1"
    using mountSelf_ok by (fastforce simp: header_start_def)
  have "hd argv = path_div (hs_mountPoint st1) ''loader''"
    using assms(2) st(2) st1(2) by (auto simp: runAppLoader_def Let_def cleanAndExit_def header_exit_def split: child.splits)
  then show ?thesis using mountSelfBundle_ok [OF st1(1) assms(3)] m(1) by blast
qed

text \<open>
  C38: A bundle that the packager has made is accepted by the header at its front: the check of the digest succeeds and
  the image is mounted at its offset. The laws of \<open>objcopy\<close> are those of the packager; the digest of the packager is SHA-256 in
  hexadecimal digits.
\<close>

theorem packed_bundle_mounts:
  assumes "objcopy_adds elf_of (pe_objcopy pe)"
    and "\<And>header n. pe_header pe = Some header \<Longrightarrow> n \<in> uab_section_names \<Longrightarrow> section_bytes elf_of header n = None"
    and "UABPackager_pack fv pe uabFilename up k = Some (Inr (up', k'))"
    and "pe_sha256hex pe = (\<lambda>b. hex_text (sha256_spec b))"
    and "\<And>img. pk_bundleFile k' = Some img \<Longrightarrow> 4096 \<le> length img"
    and "pk_export k' = Some (he_content env)" and "length (he_content env) < 2 ^ 63"
    and "he_elf env = Some (elf_of (he_content env))" and "named_sections (elf_of (he_content env))" and "he_procLink env"
    and "he_dup env" and "fair_reads (he_reads env)" and "he_openBundle env"
  shows "\<exists>off img. pk_bundleFile k' = Some img \<and> read_at (he_content env) (unat off) (length img) = img \<and>
    mountSelfBundle env selfBin (up_meta up') st =
    Some (if he_fuse env (fuse_args selfBin off (hs_mountPoint st)) = Status 0 then 0 else -1)"
proof -
  obtain header elf path k1 where s: "pe_header pe = Some header"
      "pack_sections fv pe path header up (k\<lparr>pk_app := Some header\<rparr>) = Some (Inr (elf, up', k1))"
      "pk_export k' = Some elf" "pk_bundleFile k' = pk_bundleFile k1"
    using assms(3) by (auto simp: UABPackager_pack_def Let_def split: if_splits option.splits sum.splits)
  have elf: "elf = he_content env" using s(3) assms(6) by simp
  obtain img where img: "pk_bundleFile k1 = Some img" "section_bytes elf_of elf ''linglong.bundle'' = Some img"
      "meta_digest (up_meta up') = pe_sha256hex pe img" "sections_bundle (meta_sections (up_meta up')) = ''linglong.bundle''"
    using pack_sections_adds [OF assms(1) s(2)] assms(2) s(1) by blast
  obtain sh where sh: "getSectionHeader ''linglong.bundle'' (opened_uab elf_of [] elf) = Inr sh"
      "img = read_at elf (unat (sh_offset sh)) (unat (sh_size sh))" "length img = unat (sh_size sh)"
      "unat (sh_offset sh) + unat (sh_size sh) \<le> length elf"
    by (rule section_bytes_Some [OF img(2)])
  have big: "4096 \<le> unat (sh_size sh)" using assms(5) [of img] img(1) s(4) sh(3) by simp
  have "header_section env ''linglong.bundle'' = Some (Some sh)"
    using header_section_agrees [OF assms(10,8,9) _ sh(1)] by (simp add: elf opened_uab_def)
  moreover have "calculateDigest env (sh_offset sh) (sh_size sh) = Some (meta_digest (up_meta up'))"
    using calculateDigest_section [OF assms(11,12), of "sh_offset sh" "sh_size sh"] sh(2,4) big assms(4,7) img(3) elf by simp
  ultimately show ?thesis using assms(13) img(1,4) s(4) sh(2,3) elf
    by (intro exI [of _ "sh_offset sh"] exI [of _ img]) (simp add: mountSelfBundle_def)
qed

section \<open>Witnesses\<close>

text \<open>A machine without \<open>ll-cli\<close> on which every call works; every other read is interrupted.\<close>

definition demo_header_env :: "bytes \<Rightarrow> elf_view \<Rightarrow> header_env" where
  "demo_header_env content e =
     \<lparr>he_PATH = Some ''/bin:/usr/bin'', he_executable = (\<lambda>_. False), he_pipe = True, he_list = (\<lambda>_. Status 0), he_listOutput = Some [],
      he_packages = (\<lambda>_. Some []), he_install = (\<lambda>_. Status 0), he_openMeta = True, he_openBundle = True, he_content = content,
      he_procLink = True, he_elf = Some e, he_metaRead = UpTo 4096, he_dup = True,
      he_reads = (\<lambda>k. if even k then Interrupted else UpTo 2), he_fuse = (\<lambda>_. Status 0), he_umount = (\<lambda>_. Status 0),
      he_removed = (\<lambda>_. True), he_exists = (\<lambda>_. IsThere), he_runtimeDir = Some ''/run/user/1000'', he_realpath = Some,
      he_mkdirs = (\<lambda>_. Created), he_extract = (\<lambda>_. Created), he_copy = (\<lambda>_ _. 0), he_getopt = (\<lambda>_. []), he_loader = (\<lambda>_. Status 3),
      he_execCli = (\<lambda>_. True), he_errno = 1\<rparr>"

lemma demo_fair: "fair_reads (he_reads (demo_header_env content e))"
  unfolding fair_reads_def
proof
  fix k
  have "he_reads (demo_header_env content e) (2 * k + 1) \<noteq> Interrupted" by (simp add: demo_header_env_def)
  then show "he_reads (demo_header_env content e) k \<noteq> ReadError \<and> (\<exists>j \<ge> k. he_reads (demo_header_env content e) j \<noteq> Interrupted)"
    by (intro conjI exI [of _ "2 * k + 1"]) (simp_all add: demo_header_env_def)
qed

theorem header_digest_witness:
  "calculateDigest (demo_header_env [0, 97, 98, 99] e) 1 3 = Some (hex_text (sha256_spec [97, 98, 99]))"
  using header_digest [OF _ demo_fair, of "[0, 97, 98, 99]" e 1 3] by (simp add: demo_header_env_def read_at_def)

definition demo_header_elf :: elf_view where
  "demo_header_elf = \<lparr>elf_shstrndx_ok = True, elf_sections =
     [Some \<lparr>sh_name = Some ''linglong.meta'', sh_offset = 0, sh_size = 1\<rparr>,
      Some \<lparr>sh_name = Some ''linglong.bundle'', sh_offset = 1, sh_size = 3\<rparr>], elf_msg = []\<rparr>"

definition demo_header_meta :: uab_meta where
  "demo_header_meta = \<lparr>meta_digest = hex_text (sha256_spec [97, 98, 99]),
     meta_layers = [\<lparr>layer_info = demo_info, layer_minified = False\<rparr>],
     meta_sections = \<lparr>sections_bundle = ''linglong.bundle'', sections_icon = None\<rparr>, meta_uuid = ''u'', meta_version = ''1''\<rparr>"

theorem header_starts_verified_witness:
  "\<exists>e. header_main (\<lambda>_. Some ()) (\<lambda>_. Some demo_header_meta) (demo_header_env [0, 97, 98, 99] demo_header_elf) [''./a.uab''] = Some e \<and>
     hx_exit e = 3 \<and> hx_started e = Loader [''/run/user/1000/linglong/UAB/u/loader''] \<and> hx_state e = header_start\<lparr>hs_mountPoint := ''/run/user/1000/linglong/UAB/u''\<rparr>"
proof -
  let ?env = "demo_header_env [0, 97, 98, 99] demo_header_elf"
  let ?st = "\<lparr>hs_mountFlag = True, hs_createFlag = True, hs_mountPoint = ''/run/user/1000/linglong/UAB/u''\<rparr>"
  have dig: "calculateDigest ?env 1 3 = Some (hex_text (sha256_spec [97, 98, 99]))"
    using calculateDigest_section [OF _ demo_fair, of "[0, 97, 98, 99]" demo_header_elf 1 3] by (simp add: demo_header_env_def read_at_def)
  have sec: "header_section ?env ''linglong.bundle'' = Some (Some \<lparr>sh_name = Some ''linglong.bundle'', sh_offset = 1, sh_size = 3\<rparr>)"
    by (simp add: header_section_def demo_header_env_def demo_header_elf_def)
  have "createMountPoint ?env ''u'' header_start = (0, ?st\<lparr>hs_mountFlag := False\<rparr>)"
    by (simp add: createMountPoint_def demo_header_env_def header_start_def path_div_def resolveRealPath_def)
  moreover have "mountSelfBundle ?env ''./a.uab'' demo_header_meta (?st\<lparr>hs_mountFlag := False\<rparr>) = Some 0"
    using dig sec by (simp add: mountSelfBundle_def demo_header_meta_def) (simp add: demo_header_env_def)
  ultimately have mount: "mountSelf ?env ''./a.uab'' demo_header_meta header_start = Some (0, ?st)"
    by (simp add: mountSelf_def) (simp add: demo_header_meta_def header_start_def)
  have opts: "parseArgs ?env [''./a.uab''] = Some \<lparr>ao_help = False, ao_printMeta = False, ao_extractPath = [], ao_loaderArgs = []\<rparr>"
    by (simp add: parseArgs_def demo_header_env_def)
  have meta: "header_meta (\<lambda>_. Some ()) (\<lambda>_. Some demo_header_meta) ?env = Some (Some demo_header_meta)"
    by (simp add: header_meta_def header_section_def demo_header_env_def demo_header_elf_def)
  have cli: "detectLinglong ?env = []" by code_simp
  obtain e where e: "header_main (\<lambda>_. Some ()) (\<lambda>_. Some demo_header_meta) ?env [''./a.uab''] = Some e"
      "e = runAppLoader ?env [] ?st"
    using mount opts meta cli by (simp add: header_main_def header_run_def) (simp add: demo_header_meta_def demo_info_def)
  moreover have run: "hx_started e = Loader [''/run/user/1000/linglong/UAB/u/loader'']" "hx_exit e = 3"
      "hx_state e = header_start\<lparr>hs_mountPoint := ''/run/user/1000/linglong/UAB/u''\<rparr>"
    using e(2) by (simp_all add: runAppLoader_def demo_header_env_def path_div_def cleanAndExit_def header_exit_def cleanResource_def unmount_def header_start_def)
  moreover have "he_openBundle ?env" by (simp add: demo_header_env_def)
  note header_starts_verified [OF e(1) run(1) this]
  ultimately show ?thesis by blast
qed

theorem packed_bundle_mounts_witness:
  "\<exists>up' k' elf. UABPackager_pack demo_files (demo_pack_env\<lparr>pe_sha256hex := (\<lambda>b. hex_text (sha256_spec b))\<rparr>) ''a.uab'' demo_packager
       \<lparr>pk_app = None, pk_icon = None, pk_bundleDir = [], pk_bundleFile = None, pk_meta = None, pk_export = None, pk_executable = False\<rparr>
     = Some (Inr (up', k')) \<and> pk_export k' = Some elf \<and>
     mountSelfBundle (demo_header_env elf (demo_elf elf)) ''./a.uab'' (up_meta up') header_start = Some 0"
proof -
  let ?k = "\<lparr>pk_app = None, pk_icon = None, pk_bundleDir = [], pk_bundleFile = None, pk_meta = None, pk_export = None, pk_executable = False\<rparr>"
  let ?pe = "demo_pack_env\<lparr>pe_sha256hex := (\<lambda>b. hex_text (sha256_spec b))\<rparr>"
  have "case prepareBundle demo_files ?pe demo_packager [] of Some (Inr _) \<Rightarrow> True | _ \<Rightarrow> False" by code_simp
  then obtain up1 b1 where prep: "prepareBundle demo_files ?pe demo_packager [] = Some (Inr (up1, b1))"
    by (auto split: option.splits sum.splits)
  have "\<exists>up' k'. UABPackager_pack demo_files ?pe ''a.uab'' demo_packager ?k = Some (Inr (up', k')) \<and>
      pk_bundleFile k' = Some demo_img \<and> (\<exists>elf. pk_export k' = Some elf \<and> length elf < 2 ^ 63)"
    using prep
    by (simp add: UABPackager_pack_def pack_sections_def packBundle_def make_bundle_def packMetaInfo_def addNewSection_def Let_def
        elfHelper_create_def demo_objcopy_def objcopy_args_def demo_img_def demo_pack_env_def demo_packager_def)
  then obtain up' k' elf where run: "UABPackager_pack demo_files ?pe ''a.uab'' demo_packager ?k = Some (Inr (up', k'))"
      "pk_bundleFile k' = Some demo_img" "pk_export k' = Some elf" "length elf < 2 ^ 63" by blast
  have "section_bytes demo_elf header n = None" if "pe_header ?pe = Some header" for header n
    using that by (auto simp: demo_pack_env_def section_bytes_def demo_elf_def opened_uab_def getSectionHeader_def)
  moreover have "named_sections (demo_elf elf)" by (auto simp: named_sections_def demo_elf_def)
  ultimately have "\<exists>off img. pk_bundleFile k' = Some img \<and> read_at (he_content (demo_header_env elf (demo_elf elf))) (unat off) (length img) = img \<and>
      mountSelfBundle (demo_header_env elf (demo_elf elf)) ''./a.uab'' (up_meta up') header_start =
        Some (if he_fuse (demo_header_env elf (demo_elf elf)) (fuse_args ''./a.uab'' off (hs_mountPoint header_start)) = Status 0 then 0 else -1)"
    by (intro packed_bundle_mounts [where elf_of = demo_elf and pe = ?pe and fv = demo_files and uabFilename = "''a.uab''" and up = demo_packager and k = ?k])
      (use run demo_objcopy_adds demo_fair in \<open>auto simp: demo_header_env_def demo_pack_env_def demo_img_def\<close>)
  then show ?thesis using run by (auto simp: demo_header_env_def)
qed

end
