(* ===== verification/Uab_Loader.thy ===== *)
theory Uab_Loader
  imports Uab_Header Container_Run
begin

text \<open>
  The loader inside a bundle, \<open>apps/uab/loader/src/main.cpp\<close>: it finds the application among the layers of the bundle, completes a
  container configuration, has it changed by the generators of the bundle and starts \<open>ll-box\<close> on it. The file system, the JSON library
  and the child processes are the record \<open>loader_env\<close>; directories are listed in the order the system gives, and a listing that fails after
  its start is left out. A result \<open>None\<close> is a loop that does not end. Every pipe call acts on a pipe of its own, so that the \<open>k\<close>-th answer
  is a function of \<open>k\<close>.
\<close>

section \<open>Environment\<close>

record loader_config =
  lc_ociVersion :: string
  lc_root :: "oci_root option"
  lc_annotations :: "(string \<rightharpoonup> string) option"
  lc_process :: "oci_process option"
  lc_mounts :: "mount list option"

text \<open>Answers of \<open>write\<close> on the input of a generator (a generator that has closed its input raises \<open>SIGPIPE\<close>) and of \<open>waitpid\<close>.\<close>

datatype write_answer = WriteInterrupted | WriteError | WritePipe | Wrote nat

datatype wait_answer = WaitError | StillRunning | ExitedStatus nat

record generator_env =
  ge_pipes :: "bool \<times> bool \<times> bool"
  ge_fork :: bool
  ge_writes :: "nat \<Rightarrow> write_answer"
  ge_waits :: "nat \<Rightarrow> wait_answer"
  ge_errReads :: "nat \<Rightarrow> read_answer"
  ge_outReads :: "nat \<Rightarrow> read_answer"
  ge_stderr :: "string \<Rightarrow> bytes"
  ge_stdout :: "string \<Rightarrow> bytes"

record loader_env =
  le_self :: "string option"
  le_exists :: "string \<Rightarrow> exists_answer"
  le_list :: "string \<Rightarrow> (string \<times> bool) list option"
  le_open :: "string \<Rightarrow> bool"
  le_infoV2 :: "string \<Rightarrow> package_info_v2 option"
  le_infoV1 :: "string \<Rightarrow> package_info option"
  le_random :: "nat \<Rightarrow> char"
  le_mkdirs :: "string \<Rightarrow> mkdirs_answer"
  le_config :: "string \<Rightarrow> loader_config option"
  le_isRegular :: "string \<Rightarrow> bool option"
  le_perms :: "string \<Rightarrow> nat option"
  le_loadPatch :: "string \<Rightarrow> oci_patch option"
  le_jsonPatch :: "loader_config \<Rightarrow> json \<Rightarrow> loader_config option"
  le_dump :: "loader_config \<Rightarrow> string"
  le_generator :: "string \<Rightarrow> string \<Rightarrow> generator_env"
  le_parseConfig :: "bytes \<Rightarrow> loader_config option"
  le_create :: "string \<Rightarrow> bool"
  le_box :: "string list \<Rightarrow> child"
  le_removed :: "string \<Rightarrow> bool"

text \<open>
  How a step of the loader can end the process: an exception that leaves a \<open>noexcept\<close> function or \<open>main\<close> (the handler of \<open>SIGABRT\<close> then
  cleans up and exits with the number of the signal, 6), \<open>SIGPIPE\<close>, for which there is no handler, or the use of an empty optional.
\<close>

datatype death = Abort | PipeSignal | EmptyOptional

section \<open>Names\<close>

partial_function (option) random_loop :: "(nat \<Rightarrow> char) \<Rightarrow> nat \<Rightarrow> string \<Rightarrow> string option" where
  "random_loop rnd k ret =
     (if 81 \<le> length ret then Some ret
      else let val = of_char (rnd k) :: nat in
        if 0x5B \<le> val \<and> val \<le> 0x60 then random_loop rnd (Suc k) ret else random_loop rnd (Suc k) (ret @ [rnd k]))"

declare random_loop.simps [code]

definition genRandomString :: "loader_env \<Rightarrow> string option" where
  "genRandomString env = random_loop (le_random env) 0 []"

text \<open>
  The id in a reference \<open>channel:id/version\<close>: \<open>substr\<close> from the character after the first colon, which throws when there is none;
  a slash in front of the colon gives a length that wraps around, and so everything up to the end.
\<close>

definition layer_id :: "string \<Rightarrow> string option" where
  "layer_id s =
     (let colon = length (takeWhile (\<lambda>c. c \<noteq> CHR '':'') s); slash = length (takeWhile (\<lambda>c. c \<noteq> CHR ''/'') s) in
      if length s < colon + 1 then None
      else Some (if slash < colon then drop (colon + 1) s else take (slash - colon - 1) (drop (colon + 1) s)))"

section \<open>Generators\<close>

definition loader_applyJSONPatch :: "loader_env \<Rightarrow> loader_config \<Rightarrow> oci_patch \<Rightarrow> loader_config" where
  "loader_applyJSONPatch env cfg p =
     (if patch_ociVersion p \<noteq> lc_ociVersion cfg then cfg
      else case le_jsonPatch env cfg (patch_patch p) of None \<Rightarrow> cfg | Some c \<Rightarrow> c)"

text \<open>\<open>compare\<close> at a position before the start throws: a name of fewer than five characters.\<close>

definition loader_applyJSONFilePatch :: "loader_env \<Rightarrow> loader_config \<Rightarrow> string \<Rightarrow> death + loader_config" where
  "loader_applyJSONFilePatch env cfg info =
     (let fileName = file_name info in
      if length fileName < 5 then Inl Abort
      else if \<not> ends_with fileName ''.json'' then Inr cfg
      else if \<not> le_open env info then Inr cfg
      else case le_loadPatch env info of None \<Rightarrow> Inr cfg | Some p \<Rightarrow> Inr (loader_applyJSONPatch env cfg p))"

text \<open>
  The loop that writes the input: every call starts at the first character again. The result is what the generator reads, or
  \<open>None\<close> inside for a write error.
\<close>

partial_function (option) write_loop ::
    "(nat \<Rightarrow> write_answer) \<Rightarrow> nat \<Rightarrow> string \<Rightarrow> nat \<Rightarrow> string \<Rightarrow> (death + string option) option" where
  "write_loop writes k input bytesWrite sent =
     (case writes k of
        WriteInterrupted \<Rightarrow> write_loop writes (Suc k) input bytesWrite sent
      | WriteError \<Rightarrow> Some (Inr None)
      | WritePipe \<Rightarrow> Some (Inl PipeSignal)
      | Wrote n \<Rightarrow>
         (let w = min bytesWrite n; sent' = sent @ take w input in
          if bytesWrite - w = 0 then Some (Inr (Some sent')) else write_loop writes (Suc k) input (bytesWrite - w) sent'))"

declare write_loop.simps [code]

text \<open>\<open>waitpid\<close> is asked every 100 ms, at most four times; a generator that is not done by then goes on running.\<close>

fun wait_loop :: "(nat \<Rightarrow> wait_answer) \<Rightarrow> nat \<Rightarrow> nat \<Rightarrow> nat option" where
  "wait_loop waits k 0 = None"
| "wait_loop waits k (Suc timeout) =
     (case waits k of
        WaitError \<Rightarrow> None
      | StillRunning \<Rightarrow> if timeout = 0 then None else wait_loop waits (Suc k) timeout
      | ExitedStatus s \<Rightarrow> Some s)"

text \<open>Reading a pipe up to its end into a buffer of \<open>buf_size\<close> bytes.\<close>

partial_function (option) read_loop :: "nat \<Rightarrow> (nat \<Rightarrow> read_answer) \<Rightarrow> nat \<Rightarrow> bytes \<Rightarrow> bytes \<Rightarrow> bytes option option" where
  "read_loop buf_size reads k pending got =
     (case reads k of
        Interrupted \<Rightarrow> read_loop buf_size reads (Suc k) pending got
      | ReadError \<Rightarrow> Some None
      | UpTo n \<Rightarrow>
         (let buf = take (min buf_size (max 1 n)) pending in
          if buf = [] then Some (Some got) else read_loop buf_size reads (Suc k) (drop (length buf) pending) (got @ buf)))"

declare read_loop.simps [code]

text \<open>
  \<open>applyExecutablePatch\<close>. The child that cannot change its directory or execute the generator returns into the caller and goes on as a
  second loader; for the process modelled here it is one more child with some output and status.
\<close>

definition generator_output :: "generator_env \<Rightarrow> string \<Rightarrow> (death + bytes option) option" where
  "generator_output g input =
     (case ge_pipes g of (p1, p2, p3) \<Rightarrow>
      if \<not> p1 \<or> \<not> p2 \<or> \<not> p3 \<or> \<not> ge_fork g then Some (Inr None)
      else case write_loop (ge_writes g) 0 input (length input) [] of
        None \<Rightarrow> None
      | Some (Inl d) \<Rightarrow> Some (Inl d)
      | Some (Inr None) \<Rightarrow> Some (Inr None)
      | Some (Inr (Some sent)) \<Rightarrow>
         (case wait_loop (ge_waits g) 0 4 of
            None \<Rightarrow> Some (Inr None)
          | Some exitCode \<Rightarrow>
             (case read_loop 4096 (ge_errReads g) 0 (ge_stderr g sent) [] of
                None \<Rightarrow> None
              | Some None \<Rightarrow> Some (Inr None)
              | Some (Some err) \<Rightarrow>
                 (case read_loop 4096 (ge_outReads g) 0 (ge_stdout g sent) [] of
                    None \<Rightarrow> None
                  | Some None \<Rightarrow> Some (Inr None)
                  | Some (Some out) \<Rightarrow> Some (Inr (if exitCode \<noteq> 0 then None else Some out))))))"

definition loader_applyExecutablePatch ::
    "loader_env \<Rightarrow> string \<Rightarrow> loader_config \<Rightarrow> string \<Rightarrow> (death + loader_config) option" where
  "loader_applyExecutablePatch env workdir cfg info =
     (case generator_output (le_generator env workdir info) (le_dump env cfg) of
        None \<Rightarrow> None
      | Some (Inl d) \<Rightarrow> Some (Inl d)
      | Some (Inr None) \<Rightarrow> Some (Inr cfg)
      | Some (Inr (Some out)) \<Rightarrow>
         Some (Inr (case le_parseConfig env out of None \<Rightarrow> cfg | Some modified \<Rightarrow> modified)))"

definition testExec :: "nat \<Rightarrow> bool" where
  "testExec perm \<longleftrightarrow> odd (perm div 64) \<or> odd (perm div 8) \<or> odd perm"

fun loader_applyPatches ::
    "loader_env \<Rightarrow> string \<Rightarrow> loader_config \<Rightarrow> string list \<Rightarrow> (death + loader_config) option" where
  "loader_applyPatches env workdir cfg [] = Some (Inr cfg)"
| "loader_applyPatches env workdir cfg (info # patches) =
     (case (if le_isRegular env info \<noteq> Some True then Some (Inr cfg)
            else case le_perms env info of
              None \<Rightarrow> Some (Inr cfg)
            | Some perm \<Rightarrow>
               (if testExec perm then loader_applyExecutablePatch env workdir cfg info
                else Some (loader_applyJSONFilePatch env cfg info))) of
        None \<Rightarrow> None
      | Some (Inl d) \<Rightarrow> Some (Inl d)
      | Some (Inr cfg') \<Rightarrow> loader_applyPatches env workdir cfg' patches)"

section \<open>The application\<close>

text \<open>The old format is converted as by \<open>toPackageInfoV2\<close>, field by field.\<close>

definition loadPackageInfoFromJson :: "loader_env \<Rightarrow> string \<Rightarrow> package_info_v2 option" where
  "loadPackageInfoFromJson env path =
     (if \<not> le_open env path then None
      else case le_infoV2 env path of
        Some i \<Rightarrow> Some i
      | None \<Rightarrow> map_option (\<lambda>oldInfo.
          \<lparr>info_arch = old_arch oldInfo, info_base = old_base oldInfo,
           info_channel = (case old_channel oldInfo of None \<Rightarrow> ''main'' | Some c \<Rightarrow> c),
           info_command = old_command oldInfo, info_compatibleVersion = None,
           info_description = old_description oldInfo, info_id = old_appid oldInfo, info_kind = old_kind oldInfo,
           info_module = old_module oldInfo, info_name = old_name oldInfo, info_permissions = old_permissions oldInfo,
           info_runtime = old_runtime oldInfo, info_schemaVersion = ''1.0'', info_size = old_size oldInfo,
           info_uuid = None, info_version = old_version oldInfo\<rparr>) (le_infoV1 env path))"

text \<open>
  The two loops over \<open>layers\<close>. \<open>Inl ()\<close> is the end with exit code -1; \<open>Inr None\<close>: no application (in this layer).
\<close>

fun find_module :: "loader_env \<Rightarrow> string \<Rightarrow> (string \<times> bool) list \<Rightarrow> unit + package_info_v2 option" where
  "find_module env layer [] = Inr None"
| "find_module env layer ((name, isDir) # modules) =
     (if \<not> isDir \<or> name \<noteq> ''binary'' then find_module env layer modules
      else case loadPackageInfoFromJson env (path_div (path_div layer name) ''info.json'') of
        None \<Rightarrow> Inl ()
      | Some info \<Rightarrow> if info_kind info = ''app'' then Inr (Some info) else find_module env layer modules)"

fun find_app :: "loader_env \<Rightarrow> string \<Rightarrow> (string \<times> bool) list \<Rightarrow> unit + package_info_v2 option" where
  "find_app env layersDir [] = Inr None"
| "find_app env layersDir ((name, isDir) # layers) =
     (if \<not> isDir then find_app env layersDir layers
      else let layer = path_div layersDir name in
        case le_list env layer of
          None \<Rightarrow> Inl ()
        | Some modules \<Rightarrow>
           (case find_module env layer modules of
              Inl u \<Rightarrow> Inl u
            | Inr (Some info) \<Rightarrow> Inr (Some info)
            | Inr None \<Rightarrow> find_app env layersDir layers))"

definition compatibleFilePath :: "loader_env \<Rightarrow> string \<Rightarrow> string \<Rightarrow> string" where
  "compatibleFilePath env bundleDir layerID =
     (let layerDir = path_div (path_div bundleDir ''layers'') layerID in
      if le_exists env layerDir \<noteq> IsThere then []
      else if le_exists env (path_div layerDir ''runtime/files'') = IsThere then path_div layerDir ''runtime/files''
      else if le_exists env (path_div layerDir ''binary/files'') = IsThere then path_div layerDir ''binary/files''
      else [])"

section \<open>The command\<close>

text \<open>
  \<open>arg.replace(pos, replaceStr.size(), replaceStr)\<close> replaces four characters, or what there is, and not only the quote.
\<close>

fun replace_quotes :: "string \<Rightarrow> string" where
  "replace_quotes [] = []"
| "replace_quotes (c # cs) =
     (if c = CHR 0x27 then [CHR 0x27, CHR 0x5C, CHR 0x27, CHR 0x27] @ replace_quotes (drop 3 cs)
      else c # replace_quotes cs)"

definition loader_quote :: "string \<Rightarrow> string" where
  "loader_quote arg = [CHR 0x27] @ replace_quotes arg @ [CHR 0x27]"

definition loader_command :: "string list \<Rightarrow> string list" where
  "loader_command command =
     [''/bin/bash'', ''--login'', ''-c'', join_with (CHR '' '') (''exec'' # map loader_quote command)]"

section \<open>Main\<close>

datatype loader_result = Returned int | Died death

record loader_end =
  ld_result :: loader_result
  ld_bundle :: "string option"
  ld_config :: "loader_config option"
  ld_box :: "string list option"

text \<open>
  \<open>ld_bundle\<close> is the bundle directory that is left at the end. \<open>le_removed\<close>: the directory exists and \<open>remove_all\<close> removed it without
  an error. \<open>cleanResource\<close> runs when \<open>main\<close> returns and in the handler of \<open>SIGABRT\<close>.
\<close>

definition loader_cleanResource :: "loader_env \<Rightarrow> string option \<Rightarrow> string option" where
  "loader_cleanResource env containerBundle =
     (case containerBundle of None \<Rightarrow> None | Some b \<Rightarrow> if le_removed env b then None else Some b)"

definition loader_exit :: "loader_env \<Rightarrow> string option \<Rightarrow> int \<Rightarrow> loader_end" where
  "loader_exit env containerBundle code =
     \<lparr>ld_result = Returned code, ld_bundle = loader_cleanResource env containerBundle, ld_config = None, ld_box = None\<rparr>"

definition loader_die :: "loader_env \<Rightarrow> string option \<Rightarrow> death \<Rightarrow> loader_end" where
  "loader_die env containerBundle d =
     \<lparr>ld_result = (if d = Abort then Returned 6 else Died d),
      ld_bundle = (if d = Abort then loader_cleanResource env containerBundle else containerBundle), ld_config = None, ld_box = None\<rparr>"

definition loader_ld_mount :: "string \<Rightarrow> mount" where
  "loader_ld_mount ldConfDir =
     \<lparr>mnt_destination = ''/etc/ld.so.conf.d/zz_deepin-linglong-app.conf'', mnt_options = [''ro'', ''rbind''],
      mnt_source = path_div ldConfDir ''zz_deepin-linglong-app.ld.so.conf'', mnt_type = ''bind''\<rparr>"

text \<open>The last part of \<open>main\<close>: the configuration is written and \<open>ll-box\<close> runs.\<close>

definition box_args :: "string \<Rightarrow> string \<Rightarrow> string \<Rightarrow> string list" where
  "box_args boxBin containerBundle containerID =
     [boxBin, ''--cgroup-manager=disabled'', ''run'', ''--bundle='' @ containerBundle, ''--config=config.json'', containerID]"

definition start_box :: "loader_env \<Rightarrow> string \<Rightarrow> string \<Rightarrow> string \<Rightarrow> loader_config \<Rightarrow> loader_end" where
  "start_box env boxBin containerBundle containerID config =
     (let argv = box_args boxBin containerBundle containerID; left = loader_exit env (Some containerBundle) in
      if \<not> le_create env (path_div containerBundle ''config.json'') then left (-1)
      else case le_box env argv of
        NoFork \<Rightarrow> (left (-1))\<lparr>ld_config := Some config\<rparr>
      | NoWait \<Rightarrow> (left (-1))\<lparr>ld_config := Some config, ld_box := Some argv\<rparr>
      | Status n \<Rightarrow> (left (int n))\<lparr>ld_config := Some config, ld_box := Some argv\<rparr>)"

text \<open>The configuration that the generators are given: the root, the annotations and the command of the application.\<close>

definition loader_configure ::
    "loader_env \<Rightarrow> string \<Rightarrow> string \<Rightarrow> string \<Rightarrow> package_info_v2 \<Rightarrow> loader_config \<Rightarrow> (death option) + loader_config" where
  "loader_configure env bundleDir baseID runtimeID appInfo config =
     (let baseFiles = compatibleFilePath env bundleDir baseID; runtimeFiles = compatibleFilePath env bundleDir runtimeID;
          appFiles = compatibleFilePath env bundleDir (info_id appInfo) in
      if baseFiles = [] then Inl None
      else if lc_root config = None then Inl (Some EmptyOptional)
      else if le_exists env (path_div bundleDir ''extra/container/config.d'') \<noteq> IsThere then Inl None
      else if runtimeID \<noteq> [] \<and> runtimeFiles = [] then Inl None
      else if appFiles = [] then Inl None
      else let a0 = (case lc_annotations config of None \<Rightarrow> Map.empty | Some a \<Rightarrow> a);
               a1 = a0(''org.deepin.linglong.appID'' \<mapsto> info_id appInfo);
               a2 = (if runtimeID \<noteq> [] then a1(''org.deepin.linglong.runtimeDir'' \<mapsto> parent_path runtimeFiles) else a1);
               a3 = a2(''org.deepin.linglong.appDir'' \<mapsto> parent_path appFiles) in
        case info_command appInfo of
          None \<Rightarrow> Inl None
        | Some command \<Rightarrow>
           (if command = [] then Inl None
            else case lc_process config of
              None \<Rightarrow> Inl (Some EmptyOptional)
            | Some p \<Rightarrow> Inr (config\<lparr>lc_root := Some \<lparr>root_path = baseFiles, root_readonly = True\<rparr>, lc_annotations := Some a3,
                         lc_process := Some (p\<lparr>pr_args := Some (loader_command command)\<rparr>)\<rparr>)))"

text \<open>From the creation of the bundle directory on.\<close>

definition loader_run :: "loader_env \<Rightarrow> string \<Rightarrow> string \<Rightarrow> string \<Rightarrow> package_info_v2 \<Rightarrow> string \<Rightarrow> string \<Rightarrow> loader_end option" where
  "loader_run env bundleDir baseID runtimeID appInfo containerID containerBundle =
     (let fail = Some (loader_exit env (Some containerBundle) (-1)); extraDir = path_div bundleDir ''extra'';
          boxBin = path_div extraDir ''ll-box''; containerCfgDir = path_div extraDir ''container'';
          initCfg = path_div containerCfgDir ''config.json''; ldConfDir = path_div extraDir ''ld.conf.d'' in
      if list_ex (\<lambda>p. le_exists env p \<noteq> IsThere) [extraDir, boxBin, containerCfgDir, initCfg] then fail
      else if \<not> le_open env initCfg then fail
      else case le_config env initCfg of None \<Rightarrow> fail | Some config \<Rightarrow>
      case loader_configure env bundleDir baseID runtimeID appInfo config of
        Inl None \<Rightarrow> fail
      | Inl (Some d) \<Rightarrow> Some (loader_die env (Some containerBundle) d)
      | Inr config1 \<Rightarrow>
         (let generatorsDir = path_div containerCfgDir ''config.d'' in
          case le_list env generatorsDir of None \<Rightarrow> fail | Some entries \<Rightarrow>
          case loader_applyPatches env containerBundle config1 (map (\<lambda>e. path_div generatorsDir (fst e)) entries) of
            None \<Rightarrow> None
          | Some (Inl d) \<Rightarrow> Some (loader_die env (Some containerBundle) d)
          | Some (Inr config2) \<Rightarrow>
             (if le_exists env ldConfDir \<noteq> IsThere then fail
              else case lc_mounts config2 of
                None \<Rightarrow> Some (loader_die env (Some containerBundle) EmptyOptional)
              | Some ms \<Rightarrow> Some (start_box env boxBin containerBundle containerID
                             (config2\<lparr>lc_mounts := Some (ms @ [loader_ld_mount ldConfDir])\<rparr>)))))"

definition loader_main :: "loader_env \<Rightarrow> loader_end option" where
  "loader_main env =
     (case le_self env of None \<Rightarrow> Some (loader_die env None Abort) | Some self \<Rightarrow>
      let bundleDir = parent_path self; layersDir = path_div bundleDir ''layers''; fail = Some (loader_exit env None (-1)) in
      if le_exists env layersDir \<noteq> IsThere then fail
      else case le_list env layersDir of None \<Rightarrow> fail | Some layers \<Rightarrow>
      case find_app env layersDir layers of
        Inl _ \<Rightarrow> fail
      | Inr None \<Rightarrow> fail
      | Inr (Some appInfo) \<Rightarrow>
         (case (layer_id (info_base appInfo), case info_runtime appInfo of None \<Rightarrow> Some [] | Some r \<Rightarrow> layer_id r) of
            (Some baseID, Some runtimeID) \<Rightarrow>
              (case genRandomString env of None \<Rightarrow> None | Some containerID \<Rightarrow>
               let dir = path_div (parent_path (parent_path bundleDir)) containerID in
               if le_mkdirs env dir \<noteq> Created then fail
               else loader_run env bundleDir baseID runtimeID appInfo containerID dir)
          | _ \<Rightarrow> Some (loader_die env None Abort)))"

section \<open>Loops\<close>

text \<open>
  A loop over the answers of the system returns when good answers keep coming and each of them makes a measure smaller; the
  others only cost a round.
\<close>

lemma fair_induct:
  assumes "\<And>k. \<exists>j \<ge> k. good j"
    and "\<And>k m. \<not> good k \<Longrightarrow> P (Suc k) m \<Longrightarrow> P k m"
    and "\<And>k m. good k \<Longrightarrow> (\<And>k' m'. m' < m \<Longrightarrow> P k' m') \<Longrightarrow> P k m"
  shows "P k (m :: nat)"
proof (induction m arbitrary: k rule: less_induct)
  case (less m)
  obtain j where "k \<le> j" "good j" using assms(1) by blast
  then show ?case
  proof (induction "j - k" arbitrary: k)
    case 0
    then show ?case using assms(3) [OF _ less.IH] by simp
  next
    case (Suc d)
    show ?case
    proof (cases "good k")
      case True
      then show ?thesis using assms(3) less.IH by blast
    next
      case False
      moreover have "P (Suc k) m" using Suc by (intro Suc.hyps(1)) auto
      ultimately show ?thesis by (rule assms(2))
    qed
  qed
qed

definition letter :: "char \<Rightarrow> bool" where
  "letter c \<longleftrightarrow> \<not> (0x5B \<le> (of_char c :: nat) \<and> (of_char c :: nat) \<le> 0x60)"

lemma random_loop_returns:
  assumes "\<And>k. \<exists>j \<ge> k. letter (rnd j)"
  shows "length ret \<le> 81 \<Longrightarrow> \<exists>s. random_loop rnd k ret = Some s \<and> length s = 81 \<and> set s \<subseteq> set ret \<union> {c \<in> range rnd. letter c}"
proof -
  have "\<forall>ret. length ret \<le> 81 \<and> 81 - length ret = m \<longrightarrow>
      (\<exists>s. random_loop rnd k ret = Some s \<and> length s = 81 \<and> set s \<subseteq> set ret \<union> {c \<in> range rnd. letter c})" for m k
  proof (induction k m rule: fair_induct [where good = "\<lambda>j. letter (rnd j)"])
    case (1 k)
    show ?case by (rule assms)
  next
    case (2 k m)
    show ?case
    proof (intro allI impI)
      fix ret :: string assume "length ret \<le> 81 \<and> 81 - length ret = m"
      then show "\<exists>s. random_loop rnd k ret = Some s \<and> length s = 81 \<and> set s \<subseteq> set ret \<union> {c \<in> range rnd. letter c}"
        using 2 by (subst random_loop.simps) (auto simp: Let_def letter_def)
    qed
  next
    case (3 k m)
    show ?case
    proof (intro allI impI)
      fix ret :: string assume r: "length ret \<le> 81 \<and> 81 - length ret = m"
      show "\<exists>s. random_loop rnd k ret = Some s \<and> length s = 81 \<and> set s \<subseteq> set ret \<union> {c \<in> range rnd. letter c}"
      proof (cases "81 \<le> length ret")
        case True
        then show ?thesis using r by (subst random_loop.simps) simp
      next
        case False
        then have "length (ret @ [rnd k]) \<le> 81 \<and> 81 - length (ret @ [rnd k]) = 80 - length ret" "80 - length ret < m" using r by auto
        then obtain s where "random_loop rnd (Suc k) (ret @ [rnd k]) = Some s \<and> length s = 81 \<and>
            set s \<subseteq> set (ret @ [rnd k]) \<union> {c \<in> range rnd. letter c}"
          using 3(2) [of "80 - length ret" "Suc k"] by blast
        then show ?thesis using False 3(1) by (subst random_loop.simps) (auto simp: Let_def letter_def)
      qed
    qed
  qed
  then show "length ret \<le> 81 \<Longrightarrow> ?thesis" by blast
qed

lemma write_loop_returns:
  assumes "\<And>k. \<exists>j \<ge> k. writes j \<noteq> WriteInterrupted \<and> writes j \<noteq> Wrote 0"
  shows "\<exists>r. write_loop writes k input n sent = Some r"
proof -
  have "\<forall>sent. \<exists>r. write_loop writes k input m sent = Some r" for m k
  proof (induction k m rule: fair_induct [where good = "\<lambda>j. writes j \<noteq> WriteInterrupted \<and> writes j \<noteq> Wrote 0"])
    case (1 k)
    show ?case by (rule assms)
  next
    case (2 k m)
    then show ?case by (subst write_loop.simps) (auto simp: Let_def split: write_answer.splits)
  next
    case (3 k m)
    then show ?case by (subst write_loop.simps) (auto simp: Let_def split: write_answer.splits)
  qed
  then show ?thesis by blast
qed

lemma read_loop_returns:
  assumes "0 < buf_size" and "\<And>k. \<exists>j \<ge> k. reads j \<noteq> Interrupted"
  shows "\<exists>r. read_loop buf_size reads k pending got = Some r \<and> (\<forall>out. r = Some out \<longrightarrow> out = got @ pending)"
proof -
  have "\<forall>pending got. length pending = m \<longrightarrow>
      (\<exists>r. read_loop buf_size reads k pending got = Some r \<and> (\<forall>out. r = Some out \<longrightarrow> out = got @ pending))" for m k
  proof (induction k m rule: fair_induct [where good = "\<lambda>j. reads j \<noteq> Interrupted"])
    case (1 k)
    show ?case by (rule assms(2))
  next
    case (2 k m)
    then show ?case by (subst read_loop.simps) auto
  next
    case (3 k m)
    show ?case
    proof (intro allI impI)
      fix pending got :: bytes assume p: "length pending = m"
      show "\<exists>r. read_loop buf_size reads k pending got = Some r \<and> (\<forall>out. r = Some out \<longrightarrow> out = got @ pending)"
      proof (cases "\<exists>n. reads k = UpTo n \<and> pending \<noteq> []")
        case True
        then obtain n where n: "reads k = UpTo n" "pending \<noteq> []" by blast
        let ?buf = "take (min buf_size (max 1 n)) pending"
        have b: "?buf \<noteq> []" using n(2) assms(1) by auto
        then have "length (drop (length ?buf) pending) < m" using p by (cases pending) auto
        then obtain r where r: "read_loop buf_size reads (Suc k) (drop (length ?buf) pending) (got @ ?buf) = Some r"
            "\<forall>out. r = Some out \<longrightarrow> out = (got @ ?buf) @ drop (length ?buf) pending"
          using 3(2) by blast
        have "?buf @ drop (length ?buf) pending = pending" by (metis append_take_drop_id length_take min.cobounded2 take_all_iff drop_all append_Nil2 min_def nat_le_linear)
        then show ?thesis using r b n by (subst read_loop.simps) (auto simp: Let_def)
      next
        case False
        then show ?thesis using 3(1) by (subst read_loop.simps) (auto split: read_answer.splits)
      qed
    qed
  qed
  then show ?thesis by blast
qed

definition fair_generator :: "generator_env \<Rightarrow> bool" where
  "fair_generator g \<longleftrightarrow>
     (\<forall>k. \<exists>j \<ge> k. ge_writes g j \<noteq> WriteInterrupted \<and> ge_writes g j \<noteq> Wrote 0) \<and>
     (\<forall>k. \<exists>j \<ge> k. ge_errReads g j \<noteq> Interrupted) \<and> (\<forall>k. \<exists>j \<ge> k. ge_outReads g j \<noteq> Interrupted)"

lemma generator_output_returns:
  assumes "fair_generator g"
  shows "\<exists>r. generator_output g input = Some r"
proof -
  obtain w where w: "write_loop (ge_writes g) 0 input (length input) [] = Some w"
    using assms write_loop_returns [of "ge_writes g" 0 input "length input" "[]"] by (auto simp: fair_generator_def)
  have "\<exists>r. read_loop 4096 reads 0 p [] = Some r" if "\<forall>k. \<exists>j \<ge> k. reads j \<noteq> Interrupted" for reads p
    using read_loop_returns [of 4096 reads 0 p "[]"] that by auto
  then have "\<forall>p. \<exists>r. read_loop 4096 (ge_errReads g) 0 p [] = Some r" "\<forall>p. \<exists>r. read_loop 4096 (ge_outReads g) 0 p [] = Some r"
    using assms by (simp_all add: fair_generator_def)
  then obtain e out where r: "\<And>p. read_loop 4096 (ge_errReads g) 0 p [] = Some (e p)" "\<And>p. read_loop 4096 (ge_outReads g) 0 p [] = Some (out p)"
    by metis
  show ?thesis
    by (auto simp: generator_output_def w r split: prod.split sum.split option.split)
qed

lemma loader_applyPatches_returns:
  assumes "\<And>info. fair_generator (le_generator env workdir info)"
  shows "\<exists>r. loader_applyPatches env workdir cfg patches = Some r"
proof (induction patches arbitrary: cfg)
  case (Cons info patches)
  obtain out where "generator_output (le_generator env workdir info) (le_dump env cfg) = Some out"
    using generator_output_returns [OF assms] by blast
  then have "\<exists>r. loader_applyExecutablePatch env workdir cfg info = Some r"
    by (simp add: loader_applyExecutablePatch_def split: sum.split option.split)
  then show ?case using Cons.IH by (auto split: sum.splits option.splits)
qed simp

text \<open>A generator that does not finish in time, fails or prints no configuration changes nothing.\<close>

lemma failing_generator_ignored:
  assumes "wait_loop (ge_waits (le_generator env workdir info)) 0 4 \<noteq> Some 0" and "loader_applyExecutablePatch env workdir cfg info = Some (Inr cfg')"
  shows "cfg' = cfg"
  using assms by (auto simp: loader_applyExecutablePatch_def generator_output_def split: prod.splits sum.splits option.splits if_splits)

lemma slow_generator_times_out:
  assumes "\<forall>k < 4. waits k = StillRunning"
  shows "wait_loop waits 0 4 = None"
  using assms by (simp add: eval_nat_numeral)

text \<open>A generator reads its input when it is written at once; a second call starts at the beginning again.\<close>

lemma write_loop_whole:
  assumes "writes k = Wrote n" and "length input \<le> n"
  shows "write_loop writes k input (length input) [] = Some (Inr (Some input))"
  using assms by (subst write_loop.simps) simp

lemma write_loop_partial:
  "write_loop (\<lambda>k. Wrote 3) 0 ''abcdef'' 6 [] = Some (Inr (Some ''abcabc''))"
  by (subst write_loop.simps, simp, subst write_loop.simps, simp)

section \<open>The command\<close>

text \<open>What the shell reads of an argument: three characters after every quote are lost.\<close>

fun shell_arg :: "string \<Rightarrow> string" where
  "shell_arg [] = []"
| "shell_arg (c # cs) = (if c = CHR 0x27 then c # shell_arg (drop 3 cs) else c # shell_arg cs)"

lemma sh_lex_replaced: "sh_lex (grow w u) True (replace_quotes a @ cs) = sh_lex (grow w (u @ shell_arg a)) True cs"
  by (induction a arbitrary: u rule: shell_arg.induct) simp_all

lemma sh_lex_loader_quote: "sh_lex None False (loader_quote a @ cs) = sh_lex (Some (shell_arg a)) False cs"
  using sh_lex_replaced [of None "[]" a "CHR 0x27 # cs"] by (simp add: loader_quote_def grow_def)

lemma sh_lex_loader_args:
  "sh_lex (Some v) False (concat (map (\<lambda>a. CHR '' '' # loader_quote a) args)) = Some (Word v # map (\<lambda>a. Word (shell_arg a)) args)"
  by (induction args arbitrary: v) (simp_all add: flush_def sh_lex_loader_quote)

lemma join_with_concat: "join_with c (p # ps) = p @ concat (map (\<lambda>q. c # q) ps)"
  by (induction ps arbitrary: p) simp_all

lemma shell_arg_length: "length (shell_arg a) \<le> length a"
  by (induction a rule: shell_arg.induct) (auto intro: le_trans)

lemma shell_arg_same: "shell_arg a = a \<longleftrightarrow> CHR 0x27 \<notin> set (butlast a)"
proof (induction a rule: shell_arg.induct)
  case (2 c cs)
  show ?case
  proof (cases "c = CHR 0x27 \<and> cs \<noteq> []")
    case True
    then have "length (shell_arg (drop 3 cs)) < length cs" using shell_arg_length [of "drop 3 cs"] by (cases cs) auto
    then have "shell_arg (drop 3 cs) \<noteq> cs" by auto
    then show ?thesis using True by simp
  next
    case False
    then show ?thesis using 2 by auto
  qed
qed simp

lemma loader_command_lexed:
  "sh_lex None False (loader_command args ! 3) = Some (Word ''exec'' # map (\<lambda>a. Word (shell_arg a)) args)"
proof -
  have "loader_command args ! 3 = ''exec'' @ concat (map (\<lambda>a. CHR '' '' # loader_quote a) args)"
    by (simp add: loader_command_def join_with_concat comp_def eval_nat_numeral del: join_with.simps)
  then show ?thesis by (simp add: sh_lex_loader_args grow_def)
qed

section \<open>Runs\<close>

lemma loadPackageInfoFromJson_agrees:
  assumes "\<And>p. le_infoV2 env p = (case loadV2 p of Inl _ \<Rightarrow> None | Inr i \<Rightarrow> Some i)"
    and "\<And>p. le_infoV1 env p = (case loadV1 p of Inl _ \<Rightarrow> None | Inr i \<Rightarrow> Some i)" and "le_open env path"
  shows "loadPackageInfoFromJson env path = (case parsePackageInfo_path loadV2 loadV1 path of Inl _ \<Rightarrow> None | Inr i \<Rightarrow> Some i)"
  using assms
  by (simp add: loadPackageInfoFromJson_def parsePackageInfo_path_def parsePackageInfo_with_def toPackageInfoV2_def PACKAGE_INFO_VERSION_def
      split: sum.split)

lemma find_module_app: "find_module env layer modules = Inr (Some info) \<Longrightarrow> info_kind info = ''app''"
  by (induction env layer modules rule: find_module.induct) (auto split: if_splits option.splits)

lemma find_app_app: "find_app env layersDir layers = Inr (Some info) \<Longrightarrow> info_kind info = ''app''"
  by (induction env layersDir layers rule: find_app.induct) (auto simp: Let_def dest: find_module_app split: if_splits option.splits sum.splits)

lemmas loader_ends = loader_exit_def loader_die_def loader_cleanResource_def

lemma start_box_end:
  "ld_result (start_box env boxBin b cid cfg) = Returned 0 \<Longrightarrow>
     ld_box (start_box env boxBin b cid cfg) = Some (box_args boxBin b cid) \<and> le_box env (box_args boxBin b cid) = Status 0"
  "ld_bundle (start_box env boxBin b cid cfg) = Some d \<Longrightarrow> \<not> le_removed env d"
  "\<exists>code. ld_result (start_box env boxBin b cid cfg) = Returned code"
  "ld_box (start_box env boxBin b cid cfg) = Some argv \<Longrightarrow> argv = box_args boxBin b cid \<and> ld_config (start_box env boxBin b cid cfg) = Some cfg"
  by (auto simp: start_box_def loader_ends Let_def split: if_splits child.splits)

lemma loader_configure_spec:
  assumes "loader_configure env bundleDir baseID runtimeID appInfo c0 = Inr c1"
  shows "\<exists>command p. info_command appInfo = Some command \<and> command \<noteq> [] \<and> lc_process c1 = Some p \<and> pr_args p = Some (loader_command command) \<and>
      compatibleFilePath env bundleDir baseID \<noteq> [] \<and>
      lc_root c1 = Some \<lparr>root_path = compatibleFilePath env bundleDir baseID, root_readonly = True\<rparr>"
  using assms by (auto simp: loader_configure_def Let_def split: if_splits option.splits)

lemma loader_run_end:
  assumes "loader_run env bundleDir baseID runtimeID appInfo cid b = Some e"
  shows "ld_result e = Returned 0 \<Longrightarrow> \<exists>argv. ld_box e = Some argv \<and> le_box env argv = Status 0"
    "ld_bundle e = Some d \<Longrightarrow> \<not> le_removed env d \<or> (\<exists>d. ld_result e = Died d)"
  using assms by (auto simp: loader_run_def Let_def loader_ends dest!: start_box_end(1,2) split: if_splits option.splits sum.splits)

lemma loader_run_started:
  assumes "loader_run env bundleDir baseID runtimeID appInfo cid b = Some e" and "ld_box e = Some argv"
  shows "\<exists>c0 c1 c2 gens ms. argv = box_args (path_div (path_div bundleDir ''extra'') ''ll-box'') b cid \<and>
      loader_configure env bundleDir baseID runtimeID appInfo c0 = Inr c1 \<and> loader_applyPatches env b c1 gens = Some (Inr c2) \<and>
      lc_mounts c2 = Some ms \<and>
      ld_config e = Some (c2\<lparr>lc_mounts := Some (ms @ [loader_ld_mount (path_div (path_div bundleDir ''extra'') ''ld.conf.d'')])\<rparr>)"
  using assms by (auto simp: loader_run_def Let_def loader_ends dest!: start_box_end(4) split: if_splits option.splits sum.splits)

lemma loader_main_ran:
  assumes "loader_main env = Some e"
  obtains (early) "e = loader_exit env None (-1) \<or> e = loader_exit env None 6"
    | (late) self layers appInfo baseID runtimeID cid b where "le_self env = Some self" and
      "find_app env (path_div (parent_path self) ''layers'') layers = Inr (Some appInfo)" and "layer_id (info_base appInfo) = Some baseID" and
      "loader_run env (parent_path self) baseID runtimeID appInfo cid b = Some e"
proof -
  have "loader_die env None Abort = loader_exit env None 6" by (simp add: loader_ends)
  then show thesis
    using assms early late by (auto simp: loader_main_def Let_def split: if_splits option.splits sum.splits)
qed

text \<open>What is run with \<open>argv\<close>: the configuration the generators made of one for an application of the bundle.\<close>

definition runs_application :: "loader_env \<Rightarrow> loader_end \<Rightarrow> string list \<Rightarrow> bool" where
  "runs_application env e argv \<longleftrightarrow>
     (\<exists>dir (appInfo :: package_info_v2) baseID command c1 p c2 gens ms b cid.
         info_kind appInfo = ''app'' \<and> info_command appInfo = Some command \<and> layer_id (info_base appInfo) = Some baseID \<and>
         lc_root c1 = Some \<lparr>root_path = compatibleFilePath env dir baseID, root_readonly = True\<rparr> \<and>
         lc_process c1 = Some p \<and> pr_args p = Some (loader_command command) \<and>
         loader_applyPatches env b c1 gens = Some (Inr c2) \<and> lc_mounts c2 = Some ms \<and>
         ld_config e = Some (c2\<lparr>lc_mounts := Some (ms @ [loader_ld_mount (path_div (path_div dir ''extra'') ''ld.conf.d'')])\<rparr>) \<and>
         argv = box_args (path_div (path_div dir ''extra'') ''ll-box'') b cid)"


text \<open>
  The loader returns when its random characters keep having letters among them and the pipes of the generators
  keep answering.
\<close>

theorem loader_returns:
  assumes "\<And>k. \<exists>j \<ge> k. letter (le_random env j)" and "\<And>dir info. fair_generator (le_generator env dir info)"
  shows "\<exists>e. loader_main env = Some e"
proof -
  obtain cid where "genRandomString env = Some cid"
    using random_loop_returns [of "le_random env" "[]" 0] assms(1) by (auto simp: genRandomString_def)
  moreover have "\<exists>e. loader_run env bundleDir baseID runtimeID appInfo cid b = Some e" for bundleDir baseID runtimeID appInfo b
  proof -
    obtain ap where "\<And>c gens. loader_applyPatches env b c gens = Some (ap c gens)"
      using loader_applyPatches_returns [of env b] assms(2) by metis
    then show ?thesis by (simp add: loader_run_def Let_def split: sum.split option.split)
  qed
  ultimately show ?thesis by (simp add: loader_main_def Let_def split: option.split sum.split)
qed


section \<open>An example\<close>

definition demo_loader_config :: loader_config where
  "demo_loader_config =
     \<lparr>lc_ociVersion = ''1.0.1'', lc_root = Some \<lparr>root_path = ''rootfs'', root_readonly = False\<rparr>, lc_annotations = None,
      lc_process = Some (demo_process [''/bin/sh'']), lc_mounts = Some []\<rparr>"

definition demo_loader_info :: package_info_v2 where
  "demo_loader_info = demo_info\<lparr>info_base := ''main:org.deepin.base/23.1.0/x86_64'', info_command := Some [''demo'', ''a b'']\<rparr>"

definition demo_generator_env :: generator_env where
  "demo_generator_env =
     \<lparr>ge_pipes = (True, True, True), ge_fork = True, ge_writes = \<lambda>_. Wrote 4096, ge_waits = \<lambda>_. ExitedStatus 0,
      ge_errReads = \<lambda>_. UpTo 4096, ge_outReads = \<lambda>_. UpTo 4096, ge_stderr = \<lambda>_. [], ge_stdout = \<lambda>_. []\<rparr>"

definition demo_loader_env :: loader_env where
  "demo_loader_env =
     \<lparr>le_self = Some ''/run/u/b/loader'', le_exists = \<lambda>p. if ends_with p ''runtime/files'' then IsMissing else IsThere,
      le_list = \<lambda>p. if ends_with p ''layers'' then Some [(''org.deepin.demo'', True)]
        else if ends_with p ''config.d'' then Some [(''10-demo'', False)] else Some [(''binary'', True)],
      le_open = \<lambda>_. True, le_infoV2 = \<lambda>_. Some demo_loader_info, le_infoV1 = \<lambda>_. None, le_random = \<lambda>_. CHR ''a'',
      le_mkdirs = \<lambda>_. Created, le_config = \<lambda>_. Some demo_loader_config, le_isRegular = \<lambda>_. Some True, le_perms = \<lambda>_. Some 493,
      le_loadPatch = \<lambda>_. None, le_jsonPatch = \<lambda>_ _. None, le_dump = \<lambda>_. ''{}'', le_generator = \<lambda>_ _. demo_generator_env,
      le_parseConfig = \<lambda>_. None, le_create = \<lambda>_. True, le_box = \<lambda>_. Status 0, le_removed = \<lambda>_. True\<rparr>"

lemma demo_loader_fair: "fair_generator (le_generator demo_loader_env dir info)" "\<exists>j \<ge> k. letter (le_random demo_loader_env j)"
  by (auto simp: demo_loader_env_def demo_generator_env_def fair_generator_def letter_def)

theorem loader_returns_witness: "\<exists>e. loader_main demo_loader_env = Some e"
  by (rule loader_returns) (auto simp: demo_loader_fair)

lemma demo_random: "genRandomString demo_loader_env = Some (replicate 81 (CHR ''a''))"
  unfolding demo_loader_env_def by code_simp

lemma demo_loader_run:
  "map_option (\<lambda>e. (ld_box e \<noteq> None, ld_bundle e)) (loader_main demo_loader_env) = Some (True, None)"
  unfolding demo_loader_env_def by code_simp



end
