(* ===== verification/Box_System.thy ===== *)
theory Box_System
  imports Oci_Config Bytes Layer_File
begin

unbundle bit_operations_syntax

text \<open>
  Programs of \<open>ll-box\<close> (\<open>apps/ll-box/src\<close>) as trees of system calls. A program either returns a value, ends the process, or makes a call and
  goes on with the answer; the kernel is not modelled at all, so that a theorem about \<open>ends\<close> holds for every behaviour of it. The answer of
  a call is its return value together with the number and the text it fills in, such as the mode of a file or the
  target of a symbolic link.
\<close>

section \<open>Calls\<close>

datatype clone_proc = EntryProcess | UnprivilegedProcess

datatype sys_call =
    Stat string | Lstat string | Mkdir string | CreateFile string | OpenPath string | OpenLink string
  | FdPath int | CloseFd int | ReadLink string | MakeLink string string | RealPath string
  | MountCall "string option" string "string option" u32 "string option"
  | StatFs string | Umount string | Chdir string | PivotRootCall string string | Chroot string
  | OpenWrite string | WriteText string string | RemoveFile string
  | GetEuid | GetEgid | GetUid | GetGid | SetGroups nat | SetEuid nat
  | CloneCall clone_proc u32 | DeathSignal | TermHandler | Fork | WaitUntil int | WaitPid int
  | ExecCall "string list" "string list" | SetPath string

record answer =
  ans_ret :: int
  ans_num :: u32
  ans_text :: string

type_synonym sys_trace = "(sys_call \<times> answer) list"

datatype 'a prog = Ret 'a | Exit int | Sys sys_call "answer \<Rightarrow> 'a prog"

primrec seqp :: "'a prog \<Rightarrow> ('a \<Rightarrow> 'b prog) \<Rightarrow> 'b prog" where
  "seqp (Ret x) f = f x"
| "seqp (Exit n) f = Exit n"
| "seqp (Sys c k) f = Sys c (\<lambda>a. seqp (k a) f)"

fun for_each :: "('a \<Rightarrow> unit prog) \<Rightarrow> 'a list \<Rightarrow> unit prog" where
  "for_each f [] = Ret ()"
| "for_each f (x # xs) = seqp (f x) (\<lambda>_. for_each f xs)"

definition call :: "sys_call \<Rightarrow> int prog" where
  "call c = Sys c (\<lambda>a. Ret (ans_ret a))"

section \<open>Executions\<close>

text \<open>\<open>ends p tr r\<close>: there is an execution of \<open>p\<close> with the calls and answers \<open>tr\<close> and the result \<open>r\<close> (\<open>Inl\<close>: the process has exited).\<close>

primrec ends :: "'a prog \<Rightarrow> sys_trace \<Rightarrow> int + 'a \<Rightarrow> bool" where
  "ends (Ret x) tr r \<longleftrightarrow> tr = [] \<and> r = Inr x"
| "ends (Exit n) tr r \<longleftrightarrow> tr = [] \<and> r = Inl n"
| "ends (Sys c k) tr r \<longleftrightarrow> tr \<noteq> [] \<and> fst (hd tr) = c \<and> ends (k (snd (hd tr))) (tl tr) r"

text \<open>All calls of a program, whatever is answered.\<close>

primrec all_calls :: "(sys_call \<Rightarrow> bool) \<Rightarrow> 'a prog \<Rightarrow> bool" where
  "all_calls P (Ret x) \<longleftrightarrow> True"
| "all_calls P (Exit n) \<longleftrightarrow> True"
| "all_calls P (Sys c k) \<longleftrightarrow> P c \<and> (\<forall>a. all_calls P (k a))"

lemma ends_Sys: "ends (Sys c k) tr r \<longleftrightarrow> (\<exists>a tr'. tr = (c, a) # tr' \<and> ends (k a) tr' r)"
  by (cases tr) auto

declare ends.simps(3) [simp del]
declare ends_Sys [simp]

lemma ends_seqp:
  "ends (seqp p f) tr r \<longleftrightarrow>
     (\<exists>x t1 t2. tr = t1 @ t2 \<and> ends p t1 (Inr x) \<and> ends (f x) t2 r) \<or> (\<exists>n. r = Inl n \<and> ends p tr (Inl n))"
proof (induction p arbitrary: tr)
  case (Sys c k)
  have l: "(\<exists>x t1 t2. tr = t1 @ t2 \<and> ends (Sys c k) t1 (Inr x) \<and> ends (f x) t2 r) \<longleftrightarrow>
      (\<exists>a tr'. tr = (c, a) # tr' \<and> (\<exists>x t1 t2. tr' = t1 @ t2 \<and> ends (k a) t1 (Inr x) \<and> ends (f x) t2 r))" (is "?l \<longleftrightarrow> ?r")
  proof
    assume ?r
    then obtain a x t1 t2 where "tr = ((c, a) # t1) @ t2" "ends (k a) t1 (Inr x)" "ends (f x) t2 r" by auto
    moreover from this(2) have "ends (Sys c k) ((c, a) # t1) (Inr x)" by simp
    ultimately show ?l by blast
  qed (auto, blast)
  have e: "(\<exists>n. r = Inl n \<and> ends (Sys c k) tr (Inl n)) \<longleftrightarrow> (\<exists>a tr'. tr = (c, a) # tr' \<and> (\<exists>n. r = Inl n \<and> ends (k a) tr' (Inl n)))"
    by auto
  have s: "ends (seqp (Sys c k) f) tr r \<longleftrightarrow> (\<exists>a tr'. tr = (c, a) # tr' \<and> ends (seqp (k a) f) tr' r)" by simp
  show ?case unfolding s l e Sys.IH [OF rangeI] by blast
qed auto

lemma ends_seqp_Inr: "ends (seqp p f) tr (Inr y) \<longleftrightarrow> (\<exists>x t1 t2. tr = t1 @ t2 \<and> ends p t1 (Inr x) \<and> ends (f x) t2 (Inr y))"
  by (simp add: ends_seqp)

lemma ends_for_each:
  "ends (for_each f (xs @ ys)) tr (Inr ()) \<longleftrightarrow> (\<exists>t1 t2. tr = t1 @ t2 \<and> ends (for_each f xs) t1 (Inr ()) \<and> ends (for_each f ys) t2 (Inr ()))"
proof (induction xs arbitrary: tr)
  case (Cons x xs)
  then show ?case by (simp add: ends_seqp_Inr) (metis append.assoc)
qed simp

lemma for_each_part: "ends (for_each f xs) tr (Inr ()) \<Longrightarrow> x \<in> set xs \<Longrightarrow> \<exists>t. ends (f x) t (Inr ()) \<and> set t \<subseteq> set tr"
proof (induction xs arbitrary: tr)
  case (Cons y ys)
  then obtain t1 t2 where t: "tr = t1 @ t2" "ends (f y) t1 (Inr ())" "ends (for_each f ys) t2 (Inr ())" by (auto simp: ends_seqp_Inr)
  show ?case
  proof (cases "x = y")
    case True
    then show ?thesis using t(1,2) by auto
  next
    case False
    then have "x \<in> set ys" using Cons.prems(2) by simp
    then show ?thesis using Cons.IH [OF t(3)] t(1) by auto
  qed
qed simp

lemma all_calls_seqp: "all_calls P p \<Longrightarrow> (\<And>x. all_calls P (f x)) \<Longrightarrow> all_calls P (seqp p f)"
  by (induction p) auto

lemma all_calls_for_each: "(\<And>x. x \<in> set xs \<Longrightarrow> all_calls P (f x)) \<Longrightarrow> all_calls P (for_each f xs)"
  by (induction xs) (auto intro: all_calls_seqp)

lemma all_calls_ends: "all_calls P p \<Longrightarrow> ends p tr r \<Longrightarrow> (c, a) \<in> set tr \<Longrightarrow> P c"
  by (induction p arbitrary: tr) (auto, blast)

lemma all_calls_mono: "all_calls P p \<Longrightarrow> (\<And>c. P c \<Longrightarrow> Q c) \<Longrightarrow> all_calls Q p"
  by (induction p) auto

text \<open>Some execution exists for every kernel: programs always come to an end.\<close>

primrec run_prog :: "'a prog \<Rightarrow> (sys_trace \<Rightarrow> sys_call \<Rightarrow> answer) \<Rightarrow> sys_trace \<Rightarrow> sys_trace \<times> (int + 'a)" where
  "run_prog (Ret x) K past = ([], Inr x)"
| "run_prog (Exit n) K past = ([], Inl n)"
| "run_prog (Sys c k) K past =
     (let a = K past c; res = run_prog (k a) K (past @ [(c, a)]) in ((c, a) # fst res, snd res))"

lemma run_prog_ends: "ends p (fst (run_prog p K past)) (snd (run_prog p K past))"
  by (induction p arbitrary: past) (auto simp: Let_def)

end
