(* ===== verification/Box_Mount.thy ===== *)
theory Box_Mount
  imports Box_System
begin

unbundle bit_operations_syntax

text \<open>
  The mounts of \<open>ll-box\<close>: reading a mount of the configuration (\<open>util/oci_runtime.h\<close>), paths and guarded mounting (\<open>util/common.cpp\<close>,
  \<open>util/filesystem.h\<close>, \<open>util/filesystem.cpp\<close>), the file system drivers (\<open>container/mount/filesystem_driver.cpp\<close>) and \<open>HostMount\<close>
  (\<open>container/mount/host_mount.cpp\<close>). A destination has at least one component (for \<open>/\<close> the code removes the last of no components).
  Messages, and the dump of file information with them, are left out; a fatal message ends the process.
\<close>

section \<open>Flags\<close>

definition MS_RDONLY :: u32 where "MS_RDONLY = 1"
definition MS_NOSUID :: u32 where "MS_NOSUID = 2"
definition MS_NODEV :: u32 where "MS_NODEV = 4"
definition MS_NOEXEC :: u32 where "MS_NOEXEC = 8"
definition MS_SYNCHRONOUS :: u32 where "MS_SYNCHRONOUS = 16"
definition MS_REMOUNT :: u32 where "MS_REMOUNT = 32"
definition MS_MANDLOCK :: u32 where "MS_MANDLOCK = 64"
definition MS_DIRSYNC :: u32 where "MS_DIRSYNC = 128"
definition MS_NOSYMFOLLOW :: u32 where "MS_NOSYMFOLLOW = 256"
definition MS_NOATIME :: u32 where "MS_NOATIME = 1024"
definition MS_NODIRATIME :: u32 where "MS_NODIRATIME = 2048"
definition MS_BIND :: u32 where "MS_BIND = 4096"
definition MS_REC :: u32 where "MS_REC = 16384"
definition MS_SILENT :: u32 where "MS_SILENT = 32768"
definition MS_POSIXACL :: u32 where "MS_POSIXACL = 65536"
definition MS_UNBINDABLE :: u32 where "MS_UNBINDABLE = 131072"
definition MS_PRIVATE :: u32 where "MS_PRIVATE = 262144"
definition MS_SLAVE :: u32 where "MS_SLAVE = 524288"
definition MS_SHARED :: u32 where "MS_SHARED = 1048576"
definition MS_RELATIME :: u32 where "MS_RELATIME = 2097152"
definition MS_I_VERSION :: u32 where "MS_I_VERSION = 8388608"
definition MS_STRICTATIME :: u32 where "MS_STRICTATIME = 16777216"
definition MS_LAZYTIME :: u32 where "MS_LAZYTIME = 33554432"

definition COPY_SYMLINK :: u32 where "COPY_SYMLINK = 1"

lemmas ms_flags = MS_RDONLY_def MS_NOSUID_def MS_NODEV_def MS_NOEXEC_def MS_SYNCHRONOUS_def MS_REMOUNT_def MS_MANDLOCK_def MS_DIRSYNC_def
  MS_NOSYMFOLLOW_def MS_NOATIME_def MS_NODIRATIME_def MS_BIND_def MS_REC_def MS_SILENT_def MS_POSIXACL_def MS_UNBINDABLE_def MS_PRIVATE_def
  MS_SLAVE_def MS_SHARED_def MS_RELATIME_def MS_I_VERSION_def MS_STRICTATIME_def MS_LAZYTIME_def COPY_SYMLINK_def

definition has_flag :: "u32 \<Rightarrow> u32 \<Rightarrow> bool" where
  "has_flag flags f \<longleftrightarrow> flags AND f \<noteq> 0"

text \<open>File types in \<open>st_mode\<close>.\<close>

definition S_IFMT :: u32 where "S_IFMT = 0xF000"
definition S_IFSOCK :: u32 where "S_IFSOCK = 0xC000"
definition S_IFLNK :: u32 where "S_IFLNK = 0xA000"
definition S_IFREG :: u32 where "S_IFREG = 0x8000"
definition S_IFDIR :: u32 where "S_IFDIR = 0x4000"
definition S_IFCHR :: u32 where "S_IFCHR = 0x2000"

lemmas file_types = S_IFMT_def S_IFSOCK_def S_IFLNK_def S_IFREG_def S_IFDIR_def S_IFCHR_def

section \<open>Reading a mount\<close>

datatype fs_type = UnknownFs | Bind | Proc | Sysfs | Devpts | Mqueue | Tmpfs | Cgroup | Cgroup2

record box_mount =
  bm_destination :: string
  bm_type :: string
  bm_source :: string
  bm_data :: "string list"
  bm_fsType :: fs_type
  bm_flags :: u32
  bm_propagationFlags :: u32
  bm_extensionFlags :: u32

definition fsTypes :: "(string \<times> fs_type) list" where
  "fsTypes = [(''bind'', Bind), (''proc'', Proc), (''devpts'', Devpts), (''mqueue'', Mqueue), (''tmpfs'', Tmpfs), (''sysfs'', Sysfs),
     (''cgroup'', Cgroup), (''cgroup2'', Cgroup2)]"

text \<open>An option sets a flag, or clears it.\<close>

definition optionFlags :: "(string \<times> bool \<times> u32) list" where
  "optionFlags =
     [(''acl'', False, MS_POSIXACL), (''async'', True, MS_SYNCHRONOUS), (''atime'', True, MS_NOATIME), (''bind'', False, MS_BIND),
      (''defaults'', False, 0), (''dev'', True, MS_NODEV), (''diratime'', True, MS_NODIRATIME), (''dirsync'', False, MS_DIRSYNC),
      (''exec'', True, MS_NOEXEC), (''iversion'', False, MS_I_VERSION), (''lazytime'', False, MS_LAZYTIME), (''loud'', True, MS_SILENT),
      (''mand'', False, MS_MANDLOCK), (''noacl'', True, MS_POSIXACL), (''noatime'', False, MS_NOATIME), (''nodev'', False, MS_NODEV),
      (''nodiratime'', False, MS_NODIRATIME), (''noexec'', False, MS_NOEXEC), (''noiversion'', True, MS_I_VERSION),
      (''nolazytime'', True, MS_LAZYTIME), (''nomand'', True, MS_MANDLOCK), (''norelatime'', True, MS_RELATIME),
      (''nostrictatime'', True, MS_STRICTATIME), (''nosuid'', False, MS_NOSUID), (''nosymfollow'', False, MS_NOSYMFOLLOW),
      (''rbind'', False, MS_BIND OR MS_REC), (''relatime'', False, MS_RELATIME), (''remount'', False, MS_REMOUNT),
      (''ro'', False, MS_RDONLY), (''rw'', True, MS_RDONLY), (''silent'', False, MS_SILENT), (''strictatime'', False, MS_STRICTATIME),
      (''suid'', True, MS_NOSUID), (''sync'', False, MS_SYNCHRONOUS)]"

definition propagationFlags :: "(string \<times> u32) list" where
  "propagationFlags =
     [(''rprivate'', MS_PRIVATE OR MS_REC), (''private'', MS_PRIVATE), (''rslave'', MS_SLAVE OR MS_REC), (''slave'', MS_SLAVE),
      (''rshared'', MS_SHARED OR MS_REC), (''shared'', MS_SHARED), (''runbindable'', MS_UNBINDABLE OR MS_REC), (''unbindable'', MS_UNBINDABLE)]"

definition extensionFlags :: "(string \<times> bool \<times> u32) list" where
  "extensionFlags = [(''copy-symlink'', False, COPY_SYMLINK)]"

definition set_or_clear :: "bool \<times> u32 \<Rightarrow> u32 \<Rightarrow> u32" where
  "set_or_clear cf flags = (if fst cf then flags AND NOT (snd cf) else flags OR snd cf)"

text \<open>An option of the first table without a flag (\<open>defaults\<close>) is looked up in the others and ends up in the data.\<close>

definition apply_option :: "box_mount \<Rightarrow> string \<Rightarrow> box_mount" where
  "apply_option m opt =
     (let of_flag = (case map_of optionFlags opt of Some cf \<Rightarrow> if snd cf \<noteq> 0 then Some cf else None | None \<Rightarrow> None) in
      case of_flag of
        Some cf \<Rightarrow> m\<lparr>bm_flags := set_or_clear cf (bm_flags m)\<rparr>
      | None \<Rightarrow>
         (case map_of propagationFlags opt of
            Some f \<Rightarrow> m\<lparr>bm_propagationFlags := bm_propagationFlags m OR f\<rparr>
          | None \<Rightarrow>
             (case map_of extensionFlags opt of
                Some cf \<Rightarrow> m\<lparr>bm_extensionFlags := set_or_clear cf (bm_extensionFlags m)\<rparr>
              | None \<Rightarrow> m\<lparr>bm_data := bm_data m @ [opt]\<rparr>)))"

text \<open>\<open>from_json\<close> on the mounts of the configuration that the other programs write. \<open>None\<close>: the end of the table is dereferenced.\<close>

definition mount_from_json :: "mount \<Rightarrow> box_mount option" where
  "mount_from_json j =
     map_option (\<lambda>t. foldl apply_option
       \<lparr>bm_destination = mnt_destination j, bm_type = mnt_type j, bm_source = mnt_source j, bm_data = [], bm_fsType = t,
        bm_flags = (if t = Bind then MS_BIND else 0), bm_propagationFlags = 0, bm_extensionFlags = 0\<rparr> (mnt_options j))
       (map_of fsTypes (mnt_type j))"

section \<open>Paths\<close>

type_synonym box_path = "string list"

definition str_spilt :: "string \<Rightarrow> char \<Rightarrow> string list" where
  "str_spilt s sep = filter (\<lambda>t. t \<noteq> []) (split_on sep s)"

definition str_vec_join :: "string list \<Rightarrow> char \<Rightarrow> string" where
  "str_vec_join vec sep = join_with sep vec"

definition path_of :: "string \<Rightarrow> box_path" where
  "path_of s = str_spilt s (CHR ''/'')"

definition path_string :: "box_path \<Rightarrow> string" where
  "path_string p = ''/'' @ str_vec_join p (CHR ''/'')"

text \<open>
  \<open>path\<close> derives from \<open>std::string\<close> but keeps its components in a member of its own: the inherited string, which \<open>c_str\<close> returns, stays empty.
\<close>

definition path_c_str :: "box_path \<Rightarrow> string" where
  "path_c_str p = []"

definition is_dir_mode :: "answer \<Rightarrow> bool" where
  "is_dir_mode a \<longleftrightarrow> ans_ret a = 0 \<and> ans_num a AND S_IFMT = S_IFDIR"

fun create_directories_from :: "string \<Rightarrow> string list \<Rightarrow> bool prog" where
  "create_directories_from fullPath [] = Ret True"
| "create_directories_from fullPath (e # es) =
     (let next = fullPath @ ''/'' @ e in
      Sys (Lstat next) (\<lambda>a. if is_dir_mode a then create_directories_from next es
        else Sys (Mkdir next) (\<lambda>r. if ans_ret r \<noteq> 0 then Ret False else create_directories_from next es)))"

definition create_directories :: "box_path \<Rightarrow> bool prog" where
  "create_directories p = create_directories_from [] p"

definition touch :: "box_path \<Rightarrow> bool prog" where
  "touch p = Sys (Lstat (path_string p)) (\<lambda>a. if ans_ret a \<noteq> 0
     then Sys (CreateFile (path_string p)) (\<lambda>r. Ret (ans_ret r = 0)) else Ret True)"

definition touch_symlink :: "string \<Rightarrow> box_path \<Rightarrow> int prog" where
  "touch_symlink target p = call (MakeLink target (path_string p))"

definition read_symlink :: "box_path \<Rightarrow> box_path prog" where
  "read_symlink p = Sys (RealPath (path_string p)) (\<lambda>a. Ret (if ans_ret a = 0 then path_of (ans_text a) else p))"

definition fd_path :: "int \<Rightarrow> string" where
  "fd_path fd = ''/proc/self/fd/'' @ show_int fd"

definition do_mount_with_fd ::
    "string \<Rightarrow> string option \<Rightarrow> string \<Rightarrow> string option \<Rightarrow> u32 \<Rightarrow> string option \<Rightarrow> int prog" where
  "do_mount_with_fd root special dir fstype flags data =
     Sys (OpenPath dir) (\<lambda>o'. let fd = ans_ret o' in
       if fd < 0 then Exit (-1)
       else Sys (FdPath fd) (\<lambda>l. if ans_ret l = -1 then Exit (-1)
         else if \<not> starts_with (ans_text l) root then Exit (-1)
         else Sys (MountCall special (fd_path fd) fstype flags data) (\<lambda>m.
           Sys (CloseFd fd) (\<lambda>_. Ret (ans_ret m)))))"

section \<open>File system drivers\<close>

datatype fs_driver = Native string | OverlayFuse "string list" string string string | FuseProxy "string list" string

fun driver_root :: "fs_driver \<Rightarrow> string" where
  "driver_root (Native rp) = rp"
| "driver_root (OverlayFuse lower upper work mount_point) = mount_point"
| "driver_root (FuseProxy mounts mount_point) = mount_point"

definition HostSource :: "fs_driver \<Rightarrow> box_path \<Rightarrow> box_path" where
  "HostSource d p = p"

definition HostPath :: "fs_driver \<Rightarrow> box_path \<Rightarrow> box_path" where
  "HostPath d p = HostSource d (path_of (driver_root d) @ p)"

text \<open>The native driver does not look at the result.\<close>

definition CreateDestinationPath :: "fs_driver \<Rightarrow> box_path \<Rightarrow> int prog" where
  "CreateDestinationPath d p =
     seqp (create_directories (HostPath d p)) (\<lambda>ok. Ret (case d of Native _ \<Rightarrow> 0 | _ \<Rightarrow> if ok then 0 else -1))"

section \<open>Mounting\<close>

record remount_node =
  rn_flags :: u32
  rn_extensionFlags :: u32
  rn_targetFd :: int
  rn_targetPath :: string
  rn_data :: string

record host_mount =
  hm_remountList :: "remount_node list"
  hm_sysfs_is_binded :: bool

definition HostMount_new :: host_mount where
  "HostMount_new = \<lparr>hm_remountList = [], hm_sysfs_is_binded = False\<rparr>"

text \<open>\<open>remount\<close>. After a failed call the variable with the result is assigned that of \<open>statfs\<close>.\<close>

definition remount :: "string \<Rightarrow> u32 \<Rightarrow> string \<Rightarrow> int prog" where
  "remount target flags data =
     (let data_ptr = (if has_flag flags (MS_REMOUNT OR MS_RDONLY) then None else Some data) in
      Sys (MountCall (Some ''none'') target (Some []) flags data_ptr) (\<lambda>m.
        if ans_ret m = 0 then Ret 0
        else Sys (StatFs target) (\<lambda>sfs.
          if ans_ret sfs < 0 then Ret (ans_ret sfs)
          else let kept = ans_num sfs AND (MS_NOSUID OR MS_NODEV OR MS_NOEXEC) in
            if flags OR kept \<noteq> flags
            then Sys (MountCall None target None (flags OR kept) data_ptr) (\<lambda>m2.
              if ans_ret m2 = 0 then Ret 0
              else if has_flag (ans_num sfs) MS_RDONLY
              then Sys (MountCall None target None (flags OR (ans_num sfs AND (MS_NOSUID OR MS_NODEV OR MS_NOEXEC OR MS_RDONLY))) data_ptr)
                     (\<lambda>m3. Ret (if ans_ret m3 < 0 then ans_ret m3 else 0))
              else Ret (if ans_ret m2 < 0 then ans_ret m2 else 0))
            else Ret (if ans_ret sfs < 0 then ans_ret sfs else 0))))"

definition finalizeMounts :: "host_mount \<Rightarrow> unit prog" where
  "finalizeMounts hm =
     for_each (\<lambda>node. seqp (remount (rn_targetPath node) (rn_flags node) (rn_data node)) (\<lambda>_.
       seqp (call (CloseFd (rn_targetFd node))) (\<lambda>_. Ret ()))) (hm_remountList hm)"

text \<open>
  The first part of \<open>MountNode\<close> makes the destination. \<open>Inl\<close>: \<open>MountNode\<close> returns at once; \<open>Inr\<close>: the source to mount and the descriptor it is open with,
  or -1.
\<close>

definition make_destination :: "fs_driver \<Rightarrow> box_mount \<Rightarrow> string \<Rightarrow> u32 \<Rightarrow> (int + string \<times> int) prog" where
  "make_destination drv m source mode =
     (let dest = path_of (bm_destination m); host = HostPath drv dest; kind = mode AND S_IFMT;
          parent_and_touch = seqp (CreateDestinationPath drv (butlast dest)) (\<lambda>_. seqp (touch host) (\<lambda>_. Ret (Inr (source, -1)))) in
      if kind = S_IFCHR \<or> kind = S_IFSOCK \<or> kind = S_IFREG then parent_and_touch
      else if kind = S_IFLNK
      then seqp (CreateDestinationPath drv (butlast dest)) (\<lambda>_.
        if has_flag (bm_flags m) MS_NOSYMFOLLOW
        then Sys (OpenLink source) (\<lambda>fd. if ans_ret fd < 0 then Exit (-1)
               else seqp (touch host) (\<lambda>_. Ret (Inr (fd_path (ans_ret fd), ans_ret fd))))
        else if has_flag (bm_extensionFlags m) COPY_SYMLINK
        then Sys (ReadLink source) (\<lambda>l. if ans_ret l = -1 then Ret (Inl (-1))
               else seqp (touch_symlink (ans_text l) host) (\<lambda>r. Ret (Inl r)))
        else seqp (touch host) (\<lambda>ok. if \<not> ok then Ret (Inl (-1))
               else seqp (read_symlink (path_of source)) (\<lambda>p. Ret (Inr (path_string p, -1)))))
      else seqp (CreateDestinationPath drv dest) (\<lambda>_. Ret (Inr (source, -1))))"

definition all_propagations :: u32 where
  "all_propagations = MS_SHARED OR MS_PRIVATE OR MS_SLAVE OR MS_UNBINDABLE"

definition set_propagation :: "fs_driver \<Rightarrow> box_mount \<Rightarrow> int prog" where
  "set_propagation drv m =
     (let dest = path_string (HostPath drv (path_of (bm_destination m))); root = path_c_str (HostPath drv []) in
      if has_flag (bm_propagationFlags m) all_propagations
      then do_mount_with_fd root None dest None
             ((bm_propagationFlags m AND MS_REC) OR (bm_propagationFlags m AND all_propagations)) None
      else Ret 0)"

text \<open>The options of a bind mount need another call; for a read-only mount it comes after all mounts are made.\<close>

definition bind_options :: "fs_driver \<Rightarrow> box_mount \<Rightarrow> host_mount \<Rightarrow> int \<Rightarrow> (int \<times> host_mount) prog" where
  "bind_options drv m hm ret =
     (let dest = path_string (HostPath drv (path_of (bm_destination m))); data = str_vec_join (bm_data m) (CHR '','') in
      if ret < 0 then Ret (ret, hm)
      else if data = [] \<and> bm_flags m AND NOT (MS_BIND OR MS_REC OR MS_REMOUNT) = 0 then Ret (ret, hm)
      else if has_flag (bm_flags m) MS_NOSYMFOLLOW then Ret (ret, hm)
      else let real_flags = bm_flags m OR MS_BIND OR MS_REMOUNT in
        if \<not> has_flag real_flags MS_RDONLY then seqp (remount dest real_flags data) (\<lambda>r. Ret (r, hm))
        else Sys (OpenPath dest) (\<lambda>fd. if ans_ret fd = -1 then Ret (ret, hm)
          else Ret (ret, hm\<lparr>hm_remountList := hm_remountList hm @
            [\<lparr>rn_flags = real_flags, rn_extensionFlags = bm_extensionFlags m, rn_targetFd = ans_ret fd,
              rn_targetPath = fd_path (ans_ret fd), rn_data = data\<rparr>]\<rparr>)))"

definition mount_bind :: "fs_driver \<Rightarrow> box_mount \<Rightarrow> string \<Rightarrow> host_mount \<Rightarrow> (int \<times> host_mount) prog" where
  "mount_bind drv m source hm =
     (let dest = path_string (HostPath drv (path_of (bm_destination m)));
          bind_flags = (bm_flags m OR MS_BIND) AND ((MS_BIND OR MS_REC) AND NOT MS_RDONLY) in
      seqp (do_mount_with_fd (path_c_str (HostPath drv [])) (Some source) dest None bind_flags None) (\<lambda>ret.
        if ret \<noteq> 0 then Ret (ret, hm)
        else seqp (set_propagation drv m)
               (bind_options drv m (if source = ''/sys'' then hm\<lparr>hm_sysfs_is_binded := True\<rparr> else hm))))"

text \<open>The virtual file systems; \<open>sysfs\<close> and \<open>mqueue\<close> fall back to binding those of the host.\<close>

definition mount_virtual :: "fs_driver \<Rightarrow> box_mount \<Rightarrow> string \<Rightarrow> host_mount \<Rightarrow> (int \<times> host_mount) prog" where
  "mount_virtual drv m source hm =
     (let dest = path_string (HostPath drv (path_of (bm_destination m))); root = path_c_str (HostPath drv []);
          data = str_vec_join (bm_data m) (CHR '',''); fallback = (\<lambda>p. do_mount_with_fd root (Some p) dest None (MS_BIND OR MS_REC) None) in
      seqp (do_mount_with_fd root (Some source) dest (Some (bm_type m)) (bm_flags m) (Some data)) (\<lambda>ret.
        if ret < 0 \<and> bm_fsType m = Sysfs
        then seqp (fallback ''/sys'') (\<lambda>r. Ret (r, if r = 0 then hm\<lparr>hm_sysfs_is_binded := True\<rparr> else hm))
        else if ret < 0 \<and> bm_fsType m = Mqueue then seqp (fallback ''/dev/mqueue'') (\<lambda>r. Ret (r, hm))
        else Ret (ret, hm)))"

definition mount_cgroup :: "fs_driver \<Rightarrow> box_mount \<Rightarrow> string \<Rightarrow> host_mount \<Rightarrow> (int \<times> host_mount) prog" where
  "mount_cgroup drv m source hm =
     seqp (do_mount_with_fd (path_c_str (HostPath drv [])) (Some source) (path_string (HostPath drv (path_of (bm_destination m))))
             (Some (bm_type m)) (bm_flags m) (Some (str_vec_join (bm_data m) (CHR '','')))) (\<lambda>ret.
       Ret (if hm_sysfs_is_binded hm then 0 else ret, hm))"

text \<open>For a type that is not supported the result is that of looking at the source.\<close>

definition mount_by_type :: "fs_driver \<Rightarrow> box_mount \<Rightarrow> string \<Rightarrow> int \<Rightarrow> host_mount \<Rightarrow> (int \<times> host_mount) prog" where
  "mount_by_type drv m source ret hm =
     (if bm_fsType m = Bind then mount_bind drv m source hm
      else if bm_fsType m \<in> {Proc, Devpts, Mqueue, Tmpfs, Sysfs} then mount_virtual drv m source hm
      else if bm_fsType m = Cgroup then mount_cgroup drv m source hm
      else Ret (ret, hm))"

definition MountNode :: "fs_driver \<Rightarrow> box_mount \<Rightarrow> host_mount \<Rightarrow> (int \<times> host_mount) prog" where
  "MountNode drv m hm =
     (let source = (if starts_with (bm_source m) ''/'' then path_string (HostSource drv (path_of (bm_source m))) else bm_source m);
          look = (if has_flag (bm_flags m) MS_NOSYMFOLLOW \<or> has_flag (bm_extensionFlags m) COPY_SYMLINK then Lstat source else Stat source) in
      Sys look (\<lambda>st.
        if ans_ret st \<noteq> 0 \<and> bm_fsType m = Bind then Ret (-1, hm)
        else seqp (make_destination drv m source (if ans_ret st = 0 then ans_num st else 0)) (\<lambda>made.
          case made of
            Inl r \<Rightarrow> Ret (r, hm)
          | Inr (src, fd) \<Rightarrow> seqp (mount_by_type drv m src (ans_ret st) hm) (\<lambda>res.
              if fd \<noteq> -1 then seqp (call (CloseFd fd)) (\<lambda>_. Ret res) else Ret res))))"

text \<open>\<open>MountContainerPath\<close> of \<open>container.cpp\<close>: a mount that fails is only reported.\<close>

fun MountContainerPath :: "fs_driver \<Rightarrow> box_mount list \<Rightarrow> host_mount \<Rightarrow> host_mount prog" where
  "MountContainerPath drv [] hm = Ret hm"
| "MountContainerPath drv (m # ms) hm = seqp (MountNode drv m hm) (\<lambda>res. MountContainerPath drv ms (snd res))"

section \<open>Lemmas\<close>

lemma or_and_same: "(flags OR x) AND flags = (flags :: u32)"
  by (simp add: word_ao_absorbs)

lemma has_flag_or: "has_flag flags a \<Longrightarrow> has_flag flags (a OR b)"
proof -
  have "flags AND a = (flags AND (a OR b)) AND a" by (rule bit_word_eqI) (auto simp: bit_simps)
  then show "has_flag flags a \<Longrightarrow> has_flag flags (a OR b)" by (auto simp: has_flag_def)
qed

text \<open>Whatever the kernel answers, \<open>remount\<close> asks for the requested flags, never for fewer, on the target only and without data.\<close>

lemma remount_calls:
  "all_calls (\<lambda>c. case c of MountCall sp t fs fl d \<Rightarrow> t = target \<and> fl AND flags = flags \<and> (has_flag flags MS_REMOUNT \<longrightarrow> d = None)
      | StatFs t \<Rightarrow> t = target | _ \<Rightarrow> False) (remount target flags data)"
proof -
  have "has_flag flags MS_REMOUNT \<Longrightarrow> has_flag flags (MS_REMOUNT OR MS_RDONLY)"
    by (rule has_flag_or)
  then show ?thesis by (auto simp: remount_def Let_def or_and_same)
qed

lemma finalizeMounts_remounts:
  assumes "ends (finalizeMounts hm) tr (Inr ())" and "node \<in> set (hm_remountList hm)"
  shows "\<exists>a d. (MountCall (Some ''none'') (rn_targetPath node) (Some []) (rn_flags node) d, a) \<in> set tr"
proof -
  from for_each_part [OF assms(1) [unfolded finalizeMounts_def] assms(2)] obtain t r t1 where
    "set t1 \<subseteq> set t" "set t \<subseteq> set tr" "ends (remount (rn_targetPath node) (rn_flags node) (rn_data node)) t1 (Inr r)"
    by (auto simp: ends_seqp_Inr)
  moreover from this(3) have "\<exists>d a t'. t1 = (MountCall (Some ''none'') (rn_targetPath node) (Some []) (rn_flags node) d, a) # t'"
    unfolding remount_def Let_def ends_Sys by blast
  ultimately show ?thesis by fastforce
qed

text \<open>
  The process ends in \<open>MountNode\<close> only because a file could not be opened or the link of a descriptor not be read. The check of the mount target is against
  the empty text, and so every target passes.
\<close>

definition failed_open :: "sys_trace \<Rightarrow> bool" where
  "failed_open tr \<longleftrightarrow> (\<exists>e \<in> set tr. (case fst e of OpenPath _ \<Rightarrow> True | OpenLink _ \<Rightarrow> True | FdPath _ \<Rightarrow> True | _ \<Rightarrow> False) \<and> ans_ret (snd e) < 0)"

definition exits_on_open :: "'a prog \<Rightarrow> bool" where
  "exits_on_open p \<longleftrightarrow> (\<forall>tr n. ends p tr (Inl n) \<longrightarrow> failed_open tr)"

named_theorems exit_rules

lemma failed_open_append [simp]: "failed_open (t1 @ t2) \<longleftrightarrow> failed_open t1 \<or> failed_open t2"
  by (auto simp: failed_open_def)

lemma failed_open_later: "failed_open tr \<Longrightarrow> failed_open (e # tr)"
  by (auto simp: failed_open_def)

lemma exits_Ret [exit_rules]: "exits_on_open (Ret x)"
  by (simp add: exits_on_open_def)

lemma exits_Sys [exit_rules]: "(\<And>a. exits_on_open (k a)) \<Longrightarrow> exits_on_open (Sys c k)"
  by (auto simp: exits_on_open_def intro: failed_open_later)

lemma exits_seqp [exit_rules]: "exits_on_open p \<Longrightarrow> (\<And>x. exits_on_open (f x)) \<Longrightarrow> exits_on_open (seqp p f)"
  by (fastforce simp: exits_on_open_def ends_seqp)

lemma exits_call [exit_rules]: "exits_on_open (call c)"
  by (simp add: call_def exit_rules)

lemma exits_if [exit_rules]: "(b \<Longrightarrow> exits_on_open p) \<Longrightarrow> (\<not> b \<Longrightarrow> exits_on_open q) \<Longrightarrow> exits_on_open (if b then p else q)"
  by simp

lemma exits_case [exit_rules]:
  "(\<And>r. exits_on_open (f r)) \<Longrightarrow> (\<And>s fd. exits_on_open (g s fd)) \<Longrightarrow> exits_on_open (case x of Inl r \<Rightarrow> f r | Inr (s, fd) \<Rightarrow> g s fd)"
  by (simp split: sum.split prod.split)

lemma exits_do_mount [exit_rules]: "exits_on_open (do_mount_with_fd (path_c_str p) sp dir fs fl d)"
  by (auto simp: exits_on_open_def failed_open_def do_mount_with_fd_def path_c_str_def Let_def split: if_splits)

lemma exits_OpenLink [exit_rules]:
  assumes "\<And>fd. exits_on_open (k fd)"
  shows "exits_on_open (Sys (OpenLink s) (\<lambda>fd. if ans_ret fd < 0 then Exit (-1) else k fd))"
  using assms by (auto simp: exits_on_open_def failed_open_def [of "[_]"] intro: failed_open_later split: if_splits)

lemma exits_create [exit_rules]: "exits_on_open (create_directories_from s es)"
  by (induction es arbitrary: s) (auto simp: Let_def intro!: exit_rules)

lemma exits_make_destination [exit_rules]: "exits_on_open (make_destination drv m src mode)"
  by (auto simp: make_destination_def Let_def CreateDestinationPath_def create_directories_def touch_def touch_symlink_def read_symlink_def intro!: exit_rules)

lemma exits_remount [exit_rules]: "exits_on_open (remount t fl d)"
  by (auto simp: remount_def Let_def intro!: exit_rules)

lemma exits_mount_by_type [exit_rules]: "exits_on_open (mount_by_type drv m src ret hm)"
  by (auto simp: mount_by_type_def mount_bind_def bind_options_def mount_virtual_def mount_cgroup_def set_propagation_def Let_def intro!: exit_rules)

lemma exits_MountNode: "exits_on_open (MountNode drv m hm)"
  unfolding MountNode_def Let_def by (intro exit_rules)

section \<open>Read-only mounts\<close>

text \<open>Calls that succeed: mounting, opening a path, and \<open>stat\<close>, which follows links.\<close>

definition good_answers :: "sys_trace \<Rightarrow> bool" where
  "good_answers tr \<longleftrightarrow> (\<forall>e \<in> set tr. case fst e of
     MountCall _ _ _ _ _ \<Rightarrow> ans_ret (snd e) = 0
   | OpenPath _ \<Rightarrow> 0 \<le> ans_ret (snd e)
   | Stat _ \<Rightarrow> ans_ret (snd e) = 0 \<and> ans_num (snd e) AND S_IFMT \<noteq> S_IFLNK
   | _ \<Rightarrow> True)"

definition ro_bind :: "box_mount \<Rightarrow> bool" where
  "ro_bind m \<longleftrightarrow> bm_fsType m = Bind \<and> has_flag (bm_flags m) MS_RDONLY \<and> \<not> has_flag (bm_flags m) MS_NOSYMFOLLOW \<and>
     \<not> has_flag (bm_extensionFlags m) COPY_SYMLINK"

lemma good_append [simp]: "good_answers (t1 @ t2) \<longleftrightarrow> good_answers t1 \<and> good_answers t2"
  by (auto simp: good_answers_def)

lemma good_Cons: "good_answers ((c, a) # tr) \<longleftrightarrow> good_answers [(c, a)] \<and> good_answers tr"
  using good_append [of "[(c, a)]" tr] by simp

lemma do_mount_good: "ends (do_mount_with_fd root sp dir fs fl d) tr (Inr r) \<Longrightarrow> good_answers tr \<Longrightarrow> r = 0"
  by (auto simp: do_mount_with_fd_def good_answers_def Let_def split: if_splits)

lemma set_propagation_good: "ends (set_propagation drv m) tr (Inr r) \<Longrightarrow> good_answers tr \<Longrightarrow> r = 0"
  by (auto simp: set_propagation_def Let_def dest: do_mount_good split: if_splits)

definition ro_node :: "box_mount \<Rightarrow> int \<Rightarrow> remount_node" where
  "ro_node m fd = \<lparr>rn_flags = bm_flags m OR MS_BIND OR MS_REMOUNT, rn_extensionFlags = bm_extensionFlags m, rn_targetFd = fd,
     rn_targetPath = fd_path fd, rn_data = str_vec_join (bm_data m) (CHR '','')\<rparr>"

lemma ro_flags:
  assumes "has_flag flags MS_RDONLY"
  shows "has_flag (flags OR MS_BIND OR MS_REMOUNT) MS_RDONLY" "flags AND NOT (MS_BIND OR MS_REC OR MS_REMOUNT) \<noteq> 0"
proof -
  have "bit flags 0" using assms by (simp add: has_flag_def MS_RDONLY_def and_one_eq mod_2_eq_odd bit_0 split: if_splits)
  then have "bit (flags AND NOT (MS_BIND OR MS_REC OR MS_REMOUNT)) 0" by (simp add: ms_flags bit_simps)
  then show "flags AND NOT (MS_BIND OR MS_REC OR MS_REMOUNT) \<noteq> 0" by auto
  have "has_flag (flags OR x) MS_RDONLY" for x
    using \<open>bit flags 0\<close> by (simp add: has_flag_def MS_RDONLY_def and_one_eq mod_2_eq_odd bit_0 even_or_iff)
  then show "has_flag (flags OR MS_BIND OR MS_REMOUNT) MS_RDONLY" by simp
qed

lemma bind_options_ro:
  assumes "ends (bind_options drv m hm 0) tr (Inr (r, hm'))" and "good_answers tr" and "ro_bind m"
  shows "\<exists>a. (OpenPath (path_string (HostPath drv (path_of (bm_destination m)))), a) \<in> set tr \<and>
    hm_remountList hm' = hm_remountList hm @ [ro_node m (ans_ret a)]"
  using assms ro_flags [of "bm_flags m"]
  by (auto simp: bind_options_def Let_def ro_bind_def ro_node_def good_answers_def split: if_splits)
    (drule arg_cong [of _ _ hm_remountList], simp)

lemma mount_bind_ro:
  assumes "ends (mount_bind drv m src hm) tr (Inr (r, hm'))" and "good_answers tr" and "ro_bind m"
  shows "\<exists>a. (OpenPath (path_string (HostPath drv (path_of (bm_destination m)))), a) \<in> set tr \<and>
    hm_remountList hm' = hm_remountList hm @ [ro_node m (ans_ret a)]"
proof -
  let ?hm1 = "if src = ''/sys'' then hm\<lparr>hm_sysfs_is_binded := True\<rparr> else hm"
  from assms(1,2) obtain t1 t2 t3 r2 where t: "tr = t1 @ t2 @ t3" "ends (set_propagation drv m) t2 (Inr r2)"
      "ends (bind_options drv m ?hm1 r2) t3 (Inr (r, hm'))"
    unfolding mount_bind_def Let_def ends_seqp_Inr by (auto simp: ends_seqp_Inr dest: do_mount_good split: if_splits)
  then have "r2 = 0" "good_answers t3" using assms(2) set_propagation_good by auto
  then show ?thesis using bind_options_ro [of drv m ?hm1 t3 r hm'] t(1,3) assms(3) by auto
qed

lemma make_destination_continues:
  assumes "ends (make_destination drv m src mode) tr (Inr (Inl r))"
  shows "mode AND S_IFMT = S_IFLNK"
  using assms by (auto simp: make_destination_def Let_def ends_seqp_Inr split: if_splits)

lemma MountNode_ro:
  assumes "ends (MountNode drv m hm) tr (Inr (r, hm'))" and "good_answers tr" and "ro_bind m"
  shows "\<exists>a. (OpenPath (path_string (HostPath drv (path_of (bm_destination m)))), a) \<in> set tr \<and>
    hm_remountList hm' = hm_remountList hm @ [ro_node m (ans_ret a)]"
proof -
  let ?source = "if starts_with (bm_source m) ''/'' then path_string (HostSource drv (path_of (bm_source m))) else bm_source m"
  have nf: "bm_fsType m = Bind" "\<not> has_flag (bm_flags m) MS_NOSYMFOLLOW" "\<not> has_flag (bm_extensionFlags m) COPY_SYMLINK"
    using assms(3) by (simp_all add: ro_bind_def)
  from assms(1) obtain st tr1 where st: "tr = (Stat ?source, st) # tr1" by (auto simp: MountNode_def Let_def nf)
  with assms(2) have ok: "ans_ret st = 0" "ans_num st AND S_IFMT \<noteq> S_IFLNK" "good_answers tr1" by (auto simp: good_answers_def)
  from assms(1) st ok(1) obtain made t1 t2 where t: "tr1 = t1 @ t2"
      "ends (make_destination drv m ?source (ans_num st)) t1 (Inr made)"
      "ends (case made of Inl r \<Rightarrow> Ret (r, hm) | Inr (src, fd) \<Rightarrow> seqp (mount_by_type drv m src 0 hm) (\<lambda>res.
          if fd \<noteq> -1 then seqp (call (CloseFd fd)) (\<lambda>_. Ret res) else Ret res)) t2 (Inr (r, hm'))"
    by (auto simp: MountNode_def Let_def nf ends_seqp_Inr)
  from make_destination_continues t(2) ok(2) obtain src fd where made: "made = Inr (src, fd)" by (cases made) auto
  from t(3) obtain t3 t4 where "t2 = t3 @ t4" "ends (mount_bind drv m src hm) t3 (Inr (r, hm'))"
    by (auto simp: made mount_by_type_def nf(1) ends_seqp_Inr split: if_splits)
  then show ?thesis using mount_bind_ro [of drv m src hm t3 r hm'] assms(3) ok(3) st t(1) by auto
qed

definition keeps_nodes :: "host_mount \<Rightarrow> (int \<times> host_mount) prog \<Rightarrow> bool" where
  "keeps_nodes hm p \<longleftrightarrow> (\<forall>tr r hm'. ends p tr (Inr (r, hm')) \<longrightarrow> (\<exists>ns. hm_remountList hm' = hm_remountList hm @ ns))"

named_theorems keep_rules

lemma keeps_Ret [keep_rules]: "\<exists>ns. hm_remountList (snd res) = hm_remountList hm @ ns \<Longrightarrow> keeps_nodes hm (Ret res)"
  by (auto simp: keeps_nodes_def)

lemma keeps_Sys [keep_rules]: "(\<And>a. keeps_nodes hm (k a)) \<Longrightarrow> keeps_nodes hm (Sys c k)"
  unfolding keeps_nodes_def ends_Sys by blast

lemma keeps_seqp [keep_rules]: "(\<And>x. keeps_nodes hm (f x)) \<Longrightarrow> keeps_nodes hm (seqp p f)"
  unfolding keeps_nodes_def ends_seqp_Inr by blast

lemma keeps_nodes_if [keep_rules]: "keeps_nodes hm p \<Longrightarrow> keeps_nodes hm q \<Longrightarrow> keeps_nodes hm (if b then p else q)"
  by simp

lemma keeps_mount_by_type: "keeps_nodes hm (mount_by_type drv m src ret hm)"
  unfolding mount_by_type_def mount_bind_def bind_options_def mount_virtual_def mount_cgroup_def Let_def
  by (intro keep_rules) (simp_all split: if_split)

lemma remount_list_grows:
  assumes "ends (MountNode drv m hm) tr (Inr (r, hm'))"
  shows "\<exists>ns. hm_remountList hm' = hm_remountList hm @ ns"
proof -
  have "keeps_nodes hm (seqp (mount_by_type drv m src ret hm) (\<lambda>res. if fd \<noteq> -1 then seqp (call (CloseFd fd)) (\<lambda>_. Ret res) else Ret res))" for src ret fd
    using keeps_mount_by_type [of hm drv m src ret] unfolding keeps_nodes_def ends_seqp_Inr
    by (auto simp: ends_seqp_Inr split: if_splits)
  then have "keeps_nodes hm (MountNode drv m hm)" unfolding MountNode_def Let_def
    by (intro keep_rules) (auto intro: keep_rules split: sum.split)
  then show ?thesis using assms unfolding keeps_nodes_def by blast
qed

lemma MountContainerPath_grows:
  "ends (MountContainerPath drv ms hm) tr (Inr hm') \<Longrightarrow> \<exists>ns. hm_remountList hm' = hm_remountList hm @ ns"
proof (induction ms arbitrary: hm tr)
  case (Cons m ms)
  then obtain res t1 t2 where "tr = t1 @ t2" "ends (MountNode drv m hm) t1 (Inr res)" "ends (MountContainerPath drv ms (snd res)) t2 (Inr hm')"
    by (auto simp: ends_seqp_Inr)
  then show ?case using Cons.IH remount_list_grows [of drv m hm t1 "fst res" "snd res"] by fastforce
qed simp

lemma MountContainerPath_ro:
  assumes "ends (MountContainerPath drv ms hm) tr (Inr hm')" and "good_answers tr" and "m \<in> set ms" and "ro_bind m"
  shows "\<exists>a. (OpenPath (path_string (HostPath drv (path_of (bm_destination m)))), a) \<in> set tr \<and> ro_node m (ans_ret a) \<in> set (hm_remountList hm')"
  using assms(1-3)
proof (induction ms arbitrary: hm tr)
  case (Cons q ms)
  then obtain res t1 t2 where t: "tr = t1 @ t2" "ends (MountNode drv q hm) t1 (Inr res)" "ends (MountContainerPath drv ms (snd res)) t2 (Inr hm')"
    by (auto simp: ends_seqp_Inr)
  show ?case
  proof (cases "m = q")
    case True
    then obtain a where "(OpenPath (path_string (HostPath drv (path_of (bm_destination m)))), a) \<in> set t1"
        "ro_node m (ans_ret a) \<in> set (hm_remountList (snd res))"
      using MountNode_ro [of drv q hm t1 "fst res" "snd res"] t(1,2) Cons.prems(2) assms(4) by auto
    then show ?thesis using MountContainerPath_grows [OF t(3)] t(1) by auto
  next
    case False
    then show ?thesis using Cons.IH [OF t(3)] Cons.prems(2,3) t(1) by auto
  qed
qed simp



text \<open>A remount that fails is reported as done when the file system has no flag that was not asked for.\<close>

lemma failed_remount_succeeds:
  assumes "ans_ret m \<noteq> 0" and "ans_ret s = 0" and "ans_num s AND (MS_NOSUID OR MS_NODEV OR MS_NOEXEC) = 0"
  shows "ends (remount target flags data)
    [(MountCall (Some ''none'') target (Some []) flags (if has_flag flags (MS_REMOUNT OR MS_RDONLY) then None else Some data), m), (StatFs target, s)] (Inr 0)"
  using assms by (simp add: remount_def Let_def)

text \<open>The mounts that the library makes of the root of an application are such binds, unless they are symbolic links.\<close>

lemma root_bind_read_only:
  "\<exists>m. mount_from_json (bind_mount source dest False) = Some m \<and> ro_bind m \<and> bm_destination m = dest \<and> bm_source m = source \<and> bm_data m = []"
  by (simp add: mount_from_json_def bind_mount_def fsTypes_def apply_option_def optionFlags_def set_or_clear_def ro_bind_def has_flag_def ms_flags Let_def)

text \<open>The option \<open>defaults\<close> is passed on as data, and a later option overrides an earlier one.\<close>

lemma option_examples:
  "bm_data (apply_option m ''defaults'') = bm_data m @ [''defaults'']"
  "bm_flags (apply_option (apply_option m ''ro'') ''rw'') = bm_flags m AND NOT MS_RDONLY"
  by (simp_all add: apply_option_def optionFlags_def propagationFlags_def extensionFlags_def set_or_clear_def ms_flags Let_def)
    (rule bit_word_eqI, auto simp: bit_simps)

section \<open>An example\<close>

definition demo_ro_mount :: box_mount where
  "demo_ro_mount = \<lparr>bm_destination = ''/opt'', bm_type = ''bind'', bm_source = ''/src'', bm_data = [], bm_fsType = Bind, bm_flags = 4097,
     bm_propagationFlags = 0, bm_extensionFlags = 0\<rparr>"

definition demo_kernel :: "sys_trace \<Rightarrow> sys_call \<Rightarrow> answer" where
  "demo_kernel past c = (case c of
     OpenPath _ \<Rightarrow> \<lparr>ans_ret = 7, ans_num = 0, ans_text = []\<rparr>
   | FdPath _ \<Rightarrow> \<lparr>ans_ret = 0, ans_num = 0, ans_text = ''/root/opt''\<rparr>
   | _ \<Rightarrow> \<lparr>ans_ret = 0, ans_num = S_IFDIR, ans_text = []\<rparr>)"

definition demo_mounts_run :: "sys_trace \<times> (int + host_mount)" where
  "demo_mounts_run = run_prog (MountContainerPath (Native ''/root'') [demo_ro_mount] HostMount_new) demo_kernel []"

definition demo_host_mount :: host_mount where
  "demo_host_mount = \<lparr>hm_remountList = [ro_node demo_ro_mount 7], hm_sysfs_is_binded = False\<rparr>"

lemma demo_mounts_end: "snd demo_mounts_run = Inr demo_host_mount" "good_answers (fst demo_mounts_run)"
  by code_simp+



end
