(* ===== verification/Box_Container.thy ===== *)
theory Box_Container
  imports Box_Mount
begin

unbundle bit_operations_syntax

text \<open>
  The container of \<open>ll-box\<close> (\<open>container/container.cpp\<close>, \<open>container/helper.cpp\<close>, \<open>util/platform.cpp\<close>). Each process is a program of system calls of its own: the one
  that is started (\<open>Container_Start\<close>), the entry process in the new namespaces, which makes the mounts and changes the root, the unprivileged process
  below it, and the application. \<open>CloneCall\<close> and \<open>Fork\<close> are seen from the parent. A process id is an answer; a negative one is an error.
  Asserts are on. The links in \<open>/dev\<close> are made in the order of their table, which the code leaves open.
\<close>

section \<open>Configuration\<close>

record id_map =
  im_containerID :: u64
  im_hostID :: u64
  im_size :: u64

record box_process =
  bp_args :: "string list"
  bp_env :: "string list"
  bp_cwd :: string

record box_hook =
  bh_path :: string
  bh_args :: "string list option"
  bh_env :: "string list option"

record box_resources =
  mem_limit :: int
  mem_reservation :: int
  mem_swap :: int
  cpu_shares :: u64
  cpu_quota :: int
  cpu_period :: u64

record box_runtime =
  rt_rootPath :: string
  rt_process :: box_process
  rt_namespaces :: "u32 list"
  rt_uidMappings :: "id_map list"
  rt_gidMappings :: "id_map list"
  rt_cgroupsPath :: string
  rt_resources :: box_resources
  rt_mounts :: "box_mount list option"
  rt_prestart :: "box_hook list"
  rt_startContainer :: "box_hook list"

definition CLONE_NEWNS :: u32 where "CLONE_NEWNS = 0x00020000"
definition CLONE_NEWCGROUP :: u32 where "CLONE_NEWCGROUP = 0x02000000"
definition CLONE_NEWUTS :: u32 where "CLONE_NEWUTS = 0x04000000"
definition CLONE_NEWIPC :: u32 where "CLONE_NEWIPC = 0x08000000"
definition CLONE_NEWUSER :: u32 where "CLONE_NEWUSER = 0x10000000"
definition CLONE_NEWPID :: u32 where "CLONE_NEWPID = 0x20000000"
definition CLONE_NEWNET :: u32 where "CLONE_NEWNET = 0x40000000"
definition SIGCHLD :: u32 where "SIGCHLD = 17"

lemmas clone_flags = CLONE_NEWNS_def CLONE_NEWCGROUP_def CLONE_NEWUTS_def CLONE_NEWIPC_def CLONE_NEWUSER_def CLONE_NEWPID_def CLONE_NEWNET_def SIGCHLD_def

text \<open>\<open>from_json\<close> of a namespace; \<open>None\<close>: the end of the table is dereferenced.\<close>

definition namespaceType :: "string \<Rightarrow> u32 option" where
  "namespaceType = map_of [(''pid'', CLONE_NEWPID), (''uts'', CLONE_NEWUTS), (''mount'', CLONE_NEWNS), (''cgroup'', CLONE_NEWCGROUP),
     (''network'', CLONE_NEWNET), (''ipc'', CLONE_NEWIPC), (''user'', CLONE_NEWUSER)]"

section \<open>Waiting\<close>

text \<open>What \<open>waitpid\<close> without options returns: a child and its status, no child, or another error.\<close>

datatype wait_result = Reaped int nat | NoChildLeft | WaitFailed

definition parse_wstatus :: "nat \<Rightarrow> bool" where
  "parse_wstatus wstatus \<longleftrightarrow> wstatus mod 128 = 0 \<and> wstatus div 256 mod 256 = 0"

partial_function (option) DoWait :: "(nat \<Rightarrow> wait_result) \<Rightarrow> nat \<Rightarrow> int \<Rightarrow> int \<Rightarrow> int option" where
  "DoWait waits k pid target =
     (case waits k of
        Reaped child wstatus \<Rightarrow>
          if child = target \<or> child = pid then Some (if parse_wstatus wstatus then 0 else -1) else DoWait waits (Suc k) pid target
      | NoChildLeft \<Rightarrow> Some (-1)
      | WaitFailed \<Rightarrow> Some (-1))"

declare DoWait.simps [code]

definition WaitAll :: "(nat \<Rightarrow> wait_result) \<Rightarrow> int option" where
  "WaitAll waits = DoWait waits 0 (-1) 0"

definition Wait :: "(nat \<Rightarrow> wait_result) \<Rightarrow> int \<Rightarrow> int option" where
  "Wait waits pid = DoWait waits 0 pid 0"

definition WaitAllUntil :: "(nat \<Rightarrow> wait_result) \<Rightarrow> int \<Rightarrow> int option" where
  "WaitAllUntil waits pid = DoWait waits 0 (-1) pid"

section \<open>Namespaces and control groups\<close>

definition write_file :: "string \<Rightarrow> string \<Rightarrow> bool prog" where
  "write_file path text = Sys (OpenWrite path) (\<lambda>o'. if ans_ret o' < 0 then Ret False else Sys (WriteText path text) (\<lambda>_. Ret True))"

definition id_map_line :: "id_map \<Rightarrow> string" where
  "id_map_line m = show_nat (unat (im_containerID m)) @ '' '' @ show_nat (unat (im_hostID m)) @ '' '' @ show_nat (unat (im_size m)) @ [CHR 0x0A]"

definition ConfigUserNamespace :: "id_map list \<Rightarrow> id_map list \<Rightarrow> int \<Rightarrow> int prog" where
  "ConfigUserNamespace uidMappings gidMappings initPid =
     (let proc = ''/proc/'' @ (if 0 < initPid then show_int initPid else ''self'') in
      seqp (write_file (proc @ ''/uid_map'') (concat (map id_map_line uidMappings))) (\<lambda>ok. if \<not> ok then Ret (-1) else
      seqp (write_file (proc @ ''/setgroups'') ''deny'') (\<lambda>ok. if \<not> ok then Ret (-1) else
      seqp (write_file (proc @ ''/gid_map'') (concat (map id_map_line gidMappings))) (\<lambda>ok. if \<not> ok then Ret (-1) else Ret 0))))"

text \<open>\<open>%d\<close> prints the low 32 bits of a number as a signed one.\<close>

definition show_d :: "int \<Rightarrow> string" where
  "show_d i = show_int (sint (word_of_int i :: u32))"

text \<open>The weight of 1 to 10000 for shares of 2 to 262144, in unsigned arithmetic of 64 bits.\<close>

definition cpu_weight :: "u64 \<Rightarrow> u64" where
  "cpu_weight shares = 1 + ((shares - 2) * 9999) div 262142"

text \<open>The files are written in the order of their names; the first that cannot be opened ends it.\<close>

fun writeConfig :: "(string \<times> string) list \<Rightarrow> bool prog" where
  "writeConfig [] = Ret True"
| "writeConfig ((f, text) # cfgs) = seqp (write_file f (text @ [CHR 0x0A])) (\<lambda>ok. if \<not> ok then Ret False else writeConfig cfgs)"

definition memory_config :: "string \<Rightarrow> box_resources \<Rightarrow> (string \<times> string) list" where
  "memory_config sub res =
     (if mem_limit res \<le> 0 then []
      else [(sub @ ''/memory.low'', show_d (mem_reservation res)), (sub @ ''/memory.max'', show_d (mem_limit res)),
            (sub @ ''/memory.swap.max'', show_d (mem_swap res - mem_limit res))])"

definition cpu_config :: "string \<Rightarrow> box_resources \<Rightarrow> (string \<times> string) list" where
  "cpu_config sub res =
     [(sub @ ''/cpu.max'', show_d (cpu_quota res) @ '' '' @ show_d (uint (cpu_period res))), (sub @ ''/cpu.weight'', show_d (uint (cpu_weight (cpu_shares res))))]"

definition ConfigCgroupV2 :: "string \<Rightarrow> box_resources \<Rightarrow> int \<Rightarrow> int prog" where
  "ConfigCgroupV2 cgroupsPath res initPid =
     (if cgroupsPath = [] then Ret 0
      else let cgroupsRoot = path_of cgroupsPath; sub = path_string (cgroupsRoot @ [''ll-box'']) in
        seqp (create_directories cgroupsRoot) (\<lambda>ok. if \<not> ok then Ret (-1) else
        seqp (call (MountCall (Some ''cgroup2'') (path_string cgroupsRoot) (Some ''cgroup2'') 0 None)) (\<lambda>ret. if ret \<noteq> 0 then Ret (-1) else
        seqp (create_directories (cgroupsRoot @ [''ll-box''])) (\<lambda>ok. if \<not> ok then Ret (-1) else
        seqp (writeConfig (memory_config sub res)) (\<lambda>ok. if \<not> ok then Ret (-1) else
        seqp (writeConfig (cpu_config sub res)) (\<lambda>ok. if \<not> ok then Ret (-1) else
        seqp (writeConfig [(sub @ ''/cgroup.procs'', show_d initPid)]) (\<lambda>ok. Ret (if \<not> ok then -1 else 0))))))))"

section \<open>The entry process\<close>

definition hostRoot :: "string \<Rightarrow> box_runtime \<Rightarrow> string" where
  "hostRoot bundle r = (if starts_with (rt_rootPath r) ''/'' then rt_rootPath r else bundle @ ''/'' @ rt_rootPath r)"

definition DropPermissions :: "int prog" where
  "DropPermissions =
     Sys GetGid (\<lambda>gid. Sys GetUid (\<lambda>uid. Sys GetEuid (\<lambda>euid.
       seqp (if ans_ret euid = 0 then call (SetGroups (nat (ans_ret gid))) else Ret 0) (\<lambda>_.
       seqp (call (SetEuid (nat (ans_ret uid)))) (\<lambda>_. Ret 0)))))"

definition linkMap :: "(string \<times> string) list" where
  "linkMap = [(''/proc/kcore'', ''/dev/core''), (''/proc/self/fd'', ''/dev/fd''), (''/proc/self/fd/2'', ''/dev/stderr''),
     (''/proc/self/fd/0'', ''/dev/stdin''), (''/proc/self/fd/1'', ''/dev/stdout'')]"

fun make_links :: "(string \<times> string) list \<Rightarrow> int prog" where
  "make_links [] = Ret 0"
| "make_links ((from, to) # ls) = Sys (MakeLink from to) (\<lambda>a. if ans_ret a = -1 then Ret (-1) else make_links ls)"

definition PrepareLinks :: "int prog" where
  "PrepareLinks = Sys (Chdir ''/'') (\<lambda>a. if ans_ret a = -1 then Ret (-1) else make_links linkMap)"

definition device_mount :: "string \<Rightarrow> box_mount" where
  "device_mount path = \<lparr>bm_destination = path, bm_type = ''bind'', bm_source = path, bm_data = [], bm_fsType = Bind, bm_flags = MS_BIND,
     bm_propagationFlags = 0, bm_extensionFlags = 0\<rparr>"

definition default_devices :: "string list" where
  "default_devices = [''/dev/null'', ''/dev/zero'', ''/dev/full'', ''/dev/random'', ''/dev/urandom'', ''/dev/tty'']"

definition PrepareDefaultDevices :: "string \<Rightarrow> host_mount \<Rightarrow> (int \<times> host_mount) prog" where
  "PrepareDefaultDevices root hm =
     seqp (MountContainerPath (Native root) (map device_mount default_devices) hm) (\<lambda>hm'.
       Sys (MakeLink ''/dev/pts/ptmx'' (root @ ''/dev/ptmx'')) (\<lambda>a. Ret (ans_ret a, hm')))"

text \<open>A list of calls, each of which has to return 0.\<close>

fun calls_ok :: "sys_call list \<Rightarrow> int prog" where
  "calls_ok [] = Ret 0"
| "calls_ok (c # cs) = Sys c (\<lambda>a. if ans_ret a \<noteq> 0 then Ret (-1) else calls_ok cs)"

definition pivot_calls :: "string \<Rightarrow> sys_call list" where
  "pivot_calls root =
     [Chdir root, MountCall (Some ''.'') ''.'' (Some ''bind'') (MS_BIND OR MS_REC) None, Mkdir (root @ ''/run/ll-host''),
      PivotRootCall root (root @ ''/run/ll-host''), Chdir ''/'', Chroot ''.'', Chdir ''/'', Umount ''/run/ll-host'']"

definition PivotRoot :: "string \<Rightarrow> host_mount \<Rightarrow> int prog" where
  "PivotRoot root hm = seqp (finalizeMounts hm) (\<lambda>_. calls_ok (pivot_calls root))"

definition slave_root :: sys_call where
  "slave_root = MountCall None ''/'' None (MS_REC OR MS_SLAVE) None"

text \<open>The entry process up to the new root; the result is 0 or the exit code. The process id \<open>pid\<close> is that of the process itself.\<close>

definition change_root :: "string \<Rightarrow> host_mount \<Rightarrow> int prog" where
  "change_root root hm =
     seqp (PivotRoot root hm) (\<lambda>ret. if ret = -1 then Ret (-1) else
     seqp PrepareLinks (\<lambda>ret. if ret = -1 then Ret (-1) else Ret 0))"

definition mount_and_change :: "string \<Rightarrow> box_runtime \<Rightarrow> bool \<Rightarrow> int \<Rightarrow> int prog" where
  "mount_and_change root r useNewCgroupNs pid =
     seqp (MountContainerPath (Native root) (case rt_mounts r of None \<Rightarrow> [] | Some ms \<Rightarrow> ms) HostMount_new) (\<lambda>hm.
     seqp (if useNewCgroupNs then ConfigCgroupV2 (rt_cgroupsPath r) (rt_resources r) pid else Ret 0) (\<lambda>ret. if ret \<noteq> 0 then Ret (-1) else
     seqp (PrepareDefaultDevices root hm) (\<lambda>dev. change_root root (snd dev))))"

definition enter_root :: "string \<Rightarrow> box_runtime \<Rightarrow> bool \<Rightarrow> int \<Rightarrow> int prog" where
  "enter_root root r useNewCgroupNs pid =
     seqp (ConfigUserNamespace (rt_uidMappings r) (rt_gidMappings r) 0) (\<lambda>ret. if ret \<noteq> 0 then Ret ret else
     seqp (call slave_root) (\<lambda>ret. if ret \<noteq> 0 then Ret (-1) else mount_and_change root r useNewCgroupNs pid))"

definition unprivileged_flags :: u32 where
  "unprivileged_flags = SIGCHLD OR CLONE_NEWUSER OR CLONE_NEWPID OR CLONE_NEWNS"

definition EntryProc :: "string \<Rightarrow> box_runtime \<Rightarrow> bool \<Rightarrow> int \<Rightarrow> int prog" where
  "EntryProc root r useNewCgroupNs pid =
     seqp (enter_root root r useNewCgroupNs pid) (\<lambda>ret. if ret \<noteq> 0 then Ret ret
     else Sys (CloneCall UnprivilegedProcess unprivileged_flags) (\<lambda>c. if ans_ret c < 0 then Ret (-1) else
     seqp DropPermissions (\<lambda>_. seqp (call DeathSignal) (\<lambda>_. seqp (call TermHandler) (\<lambda>_. call (WaitUntil (ans_ret c)))))))"

section \<open>The unprivileged process and the application\<close>

definition HookExec :: "box_hook \<Rightarrow> int prog" where
  "HookExec h = Sys Fork (\<lambda>f. if ans_ret f < 0 then Ret (-1) else call (WaitPid (ans_ret f)))"

text \<open>What the child of \<open>HookExec\<close> executes; \<open>None\<close>: the arguments are missing or empty and are read nevertheless.\<close>

definition hook_args :: "box_hook \<Rightarrow> string list option" where
  "hook_args h = (case bh_args h of Some (a # as) \<Rightarrow> Some (bh_path h # as) | _ \<Rightarrow> None)"

text \<open>The parent's side of \<open>forkAndExecProcess\<close>: the process id of the child.\<close>

definition forkAndExecProcess :: "int option prog" where
  "forkAndExecProcess =
     Sys DeathSignal (\<lambda>d. if ans_ret d = -1 then Ret None
       else Sys Fork (\<lambda>f. if ans_ret f < 0 then Ret None else Ret (Some (ans_ret f))))"

text \<open>The child's side: the last \<open>PATH\<close> of the environment is the one programs are searched in. A return of \<open>exec\<close> is an error.\<close>

fun set_paths :: "string list \<Rightarrow> unit prog" where
  "set_paths [] = Ret ()"
| "set_paths (e # es) = (if starts_with e ''PATH='' then Sys (SetPath (drop 5 e)) (\<lambda>_. set_paths es) else set_paths es)"

definition exec_process :: "box_process \<Rightarrow> bool prog" where
  "exec_process p =
     Sys (Chdir (bp_cwd p)) (\<lambda>a. if ans_ret a \<noteq> 0 then Ret False
       else seqp (set_paths (bp_env p)) (\<lambda>_. Sys (ExecCall (bp_args p) (bp_env p)) (\<lambda>e. if ans_ret e \<noteq> 0 then Exit (ans_ret e) else Ret True)))"

definition self_map :: "int \<Rightarrow> id_map" where
  "self_map i = \<lparr>im_containerID = word_of_int i, im_hostID = word_of_int i, im_size = 1\<rparr>"

definition NonePrivilegeProc :: "int \<Rightarrow> int \<Rightarrow> box_runtime \<Rightarrow> int prog" where
  "NonePrivilegeProc hostUid hostGid r =
     seqp (ConfigUserNamespace [self_map hostUid] [self_map hostGid] 0) (\<lambda>ret. if ret \<noteq> 0 then Ret ret else
     seqp (call (MountCall (Some ''proc'') ''/proc'' (Some ''proc'') 0 None)) (\<lambda>ret. if ret \<noteq> 0 then Ret (-1) else
     seqp (for_each (\<lambda>h. seqp (HookExec h) (\<lambda>_. Ret ())) (rt_prestart r @ rt_startContainer r)) (\<lambda>_.
     seqp forkAndExecProcess (\<lambda>c. case c of None \<Rightarrow> Ret (-1) | Some pid \<Rightarrow> call (WaitUntil pid)))))"

section \<open>Starting\<close>

text \<open>The flags for the entry process and whether control groups are wanted; \<open>None\<close> for a type that is not known.\<close>

fun namespace_flags :: "u32 list \<Rightarrow> u32 \<times> bool \<Rightarrow> (u32 \<times> bool) option" where
  "namespace_flags [] s = Some s"
| "namespace_flags (n # ns) (flags, cg) =
     (if n \<in> {CLONE_NEWIPC, CLONE_NEWUTS, CLONE_NEWNS, CLONE_NEWPID, CLONE_NEWNET} then namespace_flags ns (flags OR n, cg)
      else if n = CLONE_NEWUSER then namespace_flags ns (flags, cg)
      else if n = CLONE_NEWCGROUP then namespace_flags ns (flags, True)
      else None)"

definition box_state_file :: "string \<Rightarrow> string \<Rightarrow> string" where
  "box_state_file stateDir cid = path_div stateDir (cid @ ''.json'')"

definition writeContainerJson :: "(string \<times> string \<times> int \<Rightarrow> string) \<Rightarrow> string \<Rightarrow> string \<Rightarrow> string \<Rightarrow> int \<Rightarrow> unit prog" where
  "writeContainerJson dump stateRoot bundle cid pid =
     seqp (write_file (box_state_file stateRoot cid) (dump (bundle, cid, pid))) (\<lambda>ok. if ok then Ret () else Exit 134)"

definition started_container :: "(string \<times> string \<times> int \<Rightarrow> string) \<Rightarrow> string \<Rightarrow> string \<Rightarrow> string \<Rightarrow> int \<Rightarrow> int prog" where
  "started_container dump stateDir bundle cid entryPid =
     seqp DropPermissions (\<lambda>_. seqp (call DeathSignal) (\<lambda>_.
     seqp (writeContainerJson dump stateDir bundle cid entryPid) (\<lambda>_.
     seqp (call (WaitUntil entryPid)) (\<lambda>ret.
     seqp (call (RemoveFile (box_state_file stateDir cid))) (\<lambda>_. Ret ret)))))"

text \<open>
  \<open>PlatformClone\<close>: without memory for a stack it returns \<open>EXIT_FAILURE\<close>, which is 1 and taken for a process id; the call here answers with what it
  returns. \<open>dump\<close> is the text of the entry in the list of containers.
\<close>

definition Container_Start :: "(string \<times> string \<times> int \<Rightarrow> string) \<Rightarrow> string \<Rightarrow> string \<Rightarrow> string \<Rightarrow> box_runtime \<Rightarrow> int prog" where
  "Container_Start dump stateDir bundle cid r =
     Sys GetEuid (\<lambda>_. Sys GetEgid (\<lambda>_.
       case namespace_flags (rt_namespaces r) (SIGCHLD OR CLONE_NEWNS, False) of
         None \<Rightarrow> Ret (-1)
       | Some (flags, cg) \<Rightarrow>
          Sys (CloneCall EntryProcess (flags OR CLONE_NEWUSER)) (\<lambda>c. if ans_ret c < 0 then Ret (-1) else
            started_container dump stateDir bundle cid (ans_ret c))))"

section \<open>Lemmas\<close>

lemma calls_ok_zero: "ends (calls_ok cs) tr (Inr 0) \<Longrightarrow> map fst tr = cs \<and> (\<forall>e \<in> set tr. ans_ret (snd e) = 0)"
  by (induction cs arbitrary: tr) (fastforce split: if_splits)+

lemma calls_ok_result: "ends (calls_ok cs) tr (Inr r) \<Longrightarrow> r = 0 \<or> r = -1"
  by (induction cs arbitrary: tr) (auto split: if_splits)

text \<open>Programs that do not create a process with namespaces.\<close>

definition no_clone :: "sys_call \<Rightarrow> bool" where
  "no_clone c \<longleftrightarrow> (case c of CloneCall _ _ \<Rightarrow> False | _ \<Rightarrow> True)"

lemma no_clone_iff: "no_clone c \<longleftrightarrow> (\<forall>p fl. c \<noteq> CloneCall p fl)"
  by (cases c) (simp_all add: no_clone_def)

named_theorems clone_rules

lemma clone_Ret [clone_rules]: "all_calls no_clone (Ret x)" "all_calls no_clone (Exit n)"
  by simp_all

lemma clone_Sys [clone_rules]: "no_clone c \<Longrightarrow> (\<And>a. all_calls no_clone (k a)) \<Longrightarrow> all_calls no_clone (Sys c k)"
  by simp

lemma clone_if [clone_rules]: "all_calls no_clone p \<Longrightarrow> all_calls no_clone q \<Longrightarrow> all_calls no_clone (if b then p else q)"
  by simp

lemmas clone_seq [clone_rules] = all_calls_seqp [of no_clone] all_calls_for_each [of _ no_clone]

lemma clone_case [clone_rules]:
  "(\<And>r. all_calls no_clone (f r)) \<Longrightarrow> (\<And>s fd. all_calls no_clone (g s fd)) \<Longrightarrow> all_calls no_clone (case x of Inl r \<Rightarrow> f r | Inr (s, fd) \<Rightarrow> g s fd)"
  by (simp split: sum.split prod.split)

lemma clone_call [clone_rules]: "no_clone c \<Longrightarrow> all_calls no_clone (call c)"
  by (simp add: call_def)

lemma clone_create [clone_rules]: "all_calls no_clone (create_directories_from s es)"
  by (induction es arbitrary: s) (auto simp: Let_def no_clone_def)

lemma clone_mount [clone_rules]: "all_calls no_clone (do_mount_with_fd root sp dir fs fl d)" "all_calls no_clone (remount t fl' d')"
  "all_calls no_clone (touch p)" "all_calls no_clone (touch_symlink t p)" "all_calls no_clone (read_symlink p)"
  by (auto simp: do_mount_with_fd_def remount_def touch_def touch_symlink_def read_symlink_def call_def Let_def no_clone_def)

lemma clone_destination [clone_rules]: "all_calls no_clone (make_destination drv m src mode)"
  unfolding make_destination_def Let_def CreateDestinationPath_def create_directories_def
  by (intro clone_rules) (simp_all add: no_clone_def)

lemma clone_by_type [clone_rules]: "all_calls no_clone (mount_by_type drv m src ret hm)"
  unfolding mount_by_type_def mount_bind_def bind_options_def mount_virtual_def mount_cgroup_def set_propagation_def Let_def
  by (intro clone_rules) (simp_all add: no_clone_def)

lemma clone_MountNode [clone_rules]: "all_calls no_clone (MountNode drv m hm)"
  unfolding MountNode_def Let_def by (intro clone_rules) (simp_all add: no_clone_def)

lemma clone_MountContainerPath [clone_rules]: "all_calls no_clone (MountContainerPath drv ms hm)"
  by (induction ms arbitrary: hm) (auto intro: clone_rules)

lemma clone_write_file [clone_rules]: "all_calls no_clone (write_file f t)"
  by (simp add: write_file_def no_clone_def)

lemma clone_writeConfig [clone_rules]: "all_calls no_clone (writeConfig cfgs)"
  by (induction cfgs rule: writeConfig.induct) (auto intro!: clone_rules)

lemma clone_calls_ok [clone_rules]: "list_all no_clone cs \<Longrightarrow> all_calls no_clone (calls_ok cs)"
  by (induction cs) auto

lemma clone_make_links [clone_rules]: "all_calls no_clone (make_links ls)"
  by (induction ls rule: make_links.induct) (auto simp: no_clone_def)

lemma clone_DropPermissions [clone_rules]: "all_calls no_clone DropPermissions"
  unfolding DropPermissions_def by (intro clone_rules) (simp_all add: no_clone_def)

lemma clone_enter_root: "all_calls no_clone (enter_root root r cg pid)"
  unfolding enter_root_def mount_and_change_def change_root_def ConfigUserNamespace_def ConfigCgroupV2_def create_directories_def PrepareDefaultDevices_def PivotRoot_def PrepareLinks_def
    finalizeMounts_def Let_def
  by (intro clone_rules) (simp_all add: no_clone_def slave_root_def pivot_calls_def)

text \<open>What has happened when the root has been changed.\<close>

definition pivoted :: "string \<Rightarrow> sys_trace \<Rightarrow> bool" where
  "pivoted root tr \<longleftrightarrow> (\<exists>u p v. tr = u @ p @ v \<and> map fst p = pivot_calls root \<and> (\<forall>e \<in> set p. ans_ret (snd e) = 0))"

lemma pivoted_append: "pivoted root t \<Longrightarrow> pivoted root (s @ t)"
  unfolding pivoted_def by (metis append.assoc)

lemma change_root_zero:
  assumes "ends (change_root root hm) tr (Inr 0)"
  shows "pivoted root tr"
proof -
  from assms obtain t1 t2 ret where t: "tr = t1 @ t2" "ends (PivotRoot root hm) t1 (Inr ret)" "ret \<noteq> -1"
    unfolding change_root_def ends_seqp_Inr by (auto split: if_splits)
  from t(2) obtain s1 s2 where s: "t1 = s1 @ s2" "ends (calls_ok (pivot_calls root)) s2 (Inr ret)"
    unfolding PivotRoot_def ends_seqp_Inr by auto
  then have "ret = 0" using calls_ok_result t(3) by blast
  then have "map fst s2 = pivot_calls root \<and> (\<forall>e \<in> set s2. ans_ret (snd e) = 0)" using calls_ok_zero s(2) by blast
  then show ?thesis unfolding pivoted_def using s(1) t(1) by auto
qed

lemma mount_and_change_zero: "ends (mount_and_change root r cg pid) tr (Inr 0) \<Longrightarrow> pivoted root tr"
  unfolding mount_and_change_def ends_seqp_Inr
  by (auto simp: ends_seqp_Inr intro!: pivoted_append dest: change_root_zero split: if_splits)

lemma enter_root_zero:
  assumes "ends (enter_root root r cg pid) tr (Inr 0)"
  shows "\<exists>t1 b t2. tr = t1 @ (slave_root, b) # t2 \<and> ans_ret b = 0 \<and> pivoted root t2"
proof -
  from assms obtain t1 ret s where t: "tr = t1 @ s" "ret = 0"
      "ends (seqp (call slave_root) (\<lambda>ret. if ret \<noteq> 0 then Ret (-1) else mount_and_change root r cg pid)) s (Inr 0)"
    unfolding enter_root_def ends_seqp_Inr [of "ConfigUserNamespace _ _ _"] by (auto split: if_splits)
  then obtain b t2 where "s = (slave_root, b) # t2" "ans_ret b = 0" "ends (mount_and_change root r cg pid) t2 (Inr 0)"
    by (auto simp: call_def split: if_splits)
  then show ?thesis using t(1) mount_and_change_zero by blast
qed

lemma rest_no_clone: "all_calls no_clone (seqp DropPermissions (\<lambda>_. seqp (call DeathSignal) (\<lambda>_. seqp (call TermHandler) (\<lambda>_. call (WaitUntil pid)))))"
  by (intro clone_rules) (simp_all add: no_clone_def)


text \<open>The exit code of the entry process, and so of the container, is 0 only when the process below it was seen to end normally with 0.\<close>

definition ended_normally :: "(nat \<Rightarrow> wait_result) \<Rightarrow> nat \<Rightarrow> int \<Rightarrow> bool" where
  "ended_normally waits k target \<longleftrightarrow>
     (\<exists>j \<ge> k. (\<exists>s. waits j = Reaped target s \<and> parse_wstatus s) \<and> (\<forall>i. k \<le> i \<and> i < j \<longrightarrow> (\<exists>c s. waits i = Reaped c s \<and> c \<noteq> target)))"

lemma ended_normally_step:
  assumes "waits k = Reaped c s" and "c \<noteq> target" and "ended_normally waits (Suc k) target"
  shows "ended_normally waits k target"
proof -
  from assms(3) obtain j where "Suc k \<le> j" "\<exists>s. waits j = Reaped target s \<and> parse_wstatus s"
      "\<forall>i. Suc k \<le> i \<and> i < j \<longrightarrow> (\<exists>c s. waits i = Reaped c s \<and> c \<noteq> target)" by (auto simp: ended_normally_def)
  moreover have "\<exists>c s. waits i = Reaped c s \<and> c \<noteq> target" if "k \<le> i \<and> i < j" for i
    using calculation(3) assms(1,2) that by (cases "i = k") auto
  ultimately show ?thesis unfolding ended_normally_def by (intro exI [of _ j]) auto
qed

lemma DoWait_zero:
  assumes "DoWait waits k pid target = Some r" and "r = 0" and "\<And>i c s. waits i = Reaped c s \<Longrightarrow> c \<noteq> pid"
  shows "ended_normally waits k target"
proof -
  have "r = 0 \<longrightarrow> (\<forall>i c s. waits i = Reaped c s \<longrightarrow> c \<noteq> pid) \<longrightarrow> ended_normally waits k target"
    using assms(1)
  proof (rule DoWait.raw_induct [where P = "\<lambda>waits k pid target r. r = 0 \<longrightarrow> (\<forall>i c s. waits i = Reaped c s \<longrightarrow> c \<noteq> pid) \<longrightarrow> ended_normally waits k target", rotated])
    fix dw waits k pid target and r :: int
    assume IH: "\<And>waits k pid target r. dw waits k pid target = Some r \<Longrightarrow>
        r = 0 \<longrightarrow> (\<forall>i c s. waits i = Reaped c s \<longrightarrow> c \<noteq> pid) \<longrightarrow> ended_normally waits k target"
      and eq: "(case waits k of
        Reaped child wstatus \<Rightarrow>
          if child = target \<or> child = pid then Some (if parse_wstatus wstatus then 0 else -1) else dw waits (Suc k) pid target
      | NoChildLeft \<Rightarrow> Some (-1)
      | WaitFailed \<Rightarrow> Some (-1)) = Some r"
    show "r = 0 \<longrightarrow> (\<forall>i c s. waits i = Reaped c s \<longrightarrow> c \<noteq> pid) \<longrightarrow> ended_normally waits k target"
    proof (intro impI)
      assume h: "r = 0" "\<forall>i c s. waits i = Reaped c s \<longrightarrow> c \<noteq> pid"
      show "ended_normally waits k target"
      proof (cases "waits k")
        case (Reaped c s)
        show ?thesis
        proof (cases "c = target")
          case True
          then show ?thesis using eq Reaped h(1) unfolding ended_normally_def by (intro exI [of _ k]) (auto split: if_splits)
        next
          case False
          then have "ended_normally waits (Suc k) target" using IH eq Reaped h False by (auto split: if_splits)
          then show ?thesis by (rule ended_normally_step [of waits k c s target, OF Reaped False])
        qed
      qed (use eq h(1) in simp_all)
    qed
  qed
  then show ?thesis using assms(2,3) by blast
qed

lemma EntryProc_zero:
  assumes "ends (EntryProc root r cg pid) tr (Inr 0)"
  shows "\<exists>t1 c t2 a. tr = t1 @ (CloneCall UnprivilegedProcess unprivileged_flags, c) # t2 @ [(WaitUntil (ans_ret c), a)] \<and> ans_ret a = 0"
proof -
  from assms obtain u v where "tr = u @ v" "ends (Sys (CloneCall UnprivilegedProcess unprivileged_flags) (\<lambda>c. if ans_ret c < 0 then Ret (-1) else
        seqp DropPermissions (\<lambda>_. seqp (call DeathSignal) (\<lambda>_. seqp (call TermHandler) (\<lambda>_. call (WaitUntil (ans_ret c))))))) v (Inr 0)"
    unfolding EntryProc_def ends_seqp_Inr [of "enter_root root r cg pid"] by (auto split: if_splits)
  moreover from this(2) obtain c t2 a where "v = (CloneCall UnprivilegedProcess unprivileged_flags, c) # t2 @ [(WaitUntil (ans_ret c), a)] \<and> ans_ret a = 0"
    by (auto simp: ends_seqp_Inr call_def split: if_splits)
  ultimately show ?thesis by auto
qed

lemma started_container_trace:
  assumes "ends (started_container dump stateDir bundle cid pid) tr (Inr res)"
  shows "\<exists>t w a d. tr = t @ [(WriteText (box_state_file stateDir cid) (dump (bundle, cid, pid)), w), (WaitUntil pid, a),
      (RemoveFile (box_state_file stateDir cid), d)] \<and> ans_ret a = res"
proof -
  from assms obtain x t1 s where s: "tr = t1 @ s" "ends DropPermissions t1 (Inr x)"
      "ends (seqp (call DeathSignal) (\<lambda>_. seqp (writeContainerJson dump stateDir bundle cid pid) (\<lambda>_.
        seqp (call (WaitUntil pid)) (\<lambda>ret. seqp (call (RemoveFile (box_state_file stateDir cid))) (\<lambda>_. Ret ret))))) s (Inr res)"
    unfolding started_container_def ends_seqp_Inr [of DropPermissions] by blast
  then obtain e o' w a d where "s = [(DeathSignal, e), (OpenWrite (box_state_file stateDir cid), o')] @
      [(WriteText (box_state_file stateDir cid) (dump (bundle, cid, pid)), w), (WaitUntil pid, a), (RemoveFile (box_state_file stateDir cid), d)]"
      "ans_ret a = res"
    by (auto simp: writeContainerJson_def write_file_def call_def ends_seqp_Inr split: if_splits)
  then show ?thesis using s(1) by auto
qed

lemma has_flag_more: "has_flag fl f \<Longrightarrow> has_flag (fl OR g) f"
proof -
  have "((fl OR g) AND f) AND fl = fl AND f" by (rule bit_word_eqI) (auto simp: bit_simps)
  then show "has_flag fl f \<Longrightarrow> has_flag (fl OR g) f" by (auto simp: has_flag_def)
qed

lemma namespace_flags_mono:
  "namespace_flags ns (flags, cg) = Some (flags', cg') \<Longrightarrow> has_flag flags f \<Longrightarrow> has_flag flags' f"
  by (induction ns arbitrary: flags cg) (auto split: if_splits intro: has_flag_more)

lemma namespace_flags_kept:
  assumes "namespace_flags ns (SIGCHLD OR CLONE_NEWNS, False) = Some (flags, cg)"
  shows "has_flag (flags OR CLONE_NEWUSER) CLONE_NEWUSER" "has_flag (flags OR CLONE_NEWUSER) CLONE_NEWNS"
proof -
  have "has_flag flags CLONE_NEWNS" using namespace_flags_mono [OF assms] by (simp add: has_flag_def clone_flags)
  then show "has_flag (flags OR CLONE_NEWUSER) CLONE_NEWNS" by (rule has_flag_more)
  have "has_flag CLONE_NEWUSER CLONE_NEWUSER" by (simp add: has_flag_def clone_flags)
  then show "has_flag (flags OR CLONE_NEWUSER) CLONE_NEWUSER" using has_flag_more [of CLONE_NEWUSER CLONE_NEWUSER flags] by (simp add: or.commute)
qed

text \<open>
  C36: The container that is started runs in new user and mount namespaces, is listed while it runs, and reports success only when its entry process ended normally
  with 0: in a run that returns after the entry process was created, the entry of the container was written after the creation and before waiting, waiting for
  that process gave the result, and the entry was removed at the end.
\<close>

theorem container_listed_while_running:
  assumes "ends (Container_Start dump stateDir bundle cid r) tr (Inr res)" and "(CloneCall p fl, c) \<in> set tr" and "0 \<le> ans_ret c"
  shows "has_flag fl CLONE_NEWUSER \<and> has_flag fl CLONE_NEWNS \<and>
    (\<exists>t1 t2 w a d. tr = t1 @ (CloneCall p fl, c) # t2 @ [(WriteText (box_state_file stateDir cid) (dump (bundle, cid, ans_ret c)), w),
       (WaitUntil (ans_ret c), a), (RemoveFile (box_state_file stateDir cid), d)] \<and> ans_ret a = res)"
proof -
  from assms(1,2) obtain flags cg e1 e2 c' t where f: "namespace_flags (rt_namespaces r) (SIGCHLD OR CLONE_NEWNS, False) = Some (flags, cg)"
      "tr = [(GetEuid, e1), (GetEgid, e2)] @ (CloneCall EntryProcess (flags OR CLONE_NEWUSER), c') # t"
      "ends (if ans_ret c' < 0 then Ret (-1) else started_container dump stateDir bundle cid (ans_ret c')) t (Inr res)"
    by (auto simp: Container_Start_def split: option.splits)
  have "all_calls no_clone (started_container dump stateDir bundle cid (ans_ret c'))"
    unfolding started_container_def writeContainerJson_def by (intro clone_rules) (simp_all add: no_clone_def)
  then have "no_clone d" if "(d, y) \<in> set t" for d y using f(3) that all_calls_ends by (cases "ans_ret c' < 0") fastforce+
  then have p: "p = EntryProcess" "fl = flags OR CLONE_NEWUSER" "c = c'" using assms(2) f(2) by (fastforce simp: no_clone_def)+
  then obtain t2 w a d where "t = t2 @ [(WriteText (box_state_file stateDir cid) (dump (bundle, cid, ans_ret c)), w),
       (WaitUntil (ans_ret c), a), (RemoveFile (box_state_file stateDir cid), d)]" "ans_ret a = res"
    using started_container_trace [of dump stateDir "bundle" cid "ans_ret c" t res] f(3) assms(3) by auto
  then show ?thesis using namespace_flags_kept [OF f(1)] p f(2) by (intro conjI exI [of _ "[(GetEuid, e1), (GetEgid, e2)]"] exI [of _ t2]) auto
qed

text \<open>The weight of a control group stays in its range for shares in theirs; smaller shares wrap around.\<close>

lemma cpu_weight_bounds:
  assumes "2 \<le> unat shares" and "unat shares \<le> 262144"
  shows "1 \<le> unat (cpu_weight shares) \<and> unat (cpu_weight shares) \<le> 10000"
proof -
  have s: "unat (shares - 2) = unat shares - 2" using assms(1) by (simp add: unat_sub_if_size)
  have m: "unat ((shares - 2) * 9999) = (unat shares - 2) * 9999"
    using assms by (subst unat_mult_lem [THEN iffD1]) (simp_all add: s)
  have d: "unat (((shares - 2) * 9999) div 262142) = (unat shares - 2) * 9999 div 262142" unfolding unat_div m by simp
  have "(unat shares - 2) * 9999 div 262142 \<le> 9999" using assms(2) by (intro div_le_mono [of _ "262142 * 9999" 262142, simplified]) simp
  moreover define q where "q = ((shares - 2) * 9999) div 262142"
  ultimately have q: "unat q \<le> 9999" using d by simp
  then have "unat (1 + q) = unat (1 :: u64) + unat q" by (subst unat_add_lem [symmetric]) simp
  then show ?thesis using q unfolding cpu_weight_def q_def [symmetric] by simp
qed

lemma cpu_weight_wraps: "10000 < unat (cpu_weight 1)"
proof -
  have "(1 - 2) * 9999 = (18446744073709541617 :: u64)" by simp
  then show ?thesis by (simp add: cpu_weight_def)
qed

section \<open>Examples\<close>

definition demo_runtime :: box_runtime where
  "demo_runtime = \<lparr>rt_rootPath = ''rootfs'', rt_process = \<lparr>bp_args = [''sh''], bp_env = [], bp_cwd = ''/''\<rparr>, rt_namespaces = [CLONE_NEWPID, CLONE_NEWUSER],
     rt_uidMappings = [self_map 1000], rt_gidMappings = [self_map 1000], rt_cgroupsPath = [],
     rt_resources = \<lparr>mem_limit = -1, mem_reservation = -1, mem_swap = -1, cpu_shares = 1024, cpu_quota = 100000, cpu_period = 100000\<rparr>,
     rt_mounts = Some [demo_ro_mount], rt_prestart = [], rt_startContainer = []\<rparr>"

lemma demo_entry_ends:
  "snd (run_prog (EntryProc ''/root'' demo_runtime False 2) demo_kernel []) = Inr 0"
  "\<exists>e \<in> set (fst (run_prog (EntryProc ''/root'' demo_runtime False 2) demo_kernel [])). \<not> no_clone (fst e)"
  by code_simp+


definition demo_dump :: "string \<times> string \<times> int \<Rightarrow> string" where
  "demo_dump e = fst e"

lemma demo_start_ends:
  "snd (run_prog (Container_Start demo_dump ''/run/ll-box'' ''/b'' ''c'' demo_runtime) demo_kernel []) = Inr 0"
  "(CloneCall EntryProcess (SIGCHLD OR CLONE_NEWNS OR CLONE_NEWPID OR CLONE_NEWUSER), \<lparr>ans_ret = 0, ans_num = S_IFDIR, ans_text = []\<rparr>)
     \<in> set (fst (run_prog (Container_Start demo_dump ''/run/ll-box'' ''/b'' ''c'' demo_runtime) demo_kernel []))"
  by code_simp+

theorem container_listed_while_running_witness:
  "\<exists>t1 w a d. fst (run_prog (Container_Start demo_dump ''/run/ll-box'' ''/b'' ''c'' demo_runtime) demo_kernel []) =
     t1 @ [(WriteText ''/run/ll-box/c.json'' ''/b'', w), (WaitUntil 0, a), (RemoveFile ''/run/ll-box/c.json'', d)] \<and> ans_ret a = 0"
proof -
  have e: "ends (Container_Start demo_dump ''/run/ll-box'' ''/b'' ''c'' demo_runtime)
      (fst (run_prog (Container_Start demo_dump ''/run/ll-box'' ''/b'' ''c'' demo_runtime) demo_kernel [])) (Inr 0)"
    using run_prog_ends [of "Container_Start demo_dump ''/run/ll-box'' ''/b'' ''c'' demo_runtime" demo_kernel "[]"] demo_start_ends(1) by simp
  have f: "box_state_file ''/run/ll-box'' ''c'' = ''/run/ll-box/c.json''" by code_simp
  from container_listed_while_running [OF e demo_start_ends(2)] obtain t1 t2 w a d where
    "fst (run_prog (Container_Start demo_dump ''/run/ll-box'' ''/b'' ''c'' demo_runtime) demo_kernel []) =
      (t1 @ (CloneCall EntryProcess (SIGCHLD OR CLONE_NEWNS OR CLONE_NEWPID OR CLONE_NEWUSER), \<lparr>ans_ret = 0, ans_num = S_IFDIR, ans_text = []\<rparr>) # t2) @
      [(WriteText ''/run/ll-box/c.json'' ''/b'', w), (WaitUntil 0, a), (RemoveFile ''/run/ll-box/c.json'', d)]" "ans_ret a = 0"
    by (auto simp: demo_dump_def f)
  then show ?thesis by blast
qed

end
