(* ===== verification/Box_Main.thy ===== *)
theory Box_Main
  imports Box_Container Migrate
begin

text \<open>
  The commands of \<open>ll-box\<close> (\<open>main.cpp\<close>, \<open>container/helper.cpp\<close>): the list of containers in the state directory, \<open>list\<close>, \<open>run\<close>, \<open>exec\<close>, \<open>kill\<close> and the
  handlers of the options. The command line is split by \<open>argp\<close>, and the model starts with what its handlers get. The record \<open>ll_box_env\<close> has the files, the processes
  and the JSON reader; a result \<open>None\<close> is an exception that leaves a \<open>noexcept\<close> function, or an access that is not allowed. Entries of the state directory are
  JSON objects with fields of the right types, or cannot be read. A failing iteration of a directory is left out.
\<close>

section \<open>Environment\<close>

record container_item =
  ci_id :: "string option"
  ci_pid :: "int option"
  ci_status :: "string option"
  ci_bundle :: "string option"
  ci_created :: "string option"
  ci_owner :: "string option"

record ll_box_env =
  bx_makeDir :: "string \<Rightarrow> bool"
  bx_entries :: "string \<Rightarrow> container_item option list"
  bx_kill :: "int \<Rightarrow> int \<Rightarrow> int"
  bx_children :: "int \<Rightarrow> int list option"
  bx_hasChildren :: "int \<Rightarrow> bool"
  bx_exe :: "int \<Rightarrow> string option"
  bx_self :: "string option"
  bx_procDirs :: "string list option"
  bx_stat :: "int \<Rightarrow> string option"
  bx_openConfig :: "string \<Rightarrow> bool"
  bx_readConfig :: "string \<Rightarrow> box_runtime option"

section \<open>The list of containers\<close>

text \<open>\<open>None\<close>: the null value that is returned when the state directory cannot be made.\<close>

definition readAllContainerJson :: "ll_box_env \<Rightarrow> string \<Rightarrow> container_item list option" where
  "readAllContainerJson env stateRoot = (if bx_makeDir env stateRoot then Some (List.map_filter (\<lambda>e. e) (bx_entries env stateRoot)) else None)"

definition value_or :: "'a option \<Rightarrow> 'a \<Rightarrow> 'a" where
  "value_or v d = (case v of None \<Rightarrow> d | Some x \<Rightarrow> x)"

definition item_list :: "ll_box_env \<Rightarrow> string \<Rightarrow> container_item list" where
  "item_list env stateRoot = value_or (readAllContainerJson env stateRoot) []"

text \<open>\<open>containerJsonCleanUp\<close>: the files it removes.\<close>

definition stale :: "ll_box_env \<Rightarrow> container_item \<Rightarrow> bool" where
  "stale env i \<longleftrightarrow> value_or (ci_pid i) (-1) \<noteq> -1 \<and> bx_kill env (value_or (ci_pid i) (-1)) 0 \<noteq> 0"

definition containerJsonCleanUp :: "ll_box_env \<Rightarrow> string \<Rightarrow> string list" where
  "containerJsonCleanUp env stateRoot =
     map (\<lambda>i. box_state_file stateRoot (value_or (ci_id i) ''unknown'')) (filter (stale env) (item_list env stateRoot))"

definition table_row :: "container_item \<Rightarrow> string" where
  "table_row i = value_or (ci_id i) ''unknown'' @ ''    '' @ show_int (value_or (ci_pid i) (-1)) @ ''    '' @ value_or (ci_status i) ''unknown'' @ ''    '' @
     value_or (ci_bundle i) ''unknown'' @ ''    '' @ value_or (ci_created i) ''unknown'' @ ''    '' @ value_or (ci_owner i) ''unknown''"

definition table_head :: string where
  "table_head = ''ID        PID        STATUS        BUNDLE        CREATED        OWNER''"

text \<open>The lines \<open>list\<close> prints; \<open>dump\<close> is the text of the JSON value.\<close>

definition box_list :: "(container_item list option \<Rightarrow> string) \<Rightarrow> ll_box_env \<Rightarrow> string \<Rightarrow> string \<Rightarrow> string list" where
  "box_list dump env stateRoot format =
     (if format = ''json'' then [dump (readAllContainerJson env stateRoot)]
      else table_head # map table_row (item_list env stateRoot))"

section \<open>The innermost box\<close>

text \<open>
  \<open>findParentPid\<close>: the fourth part between blanks of the first line of \<open>stat\<close>; the name of the program, which is the second, may have blanks itself.
\<close>

definition findParentPid :: "ll_box_env \<Rightarrow> int \<Rightarrow> int option" where
  "findParentPid env pid =
     (case bx_stat env pid of
        None \<Rightarrow> Some (-1)
      | Some content \<Rightarrow> (let parts = split_on (CHR '' '') content in stoi (parts ! min 3 (length parts - 1))))"

text \<open>The processes with greater numbers than the root, in order; an entry of \<open>/proc\<close> starts with a digit or is no number. \<open>None\<close>: a number out of range.\<close>

fun numbered :: "int \<Rightarrow> string list \<Rightarrow> int list option" where
  "numbered rootPid [] = Some []"
| "numbered rootPid (d # ds) =
     (if \<not> list_ex is_digit (take 1 d) then numbered rootPid ds
      else case (stoi d, numbered rootPid ds) of
        (Some pid, Some ps) \<Rightarrow> Some (if pid \<le> rootPid then ps else pid # ps)
      | _ \<Rightarrow> None)"

fun fallback_loop :: "ll_box_env \<Rightarrow> string \<Rightarrow> int \<Rightarrow> int \<Rightarrow> int list \<Rightarrow> int option" where
  "fallback_loop env self currentPid lastBox [] = Some lastBox"
| "fallback_loop env self currentPid lastBox (pid # ps) =
     (case findParentPid env pid of
        None \<Rightarrow> None
      | Some parent \<Rightarrow>
         (if parent \<noteq> currentPid then fallback_loop env self currentPid lastBox ps
          else case bx_exe env pid of
            None \<Rightarrow> Some (-1)
          | Some bin \<Rightarrow> if bin = self then fallback_loop env self pid currentPid ps else Some lastBox))"

definition findLastBoxFallback :: "ll_box_env \<Rightarrow> int \<Rightarrow> int option" where
  "findLastBoxFallback env rootPid =
     (case (bx_procDirs env, bx_self env) of
        (Some dirs, Some self) \<Rightarrow>
          (case numbered rootPid dirs of None \<Rightarrow> None | Some ps \<Rightarrow> fallback_loop env self rootPid (-1) (sort (remdups ps)))
      | _ \<Rightarrow> Some (-1))"

text \<open>The first child that runs the same program; \<open>Inl\<close>: a link could not be read.\<close>

fun box_child :: "ll_box_env \<Rightarrow> string \<Rightarrow> int list \<Rightarrow> unit + int option" where
  "box_child env self [] = Inr None"
| "box_child env self (c # cs) =
     (case bx_exe env c of None \<Rightarrow> Inl () | Some bin \<Rightarrow> if bin = self then Inr (Some c) else box_child env self cs)"

partial_function (option) last_box :: "ll_box_env \<Rightarrow> string \<Rightarrow> int \<Rightarrow> int option" where
  "last_box env self pid =
     (case bx_children env pid of
        None \<Rightarrow> Some (-1)
      | Some cs \<Rightarrow>
         (case box_child env self cs of
            Inl _ \<Rightarrow> Some (-1)
          | Inr None \<Rightarrow> Some pid
          | Inr (Some c) \<Rightarrow> last_box env self c))"

declare last_box.simps [code]

definition findLastBox :: "ll_box_env \<Rightarrow> int \<Rightarrow> int option" where
  "findLastBox env rootPid =
     (if \<not> bx_hasChildren env rootPid then findLastBoxFallback env rootPid
      else case bx_self env of None \<Rightarrow> None | Some self \<Rightarrow> last_box env self rootPid)"

section \<open>Commands\<close>

text \<open>The first container with the id; an entry without an id before it is an access that is not allowed.\<close>

fun find_container :: "string \<Rightarrow> container_item list \<Rightarrow> container_item option option" where
  "find_container cid [] = Some None"
| "find_container cid (i # is) =
     (case ci_id i of None \<Rightarrow> None | Some c \<Rightarrow> if c = cid then Some (Some i) else find_container cid is)"

text \<open>\<open>exec\<close>: an exit code, or the command that replaces the process.\<close>

definition nsenter_args :: "int \<Rightarrow> string \<Rightarrow> string list \<Rightarrow> string list" where
  "nsenter_args pid cwd cmd = [''nsenter'', ''-t'', show_int pid, ''-U'', ''-m'', ''-p'', ''--wdns='' @ cwd, ''--preserve-credentials''] @ cmd"

definition box_exec :: "ll_box_env \<Rightarrow> string \<Rightarrow> string \<Rightarrow> string \<Rightarrow> string list \<Rightarrow> (int + string list) option" where
  "box_exec env stateRoot cid cwd cmd =
     (case find_container cid (item_list env stateRoot) of
        None \<Rightarrow> None
      | Some None \<Rightarrow> Some (Inl (-1))
      | Some (Some i) \<Rightarrow>
         (case ci_pid i of
            None \<Rightarrow> Some (Inl (-1))
          | Some boxPid \<Rightarrow>
             (if boxPid = -1 then Some (Inl (-1))
              else case findLastBox env boxPid of
                None \<Rightarrow> None
              | Some lastBox \<Rightarrow> if lastBox = -1 then Some (Inl (-1)) else Some (Inr (nsenter_args lastBox cwd cmd)))))"

definition box_run :: "ll_box_env \<Rightarrow> (string \<times> string \<times> int \<Rightarrow> string) \<Rightarrow> string \<Rightarrow> string \<Rightarrow> string \<Rightarrow> string \<Rightarrow> int prog" where
  "box_run env dump stateRoot bundleDir config cid =
     (let configFile = path_div bundleDir config in
      if \<not> bx_openConfig env configFile then Ret (-1)
      else case bx_readConfig env configFile of
        None \<Rightarrow> Ret (-1)
      | Some r \<Rightarrow> Container_Start dump stateRoot bundleDir cid r)"

text \<open>\<open>kill\<close>: a signal that is not written in digits is \<open>SIGTERM\<close>.\<close>

definition kill_signal :: "string \<Rightarrow> int option" where
  "kill_signal signal = (if signal = [] \<or> \<not> list_all is_digit signal then Some 15 else stoi signal)"

fun kill_first :: "ll_box_env \<Rightarrow> string \<Rightarrow> int \<Rightarrow> container_item list \<Rightarrow> int option" where
  "kill_first env cid sig [] = Some (-1)"
| "kill_first env cid sig (i # is) =
     (if ci_id i \<noteq> Some cid then kill_first env cid sig is
      else case ci_pid i of None \<Rightarrow> None | Some pid \<Rightarrow> Some (bx_kill env pid sig))"

definition box_kill :: "ll_box_env \<Rightarrow> string \<Rightarrow> string \<Rightarrow> string \<Rightarrow> int option" where
  "box_kill env stateRoot cid signal =
     (case kill_signal signal of None \<Rightarrow> None | Some sig \<Rightarrow> kill_first env cid sig (item_list env stateRoot))"

section \<open>Options\<close>

text \<open>\<open>None\<close>: the option is refused.\<close>

definition parse_format :: "string \<Rightarrow> string option" where
  "parse_format arg = (if arg \<in> {''json'', ''table''} then Some arg else None)"

definition parse_bundle :: "string \<Rightarrow> string \<Rightarrow> string" where
  "parse_bundle cwd arg = (if starts_with arg ''/'' then arg else path_div cwd arg)"

definition parse_user :: "string \<Rightarrow> (string \<times> string) option" where
  "parse_user userSpec =
     (let uid = takeWhile (\<lambda>c. c \<noteq> CHR '':'') userSpec;
          gid = (if CHR '':'' \<in> set userSpec then drop 1 (dropWhile (\<lambda>c. c \<noteq> CHR '':'') userSpec) else uid) in
      if list_all is_digit uid \<and> list_all is_digit gid then Some (uid, gid) else None)"

definition parse_cgroup_manager :: "string \<Rightarrow> string option" where
  "parse_cgroup_manager arg = (if arg = ''disabled'' then Some arg else None)"

datatype box_command =
    CmdList string | CmdRun string string string | CmdExec string string "string list" | CmdKill string string

datatype box_end = PrintsLines "string list" | RunsProgram "int prog" | ExitsWith int | Becomes "string list" | Dies

definition default_root :: "string option \<Rightarrow> string" where
  "default_root xdgRuntimeDir = path_div (value_or xdgRuntimeDir ''/run'') ''ll-box''"

definition box_dispatch ::
    "(container_item list option \<Rightarrow> string) \<Rightarrow> (string \<times> string \<times> int \<Rightarrow> string) \<Rightarrow> ll_box_env \<Rightarrow> string \<Rightarrow> box_command \<Rightarrow> box_end" where
  "box_dispatch dumpList dump env stateRoot cmd =
     (case cmd of
        CmdList format \<Rightarrow> PrintsLines (box_list dumpList env stateRoot format)
      | CmdRun bundleDir config cid \<Rightarrow> RunsProgram (box_run env dump stateRoot bundleDir config cid)
      | CmdExec cid cwd args \<Rightarrow>
         (case box_exec env stateRoot cid cwd args of None \<Rightarrow> Dies | Some (Inl c) \<Rightarrow> ExitsWith c | Some (Inr argv) \<Rightarrow> Becomes argv)
      | CmdKill cid signal \<Rightarrow> (case box_kill env stateRoot cid signal of None \<Rightarrow> Dies | Some c \<Rightarrow> ExitsWith c))"

text \<open>\<open>main\<close>: the files removed first, and then the command in the state directory as it is after that (\<open>env'\<close>).\<close>

definition box_main ::
    "(container_item list option \<Rightarrow> string) \<Rightarrow> (string \<times> string \<times> int \<Rightarrow> string) \<Rightarrow> ll_box_env \<Rightarrow> (string list \<Rightarrow> ll_box_env) \<Rightarrow> string \<Rightarrow> box_command \<Rightarrow>
     string list \<times> box_end" where
  "box_main dumpList dump env after stateRoot cmd =
     (let removed = containerJsonCleanUp env stateRoot in (removed, box_dispatch dumpList dump (after removed) stateRoot cmd))"

section \<open>Lemmas\<close>

lemma state_file_inj:
  assumes "box_state_file d c = box_state_file d c'" and "\<not> starts_with c ''/''" and "\<not> starts_with c' ''/''"
  shows "c = c'"
proof -
  have "\<not> starts_with (x @ ''.json'') ''/''" if "\<not> starts_with x ''/''" for x :: string using that by (cases x) auto
  then show ?thesis using assms by (auto simp: box_state_file_def path_div_def split: if_splits)
qed

text \<open>The clean-up at every start does not touch a container whose process is alive, provided that no other entry has its name.\<close>

lemma cleanup_keeps_running:
  assumes "i \<in> set (item_list env root)" and "\<not> stale env i" and "ci_id i = Some cid"
    and "\<forall>j \<in> set (item_list env root). value_or (ci_id j) ''unknown'' = cid \<longrightarrow> j = i"
    and "\<forall>j \<in> set (item_list env root). \<not> starts_with (value_or (ci_id j) ''unknown'') ''/''"
  shows "box_state_file root cid \<notin> set (containerJsonCleanUp env root)"
proof
  assume "box_state_file root cid \<in> set (containerJsonCleanUp env root)"
  then obtain j where j: "j \<in> set (item_list env root)" "stale env j" "box_state_file root cid = box_state_file root (value_or (ci_id j) ''unknown'')"
    by (auto simp: containerJsonCleanUp_def)
  have "\<not> starts_with cid ''/''" using assms(1,3,5) by (force simp: value_or_def)
  then have "cid = value_or (ci_id j) ''unknown''" using j(1,3) assms(5) state_file_inj by blast
  then have "j = i" using assms(4) j(1) by blast
  then show False using assms(2) j(2) by simp
qed

text \<open>
  A chain of boxes, each the only child of the one before. The search by the \<open>children\<close> files finds the last box, the search by the \<open>stat\<close> files, which is
  to replace it, the one before.
\<close>

fun box_chain :: "ll_box_env \<Rightarrow> string \<Rightarrow> int list \<Rightarrow> bool" where
  "box_chain env self [] \<longleftrightarrow> False"
| "box_chain env self [p] \<longleftrightarrow> bx_children env p = Some []"
| "box_chain env self (p # q # ps) \<longleftrightarrow>
     bx_children env p = Some [q] \<and> bx_exe env q = Some self \<and> findParentPid env q = Some p \<and> box_chain env self (q # ps)"

lemma last_box_chain: "box_chain env self (p # ps) \<Longrightarrow> last_box env self p = Some (last (p # ps))"
  by (induction ps arbitrary: p) (subst last_box.simps, simp)+

lemma fallback_loop_chain: "box_chain env self (p # ps) \<Longrightarrow> fallback_loop env self p l ps = Some (last (l # butlast (p # ps)))"
  by (induction ps arbitrary: p l) auto

lemma numbered_show:
  assumes "\<forall>p \<in> set ps. root < p \<and> 0 \<le> p \<and> p < 2 ^ 31"
  shows "numbered root (map show_int ps) = Some ps"
  using assms
proof (induction ps)
  case (Cons p ps)
  have p: "0 \<le> p" "p < 2 ^ 31" "root < p" using Cons.prems by auto
  have d: "list_all is_digit (show_int p)" using p(1) by (simp add: show_int_def list_all_iff show_nat_digits)
  then have t: "takeWhile is_digit (show_int p) = show_int p" by (simp add: list_all_iff takeWhile_eq_all_conv)
  obtain c cs where c: "show_int p = c # cs" using p(1) by (cases "show_int p") (auto simp: show_int_def)
  have "is_digit c" using d c by simp
  then have ns: "\<not> is_space c" "c \<noteq> CHR ''-''" "c \<noteq> CHR ''+''" by (auto simp: is_digit_def is_space_def)
  have "read_nat (show_int p) = nat p" using p(1) by (simp add: show_int_def)
  then have "stoi (show_int p) = Some p" using t c ns p(1,2) by (simp add: stoi_def Let_def)
  then show ?case using Cons.IH Cons.prems c \<open>is_digit c\<close> p(3) by simp
qed simp

text \<open>
  Looking for the innermost box gives different answers by the two methods: on a chain of boxes with growing process ids the search by children ends at the last box,
  and the fallback at the one before it, or nowhere when there is only one. A command that is executed in a container enters
  the namespaces of the process that is found.
\<close>

theorem last_box_methods:
  assumes "box_chain env self (p # q # ps)" and "sorted (q # ps)" and "distinct (q # ps)" and "\<forall>x \<in> set (q # ps). p < x \<and> 0 \<le> x \<and> x < 2 ^ 31"
    and "bx_self env = Some self" and "bx_procDirs env = Some (map show_int (q # ps))"
  shows "findLastBox env p = Some (if bx_hasChildren env p then last (q # ps) else last (p # butlast (q # ps)))"
proof -
  have "sort (remdups (q # ps)) = q # ps" using assms(2,3) by (metis distinct_remdups_id sorted_sort_id)
  then have "findLastBoxFallback env p = fallback_loop env self p (-1) (q # ps)"
    using numbered_show [OF assms(4)] assms(5,6) by (simp add: findLastBoxFallback_def del: fallback_loop.simps list.map numbered.simps)
  then show ?thesis using last_box_chain [OF assms(1)] fallback_loop_chain [OF assms(1), of "-1"] assms(5)
    by (simp add: findLastBox_def del: fallback_loop.simps box_chain.simps)
qed

text \<open>A program name with a blank moves the fields of \<open>stat\<close>, and the number that is read is that of another field, or none at all.\<close>

lemma blank_in_name: "bx_stat env 7 = Some ''7 (my app) S 5 7'' \<Longrightarrow> findParentPid env 7 = None"
  by (simp add: findParentPid_def stoi_def is_space_def is_digit_def Let_def)

text \<open>A signal by its name is not looked at.\<close>

lemma named_signal: "kill_signal ''KILL'' = Some 15" "kill_signal ''9'' = Some 9"
  by code_simp+

text \<open>\<open>kill\<close> reaches the process of the first entry with the id of the container, and nothing else.\<close>

lemma kill_first_spec:
  assumes "kill_first env cid sig is = Some r"
  shows "(r = -1 \<and> (\<forall>i \<in> set is. ci_id i \<noteq> Some cid)) \<or> (\<exists>i \<in> set is. \<exists>pid. ci_id i = Some cid \<and> ci_pid i = Some pid \<and> r = bx_kill env pid sig)"
  using assms by (induction "is") (auto split: if_splits option.splits)

section \<open>An example\<close>

definition demo_box_env :: "bool \<Rightarrow> ll_box_env" where
  "demo_box_env hasChildren =
     \<lparr>bx_makeDir = \<lambda>_. True, bx_entries = \<lambda>_. [], bx_kill = \<lambda>_ _. 0,
      bx_children = \<lambda>p. Some (if p = 10 then [11] else if p = 11 then [12] else []),
      bx_hasChildren = \<lambda>_. hasChildren, bx_exe = \<lambda>_. Some ''ll-box'', bx_self = Some ''ll-box'',
      bx_procDirs = Some [''11'', ''12''],
      bx_stat = \<lambda>p. Some (if p = 11 then ''11 (ll-box) S 10 11'' else ''12 (ll-box) S 11 12''),
      bx_openConfig = \<lambda>_. False, bx_readConfig = \<lambda>_. None\<rparr>"

lemma demo_box_chain: "box_chain (demo_box_env b) ''ll-box'' [10, 11, 12]"
proof -
  have "findParentPid (demo_box_env b) 11 = Some 10" "findParentPid (demo_box_env b) 12 = Some 11" by code_simp+
  then show ?thesis by (simp add: demo_box_env_def)
qed

theorem last_box_methods_witness: "findLastBox (demo_box_env True) 10 = Some 12 \<and> findLastBox (demo_box_env False) 10 = Some 11"
proof -
  have d: "bx_self (demo_box_env b) = Some ''ll-box''" "bx_procDirs (demo_box_env b) = Some (map show_int [11, 12])" "bx_hasChildren (demo_box_env b) 10 = b" for b
    by code_simp+
  show ?thesis
    using last_box_methods [OF demo_box_chain _ _ _ d(1,2), of True] last_box_methods [OF demo_box_chain _ _ _ d(1,2), of False] d(3) by simp
qed

end
