(* ===== verification/Oci_Runtime.thy ===== *)
theory Oci_Runtime
  imports Box_Main Uab_Loader
begin

text \<open>
  The client of OCI runtimes, \<open>libs/ocppi/src/ocppi/cli/CommonCLI.cpp\<close> and \<open>Process.cpp\<close>: each operation on containers is a command of the
  runtime, run as a child process. The child and its output are parameters; exceptions are values. A result \<open>None\<close> is a loop that does not end. The
  child that cannot execute the runtime throws, and the handler of the operation returns the exception in the child as well, which goes on as a second client;
  the model is that of the parent.
\<close>

section \<open>Processes\<close>

datatype wait_child_answer = ChildInterrupted | ChildError | ChildStatus nat

record oci_process_env =
  rp_pipe :: bool
  rp_fork :: bool
  rp_reads :: "nat \<Rightarrow> read_answer"
  rp_waits :: "nat \<Rightarrow> wait_child_answer"
  rp_output :: "string list \<Rightarrow> bytes"

datatype oci_error = SystemError string | CommandFailedError int string | JsonException

text \<open>\<open>wait\<close>: the first two interruptions are passed over, each further one kills the child. The result has the number of kills.\<close>

partial_function (option) wait_child :: "(nat \<Rightarrow> wait_child_answer) \<Rightarrow> nat \<Rightarrow> nat \<Rightarrow> nat \<Rightarrow> (nat option \<times> nat) option" where
  "wait_child waits k interruptTimes kills =
     (case waits k of
        ChildInterrupted \<Rightarrow>
          if interruptTimes < 2 then wait_child waits (Suc k) (Suc interruptTimes) kills else wait_child waits (Suc k) interruptTimes (Suc kills)
      | ChildError \<Rightarrow> Some (None, kills)
      | ChildStatus s \<Rightarrow> Some (Some s, kills))"

declare wait_child.simps [code]

definition runProcess :: "oci_process_env \<Rightarrow> (oci_error + nat) option" where
  "runProcess env =
     (if \<not> rp_fork env then Some (Inl (SystemError ''fork''))
      else case wait_child (rp_waits env) 0 0 0 of
        None \<Rightarrow> None
      | Some (None, _) \<Rightarrow> Some (Inl (SystemError ''wait''))
      | Some (Some s, _) \<Rightarrow> Some (Inr s))"

definition runProcess_output :: "oci_process_env \<Rightarrow> string list \<Rightarrow> (oci_error + nat \<times> bytes) option" where
  "runProcess_output env argv =
     (if \<not> rp_pipe env then Some (Inl (SystemError ''pipe''))
      else if \<not> rp_fork env then Some (Inl (SystemError ''fork''))
      else case read_loop 1024 (rp_reads env) 0 (rp_output env argv) [] of
        None \<Rightarrow> None
      | Some None \<Rightarrow> Some (Inl (SystemError ''read''))
      | Some (Some output) \<Rightarrow>
         (case wait_child (rp_waits env) 0 0 0 of
            None \<Rightarrow> None
          | Some (None, _) \<Rightarrow> Some (Inl (SystemError ''wait''))
          | Some (Some s, _) \<Rightarrow> Some (Inr (s, output))))"

section \<open>Commands\<close>

definition command_args :: "string list \<Rightarrow> string \<Rightarrow> string list \<Rightarrow> string list \<Rightarrow> string list" where
  "command_args globalOption command options arguments = globalOption @ [command] @ options @ arguments"

definition command_text :: "string \<Rightarrow> string list \<Rightarrow> string" where
  "command_text bin args = foldl (\<lambda>a b. a @ '' '' @ b) bin args"

definition doCommand :: "(string list \<Rightarrow> oci_process_env) \<Rightarrow> string \<Rightarrow> string list \<Rightarrow> (oci_error + unit) option" where
  "doCommand spawn bin args =
     (case runProcess (spawn (bin # args)) of
        None \<Rightarrow> None
      | Some (Inl e) \<Rightarrow> Some (Inl e)
      | Some (Inr ret) \<Rightarrow> Some (if ret \<noteq> 0 then Inl (CommandFailedError (int ret) (command_text bin args)) else Inr ()))"

definition doCommand_result ::
    "(bytes \<Rightarrow> 'r option) \<Rightarrow> (string list \<Rightarrow> oci_process_env) \<Rightarrow> string \<Rightarrow> string list \<Rightarrow> (oci_error + 'r) option" where
  "doCommand_result parse spawn bin args =
     (case runProcess_output (spawn (bin # args)) (bin # args) of
        None \<Rightarrow> None
      | Some (Inl e) \<Rightarrow> Some (Inl e)
      | Some (Inr (ret, output)) \<Rightarrow>
         Some (if ret \<noteq> 0 then Inl (CommandFailedError (int ret) (command_text bin args))
               else case parse output of None \<Rightarrow> Inl JsonException | Some r \<Rightarrow> Inr r))"

record global_option =
  go_root :: "string option"
  go_extra :: "string list"

record sub_option =
  so_global :: global_option
  so_extra :: "string list"

record exec_option =
  eo_global :: global_option
  eo_tty :: bool
  eo_uid :: "int option"
  eo_gid :: "int option"
  eo_cwd :: "string option"
  eo_env :: "(string \<times> string) list"
  eo_extra :: "string list"

record list_option =
  lo_global :: global_option
  lo_json :: bool
  lo_extra :: "string list"

definition generateGlobalOptions :: "global_option \<Rightarrow> string list" where
  "generateGlobalOptions o' = go_extra o' @ (case go_root o' of None \<Rightarrow> [] | Some r \<Rightarrow> [''--root'', r])"

definition generateExecOptions :: "exec_option \<Rightarrow> string list" where
  "generateExecOptions o' =
     eo_extra o' @ (if eo_tty o' then [''--tty''] else []) @ (case eo_cwd o' of None \<Rightarrow> [] | Some d \<Rightarrow> [''--cwd'', d]) @
     concat (map (\<lambda>(k, v). [''--env'', k @ ''='' @ v]) (eo_env o')) @
     (case eo_uid o' of None \<Rightarrow> []
      | Some u \<Rightarrow> [''--user'', show_int u @ (case eo_gid o' of None \<Rightarrow> [] | Some g \<Rightarrow> '':'' @ show_int g)])"

definition generateListOptions :: "list_option \<Rightarrow> string list" where
  "generateListOptions o' = lo_extra o' @ (if lo_json o' then [''-f'', ''json''] else [])"

definition oci_simple :: "string \<Rightarrow> (string list \<Rightarrow> oci_process_env) \<Rightarrow> string \<Rightarrow> sub_option \<Rightarrow> string list \<Rightarrow> (oci_error + unit) option" where
  "oci_simple command spawn bin o' arguments =
     doCommand spawn bin (command_args (generateGlobalOptions (so_global o')) command (so_extra o') arguments)"

definition oci_start :: "(string list \<Rightarrow> oci_process_env) \<Rightarrow> string \<Rightarrow> string \<Rightarrow> sub_option \<Rightarrow> (oci_error + unit) option" where
  "oci_start spawn bin cid o' = oci_simple ''start'' spawn bin o' [cid]"

definition oci_kill :: "(string list \<Rightarrow> oci_process_env) \<Rightarrow> string \<Rightarrow> string \<Rightarrow> string \<Rightarrow> sub_option \<Rightarrow> (oci_error + unit) option" where
  "oci_kill spawn bin cid signal o' = oci_simple ''kill'' spawn bin o' [cid, signal]"

definition oci_delete :: "(string list \<Rightarrow> oci_process_env) \<Rightarrow> string \<Rightarrow> string \<Rightarrow> sub_option \<Rightarrow> (oci_error + unit) option" where
  "oci_delete spawn bin cid o' = oci_simple ''delete'' spawn bin o' [cid]"

definition oci_create :: "(string list \<Rightarrow> oci_process_env) \<Rightarrow> string \<Rightarrow> string \<Rightarrow> string \<Rightarrow> sub_option \<Rightarrow> (oci_error + unit) option" where
  "oci_create spawn bin cid pathToBundle o' = oci_simple ''create'' spawn bin (o'\<lparr>so_extra := so_extra o' @ [''-b'', pathToBundle]\<rparr>) [cid]"

definition oci_run :: "(string list \<Rightarrow> oci_process_env) \<Rightarrow> string \<Rightarrow> string \<Rightarrow> string \<Rightarrow> sub_option \<Rightarrow> (oci_error + unit) option" where
  "oci_run spawn bin cid pathToBundle o' = oci_simple ''run'' spawn bin (o'\<lparr>so_extra := so_extra o' @ [''-b'', pathToBundle]\<rparr>) [cid]"

definition oci_exec ::
    "(string list \<Rightarrow> oci_process_env) \<Rightarrow> string \<Rightarrow> string \<Rightarrow> string \<Rightarrow> string list \<Rightarrow> exec_option \<Rightarrow> (oci_error + unit) option" where
  "oci_exec spawn bin cid executable command o' =
     doCommand spawn bin (command_args (generateGlobalOptions (eo_global o')) ''exec'' (generateExecOptions o') ([cid, executable] @ command))"

definition oci_state ::
    "(bytes \<Rightarrow> 'r option) \<Rightarrow> (string list \<Rightarrow> oci_process_env) \<Rightarrow> string \<Rightarrow> string \<Rightarrow> sub_option \<Rightarrow> (oci_error + 'r) option" where
  "oci_state parse spawn bin cid o' =
     doCommand_result parse spawn bin (command_args (generateGlobalOptions (so_global o')) ''state'' (so_extra o') [cid])"

definition oci_features ::
    "(bytes \<Rightarrow> 'r option) \<Rightarrow> (string list \<Rightarrow> oci_process_env) \<Rightarrow> string \<Rightarrow> sub_option \<Rightarrow> (oci_error + 'r) option" where
  "oci_features parse spawn bin o' =
     doCommand_result parse spawn bin (command_args (generateGlobalOptions (so_global o')) ''features'' (so_extra o') [])"

text \<open>The copy of the options in which the format is set to JSON is not the one that is used.\<close>

definition oci_list ::
    "(bytes \<Rightarrow> 'r option) \<Rightarrow> (string list \<Rightarrow> oci_process_env) \<Rightarrow> string \<Rightarrow> list_option \<Rightarrow> (oci_error + 'r) option" where
  "oci_list parse spawn bin o' =
     doCommand_result parse spawn bin (command_args (generateGlobalOptions (lo_global o')) ''list'' (generateListOptions o') [])"

section \<open>Lemmas\<close>

lemma wait_child_returns:
  assumes "\<And>k. \<exists>j \<ge> k. waits j \<noteq> ChildInterrupted"
  shows "\<exists>r. wait_child waits k it kills = Some r"
proof -
  have "\<forall>it kills. \<exists>r. wait_child waits k it kills = Some r" for m k :: nat
  proof (induction k m rule: fair_induct [where good = "\<lambda>j. waits j \<noteq> ChildInterrupted"])
    case (1 k)
    show ?case by (rule assms)
  next
    case (2 k m)
    then show ?case by (subst wait_child.simps) auto
  next
    case (3 k m)
    then show ?case by (subst wait_child.simps) (auto split: wait_child_answer.split)
  qed
  then show ?thesis by blast
qed

lemma wait_child_interrupted:
  assumes "\<forall>i < n. waits (k + i) = ChildInterrupted" and "waits (k + n) = ChildStatus s"
  shows "wait_child waits k it kills = Some (Some s, kills + (n - (2 - it)))"
  using assms
proof (induction n arbitrary: k it kills)
  case 0
  then show ?case by (subst wait_child.simps) simp
next
  case (Suc n)
  have w: "waits k = ChildInterrupted" "\<forall>i < n. waits (Suc k + i) = ChildInterrupted" "waits (Suc k + n) = ChildStatus s"
    using Suc.prems by (auto dest: spec [of _ "Suc _"] spec [of _ 0])
  show ?case
  proof (cases "it < 2")
    case True
    then have "Suc n - (2 - it) = n - (2 - Suc it)" by simp
    then show ?thesis using Suc.IH [OF w(2,3), of "Suc it" kills] w(1) True by (subst wait_child.simps) simp
  next
    case False
    then show ?thesis using Suc.IH [OF w(2,3), of it "Suc kills"] w(1) by (subst wait_child.simps) simp
  qed
qed

text \<open>The child was waited for: some interruptions, and then its status.\<close>

definition waited :: "(nat \<Rightarrow> wait_child_answer) \<Rightarrow> nat \<Rightarrow> bool" where
  "waited waits s \<longleftrightarrow> (\<exists>n. (\<forall>i < n. waits i = ChildInterrupted) \<and> waits n = ChildStatus s)"

lemma runProcess_waited:
  assumes "rp_fork env" and "waited (rp_waits env) s"
  shows "runProcess env = Some (Inr s)"
proof -
  from assms(2) obtain n where "\<forall>i < n. rp_waits env (0 + i) = ChildInterrupted" "rp_waits env (0 + n) = ChildStatus s"
    by (auto simp: waited_def)
  from wait_child_interrupted [OF this, of 0 0] show ?thesis using assms(1) by (simp add: runProcess_def)
qed

text \<open>Commands with an output: the whole output is read before the child is waited for.\<close>

lemma runProcess_output_waited:
  assumes "rp_pipe env" and "rp_fork env" and "waited (rp_waits env) s" and "\<And>k. rp_reads env k \<noteq> ReadError" and "\<And>k. \<exists>j \<ge> k. rp_reads env j \<noteq> Interrupted"
  shows "\<exists>r. runProcess_output env argv = Some r \<and> (\<forall>st out. r = Inr (st, out) \<longrightarrow> st = s \<and> out = rp_output env argv)"
proof -
  from assms(3) obtain n where "\<forall>i < n. rp_waits env (0 + i) = ChildInterrupted" "rp_waits env (0 + n) = ChildStatus s"
    by (auto simp: waited_def)
  note w = wait_child_interrupted [OF this, of 0 0]
  obtain r where "read_loop 1024 (rp_reads env) 0 (rp_output env argv) [] = Some r" "\<forall>out. r = Some out \<longrightarrow> out = rp_output env argv"
    using read_loop_returns [of 1024 "rp_reads env" 0 "rp_output env argv" "[]"] assms(5) by auto
  then show ?thesis using assms(1,2) w by (auto simp: runProcess_output_def split: option.split)
qed

text \<open>
  Running a container through the client: the runtime is called with the global options, the command \<open>run\<close>, its options, the bundle and the id, in this order, and when the
  child could be created and waited for, with any number of interruptions, the operation succeeds exactly when the status of the child is 0; otherwise the error has the
  status and the whole command.
\<close>

theorem oci_run_spec:
  assumes "args = go_extra g @ (case go_root g of None \<Rightarrow> [] | Some r \<Rightarrow> [''--root'', r]) @ [''run''] @ extra @ [''-b'', dir, cid]"
    and "rp_fork (spawn (bin # args))" and "waited (rp_waits (spawn (bin # args))) s"
  shows "oci_run spawn bin cid dir \<lparr>so_global = g, so_extra = extra\<rparr> =
    Some (if s = 0 then Inr () else Inl (CommandFailedError (int s) (command_text bin args)))"
proof -
  have "command_args (generateGlobalOptions g) ''run'' (extra @ [''-b'', dir]) [cid] = args"
    using assms(1) by (simp add: command_args_def generateGlobalOptions_def)
  then show ?thesis using runProcess_waited [OF assms(2,3)] by (simp add: oci_run_def oci_simple_def doCommand_def)
qed

theorem oci_run_spec_witness:
  "oci_run (\<lambda>argv. \<lparr>rp_pipe = True, rp_fork = True, rp_reads = \<lambda>_. UpTo 1, rp_waits = \<lambda>k. if k < 3 then ChildInterrupted else ChildStatus 256, rp_output = \<lambda>_. []\<rparr>)
     ''ll-box'' ''c'' ''/b'' \<lparr>so_global = \<lparr>go_root = None, go_extra = [''--cgroup-manager=disabled'']\<rparr>, so_extra = []\<rparr> =
   Some (Inl (CommandFailedError 256 ''ll-box --cgroup-manager=disabled run -b /b c''))"
proof -
  have w: "waited (\<lambda>k. if k < 3 then ChildInterrupted else ChildStatus 256) 256" unfolding waited_def by (rule exI [of _ 3]) simp
  show ?thesis
    using w by (subst oci_run_spec [of "[''--cgroup-manager=disabled'', ''run'', ''-b'', ''/b'', ''c'']" "\<lparr>go_root = None, go_extra = [''--cgroup-manager=disabled'']\<rparr>" _ _ _ _ _ 256])
      (simp_all add: command_text_def)
qed

text \<open>The user that is passed to \<open>exec\<close> is the one that \<open>ll-box\<close> reads.\<close>

lemma user_option_roundtrip:
  assumes "0 \<le> u" and "0 \<le> g"
  shows "parse_user (show_int u @ '':'' @ show_int g) = Some (show_int u, show_int g)"
proof -
  have d: "list_all is_digit (show_int i)" if "0 \<le> i" for i using that by (simp add: show_int_def list_all_iff show_nat_digits)
  have "\<forall>c \<in> set (show_int i). c \<noteq> CHR '':''" if "0 \<le> i" for i using d [OF that] by (auto simp: list_all_iff is_digit_def)
  then show ?thesis using assms d by (simp add: parse_user_def Let_def takeWhile_append dropWhile_append takeWhile_eq_all_conv dropWhile_eq_Nil_conv)
qed

text \<open>The third interruption, and each later one, kills the child.\<close>

lemma interruptions_kill: "wait_child (\<lambda>k. if k < 4 then ChildInterrupted else ChildStatus 9) 0 0 0 = Some (Some 9, 2)"
  using wait_child_interrupted [of 4 "\<lambda>k. if k < 4 then ChildInterrupted else ChildStatus 9" 0 9 0 0] by simp

text \<open>A listing in text is asked for as such and then read as JSON.\<close>

lemma list_format_ignored: "generateListOptions \<lparr>lo_global = g, lo_json = False, lo_extra = []\<rparr> = []"
  by (simp add: generateListOptions_def)

end
