(* ===== verification/Cli_Printer.thy ===== *)
theory Cli_Printer
  imports Cli_Task Builder_Install
begin

text \<open>
  The printer for terminals, \<open>libs/linglong/src/linglong/cli/cli_printer.cpp\<close>: the text of every output of the command line client. A character of the model stands for a
  wide character; the number of columns it takes (\<open>wcwidth\<close>, negative when it cannot be printed) and of bytes in UTF-8 are the parameters \<open>cw\<close> and \<open>ub\<close>. The JSON library,
  the texts of errors and the format of percentages are parameters too. \<open>None\<close> is an access that is not allowed, or a recursion that does not
  end.
\<close>

section \<open>Columns\<close>

definition wcswidth :: "(char \<Rightarrow> int) \<Rightarrow> string \<Rightarrow> int" where
  "wcswidth cw s = (if list_ex (\<lambda>c. cw c < 0) s then -1 else sum_list (map cw s))"

definition byte_size :: "(char \<Rightarrow> nat) \<Rightarrow> string \<Rightarrow> nat" where
  "byte_size ub s = sum_list (map ub s)"

text \<open>\<open>std::left << std::setw(n)\<close> fills up to a number of bytes.\<close>

definition setw :: "(char \<Rightarrow> nat) \<Rightarrow> int \<Rightarrow> string \<Rightarrow> string" where
  "setw ub n s = s @ replicate (nat (n - int (byte_size ub s))) (CHR '' '')"

text \<open>The second half that is looked at has the length of the first; the last character of a text of odd length is left out.\<close>

partial_function (option) subwstr :: "(char \<Rightarrow> int) \<Rightarrow> string \<Rightarrow> int \<Rightarrow> string option" where
  "subwstr cw wstr width =
     (if wcswidth cw wstr \<le> width then Some wstr
      else let halfsize = length wstr div 2; halfwstr = take halfsize wstr; halfwidth = wcswidth cw halfwstr in
        if halfwidth \<ge> width then subwstr cw halfwstr width
        else Option.bind (subwstr cw (take halfsize (drop halfsize wstr)) (width - halfwidth)) (\<lambda>rest. Some (halfwstr @ rest)))"

declare subwstr.simps [code]

definition shorten :: "(char \<Rightarrow> int) \<Rightarrow> int \<Rightarrow> int \<Rightarrow> string \<Rightarrow> string option" where
  "shorten cw limit keep s = (if wcswidth cw s > limit then map_option (\<lambda>t. t @ ''...'') (subwstr cw s keep) else Some s)"

section \<open>Printing\<close>

definition nl :: string where
  "nl = [CHR 0x0A]"

definition esc :: "string \<Rightarrow> string" where
  "esc s = CHR 0x1B # s"

definition long_id :: "string \<Rightarrow> string" where
  "long_id s = (let i = simplified s in if length i > 32 then i @ '' '' else i)"

definition name_column :: "(char \<Rightarrow> int) \<Rightarrow> (char \<Rightarrow> nat) \<Rightarrow> string \<Rightarrow> string" where
  "name_column cw ub name = setw ub (33 + (int (byte_size ub name) - wcswidth cw name)) name"

definition package_row :: "(char \<Rightarrow> int) \<Rightarrow> (char \<Rightarrow> nat) \<Rightarrow> package_info_v2 \<Rightarrow> string option" where
  "package_row cw ub info =
     (case (shorten cw 56 53 (simplified (case info_description info of None \<Rightarrow> [] | Some d \<Rightarrow> d)), shorten cw 32 29 (simplified (info_name info)), info_arch info) of
        (Some description, Some name, arch # _) \<Rightarrow>
          Some (setw ub 33 (long_id (info_id info)) @ name_column cw ub name @ setw ub 16 (info_version info) @ setw ub 12 arch @
                setw ub 16 (info_channel info) @ setw ub 12 (info_module info) @ description @ nl)
      | _ \<Rightarrow> None)"

fun all_rows :: "('a \<Rightarrow> string option) \<Rightarrow> 'a list \<Rightarrow> string option" where
  "all_rows f [] = Some []"
| "all_rows f (x # xs) = (case f x of None \<Rightarrow> None | Some r \<Rightarrow> map_option (\<lambda>rs. r @ rs) (all_rows f xs))"

definition printPackages :: "(char \<Rightarrow> int) \<Rightarrow> (char \<Rightarrow> nat) \<Rightarrow> package_info_v2 list \<Rightarrow> string option" where
  "printPackages cw ub infos =
     map_option (\<lambda>rows. esc ''[38;5;214m'' @ setw ub 33 ''id'' @ setw ub 33 ''name'' @ setw ub 16 ''version'' @ setw ub 12 ''arch'' @ setw ub 16 ''channel'' @
       setw ub 12 ''module'' @ ''description'' @ esc ''[0m'' @ nl @ rows) (all_rows (package_row cw ub) infos)"

definition printErr :: "(error \<Rightarrow> string) \<Rightarrow> error \<Rightarrow> string" where
  "printErr message e = ''Error: CODE='' @ show_int (err_code e) @ nl @ message e @ nl"

text \<open>A description that gives no reference is dereferenced nevertheless.\<close>

definition printPruneResult :: "package_info_v2 list \<Rightarrow> string option" where
  "printPruneResult infos =
     (if infos = [] then Some (''No unused base or runtime.'' @ nl)
      else map_option (\<lambda>rows. ''Unused base or runtime:'' @ nl @ rows @ show_nat (length infos) @ '' unused base or runtime have been removed.'' @ nl)
             (all_rows (\<lambda>i. case Reference_fromPackageInfo i of Inl _ \<Rightarrow> None | Inr r \<Rightarrow> Some (Reference_toString r @ nl)) infos))"

definition column_size :: "string \<Rightarrow> string list \<Rightarrow> int" where
  "column_size head cells = int (foldl max (length head) (map length cells)) + 5"

definition container_rows :: "(char \<Rightarrow> nat) \<Rightarrow> int \<Rightarrow> int \<Rightarrow> int \<Rightarrow> cli_container list \<Rightarrow> string list" where
  "container_rows ub packageLen idLen pidLen cs =
     map (\<lambda>c. setw ub packageLen (cc_package c) @ setw ub idLen (cc_id c) @ setw ub pidLen (show_int (cc_pid c))) cs"

text \<open>Here the number of bytes is the length, as for \<open>std::string\<close>; \<open>ub\<close> is 1.\<close>

definition printContainers :: "cli_container list \<Rightarrow> string" where
  "printContainers cs =
     (let ub = (\<lambda>_. 1); packageLen = column_size ''App'' (map cc_package cs); idLen = column_size ''ContainerID'' (map cc_id cs);
          pidLen = column_size ''Pid'' (map (\<lambda>c. show_int (cc_pid c)) cs) in
      esc ''[38;5;214m'' @ setw ub packageLen ''App'' @ setw ub idLen ''ContainerID'' @ setw ub pidLen ''Pid'' @ esc ''[0m'' @ nl @
      concat (map (\<lambda>r. r @ nl) (container_rows ub packageLen idLen pidLen cs)))"

definition printReply :: "int \<Rightarrow> string \<Rightarrow> string" where
  "printReply code message = ''code: '' @ show_int code @ nl @ ''message:'' @ nl @ message @ nl"

definition printRepoConfig :: "(char \<Rightarrow> nat) \<Rightarrow> repo_config \<Rightarrow> string" where
  "printRepoConfig ub cfg =
     ''Default: '' @ cfg_defaultRepo cfg @ nl @ setw ub 11 ''Name'' @ ''Url'' @ nl @
     concat (map (\<lambda>(name, url). setw ub 10 name @ '' '' @ url @ nl) (cfg_repos cfg))"

definition printContent :: "string list \<Rightarrow> string" where
  "printContent paths = concat (map (\<lambda>p. p @ nl) paths)"

text \<open>A line of its own when a part or everything is done; the codes are those of \<open>PartCompleted\<close>, \<open>AllDone\<close> and \<open>PackageManagerDone\<close>.\<close>

definition printTaskState :: "(rat \<Rightarrow> string) \<Rightarrow> (int \<Rightarrow> int \<Rightarrow> bool) \<Rightarrow> rat \<Rightarrow> string \<Rightarrow> int \<Rightarrow> int \<Rightarrow> string" where
  "printTaskState percent finished percentage message state subState =
     CHR 0x0D # esc ''[K'' @ esc ''[?25l'' @ message @ '':'' @ percent percentage @ ''%'' @ esc ''[?25h'' @ (if finished state subState then nl else [])"

definition printUpgradeList :: "(char \<Rightarrow> nat) \<Rightarrow> upgrade_item list \<Rightarrow> string" where
  "printUpgradeList ub items =
     esc ''[38;5;214m'' @ setw ub 33 ''id'' @ setw ub 16 ''installed'' @ setw ub 16 ''new'' @ esc ''[0m'' @ nl @
     concat (map (\<lambda>i. setw ub 33 (long_id (ug_id i)) @ setw ub 16 (ug_oldVersion i) @ setw ub 16 (ug_newVersion i) @ nl) items)"

section \<open>Shortening\<close>

text \<open>The longest beginning of a text that fits into a number of columns.\<close>

fun fit :: "(char \<Rightarrow> int) \<Rightarrow> int \<Rightarrow> string \<Rightarrow> string" where
  "fit cw w [] = []"
| "fit cw w (c # cs) = (if cw c \<le> w then c # fit cw (w - cw c) cs else [])"

lemma wcswidth_append: "\<forall>c \<in> set (a @ b). 0 < cw c \<Longrightarrow> wcswidth cw (a @ b) = wcswidth cw a + wcswidth cw b"
  by (auto simp: wcswidth_def list_ex_iff dest: bspec)

lemma wcswidth_positive: "\<forall>c \<in> set s. 0 < cw c \<Longrightarrow> wcswidth cw s = sum_list (map cw s) \<and> 0 \<le> wcswidth cw s"
  by (induction s) (auto simp: wcswidth_def)

lemma fit_append:
  assumes "\<forall>c \<in> set (a @ b). 0 < cw c" and "0 \<le> w"
  shows "fit cw w (a @ b) = (if wcswidth cw a \<le> w then a @ fit cw (w - wcswidth cw a) b else fit cw w a)"
  using assms
proof (induction a arbitrary: w)
  case (Cons c a)
  have "wcswidth cw (c # a) = cw c + wcswidth cw a" "0 \<le> wcswidth cw a"
    using wcswidth_positive [of "c # a" cw] wcswidth_positive [of a cw] Cons.prems(1) by auto
  then show ?case using Cons by (auto simp: algebra_simps)
qed (simp add: wcswidth_def)

lemma fit_all: "\<forall>c \<in> set s. 0 < cw c \<Longrightarrow> 0 \<le> w \<Longrightarrow> wcswidth cw s \<le> w \<Longrightarrow> fit cw w s = s"
  using fit_append [of s "[]" cw w] by simp

lemma fit_width: "\<forall>c \<in> set s. 0 < cw c \<Longrightarrow> 0 \<le> w \<Longrightarrow> wcswidth cw (fit cw w s) \<le> w \<and> set (fit cw w s) \<subseteq> set s"
proof (induction s arbitrary: w)
  case (Cons c s)
  show ?case
  proof (cases "cw c \<le> w")
    case True
    then have i: "wcswidth cw (fit cw (w - cw c) s) \<le> w - cw c" "set (fit cw (w - cw c) s) \<subseteq> set s" using Cons by auto
    then have "\<forall>d \<in> set (c # fit cw (w - cw c) s). 0 < cw d" using Cons.prems(1) by auto
    then have "wcswidth cw (c # fit cw (w - cw c) s) = cw c + wcswidth cw (fit cw (w - cw c) s)"
      using wcswidth_append [of "[c]" "fit cw (w - cw c) s" cw] wcswidth_positive [of "[c]" cw] by simp
    then show ?thesis using i True by auto
  qed (use Cons.prems(2) in \<open>simp add: wcswidth_def\<close>)
qed (simp add: wcswidth_def)

lemma one_element: "length xs \<le> 1 \<Longrightarrow> xs \<noteq> [] \<Longrightarrow> \<exists>d. xs = [d]"
  by (cases xs) auto

lemma fit_zero: "\<forall>c \<in> set s. 0 < cw c \<Longrightarrow> fit cw 0 s = []"
  by (cases s) auto

lemma fit_drops_last:
  assumes "\<forall>d \<in> set (a @ b @ c). 0 < cw d" and "length c \<le> 1" and "w < wcswidth cw (a @ b @ c)" and "wcswidth cw a \<le> w" and "0 \<le> w"
  shows "fit cw w (a @ b @ c) = a @ fit cw (w - wcswidth cw a) b"
proof -
  let ?w = "w - wcswidth cw a"
  have width: "wcswidth cw (a @ b @ c) = wcswidth cw a + (wcswidth cw b + wcswidth cw c)"
    using assms(1) wcswidth_append [of a "b @ c" cw] wcswidth_append [of b c cw] by simp
  have f: "fit cw ?w (b @ c) = (if wcswidth cw b \<le> ?w then b @ fit cw (?w - wcswidth cw b) c else fit cw ?w b)"
    using assms(1,4) by (intro fit_append) auto
  have "fit cw ?w (b @ c) = fit cw ?w b"
  proof (cases "wcswidth cw b \<le> ?w")
    case True
    then have "c \<noteq> []" using width assms(3) by (auto simp: wcswidth_def)
    then obtain d where d: "c = [d]" using one_element assms(2) by blast
    then have "?w - wcswidth cw b < cw d" using width assms(1,3) by (simp add: wcswidth_def)
    moreover have "fit cw ?w b = b" using assms(1,4) True by (intro fit_all) auto
    ultimately show ?thesis using f True d by simp
  qed (use f in simp)
  then show ?thesis using fit_append [of a "b @ c" cw w] assms by simp
qed

lemma fit_halves:
  assumes "\<forall>c \<in> set s. 0 < cw c" and "0 \<le> w" and "w < wcswidth cw s" and "wcswidth cw (take (length s div 2) s) \<le> w"
  shows "fit cw w s = take (length s div 2) s @
    fit cw (w - wcswidth cw (take (length s div 2) s)) (take (length s div 2) (drop (length s div 2) s))"
proof -
  define h where "h = length s div 2"
  define a b c where "a = take h s" and "b = take h (drop h s)" and "c = drop h (drop h s)"
  have s: "s = a @ b @ c" unfolding a_def b_def c_def by (simp only: append_take_drop_id)
  have "length c \<le> 1" by (simp add: c_def h_def)
  then show ?thesis using fit_drops_last [of a b c cw w, folded s] assms unfolding a_def b_def h_def by blast
qed

lemma subwstr_fit:
  assumes "\<forall>c \<in> set s. 0 < cw c" and "0 \<le> w"
  shows "subwstr cw s w = Some (fit cw w s)"
  using assms
proof (induction s arbitrary: w rule: measure_induct_rule [of length])
  case (less s)
  let ?h = "length s div 2"
  let ?a = "take ?h s" and ?b = "take ?h (drop ?h s)"
  show ?case
  proof (cases "wcswidth cw s \<le> w")
    case True
    then show ?thesis using fit_all [OF less.prems True] by (subst subwstr.simps) simp
  next
    case False
    then have "s \<noteq> []" using less.prems(2) by (auto simp: wcswidth_def)
    then have "?h < length s" by (cases s) auto
    then have len: "length ?a < length s" "length ?b < length s" by auto
    have pos: "\<forall>c \<in> set ?a. 0 < cw c" "\<forall>c \<in> set ?b. 0 < cw c"
      using less.prems(1) by (auto dest: in_set_takeD in_set_dropD)
    have apos: "\<forall>c \<in> set (?a @ drop ?h s). 0 < cw c" using less.prems(1) by simp
    show ?thesis
    proof (cases "w \<le> wcswidth cw ?a")
      case True
      have "fit cw w s = fit cw w ?a"
      proof (cases "wcswidth cw ?a \<le> w")
        case True
        then have "w - wcswidth cw ?a = 0" using \<open>w \<le> wcswidth cw ?a\<close> by simp
        moreover have "fit cw 0 (drop ?h s) = []" using less.prems(1) by (intro fit_zero) (auto dest: in_set_dropD)
        ultimately show ?thesis using fit_append [OF apos less.prems(2)] fit_all [OF pos(1) less.prems(2) True] True by simp
      next
        case False
        then show ?thesis using fit_append [OF apos less.prems(2)] by simp
      qed
      then show ?thesis using less.IH [OF len(1) pos(1) less.prems(2)] False True by (subst subwstr.simps) (simp add: Let_def)
    next
      case a: False
      then have "0 \<le> w - wcswidth cw ?a" by simp
      from less.IH [OF len(2) pos(2) this] show ?thesis
        using fit_halves [OF less.prems] False a by (subst subwstr.simps) (simp add: Let_def)
    qed
  qed
qed

text \<open>
  Shortening a text by halving it, whose characters take at least one column each, returns and gives the longest beginning of the text that fits, although the last
  character of a text of odd length is left out on the way.
\<close>

theorem subwstr_longest:
  assumes "\<forall>c \<in> set s. 0 < cw c" and "0 \<le> w"
  shows "subwstr cw s w = Some (fit cw w s)"
  using assms by (rule subwstr_fit)

theorem subwstr_longest_witness: "subwstr (\<lambda>_. 2) ''abcdefg'' 7 = Some ''abc''"
  using subwstr_longest [of "''abcdefg''" "\<lambda>_. 2" 7] by simp

lemma wcswidth_blanks: "cw (CHR '' '') = 1 \<Longrightarrow> wcswidth cw (replicate n (CHR '' '')) = int n"
  by (induction n) (auto simp: wcswidth_def list_ex_iff)

text \<open>The name of a package takes exactly 33 columns, whatever its length and its characters.\<close>

lemma shorten_fits:
  assumes "\<forall>c \<in> set name. 0 < cw c" and "cw (CHR ''.'') = 1" and "0 \<le> keep" and "shorten cw limit keep name = Some t"
  shows "\<forall>c \<in> set t. 0 < cw c" "wcswidth cw t \<le> max limit (keep + 3)"
proof -
  have dots: "wcswidth cw ''...'' = 3" "\<forall>c \<in> set ''...''. 0 < cw c" using assms(2) by (simp_all add: wcswidth_def)
  have "(\<forall>c \<in> set t. 0 < cw c) \<and> wcswidth cw t \<le> max limit (keep + 3)"
  proof (cases "limit < wcswidth cw name")
    case True
    then have t: "t = fit cw keep name @ ''...''" using assms(4) subwstr_fit [OF assms(1,3)] by (simp add: shorten_def)
    have f: "wcswidth cw (fit cw keep name) \<le> keep" "\<forall>c \<in> set (fit cw keep name @ ''...''). 0 < cw c"
      using fit_width [OF assms(1,3)] assms(1) dots(2) by auto
    then show ?thesis using t wcswidth_append [OF f(2)] dots(1) by auto
  qed (use assms(1,4) in \<open>simp add: shorten_def\<close>)
  then show "\<forall>c \<in> set t. 0 < cw c" "wcswidth cw t \<le> max limit (keep + 3)" by blast+
qed

lemma name_column_aligned:
  assumes "\<forall>c \<in> set name. 0 < cw c" and "cw (CHR '' '') = 1" and "cw (CHR ''.'') = 1" and "shorten cw 32 29 name = Some t"
  shows "wcswidth cw (name_column cw ub t) = 33"
proof -
  note t = shorten_fits [OF assms(1,3) _ assms(4)]
  have "name_column cw ub t = t @ replicate (nat (33 - wcswidth cw t)) (CHR '' '')" by (simp add: name_column_def setw_def)
  moreover have "\<forall>c \<in> set (t @ replicate (nat (33 - wcswidth cw t)) (CHR '' '')). 0 < cw c" using t(1) assms(2) by auto
  ultimately show ?thesis using wcswidth_append [of t "replicate (nat (33 - wcswidth cw t)) (CHR '' '')" cw] wcswidth_blanks [of cw] assms(2) t(2)
    by simp
qed

lemma foldl_max_start: "(a :: nat) \<le> foldl max a xs"
proof (induction xs arbitrary: a)
  case (Cons x xs)
  from Cons [of "max a x"] show ?case by simp
qed simp

lemma foldl_max_ge: "x \<in> set xs \<Longrightarrow> (x :: nat) \<le> foldl max a xs"
proof (induction xs arbitrary: a)
  case (Cons y ys)
  from foldl_max_start [of "max a y" ys] have "y \<le> foldl max (max a y) ys" by simp
  then show ?case using Cons by auto
qed simp

lemma length_setw: "length s \<le> nat n \<Longrightarrow> length (setw (\<lambda>_. Suc 0) n s) = nat n"
  by (simp add: setw_def byte_size_def sum_list_triv)

text \<open>The rows of the table of containers all have the same length.\<close>

lemma container_rows_aligned:
  assumes "r \<in> set (container_rows (\<lambda>_. 1) (column_size h1 (map cc_package cs)) (column_size h2 (map cc_id cs)) (column_size h3 (map (\<lambda>c. show_int (cc_pid c)) cs)) cs)"
  shows "length r = nat (column_size h1 (map cc_package cs)) + nat (column_size h2 (map cc_id cs)) + nat (column_size h3 (map (\<lambda>c. show_int (cc_pid c)) cs))"
proof -
  have "length (setw (\<lambda>_. Suc 0) (column_size h xs) x) = nat (column_size h xs)" if "x \<in> set xs" for x h xs
  proof -
    have "length x \<le> foldl max (length h) (map length xs)" using that by (intro foldl_max_ge) auto
    then show ?thesis by (intro length_setw) (simp add: column_size_def)
  qed
  then show ?thesis using assms by (auto simp: container_rows_def)
qed

end
