(* ===== verification/Spec2Isabelle.thy ===== *)
theory Spec2Isabelle
  imports Prelude Orders Version Package_Info Reference Bytes Layer_File Uab_File Sha256 Transaction
    Repo_Cache Cache_Refinement Ostree_Repo Package_Task Task_Queue Oci_Config Migrate
    Repo_Update Repo_Merge Repo_Export Package_Jobs
    Package_Safety Package_Requests Package_Files Package_Service Generators Generator_Safety
    Container_Run Cli_Task Cli_Packages Cli_Safety Cli_Run Repo_Remote Uab_Packager Builder_Install Builder
    Builder_Commands Builder_Files Builder_Safety Uab_Header Uab_Loader Box_System Box_Mount Box_Container
    Box_Main Oci_Runtime Cli_Printer
begin

text \<open>
  \<^bold>\<open>Linglong: a verification development for the package manager and the container front end.\<close>

  Linglong installs applications as layers of files kept in an ostree repository and runs them in OCI containers. A D-Bus service,
  the package manager, owns the repository: clients ask it to install, update, remove or search packages; it answers at once
  and runs the work later as tasks of a queue. The client library starts a container from the installed layers:
  it computes an OCI configuration, which a series of small programs completes. Besides from the server packages come
  as files: a layer archive, or a self-executing bundle (UAB). Paths below are under \<open>src/\<close>; those
  of the main library are under \<open>src/libs/linglong/src/linglong/\<close>.

  \<^bold>\<open>How code is modelled.\<close> Functions that return \<open>utils::error::Result\<close> return the sum type \<open>result\<close> of \<^theory_text>\<open>Prelude\<close>, with
  the messages and codes of the source. State is passed explicitly, in records that follow the classes. Where the
  code would end the process (\<open>qFatal\<close>, an exception out of a \<open>noexcept\<close> function, the value of an \<open>expected\<close> that has none)
  the model returns \<open>None\<close>; the text of each theory says which. Library code (ostree, Qt, the JSON and ELF libraries, the
  file system, child processes) appears as parameters: fields of an environment record, or functions with
  the laws they promise as hypotheses of the theorems. Loops are structural recursion or recursive functions with a measure;
  loops that need not end (the copy of signature data, the search for a common parent, waiting for an upload) return an option, and that they do return
  is part of the theorems about them.

  \<^bold>\<open>Packages.\<close>
  \<^item> \<^theory_text>\<open>Version\<close> (\<open>package/version.cpp\<close>, \<open>version_range.cpp\<close>), \<^theory_text>\<open>Reference\<close> (\<open>package/architecture.cpp\<close>, \<open>reference.cpp\<close>,
    \<open>fuzzy_reference.cpp\<close>) and \<^theory_text>\<open>Package_Info\<close> (\<open>packageinfo_handler.cpp\<close>): parsing, printing and comparing. The theorems
    say exactly which texts are accepted, that printing and parsing are inverse, and what the comparison operators do.
    \<^theory_text>\<open>Orders\<close> holds the contract of the order, a locale, which the operators interpret and the searches for a latest version use.
  \<^item> \<^theory_text>\<open>Layer_File\<close> (\<open>package/layer_file.cpp\<close>, \<open>layer_packager.cpp\<close>) and \<^theory_text>\<open>Uab_File\<close> (\<open>package/uab_file.cpp\<close>): the two file
    formats. What is packed is read back; what \<open>verify\<close> hashes; when the extraction of signature data returns.
    \<^theory_text>\<open>Bytes\<close> has the little-endian numbers they use.
  \<^item> \<^theory_text>\<open>Uab_Packager\<close> (\<open>package/uab_packager.cpp\<close>): making a bundle out of layers. The bundle holds the files that the filters keep, and what
    the packager makes is accepted by \<open>verify\<close> of \<^theory_text>\<open>Uab_File\<close>.
  \<^item> \<^theory_text>\<open>Sha256\<close> (\<open>apps/uab/header/src/sha256.h\<close>): the streaming hash equals the definition of FIPS 180-4.

  \<^bold>\<open>The repository.\<close>
  \<^item> \<^theory_text>\<open>Repo_Cache\<close> (\<open>repo/repo_cache.cpp\<close>): the list of layers in memory and in \<open>states.json\<close>; \<^theory_text>\<open>Cache_Refinement\<close> shows that it
    implements a finite map, by forward simulation.
  \<^item> \<^theory_text>\<open>Ostree_Repo\<close>, \<^theory_text>\<open>Repo_Update\<close>, \<^theory_text>\<open>Repo_Merge\<close>, \<^theory_text>\<open>Repo_Export\<close> (\<open>repo/ostree_repo.cpp\<close>, \<open>config.cpp\<close>): resolving references,
    pulling, importing and removing layers, marking them as deleted, merging modules, and the links for the desktop. The
    theorems: the resolution returns a best match, every cached layer has its directory, an operation adds exactly its
    layer or fails, and changes of the configuration are all-or-nothing.
  \<^item> \<^theory_text>\<open>Repo_Remote\<close> (\<open>repo/ostree_repo.cpp\<close>, \<open>client_factory.cpp\<close>): opening a repository, the search on the server, and pushing a
    layer; the theorem says when a push returns and what a successful one has uploaded.
  \<^item> \<^theory_text>\<open>Migrate\<close> (\<open>repo/migrate.cpp\<close>), \<^theory_text>\<open>Transaction\<close> (\<open>utils/transaction.h\<close>, \<open>finally.h\<close>).

  \<^bold>\<open>The package manager.\<close>
  \<^item> \<^theory_text>\<open>Package_Task\<close> (\<open>package_manager/package_task.cpp\<close>): one task, its parts and its progress.
  \<^item> \<^theory_text>\<open>Task_Queue\<close> (\<open>package_manager.cpp\<close>, constructor; \<open>package_manager.h\<close>): the two queues, as step relations.
  \<^item> \<^theory_text>\<open>Package_Jobs\<close> and \<^theory_text>\<open>Package_Safety\<close>: the jobs over the interface of the repository. The interface is the record
    \<open>repo_ops\<close>; its laws are the locales \<open>module_repository\<close>, \<open>framed_repository\<close> and \<open>installing_repository\<close>,
    which the model of \<open>OSTreeRepo\<close> satisfies. The theorems: what a successful installation and removal leave,
    and that pruning and the periodic clean-up only take what they may.
  \<^item> \<^theory_text>\<open>Package_Requests\<close>, \<^theory_text>\<open>Package_Files\<close>, \<^theory_text>\<open>Package_Service\<close>: the D-Bus requests, installation from files, and the
    service as a state machine whose reachable states never have two tasks for one ref.

  \<^bold>\<open>Containers.\<close>
  \<^item> \<^theory_text>\<open>Oci_Config\<close> (\<open>runtime/container_builder.cpp\<close>): the configuration of a container, its patches and mounts.
  \<^item> \<^theory_text>\<open>Generators\<close> and \<^theory_text>\<open>Generator_Safety\<close> (\<open>apps/generators/*/src/main.cpp\<close>): the programs that complete it, over a
    model of JSON values. They only add, keep documents well formed, and hide the directories of the block list.

  \<^item> \<^theory_text>\<open>Container_Run\<close> (\<open>runtime/container.cpp\<close>): the start of a container, with a reader of shell command lines to state that
    arguments are quoted correctly.
  \<^item> \<^theory_text>\<open>Oci_Runtime\<close> (\<open>libs/ocppi/src/ocppi/cli/\<close>): the client of an OCI runtime, which turns a request into a command line and runs it. The theorem
    says which program \<open>run\<close> starts, with which words, and when it returns an error.
  \<^item> \<^theory_text>\<open>Box_System\<close>, \<^theory_text>\<open>Box_Mount\<close>, \<^theory_text>\<open>Box_Container\<close>, \<^theory_text>\<open>Box_Main\<close> (\<open>apps/ll-box/src/\<close>): a runtime of its own. A function that makes system calls
    is a tree (\<open>prog\<close>): a call and, for each answer of the kernel, the tree that goes on; \<open>ends\<close> and \<open>all_calls\<close> relate a tree to the calls that
    come before its end. The theorems: the application's process is created only after the root was changed, read-only binds are remounted before,
    a container is listed exactly while it runs; and, as the code is, that the check of mount targets against the root never refuses one.

  \<^bold>\<open>The programs of a bundle.\<close>
  \<^item> \<^theory_text>\<open>Uab_Header\<close> (\<open>apps/uab/header/src/main.cpp\<close>): a bundle is a program whose first part verifies, mounts and starts the rest. The theorems: it starts
    the loader only after the digest of the mounted section was found equal to the recorded one, and it accepts what \<^theory_text>\<open>Uab_Packager\<close> makes, through the hash
    of \<^theory_text>\<open>Sha256\<close>. Reads of a file may be short or interrupted: the answers are a parameter indexed by a counter.
  \<^item> \<^theory_text>\<open>Uab_Loader\<close> (\<open>apps/uab/loader/src/main.cpp\<close>): the second part, which writes a configuration and starts the container. The theorems: how each run ends,
    that the files it made are removed, and which words the shell gets.

  \<^bold>\<open>The client.\<close>
  \<^item> \<^theory_text>\<open>Cli_Task\<close>, \<^theory_text>\<open>Cli_Packages\<close>, \<^theory_text>\<open>Cli_Run\<close> (\<open>cli/cli.cpp\<close>): all commands of \<open>ll-cli\<close>. The signals that arrive while the client
    waits are a list; a command ends with an exit code, waits, or aborts. \<^theory_text>\<open>Cli_Safety\<close> has what exit codes mean, the
    exchange of references with the package manager, and the list of upgradable packages. In \<^theory_text>\<open>Cli_Run\<close> client and
    package manager meet: an application that runs is not uninstalled. \<^theory_text>\<open>Cli_Printer\<close> (\<open>cli/cli_printer.cpp\<close>) has the tables that the
    commands print, and what is cut from a text that is too wide.

  \<^bold>\<open>The builder.\<close>
  \<^item> \<^theory_text>\<open>Builder_Install\<close>, \<^theory_text>\<open>Builder\<close>, \<^theory_text>\<open>Builder_Commands\<close> (\<open>builder/linglong_builder.cpp\<close>, \<open>source_fetcher.cpp\<close>, \<open>config.cpp\<close>): a build from the sources to the
    commit, and the other commands of \<open>ll-builder\<close>. A step of a build is an action: a function of the repository and the files of
    the working directory that returns a result or ends the process. The nesting of directories in \<open>copyDir\<close> is bounded by fuel, since links
    to directories are followed and may form a cycle.
  \<^item> \<^theory_text>\<open>Builder_Files\<close> shows that every file of a build is in one module; \<^theory_text>\<open>Builder_Safety\<close> that the modules of a successful build are in the
    repository. The laws the builder needs are the locale \<open>building_repository\<close>, which extends that of the package manager
    and which the model of \<open>OSTreeRepo\<close> satisfies.

  \<^bold>\<open>Findings.\<close> Several theorems state what the code does where it does not do what it means to; the text
  before each of them says so. Examples are a version comparison in which neither of two versions is at most the other, a job queue
  that can stop, user-configured mounts that never reach the configuration, and a block list that a permission can
  circumvent, a quotation that loses characters of the command, and a check of mount targets that compares with the empty string.

  \<^bold>\<open>Not modelled.\<close> The main functions of the programs, which parse options with a third-party library and call what is modelled here; the JSON printer; of \<open>ll-box\<close> the
  seccomp filter (no code calls it), the unused file system drivers and the logger; the build tool that generates D-Bus code;
  progress values as floating-point numbers (they are rational here);
  concurrency other than the nested event loops of the queue. Generated code and third-party libraries are parameters or
  records.
\<close>

end
